(* ===== verification/Prelude.thy ===== *)
theory Prelude
  imports Complex_Main "HOL-Library.Word"
begin

text \<open>
  Shared vocabulary of the development: Go's machine integers and clock, the errors of the
  repository layer, the transaction monad in which repository methods and worker jobs are
  written, the handler monad in which HTTP handlers are written, and a small calculus of
  pre- and postconditions for both.
\<close>

named_theorems tx_rules \<open>introduction rules for postconditions of transactions\<close>
named_theorems h_rules \<open>introduction rules for postconditions of handlers\<close>
named_theorems m_defs \<open>definitions of the monadic combinators\<close>

section \<open>Machine integers and time\<close>

text \<open>
  Go's \<^verbatim>\<open>int\<close> and \<^verbatim>\<open>int64\<close> are 64-bit two's complement numbers whose arithmetic
  wraps. Where an operation of the source can overflow, its result is passed through
  \<open>int64\<close>.
\<close>

definition int64 :: "int \<Rightarrow> int" where
  "int64 i = sint (word_of_int i :: 64 word)"

lemma int64_id [simp]: "- (2 ^ 63) \<le> i \<Longrightarrow> i < 2 ^ 63 \<Longrightarrow> int64 i = i"
  unfolding int64_def by (subst sint_sbintrunc') (simp add: signed_take_bit_int_eq_self)

text \<open>Instants are nanoseconds since the epoch, as in Go's \<^verbatim>\<open>time.Time\<close>.\<close>

type_synonym time = int

abbreviation second :: int where "second \<equiv> 1000000000"
abbreviation hour :: int where "hour \<equiv> 3600 * second"

text \<open>Primary keys: \<^verbatim>\<open>gen_random_uuid()\<close> hands out identifiers never used before,
  which the model draws from a counter.\<close>

type_synonym uuid = nat

text \<open>\<^verbatim>\<open>strings.TrimSpace\<close> on ASCII text.\<close>

definition is_space :: "char \<Rightarrow> bool" where
  "is_space c \<longleftrightarrow> (let n = of_char c :: nat in n = 32 \<or> (9 \<le> n \<and> n \<le> 13))"

definition TrimSpace :: "string \<Rightarrow> string" where
  "TrimSpace s = rev (dropWhile is_space (rev (dropWhile is_space s)))"

section \<open>The transaction monad\<close>

datatype err =
    ErrNotFound
  | ErrUniqueViolation
  | ErrDiscountCodeExhausted
  | ErrInviteTokenUsed
  | ErrInviteTokenExpired
  | ErrMissingEntity
  | ErrUnmarshal
  | ErrProvider
  | ErrStorage
  | ErrHasChildren nat

text \<open>
  A transaction maps a state to an error, in which case the whole transaction is rolled back
  by its caller, or to a value and the state it has written.
\<close>

type_synonym ('s, 'a) tx = "'s \<Rightarrow> err + 'a \<times> 's"

definition tx_return :: "'a \<Rightarrow> ('s, 'a) tx" where
  [m_defs]: "tx_return x = (\<lambda>s. Inr (x, s))"

definition tx_throw :: "err \<Rightarrow> ('s, 'a) tx" where
  [m_defs]: "tx_throw e = (\<lambda>s. Inl e)"

definition tx_bind :: "('s, 'a) tx \<Rightarrow> ('a \<Rightarrow> ('s, 'b) tx) \<Rightarrow> ('s, 'b) tx" where
  [m_defs]: "tx_bind m f = (\<lambda>s. case m s of Inl e \<Rightarrow> Inl e | Inr (x, s') \<Rightarrow> f x s')"

definition tx_gets :: "('s \<Rightarrow> 'a) \<Rightarrow> ('s, 'a) tx" where
  [m_defs]: "tx_gets f = (\<lambda>s. Inr (f s, s))"

definition tx_modify :: "('s \<Rightarrow> 's) \<Rightarrow> ('s, unit) tx" where
  [m_defs]: "tx_modify f = (\<lambda>s. Inr ((), f s))"

text \<open>The pattern \<^verbatim>\<open>if err != nil && !errors.Is(err, ErrNotFound)\<close>: a missing row is
  data, any other failure ends the transaction.\<close>

definition tx_found :: "('s, 'a) tx \<Rightarrow> ('s, 'a option) tx" where
  [m_defs]: "tx_found m = (\<lambda>s. case m s of
      Inl ErrNotFound \<Rightarrow> Inr (None, s)
    | Inl e \<Rightarrow> Inl e
    | Inr (x, s') \<Rightarrow> Inr (Some x, s'))"

text \<open>An error that the code logs and survives.\<close>

definition tx_attempt :: "('s, 'a) tx \<Rightarrow> ('s, err + 'a) tx" where
  [m_defs]: "tx_attempt m = (\<lambda>s. case m s of
      Inl e \<Rightarrow> Inr (Inl e, s)
    | Inr (x, s') \<Rightarrow> Inr (Inr x, s'))"

fun tx_for :: "'a list \<Rightarrow> ('a \<Rightarrow> ('s, unit) tx) \<Rightarrow> ('s, unit) tx" where
  "tx_for [] f = tx_return ()"
| "tx_for (x # xs) f = tx_bind (f x) (\<lambda>_. tx_for xs f)"

text \<open>\<^verbatim>\<open>pool.Begin\<close>, the body, and \<^verbatim>\<open>tx.Commit\<close>, with the deferred rollback
  on an error.\<close>

definition run_tx :: "('s, 'a) tx \<Rightarrow> 's \<Rightarrow> (err + 'a) \<times> 's" where
  "run_tx m s = (case m s of Inl e \<Rightarrow> (Inl e, s) | Inr (x, s') \<Rightarrow> (Inr x, s'))"

lemma tx_bind_Inr:
  "tx_bind m f s = Inr r \<longleftrightarrow> (\<exists>x s'. m s = Inr (x, s') \<and> f x s' = Inr r)"
  by (auto simp: tx_bind_def split: sum.splits prod.splits)

lemma tx_bind_run [simp]:
  "m s = Inr (x, s') \<Longrightarrow> tx_bind m f s = f x s'"
  "m s = Inl e \<Longrightarrow> tx_bind m f s = Inl e"
  by (simp_all add: tx_bind_def)

lemma tx_run_simps [simp]:
  "tx_return x s = Inr (x, s)"
  "tx_gets g s = Inr (g s, s)"
  "tx_modify h s = Inr ((), h s)"
  "tx_throw e s = Inl e"
  by (simp_all add: tx_return_def tx_gets_def tx_modify_def tx_throw_def)

lemma tx_bind_Inl:
  "tx_bind m f s = Inl e \<longleftrightarrow> m s = Inl e \<or> (\<exists>x s'. m s = Inr (x, s') \<and> f x s' = Inl e)"
  by (auto simp: tx_bind_def split: sum.splits prod.splits)

lemma tx_found_Inr:
  "tx_found m s = Inr (r, s') \<longleftrightarrow>
     (case r of None \<Rightarrow> m s = Inl ErrNotFound \<and> s' = s | Some x \<Rightarrow> m s = Inr (x, s'))"
  by (auto simp: tx_found_def split: sum.splits err.splits option.splits)

lemma tx_attempt_Inr:
  "tx_attempt m s = Inr (r, s') \<longleftrightarrow>
     (case r of Inl e \<Rightarrow> m s = Inl e \<and> s' = s | Inr x \<Rightarrow> m s = Inr (x, s'))"
  by (auto simp: tx_attempt_def split: sum.splits)

lemmas tx_Inr = tx_bind_Inr tx_found_Inr tx_attempt_Inr

subsection \<open>Postconditions\<close>

definition tx_post :: "('s \<Rightarrow> bool) \<Rightarrow> ('s, 'a) tx \<Rightarrow> ('a \<Rightarrow> 's \<Rightarrow> bool) \<Rightarrow> bool" where
  "tx_post P m Q \<longleftrightarrow> (\<forall>s x s'. P s \<longrightarrow> m s = Inr (x, s') \<longrightarrow> Q x s')"

abbreviation tx_pres :: "('s \<Rightarrow> bool) \<Rightarrow> ('s, 'a) tx \<Rightarrow> bool" where
  "tx_pres I m \<equiv> tx_post I m (\<lambda>_. I)"

lemma tx_postI: "(\<And>s x s'. P s \<Longrightarrow> m s = Inr (x, s') \<Longrightarrow> Q x s') \<Longrightarrow> tx_post P m Q"
  by (auto simp: tx_post_def)

lemma tx_postD: "tx_post P m Q \<Longrightarrow> m s = Inr (x, s') \<Longrightarrow> P s \<Longrightarrow> Q x s'"
  by (auto simp: tx_post_def)

lemma tx_post_bind:
  "tx_post P m R \<Longrightarrow> (\<And>x. tx_post (R x) (f x) Q) \<Longrightarrow> tx_post P (tx_bind m f) Q"
  by (fastforce simp: tx_post_def tx_bind_Inr)

lemma tx_pres_bind [tx_rules]:
  "tx_pres I m \<Longrightarrow> (\<And>x. tx_post I (f x) Q) \<Longrightarrow> tx_post I (tx_bind m f) Q"
  by (rule tx_post_bind)

lemma tx_pres_return [tx_rules]: "tx_pres I (tx_return x)"
  by (auto simp: tx_post_def)

lemma tx_pres_throw [tx_rules]: "tx_post I (tx_throw e) Q"
  by (auto simp: tx_post_def)

lemma tx_pres_gets [tx_rules]: "tx_pres I (tx_gets f)"
  by (auto simp: tx_post_def)

lemma tx_pres_found [tx_rules]: "tx_pres I m \<Longrightarrow> tx_pres I (tx_found m)"
  by (auto simp: tx_post_def tx_found_Inr split: option.splits)

lemma tx_pres_attempt [tx_rules]: "tx_pres I m \<Longrightarrow> tx_pres I (tx_attempt m)"
  by (auto simp: tx_post_def tx_attempt_Inr split: sum.splits)

lemma tx_post_if [tx_rules]:
  "tx_post P m Q \<Longrightarrow> tx_post P n Q \<Longrightarrow> tx_post P (if b then m else n) Q"
  by simp

lemma tx_post_option [tx_rules]:
  "tx_post P m Q \<Longrightarrow> (\<And>x. tx_post P (f x) Q) \<Longrightarrow>
    tx_post P (case v of None \<Rightarrow> m | Some x \<Rightarrow> f x) Q"
  by (cases v) simp_all

lemma tx_post_sum [tx_rules]:
  "(\<And>e. tx_post P (g e) Q) \<Longrightarrow> (\<And>x. tx_post P (f x) Q) \<Longrightarrow>
    tx_post P (case v of Inl e \<Rightarrow> g e | Inr x \<Rightarrow> f x) Q"
  by (cases v) simp_all

lemma tx_pres_for [tx_rules]: "(\<And>x. tx_pres I (f x)) \<Longrightarrow> tx_pres I (tx_for xs f)"
  by (induction xs) (auto intro!: tx_rules)

lemma run_tx_pres: "tx_pres I m \<Longrightarrow> I s \<Longrightarrow> I (snd (run_tx m s))"
  by (auto simp: run_tx_def tx_post_def split: sum.splits)

section \<open>The handler monad\<close>

text \<open>
  An HTTP handler answers once: an early \<^verbatim>\<open>return\<close> after \<^verbatim>\<open>c.JSON\<close> ends it with a
  response, and whatever it has written to the request's transaction by then stays in that
  transaction. The error of the monad is therefore the response, paired with the state.
\<close>

type_synonym ('r, 's, 'a) hm = "'s \<Rightarrow> ('r + 'a) \<times> 's"

definition h_return :: "'a \<Rightarrow> ('r, 's, 'a) hm" where
  [m_defs]: "h_return x = (\<lambda>s. (Inr x, s))"

definition h_respond :: "'r \<Rightarrow> ('r, 's, 'a) hm" where
  [m_defs]: "h_respond r = (\<lambda>s. (Inl r, s))"

definition h_bind :: "('r, 's, 'a) hm \<Rightarrow> ('a \<Rightarrow> ('r, 's, 'b) hm) \<Rightarrow> ('r, 's, 'b) hm" where
  [m_defs]: "h_bind m f = (\<lambda>s. case m s of (Inl r, s') \<Rightarrow> (Inl r, s') | (Inr x, s') \<Rightarrow> f x s')"

text \<open>A repository call: its error selects the response.\<close>

definition h_tx :: "('s, 'a) tx \<Rightarrow> (err \<Rightarrow> 'r) \<Rightarrow> ('r, 's, 'a) hm" where
  [m_defs]: "h_tx m f = (\<lambda>s. case m s of Inl e \<Rightarrow> (Inl (f e), s) | Inr (x, s') \<Rightarrow> (Inr x, s'))"

text \<open>A call whose error the handler ignores (\<^verbatim>\<open>_ = d.Audit.Record(...)\<close>).\<close>

definition h_ignore :: "('s, 'a) tx \<Rightarrow> ('r, 's, unit) hm" where
  [m_defs]: "h_ignore m = (\<lambda>s. case m s of Inl e \<Rightarrow> (Inr (), s) | Inr (x, s') \<Rightarrow> (Inr (), s'))"

definition h_guard :: "bool \<Rightarrow> 'r \<Rightarrow> ('r, 's, unit) hm" where
  [m_defs]: "h_guard b r = (if b then h_return () else h_respond r)"

definition h_post :: "('s \<Rightarrow> bool) \<Rightarrow> ('r, 's, 'a) hm \<Rightarrow> ('s \<Rightarrow> bool) \<Rightarrow> bool" where
  "h_post P m Q \<longleftrightarrow> (\<forall>s. P s \<longrightarrow> Q (snd (m s)))"

abbreviation h_pres :: "('s \<Rightarrow> bool) \<Rightarrow> ('r, 's, 'a) hm \<Rightarrow> bool" where
  "h_pres I m \<equiv> h_post I m I"

lemma h_presD: "h_pres I m \<Longrightarrow> I s \<Longrightarrow> I (snd (m s))"
  by (simp add: h_post_def)

lemma h_pres_return [h_rules]: "h_pres I (h_return x)"
  by (simp add: h_post_def h_return_def)

lemma h_pres_respond [h_rules]: "h_pres I (h_respond r)"
  by (simp add: h_post_def h_respond_def)

lemma h_pres_bind [h_rules]:
  "h_pres I m \<Longrightarrow> (\<And>x. h_pres I (f x)) \<Longrightarrow> h_pres I (h_bind m f)"
  by (fastforce simp: h_post_def h_bind_def split: prod.splits sum.splits dest: spec)

lemma h_pres_tx [h_rules]: "tx_pres I m \<Longrightarrow> h_pres I (h_tx m f)"
  by (auto simp: h_post_def h_tx_def tx_post_def split: sum.splits)

lemma h_pres_ignore [h_rules]: "tx_pres I m \<Longrightarrow> h_pres I (h_ignore m)"
  by (auto simp: h_post_def h_ignore_def tx_post_def split: sum.splits)

lemma h_pres_guard [h_rules]: "h_pres I (h_guard b r)"
  by (auto simp: h_guard_def intro: h_rules)

lemma h_pres_if [h_rules]: "h_pres I m \<Longrightarrow> h_pres I n \<Longrightarrow> h_pres I (if b then m else n)"
  by simp

lemma h_pres_option [h_rules]:
  "h_pres I m \<Longrightarrow> (\<And>x. h_pres I (f x)) \<Longrightarrow> h_pres I (case v of None \<Rightarrow> m | Some x \<Rightarrow> f x)"
  by (cases v) simp_all

lemma h_pres_sum [h_rules]:
  "(\<And>e. h_pres I (g e)) \<Longrightarrow> (\<And>x. h_pres I (f x)) \<Longrightarrow>
    h_pres I (case v of Inl e \<Rightarrow> g e | Inr x \<Rightarrow> f x)"
  by (cases v) simp_all

lemma h_tx_simps [simp]:
  "m s = Inl e \<Longrightarrow> h_tx m f s = (Inl (f e), s)"
  "m s = Inr (x, s') \<Longrightarrow> h_tx m f s = (Inr x, s')"
  by (simp_all add: h_tx_def)

lemma h_bind_simps [simp]:
  "m s = (Inl r, s') \<Longrightarrow> h_bind m f s = (Inl r, s')"
  "m s = (Inr x, s') \<Longrightarrow> h_bind m f s = f x s'"
  by (simp_all add: h_bind_def)

subsection \<open>Triples\<close>

text \<open>\<open>h_triple P m Q E\<close>: from \<open>P\<close>, a normal result satisfies \<open>Q\<close> and an early response \<open>E\<close>.\<close>

definition h_triple ::
  "('s \<Rightarrow> bool) \<Rightarrow> ('r, 's, 'a) hm \<Rightarrow> ('a \<Rightarrow> 's \<Rightarrow> bool) \<Rightarrow> ('r \<Rightarrow> 's \<Rightarrow> bool) \<Rightarrow> bool" where
  "h_triple P m Q E \<longleftrightarrow> (\<forall>s. P s \<longrightarrow> (case m s of (Inr x, s') \<Rightarrow> Q x s' | (Inl r, s') \<Rightarrow> E r s'))"

lemma h_triple_bind:
  "h_triple P m R E \<Longrightarrow> (\<And>x. h_triple (R x) (f x) Q E) \<Longrightarrow> h_triple P (h_bind m f) Q E"
  by (fastforce simp: h_triple_def h_bind_def split: prod.splits sum.splits)

lemma h_triple_tx:
  "tx_post P m Q \<Longrightarrow> (\<And>s e. P s \<Longrightarrow> E (f e) s) \<Longrightarrow> h_triple P (h_tx m f) Q E"
  by (auto simp: h_triple_def h_tx_def tx_post_def split: sum.splits)

lemma h_triple_return: "(\<And>s. P s \<Longrightarrow> Q x s) \<Longrightarrow> h_triple P (h_return x) Q E"
  by (simp add: h_triple_def h_return_def)

lemma h_triple_respond: "(\<And>s. P s \<Longrightarrow> E r s) \<Longrightarrow> h_triple P (h_respond r) Q E"
  by (simp add: h_triple_def h_respond_def)

lemma h_triple_guard:
  "(\<And>s. P s \<Longrightarrow> \<not> b \<Longrightarrow> E r s) \<Longrightarrow> h_triple P (h_guard b r) (\<lambda>_ s. P s \<and> b) E"
  by (simp add: h_triple_def h_guard_def h_return_def h_respond_def)

lemma h_triple_conseq:
  "h_triple P' m Q' E' \<Longrightarrow> (\<And>s. P s \<Longrightarrow> P' s) \<Longrightarrow> (\<And>x s. Q' x s \<Longrightarrow> Q x s) \<Longrightarrow> (\<And>r s. E' r s \<Longrightarrow> E r s) \<Longrightarrow>
    h_triple P m Q E"
  by (fastforce simp: h_triple_def split: prod.splits sum.splits)

lemma h_triple_pres: "h_pres I m \<Longrightarrow> h_triple I m (\<lambda>_. I) (\<lambda>_. I)"
  by (fastforce simp: h_triple_def h_post_def split: prod.splits sum.splits dest: spec)

section \<open>Tables\<close>

text \<open>
  A table is a list of rows in insertion order. \<open>tab_select1\<close> is a single-row
  \<^verbatim>\<open>SELECT ... WHERE\<close> read with \<^verbatim>\<open>QueryRow\<close>: the first matching row or
  \<^verbatim>\<open>ErrNotFound\<close>. \<open>tab_update\<close> is \<^verbatim>\<open>UPDATE ... WHERE ... RETURNING\<close>.
\<close>

definition tab_select1 :: "('s \<Rightarrow> 'a list) \<Rightarrow> ('a \<Rightarrow> bool) \<Rightarrow> ('s, 'a) tx" where
  "tab_select1 get P = (\<lambda>s. case find P (get s) of None \<Rightarrow> Inl ErrNotFound | Some r \<Rightarrow> Inr (r, s))"

definition tab_update ::
  "('s \<Rightarrow> 'a list) \<Rightarrow> ('a list \<Rightarrow> 's \<Rightarrow> 's) \<Rightarrow> ('a \<Rightarrow> bool) \<Rightarrow> ('a \<Rightarrow> 'a) \<Rightarrow> ('s, 'a) tx" where
  "tab_update get put P f = (\<lambda>s. case find P (get s) of
      None \<Rightarrow> Inl ErrNotFound
    | Some r \<Rightarrow> Inr (f r, put (map (\<lambda>r. if P r then f r else r) (get s)) s))"

text \<open>\<^verbatim>\<open>ORDER BY created_at DESC LIMIT 1\<close>: the youngest row, a later insertion winning
  a tie.\<close>

fun youngest :: "('a \<Rightarrow> time) \<Rightarrow> 'a list \<Rightarrow> 'a option" where
  "youngest t [] = None"
| "youngest t (r # rs) = (case youngest t rs of
      None \<Rightarrow> Some r
    | Some r' \<Rightarrow> if t r' < t r then Some r else Some r')"

definition tab_latest :: "('s \<Rightarrow> 'a list) \<Rightarrow> ('a \<Rightarrow> time) \<Rightarrow> ('a \<Rightarrow> bool) \<Rightarrow> ('s, 'a) tx" where
  "tab_latest get t P = (\<lambda>s. case youngest t (filter P (get s)) of
      None \<Rightarrow> Inl ErrNotFound | Some r \<Rightarrow> Inr (r, s))"

lemma youngest_in: "youngest t rs = Some r \<Longrightarrow> r \<in> set rs"
  by (induction rs) (auto split: option.splits if_splits)

lemma youngest_None [simp]: "youngest t rs = None \<longleftrightarrow> rs = []"
  by (cases rs) (auto split: option.splits)

lemma youngest_max: "youngest t rs = Some r \<Longrightarrow> x \<in> set rs \<Longrightarrow> t x \<le> t r"
  by (induction rs arbitrary: r) (fastforce split: option.splits if_splits)+

lemma tab_select1_Inr:
  "tab_select1 get P s = Inr (r, s') \<longleftrightarrow> find P (get s) = Some r \<and> s' = s"
  by (auto simp: tab_select1_def split: option.splits)

lemma tab_select1_Inl:
  "tab_select1 get P s = Inl e \<longleftrightarrow> find P (get s) = None \<and> e = ErrNotFound"
  by (auto simp: tab_select1_def split: option.splits)

lemma tab_update_Inr:
  "tab_update get put P f s = Inr (r, s') \<longleftrightarrow>
     (\<exists>r0. find P (get s) = Some r0 \<and> r = f r0 \<and>
        s' = put (map (\<lambda>r. if P r then f r else r) (get s)) s)"
  by (auto simp: tab_update_def split: option.splits)

lemma tab_latest_Inr:
  "tab_latest get t P s = Inr (r, s') \<longleftrightarrow> youngest t (filter P (get s)) = Some r \<and> s' = s"
  by (auto simp: tab_latest_def split: option.splits)

lemma tab_latest_Inl:
  "tab_latest get t P s = Inl e \<longleftrightarrow> filter P (get s) = [] \<and> e = ErrNotFound"
  by (auto simp: tab_latest_def split: option.splits)

text \<open>A lookup whose miss is data always succeeds.\<close>

lemma tx_found_select1 [simp]: "tx_found (tab_select1 get P) s = Inr (find P (get s), s)"
  by (simp add: tx_found_def tab_select1_def split: option.split)

lemma tx_found_latest [simp]:
  "tx_found (tab_latest get t P) s = Inr (youngest t (filter P (get s)), s)"
  by (simp add: tx_found_def tab_latest_def split: option.split)

lemmas tab_Inr = tab_select1_Inr tab_update_Inr tab_latest_Inr

lemma tx_pres_select1 [tx_rules]: "tx_pres I (tab_select1 get P)"
  by (auto simp: tx_post_def tab_select1_Inr)

lemma tx_pres_latest [tx_rules]: "tx_pres I (tab_latest get t P)"
  by (auto simp: tx_post_def tab_latest_Inr)

lemma find_SomeD: "find P xs = Some x \<Longrightarrow> x \<in> set xs \<and> P x"
  by (auto simp: find_Some_iff)

lemma find_map_upd:
  "(\<And>r. P r \<Longrightarrow> Q (f r) = Q r) \<Longrightarrow>
    find Q (map (\<lambda>r. if P r then f r else r) xs) =
    map_option (\<lambda>r. if P r then f r else r) (find Q xs)"
  by (induction xs) auto

lemma map_upd_key [simp]:
  "(\<And>r. k (f r) = k r) \<Longrightarrow> map k (map (\<lambda>r. if P r then f r else r) xs) = map k xs"
  by (induction xs) auto

end
