(* ===== verification/Float64.thy ===== *)
theory Float64
  imports Prelude "HOL-Library.Log_Nat"
begin

text \<open>
  Go's \<^verbatim>\<open>float64\<close>: a finite value is the rational number it denotes, and every
  arithmetic operation is the exact operation followed by \<open>fl\<close>, rounding to the nearest
  number with a 53-bit significand, ties to even. Overflow to infinity and the subnormal range
  are not modelled: amounts of money come from \<^verbatim>\<open>NUMERIC(12,2)\<close> columns, far inside
  the normal range. \<open>go_round\<close> is \<^verbatim>\<open>math.Round\<close>, which rounds half away from zero
  and is exact on floats.
\<close>

section \<open>Rounding to an integer\<close>

definition rne :: "rat \<Rightarrow> int" where
  "rne y = (let f = \<lfloor>y\<rfloor>; d = y - of_int f in
     if d < 1 / 2 then f else if 1 / 2 < d then f + 1 else if even f then f else f + 1)"

definition go_round :: "rat \<Rightarrow> int" where
  "go_round x = (if 0 \<le> x then \<lfloor>x + 1 / 2\<rfloor> else - \<lfloor>- x + 1 / 2\<rfloor>)"

lemma rne_error: "\<bar>of_int (rne y) - y\<bar> \<le> 1 / 2"
  unfolding rne_def Let_def using floor_correct[of y] by (auto simp: abs_le_iff)

lemma rne_of_int [simp]: "rne (of_int n) = n"
  by (simp add: rne_def)

lemma rne_le_if: "y \<le> of_int n \<Longrightarrow> rne y \<le> n"
proof -
  assume y: "y \<le> of_int n"
  then have "\<lfloor>y\<rfloor> < n \<or> y = of_int n" by (metis floor_less_iff le_less)
  then show "rne y \<le> n"
  proof
    assume "\<lfloor>y\<rfloor> < n"
    then show ?thesis by (simp add: rne_def Let_def)
  qed simp
qed

lemma rne_ge_if: "of_int n \<le> y \<Longrightarrow> n \<le> rne y"
  unfolding rne_def Let_def by (auto simp: le_floor_iff add_increasing2)

lemma rne_mono: "x \<le> y \<Longrightarrow> rne x \<le> rne y"
proof -
  assume xy: "x \<le> y"
  show ?thesis
  proof (cases "\<lfloor>x\<rfloor> = \<lfloor>y\<rfloor>")
    case True
    then show ?thesis using xy unfolding rne_def Let_def by auto
  next
    case False
    then have "\<lfloor>x\<rfloor> + 1 \<le> \<lfloor>y\<rfloor>" using xy floor_mono[OF xy] by linarith
    moreover have "rne x \<le> \<lfloor>x\<rfloor> + 1" by (rule rne_le_if) linarith
    moreover have "\<lfloor>y\<rfloor> \<le> rne y" by (rule rne_ge_if) simp
    ultimately show ?thesis by linarith
  qed
qed

lemma go_round_error: "\<bar>of_int (go_round x) - x\<bar> \<le> 1 / 2"
proof (cases "0 \<le> x")
  case True
  then have "go_round x = \<lfloor>x + 1 / 2\<rfloor>" by (simp add: go_round_def)
  then show ?thesis by linarith
next
  case False
  then have "go_round x = - \<lfloor>- x + 1 / 2\<rfloor>" by (simp add: go_round_def)
  then show ?thesis by linarith
qed

lemma go_round_of_int [simp]: "go_round (of_int n) = n"
  by (auto simp: go_round_def floor_eq_iff minus_equation_iff)

lemma go_round_near: "\<bar>of_int n - x\<bar> < 1 / 2 \<Longrightarrow> go_round x = n"
proof -
  assume n: "\<bar>of_int n - x\<bar> < 1 / 2"
  show ?thesis
  proof (cases "0 \<le> x")
    case True
    have "\<lfloor>x + 1 / 2\<rfloor> = n" using n by linarith
    then show ?thesis using True by (simp add: go_round_def)
  next
    case False
    have "\<lfloor>- x + 1 / 2\<rfloor> = - n" using n by linarith
    then show ?thesis using False by (simp add: go_round_def)
  qed
qed

lemma go_round_nonneg: "0 \<le> x \<Longrightarrow> 0 \<le> go_round x"
  by (simp add: go_round_def)

lemma go_round_mono: "x \<le> y \<Longrightarrow> go_round x \<le> go_round y"
  unfolding go_round_def by (auto simp: floor_mono) linarith

section \<open>Rounding to 53 bits\<close>

text \<open>\<open>fexp x\<close> is the binary exponent of \<open>x \<noteq> 0\<close>: \<open>2 powi fexp x \<le> \<bar>x\<bar> < 2 powi (fexp x + 1)\<close>.\<close>

definition fexp :: "rat \<Rightarrow> int" where
  "fexp x = (let (p, q) = quotient_of \<bar>x\<bar>; k = bitlen p - bitlen q in
     if 2 powi k \<le> \<bar>x\<bar> then k else k - 1)"

definition fl :: "rat \<Rightarrow> rat" where
  "fl x = (if x = 0 then 0 else
     let e = fexp x - 52 in of_int (rne (x / 2 powi e)) * 2 powi e)"

abbreviation fadd :: "rat \<Rightarrow> rat \<Rightarrow> rat" where "fadd x y \<equiv> fl (x + y)"
abbreviation fsub :: "rat \<Rightarrow> rat \<Rightarrow> rat" where "fsub x y \<equiv> fl (x - y)"
abbreviation fmul :: "rat \<Rightarrow> rat \<Rightarrow> rat" where "fmul x y \<equiv> fl (x * y)"
abbreviation fdiv :: "rat \<Rightarrow> rat \<Rightarrow> rat" where "fdiv x y \<equiv> fl (x / y)"

lemma powi_bitlen:
  assumes "0 < p"
  shows "2 powi (bitlen p - 1) \<le> (of_int p :: rat)" "(of_int p :: rat) < 2 powi bitlen p"
proof -
  have b: "2 ^ nat (bitlen p - 1) \<le> p" "p < 2 ^ nat (bitlen p)" using bitlen_bounds[OF assms] by auto
  have pos: "0 < bitlen p" using bitlen_eq_zero_iff[of p] bitlen_nonneg[of p] assms by linarith
  have 1: "(2 :: rat) powi (bitlen p - 1) = of_int (2 ^ nat (bitlen p - 1))"
    using pos by (simp add: power_int_def)
  have 2: "(2 :: rat) powi bitlen p = of_int (2 ^ nat (bitlen p))"
    using pos by (simp add: power_int_def)
  show "2 powi (bitlen p - 1) \<le> (of_int p :: rat)" unfolding 1 using b(1) by (simp only: of_int_le_iff)
  show "(of_int p :: rat) < 2 powi bitlen p" unfolding 2 using b(2) by (simp only: of_int_less_iff)
qed

lemma fexp_bounds:
  assumes "x \<noteq> 0"
  shows "2 powi fexp x \<le> \<bar>x\<bar>" "\<bar>x\<bar> < 2 powi (fexp x + 1)"
proof -
  obtain p q where pq: "quotient_of \<bar>x\<bar> = (p, q)" by force
  have q: "0 < q" using quotient_of_denom_pos[OF pq] .
  have xpq: "\<bar>x\<bar> = of_int p / of_int q" using quotient_of_div[OF pq] .
  have p: "0 < p"
  proof -
    have "0 < (of_int p :: rat) / of_int q" using assms xpq by simp
    then show ?thesis using q by (simp add: zero_less_divide_iff)
  qed
  define k where "k = bitlen p - bitlen q"
  note bp = powi_bitlen[OF p] and bq = powi_bitlen[OF q]
  have qr: "0 < (of_int q :: rat)" using q by simp
  have up: "\<bar>x\<bar> < 2 powi (k + 1)"
  proof -
    have "(of_int p :: rat) < 2 powi bitlen p" by (rule bp)
    also have "(2 :: rat) powi bitlen p = 2 powi (k + 1) * 2 powi (bitlen q - 1)"
      by (simp add: k_def flip: power_int_add)
    also have "\<dots> \<le> 2 powi (k + 1) * of_int q" by (rule mult_left_mono[OF bq(1)]) simp
    finally show ?thesis unfolding xpq using qr by (simp add: divide_less_eq)
  qed
  have lo: "2 powi (k - 1) \<le> \<bar>x\<bar>"
  proof -
    have "2 powi (k - 1) * of_int q \<le> (2 powi (k - 1) * 2 powi bitlen q :: rat)"
      by (rule mult_left_mono) (use bq(2) in auto)
    also have "\<dots> = 2 powi (bitlen p - 1)"
      by (simp add: k_def flip: power_int_add)
    also have "\<dots> \<le> of_int p" by (rule bp)
    finally show ?thesis unfolding xpq using qr by (simp add: le_divide_eq)
  qed
  have f: "fexp x = (if 2 powi k \<le> \<bar>x\<bar> then k else k - 1)"
    by (simp add: fexp_def pq k_def)
  show "2 powi fexp x \<le> \<bar>x\<bar>" using lo by (simp add: f)
  show "\<bar>x\<bar> < 2 powi (fexp x + 1)" using up by (auto simp: f)
qed


lemma rne_uminus: "rne (- y) = - rne y"
proof (cases "y = of_int \<lfloor>y\<rfloor>")
  case True
  then obtain n where "y = of_int n" by blast
  then show ?thesis by (metis of_int_minus rne_of_int)
next
  case False
  then have "\<lfloor>- y\<rfloor> = - \<lfloor>y\<rfloor> - 1"
    by linarith
  moreover have "of_int \<lfloor>y\<rfloor> < y" using False by (metis floor_correct order_less_le)
  ultimately show ?thesis unfolding rne_def Let_def by (auto; presburger?)
qed

lemma fexp_uminus [simp]: "fexp (- x) = fexp x"
  by (simp add: fexp_def)

lemma fl_0 [simp]: "fl 0 = 0"
  by (simp add: fl_def)

lemma fl_uminus [simp]: "fl (- x) = - fl x"
  by (simp add: fl_def Let_def rne_uminus)

lemma fexp_le: "x \<noteq> 0 \<Longrightarrow> \<bar>x\<bar> < 2 powi k \<Longrightarrow> fexp x < k"
  using fexp_bounds(1)[of x] by (meson le_less_trans not_le power_int_strict_increasing one_less_numeral_iff
      semiring_norm(76) power_int_increasing order_trans not_less one_le_numeral)

lemma fexp_mono: "x \<noteq> 0 \<Longrightarrow> \<bar>x\<bar> \<le> \<bar>y\<bar> \<Longrightarrow> fexp x \<le> fexp y"
  using fexp_le[of x "fexp y + 1"] fexp_bounds(2)[of y] by force

lemma fl_bounds:
  assumes "0 < x"
  shows "2 powi fexp x \<le> fl x" "fl x \<le> 2 powi (fexp x + 1)"
proof -
  define e where "e = fexp x - 52"
  have x: "2 powi (52 + e) \<le> x" "x < 2 powi (53 + e)"
    using fexp_bounds[of x] assms by (simp_all add: e_def add.commute)
  have "of_int (2 ^ 52) \<le> x / 2 powi e" "x / 2 powi e \<le> of_int (2 ^ 53)"
    using x by (simp_all add: le_divide_eq divide_le_eq power_int_add)
  then have r: "2 ^ 52 \<le> rne (x / 2 powi e)" "rne (x / 2 powi e) \<le> 2 ^ 53"
    by (auto intro: rne_ge_if rne_le_if simp only:)
  then have r': "(2 :: rat) ^ 52 \<le> of_int (rne (x / 2 powi e))" "of_int (rne (x / 2 powi e)) \<le> (2 :: rat) ^ 53"
    by (metis of_int_le_iff of_int_numeral of_int_power)+
  have fl: "fl x = of_int (rne (x / 2 powi e)) * 2 powi e"
    using assms by (simp add: fl_def e_def Let_def)
  have "2 powi fexp x = (2 :: rat) ^ 52 * 2 powi e" "2 powi (fexp x + 1) = (2 :: rat) ^ 53 * 2 powi e"
    by (simp_all add: e_def power_int_diff power_int_add)
  then show "2 powi fexp x \<le> fl x" "fl x \<le> 2 powi (fexp x + 1)"
    unfolding fl using r' by (simp_all add: mult_right_mono)
qed

lemma fl_mono_pos:
  assumes "0 < x" "x \<le> y"
  shows "fl x \<le> fl y"
proof (cases "fexp x = fexp y")
  case True
  have "rne (x / 2 powi (fexp x - 52)) \<le> rne (y / 2 powi (fexp x - 52))"
    using assms by (intro rne_mono divide_right_mono) auto
  then show ?thesis using assms True by (simp add: fl_def Let_def mult_right_mono)
next
  case False
  then have "fexp x + 1 \<le> fexp y" using fexp_mono[of x y] assms by simp
  then have "(2 :: rat) powi (fexp x + 1) \<le> 2 powi fexp y" by (intro power_int_increasing) auto
  then show ?thesis using fl_bounds(2)[of x] fl_bounds(1)[of y] assms by linarith
qed

lemma fl_pos: "0 < x \<Longrightarrow> 0 < fl x"
  using fl_bounds(1)[of x] by (meson less_le_trans zero_less_numeral zero_less_power_int)

lemma fl_nonneg [simp]: "0 \<le> fl x \<longleftrightarrow> 0 \<le> x"
  by (metis fl_0 fl_pos fl_uminus le_less neg_0_less_iff_less not_less_iff_gr_or_eq)

theorem fl_mono: "x \<le> y \<Longrightarrow> fl x \<le> fl y"
proof -
  assume xy: "x \<le> y"
  consider "0 < x" | "x \<le> 0" "0 \<le> y" | "y < 0" by linarith
  then show ?thesis
  proof cases
    case 1
    then show ?thesis using fl_mono_pos xy by blast
  next
    case 2
    then have "0 \<le> fl y" "0 \<le> - fl x" using fl_nonneg[of y] fl_nonneg[of "- x"] by auto
    then show ?thesis by linarith
  next
    case 3
    then show ?thesis using fl_mono_pos[of "- y" "- x"] xy by simp
  qed
qed

theorem fl_error: "\<bar>fl x - x\<bar> \<le> \<bar>x\<bar> / 2 ^ 53"
proof (cases "x = 0")
  case False
  define e where "e = fexp x - 52"
  have fl: "fl x = of_int (rne (x / 2 powi e)) * 2 powi e"
    using False by (simp add: fl_def e_def Let_def)
  have "fl x - x = (of_int (rne (x / 2 powi e)) - x / 2 powi e) * 2 powi e"
    unfolding fl by (simp add: left_diff_distrib)
  then have "\<bar>fl x - x\<bar> = \<bar>of_int (rne (x / 2 powi e)) - x / 2 powi e\<bar> * 2 powi e"
    by (simp add: abs_mult)
  also have "\<dots> \<le> 1 / 2 * 2 powi e"
    by (rule mult_right_mono[OF rne_error]) simp
  also have "\<dots> = 2 powi fexp x / 2 ^ 53"
    by (simp add: e_def power_int_diff)
  also have "\<dots> \<le> \<bar>x\<bar> / 2 ^ 53"
    by (rule divide_right_mono[OF fexp_bounds(1)[OF False]]) simp
  finally show ?thesis .
qed simp

text \<open>Numbers with at most 53 significant bits are floats.\<close>

lemma fl_ident_less: "\<bar>m\<bar> < 2 ^ 53 \<Longrightarrow> fl (of_int m * 2 powi e) = of_int m * 2 powi e"
proof (cases "m = 0")
  case False
  assume m: "\<bar>m\<bar> < 2 ^ 53"
  define x where "x = (of_int m * 2 powi e :: rat)"
  have x0: "x \<noteq> 0" using False by (simp add: x_def)
  have "(of_int \<bar>m\<bar> :: rat) < 2 ^ 53" using m by (metis of_int_less_iff of_int_numeral of_int_power)
  then have "\<bar>x\<bar> < 2 powi (53 + e)"
    by (simp add: x_def abs_mult power_int_add)
  then have le: "fexp x - 52 \<le> e" using fexp_le[OF x0] by force
  define d where "d = nat (e - (fexp x - 52))"
  have "x / 2 powi (fexp x - 52) = of_int m * 2 powi (e - (fexp x - 52))"
    by (simp add: x_def power_int_diff)
  also have "\<dots> = of_int (m * 2 ^ d)" using le by (simp add: d_def power_int_def)
  finally have q: "x / 2 powi (fexp x - 52) = of_int (m * 2 ^ d)" .
  then have "fl x = of_int (m * 2 ^ d) * 2 powi (fexp x - 52)"
    using x0 unfolding fl_def Let_def q by (simp only: rne_of_int if_False)
  also have "\<dots> = x" unfolding q[symmetric] by simp
  finally show ?thesis by (simp add: x_def)
qed simp

lemma fl_ident: "\<bar>m\<bar> \<le> 2 ^ 53 \<Longrightarrow> fl (of_int m * 2 powi e) = of_int m * 2 powi e"
proof (cases "\<bar>m\<bar> = 2 ^ 53")
  case True
  have "fl (of_int 1 * 2 powi (53 + e)) = of_int 1 * 2 powi (53 + e)"
    by (rule fl_ident_less) simp
  moreover have "m = 2 ^ 53 \<or> m = - (2 ^ 53)" using True by linarith
  ultimately show ?thesis by (auto simp: power_int_add)
qed (auto intro: fl_ident_less)

lemma fl_of_int [simp]: "\<bar>n\<bar> \<le> 2 ^ 53 \<Longrightarrow> fl (of_int n) = of_int n"
  using fl_ident[of n 0] by simp

lemma fl_idem [simp]: "fl (fl x) = fl x"
proof (cases "x = 0")
  case False
  define e where "e = fexp x - 52"
  have fl: "fl x = of_int (rne (x / 2 powi e)) * 2 powi e"
    using False by (simp add: fl_def e_def Let_def)
  have "\<bar>x\<bar> < 2 ^ 53 * 2 powi e"
    using fexp_bounds(2)[OF False] by (simp add: e_def power_int_diff power_int_add)
  then have "x < 2 ^ 53 * 2 powi e" "- (2 ^ 53) * 2 powi e < x" by linarith+
  then have "x / 2 powi e \<le> of_int (2 ^ 53)" "of_int (- (2 ^ 53)) \<le> x / 2 powi e"
    by (simp_all add: divide_le_eq le_divide_eq)
  then have "\<bar>rne (x / 2 powi e)\<bar> \<le> 2 ^ 53"
    using rne_le_if rne_ge_if by (metis abs_leI minus_le_iff)
  then show ?thesis unfolding fl by (rule fl_ident)
qed simp

end
