(* ===== verification/Schema.thy ===== *)
theory Schema
  imports Float64
begin

text \<open>
  The commerce tables (\<^verbatim>\<open>db/migrations/000006_commerce.up.sql\<close>, and
  \<^verbatim>\<open>courses\<close>, \<^verbatim>\<open>learner_course_access\<close> and the audit tables of the earlier
  migrations) as records, and the database as a record of tables. A row is inserted at the end
  of its table's list with a fresh key and the transaction's \<^verbatim>\<open>now()\<close>. Columns with a
  \<^verbatim>\<open>CHECK (... IN ...)\<close> constraint are datatypes, nullable columns are options, and
  \<^verbatim>\<open>NUMERIC\<close> columns hold the \<^verbatim>\<open>float64\<close> the code scans them into. Row-level
  security policies and foreign keys are not modelled.
\<close>

section \<open>Column types\<close>

datatype currency = INR | USD
datatype offer_type = Free | Paid | Subscription | Cohort | InvitationOnly
datatype offer_status = OfferActive | OfferArchived
datatype discount_type = DiscountPercent | DiscountFixed
datatype order_status = OrdPending | OrdPaymentInitiated | OrdSucceeded | OrdFailed | OrdAbandoned
datatype payment_status = PayPending | PayProcessing | PaySucceeded | PayFailed
datatype refund_status = RefPending | RefSucceeded | RefFailed
datatype chargeback_status = CbPending | CbWon | CbLost
datatype entitlement_status = EntActive | EntRevoked | EntExpired
datatype access_status = AccActive | AccRevoked | AccExpired
datatype course_status = CDraft | CReview | CScheduled | CPublished | CUnpublished | CArchived

fun order_status_str :: "order_status \<Rightarrow> string" where
  "order_status_str OrdPending = ''pending''"
| "order_status_str OrdPaymentInitiated = ''payment_initiated''"
| "order_status_str OrdSucceeded = ''succeeded''"
| "order_status_str OrdFailed = ''failed''"
| "order_status_str OrdAbandoned = ''abandoned''"

fun refund_status_str :: "refund_status \<Rightarrow> string" where
  "refund_status_str RefPending = ''pending''"
| "refund_status_str RefSucceeded = ''succeeded''"
| "refund_status_str RefFailed = ''failed''"

fun payment_status_str :: "payment_status \<Rightarrow> string" where
  "payment_status_str PayPending = ''pending''"
| "payment_status_str PayProcessing = ''processing''"
| "payment_status_str PaySucceeded = ''succeeded''"
| "payment_status_str PayFailed = ''failed''"

fun chargeback_status_str :: "chargeback_status \<Rightarrow> string" where
  "chargeback_status_str CbPending = ''pending''"
| "chargeback_status_str CbWon = ''won''"
| "chargeback_status_str CbLost = ''lost''"

text \<open>JSON values as \<^verbatim>\<open>encoding/json\<close> reads them: a number token is an integer literal
  or has a fraction or exponent; an object keeps its members in order, duplicates included.\<close>

datatype json =
    JNull
  | JBool bool
  | JInt int
  | JDec rat
  | JStr string
  | JArr "json list"
  | JObj "(string \<times> json) list"

section \<open>Rows\<close>

record course =
  c_id :: uuid
  c_org :: uuid
  c_title :: string
  c_description :: string
  c_cover :: "string option"
  c_category :: "uuid option"
  c_status :: course_status
  c_publish_date :: "time option"
  c_created_by :: uuid
  c_created :: time
  c_updated :: time
  c_published_at :: "time option"
  c_archived_at :: "time option"

record offer =
  of_id :: uuid
  of_org :: uuid
  of_course :: uuid
  of_type :: offer_type
  of_price :: rat
  of_currency :: currency
  of_tax_rate :: rat
  of_access_days :: "int option"
  of_max_seats :: "int option"
  of_starts :: "time option"
  of_ends :: "time option"
  of_status :: offer_status
  of_created_by :: uuid
  of_created :: time
  of_updated :: time

record discount_code =
  dc_id :: uuid
  dc_org :: uuid
  dc_offer :: uuid
  dc_code :: string
  dc_type :: discount_type
  dc_value :: rat
  dc_expires :: "time option"
  dc_max :: "int option"
  dc_count :: int
  dc_created_by :: uuid
  dc_created :: time

record invite_token =
  it_id :: uuid
  it_org :: uuid
  it_offer :: uuid
  it_token :: string
  it_bound_email :: "string option"
  it_used_at :: "time option"
  it_used_by :: "uuid option"
  it_used_order :: "uuid option"
  it_expires :: "time option"
  it_created_by :: uuid
  it_created :: time

record order =
  ord_id :: uuid
  ord_org :: uuid
  ord_offer :: uuid
  ord_learner :: uuid
  ord_currency :: currency
  ord_subtotal :: rat
  ord_discount :: rat
  ord_tax :: rat
  ord_commission :: rat
  ord_total :: rat
  ord_rate :: rat
  ord_status :: order_status
  ord_rzp :: "string option"
  ord_code :: "uuid option"
  ord_created :: time
  ord_updated :: time

record payment =
  pay_id :: uuid
  pay_org :: uuid
  pay_order :: uuid
  pay_rzp :: "string option"
  pay_status :: payment_status
  pay_raw :: "json option"
  pay_created :: time
  pay_updated :: time

record refund =
  rf_id :: uuid
  rf_org :: uuid
  rf_payment :: uuid
  rf_rzp :: "string option"
  rf_status :: refund_status
  rf_amount :: rat
  rf_reason :: "string option"
  rf_created :: time
  rf_updated :: time

record chargeback =
  cb_id :: uuid
  cb_org :: uuid
  cb_payment :: uuid
  cb_status :: chargeback_status
  cb_amount :: rat
  cb_reason :: "string option"
  cb_created :: time
  cb_updated :: time

record entitlement =
  ent_id :: uuid
  ent_org :: uuid
  ent_order :: "uuid option"
  ent_learner :: uuid
  ent_course :: uuid
  ent_status :: entitlement_status
  ent_expires :: "time option"
  ent_granted_by :: "uuid option"
  ent_reason :: "string option"
  ent_created :: time
  ent_updated :: time

record course_access =
  acc_id :: uuid
  acc_org :: uuid
  acc_learner :: uuid
  acc_course :: uuid
  acc_entitlement :: "uuid option"
  acc_enrolled :: time
  acc_status :: access_status

record webhook_event =
  we_id :: uuid
  we_event_id :: string
  we_type :: string
  we_payload :: json
  we_processed :: "time option"
  we_created :: time

record payment_audit =
  pa_org :: uuid
  pa_event :: string
  pa_order :: "uuid option"
  pa_payment :: "uuid option"
  pa_old :: "string option"
  pa_new :: string
  pa_reason :: "string option"
  pa_user :: "uuid option"

record audit_event =
  ae_org :: "uuid option"
  ae_user :: "uuid option"
  ae_action :: string
  ae_resource :: string
  ae_resource_id :: "uuid option"
  ae_details :: "(string \<times> string) list option"
  ae_ip :: string
  ae_agent :: string

record analytics_event =
  an_org :: uuid
  an_type :: string
  an_actor :: "uuid option"
  an_course :: "uuid option"

text \<open>The queue of receipt e-mails (\<^verbatim>\<open>SendReceiptEmailPayload\<close>).\<close>

record receipt =
  rc_learner :: uuid
  rc_course :: uuid
  rc_title :: string
  rc_currency :: currency
  rc_subtotal :: rat
  rc_discount :: rat
  rc_code :: string
  rc_tax_rate :: rat
  rc_tax :: rat
  rc_total :: rat

section \<open>The database\<close>

record db =
  next_id :: uuid
  clock :: time
  courses :: "course list"
  offers :: "offer list"
  discount_codes :: "discount_code list"
  invite_tokens :: "invite_token list"
  orders :: "order list"
  payments :: "payment list"
  refunds :: "refund list"
  chargebacks :: "chargeback list"
  entitlements :: "entitlement list"
  accesses :: "course_access list"
  webhook_events :: "webhook_event list"
  audit_trail :: "payment_audit list"
  audit_log :: "audit_event list"
  analytics :: "analytics_event list"
  commission_percent :: "rat option"
  receipts :: "receipt list"

abbreviation put_courses :: "course list \<Rightarrow> db \<Rightarrow> db" where "put_courses xs s \<equiv> s\<lparr>courses := xs\<rparr>"
abbreviation put_offers :: "offer list \<Rightarrow> db \<Rightarrow> db" where "put_offers xs s \<equiv> s\<lparr>offers := xs\<rparr>"
abbreviation put_codes :: "discount_code list \<Rightarrow> db \<Rightarrow> db" where "put_codes xs s \<equiv> s\<lparr>discount_codes := xs\<rparr>"
abbreviation put_tokens :: "invite_token list \<Rightarrow> db \<Rightarrow> db" where "put_tokens xs s \<equiv> s\<lparr>invite_tokens := xs\<rparr>"
abbreviation put_orders :: "order list \<Rightarrow> db \<Rightarrow> db" where "put_orders xs s \<equiv> s\<lparr>orders := xs\<rparr>"
abbreviation put_payments :: "payment list \<Rightarrow> db \<Rightarrow> db" where "put_payments xs s \<equiv> s\<lparr>payments := xs\<rparr>"
abbreviation put_refunds :: "refund list \<Rightarrow> db \<Rightarrow> db" where "put_refunds xs s \<equiv> s\<lparr>refunds := xs\<rparr>"
abbreviation put_chargebacks :: "chargeback list \<Rightarrow> db \<Rightarrow> db" where "put_chargebacks xs s \<equiv> s\<lparr>chargebacks := xs\<rparr>"
abbreviation put_entitlements :: "entitlement list \<Rightarrow> db \<Rightarrow> db" where "put_entitlements xs s \<equiv> s\<lparr>entitlements := xs\<rparr>"
abbreviation put_accesses :: "course_access list \<Rightarrow> db \<Rightarrow> db" where "put_accesses xs s \<equiv> s\<lparr>accesses := xs\<rparr>"
abbreviation put_webhooks :: "webhook_event list \<Rightarrow> db \<Rightarrow> db" where "put_webhooks xs s \<equiv> s\<lparr>webhook_events := xs\<rparr>"

definition tab_insert ::
  "(db \<Rightarrow> 'a list) \<Rightarrow> ('a list \<Rightarrow> db \<Rightarrow> db) \<Rightarrow> (uuid \<Rightarrow> time \<Rightarrow> 'a) \<Rightarrow> (db, 'a) tx" where
  "tab_insert get put mk = (\<lambda>s. let r = mk (next_id s) (clock s) in
     Inr (r, put (get s @ [r]) (s\<lparr>next_id := Suc (next_id s)\<rparr>)))"

text \<open>\<^verbatim>\<open>UPDATE ... SET updated_at = now()\<close> reads the clock.\<close>

definition tab_update_now ::
  "(db \<Rightarrow> 'a list) \<Rightarrow> ('a list \<Rightarrow> db \<Rightarrow> db) \<Rightarrow> ('a \<Rightarrow> bool) \<Rightarrow> (time \<Rightarrow> 'a \<Rightarrow> 'a) \<Rightarrow> (db, 'a) tx" where
  "tab_update_now get put P f = (\<lambda>s. tab_update get put P (f (clock s)) s)"

lemma tab_insert_run: "tab_insert get put mk s = Inr (mk (next_id s) (clock s),
    put (get s @ [mk (next_id s) (clock s)]) (s\<lparr>next_id := Suc (next_id s)\<rparr>))"
  by (simp add: tab_insert_def Let_def)

lemma tab_insert_Inr:
  "tab_insert get put mk s = Inr (r, s') \<longleftrightarrow> r = mk (next_id s) (clock s) \<and>
     s' = put (get s @ [mk (next_id s) (clock s)]) (s\<lparr>next_id := Suc (next_id s)\<rparr>)"
  by (auto simp: tab_insert_def Let_def)

lemma tab_insert_not_Inl [simp]: "tab_insert get put mk s \<noteq> Inl e"
  by (simp add: tab_insert_def Let_def)

lemma tab_update_now_Inr:
  "tab_update_now get put P f s = Inr (r, s') \<longleftrightarrow>
     (\<exists>r0. find P (get s) = Some r0 \<and> r = f (clock s) r0 \<and>
        s' = put (map (\<lambda>r. if P r then f (clock s) r else r) (get s)) s)"
  by (simp add: tab_update_now_def tab_update_Inr)

lemmas db_Inr = tx_Inr tab_Inr tab_insert_Inr tab_update_now_Inr

section \<open>Tables as lenses\<close>

text \<open>
  What a repository relies on: reading a table back gives what was written. A table with a
  primary key adds that keys are fresh at insertion; \<open>keyed_ok\<close> is the invariant every
  insertion and every key-preserving update keeps.
\<close>

definition keyed_ok :: "(db \<Rightarrow> 'a list) \<Rightarrow> ('a \<Rightarrow> uuid) \<Rightarrow> db \<Rightarrow> bool" where
  "keyed_ok get key s \<longleftrightarrow> distinct (map key (get s)) \<and> (\<forall>r \<in> set (get s). key r < next_id s)"

lemma key_find:
  "keyed_ok get k s \<Longrightarrow> r \<in> set (get s) \<Longrightarrow> find (\<lambda>x. k x = k r) (get s) = Some r"
proof -
  have "find (\<lambda>x. k x = k r) xs = Some r" if "distinct (map k xs)" "r \<in> set xs" for xs
    using that by (induction xs) force+
  then show "keyed_ok get k s \<Longrightarrow> r \<in> set (get s) \<Longrightarrow> ?thesis" by (simp add: keyed_ok_def)
qed

locale table =
  fixes get :: "db \<Rightarrow> 'a list" and put :: "'a list \<Rightarrow> db \<Rightarrow> db"
  assumes get_put [simp]: "get (put xs s) = xs"
    and put_put [simp]: "put xs (put ys s) = put xs s"
    and put_get [simp]: "put (get s) s = s"
    and get_next [simp]: "get (s\<lparr>next_id := n\<rparr>) = get s"
    and next_put [simp]: "next_id (put xs s) = next_id s"
    and clock_put [simp]: "clock (put xs s) = clock s"
begin

lemma insert_appends: "tab_insert get put mk s = Inr (r, s') \<Longrightarrow> get s' = get s @ [r]"
  by (auto simp: tab_insert_Inr)

lemma insert_pres:
  "(\<And>s. I s \<Longrightarrow> I (put (get s @ [mk (next_id s) (clock s)]) (s\<lparr>next_id := Suc (next_id s)\<rparr>))) \<Longrightarrow>
    tx_pres I (tab_insert get put mk)"
  by (auto simp: tx_post_def tab_insert_Inr)

lemma update_pres:
  "(\<And>s. I s \<Longrightarrow> I (put (map (\<lambda>r. if P r then f (clock s) r else r) (get s)) s)) \<Longrightarrow>
    tx_pres I (tab_update_now get put P f)"
  by (auto simp: tx_post_def tab_update_now_Inr)

end

locale keyed_table = table get put
  for get :: "db \<Rightarrow> 'a list" and put :: "'a list \<Rightarrow> db \<Rightarrow> db" +
  fixes key :: "'a \<Rightarrow> uuid"
begin

lemma insert_keyed_ok:
  "keyed_ok get key s \<Longrightarrow> (\<And>i t. key (mk i t) = i) \<Longrightarrow> tab_insert get put mk s = Inr (r, s') \<Longrightarrow> keyed_ok get key s'"
  by (auto simp: keyed_ok_def tab_insert_Inr less_Suc_eq)

lemma update_keyed_ok:
  "keyed_ok get key s \<Longrightarrow> (\<And>t r. key (f t r) = key r) \<Longrightarrow>
    tab_update_now get put P f s = Inr (r, s') \<Longrightarrow> keyed_ok get key s'"
  by (auto simp: keyed_ok_def tab_update_now_Inr comp_def if_distrib cong: if_cong)

lemma select_unique:
  "keyed_ok get key s \<Longrightarrow> r \<in> set (get s) \<Longrightarrow> tab_select1 get (\<lambda>x. key x = key r) s = Inr (r, s)"
proof -
  assume ok: "keyed_ok get key s" and r: "r \<in> set (get s)"
  have "find (\<lambda>x. key x = key r) xs = Some r" if "distinct (map key xs)" "r \<in> set xs" for xs
    using that by (induction xs) force+
  then show ?thesis using ok r by (simp add: tab_select1_Inr keyed_ok_def)
qed

lemma insert_then_select:
  "keyed_ok get key s \<Longrightarrow> (\<And>i t. key (mk i t) = i) \<Longrightarrow> tab_insert get put mk s = Inr (r, s') \<Longrightarrow>
    tab_select1 get (\<lambda>x. key x = key r) s' = Inr (r, s')"
  by (rule select_unique[OF insert_keyed_ok]) (assumption+, auto simp: tab_insert_Inr)

lemma update_then_select:
  "(\<And>t r. key (f t r) = key r) \<Longrightarrow>
    tab_update_now get put (\<lambda>x. key x = k) f s = Inr (r, s') \<Longrightarrow>
    tab_select1 get (\<lambda>x. key x = k) s' = Inr (r, s')"
  by (auto simp: tab_update_now_Inr tab_select1_Inr find_map_upd dest: find_SomeD)

end

interpretation course_tab: keyed_table courses put_courses c_id by unfold_locales auto
interpretation offer_tab: keyed_table offers put_offers of_id by unfold_locales auto
interpretation code_tab: keyed_table discount_codes put_codes dc_id by unfold_locales auto
interpretation token_tab: keyed_table invite_tokens put_tokens it_id by unfold_locales auto
interpretation order_tab: keyed_table orders put_orders ord_id by unfold_locales auto
interpretation payment_tab: keyed_table payments put_payments pay_id by unfold_locales auto
interpretation refund_tab: keyed_table refunds put_refunds rf_id by unfold_locales auto
interpretation chargeback_tab: keyed_table chargebacks put_chargebacks cb_id by unfold_locales auto
interpretation entitlement_tab: keyed_table entitlements put_entitlements ent_id by unfold_locales auto
interpretation access_tab: keyed_table accesses put_accesses acc_id by unfold_locales auto
interpretation webhook_tab: keyed_table webhook_events put_webhooks we_id by unfold_locales auto

end
