(* ===== verification/Repos.thy ===== *)
theory Repos
  imports Schema "HOL-Library.List_Lexorder" "HOL-Library.Char_ord"
begin

text \<open>
  The commerce repositories of \<^verbatim>\<open>internal/models\<close>, one definition per method, named
  \<open>Repo_Method\<close>. Every method runs on the transaction it is handed. \<^verbatim>\<open>INSERT\<close>s apply
  the column defaults and the \<^verbatim>\<open>UNIQUE\<close> constraints of the migrations;
  \<^verbatim>\<open>UPDATE ... RETURNING\<close> of a missing row is \<open>ErrNotFound\<close>.
\<close>

section \<open>Offers (offer.go)\<close>

definition OfferRepo_Create :: "offer \<Rightarrow> (db, offer) tx" where
  "OfferRepo_Create o' = tab_insert offers put_offers
     (\<lambda>i t. o'\<lparr>of_id := i, of_created := t, of_updated := t\<rparr>)"

definition OfferRepo_Get :: "uuid \<Rightarrow> (db, offer) tx" where
  "OfferRepo_Get i = tab_select1 offers (\<lambda>r. of_id r = i)"

definition OfferRepo_ListByCourse :: "uuid \<Rightarrow> (db, offer list) tx" where
  "OfferRepo_ListByCourse c = tx_gets (\<lambda>s. sort_key of_created (filter (\<lambda>r. of_course r = c) (offers s)))"

definition OfferRepo_Update :: "uuid \<Rightarrow> offer \<Rightarrow> (db, offer) tx" where
  "OfferRepo_Update i o' = tab_update_now offers put_offers (\<lambda>r. of_id r = i)
     (\<lambda>t r. r\<lparr>of_price := of_price o', of_currency := of_currency o', of_tax_rate := of_tax_rate o',
        of_access_days := of_access_days o', of_max_seats := of_max_seats o',
        of_starts := of_starts o', of_ends := of_ends o', of_updated := t\<rparr>)"

definition OfferRepo_Archive :: "uuid \<Rightarrow> (db, offer) tx" where
  "OfferRepo_Archive i = tab_update_now offers put_offers (\<lambda>r. of_id r = i)
     (\<lambda>t r. r\<lparr>of_status := OfferArchived, of_updated := t\<rparr>)"

section \<open>Discount codes (discount\_code.go)\<close>

definition DiscountCodeRepo_Create :: "discount_code \<Rightarrow> (db, discount_code) tx" where
  "DiscountCodeRepo_Create d = (\<lambda>s.
     if \<exists>r \<in> set (discount_codes s). dc_offer r = dc_offer d \<and> dc_code r = dc_code d
     then Inl ErrUniqueViolation
     else tab_insert discount_codes put_codes
       (\<lambda>i t. d\<lparr>dc_id := i, dc_count := 0, dc_created := t\<rparr>) s)"

definition DiscountCodeRepo_Get :: "uuid \<Rightarrow> (db, discount_code) tx" where
  "DiscountCodeRepo_Get i = tab_select1 discount_codes (\<lambda>r. dc_id r = i)"

definition DiscountCodeRepo_ListByOffer :: "uuid \<Rightarrow> (db, discount_code list) tx" where
  "DiscountCodeRepo_ListByOffer f =
     tx_gets (\<lambda>s. sort_key (\<lambda>r. - dc_created r) (filter (\<lambda>r. dc_offer r = f) (discount_codes s)))"

definition DiscountCodeRepo_Deactivate :: "uuid \<Rightarrow> (db, discount_code) tx" where
  "DiscountCodeRepo_Deactivate i = tab_update_now discount_codes put_codes (\<lambda>r. dc_id r = i)
     (\<lambda>t r. r\<lparr>dc_expires := Some t\<rparr>)"

definition DiscountCodeRepo_GetByCode :: "uuid \<Rightarrow> string \<Rightarrow> (db, discount_code) tx" where
  "DiscountCodeRepo_GetByCode f c =
     tab_select1 discount_codes (\<lambda>r. dc_offer r = f \<and> dc_code r = c)"

definition below_cap :: "discount_code \<Rightarrow> bool" where
  "below_cap r = (case dc_max r of None \<Rightarrow> True | Some m \<Rightarrow> dc_count r < m)"

definition DiscountCodeRepo_IncrementRedemption :: "uuid \<Rightarrow> (db, discount_code) tx" where
  "DiscountCodeRepo_IncrementRedemption i = (\<lambda>s.
     case tab_update discount_codes put_codes (\<lambda>r. dc_id r = i \<and> below_cap r)
            (\<lambda>r. r\<lparr>dc_count := dc_count r + 1\<rparr>) s of
       Inl ErrNotFound \<Rightarrow> Inl ErrDiscountCodeExhausted
     | res \<Rightarrow> res)"

section \<open>Invite tokens (commerce\_invite\_token.go)\<close>

definition InviteTokenRepo_Create ::
  "uuid \<Rightarrow> uuid \<Rightarrow> uuid \<Rightarrow> string \<Rightarrow> string option \<Rightarrow> time option \<Rightarrow> (db, invite_token) tx" where
  "InviteTokenRepo_Create org off by tok email expires = (\<lambda>s.
     if \<exists>r \<in> set (invite_tokens s). it_token r = tok then Inl ErrUniqueViolation
     else tab_insert invite_tokens put_tokens (\<lambda>i t.
       \<lparr>it_id = i, it_org = org, it_offer = off, it_token = tok, it_bound_email = email,
        it_used_at = None, it_used_by = None, it_used_order = None, it_expires = expires,
        it_created_by = by, it_created = t\<rparr>) s)"

definition InviteTokenRepo_GetByToken :: "string \<Rightarrow> (db, invite_token) tx" where
  "InviteTokenRepo_GetByToken tok =
     tx_bind (tab_select1 invite_tokens (\<lambda>r. it_token r = tok)) (\<lambda>it.
     tx_bind (tx_gets clock) (\<lambda>now.
       if it_used_at it \<noteq> None then tx_throw ErrInviteTokenUsed
       else case it_expires it of
           Some e \<Rightarrow> if e < now then tx_throw ErrInviteTokenExpired else tx_return it
         | None \<Rightarrow> tx_return it))"

definition InviteTokenRepo_MarkUsed :: "uuid \<Rightarrow> uuid \<Rightarrow> uuid \<Rightarrow> (db, invite_token) tx" where
  "InviteTokenRepo_MarkUsed i learner ord = tab_update_now invite_tokens put_tokens (\<lambda>r. it_id r = i)
     (\<lambda>t r. r\<lparr>it_used_at := Some t, it_used_by := Some learner, it_used_order := Some ord\<rparr>)"

definition InviteTokenRepo_ListByOffer :: "uuid \<Rightarrow> (db, invite_token list) tx" where
  "InviteTokenRepo_ListByOffer f =
     tx_gets (\<lambda>s. sort_key (\<lambda>r. - it_created r) (filter (\<lambda>r. it_offer r = f) (invite_tokens s)))"

section \<open>Orders (order.go)\<close>

definition OrderRepo_Create :: "order \<Rightarrow> (db, order) tx" where
  "OrderRepo_Create o' = tab_insert orders put_orders
     (\<lambda>i t. o'\<lparr>ord_id := i, ord_status := OrdPending, ord_created := t, ord_updated := t\<rparr>)"

definition OrderRepo_Get :: "uuid \<Rightarrow> (db, order) tx" where
  "OrderRepo_Get i = tab_select1 orders (\<lambda>r. ord_id r = i)"

definition OrderRepo_UpdateStatus :: "uuid \<Rightarrow> order_status \<Rightarrow> (db, order) tx" where
  "OrderRepo_UpdateStatus i st = tab_update_now orders put_orders (\<lambda>r. ord_id r = i)
     (\<lambda>t r. r\<lparr>ord_status := st, ord_updated := t\<rparr>)"

definition OrderRepo_AttachRazorpayOrder :: "uuid \<Rightarrow> string \<Rightarrow> order_status \<Rightarrow> (db, order) tx" where
  "OrderRepo_AttachRazorpayOrder i rzp st = tab_update_now orders put_orders (\<lambda>r. ord_id r = i)
     (\<lambda>t r. r\<lparr>ord_rzp := Some rzp, ord_status := st, ord_updated := t\<rparr>)"

definition OrderRepo_CountByOfferAndStatus :: "uuid \<Rightarrow> order_status \<Rightarrow> (db, int) tx" where
  "OrderRepo_CountByOfferAndStatus f st =
     tx_gets (\<lambda>s. int (length (filter (\<lambda>r. ord_offer r = f \<and> ord_status r = st) (orders s))))"

definition OrderRepo_GetByRazorpayOrderID :: "string \<Rightarrow> (db, order) tx" where
  "OrderRepo_GetByRazorpayOrderID rzp = tab_select1 orders (\<lambda>r. ord_rzp r = Some rzp)"

definition stale_order :: "time \<Rightarrow> time \<Rightarrow> order \<Rightarrow> bool" where
  "stale_order now cutoff r \<longleftrightarrow> ord_status r \<in> {OrdPending, OrdPaymentInitiated} \<and>
     ord_created r < now - cutoff div second * second"

definition OrderRepo_ListPendingOlderThan :: "time \<Rightarrow> (db, order list) tx" where
  "OrderRepo_ListPendingOlderThan cutoff = tx_gets (\<lambda>s. filter (stale_order (clock s) cutoff) (orders s))"

definition OrderRepo_ListByOrg :: "uuid \<Rightarrow> time \<Rightarrow> time \<Rightarrow> (db, order list) tx" where
  "OrderRepo_ListByOrg org from to = tx_gets (\<lambda>s. sort_key (\<lambda>r. - ord_created r)
     (filter (\<lambda>r. ord_org r = org \<and> from \<le> ord_created r \<and> ord_created r < to) (orders s)))"

section \<open>Payments (payment.go)\<close>

definition PaymentRepo_Create :: "payment \<Rightarrow> (db, payment) tx" where
  "PaymentRepo_Create p = tab_insert payments put_payments
     (\<lambda>i t. p\<lparr>pay_id := i, pay_created := t, pay_updated := t\<rparr>)"

definition coalesce :: "'a option \<Rightarrow> 'a option \<Rightarrow> 'a option" where
  "coalesce a b = (case a of None \<Rightarrow> b | Some _ \<Rightarrow> a)"

definition PaymentRepo_UpdateStatus ::
  "uuid \<Rightarrow> payment_status \<Rightarrow> string option \<Rightarrow> json option \<Rightarrow> (db, payment) tx" where
  "PaymentRepo_UpdateStatus i st rzp raw = tab_update_now payments put_payments (\<lambda>r. pay_id r = i)
     (\<lambda>t r. r\<lparr>pay_status := st, pay_updated := t, pay_rzp := coalesce rzp (pay_rzp r),
        pay_raw := coalesce raw (pay_raw r)\<rparr>)"

definition PaymentRepo_GetByOrderID :: "uuid \<Rightarrow> (db, payment) tx" where
  "PaymentRepo_GetByOrderID ord = tab_latest payments pay_created (\<lambda>r. pay_order r = ord)"

definition PaymentRepo_GetByRazorpayPaymentID :: "string \<Rightarrow> (db, payment) tx" where
  "PaymentRepo_GetByRazorpayPaymentID rzp = tab_select1 payments (\<lambda>r. pay_rzp r = Some rzp)"

section \<open>Refunds and chargebacks (refund\_chargeback.go)\<close>

definition RefundRepo_Create :: "refund \<Rightarrow> (db, refund) tx" where
  "RefundRepo_Create r0 = tab_insert refunds put_refunds
     (\<lambda>i t. r0\<lparr>rf_id := i, rf_status := RefPending, rf_created := t, rf_updated := t\<rparr>)"

definition RefundRepo_UpdateStatus :: "uuid \<Rightarrow> refund_status \<Rightarrow> string option \<Rightarrow> (db, refund) tx" where
  "RefundRepo_UpdateStatus i st rzp = tab_update_now refunds put_refunds (\<lambda>r. rf_id r = i)
     (\<lambda>t r. r\<lparr>rf_status := st, rf_rzp := rzp, rf_updated := t\<rparr>)"

definition RefundRepo_GetByPaymentID :: "uuid \<Rightarrow> (db, refund list) tx" where
  "RefundRepo_GetByPaymentID p =
     tx_gets (\<lambda>s. sort_key (\<lambda>r. - rf_created r) (filter (\<lambda>r. rf_payment r = p) (refunds s)))"

definition RefundRepo_GetByRazorpayRefundID :: "string \<Rightarrow> (db, refund) tx" where
  "RefundRepo_GetByRazorpayRefundID rzp = tab_select1 refunds (\<lambda>r. rf_rzp r = Some rzp)"

definition ChargebackRepo_Create :: "chargeback \<Rightarrow> (db, chargeback) tx" where
  "ChargebackRepo_Create c = tab_insert chargebacks put_chargebacks
     (\<lambda>i t. c\<lparr>cb_id := i, cb_status := CbPending, cb_created := t, cb_updated := t\<rparr>)"

definition ChargebackRepo_UpdateStatus :: "uuid \<Rightarrow> chargeback_status \<Rightarrow> (db, chargeback) tx" where
  "ChargebackRepo_UpdateStatus i st = tab_update_now chargebacks put_chargebacks (\<lambda>r. cb_id r = i)
     (\<lambda>t r. r\<lparr>cb_status := st, cb_updated := t\<rparr>)"

definition ChargebackRepo_GetLatestByPaymentID :: "uuid \<Rightarrow> (db, chargeback) tx" where
  "ChargebackRepo_GetLatestByPaymentID p = tab_latest chargebacks cb_created (\<lambda>r. cb_payment r = p)"

section \<open>Entitlements (entitlement.go)\<close>

definition EntitlementRepo_Create :: "entitlement \<Rightarrow> (db, entitlement) tx" where
  "EntitlementRepo_Create e = tab_insert entitlements put_entitlements
     (\<lambda>i t. e\<lparr>ent_id := i, ent_created := t, ent_updated := t\<rparr>)"

definition EntitlementRepo_Get :: "uuid \<Rightarrow> (db, entitlement) tx" where
  "EntitlementRepo_Get i = tab_select1 entitlements (\<lambda>r. ent_id r = i)"

definition EntitlementRepo_GetByOrderID :: "uuid \<Rightarrow> (db, entitlement) tx" where
  "EntitlementRepo_GetByOrderID ord = tab_select1 entitlements (\<lambda>r. ent_order r = Some ord)"

definition EntitlementRepo_ListByLearner :: "uuid \<Rightarrow> (db, entitlement list) tx" where
  "EntitlementRepo_ListByLearner l =
     tx_gets (\<lambda>s. sort_key (\<lambda>r. - ent_created r) (filter (\<lambda>r. ent_learner r = l) (entitlements s)))"

definition EntitlementRepo_Revoke :: "uuid \<Rightarrow> (db, entitlement) tx" where
  "EntitlementRepo_Revoke i = tab_update_now entitlements put_entitlements (\<lambda>r. ent_id r = i)
     (\<lambda>t r. r\<lparr>ent_status := EntRevoked, ent_updated := t\<rparr>)"

definition EntitlementRepo_Expire :: "uuid \<Rightarrow> (db, entitlement) tx" where
  "EntitlementRepo_Expire i = tab_update_now entitlements put_entitlements (\<lambda>r. ent_id r = i)
     (\<lambda>t r. r\<lparr>ent_status := EntExpired, ent_updated := t\<rparr>)"

definition expires_before :: "time \<Rightarrow> entitlement \<Rightarrow> bool" where
  "expires_before cutoff r \<longleftrightarrow> ent_status r = EntActive \<and>
     (case ent_expires r of None \<Rightarrow> False | Some e \<Rightarrow> e < cutoff)"

definition EntitlementRepo_ListExpiringBefore :: "time \<Rightarrow> (db, entitlement list) tx" where
  "EntitlementRepo_ListExpiringBefore cutoff = tx_gets (\<lambda>s. filter (expires_before cutoff) (entitlements s))"

section \<open>Course access (learner\_course\_access.go)\<close>

definition LearnerCourseAccessRepo_Create ::
  "uuid \<Rightarrow> uuid \<Rightarrow> uuid \<Rightarrow> uuid option \<Rightarrow> (db, course_access) tx" where
  "LearnerCourseAccessRepo_Create org learner course ent = (\<lambda>s.
     if \<exists>r \<in> set (accesses s). acc_learner r = learner \<and> acc_course r = course
     then Inl ErrUniqueViolation
     else tab_insert accesses put_accesses (\<lambda>i t.
       \<lparr>acc_id = i, acc_org = org, acc_learner = learner, acc_course = course,
        acc_entitlement = ent, acc_enrolled = t, acc_status = AccActive\<rparr>) s)"

definition LearnerCourseAccessRepo_Get :: "uuid \<Rightarrow> uuid \<Rightarrow> (db, course_access) tx" where
  "LearnerCourseAccessRepo_Get learner course =
     tab_select1 accesses (\<lambda>r. acc_learner r = learner \<and> acc_course r = course)"

definition LearnerCourseAccessRepo_SetStatus :: "uuid \<Rightarrow> access_status \<Rightarrow> (db, course_access) tx" where
  "LearnerCourseAccessRepo_SetStatus i st = tab_update accesses put_accesses (\<lambda>r. acc_id r = i)
     (\<lambda>r. r\<lparr>acc_status := st\<rparr>)"

definition LearnerCourseAccessRepo_SetEntitlementAndStatus ::
  "uuid \<Rightarrow> uuid option \<Rightarrow> access_status \<Rightarrow> (db, course_access) tx" where
  "LearnerCourseAccessRepo_SetEntitlementAndStatus i ent st =
     tab_update accesses put_accesses (\<lambda>r. acc_id r = i)
       (\<lambda>r. r\<lparr>acc_entitlement := ent, acc_status := st\<rparr>)"

definition LearnerCourseAccessRepo_ListActiveLearnerIDsByCourse :: "uuid \<Rightarrow> (db, uuid list) tx" where
  "LearnerCourseAccessRepo_ListActiveLearnerIDsByCourse course = tx_gets (\<lambda>s.
     map acc_learner (filter (\<lambda>r. acc_course r = course \<and> acc_status r = AccActive) (accesses s)))"

definition LearnerCourseAccessRepo_ListByLearner :: "uuid \<Rightarrow> (db, course_access list) tx" where
  "LearnerCourseAccessRepo_ListByLearner l =
     tx_gets (\<lambda>s. sort_key (\<lambda>r. - acc_enrolled r) (filter (\<lambda>r. acc_learner r = l) (accesses s)))"

section \<open>Webhook events (webhook\_event.go)\<close>

text \<open>
  \<^verbatim>\<open>JSONB\<close> compares the parsed value: numbers by value, objects without member order,
  the last of duplicate members winning.
\<close>

fun jsonb_ins :: "string \<Rightarrow> json \<Rightarrow> (string \<times> json) list \<Rightarrow> (string \<times> json) list" where
  "jsonb_ins k v [] = [(k, v)]"
| "jsonb_ins k v ((k', v') # r) =
     (if k = k' then (k, v) # r
      else if k < k' then (k, v) # (k', v') # r
      else (k', v') # jsonb_ins k v r)"

fun jsonb :: "json \<Rightarrow> json" where
  "jsonb (JInt i) = JDec (of_int i)"
| "jsonb (JArr xs) = JArr (map jsonb xs)"
| "jsonb (JObj kvs) = JObj (fold (\<lambda>(k, v). jsonb_ins k v) (map (\<lambda>(k, v). (k, jsonb v)) kvs) [])"
| "jsonb j = j"

definition WebhookEventRepo_TryRecord :: "string \<Rightarrow> string \<Rightarrow> json \<Rightarrow> (db, bool) tx" where
  "WebhookEventRepo_TryRecord ev ty body = (\<lambda>s.
     if \<exists>r \<in> set (webhook_events s). we_event_id r = ev then Inr (False, s)
     else tx_bind (tab_insert webhook_events put_webhooks (\<lambda>i t.
       \<lparr>we_id = i, we_event_id = ev, we_type = ty, we_payload = jsonb body, we_processed = None,
        we_created = t\<rparr>)) (\<lambda>_. tx_return True) s)"

definition WebhookEventRepo_GetByPayload :: "json \<Rightarrow> (db, webhook_event) tx" where
  "WebhookEventRepo_GetByPayload body =
     tab_latest webhook_events we_created (\<lambda>r. we_payload r = jsonb body)"

definition WebhookEventRepo_MarkProcessed :: "string \<Rightarrow> (db, unit) tx" where
  "WebhookEventRepo_MarkProcessed ev = tx_bind
     (tab_update_now webhook_events put_webhooks (\<lambda>r. we_event_id r = ev)
        (\<lambda>t r. r\<lparr>we_processed := Some t\<rparr>)) (\<lambda>_. tx_return ())"

section \<open>Audit trails, analytics and settings\<close>

definition PaymentAuditRepo_Record :: "payment_audit \<Rightarrow> (db, unit) tx" where
  "PaymentAuditRepo_Record e = tx_modify (\<lambda>s. s\<lparr>audit_trail := audit_trail s @ [e]\<rparr>)"

definition AuditRepo_Record :: "audit_event \<Rightarrow> (db, unit) tx" where
  "AuditRepo_Record e = tx_modify (\<lambda>s. s\<lparr>audit_log := audit_log s @ [e]\<rparr>)"

text \<open>
  \<open>Record\<close> inserts \<^verbatim>\<open>NULLIF($3, '')\<close> and \<^verbatim>\<open>NULLIF($4, '')\<close>, which are text, into two uuid
  columns. Whether the server takes the statement is the argument \<open>takes\<close>: PostgreSQL has no
  assignment cast from text to uuid and refuses it (\<open>takes = False\<close>), every time and for every
  argument. A refused statement aborts the transaction it ran in.
\<close>

definition AnalyticsEventRepo_Record ::
  "bool \<Rightarrow> uuid \<Rightarrow> string \<Rightarrow> uuid option \<Rightarrow> uuid option \<Rightarrow> (db, unit) tx" where
  "AnalyticsEventRepo_Record takes org ty actor course =
     (if takes then tx_modify (\<lambda>s. s\<lparr>analytics := analytics s @
        [\<lparr>an_org = org, an_type = ty, an_actor = actor, an_course = course\<rparr>]\<rparr>)
      else tx_throw ErrStorage)"

definition PlatformSettingsRepo_Get :: "(db, rat) tx" where
  "PlatformSettingsRepo_Get = (\<lambda>s. case commission_percent s of
      None \<Rightarrow> Inl ErrNotFound | Some p \<Rightarrow> Inr (p, s))"

definition PlatformSettingsRepo_Update :: "rat \<Rightarrow> (db, rat) tx" where
  "PlatformSettingsRepo_Update p = (\<lambda>s. case commission_percent s of
      None \<Rightarrow> Inl ErrNotFound | Some _ \<Rightarrow> Inr (p, s\<lparr>commission_percent := Some p\<rparr>))"

definition CourseRepo_Get :: "uuid \<Rightarrow> (db, course) tx" where
  "CourseRepo_Get i = tab_select1 courses (\<lambda>r. c_id r = i)"

text \<open>The repository definitions, for unfolding a whole call.\<close>

lemmas repo_defs =
  OfferRepo_Create_def OfferRepo_Get_def OfferRepo_Update_def OfferRepo_Archive_def
  DiscountCodeRepo_Get_def DiscountCodeRepo_Deactivate_def DiscountCodeRepo_GetByCode_def
  OrderRepo_Create_def OrderRepo_Get_def OrderRepo_UpdateStatus_def OrderRepo_AttachRazorpayOrder_def
  OrderRepo_CountByOfferAndStatus_def OrderRepo_GetByRazorpayOrderID_def
  PaymentRepo_Create_def PaymentRepo_UpdateStatus_def PaymentRepo_GetByOrderID_def
  PaymentRepo_GetByRazorpayPaymentID_def RefundRepo_Create_def RefundRepo_UpdateStatus_def
  RefundRepo_GetByPaymentID_def RefundRepo_GetByRazorpayRefundID_def ChargebackRepo_Create_def
  ChargebackRepo_UpdateStatus_def ChargebackRepo_GetLatestByPaymentID_def EntitlementRepo_Create_def
  EntitlementRepo_Get_def EntitlementRepo_GetByOrderID_def EntitlementRepo_Revoke_def
  EntitlementRepo_Expire_def LearnerCourseAccessRepo_Get_def LearnerCourseAccessRepo_SetStatus_def
  LearnerCourseAccessRepo_SetEntitlementAndStatus_def WebhookEventRepo_GetByPayload_def
  PaymentAuditRepo_Record_def AuditRepo_Record_def AnalyticsEventRepo_Record_def CourseRepo_Get_def
  InviteTokenRepo_MarkUsed_def

end
