(* ===== verification/Money.thy ===== *)
theory Money
  imports Repos
begin

text \<open>
  The price arithmetic of checkout (\<^verbatim>\<open>handlers/commerce_checkout.go\<close>) and of the
  payment worker. Amounts of money are \<^verbatim>\<open>float64\<close> major units at the boundary and
  64-bit minor units inside. \<open>to_int64\<close> is Go's conversion of an integral float; out of
  range it is implementation-defined, here the value amd64 produces.
\<close>

definition to_int64 :: "int \<Rightarrow> int" where
  "to_int64 r = (if - (2 ^ 63) \<le> r \<and> r < 2 ^ 63 then r else - (2 ^ 63))"

definition of_int64 :: "int \<Rightarrow> rat" where
  "of_int64 i = fl (of_int i)"

definition toMinorUnits :: "rat \<Rightarrow> int" where
  "toMinorUnits major = to_int64 (go_round (fmul major 100))"

definition toMajorUnits :: "int \<Rightarrow> rat" where
  "toMajorUnits minor = fdiv (of_int64 minor) 100"

definition minorToMajor :: "int \<Rightarrow> rat" where
  "minorToMajor amount = fdiv (of_int64 amount) 100"

record checkoutPricePreview =
  SubtotalMinor :: int
  DiscountMinor :: int
  TaxMinor :: int
  TotalMinor :: int

definition percent_of_minor :: "int \<Rightarrow> rat \<Rightarrow> int" where
  "percent_of_minor minor pct = to_int64 (go_round (fdiv (fmul (of_int64 minor) pct) 100))"

definition computePricePreview :: "offer \<Rightarrow> discount_code option \<Rightarrow> checkoutPricePreview" where
  "computePricePreview off dc =
     (let sub = toMinorUnits (of_price off);
          d = (case dc of None \<Rightarrow> 0
               | Some c \<Rightarrow>
                   let d0 = (case dc_type c of
                        DiscountPercent \<Rightarrow> percent_of_minor sub (dc_value c)
                      | DiscountFixed \<Rightarrow> toMinorUnits (dc_value c))
                   in if d0 > sub then sub else d0);
          net = int64 (sub - d);
          tax = percent_of_minor net (of_tax_rate off)
      in \<lparr>SubtotalMinor = sub, DiscountMinor = d, TaxMinor = tax, TotalMinor = int64 (net + tax)\<rparr>)"

definition commissionMinor :: "checkoutPricePreview \<Rightarrow> rat \<Rightarrow> int" where
  "commissionMinor p rate = percent_of_minor (int64 (SubtotalMinor p - DiscountMinor p)) rate"

section \<open>Binary rounding does not reach a cent\<close>

text \<open>
  A rounding is trusted with three facts: it is monotone, it keeps the small integers and its
  relative error is at most \<open>2 powi (- 53)\<close>. What checkout needs of its arithmetic follows
  from those alone.
\<close>

locale rounding =
  fixes rd :: "rat \<Rightarrow> rat"
  assumes rd_mono: "x \<le> y \<Longrightarrow> rd x \<le> rd y"
    and rd_int: "\<bar>n\<bar> \<le> 2 ^ 53 \<Longrightarrow> rd (of_int n) = of_int n"
    and rd_error: "\<bar>rd x - x\<bar> \<le> \<bar>x\<bar> / 2 ^ 53"
begin

lemma rd_nonneg: "0 \<le> x \<Longrightarrow> 0 \<le> rd x"
  using rd_mono[of 0 x] rd_int[of 0] by simp

lemma rd_abs_le: "\<bar>rd x\<bar> \<le> \<bar>x\<bar> * (1 + 1 / 2 ^ 53)"
proof -
  have "\<bar>x\<bar> * (1 + 1 / 2 ^ 53) = \<bar>x\<bar> + \<bar>x\<bar> / 2 ^ 53" by (simp add: distrib_left)
  then show ?thesis using rd_error[of x] by linarith
qed

text \<open>Cents survive the trip through a rounded quotient by 100.\<close>

lemma cents_roundtrip:
  assumes n: "\<bar>n\<bar> \<le> 2 ^ 50"
  shows "go_round (rd (rd (of_int n / 100) * 100)) = n"
proof -
  define q where "q = rd (of_int n / 100)"
  define p where "p = rd (q * 100)"
  have N: "\<bar>of_int n :: rat\<bar> \<le> 2 ^ 50"
    using n by (metis of_int_abs of_int_le_iff of_int_numeral of_int_power)
  have q: "\<bar>q - of_int n / 100\<bar> \<le> \<bar>of_int n / 100\<bar> / 2 ^ 53" unfolding q_def by (rule rd_error)
  have p: "\<bar>p - q * 100\<bar> \<le> \<bar>q * 100\<bar> / 2 ^ 53" unfolding p_def by (rule rd_error)
  have "\<bar>of_int n / 100\<bar> / 2 ^ 53 = \<bar>of_int n\<bar> / (100 * 2 ^ 53 :: rat)" by (simp add: abs_divide)
  also have "\<dots> \<le> 2 ^ 50 / (100 * 2 ^ 53)" by (rule divide_right_mono[OF N]) simp
  finally have "\<bar>q - of_int n / 100\<bar> \<le> 1 / 800" using q by simp
  then have e1: "\<bar>q * 100 - of_int n\<bar> \<le> 1 / 8" by linarith
  then have "\<bar>q * 100\<bar> \<le> 2 ^ 50 + 1 / 8" using N by linarith
  then have "\<bar>q * 100\<bar> / 2 ^ 53 \<le> (2 ^ 50 + 1 / 8) / 2 ^ 53" by (rule divide_right_mono) simp
  also have "\<dots> \<le> (1 / 7 :: rat)" by simp
  finally have "\<bar>p - q * 100\<bar> \<le> 1 / 7" using p by linarith
  with e1 have "\<bar>of_int n - p\<bar> < 1 / 2" by linarith
  then show ?thesis by (simp add: go_round_near p_def q_def)
qed

text \<open>A percentage of a non-negative amount is non-negative, at most the amount when it is at
  most 100, and within a cent of the exact share.\<close>

lemma pct_nonneg: "0 \<le> n \<Longrightarrow> 0 \<le> p \<Longrightarrow> 0 \<le> go_round (rd (rd (of_int n * p) / 100))"
  by (intro go_round_nonneg rd_nonneg divide_nonneg_nonneg mult_nonneg_nonneg) auto

lemma pct_le:
  assumes "0 \<le> n" "n \<le> 2 ^ 46" "p \<le> 100"
  shows "go_round (rd (rd (of_int n * p) / 100)) \<le> n"
proof -
  have "rd (of_int n * p) \<le> rd (of_int (n * 100))"
    using assms by (intro rd_mono) (simp add: mult_left_mono)
  also have "\<dots> = of_int (n * 100)" using assms by (intro rd_int) simp
  finally have "rd (of_int n * p) / 100 \<le> of_int n" by simp
  then have "rd (rd (of_int n * p) / 100) \<le> rd (of_int n)" by (rule rd_mono)
  also have "\<dots> = of_int n" using assms by (intro rd_int) simp
  finally show ?thesis using go_round_mono go_round_of_int by metis
qed

lemma pct_error:
  assumes n: "0 \<le> n" "n \<le> 2 ^ 46" and p: "0 \<le> p" "p \<le> 100"
  shows "\<bar>of_int (go_round (rd (rd (of_int n * p) / 100))) - of_int n * p / 100\<bar> \<le> 1 / 2 + 1 / 10"
proof -
  define x where "x = of_int n * p"
  define a where "a = rd x"
  define b where "b = rd (a / 100)"
  have N: "0 \<le> (of_int n :: rat)" "(of_int n :: rat) \<le> 2 ^ 46"
    using n by (simp, metis of_int_le_iff of_int_numeral of_int_power)
  have x: "0 \<le> x" "x \<le> 2 ^ 46 * 100"
    unfolding x_def using N p mult_mono[of "of_int n" "2 ^ 46" p 100] by simp_all
  have a: "\<bar>a - x\<bar> \<le> \<bar>x\<bar> / 2 ^ 53" unfolding a_def by (rule rd_error)
  have "\<bar>x\<bar> / 2 ^ 53 \<le> 2 ^ 46 * 100 / 2 ^ 53" using x by (intro divide_right_mono) auto
  then have a1: "\<bar>a - x\<bar> \<le> 1" using a by simp
  have b: "\<bar>b - a / 100\<bar> \<le> \<bar>a / 100\<bar> / 2 ^ 53" unfolding b_def by (rule rd_error)
  have "\<bar>a / 100\<bar> \<le> 2 ^ 46 + 1" using a1 x by linarith
  then have "\<bar>a / 100\<bar> / 2 ^ 53 \<le> (2 ^ 46 + 1) / 2 ^ 53" by (rule divide_right_mono) simp
  also have "\<dots> \<le> (1 / 100 :: rat)" by simp
  finally have "\<bar>b - a / 100\<bar> \<le> 1 / 100" using b by linarith
  then have "\<bar>b - x / 100\<bar> \<le> 1 / 10" using a1 by linarith
  moreover have "\<bar>of_int (go_round b) - b\<bar> \<le> 1 / 2" by (rule go_round_error)
  ultimately show ?thesis unfolding x_def a_def b_def by linarith
qed

end

interpretation f64: rounding fl
  by (rule rounding.intro) (rule fl_mono, assumption, rule fl_of_int, assumption, rule fl_error)

section \<open>Facts of the price functions\<close>

definition cents :: "int \<Rightarrow> rat" where
  "cents n = fl (of_int n / 100)"

lemma of_int64_small [simp]: "\<bar>n\<bar> \<le> 2 ^ 53 \<Longrightarrow> of_int64 n = of_int n"
  by (simp add: of_int64_def)

lemma to_int64_small [simp]: "\<bar>n\<bar> \<le> 2 ^ 53 \<Longrightarrow> to_int64 n = n"
  unfolding to_int64_def by (auto simp: abs_le_iff)

lemma toMajorUnits_cents: "\<bar>n\<bar> \<le> 2 ^ 53 \<Longrightarrow> toMajorUnits n = cents n"
  by (simp add: toMajorUnits_def cents_def)

lemma toMinorUnits_cents: "\<bar>n\<bar> \<le> 2 ^ 50 \<Longrightarrow> toMinorUnits (cents n) = n"
  by (simp add: toMinorUnits_def cents_def f64.cents_roundtrip)

lemma percent_of_minor_bounds:
  assumes "0 \<le> n" "n \<le> 2 ^ 46" "0 \<le> p" "p \<le> 100"
  shows "0 \<le> percent_of_minor n p" "percent_of_minor n p \<le> n"
    "\<bar>of_int (percent_of_minor n p) - of_int n * p / 100\<bar> \<le> (3 / 5 :: rat)"
proof -
  define g where "g = go_round (fl (fl (of_int n * p) / 100))"
  have g: "0 \<le> g" "g \<le> n" "\<bar>of_int g - of_int n * p / 100\<bar> \<le> (3 / 5 :: rat)"
    unfolding g_def
    using f64.pct_nonneg[of n p] f64.pct_le[of n p] f64.pct_error[of n p] assms by auto
  have "percent_of_minor n p = g" using assms g by (simp add: percent_of_minor_def g_def[symmetric])
  then show "0 \<le> percent_of_minor n p" "percent_of_minor n p \<le> n"
    "\<bar>of_int (percent_of_minor n p) - of_int n * p / 100\<bar> \<le> (3 / 5 :: rat)"
    using g by simp_all
qed

section \<open>The price preview\<close>

text \<open>
  C11: for a price of a whole number of cents from 0 to 10^13, a tax rate from 0 to 100 percent,
  and no discount, a percentage from 0 to 100, or a fixed amount of a whole number of cents from
  0 to 10^13, the preview keeps the price, never discounts below zero, charges at most the net
  amount as tax and within a cent of the exact share, adds up to its total, and the total
  survives the conversion to major units and back that CreateOrder makes before charging it, all
  under binary64 rounding. These bounds are assumptions: the offer handlers do not check the tax
  rate, and of a price they check at most the sign.
\<close>

theorem price_preview_correct:
  assumes price: "of_price off = cents P" "0 \<le> P" "P \<le> 10 ^ 13"
    and tax: "0 \<le> of_tax_rate off" "of_tax_rate off \<le> 100"
    and dc: "\<And>c. dc = Some c \<Longrightarrow> (dc_type c = DiscountPercent \<and> 0 \<le> dc_value c \<and> dc_value c \<le> 100) \<or>
               (dc_type c = DiscountFixed \<and> (\<exists>D. dc_value c = cents D \<and> 0 \<le> D \<and> D \<le> 10 ^ 13))"
  shows "let p = computePricePreview off dc; D = DiscountMinor p; T = TaxMinor p in
     SubtotalMinor p = P \<and> 0 \<le> D \<and> D \<le> P \<and> 0 \<le> T \<and> T \<le> P - D \<and> TotalMinor p = P - D + T \<and>
     \<bar>of_int T - of_int (P - D) * of_tax_rate off / 100\<bar> \<le> (3 / 5 :: rat) \<and>
     toMinorUnits (toMajorUnits (TotalMinor p)) = TotalMinor p"
proof -
  have sub: "toMinorUnits (of_price off) = P" using price by (simp add: toMinorUnits_cents)
  define D where "D = DiscountMinor (computePricePreview off dc)"
  have D: "0 \<le> D \<and> D \<le> P"
  proof (cases dc)
    case None
    then show ?thesis using price by (simp add: D_def computePricePreview_def Let_def)
  next
    case (Some c)
    from dc[OF Some] show ?thesis
    proof
      assume "dc_type c = DiscountPercent \<and> 0 \<le> dc_value c \<and> dc_value c \<le> 100"
      then show ?thesis
        using percent_of_minor_bounds(1,2)[of P "dc_value c"] price(2,3)
        by (simp add: D_def computePricePreview_def Let_def sub Some)
    next
      assume "dc_type c = DiscountFixed \<and> (\<exists>D. dc_value c = cents D \<and> 0 \<le> D \<and> D \<le> 10 ^ 13)"
      then show ?thesis
        using price(2,3) by (auto simp: D_def computePricePreview_def Let_def sub Some toMinorUnits_cents)
    qed
  qed
  define T where "T = percent_of_minor (P - D) (of_tax_rate off)"
  have T: "0 \<le> T" "T \<le> P - D" "\<bar>of_int T - of_int (P - D) * of_tax_rate off / 100\<bar> \<le> (3 / 5 :: rat)"
    unfolding T_def using percent_of_minor_bounds[of "P - D" "of_tax_rate off"] D price tax by auto
  have p: "computePricePreview off dc = \<lparr>SubtotalMinor = P, DiscountMinor = D, TaxMinor = T, TotalMinor = P - D + T\<rparr>"
    using D T price(2,3) by (auto simp: D_def T_def computePricePreview_def Let_def sub)
  have tot: "\<bar>P - D + T\<bar> \<le> 2 ^ 50" using D T price by auto
  then have "toMinorUnits (toMajorUnits (P - D + T)) = P - D + T"
    using toMinorUnits_cents[OF tot] toMajorUnits_cents[of "P - D + T"] by simp
  then show ?thesis using D T by (simp add: p Let_def)
qed

text \<open>
  the platform's commission is never negative and never more than the discounted pre-tax
  amount it is taken from.
\<close>

theorem commission_bounds:
  assumes "0 \<le> DiscountMinor p" "DiscountMinor p \<le> SubtotalMinor p" "SubtotalMinor p \<le> 2 ^ 46"
    and "0 \<le> rate" "rate \<le> 100"
  shows "0 \<le> commissionMinor p rate \<and> commissionMinor p rate \<le> SubtotalMinor p - DiscountMinor p"
  using percent_of_minor_bounds(1,2)[of "SubtotalMinor p - DiscountMinor p" rate] assms
  by (simp add: commissionMinor_def)

text \<open>The float product can fall below a half cent that the exact product reaches: 16.15\% of
  10.00 is 1.615, which rounds to 1.62, and the code charges 1.61.\<close>

lemma tax_rounds_down: "percent_of_minor 1000 (cents 1615) = 161"
  unfolding percent_of_minor_def cents_def by code_simp

lemma tax_exact_share: "go_round (1000 * (1615 / 100) / 100) = 162"
  by code_simp

end
