(* ===== verification/RazorpayJson.thy ===== *)
theory RazorpayJson
  imports Money
begin

text \<open>
  \<^verbatim>\<open>encoding/json\<close> into the structs of the Razorpay code. A member fills a field when
  their names are equal up to case; members are taken in order, so the last one wins;
  \<^verbatim>\<open>null\<close> leaves a string or number alone, empties a map and is kept verbatim by a
  \<^verbatim>\<open>json.RawMessage\<close>; any other value of the wrong kind is an error. (Go also folds two
  non-ASCII letters onto \<^verbatim>\<open>k\<close> and \<^verbatim>\<open>s\<close>; strings here are ASCII.)
\<close>

definition lower_char :: "char \<Rightarrow> char" where
  "lower_char c = (let n = of_char c :: nat in if 65 \<le> n \<and> n \<le> 90 then char_of (n + 32) else c)"

definition key_eq :: "string \<Rightarrow> string \<Rightarrow> bool" where
  "key_eq k n \<longleftrightarrow> map lower_char k = map lower_char n"

definition json_members :: "json \<Rightarrow> err + (string \<times> json) list" where
  "json_members j = (case j of JObj kvs \<Rightarrow> Inr kvs | JNull \<Rightarrow> Inr [] | _ \<Rightarrow> Inl ErrUnmarshal)"

fun dec_field :: "(json \<Rightarrow> 'a \<Rightarrow> err + 'a) \<Rightarrow> string \<Rightarrow> (string \<times> json) list \<Rightarrow> 'a \<Rightarrow> err + 'a" where
  "dec_field d n [] a = Inr a"
| "dec_field d n ((k, j) # r) a =
     (if key_eq k n then (case d j a of Inl e \<Rightarrow> Inl e | Inr b \<Rightarrow> dec_field d n r b)
      else dec_field d n r a)"

definition dec_string :: "json \<Rightarrow> string \<Rightarrow> err + string" where
  "dec_string j a = (case j of JNull \<Rightarrow> Inr a | JStr s \<Rightarrow> Inr s | _ \<Rightarrow> Inl ErrUnmarshal)"

definition dec_int64 :: "json \<Rightarrow> int \<Rightarrow> err + int" where
  "dec_int64 j a = (case j of JNull \<Rightarrow> Inr a
     | JInt i \<Rightarrow> if - (2 ^ 63) \<le> i \<and> i < 2 ^ 63 then Inr i else Inl ErrUnmarshal
     | _ \<Rightarrow> Inl ErrUnmarshal)"

definition dec_map :: "json \<Rightarrow> (string \<times> json) list \<Rightarrow> err + (string \<times> json) list" where
  "dec_map j a = (case j of JNull \<Rightarrow> Inr [] | JObj kvs \<Rightarrow> Inr (a @ kvs) | _ \<Rightarrow> Inl ErrUnmarshal)"

definition dec_raw :: "json \<Rightarrow> json option \<Rightarrow> err + json option" where
  "dec_raw j a = Inr (Some j)"

text \<open>A decoded map: the last member of a name is its value.\<close>

definition map_get :: "(string \<times> json) list \<Rightarrow> string \<Rightarrow> json option" where
  "map_get m k = map_of (rev m) k"

section \<open>The worker's views of a delivery (worker/payments.go)\<close>

type_synonym webhook_body = "(string \<times> json) list"

definition razorpayWebhookBody :: "json \<Rightarrow> err + webhook_body" where
  "razorpayWebhookBody j = (case json_members j of Inl e \<Rightarrow> Inl e
     | Inr kvs \<Rightarrow> dec_field dec_map ''payload'' kvs [])"

definition extractEntity :: "webhook_body \<Rightarrow> string \<Rightarrow> json option" where
  "extractEntity body key = (case map_get body key of None \<Rightarrow> None
     | Some raw \<Rightarrow> (case json_members raw of Inl _ \<Rightarrow> None
         | Inr kvs \<Rightarrow> (case dec_field dec_raw ''entity'' kvs None of Inl _ \<Rightarrow> None | Inr r \<Rightarrow> r)))"

record payment_entity =
  pe_id :: string
  pe_order_id :: string
  pe_amount :: int

definition razorpayPaymentEntity :: "json \<Rightarrow> err + payment_entity" where
  "razorpayPaymentEntity j = (case json_members j of Inl e \<Rightarrow> Inl e | Inr kvs \<Rightarrow>
     (case (dec_field dec_string ''id'' kvs [], dec_field dec_string ''order_id'' kvs [],
            dec_field dec_int64 ''amount'' kvs 0) of
        (Inr i, Inr p, Inr a) \<Rightarrow> Inr \<lparr>pe_id = i, pe_order_id = p, pe_amount = a\<rparr>
      | _ \<Rightarrow> Inl ErrUnmarshal))"

record refund_entity =
  re_id :: string
  re_payment_id :: string
  re_amount :: int

definition razorpayRefundEntity :: "json \<Rightarrow> err + refund_entity" where
  "razorpayRefundEntity j = (case json_members j of Inl e \<Rightarrow> Inl e | Inr kvs \<Rightarrow>
     (case (dec_field dec_string ''id'' kvs [], dec_field dec_string ''payment_id'' kvs [],
            dec_field dec_int64 ''amount'' kvs 0) of
        (Inr i, Inr p, Inr a) \<Rightarrow> Inr \<lparr>re_id = i, re_payment_id = p, re_amount = a\<rparr>
      | _ \<Rightarrow> Inl ErrUnmarshal))"

record dispute_entity =
  de_id :: string
  de_payment_id :: string
  de_amount :: int
  de_reason :: string

definition razorpayDisputeEntity :: "json \<Rightarrow> err + dispute_entity" where
  "razorpayDisputeEntity j = (case json_members j of Inl e \<Rightarrow> Inl e | Inr kvs \<Rightarrow>
     (case (dec_field dec_string ''id'' kvs [], dec_field dec_string ''payment_id'' kvs [],
            dec_field dec_int64 ''amount'' kvs 0, dec_field dec_string ''reason_code'' kvs []) of
        (Inr i, Inr p, Inr a, Inr c) \<Rightarrow>
          Inr \<lparr>de_id = i, de_payment_id = p, de_amount = a, de_reason = c\<rparr>
      | _ \<Rightarrow> Inl ErrUnmarshal))"

section \<open>The HTTP handler's view of a delivery (handlers/webhooks.go)\<close>

record envelope =
  env_event :: string
  env_created :: int
  env_payload :: webhook_body

definition razorpayWebhookEnvelope :: "json \<Rightarrow> err + envelope" where
  "razorpayWebhookEnvelope j = (case json_members j of Inl e \<Rightarrow> Inl e | Inr kvs \<Rightarrow>
     (case (dec_field dec_string ''event'' kvs [], dec_field dec_int64 ''created_at'' kvs 0,
            dec_field dec_map ''payload'' kvs []) of
        (Inr e, Inr c, Inr p) \<Rightarrow> Inr \<lparr>env_event = e, env_created = c, env_payload = p\<rparr>
      | _ \<Rightarrow> Inl ErrUnmarshal))"

text \<open>\<^verbatim>\<open>razorpayEntityPayload\<close>: the \<^verbatim>\<open>entity.id\<close> of one payload value, the struct of
  \<^verbatim>\<open>entity\<close> being decoded in place.\<close>

definition dec_entity_id :: "json \<Rightarrow> string \<Rightarrow> err + string" where
  "dec_entity_id j a = (case json_members j of Inl e \<Rightarrow> Inl e
     | Inr kvs \<Rightarrow> dec_field dec_string ''id'' kvs a)"

definition razorpayEntityPayload :: "json \<Rightarrow> err + string" where
  "razorpayEntityPayload j = (case json_members j of Inl e \<Rightarrow> Inl e
     | Inr kvs \<Rightarrow> dec_field dec_entity_id ''entity'' kvs [])"

section \<open>Facts of the decoders\<close>

lemma key_eq_refl [simp]: "key_eq k k"
  by (simp add: key_eq_def)

lemma map_get_Nil [simp]: "map_get [] k = None"
  by (simp add: map_get_def)

lemma map_get_snoc [simp]: "map_get (m @ [(k, v)]) k' = (if k' = k then Some v else map_get m k')"
  by (simp add: map_get_def)

end
