(* ===== verification/CommerceInv.thy ===== *)
theory CommerceInv
  imports Repos
begin

text \<open>
  The invariants of the commerce tables and the proof that each repository method keeps them,
  from which the handlers and jobs inherit them. \<open>tables_ok\<close> collects the key and
  uniqueness constraints. The others are the promises of the commerce domain: \<open>grants_ok V\<close>
  (an entitlement of an order exists only for a free offer or an order whose Razorpay id is in
  \<open>V\<close>, the ids of verified captures), \<open>pointers_ok\<close> and \<open>access_sound\<close> (an active access row
  never rests on a revoked or expired entitlement), \<open>succeeded_granted\<close> (a succeeded order has
  its entitlement) and \<open>caps_ok\<close> (a discount code is not redeemed past its cap). The versions
  with an exception hold between two writes of one transaction.
\<close>

section \<open>The invariants\<close>

definition tables_ok :: "db \<Rightarrow> bool" where
  "tables_ok s \<longleftrightarrow> keyed_ok orders ord_id s \<and> keyed_ok offers of_id s \<and> keyed_ok payments pay_id s \<and>
     keyed_ok refunds rf_id s \<and> keyed_ok entitlements ent_id s \<and> keyed_ok accesses acc_id s \<and>
     keyed_ok discount_codes dc_id s \<and>
     distinct (map (\<lambda>r. (acc_learner r, acc_course r)) (accesses s)) \<and>
     distinct (map we_event_id (webhook_events s)) \<and>
     distinct (map (\<lambda>r. (dc_offer r, dc_code r)) (discount_codes s)) \<and>
     (\<forall>e \<in> set (entitlements s). \<forall>i. ent_order e = Some i \<longrightarrow> i < next_id s)"

definition paid_order :: "uuid \<Rightarrow> string \<Rightarrow> db \<Rightarrow> bool" where
  "paid_order i r s \<longleftrightarrow> (\<exists>x \<in> set (orders s). ord_id x = i \<and> ord_rzp x = Some r)"

definition free_order :: "uuid \<Rightarrow> db \<Rightarrow> bool" where
  "free_order i s \<longleftrightarrow> (\<exists>x \<in> set (orders s). ord_id x = i \<and>
     (\<exists>f \<in> set (offers s). of_id f = ord_offer x \<and> of_type f = Free))"

definition grants_ok :: "string set \<Rightarrow> db \<Rightarrow> bool" where
  "grants_ok V s \<longleftrightarrow> (\<forall>e \<in> set (entitlements s). \<forall>i. ent_order e = Some i \<longrightarrow>
     free_order i s \<or> (\<exists>r \<in> V. paid_order i r s))"

definition pointers_ok :: "db \<Rightarrow> bool" where
  "pointers_ok s \<longleftrightarrow> (\<forall>a \<in> set (accesses s). \<forall>i. acc_entitlement a = Some i \<longrightarrow>
     (\<exists>e \<in> set (entitlements s). ent_id e = i \<and> ent_learner e = acc_learner a \<and> ent_course e = acc_course a))"

definition access_sound_except :: "(uuid \<times> uuid) set \<Rightarrow> db \<Rightarrow> bool" where
  "access_sound_except X s \<longleftrightarrow> (\<forall>a \<in> set (accesses s). \<forall>e \<in> set (entitlements s).
     (acc_learner a, acc_course a) \<notin> X \<longrightarrow> acc_status a = AccActive \<longrightarrow>
     acc_entitlement a = Some (ent_id e) \<longrightarrow> ent_status e = EntActive)"

abbreviation access_sound :: "db \<Rightarrow> bool" where "access_sound \<equiv> access_sound_except {}"

definition succeeded_granted_except :: "uuid set \<Rightarrow> db \<Rightarrow> bool" where
  "succeeded_granted_except X s \<longleftrightarrow> (\<forall>x \<in> set (orders s).
     ord_status x = OrdSucceeded \<longrightarrow> ord_id x \<notin> X \<longrightarrow>
     (\<exists>e \<in> set (entitlements s). ent_order e = Some (ord_id x)))"

abbreviation succeeded_granted :: "db \<Rightarrow> bool" where "succeeded_granted \<equiv> succeeded_granted_except {}"

definition caps_ok :: "db \<Rightarrow> bool" where
  "caps_ok s \<longleftrightarrow> (\<forall>c \<in> set (discount_codes s). \<forall>m. dc_max c = Some m \<longrightarrow> 0 \<le> m \<longrightarrow> dc_count c \<le> m)"

definition commerce_ok :: "string set \<Rightarrow> (uuid \<times> uuid) set \<Rightarrow> uuid set \<Rightarrow> db \<Rightarrow> bool" where
  "commerce_ok V X Y s \<longleftrightarrow> tables_ok s \<and> grants_ok V s \<and> pointers_ok s \<and>
     access_sound_except X s \<and> succeeded_granted_except Y s \<and> caps_ok s"

lemmas inv_defs = tables_ok_def keyed_ok_def grants_ok_def pointers_ok_def access_sound_except_def
  succeeded_granted_except_def caps_ok_def free_order_def paid_order_def

lemma tx_pres_conj: "tx_pres I m \<Longrightarrow> tx_pres J m \<Longrightarrow> tx_pres (\<lambda>s. I s \<and> J s) m"
  by (auto simp: tx_post_def)

text \<open>A transaction that keeps the tables an invariant reads keeps the invariant.\<close>

definition same_commerce :: "db \<Rightarrow> db \<Rightarrow> bool" where
  "same_commerce s s' \<longleftrightarrow> orders s' = orders s \<and> offers s' = offers s \<and> payments s' = payments s \<and>
     refunds s' = refunds s \<and> entitlements s' = entitlements s \<and> accesses s' = accesses s \<and>
     discount_codes s' = discount_codes s \<and> map we_event_id (webhook_events s') = map we_event_id (webhook_events s) \<and>
     next_id s \<le> next_id s'"

lemma same_commerce_ok: "same_commerce s s' \<Longrightarrow> commerce_ok V X Y s \<Longrightarrow> commerce_ok V X Y s'"
  unfolding commerce_ok_def inv_defs same_commerce_def by (auto 0 3 intro: less_le_trans)

lemma same_commerce_pres:
  "(\<And>s r s'. m s = Inr (r, s') \<Longrightarrow> same_commerce s s') \<Longrightarrow> tx_pres (commerce_ok V X Y) m"
  by (auto simp: tx_post_def intro: same_commerce_ok)

section \<open>Writes to one table\<close>

lemma map_fst_upd: "(\<And>r. k (f r) = k r) \<Longrightarrow> map k (map f xs) = map k xs"
  by simp

lemma keyed_ok_map:
  "keyed_ok get k s \<Longrightarrow> (\<And>r. k (f r) = k r) \<Longrightarrow> get s' = map f (get s) \<Longrightarrow> next_id s' = next_id s \<Longrightarrow>
    keyed_ok get k s'"
  by (simp add: keyed_ok_def comp_def)

lemma keyed_ok_append:
  "keyed_ok get k s \<Longrightarrow> k r = next_id s \<Longrightarrow> get s' = get s @ [r] \<Longrightarrow> next_id s' = Suc (next_id s) \<Longrightarrow>
    keyed_ok get k s'"
  by (auto simp: keyed_ok_def less_Suc_eq)

lemma keyed_ok_frame:
  "keyed_ok get k s \<Longrightarrow> get s' = get s \<Longrightarrow> next_id s \<le> next_id s' \<Longrightarrow> keyed_ok get k s'"
  by (auto simp: keyed_ok_def)

text \<open>The order-related invariants need, of a rewritten order, its key, offer and provider id.\<close>

definition order_kept :: "uuid set \<Rightarrow> (order \<Rightarrow> order) \<Rightarrow> bool" where
  "order_kept Y f \<longleftrightarrow> (\<forall>r. ord_id (f r) = ord_id r \<and> ord_offer (f r) = ord_offer r \<and>
     (\<forall>z. ord_rzp r = Some z \<longrightarrow> ord_rzp (f r) = Some z) \<and>
     (ord_status (f r) = OrdSucceeded \<longrightarrow> ord_status r = OrdSucceeded \<or> ord_id r \<in> Y))"

lemma orders_map_ok:
  assumes ok: "commerce_ok V X Y s" and f: "order_kept Y f"
  shows "commerce_ok V X Y (s\<lparr>orders := map f (orders s)\<rparr>)"
proof -
  have id: "\<And>r. ord_id (f r) = ord_id r" using f by (simp add: order_kept_def)
  have paid: "paid_order i z s \<Longrightarrow> paid_order i z (s\<lparr>orders := map f (orders s)\<rparr>)" for i z
    using f by (auto simp: paid_order_def order_kept_def)
  have free: "free_order i s \<Longrightarrow> free_order i (s\<lparr>orders := map f (orders s)\<rparr>)" for i
    using f by (auto simp: free_order_def order_kept_def)
  have "tables_ok (s\<lparr>orders := map f (orders s)\<rparr>)"
    using ok id by (simp add: commerce_ok_def tables_ok_def keyed_ok_def comp_def)
  moreover have "grants_ok V (s\<lparr>orders := map f (orders s)\<rparr>)"
    using ok paid free by (fastforce simp: commerce_ok_def grants_ok_def)
  moreover have "succeeded_granted_except Y (s\<lparr>orders := map f (orders s)\<rparr>)"
    using ok f by (fastforce simp: commerce_ok_def succeeded_granted_except_def order_kept_def)
  ultimately show ?thesis
    using ok by (simp add: commerce_ok_def pointers_ok_def access_sound_except_def caps_ok_def)
qed

lemma orders_append_ok:
  assumes ok: "commerce_ok V X Y s" and r: "ord_id r = next_id s" "ord_status r \<noteq> OrdSucceeded"
  shows "commerce_ok V X Y (s\<lparr>next_id := Suc (next_id s), orders := orders s @ [r]\<rparr>)"
proof -
  let ?s = "s\<lparr>next_id := Suc (next_id s), orders := orders s @ [r]\<rparr>"
  have "tables_ok ?s" using ok r by (auto simp: commerce_ok_def tables_ok_def keyed_ok_def less_Suc_eq)
  moreover have "grants_ok V ?s"
    using ok by (fastforce simp: commerce_ok_def grants_ok_def paid_order_def free_order_def)
  ultimately show ?thesis
    using ok r by (auto simp: commerce_ok_def pointers_ok_def access_sound_except_def caps_ok_def
        succeeded_granted_except_def)
qed

lemma offers_map_ok:
  assumes ok: "commerce_ok V X Y s" and f: "\<And>r. of_id (f r) = of_id r \<and> of_type (f r) = of_type r"
  shows "commerce_ok V X Y (s\<lparr>offers := map f (offers s)\<rparr>)"
proof -
  have free: "free_order i s \<Longrightarrow> free_order i (s\<lparr>offers := map f (offers s)\<rparr>)" for i
    using f by (fastforce simp: free_order_def)
  have "tables_ok (s\<lparr>offers := map f (offers s)\<rparr>)"
    using ok f by (simp add: commerce_ok_def tables_ok_def keyed_ok_def comp_def)
  moreover have "grants_ok V (s\<lparr>offers := map f (offers s)\<rparr>)"
    using ok free by (fastforce simp: commerce_ok_def grants_ok_def paid_order_def)
  ultimately show ?thesis
    using ok by (simp add: commerce_ok_def pointers_ok_def access_sound_except_def caps_ok_def
        succeeded_granted_except_def)
qed

lemma offers_append_ok:
  assumes ok: "commerce_ok V X Y s" and r: "of_id r = next_id s"
  shows "commerce_ok V X Y (s\<lparr>next_id := Suc (next_id s), offers := offers s @ [r]\<rparr>)"
proof -
  let ?s = "s\<lparr>next_id := Suc (next_id s), offers := offers s @ [r]\<rparr>"
  have "tables_ok ?s" using ok r by (auto simp: commerce_ok_def tables_ok_def keyed_ok_def less_Suc_eq)
  moreover have "grants_ok V ?s"
    using ok by (fastforce simp: commerce_ok_def grants_ok_def paid_order_def free_order_def)
  ultimately show ?thesis
    using ok r by (auto simp: commerce_ok_def pointers_ok_def access_sound_except_def caps_ok_def
        succeeded_granted_except_def)
qed

lemma payments_append_ok:
  "commerce_ok V X Y s \<Longrightarrow> pay_id r = next_id s \<Longrightarrow>
    commerce_ok V X Y (s\<lparr>next_id := Suc (next_id s), payments := payments s @ [r]\<rparr>)"
  unfolding commerce_ok_def inv_defs by (auto simp: less_Suc_eq)

lemma payments_map_ok:
  "commerce_ok V X Y s \<Longrightarrow> (\<And>r. pay_id (f r) = pay_id r) \<Longrightarrow>
    commerce_ok V X Y (s\<lparr>payments := map f (payments s)\<rparr>)"
  unfolding commerce_ok_def inv_defs by (simp add: comp_def)

lemma refunds_append_ok:
  "commerce_ok V X Y s \<Longrightarrow> rf_id r = next_id s \<Longrightarrow>
    commerce_ok V X Y (s\<lparr>next_id := Suc (next_id s), refunds := refunds s @ [r]\<rparr>)"
  unfolding commerce_ok_def inv_defs by (auto simp: less_Suc_eq)

lemma refunds_map_ok:
  "commerce_ok V X Y s \<Longrightarrow> (\<And>r. rf_id (f r) = rf_id r) \<Longrightarrow>
    commerce_ok V X Y (s\<lparr>refunds := map f (refunds s)\<rparr>)"
  unfolding commerce_ok_def inv_defs by (simp add: comp_def)

lemma codes_append_ok:
  "commerce_ok V X Y s \<Longrightarrow> dc_id r = next_id s \<Longrightarrow> dc_count r = 0 \<Longrightarrow>
    (\<forall>c \<in> set (discount_codes s). \<not> (dc_offer c = dc_offer r \<and> dc_code c = dc_code r)) \<Longrightarrow>
    commerce_ok V X Y (s\<lparr>next_id := Suc (next_id s), discount_codes := discount_codes s @ [r]\<rparr>)"
  unfolding commerce_ok_def inv_defs by (auto simp: less_Suc_eq)

lemma codes_map_ok:
  "commerce_ok V X Y s \<Longrightarrow> (\<And>r. dc_id (f r) = dc_id r \<and> dc_offer (f r) = dc_offer r \<and>
      dc_code (f r) = dc_code r \<and> dc_max (f r) = dc_max r) \<Longrightarrow>
    (\<And>r m. dc_max r = Some m \<Longrightarrow> 0 \<le> m \<Longrightarrow> dc_count r \<le> m \<Longrightarrow> dc_count (f r) \<le> m) \<Longrightarrow>
    commerce_ok V X Y (s\<lparr>discount_codes := map f (discount_codes s)\<rparr>)"
  unfolding commerce_ok_def inv_defs by (auto simp: comp_def)

lemma webhooks_append_ok:
  "commerce_ok V X Y s \<Longrightarrow> we_event_id r \<notin> we_event_id ` set (webhook_events s) \<Longrightarrow>
    commerce_ok V X Y (s\<lparr>next_id := Suc (next_id s), webhook_events := webhook_events s @ [r]\<rparr>)"
  unfolding commerce_ok_def inv_defs by (auto simp: less_Suc_eq)

text \<open>A new entitlement discharges its order's exception.\<close>

lemma entitlements_append_ok:
  assumes ok: "commerce_ok V X Y s"
    and e: "ent_id e = next_id s" "ent_status e = EntActive"
    and o': "\<And>i. ent_order e = Some i \<Longrightarrow> i < next_id s \<and> (free_order i s \<or> (\<exists>r \<in> V. paid_order i r s))"
  shows "commerce_ok V X (Y - set_option (ent_order e))
    (s\<lparr>next_id := Suc (next_id s), entitlements := entitlements s @ [e]\<rparr>)"
proof -
  let ?s = "s\<lparr>next_id := Suc (next_id s), entitlements := entitlements s @ [e]\<rparr>"
  have tab: "tables_ok ?s"
    using ok e o' by (auto simp: commerce_ok_def tables_ok_def keyed_ok_def less_Suc_eq)
  have gr: "grants_ok V ?s"
    using ok o' by (fastforce simp: commerce_ok_def grants_ok_def paid_order_def free_order_def)
  have pt: "pointers_ok ?s"
    using ok by (fastforce simp: commerce_ok_def pointers_ok_def)
  have snd: "access_sound_except X ?s"
    using ok e by (auto simp: commerce_ok_def access_sound_except_def)
  have suc: "succeeded_granted_except (Y - set_option (ent_order e)) ?s"
    using ok by (auto simp: commerce_ok_def succeeded_granted_except_def)
  have "caps_ok ?s" using ok by (simp add: commerce_ok_def caps_ok_def)
  with tab gr pt snd suc show ?thesis by (simp add: commerce_ok_def)
qed

lemma entitlements_map_ok:
  assumes ok: "commerce_ok V X Y s"
    and f: "\<And>r. ent_id (f r) = ent_id r \<and> ent_order (f r) = ent_order r \<and> ent_learner (f r) = ent_learner r \<and>
              ent_course (f r) = ent_course r"
    and st: "\<And>r. r \<in> set (entitlements s) \<Longrightarrow> ent_status r = EntActive \<Longrightarrow>
              ent_status (f r) = EntActive \<or> (ent_learner r, ent_course r) \<in> X"
  shows "commerce_ok V X Y (s\<lparr>entitlements := map f (entitlements s)\<rparr>)"
proof -
  let ?s = "s\<lparr>entitlements := map f (entitlements s)\<rparr>"
  have tab: "tables_ok ?s" using ok f by (auto simp: commerce_ok_def tables_ok_def keyed_ok_def comp_def)
  have gr: "grants_ok V ?s"
    using ok f by (auto simp: commerce_ok_def grants_ok_def paid_order_def free_order_def)
  have pt: "pointers_ok ?s"
    using ok f by (fastforce simp: commerce_ok_def pointers_ok_def)
  have snd: "access_sound_except X ?s"
    unfolding access_sound_except_def
  proof (intro ballI impI)
    fix a e assume a: "a \<in> set (accesses ?s)" and "e \<in> set (entitlements ?s)"
      and x: "(acc_learner a, acc_course a) \<notin> X" and act: "acc_status a = AccActive"
      and p: "acc_entitlement a = Some (ent_id e)"
    then obtain r where r: "r \<in> set (entitlements s)" "e = f r" by auto
    have p': "acc_entitlement a = Some (ent_id r)" using p f r by simp
    have "ent_status r = EntActive"
      using ok a r x act p' by (auto simp: commerce_ok_def access_sound_except_def)
    moreover obtain e2 where e2: "e2 \<in> set (entitlements s)" "ent_id e2 = ent_id r"
        "ent_learner e2 = acc_learner a" "ent_course e2 = acc_course a"
      using ok a p' by (auto simp: commerce_ok_def pointers_ok_def)
    moreover have "e2 = r"
      using ok e2 r by (auto simp: commerce_ok_def tables_ok_def keyed_ok_def distinct_map inj_on_def)
    ultimately show "ent_status e = EntActive" using st[OF r(1)] x r(2) by auto
  qed
  have suc: "succeeded_granted_except Y ?s"
    using ok f by (fastforce simp: commerce_ok_def succeeded_granted_except_def)
  have "caps_ok ?s" using ok by (simp add: commerce_ok_def caps_ok_def)
  with tab gr pt snd suc show ?thesis by (simp add: commerce_ok_def)
qed

text \<open>The entitlement \<open>i\<close> of a learner for a course is active.\<close>

definition active_ent :: "uuid \<Rightarrow> uuid \<Rightarrow> uuid \<Rightarrow> db \<Rightarrow> bool" where
  "active_ent i l c s \<longleftrightarrow> (\<exists>e \<in> set (entitlements s). ent_id e = i \<and> ent_learner e = l \<and>
     ent_course e = c \<and> ent_status e = EntActive)"

lemma active_ent_unique:
  "commerce_ok V X Y s \<Longrightarrow> active_ent i l c s \<Longrightarrow> e \<in> set (entitlements s) \<Longrightarrow> ent_id e = i \<Longrightarrow>
    ent_learner e = l \<and> ent_course e = c \<and> ent_status e = EntActive"
  by (auto simp: active_ent_def commerce_ok_def tables_ok_def keyed_ok_def distinct_map inj_on_def)

lemma accesses_append_ok:
  assumes ok: "commerce_ok V X Y s" and r: "acc_id r = next_id s"
    and new: "\<forall>a \<in> set (accesses s). \<not> (acc_learner a = acc_learner r \<and> acc_course a = acc_course r)"
    and ent: "\<And>i. acc_entitlement r = Some i \<Longrightarrow> active_ent i (acc_learner r) (acc_course r) s"
  shows "commerce_ok V X Y (s\<lparr>next_id := Suc (next_id s), accesses := accesses s @ [r]\<rparr>)"
proof -
  let ?s = "s\<lparr>next_id := Suc (next_id s), accesses := accesses s @ [r]\<rparr>"
  have tab: "tables_ok ?s" using ok r new by (auto simp: commerce_ok_def tables_ok_def keyed_ok_def less_Suc_eq)
  have pt: "pointers_ok ?s"
    using ok ent by (fastforce simp: commerce_ok_def pointers_ok_def active_ent_def)
  have snd: "access_sound_except X ?s"
    using ok ent active_ent_unique[OF ok] by (auto simp: commerce_ok_def access_sound_except_def)
  show ?thesis using ok tab pt snd
    by (simp add: commerce_ok_def grants_ok_def paid_order_def free_order_def succeeded_granted_except_def caps_ok_def)
qed

lemma accesses_map_ok:
  assumes ok: "commerce_ok V X Y s"
    and f: "\<And>r. acc_id (f r) = acc_id r \<and> acc_learner (f r) = acc_learner r \<and> acc_course (f r) = acc_course r"
    and ent: "\<And>r i. r \<in> set (accesses s) \<Longrightarrow> acc_entitlement (f r) = Some i \<Longrightarrow>
               acc_entitlement (f r) = acc_entitlement r \<and> (acc_status (f r) = AccActive \<longrightarrow> acc_status r = AccActive) \<or>
               active_ent i (acc_learner r) (acc_course r) s"
  shows "commerce_ok V X Y (s\<lparr>accesses := map f (accesses s)\<rparr>)"
proof -
  let ?s = "s\<lparr>accesses := map f (accesses s)\<rparr>"
  have tab: "tables_ok ?s" using ok f by (auto simp: commerce_ok_def tables_ok_def keyed_ok_def comp_def)
  have pt: "pointers_ok ?s"
    using ok f ent by (fastforce simp: commerce_ok_def pointers_ok_def active_ent_def)
  have snd: "access_sound_except X ?s"
    unfolding access_sound_except_def
  proof (intro ballI impI)
    fix a e assume "a \<in> set (accesses ?s)" and e: "e \<in> set (entitlements ?s)"
      and x: "(acc_learner a, acc_course a) \<notin> X" and act: "acc_status a = AccActive"
      and p: "acc_entitlement a = Some (ent_id e)"
    then obtain r where r: "r \<in> set (accesses s)" "a = f r" by auto
    have e': "e \<in> set (entitlements s)" using e by simp
    show "ent_status e = EntActive"
      using ent[OF r(1)] ok f r x act p e' active_ent_unique[OF ok _ e']
      by (fastforce simp: commerce_ok_def access_sound_except_def)
  qed
  show ?thesis using ok tab pt snd
    by (simp add: commerce_ok_def grants_ok_def paid_order_def free_order_def succeeded_granted_except_def caps_ok_def)
qed

text \<open>Rows other than a set of learners and courses need no entitlement check.\<close>

lemma access_except_close:
  "commerce_ok V {(l, c)} Y s \<Longrightarrow>
    (\<forall>a \<in> set (accesses s). acc_learner a = l \<and> acc_course a = c \<longrightarrow> acc_status a \<noteq> AccActive) \<Longrightarrow>
    commerce_ok V {} Y s"
  by (auto simp: commerce_ok_def access_sound_except_def)

section \<open>Repository methods\<close>

text \<open>Reads keep every predicate.\<close>

lemma read_pres [tx_rules]:
  "tx_pres I (OfferRepo_Get i)"
  "tx_pres I (OfferRepo_ListByCourse i)"
  "tx_pres I (DiscountCodeRepo_Get i)"
  "tx_pres I (DiscountCodeRepo_ListByOffer i)"
  "tx_pres I (DiscountCodeRepo_GetByCode i c)"
  "tx_pres I (InviteTokenRepo_ListByOffer i)"
  "tx_pres I (OrderRepo_Get i)"
  "tx_pres I (OrderRepo_CountByOfferAndStatus i st)"
  "tx_pres I (OrderRepo_GetByRazorpayOrderID z)"
  "tx_pres I (OrderRepo_ListPendingOlderThan d)"
  "tx_pres I (OrderRepo_ListByOrg i f t)"
  "tx_pres I (PaymentRepo_GetByOrderID i)"
  "tx_pres I (PaymentRepo_GetByRazorpayPaymentID z)"
  "tx_pres I (RefundRepo_GetByPaymentID i)"
  "tx_pres I (RefundRepo_GetByRazorpayRefundID z)"
  "tx_pres I (ChargebackRepo_GetLatestByPaymentID i)"
  "tx_pres I (EntitlementRepo_Get i)"
  "tx_pres I (EntitlementRepo_GetByOrderID i)"
  "tx_pres I (EntitlementRepo_ListByLearner i)"
  "tx_pres I (EntitlementRepo_ListExpiringBefore t)"
  "tx_pres I (LearnerCourseAccessRepo_Get l k)"
  "tx_pres I (LearnerCourseAccessRepo_ListByLearner l)"
  "tx_pres I (WebhookEventRepo_GetByPayload b)"
  "tx_pres I (CourseRepo_Get i)"
  unfolding ChargebackRepo_GetLatestByPaymentID_def CourseRepo_Get_def DiscountCodeRepo_GetByCode_def DiscountCodeRepo_Get_def DiscountCodeRepo_ListByOffer_def EntitlementRepo_GetByOrderID_def
    EntitlementRepo_Get_def EntitlementRepo_ListByLearner_def EntitlementRepo_ListExpiringBefore_def InviteTokenRepo_ListByOffer_def
    LearnerCourseAccessRepo_Get_def LearnerCourseAccessRepo_ListByLearner_def OfferRepo_Get_def OfferRepo_ListByCourse_def OrderRepo_CountByOfferAndStatus_def OrderRepo_GetByRazorpayOrderID_def
    OrderRepo_Get_def OrderRepo_ListByOrg_def OrderRepo_ListPendingOlderThan_def PaymentRepo_GetByOrderID_def PaymentRepo_GetByRazorpayPaymentID_def
    RefundRepo_GetByPaymentID_def RefundRepo_GetByRazorpayRefundID_def WebhookEventRepo_GetByPayload_def
  by (intro tx_rules)+

lemma InviteTokenRepo_GetByToken_pres [tx_rules]: "tx_pres I (InviteTokenRepo_GetByToken z)"
  unfolding InviteTokenRepo_GetByToken_def by (intro tx_rules)

lemma PlatformSettingsRepo_Get_pres [tx_rules]: "tx_pres I PlatformSettingsRepo_Get"
  by (auto simp: tx_post_def PlatformSettingsRepo_Get_def split: option.splits)

text \<open>Writes that touch no table of the invariants.\<close>

lemma frame_pres [tx_rules]:
  "tx_pres (commerce_ok V X Y) (PaymentAuditRepo_Record a)"
  "tx_pres (commerce_ok V X Y) (AuditRepo_Record b)"
  "tx_pres (commerce_ok V X Y) (AnalyticsEventRepo_Record takes i ty act c)"
  "tx_pres (commerce_ok V X Y) (ChargebackRepo_Create cb)"
  "tx_pres (commerce_ok V X Y) (ChargebackRepo_UpdateStatus i cst)"
  "tx_pres (commerce_ok V X Y) (InviteTokenRepo_MarkUsed i l j)"
  "tx_pres (commerce_ok V X Y) (InviteTokenRepo_Create i off l tok email xp)"
  "tx_pres (commerce_ok V X Y) (WebhookEventRepo_MarkProcessed z)"
  "tx_pres (commerce_ok V X Y) (PlatformSettingsRepo_Update q)"
  by (rule same_commerce_pres; auto simp: same_commerce_def repo_defs db_Inr InviteTokenRepo_Create_def
      WebhookEventRepo_MarkProcessed_def PlatformSettingsRepo_Update_def comp_def
      split: if_splits option.splits)+

lemma WebhookEventRepo_TryRecord_pres [tx_rules]:
  "tx_pres (commerce_ok V X Y) (WebhookEventRepo_TryRecord ev ty b)"
  by (auto simp: tx_post_def WebhookEventRepo_TryRecord_def db_Inr image_iff split: if_splits
      intro!: webhooks_append_ok)

text \<open>Writes to offers, codes, orders, payments and refunds.\<close>

lemma offer_writes_pres [tx_rules]:
  "tx_pres (commerce_ok V X Y) (OfferRepo_Create f)"
  "tx_pres (commerce_ok V X Y) (OfferRepo_Update i f)"
  "tx_pres (commerce_ok V X Y) (OfferRepo_Archive i)"
  by (auto simp: tx_post_def repo_defs db_Inr intro!: offers_append_ok offers_map_ok)

lemma DiscountCodeRepo_Create_pres [tx_rules]: "tx_pres (commerce_ok V X Y) (DiscountCodeRepo_Create d)"
  by (auto simp: tx_post_def DiscountCodeRepo_Create_def db_Inr split: if_splits intro!: codes_append_ok)

lemma DiscountCodeRepo_Deactivate_pres [tx_rules]:
  "tx_pres (commerce_ok V X Y) (DiscountCodeRepo_Deactivate i)"
  by (auto simp: tx_post_def repo_defs db_Inr intro!: codes_map_ok)

lemma DiscountCodeRepo_IncrementRedemption_pres [tx_rules]:
  "tx_pres (commerce_ok V X Y) (DiscountCodeRepo_IncrementRedemption i)"
proof (rule tx_postI)
  fix s r s' assume ok: "commerce_ok V X Y s" and "DiscountCodeRepo_IncrementRedemption i s = Inr (r, s')"
  then have "s' = put_codes (map (\<lambda>r. if dc_id r = i \<and> below_cap r then r\<lparr>dc_count := dc_count r + 1\<rparr> else r)
      (discount_codes s)) s"
    by (auto simp: DiscountCodeRepo_IncrementRedemption_def tab_update_Inr split: sum.splits err.splits)
  then show "commerce_ok V X Y s'"
    using codes_map_ok[OF ok, of "\<lambda>r. if dc_id r = i \<and> below_cap r then r\<lparr>dc_count := dc_count r + 1\<rparr> else r"]
    by (auto simp: below_cap_def)
qed

lemma order_kept_if: "order_kept Y f \<Longrightarrow> order_kept Y (\<lambda>r. if P r then f r else r)"
  by (simp add: order_kept_def)

lemma OrderRepo_UpdateStatus_pres [tx_rules]:
  "st \<noteq> OrdSucceeded \<or> i \<in> Y \<Longrightarrow> tx_pres (commerce_ok V X Y) (OrderRepo_UpdateStatus i st)"
  by (auto simp: tx_post_def repo_defs db_Inr order_kept_def intro!: orders_map_ok)

lemma OrderRepo_Create_pres [tx_rules]: "tx_pres (commerce_ok V X Y) (OrderRepo_Create f)"
  by (auto simp: tx_post_def repo_defs db_Inr intro!: orders_append_ok)

lemma payment_writes_pres [tx_rules]:
  "tx_pres (commerce_ok V X Y) (PaymentRepo_Create q)"
  "tx_pres (commerce_ok V X Y) (PaymentRepo_UpdateStatus i pst rz raw)"
  by (auto simp: tx_post_def repo_defs db_Inr intro!: payments_append_ok payments_map_ok)

lemma refund_writes_pres [tx_rules]:
  "tx_pres (commerce_ok V X Y) (RefundRepo_Create q)"
  "tx_pres (commerce_ok V X Y) (RefundRepo_UpdateStatus i rst rz)"
  by (auto simp: tx_post_def repo_defs db_Inr intro!: refunds_append_ok refunds_map_ok)

text \<open>An exception may be added, and dropped when it is not needed.\<close>

lemma commerce_ok_weaken: "commerce_ok V X Y s \<Longrightarrow> X \<subseteq> X' \<Longrightarrow> Y \<subseteq> Y' \<Longrightarrow> V \<subseteq> V' \<Longrightarrow> commerce_ok V' X' Y' s"
  unfolding commerce_ok_def grants_ok_def access_sound_except_def succeeded_granted_except_def
  by (meson subsetD)

end
