(* ===== verification/PaymentWorker.thy ===== *)
theory PaymentWorker
  imports RazorpayJson CommerceInv
begin

text \<open>
  The payment-webhook job (\<^verbatim>\<open>internal/worker/payments.go\<close>): \<open>handle\<close> consumes a queued
  delivery, looks up its idempotency row, runs one transaction per event type and marks the row
  processed. A transaction is the monadic body of the source's function between
  \<^verbatim>\<open>pool.Begin\<close> and \<^verbatim>\<open>tx.Commit\<close>; \<open>run_tx\<close> rolls it back on an error. The receipt
  e-mail is queued after the commit. The text-to-JSON parser is the argument \<open>parse\<close>; what the
  job meets outside the program is a \<open>job_env\<close>.

  The worker drops the error of its analytics insert, but a refused statement leaves a PostgreSQL
  transaction aborted, and \<^verbatim>\<open>tx.Commit\<close> then rolls back and returns an error that the worker
  does return. So the refusal fails the whole transaction, whatever the \<^verbatim>\<open>_ =\<close> in the source
  suggests: the insert is an ordinary step of the monad, not an attempt.
\<close>

record webhook_job =
  job_event :: string
  job_body :: string

text \<open>
  \<open>je_queue\<close> says whether the receipt's task is queued, \<open>je_event\<close> whether the server takes the
  analytics insert (PostgreSQL does not).
\<close>

record job_env =
  je_queue :: bool
  je_event :: bool

section \<open>Shared steps\<close>

text \<open>Create the order's payment row, or move the latest one to the new status.\<close>

definition upsert_payment ::
  "order \<Rightarrow> payment_status \<Rightarrow> payment_entity \<Rightarrow> json \<Rightarrow> (db, payment) tx" where
  "upsert_payment ord st ent raw =
     tx_bind (tx_found (PaymentRepo_GetByOrderID (ord_id ord))) (\<lambda>found.
       case found of
         None \<Rightarrow> PaymentRepo_Create \<lparr>pay_id = 0, pay_org = ord_org ord, pay_order = ord_id ord,
                   pay_rzp = Some (pe_id ent), pay_status = st, pay_raw = Some raw,
                   pay_created = 0, pay_updated = 0\<rparr>
       | Some p \<Rightarrow> PaymentRepo_UpdateStatus (pay_id p) st (Some (pe_id ent)) (Some raw))"

text \<open>\<^verbatim>\<open>time.Duration(days) * 24 * time.Hour\<close> wraps at 64 bits.\<close>

definition expires_at :: "offer \<Rightarrow> time \<Rightarrow> time option" where
  "expires_at off now = (if of_type off = Subscription
     then map_option (\<lambda>days. now + int64 (int64 (days * 24) * hour)) (of_access_days off) else None)"

text \<open>Point the learner's access row at an entitlement, creating the row when there is none.\<close>

definition grant_course_access :: "uuid \<Rightarrow> uuid \<Rightarrow> uuid \<Rightarrow> uuid \<Rightarrow> (db, unit) tx" where
  "grant_course_access org learner course ent =
     tx_bind (tx_found (LearnerCourseAccessRepo_Get learner course)) (\<lambda>existing.
       case existing of
         None \<Rightarrow> tx_bind (LearnerCourseAccessRepo_Create org learner course (Some ent))
                   (\<lambda>_. tx_return ())
       | Some a \<Rightarrow> tx_bind (LearnerCourseAccessRepo_SetEntitlementAndStatus (acc_id a) (Some ent) AccActive)
                   (\<lambda>_. tx_return ()))"

text \<open>Count a redemption; a failure is logged and leaves the receipt without a code.\<close>

definition redeem_code :: "uuid option \<Rightarrow> (db, string) tx" where
  "redeem_code code = (case code of
       None \<Rightarrow> tx_return []
     | Some i \<Rightarrow> tx_bind (tx_attempt (DiscountCodeRepo_IncrementRedemption i)) (\<lambda>res.
         case res of Inl _ \<Rightarrow> tx_return [] | Inr dc \<Rightarrow> tx_return (dc_code dc)))"

section \<open>payment.captured\<close>

definition new_entitlement :: "order \<Rightarrow> offer \<Rightarrow> time \<Rightarrow> entitlement" where
  "new_entitlement ord off now =
     \<lparr>ent_id = 0, ent_org = ord_org ord, ent_order = Some (ord_id ord), ent_learner = ord_learner ord,
      ent_course = of_course off, ent_status = EntActive, ent_expires = expires_at off now,
      ent_granted_by = None, ent_reason = None, ent_created = 0, ent_updated = 0\<rparr>"

definition payment_audit_for :: "order \<Rightarrow> payment \<Rightarrow> string \<Rightarrow> order_status \<Rightarrow> payment_audit" where
  "payment_audit_for ord p ev st =
     \<lparr>pa_org = ord_org ord, pa_event = ev, pa_order = Some (ord_id ord), pa_payment = Some (pay_id p),
      pa_old = Some (order_status_str (ord_status ord)), pa_new = order_status_str st,
      pa_reason = None, pa_user = Some (ord_learner ord)\<rparr>"

definition entitlement_audit :: "entitlement \<Rightarrow> string \<Rightarrow> (string \<times> string) list option \<Rightarrow> audit_event" where
  "entitlement_audit e action details =
     \<lparr>ae_org = Some (ent_org e), ae_user = Some (ent_learner e), ae_action = action,
      ae_resource = ''entitlement'', ae_resource_id = Some (ent_id e), ae_details = details,
      ae_ip = [], ae_agent = []\<rparr>"

definition receipt_for :: "order \<Rightarrow> offer \<Rightarrow> course \<Rightarrow> string \<Rightarrow> receipt" where
  "receipt_for ord off c code =
     \<lparr>rc_learner = ord_learner ord, rc_course = of_course off, rc_title = c_title c,
      rc_currency = ord_currency ord, rc_subtotal = ord_subtotal ord, rc_discount = ord_discount ord,
      rc_code = code, rc_tax_rate = of_tax_rate off, rc_tax = ord_tax ord, rc_total = ord_total ord\<rparr>"

text \<open>The steps after the guard, for an order that has not succeeded yet.\<close>

definition capture_order :: "job_env \<Rightarrow> order \<Rightarrow> payment_entity \<Rightarrow> json \<Rightarrow> (db, receipt) tx" where
  "capture_order env ord ent raw =
     tx_bind (upsert_payment ord PaySucceeded ent raw) (\<lambda>p.
     tx_bind (OrderRepo_UpdateStatus (ord_id ord) OrdSucceeded) (\<lambda>_.
     tx_bind (OfferRepo_Get (ord_offer ord)) (\<lambda>off.
     tx_bind (tx_gets clock) (\<lambda>now.
     tx_bind (EntitlementRepo_Create (new_entitlement ord off now)) (\<lambda>e.
     tx_bind (grant_course_access (ord_org ord) (ord_learner ord) (of_course off) (ent_id e)) (\<lambda>_.
     tx_bind (redeem_code (ord_code ord)) (\<lambda>code.
     tx_bind (PaymentAuditRepo_Record (payment_audit_for ord p ''payment.captured'' OrdSucceeded)) (\<lambda>_.
     tx_bind (AuditRepo_Record (entitlement_audit e ''entitlement.granted'' None)) (\<lambda>_.
     tx_bind (CourseRepo_Get (of_course off)) (\<lambda>c.
     tx_bind (AnalyticsEventRepo_Record (je_event env) (ord_org ord) ''purchase''
                (Some (ord_learner ord)) (Some (of_course off))) (\<lambda>_.
       tx_return (receipt_for ord off c code))))))))))))"

definition payment_captured_tx :: "job_env \<Rightarrow> payment_entity \<Rightarrow> json \<Rightarrow> (db, receipt option) tx" where
  "payment_captured_tx env ent raw =
     tx_bind (OrderRepo_GetByRazorpayOrderID (pe_order_id ent)) (\<lambda>ord.
       if ord_status ord = OrdSucceeded then tx_return None
       else tx_bind (capture_order env ord ent raw) (\<lambda>rc. tx_return (Some rc)))"

definition EnqueueSendReceiptEmail :: "bool \<Rightarrow> receipt \<Rightarrow> (err, db, unit) hm" where
  "EnqueueSendReceiptEmail ok rc = (\<lambda>s. (Inr (), if ok then s\<lparr>receipts := receipts s @ [rc]\<rparr> else s))"

definition handlePaymentCaptured :: "job_env \<Rightarrow> webhook_body \<Rightarrow> (err, db, unit) hm" where
  "handlePaymentCaptured env body = (case extractEntity body ''payment'' of
       None \<Rightarrow> h_respond ErrMissingEntity
     | Some raw \<Rightarrow> (case razorpayPaymentEntity raw of
         Inl e \<Rightarrow> h_respond e
       | Inr ent \<Rightarrow> h_bind (run_tx (payment_captured_tx env ent raw)) (\<lambda>rc.
           case rc of None \<Rightarrow> h_return () | Some r \<Rightarrow> EnqueueSendReceiptEmail (je_queue env) r)))"

section \<open>payment.failed\<close>

definition payment_failed_tx :: "payment_entity \<Rightarrow> json \<Rightarrow> (db, unit) tx" where
  "payment_failed_tx ent raw =
     tx_bind (OrderRepo_GetByRazorpayOrderID (pe_order_id ent)) (\<lambda>ord.
       if ord_status ord = OrdFailed then tx_return ()
       else
         tx_bind (upsert_payment ord PayFailed ent raw) (\<lambda>p.
         tx_bind (OrderRepo_UpdateStatus (ord_id ord) OrdFailed) (\<lambda>_.
           PaymentAuditRepo_Record (payment_audit_for ord p ''payment.failed'' OrdFailed))))"

definition handlePaymentFailed :: "webhook_body \<Rightarrow> (err, db, unit) hm" where
  "handlePaymentFailed body = (case extractEntity body ''payment'' of
       None \<Rightarrow> h_respond ErrMissingEntity
     | Some raw \<Rightarrow> (case razorpayPaymentEntity raw of
         Inl e \<Rightarrow> h_respond e | Inr ent \<Rightarrow> run_tx (payment_failed_tx ent raw)))"

section \<open>Refunds\<close>

definition revokeEntitlementForPayment :: "payment \<Rightarrow> string \<Rightarrow> (db, bool) tx" where
  "revokeEntitlementForPayment p ev =
     tx_bind (tx_found (EntitlementRepo_GetByOrderID (pay_order p))) (\<lambda>found.
       case found of
         None \<Rightarrow> tx_return False
       | Some e \<Rightarrow> if ent_status e \<noteq> EntActive then tx_return False else
           tx_bind (EntitlementRepo_Revoke (ent_id e)) (\<lambda>_.
           tx_bind (tx_found (LearnerCourseAccessRepo_Get (ent_learner e) (ent_course e))) (\<lambda>acc.
           tx_bind (case acc of None \<Rightarrow> tx_return ()
                    | Some a \<Rightarrow> tx_bind (LearnerCourseAccessRepo_SetStatus (acc_id a) AccRevoked)
                                 (\<lambda>_. tx_return ())) (\<lambda>_.
           tx_bind (AuditRepo_Record (entitlement_audit e ''entitlement.revoked'' (Some [(''reason'', ev)]))) (\<lambda>_.
             tx_return True)))))"

definition refund_audit :: "payment \<Rightarrow> payment_audit" where
  "refund_audit p =
     \<lparr>pa_org = pay_org p, pa_event = ''refund.processed'', pa_order = Some (pay_order p),
      pa_payment = Some (pay_id p), pa_old = Some (refund_status_str RefPending),
      pa_new = refund_status_str RefSucceeded, pa_reason = None, pa_user = None\<rparr>"

definition refund_processed_tx :: "job_env \<Rightarrow> refund_entity \<Rightarrow> (db, unit) tx" where
  "refund_processed_tx env ent =
     tx_bind (PaymentRepo_GetByRazorpayPaymentID (re_payment_id ent)) (\<lambda>p.
     tx_bind (tx_found (RefundRepo_GetByRazorpayRefundID (re_id ent))) (\<lambda>found.
     tx_bind (case found of
         Some r \<Rightarrow> tx_return r
       | None \<Rightarrow> RefundRepo_Create \<lparr>rf_id = 0, rf_org = pay_org p, rf_payment = pay_id p,
                   rf_rzp = Some (re_id ent), rf_status = RefPending,
                   rf_amount = minorToMajor (re_amount ent), rf_reason = None,
                   rf_created = 0, rf_updated = 0\<rparr>) (\<lambda>r.
       if rf_status r = RefSucceeded then tx_return ()
       else
         tx_bind (RefundRepo_UpdateStatus (rf_id r) RefSucceeded (Some (re_id ent))) (\<lambda>_.
         tx_bind (revokeEntitlementForPayment p ''refund.processed'') (\<lambda>_.
         tx_bind (PaymentAuditRepo_Record (refund_audit p)) (\<lambda>_.
           AnalyticsEventRepo_Record (je_event env) (pay_org p) ''refund'' None None))))))"

definition handleRefundProcessed :: "job_env \<Rightarrow> webhook_body \<Rightarrow> (err, db, unit) hm" where
  "handleRefundProcessed env body = (case extractEntity body ''refund'' of
       None \<Rightarrow> h_respond ErrMissingEntity
     | Some raw \<Rightarrow> (case razorpayRefundEntity raw of
         Inl e \<Rightarrow> h_respond e | Inr ent \<Rightarrow> run_tx (refund_processed_tx env ent)))"

definition refund_failed_tx :: "refund_entity \<Rightarrow> (db, unit) tx" where
  "refund_failed_tx ent =
     tx_bind (tx_found (RefundRepo_GetByRazorpayRefundID (re_id ent))) (\<lambda>found.
       case found of
         None \<Rightarrow> tx_return ()
       | Some r \<Rightarrow> if rf_status r = RefFailed then tx_return () else
           tx_bind (RefundRepo_UpdateStatus (rf_id r) RefFailed (Some (re_id ent))) (\<lambda>_.
             PaymentAuditRepo_Record
               \<lparr>pa_org = rf_org r, pa_event = ''refund.failed'', pa_order = None,
                pa_payment = Some (rf_payment r), pa_old = Some (refund_status_str (rf_status r)),
                pa_new = refund_status_str RefFailed, pa_reason = None, pa_user = None\<rparr>))"

definition handleRefundFailed :: "webhook_body \<Rightarrow> (err, db, unit) hm" where
  "handleRefundFailed body = (case extractEntity body ''refund'' of
       None \<Rightarrow> h_respond ErrMissingEntity
     | Some raw \<Rightarrow> (case razorpayRefundEntity raw of
         Inl e \<Rightarrow> h_respond e | Inr ent \<Rightarrow> run_tx (refund_failed_tx ent)))"

section \<open>Disputes\<close>

definition chargeback_for :: "payment \<Rightarrow> dispute_entity \<Rightarrow> chargeback" where
  "chargeback_for p ent =
     \<lparr>cb_id = 0, cb_org = pay_org p, cb_payment = pay_id p, cb_status = CbPending,
      cb_amount = minorToMajor (de_amount ent), cb_reason = Some (de_reason ent),
      cb_created = 0, cb_updated = 0\<rparr>"

definition dispute_audit ::
  "payment \<Rightarrow> string \<Rightarrow> string option \<Rightarrow> chargeback_status \<Rightarrow> string option \<Rightarrow> payment_audit" where
  "dispute_audit p ev old new reason =
     \<lparr>pa_org = pay_org p, pa_event = ev, pa_order = Some (pay_order p), pa_payment = Some (pay_id p),
      pa_old = old, pa_new = chargeback_status_str new, pa_reason = reason, pa_user = None\<rparr>"

definition dispute_created_tx :: "dispute_entity \<Rightarrow> (db, unit) tx" where
  "dispute_created_tx ent =
     tx_bind (PaymentRepo_GetByRazorpayPaymentID (de_payment_id ent)) (\<lambda>p.
     tx_bind (tx_found (ChargebackRepo_GetLatestByPaymentID (pay_id p))) (\<lambda>existing.
       if (case existing of None \<Rightarrow> False | Some c \<Rightarrow> cb_status c = CbPending) then tx_return ()
       else
         tx_bind (ChargebackRepo_Create (chargeback_for p ent)) (\<lambda>_.
           PaymentAuditRepo_Record
             (dispute_audit p ''payment.dispute.created'' None CbPending (Some (de_reason ent))))))"

definition handleDisputeCreated :: "webhook_body \<Rightarrow> (err, db, unit) hm" where
  "handleDisputeCreated body = (case extractEntity body ''dispute'' of
       None \<Rightarrow> h_respond ErrMissingEntity
     | Some raw \<Rightarrow> (case razorpayDisputeEntity raw of
         Inl e \<Rightarrow> h_respond e | Inr ent \<Rightarrow> run_tx (dispute_created_tx ent)))"

definition dispute_resolved_tx :: "dispute_entity \<Rightarrow> chargeback_status \<Rightarrow> (db, unit) tx" where
  "dispute_resolved_tx ent final =
     tx_bind (PaymentRepo_GetByRazorpayPaymentID (de_payment_id ent)) (\<lambda>p.
     tx_bind (tx_found (ChargebackRepo_GetLatestByPaymentID (pay_id p))) (\<lambda>existing.
     tx_bind (case existing of Some c \<Rightarrow> tx_return c | None \<Rightarrow> ChargebackRepo_Create (chargeback_for p ent)) (\<lambda>c.
       if cb_status c = final then tx_return ()
       else
         tx_bind (ChargebackRepo_UpdateStatus (cb_id c) final) (\<lambda>_.
         tx_bind (PaymentAuditRepo_Record
           (dispute_audit p (''payment.dispute.'' @ chargeback_status_str final)
              (Some (chargeback_status_str (cb_status c))) final None)) (\<lambda>_.
           if final = CbLost
           then tx_bind (revokeEntitlementForPayment p ''payment.dispute.lost'') (\<lambda>_. tx_return ())
           else tx_return ())))))"

definition handleDisputeResolved :: "webhook_body \<Rightarrow> chargeback_status \<Rightarrow> (err, db, unit) hm" where
  "handleDisputeResolved body final = (case extractEntity body ''dispute'' of
       None \<Rightarrow> h_respond ErrMissingEntity
     | Some raw \<Rightarrow> (case razorpayDisputeEntity raw of
         Inl e \<Rightarrow> h_respond e | Inr ent \<Rightarrow> run_tx (dispute_resolved_tx ent final)))"

section \<open>The job\<close>

definition dispatch_event :: "job_env \<Rightarrow> string \<Rightarrow> webhook_body \<Rightarrow> (err, db, unit) hm" where
  "dispatch_event env ev body =
     (if ev = ''payment.captured'' then handlePaymentCaptured env body
      else if ev = ''payment.failed'' then handlePaymentFailed body
      else if ev = ''refund.processed'' then handleRefundProcessed env body
      else if ev = ''refund.failed'' then handleRefundFailed body
      else if ev = ''payment.dispute.created'' then handleDisputeCreated body
      else if ev = ''payment.dispute.won'' then handleDisputeResolved body CbWon
      else if ev = ''payment.dispute.lost'' then handleDisputeResolved body CbLost
      else h_return ())"

definition handle :: "(string \<Rightarrow> json option) \<Rightarrow> job_env \<Rightarrow> webhook_job \<Rightarrow> (err, db, unit) hm" where
  "handle parse env job = (case parse (job_body job) of
       None \<Rightarrow> h_respond ErrUnmarshal
     | Some j \<Rightarrow> h_bind (run_tx (tx_found (WebhookEventRepo_GetByPayload j))) (\<lambda>ev.
         if (case ev of None \<Rightarrow> False | Some e \<Rightarrow> we_processed e \<noteq> None) then h_return ()
         else (case razorpayWebhookBody j of
             Inl e \<Rightarrow> h_respond e
           | Inr body \<Rightarrow> h_bind (dispatch_event env (job_event job) body) (\<lambda>_.
               case ev of
                 None \<Rightarrow> h_return ()
               | Some e \<Rightarrow> h_bind (run_tx (tx_found (WebhookEventRepo_MarkProcessed (we_event_id e))))
                             (\<lambda>_. h_return ())))))"

end
