(* ===== verification/PaymentFacts.thy ===== *)
theory PaymentFacts
  imports PaymentWorker
begin

text \<open>
  The payment job keeps the commerce invariants, and what its transactions do on every branch:
  the effect of a capture, its idempotence, revocation by refunds and lost disputes.
\<close>

section \<open>Facts that survive the other writes\<close>

lemma paid_order_pres [tx_rules]:
  "tx_pres (paid_order i z) (PaymentRepo_Create p)"
  "tx_pres (paid_order i z) (PaymentRepo_UpdateStatus k pst rz raw)"
  by (auto simp: tx_post_def repo_defs db_Inr paid_order_def)

lemma paid_order_UpdateStatus [tx_rules]: "tx_pres (paid_order i z) (OrderRepo_UpdateStatus k st)"
proof (rule tx_postI)
  fix s r s' assume p: "paid_order i z s" and "OrderRepo_UpdateStatus k st s = Inr (r, s')"
  then have s': "s' = s\<lparr>orders := map (\<lambda>r. if ord_id r = k
      then r\<lparr>ord_status := st, ord_updated := clock s\<rparr> else r) (orders s)\<rparr>"
    by (auto simp: repo_defs db_Inr)
  obtain x where "x \<in> set (orders s)" "ord_id x = i" "ord_rzp x = Some z"
    using p by (auto simp: paid_order_def)
  then show "paid_order i z s'"
    unfolding s' paid_order_def by (intro bexI[where x = "if ord_id x = k
        then x\<lparr>ord_status := st, ord_updated := clock s\<rparr> else x"]) auto
qed

lemma upsert_payment_pres:
  assumes "\<And>p. tx_pres I (PaymentRepo_Create p)"
    "\<And>k pst rz raw. tx_pres I (PaymentRepo_UpdateStatus k pst rz raw)"
  shows "tx_pres I (upsert_payment ord st ent raw)"
  unfolding upsert_payment_def by (intro tx_rules assms)

lemmas upsert_payment_ok = upsert_payment_pres[OF payment_writes_pres]

lemma redeem_code_ok [tx_rules]: "tx_pres (commerce_ok V X Y) (redeem_code c)"
  unfolding redeem_code_def by (intro tx_rules)

lemma EntitlementRepo_Create_post:
  assumes "ent_status e0 = EntActive"
    and "\<And>s i. P s \<Longrightarrow> ent_order e0 = Some i \<Longrightarrow> i < next_id s \<and> (free_order i s \<or> (\<exists>z \<in> V. paid_order i z s))"
    and "\<And>s. P s \<Longrightarrow> commerce_ok V X Y s"
  shows "tx_post P (EntitlementRepo_Create e0) (\<lambda>e s. commerce_ok V X (Y - set_option (ent_order e0)) s \<and>
           active_ent (ent_id e) (ent_learner e0) (ent_course e0) s)"
proof (rule tx_postI)
  fix s e s' assume P: "P s" and "EntitlementRepo_Create e0 s = Inr (e, s')"
  then have e: "e = e0\<lparr>ent_id := next_id s, ent_created := clock s, ent_updated := clock s\<rparr>"
    and s': "s' = s\<lparr>next_id := Suc (next_id s), entitlements := entitlements s @ [e]\<rparr>"
    by (auto simp: EntitlementRepo_Create_def tab_insert_Inr)
  have "commerce_ok V X (Y - set_option (ent_order e)) s'"
    unfolding s' by (rule entitlements_append_ok) (use assms P e in auto)
  then show "commerce_ok V X (Y - set_option (ent_order e0)) s' \<and>
      active_ent (ent_id e) (ent_learner e0) (ent_course e0) s'"
    using assms(1) by (simp add: e s' active_ent_def)
qed

lemma grant_course_access_post:
  "tx_post (\<lambda>s. commerce_ok V X Y s \<and> active_ent ent l c s) (grant_course_access org l c ent)
     (\<lambda>_. commerce_ok V X Y)"
proof (rule tx_postI, elim conjE)
  fix s u s' assume ok: "commerce_ok V X Y s" and act: "active_ent ent l c s"
    and run: "grant_course_access org l c ent s = Inr (u, s')"
  from run consider
      (new) "\<forall>a \<in> set (accesses s). \<not> (acc_learner a = l \<and> acc_course a = c)"
        "s' = s\<lparr>next_id := Suc (next_id s), accesses := accesses s @
           [\<lparr>acc_id = next_id s, acc_org = org, acc_learner = l, acc_course = c,
             acc_entitlement = Some ent, acc_enrolled = clock s, acc_status = AccActive\<rparr>]\<rparr>"
    | (old) a where "a \<in> set (accesses s)" "acc_learner a = l" "acc_course a = c"
        "s' = s\<lparr>accesses := map (\<lambda>r. if acc_id r = acc_id a
           then r\<lparr>acc_entitlement := Some ent, acc_status := AccActive\<rparr> else r) (accesses s)\<rparr>"
    by (auto simp: grant_course_access_def repo_defs db_Inr LearnerCourseAccessRepo_Create_def
        tab_select1_Inl find_None_iff split: option.splits if_splits dest!: find_SomeD)
  then show "commerce_ok V X Y s'"
  proof cases
    case new
    show ?thesis unfolding new(2) by (rule accesses_append_ok[OF ok]) (use new act in auto)
  next
    case old
    have uniq: "r = a" if "r \<in> set (accesses s)" "acc_id r = acc_id a" for r
      using ok old(1) that
      by (auto simp: commerce_ok_def tables_ok_def keyed_ok_def distinct_map inj_on_def)
    show ?thesis unfolding old(4)
    proof (rule accesses_map_ok[OF ok], goal_cases)
      case (2 r i)
      then show ?case
        using old(2,3) act uniq[of r] by (cases "acc_id r = acc_id a") auto
    qed simp
  qed
qed

section \<open>A capture keeps the invariants\<close>

lemma paid_order_fresh: "commerce_ok V X Y s \<Longrightarrow> paid_order i z s \<Longrightarrow> i < next_id s"
  by (auto simp: commerce_ok_def tables_ok_def keyed_ok_def paid_order_def)

lemma capture_order_ok:
  assumes z: "z \<in> V"
  shows "tx_post (\<lambda>s. commerce_ok V {} {} s \<and> paid_order (ord_id ord) z s)
    (capture_order env ord ent raw) (\<lambda>_. commerce_ok V {} {})"
proof -
  let ?I = "\<lambda>s. commerce_ok V {} {ord_id ord} s \<and> paid_order (ord_id ord) z s"
  have up: "tx_pres ?I (upsert_payment ord PaySucceeded ent raw)"
    by (intro upsert_payment_pres tx_pres_conj tx_rules)
  have "tx_post ?I (capture_order env ord ent raw) (\<lambda>_. commerce_ok V {} {})"
    unfolding capture_order_def
    apply (rule tx_pres_bind[OF up])
    apply (rule tx_pres_bind)
     apply (intro tx_pres_conj tx_rules) apply simp
    apply (rule tx_pres_bind, intro tx_pres_conj tx_rules)
    apply (rule tx_pres_bind, intro tx_pres_conj tx_rules)
    apply (rule tx_post_bind)
     apply (rule EntitlementRepo_Create_post[where V = V and X = "{}" and Y = "{ord_id ord}"])
       apply (simp add: new_entitlement_def)
    using z apply (auto simp: new_entitlement_def dest: paid_order_fresh)[1]
     apply simp
    apply (rule tx_post_bind[where R = "\<lambda>_. commerce_ok V {} {}"])
     apply (simp add: new_entitlement_def)
     apply (rule grant_course_access_post)
    by (intro tx_rules)
  then show ?thesis
    by (auto simp: tx_post_def intro: commerce_ok_weaken)
qed

lemma payment_captured_ok:
  assumes "pe_order_id ent \<in> V"
  shows "tx_pres (commerce_ok V {} {}) (payment_captured_tx env ent raw)"
  unfolding payment_captured_tx_def
proof (rule tx_post_bind)
  show "tx_post (commerce_ok V {} {}) (OrderRepo_GetByRazorpayOrderID (pe_order_id ent))
      (\<lambda>ord s. commerce_ok V {} {} s \<and> paid_order (ord_id ord) (pe_order_id ent) s)"
    by (auto simp: tx_post_def repo_defs db_Inr paid_order_def dest!: find_SomeD)
  fix ord
  show "tx_post (\<lambda>s. commerce_ok V {} {} s \<and> paid_order (ord_id ord) (pe_order_id ent) s)
     (if ord_status ord = OrdSucceeded then tx_return None
      else tx_bind (capture_order env ord ent raw) (\<lambda>rc. tx_return (Some rc))) (\<lambda>_. commerce_ok V {} {})"
    by (rule tx_post_if, simp add: tx_post_def, rule tx_post_bind[OF capture_order_ok[OF assms]])
      (simp add: tx_post_def)
qed

section \<open>The other events keep them too\<close>

lemma payment_failed_ok: "tx_pres (commerce_ok V {} {}) (payment_failed_tx ent raw)"
  unfolding payment_failed_tx_def by (intro tx_rules upsert_payment_ok) simp

text \<open>Revoking an entitlement and then the access row of its learner and course.\<close>

lemma access_unique:
  "commerce_ok V X Y s \<Longrightarrow> a \<in> set (accesses s) \<Longrightarrow> b \<in> set (accesses s) \<Longrightarrow>
    acc_learner a = acc_learner b \<Longrightarrow> acc_course a = acc_course b \<Longrightarrow> a = b"
  by (auto simp: commerce_ok_def tables_ok_def distinct_map inj_on_def)

lemma close_access_post:
  assumes st: "st \<noteq> AccActive"
  shows "tx_post (commerce_ok V {(l, c)} Y)
     (tx_bind (tx_found (LearnerCourseAccessRepo_Get l c)) (\<lambda>acc.
        case acc of None \<Rightarrow> tx_return ()
        | Some a \<Rightarrow> tx_bind (LearnerCourseAccessRepo_SetStatus (acc_id a) st) (\<lambda>_. tx_return ())))
     (\<lambda>_. commerce_ok V {} Y)"
proof (rule tx_postI)
  fix s u s' assume ok: "commerce_ok V {(l, c)} Y s"
    and run: "tx_bind (tx_found (LearnerCourseAccessRepo_Get l c)) (\<lambda>acc.
        case acc of None \<Rightarrow> tx_return ()
        | Some a \<Rightarrow> tx_bind (LearnerCourseAccessRepo_SetStatus (acc_id a) st) (\<lambda>_. tx_return ())) s = Inr (u, s')"
  consider
      (none) "\<forall>a \<in> set (accesses s). \<not> (acc_learner a = l \<and> acc_course a = c)" "s' = s"
    | (some) a where "a \<in> set (accesses s)" "acc_learner a = l" "acc_course a = c"
        "s' = s\<lparr>accesses := map (\<lambda>r. if acc_id r = acc_id a then r\<lparr>acc_status := st\<rparr> else r) (accesses s)\<rparr>"
  proof (cases "find (\<lambda>r. acc_learner r = l \<and> acc_course r = c) (accesses s)")
    case None
    have "s' = s" using run None by (simp add: LearnerCourseAccessRepo_Get_def)
    moreover have "\<forall>a \<in> set (accesses s). \<not> (acc_learner a = l \<and> acc_course a = c)"
      using None by (auto simp: find_None_iff)
    ultimately show ?thesis by (rule none[rotated])
  next
    case (Some a)
    then have "s' = s\<lparr>accesses := map (\<lambda>r. if acc_id r = acc_id a then r\<lparr>acc_status := st\<rparr> else r) (accesses s)\<rparr>"
      using run by (auto simp: repo_defs tx_bind_Inr tab_update_Inr)
    then show ?thesis using some[of a] find_SomeD[OF Some] by blast
  qed
  then show "commerce_ok V {} Y s'"
  proof cases
    case none
    then show ?thesis by (auto intro: access_except_close[OF ok])
  next
    case some
    have "commerce_ok V {(l, c)} Y s'"
      unfolding some(4) by (rule accesses_map_ok[OF ok]) (use st in \<open>auto split: if_splits\<close>)
    then show ?thesis
    proof (rule access_except_close, intro ballI impI)
      fix b assume "b \<in> set (accesses s')" "acc_learner b = l \<and> acc_course b = c"
      then obtain r where r: "r \<in> set (accesses s)" "acc_learner r = l" "acc_course r = c"
          "b = (if acc_id r = acc_id a then r\<lparr>acc_status := st\<rparr> else r)"
        unfolding some(4) by (auto split: if_splits)
      moreover have "r = a" using access_unique[OF ok r(1) some(1)] r some by simp
      ultimately show "acc_status b \<noteq> AccActive" using st by simp
    qed
  qed
qed

lemma end_entitlement_post:
  assumes f: "\<And>t r. ent_id (f t r) = ent_id r \<and> ent_order (f t r) = ent_order r \<and>
                ent_learner (f t r) = ent_learner r \<and> ent_course (f t r) = ent_course r"
  shows "tx_post (\<lambda>s. commerce_ok V {} Y s \<and> e \<in> set (entitlements s))
     (tab_update_now entitlements put_entitlements (\<lambda>r. ent_id r = ent_id e) f)
     (\<lambda>_. commerce_ok V {(ent_learner e, ent_course e)} Y)"
proof (rule tx_postI, elim conjE)
  fix s x s' assume ok: "commerce_ok V {} Y s" and e: "e \<in> set (entitlements s)"
    and "tab_update_now entitlements put_entitlements (\<lambda>r. ent_id r = ent_id e) f s = Inr (x, s')"
  then have s': "s' = s\<lparr>entitlements := map (\<lambda>r. if ent_id r = ent_id e then f (clock s) r else r) (entitlements s)\<rparr>"
    by (auto simp: tab_update_now_Inr)
  have "r = e" if "r \<in> set (entitlements s)" "ent_id r = ent_id e" for r
    using ok e that by (auto simp: commerce_ok_def tables_ok_def keyed_ok_def distinct_map inj_on_def)
  then show "commerce_ok V {(ent_learner e, ent_course e)} Y s'"
    unfolding s' by (intro entitlements_map_ok commerce_ok_weaken[OF ok]) (use f in auto)
qed

lemma revokeEntitlementForPayment_ok [tx_rules]:
  "tx_pres (commerce_ok V {} Y) (revokeEntitlementForPayment p ev)"
  unfolding revokeEntitlementForPayment_def
proof (rule tx_post_bind[where R = "\<lambda>found s. commerce_ok V {} Y s \<and> (\<forall>e. found = Some e \<longrightarrow> e \<in> set (entitlements s))"])
  show "tx_post (commerce_ok V {} Y) (tx_found (EntitlementRepo_GetByOrderID (pay_order p)))
     (\<lambda>found s. commerce_ok V {} Y s \<and> (\<forall>e. found = Some e \<longrightarrow> e \<in> set (entitlements s)))"
    by (auto simp: tx_post_def repo_defs db_Inr split: option.splits dest!: find_SomeD)
next
  fix found
  show "tx_post (\<lambda>s. commerce_ok V {} Y s \<and> (\<forall>e. found = Some e \<longrightarrow> e \<in> set (entitlements s)))
     (case found of None \<Rightarrow> tx_return False
       | Some e \<Rightarrow> if ent_status e \<noteq> EntActive then tx_return False else
           tx_bind (EntitlementRepo_Revoke (ent_id e)) (\<lambda>_.
           tx_bind (tx_found (LearnerCourseAccessRepo_Get (ent_learner e) (ent_course e))) (\<lambda>acc.
           tx_bind (case acc of None \<Rightarrow> tx_return ()
                    | Some a \<Rightarrow> tx_bind (LearnerCourseAccessRepo_SetStatus (acc_id a) AccRevoked)
                                 (\<lambda>_. tx_return ())) (\<lambda>_.
           tx_bind (AuditRepo_Record (entitlement_audit e ''entitlement.revoked'' (Some [(''reason'', ev)]))) (\<lambda>_.
             tx_return True)))))
     (\<lambda>_. commerce_ok V {} Y)"
  proof (cases found)
    case None
    then show ?thesis by (simp add: tx_post_def)
  next
    case (Some e)
    have assoc: "tx_bind m (\<lambda>acc. tx_bind (g acc) k) = tx_bind (tx_bind m g) k"
      for m :: "(db, course_access option) tx" and g and k :: "unit \<Rightarrow> (db, bool) tx"
      by (auto simp: tx_bind_def split: sum.splits prod.splits)
    have "tx_post (\<lambda>s. commerce_ok V {} Y s \<and> e \<in> set (entitlements s)) (EntitlementRepo_Revoke (ent_id e))
        (\<lambda>_. commerce_ok V {(ent_learner e, ent_course e)} Y)"
      unfolding EntitlementRepo_Revoke_def by (rule end_entitlement_post) simp
    then show ?thesis
      unfolding Some option.case assoc
      apply (simp only: option.inject)
      apply (rule tx_post_if)
       apply (simp add: tx_post_def)
      apply (rule tx_post_bind, simp)
      apply (rule tx_post_bind[OF close_access_post])
       apply simp
      by (intro tx_rules)
  qed
qed

lemma refund_processed_ok: "tx_pres (commerce_ok V {} {}) (refund_processed_tx env ent)"
  unfolding refund_processed_tx_def by (intro tx_rules)

lemma refund_failed_ok: "tx_pres (commerce_ok V {} {}) (refund_failed_tx ent)"
  unfolding refund_failed_tx_def by (intro tx_rules)

lemma dispute_created_ok: "tx_pres (commerce_ok V {} {}) (dispute_created_tx ent)"
  unfolding dispute_created_tx_def by (intro tx_rules)

lemma dispute_resolved_ok: "tx_pres (commerce_ok V {} {}) (dispute_resolved_tx ent final)"
  unfolding dispute_resolved_tx_def by (intro tx_rules)

section \<open>The job keeps the invariants\<close>

lemma run_tx_h_pres [h_rules]: "tx_pres I m \<Longrightarrow> h_pres I (run_tx m)"
  by (auto simp: h_post_def intro: run_tx_pres)

lemma EnqueueSendReceiptEmail_ok [h_rules]: "h_pres (commerce_ok V X Y) (EnqueueSendReceiptEmail ok rc)"
  by (auto simp: h_post_def EnqueueSendReceiptEmail_def same_commerce_def intro: same_commerce_ok)

text \<open>The provider order id a verified capture names.\<close>

definition captured_order_id :: "(string \<Rightarrow> json option) \<Rightarrow> webhook_job \<Rightarrow> string option" where
  "captured_order_id parse job = (if job_event job \<noteq> ''payment.captured'' then None else
     (case parse (job_body job) of None \<Rightarrow> None | Some j \<Rightarrow>
       (case razorpayWebhookBody j of Inl _ \<Rightarrow> None | Inr body \<Rightarrow>
         (case extractEntity body ''payment'' of None \<Rightarrow> None | Some raw \<Rightarrow>
           (case razorpayPaymentEntity raw of Inl _ \<Rightarrow> None | Inr ent \<Rightarrow> Some (pe_order_id ent))))))"

lemma dispatch_event_ok:
  assumes "\<And>raw ent. ev = ''payment.captured'' \<Longrightarrow> extractEntity body ''payment'' = Some raw \<Longrightarrow>
             razorpayPaymentEntity raw = Inr ent \<Longrightarrow> pe_order_id ent \<in> V"
  shows "h_pres (commerce_ok V {} {}) (dispatch_event env ev body)"
proof (cases "ev = ''payment.captured''")
  case True
  then show ?thesis
    using assms
    by (auto simp: dispatch_event_def handlePaymentCaptured_def split: option.split sum.split
        intro!: h_rules payment_captured_ok)
next
  case False
  then show ?thesis
    unfolding dispatch_event_def handlePaymentFailed_def handleRefundProcessed_def handleRefundFailed_def
      handleDisputeCreated_def handleDisputeResolved_def
    by (simp only: if_False) (intro h_rules payment_failed_ok refund_processed_ok refund_failed_ok
        dispute_created_ok dispute_resolved_ok)
qed

lemma handle_ok:
  assumes "set_option (captured_order_id parse job) \<subseteq> V"
  shows "h_pres (commerce_ok V {} {}) (handle parse env job)"
proof (cases "parse (job_body job)")
  case None
  then show ?thesis by (simp add: handle_def h_rules)
next
  case (Some j)
  show ?thesis
  proof (cases "razorpayWebhookBody j")
    case (Inl e)
    then show ?thesis
      using Some Inl by (simp add: handle_def cong: if_cong) (intro h_rules tx_rules)
  next
    case (Inr body)
    have "h_pres (commerce_ok V {} {}) (dispatch_event env (job_event job) body)"
      by (rule dispatch_event_ok) (use assms Some Inr in \<open>auto simp: captured_order_id_def\<close>)
    then show ?thesis
      using Some Inr by (simp add: handle_def cong: if_cong) (intro h_rules tx_rules; assumption)
  qed
qed

section \<open>What a capture does\<close>

text \<open>Each step of a capture succeeds, and what it leaves untouched.\<close>

lemma upsert_payment_total:
  assumes ok: "keyed_ok payments pay_id s"
  shows "\<exists>p ps n. upsert_payment ord st ent raw s = Inr (p, s\<lparr>next_id := n, payments := ps\<rparr>) \<and>
     next_id s \<le> n \<and> p \<in> set ps \<and> pay_order p = ord_id ord \<and> pay_status p = st \<and> pay_rzp p = Some (pe_id ent)"
proof (cases "youngest pay_created (filter (\<lambda>r. pay_order r = ord_id ord) (payments s))")
  case None
  let ?p = "\<lparr>pay_id = next_id s, pay_org = ord_org ord, pay_order = ord_id ord, pay_rzp = Some (pe_id ent),
    pay_status = st, pay_raw = Some raw, pay_created = clock s, pay_updated = clock s\<rparr>"
  have run: "upsert_payment ord st ent raw s =
      Inr (?p, s\<lparr>next_id := Suc (next_id s), payments := payments s @ [?p]\<rparr>)"
    using None by (simp add: upsert_payment_def repo_defs tab_insert_run)
  show ?thesis by (intro exI conjI, rule run) auto
next
  case (Some p)
  then have p: "p \<in> set (payments s)" "pay_order p = ord_id ord" by (auto dest: youngest_in)
  let ?f = "\<lambda>r. if pay_id r = pay_id p then r\<lparr>pay_status := st, pay_updated := clock s,
     pay_rzp := coalesce (Some (pe_id ent)) (pay_rzp r), pay_raw := coalesce (Some raw) (pay_raw r)\<rparr> else r"
  have run: "upsert_payment ord st ent raw s =
      Inr (?f p, s\<lparr>next_id := next_id s, payments := map ?f (payments s)\<rparr>)"
    using Some key_find[OF ok p(1)]
    by (simp add: upsert_payment_def repo_defs tab_update_now_def tab_update_def)
  have mem: "?f p \<in> set (map ?f (payments s))" unfolding set_map by (rule imageI[where f = ?f, OF p(1)])
  show ?thesis by (intro exI conjI, rule run, simp, rule mem) (simp_all add: coalesce_def p(2))
qed

lemma grant_course_access_total:
  assumes ok: "keyed_ok accesses acc_id s"
  shows "\<exists>as n. grant_course_access org l c ent s = Inr ((), s\<lparr>next_id := n, accesses := as\<rparr>) \<and> next_id s \<le> n \<and>
     (\<exists>a \<in> set as. acc_learner a = l \<and> acc_course a = c \<and> acc_status a = AccActive \<and> acc_entitlement a = Some ent)"
proof (cases "find (\<lambda>r. acc_learner r = l \<and> acc_course r = c) (accesses s)")
  case None
  then have new: "\<not> (\<exists>r \<in> set (accesses s). acc_learner r = l \<and> acc_course r = c)"
    by (auto simp: find_None_iff)
  have create: "LearnerCourseAccessRepo_Create org l c (Some ent) s =
      Inr (\<lparr>acc_id = next_id s, acc_org = org, acc_learner = l, acc_course = c, acc_entitlement = Some ent,
        acc_enrolled = clock s, acc_status = AccActive\<rparr>, s\<lparr>next_id := Suc (next_id s), accesses := accesses s @
     [\<lparr>acc_id = next_id s, acc_org = org, acc_learner = l, acc_course = c, acc_entitlement = Some ent,
       acc_enrolled = clock s, acc_status = AccActive\<rparr>]\<rparr>)"
    by (simp only: LearnerCourseAccessRepo_Create_def if_not_P[OF new] tab_insert_run)
  have run: "grant_course_access org l c ent s = Inr ((), s\<lparr>next_id := Suc (next_id s), accesses := accesses s @
     [\<lparr>acc_id = next_id s, acc_org = org, acc_learner = l, acc_course = c, acc_entitlement = Some ent,
       acc_enrolled = clock s, acc_status = AccActive\<rparr>]\<rparr>)"
    by (simp add: grant_course_access_def LearnerCourseAccessRepo_Get_def None tx_bind_run(1)[where m = "LearnerCourseAccessRepo_Create org l c (Some ent)", OF create])
  show ?thesis by (intro exI conjI, rule run) auto
next
  case (Some a)
  then have a: "a \<in> set (accesses s)" "acc_learner a = l" "acc_course a = c" by (auto dest: find_SomeD)
  let ?f = "\<lambda>r. if acc_id r = acc_id a then r\<lparr>acc_entitlement := Some ent, acc_status := AccActive\<rparr> else r"
  have run: "grant_course_access org l c ent s = Inr ((), s\<lparr>next_id := next_id s, accesses := map ?f (accesses s)\<rparr>)"
    using Some key_find[OF ok a(1)] by (simp add: grant_course_access_def repo_defs tab_update_def)
  have mem: "?f a \<in> set (map ?f (accesses s))" unfolding set_map by (rule imageI[where f = ?f, OF a(1)])
  show ?thesis by (intro exI conjI, rule run, simp, rule bexI[OF _ mem]) (simp add: a)
qed

lemma redeem_code_total:
  "\<exists>x cs. redeem_code c s = Inr (x, s\<lparr>discount_codes := cs\<rparr>)"
proof (cases c)
  case None
  have "s = s\<lparr>discount_codes := discount_codes s\<rparr>" by simp
  then show ?thesis using None unfolding redeem_code_def by (metis option.case(1) tx_return_def)
next
  case (Some i)
  have s: "s = s\<lparr>discount_codes := discount_codes s\<rparr>" by simp
  show ?thesis
  proof (cases "find (\<lambda>r. dc_id r = i \<and> below_cap r) (discount_codes s)")
    case None
    then have "redeem_code c s = Inr ([], s)"
      by (simp add: Some redeem_code_def DiscountCodeRepo_IncrementRedemption_def tx_attempt_def tab_update_def)
    then show ?thesis using s by metis
  next
    case found: (Some d)
    show ?thesis
      by (intro exI) (simp add: Some redeem_code_def DiscountCodeRepo_IncrementRedemption_def tx_attempt_def
          tab_update_def found)
  qed
qed

lemma OrderRepo_UpdateStatus_run:
  assumes ok: "keyed_ok orders ord_id s" and x: "x \<in> set (orders s)"
  shows "OrderRepo_UpdateStatus (ord_id x) st s = Inr (x\<lparr>ord_status := st, ord_updated := clock s\<rparr>,
     s\<lparr>orders := map (\<lambda>r. if ord_id r = ord_id x then r\<lparr>ord_status := st, ord_updated := clock s\<rparr> else r) (orders s)\<rparr>)"
  using key_find[OF ok x] by (simp add: repo_defs tab_update_now_def tab_update_def)

text \<open>
  What the transaction of a capture comes to: with its analytics event refused it fails as a
  whole, otherwise it commits the sale.
\<close>

definition sale_stored :: "order \<Rightarrow> offer \<Rightarrow> payment_entity \<Rightarrow> time \<Rightarrow> db \<Rightarrow> bool" where
  "sale_stored ord off ent now s \<longleftrightarrow>
     (\<exists>x \<in> set (orders s). ord_id x = ord_id ord \<and> ord_status x = OrdSucceeded) \<and>
     (\<exists>p \<in> set (payments s). pay_order p = ord_id ord \<and> pay_status p = PaySucceeded \<and>
        pay_rzp p = Some (pe_id ent)) \<and>
     (\<exists>e \<in> set (entitlements s). ent_order e = Some (ord_id ord) \<and> ent_learner e = ord_learner ord \<and>
        ent_course e = of_course off \<and> ent_status e = EntActive \<and> ent_expires e = expires_at off now \<and>
        (\<exists>a \<in> set (accesses s). acc_learner a = ord_learner ord \<and> acc_course a = of_course off \<and>
           acc_status a = AccActive \<and> acc_entitlement a = Some (ent_id e)))"

lemma payment_captured_run:
  assumes ok: "commerce_ok V {} {} s"
    and ord: "find (\<lambda>x. ord_rzp x = Some (pe_order_id ent)) (orders s) = Some ord"
      "ord_status ord \<noteq> OrdSucceeded"
    and off: "find (\<lambda>f. of_id f = ord_offer ord) (offers s) = Some off"
    and c: "find (\<lambda>c. c_id c = of_course off) (courses s) = Some c"
  shows "\<exists>code s'. payment_captured_tx env ent raw s =
       (if je_event env then Inr (Some (receipt_for ord off c code), s') else Inl ErrStorage) \<and>
     sale_stored ord off ent (clock s) s' \<and> receipts s' = receipts s"
proof -
  have tabs: "keyed_ok orders ord_id s" "keyed_ok payments pay_id s" "keyed_ok accesses acc_id s"
    using ok by (simp_all add: commerce_ok_def tables_ok_def)
  have x: "ord \<in> set (orders s)" using ord(1) by (simp add: find_SomeD)
  obtain p ps n where p: "upsert_payment ord PaySucceeded ent raw s = Inr (p, s\<lparr>next_id := n, payments := ps\<rparr>)"
      "next_id s \<le> n" "p \<in> set ps" "pay_order p = ord_id ord" "pay_status p = PaySucceeded" "pay_rzp p = Some (pe_id ent)"
    using upsert_payment_total[OF tabs(2)] by metis
  define s1 where "s1 = s\<lparr>next_id := n, payments := ps\<rparr>"
  let ?os = "map (\<lambda>r. if ord_id r = ord_id ord then r\<lparr>ord_status := OrdSucceeded, ord_updated := clock s\<rparr> else r) (orders s)"
  have k1: "keyed_ok orders ord_id s1" by (rule keyed_ok_frame[OF tabs(1)]) (use p(2) in \<open>simp_all add: s1_def\<close>)
  define s2 where "s2 = s1\<lparr>orders := ?os\<rparr>"
  have r2: "OrderRepo_UpdateStatus (ord_id ord) OrdSucceeded s1 =
      Inr (ord\<lparr>ord_status := OrdSucceeded, ord_updated := clock s\<rparr>, s2)"
    using OrderRepo_UpdateStatus_run[OF k1, of ord OrdSucceeded] x by (simp add: s1_def s2_def)
  have r3: "OfferRepo_Get (ord_offer ord) s2 = Inr (off, s2)"
    using off by (simp add: OfferRepo_Get_def tab_select1_def s1_def s2_def)
  define e where "e = (new_entitlement ord off (clock s))\<lparr>ent_id := n, ent_created := clock s, ent_updated := clock s\<rparr>"
  define s3 where "s3 = s2\<lparr>next_id := Suc n, entitlements := entitlements s @ [e]\<rparr>"
  have r4: "EntitlementRepo_Create (new_entitlement ord off (clock s2)) s2 = Inr (e, s3)"
    by (simp add: EntitlementRepo_Create_def tab_insert_run e_def s3_def s2_def s1_def)
  have k3: "keyed_ok accesses acc_id s3"
    by (rule keyed_ok_frame[OF tabs(3)]) (use p(2) in \<open>simp_all add: s1_def s2_def s3_def\<close>)
  obtain as m a where g: "grant_course_access (ord_org ord) (ord_learner ord) (of_course off) (ent_id e) s3 =
        Inr ((), s3\<lparr>next_id := m, accesses := as\<rparr>)"
      "a \<in> set as" "acc_learner a = ord_learner ord" "acc_course a = of_course off" "acc_status a = AccActive"
      "acc_entitlement a = Some (ent_id e)"
    using grant_course_access_total[OF k3] by metis
  define s4 where "s4 = s3\<lparr>next_id := m, accesses := as\<rparr>"
  obtain code cs where code: "redeem_code (ord_code ord) s4 = Inr (code, s4\<lparr>discount_codes := cs\<rparr>)"
    using redeem_code_total by metis
  define s5 where "s5 = s4\<lparr>discount_codes := cs\<rparr>"
  have fin: "find (\<lambda>c. c_id c = of_course off) (courses s5) = Some c"
    using c by (simp add: s5_def s4_def s3_def s2_def s1_def)
  have "\<exists>tr lg an. capture_order env ord ent raw s = (if je_event env then Inr (receipt_for ord off c code,
      s5\<lparr>audit_trail := tr, audit_log := lg, analytics := an\<rparr>) else Inl ErrStorage)"
    unfolding capture_order_def
    by (cases "je_event env"; intro exI) (simp_all add: p(1) r2 r3 r4 g(1) code fin PaymentAuditRepo_Record_def AuditRepo_Record_def
        CourseRepo_Get_def AnalyticsEventRepo_Record_def tab_select1_def tx_throw_def
        flip: s1_def s4_def s5_def)
  then obtain tr lg an where run: "capture_order env ord ent raw s = (if je_event env then
      Inr (receipt_for ord off c code, s5\<lparr>audit_trail := tr, audit_log := lg, analytics := an\<rparr>)
      else Inl ErrStorage)" by blast
  define s6 where "s6 = s5\<lparr>audit_trail := tr, audit_log := lg, analytics := an\<rparr>"
  have run': "payment_captured_tx env ent raw s =
      (if je_event env then Inr (Some (receipt_for ord off c code), s6) else Inl ErrStorage)"
    using ord run by (simp add: payment_captured_tx_def OrderRepo_GetByRazorpayOrderID_def tab_select1_def s6_def tx_bind_def)
  have tabs6: "orders s6 = ?os" "payments s6 = ps" "entitlements s6 = entitlements s @ [e]" "accesses s6 = as"
    by (simp_all add: s6_def s5_def s4_def s3_def s2_def s1_def)
  have e6: "ent_order e = Some (ord_id ord)" "ent_learner e = ord_learner ord" "ent_course e = of_course off"
      "ent_status e = EntActive" "ent_expires e = expires_at off (clock s)"
    by (simp_all add: e_def new_entitlement_def)
  have "\<exists>x \<in> set (orders s6). ord_id x = ord_id ord \<and> ord_status x = OrdSucceeded"
    unfolding tabs6 set_map bex_simps using x by (intro bexI[of _ ord]) simp_all
  moreover have "\<exists>p \<in> set (payments s6). pay_order p = ord_id ord \<and> pay_status p = PaySucceeded \<and>
      pay_rzp p = Some (pe_id ent)"
    unfolding tabs6 using p by blast
  moreover have "\<exists>a \<in> set (accesses s6). acc_learner a = ord_learner ord \<and> acc_course a = of_course off \<and>
         acc_status a = AccActive \<and> acc_entitlement a = Some (ent_id e)"
    unfolding tabs6 using g by blast
  then have "\<exists>e \<in> set (entitlements s6). ent_order e = Some (ord_id ord) \<and> ent_learner e = ord_learner ord \<and>
      ent_course e = of_course off \<and> ent_status e = EntActive \<and> ent_expires e = expires_at off (clock s) \<and>
      (\<exists>a \<in> set (accesses s6). acc_learner a = ord_learner ord \<and> acc_course a = of_course off \<and>
         acc_status a = AccActive \<and> acc_entitlement a = Some (ent_id e))"
    using e6 by (intro bexI[of _ e]) (auto simp: tabs6)
  moreover have "receipts s6 = receipts s" by (simp add: s6_def s5_def s4_def s3_def s2_def s1_def)
  ultimately show ?thesis using run' unfolding sale_stored_def by blast
qed

lemma sale_stored_receipts: "sale_stored ord off ent now (s\<lparr>receipts := rs\<rparr>) = sale_stored ord off ent now s"
  by (simp add: sale_stored_def)

text \<open>
  C5: a verified payment.captured for a known order that has not succeeded stands or falls with
  its analytics event. PostgreSQL refuses that insert as it is written, and then the job fails
  and stores nothing, although the money was taken: the order stays as it was, with no payment
  row, entitlement or access, and no receipt is queued. Were the insert taken, the job would
  leave the order succeeded, its payment row succeeded under the provider's payment id, an
  active entitlement of the learner to the offer's course with the offer's expiry, the learner's
  access row active and resting on it, and (if the queue accepts it) a receipt with the order's
  total.
\<close>

theorem capture_stands_with_its_event:
  assumes ok: "commerce_ok V {} {} s"
    and body: "extractEntity body ''payment'' = Some raw" "razorpayPaymentEntity raw = Inr ent"
    and ord: "find (\<lambda>x. ord_rzp x = Some (pe_order_id ent)) (orders s) = Some ord"
      "ord_status ord \<noteq> OrdSucceeded"
    and off: "find (\<lambda>f. of_id f = ord_offer ord) (offers s) = Some off"
    and c: "find (\<lambda>c. c_id c = of_course off) (courses s) = Some c"
  shows "(\<not> je_event env \<longrightarrow> handlePaymentCaptured env body s = (Inl ErrStorage, s)) \<and>
    (je_event env \<longrightarrow> (\<exists>rc s'. handlePaymentCaptured env body s = (Inr (), s') \<and>
       (\<exists>x \<in> set (orders s'). ord_id x = ord_id ord \<and> ord_status x = OrdSucceeded) \<and>
       (\<exists>p \<in> set (payments s'). pay_order p = ord_id ord \<and> pay_status p = PaySucceeded \<and>
          pay_rzp p = Some (pe_id ent)) \<and>
       (\<exists>e \<in> set (entitlements s'). ent_order e = Some (ord_id ord) \<and> ent_learner e = ord_learner ord \<and>
          ent_course e = of_course off \<and> ent_status e = EntActive \<and> ent_expires e = expires_at off (clock s) \<and>
          (\<exists>a \<in> set (accesses s'). acc_learner a = ord_learner ord \<and> acc_course a = of_course off \<and>
             acc_status a = AccActive \<and> acc_entitlement a = Some (ent_id e))) \<and>
       rc_learner rc = ord_learner ord \<and> rc_course rc = of_course off \<and> rc_total rc = ord_total ord \<and>
       receipts s' = receipts s @ (if je_queue env then [rc] else [])))"
proof -
  obtain code s' where tx: "payment_captured_tx env ent raw s =
       (if je_event env then Inr (Some (receipt_for ord off c code), s') else Inl ErrStorage)"
    and st: "sale_stored ord off ent (clock s) s'" and rs: "receipts s' = receipts s"
    using payment_captured_run[OF ok ord off c] by blast
  define t where "t = s'\<lparr>receipts := receipts s @ (if je_queue env then [receipt_for ord off c code] else [])\<rparr>"
  have "handlePaymentCaptured env body s = (if je_event env then (Inr (), t) else (Inl ErrStorage, s))"
    using tx rs by (simp add: handlePaymentCaptured_def body run_tx_def h_bind_def EnqueueSendReceiptEmail_def t_def flip: rs)
  moreover have "sale_stored ord off ent (clock s) t" using st by (simp add: t_def sale_stored_receipts)
  moreover have "receipts t = receipts s @ (if je_queue env then [receipt_for ord off c code] else [])" by (simp add: t_def)
  ultimately show ?thesis unfolding sale_stored_def
    by (intro conjI impI exI[of _ "receipt_for ord off c code"] exI[of _ t]) (simp_all add: receipt_for_def)
qed

section \<open>Frames\<close>

text \<open>What a method leaves untouched, for the tables the idempotence proofs look at.\<close>

lemma webhook_frame:
  "tx_pres (\<lambda>s. P (webhook_events s)) (PaymentRepo_Create q)"
  "tx_pres (\<lambda>s. P (webhook_events s)) (PaymentRepo_UpdateStatus i pst rz raw)"
  "tx_pres (\<lambda>s. P (webhook_events s)) (OrderRepo_UpdateStatus i st)"
  "tx_pres (\<lambda>s. P (webhook_events s)) (EntitlementRepo_Create e)"
  "tx_pres (\<lambda>s. P (webhook_events s)) (EntitlementRepo_Revoke i)"
  "tx_pres (\<lambda>s. P (webhook_events s)) (LearnerCourseAccessRepo_Create org l c x)"
  "tx_pres (\<lambda>s. P (webhook_events s)) (LearnerCourseAccessRepo_SetStatus i ast)"
  "tx_pres (\<lambda>s. P (webhook_events s)) (LearnerCourseAccessRepo_SetEntitlementAndStatus i x ast)"
  "tx_pres (\<lambda>s. P (webhook_events s)) (DiscountCodeRepo_IncrementRedemption i)"
  "tx_pres (\<lambda>s. P (webhook_events s)) (RefundRepo_Create rf)"
  "tx_pres (\<lambda>s. P (webhook_events s)) (RefundRepo_UpdateStatus i rst rz)"
  "tx_pres (\<lambda>s. P (webhook_events s)) (ChargebackRepo_Create cb)"
  "tx_pres (\<lambda>s. P (webhook_events s)) (ChargebackRepo_UpdateStatus i cst)"
  "tx_pres (\<lambda>s. P (webhook_events s)) (PaymentAuditRepo_Record pa)"
  "tx_pres (\<lambda>s. P (webhook_events s)) (AuditRepo_Record ae)"
  "tx_pres (\<lambda>s. P (webhook_events s)) (AnalyticsEventRepo_Record takes i ty act crs)"
  by (auto simp: tx_post_def repo_defs db_Inr LearnerCourseAccessRepo_Create_def
      DiscountCodeRepo_IncrementRedemption_def split: if_splits sum.splits err.splits)

lemma orders_frame:
  "tx_pres (\<lambda>s. P (orders s)) (PaymentRepo_Create q)"
  "tx_pres (\<lambda>s. P (orders s)) (PaymentRepo_UpdateStatus i pst rz raw)"
  "tx_pres (\<lambda>s. P (orders s)) (EntitlementRepo_Create e)"
  "tx_pres (\<lambda>s. P (orders s)) (LearnerCourseAccessRepo_Create org l c x)"
  "tx_pres (\<lambda>s. P (orders s)) (LearnerCourseAccessRepo_SetEntitlementAndStatus i x ast)"
  "tx_pres (\<lambda>s. P (orders s)) (DiscountCodeRepo_IncrementRedemption i)"
  "tx_pres (\<lambda>s. P (orders s)) (PaymentAuditRepo_Record pa)"
  "tx_pres (\<lambda>s. P (orders s)) (AuditRepo_Record ae)"
  "tx_pres (\<lambda>s. P (orders s)) (AnalyticsEventRepo_Record takes i ty act crs)"
  by (auto simp: tx_post_def repo_defs db_Inr LearnerCourseAccessRepo_Create_def
      DiscountCodeRepo_IncrementRedemption_def split: if_splits sum.splits err.splits)

lemma dispatch_webhook_frame: "h_pres (\<lambda>s. P (webhook_events s)) (dispatch_event env ev body)"
proof -
  have "h_pres (\<lambda>s. P (webhook_events s)) (EnqueueSendReceiptEmail ok rc)" for ok rc
    by (auto simp: h_post_def EnqueueSendReceiptEmail_def)
  then show ?thesis
    unfolding dispatch_event_def handlePaymentCaptured_def handlePaymentFailed_def handleRefundProcessed_def
      handleRefundFailed_def handleDisputeCreated_def handleDisputeResolved_def payment_captured_tx_def
      capture_order_def payment_failed_tx_def refund_processed_tx_def refund_failed_tx_def
      dispute_created_tx_def dispute_resolved_tx_def revokeEntitlementForPayment_def upsert_payment_def
      redeem_code_def grant_course_access_def
    by (intro h_rules tx_rules webhook_frame; assumption?)
qed

section \<open>Idempotence\<close>

text \<open>The order a capture resolves is settled afterwards.\<close>

definition settled :: "string \<Rightarrow> order list \<Rightarrow> bool" where
  "settled z xs \<longleftrightarrow> (\<exists>x. find (\<lambda>r. ord_rzp r = Some z) xs = Some x \<and> ord_status x = OrdSucceeded)"

lemma capture_settles:
  "tx_post (\<lambda>s. find (\<lambda>r. ord_rzp r = Some z) (orders s) = Some ord) (capture_order env ord ent raw)
     (\<lambda>_ s. settled z (orders s))"
  unfolding capture_order_def
  apply (rule tx_pres_bind)
   apply (rule upsert_payment_pres; rule orders_frame)
  apply (rule tx_post_bind[where R = "\<lambda>_ s. settled z (orders s)"])
   apply (auto simp: tx_post_def repo_defs db_Inr settled_def find_map_upd)[1]
  unfolding redeem_code_def grant_course_access_def
  by (intro tx_rules orders_frame)

lemma payment_captured_settles:
  "tx_post (\<lambda>_. True) (payment_captured_tx env ent raw) (\<lambda>_ s. settled (pe_order_id ent) (orders s))"
  unfolding payment_captured_tx_def
proof (rule tx_post_bind)
  show "tx_post (\<lambda>_. True) (OrderRepo_GetByRazorpayOrderID (pe_order_id ent))
     (\<lambda>ord s. find (\<lambda>r. ord_rzp r = Some (pe_order_id ent)) (orders s) = Some ord)"
    by (auto simp: tx_post_def repo_defs db_Inr)
  fix ord
  show "tx_post (\<lambda>s. find (\<lambda>r. ord_rzp r = Some (pe_order_id ent)) (orders s) = Some ord)
     (if ord_status ord = OrdSucceeded then tx_return None
      else tx_bind (capture_order env ord ent raw) (\<lambda>rc. tx_return (Some rc)))
     (\<lambda>_ s. settled (pe_order_id ent) (orders s))"
    by (cases "ord_status ord = OrdSucceeded")
      (auto simp: tx_post_def settled_def tx_bind_Inr dest: tx_postD[OF capture_settles])
qed

lemma settled_noop: "settled (pe_order_id ent) (orders s) \<Longrightarrow> payment_captured_tx env ent raw s = Inr (None, s)"
  by (auto simp: settled_def payment_captured_tx_def OrderRepo_GetByRazorpayOrderID_def tab_select1_def)

text \<open>
  once a payment.captured delivery has been handled without an error, handling it again
  changes nothing: no second payment, entitlement, audit entry or receipt.
\<close>

theorem capture_idempotent:
  assumes "handlePaymentCaptured ok body s = (Inr (), s1)"
  shows "handlePaymentCaptured ok' body s1 = (Inr (), s1)"
proof -
  obtain raw ent where b: "extractEntity body ''payment'' = Some raw" "razorpayPaymentEntity raw = Inr ent"
    using assms by (auto simp: handlePaymentCaptured_def h_respond_def split: option.splits sum.splits)
  obtain rc s0 where tx: "payment_captured_tx ok ent raw s = Inr (rc, s0)" and o1: "orders s1 = orders s0"
    using assms by (auto simp: handlePaymentCaptured_def b run_tx_def h_bind_def h_return_def
        EnqueueSendReceiptEmail_def split: sum.splits prod.splits option.splits if_splits)
  have "settled (pe_order_id ent) (orders s1)"
    using tx_postD[OF payment_captured_settles tx] o1 by simp
  then show ?thesis
    by (simp add: handlePaymentCaptured_def b run_tx_def h_bind_def h_return_def settled_noop)
qed

lemma youngest_map: "(\<And>x. t (f x) = t x) \<Longrightarrow> youngest t (map f xs) = map_option f (youngest t xs)"
  by (induction xs) (auto split: option.splits)

definition seen_processed :: "json \<Rightarrow> webhook_event list \<Rightarrow> bool" where
  "seen_processed j ws \<longleftrightarrow> (\<exists>e. youngest we_created (filter (\<lambda>r. we_payload r = jsonb j) ws) = Some e \<and>
     we_processed e \<noteq> None)"

lemma lookup_run: "run_tx (tx_found (WebhookEventRepo_GetByPayload j)) s =
    (Inr (youngest we_created (filter (\<lambda>r. we_payload r = jsonb j) (webhook_events s))), s)"
  by (simp add: run_tx_def WebhookEventRepo_GetByPayload_def)

lemma mark_run:
  assumes "r \<in> set (webhook_events s)"
  shows "run_tx (tx_found (WebhookEventRepo_MarkProcessed (we_event_id r))) s = (Inr (Some ()),
    s\<lparr>webhook_events := map (\<lambda>x. if we_event_id x = we_event_id r then x\<lparr>we_processed := Some (clock s)\<rparr> else x)
       (webhook_events s)\<rparr>)"
proof -
  have "find (\<lambda>x. we_event_id x = we_event_id r) (webhook_events s) \<noteq> None"
    unfolding find_None_iff using assms by blast
  then obtain x where "find (\<lambda>x. we_event_id x = we_event_id r) (webhook_events s) = Some x" by blast
  then show ?thesis
    by (simp add: run_tx_def WebhookEventRepo_MarkProcessed_def tx_found_def tab_update_now_def tab_update_def)
qed

lemma seen_processed_noop:
  "parse (job_body job) = Some j \<Longrightarrow> seen_processed j (webhook_events s) \<Longrightarrow> handle parse ok job s = (Inr (), s)"
  by (auto simp: handle_def seen_processed_def lookup_run h_return_def)

lemma seen_processed_same:
  "filter (\<lambda>r. we_payload r = jsonb j) ws = filter (\<lambda>r. we_payload r = jsonb j) ws' \<Longrightarrow>
   seen_processed j ws = seen_processed j ws'"
  by (simp add: seen_processed_def)

text \<open>
  C6: a recorded delivery is processed exactly once: after a run of its job that returned no
  error, a further run of it returns at once and leaves the database alone, whatever its event
  type and whatever else has happened to the database in between, as long as the deliveries
  recorded with this very payload are still those the first run left.
\<close>

theorem job_exactly_once:
  assumes run: "handle parse env job s = (Inr (), s1)"
    and j: "parse (job_body job) = Some j"
    and rec: "\<exists>e \<in> set (webhook_events s). we_payload e = jsonb j"
    and later: "filter (\<lambda>r. we_payload r = jsonb j) (webhook_events s2) =
      filter (\<lambda>r. we_payload r = jsonb j) (webhook_events s1)"
  shows "handle parse env' job s2 = (Inr (), s2)"
proof (rule seen_processed_noop[where parse = parse and job = job and j = j, OF j], unfold seen_processed_same[OF later])
  obtain e where e: "youngest we_created (filter (\<lambda>r. we_payload r = jsonb j) (webhook_events s)) = Some e"
    using rec by (metis (mono_tags, lifting) filter_empty_conv not_Some_eq youngest_None)
  show "seen_processed j (webhook_events s1)"
  proof (cases "we_processed e = None")
    case False
    then have seen: "seen_processed j (webhook_events s)" using e by (auto simp: seen_processed_def)
    then show ?thesis using seen_processed_noop[where parse = parse and job = job, OF j seen, of env] run by simp
  next
    case True
    obtain body where body: "razorpayWebhookBody j = Inr body"
      using run j e True by (auto simp: handle_def lookup_run h_respond_def split: sum.splits)
    have run': "h_bind (dispatch_event env (job_event job) body)
       (\<lambda>_. h_bind (run_tx (tx_found (WebhookEventRepo_MarkProcessed (we_event_id e)))) (\<lambda>_. h_return ())) s
       = (Inr (), s1)"
      using run j e True body by (simp add: handle_def lookup_run)
    then obtain u s0 where d: "dispatch_event env (job_event job) body s = (Inr u, s0)"
      by (auto simp: h_bind_def split: sum.splits prod.splits)
    have w: "webhook_events s0 = webhook_events s"
      using h_presD[OF dispatch_webhook_frame[of "\<lambda>w. w = webhook_events s"], of s] d by (metis snd_conv)
    let ?f = "\<lambda>r. if we_event_id r = we_event_id e then r\<lparr>we_processed := Some (clock s0)\<rparr> else r"
    have "e \<in> set (webhook_events s0)" using youngest_in[OF e] w by simp
    then have "s1 = s0\<lparr>webhook_events := map ?f (webhook_events s0)\<rparr>"
      using run' d by (simp add: mark_run h_return_def)
    then have "filter (\<lambda>r. we_payload r = jsonb j) (webhook_events s1) =
        map ?f (filter (\<lambda>r. we_payload r = jsonb j) (webhook_events s))"
      using w by (auto simp: filter_map comp_def if_distrib cong: if_cong)
    then show ?thesis using e by (simp add: seen_processed_def youngest_map)
  qed
qed

section \<open>Revocation\<close>

lemma map_by_key:
  assumes "keyed_ok get k s" "r0 \<in> set (get s)" "P r0" "\<And>r. r \<in> set (get s) \<Longrightarrow> P r \<Longrightarrow> r = r0"
  shows "map (\<lambda>r. if k r = k r0 then f r else r) (get s) = map (\<lambda>r. if P r then f r else r) (get s)"
proof (rule map_cong[OF refl])
  fix r assume r: "r \<in> set (get s)"
  have "k r = k r0 \<longleftrightarrow> r = r0"
    using assms(1,2) r by (auto simp: keyed_ok_def distinct_map inj_on_def)
  moreover have "P r \<longleftrightarrow> r = r0" using assms(3,4) r by blast
  ultimately show "(if k r = k r0 then f r else r) = (if P r then f r else r)" by (simp only:)
qed

lemma close_access_run:
  assumes ok: "commerce_ok V X Y s"
  shows "tx_bind (tx_found (LearnerCourseAccessRepo_Get l c)) (\<lambda>acc.
      case acc of None \<Rightarrow> tx_return ()
      | Some a \<Rightarrow> tx_bind (LearnerCourseAccessRepo_SetStatus (acc_id a) st) (\<lambda>_. tx_return ())) s =
    Inr ((), s\<lparr>accesses := map (\<lambda>a. if acc_learner a = l \<and> acc_course a = c then a\<lparr>acc_status := st\<rparr> else a)
       (accesses s)\<rparr>)"
proof (cases "find (\<lambda>r. acc_learner r = l \<and> acc_course r = c) (accesses s)")
  case None
  then have "map (\<lambda>a. if acc_learner a = l \<and> acc_course a = c then a\<lparr>acc_status := st\<rparr> else a) (accesses s) = accesses s"
    by (intro map_idI) (auto simp: find_None_iff)
  then show ?thesis using None by (simp add: LearnerCourseAccessRepo_Get_def)
next
  case (Some a)
  have a: "a \<in> set (accesses s)" "acc_learner a = l" "acc_course a = c" using find_SomeD[OF Some] by auto
  have k: "keyed_ok accesses acc_id s" using ok by (simp add: commerce_ok_def tables_ok_def)
  have u: "r = a" if "r \<in> set (accesses s)" "acc_learner r = l \<and> acc_course r = c" for r
    using access_unique[OF ok that(1) a(1)] a that(2) by simp
  have m: "map (\<lambda>r. if acc_id r = acc_id a then r\<lparr>acc_status := st\<rparr> else r) (accesses s) =
      map (\<lambda>a. if acc_learner a = l \<and> acc_course a = c then a\<lparr>acc_status := st\<rparr> else a) (accesses s)"
    by (rule map_by_key[OF k a(1), where P = "\<lambda>a. acc_learner a = l \<and> acc_course a = c"])
      (simp add: a, rule u)
  show ?thesis
    using Some key_find[OF k a(1)] by (simp add: repo_defs tab_update_def m)
qed

lemma revoke_run:
  assumes ok: "commerce_ok V {} Y s"
    and e: "find (\<lambda>r. ent_order r = Some (pay_order p)) (entitlements s) = Some e" "ent_status e = EntActive"
  shows "\<exists>lg. revokeEntitlementForPayment p ev s = Inr (True, s\<lparr>
     entitlements := map (\<lambda>r. if ent_id r = ent_id e then r\<lparr>ent_status := EntRevoked, ent_updated := clock s\<rparr> else r)
       (entitlements s),
     accesses := map (\<lambda>a. if acc_learner a = ent_learner e \<and> acc_course a = ent_course e
       then a\<lparr>acc_status := AccRevoked\<rparr> else a) (accesses s), audit_log := lg\<rparr>)"
proof -
  let ?es = "map (\<lambda>r. if ent_id r = ent_id e then r\<lparr>ent_status := EntRevoked, ent_updated := clock s\<rparr> else r) (entitlements s)"
  have k: "keyed_ok entitlements ent_id s" using ok by (simp add: commerce_ok_def tables_ok_def)
  have e': "e \<in> set (entitlements s)" using find_SomeD[OF e(1)] by simp
  have ok1: "commerce_ok V {(ent_learner e, ent_course e)} Y (s\<lparr>entitlements := ?es\<rparr>)"
  proof (intro entitlements_map_ok commerce_ok_weaken[OF ok])
    fix r assume "r \<in> set (entitlements s)"
    then have "r = e" if "ent_id r = ent_id e"
      using k e' that by (auto simp: keyed_ok_def distinct_map inj_on_def)
    then show "ent_status r = EntActive \<Longrightarrow>
        ent_status (if ent_id r = ent_id e then r\<lparr>ent_status := EntRevoked, ent_updated := clock s\<rparr> else r) = EntActive \<or>
        (ent_learner r, ent_course r) \<in> {(ent_learner e, ent_course e)}"
      by auto
  qed simp_all
  have assoc: "tx_bind m (\<lambda>acc. tx_bind (g acc) h) = tx_bind (tx_bind m g) h"
    for m :: "(db, course_access option) tx" and g and h :: "unit \<Rightarrow> (db, bool) tx"
    by (auto simp: tx_bind_def split: sum.splits prod.splits)
  show ?thesis
    unfolding revokeEntitlementForPayment_def assoc
    by (intro exI) (simp add: EntitlementRepo_GetByOrderID_def e EntitlementRepo_Revoke_def tab_update_now_def
        tab_update_def key_find[OF k e'] close_access_run[OF ok1] AuditRepo_Record_def)
qed

lemma refund_processed_run:
  assumes ok: "commerce_ok V {} {} s"
    and p: "find (\<lambda>x. pay_rzp x = Some (re_payment_id ent)) (payments s) = Some p"
    and r: "\<And>r. find (\<lambda>r. rf_rzp r = Some (re_id ent)) (refunds s) = Some r \<Longrightarrow> rf_status r \<noteq> RefSucceeded"
    and e: "find (\<lambda>x. ent_order x = Some (pay_order p)) (entitlements s) = Some e" "ent_status e = EntActive"
  shows "\<exists>s'. refund_processed_tx env ent s = (if je_event env then Inr ((), s') else Inl ErrStorage) \<and>
     (\<forall>x \<in> set (entitlements s'). ent_id x = ent_id e \<longrightarrow> ent_status x = EntRevoked) \<and>
     (\<forall>a \<in> set (accesses s'). acc_learner a = ent_learner e \<and> acc_course a = ent_course e \<longrightarrow>
        acc_status a = AccRevoked) \<and>
     (\<exists>x \<in> set (refunds s'). rf_rzp x = Some (re_id ent) \<and> rf_status x = RefSucceeded) \<and>
     orders s' = orders s \<and> payments s' = payments s"
proof -
  have k: "keyed_ok refunds rf_id s" using ok by (simp add: commerce_ok_def tables_ok_def)
  let ?m = "case find (\<lambda>r. rf_rzp r = Some (re_id ent)) (refunds s) of
         Some r \<Rightarrow> tx_return r
       | None \<Rightarrow> RefundRepo_Create \<lparr>rf_id = 0, rf_org = pay_org p, rf_payment = pay_id p,
                   rf_rzp = Some (re_id ent), rf_status = RefPending,
                   rf_amount = minorToMajor (re_amount ent), rf_reason = None,
                   rf_created = 0, rf_updated = 0\<rparr>"
  obtain n rs x where step: "?m s = Inr (x, s\<lparr>next_id := n, refunds := rs\<rparr>)"
      "rf_status x \<noteq> RefSucceeded" "x \<in> set rs" "keyed_ok refunds rf_id (s\<lparr>next_id := n, refunds := rs\<rparr>)" "next_id s \<le> n"
  proof (cases "find (\<lambda>r. rf_rzp r = Some (re_id ent)) (refunds s)")
    case None
    let ?x = "\<lparr>rf_id = next_id s, rf_org = pay_org p, rf_payment = pay_id p, rf_rzp = Some (re_id ent),
      rf_status = RefPending, rf_amount = minorToMajor (re_amount ent), rf_reason = None,
      rf_created = clock s, rf_updated = clock s\<rparr>"
    show ?thesis
      by (rule that[where n = "Suc (next_id s)" and rs = "refunds s @ [?x]" and x = ?x])
        (use None k in \<open>auto simp: RefundRepo_Create_def tab_insert_run keyed_ok_def less_Suc_eq\<close>)
  next
    case (Some x)
    show ?thesis
      by (rule that[where n = "next_id s" and rs = "refunds s" and x = x]) (use Some r k find_SomeD[OF Some] in auto)
  qed
  define s1 where "s1 = s\<lparr>next_id := n, refunds := rs\<rparr>"
  let ?rs = "map (\<lambda>r. if rf_id r = rf_id x then r\<lparr>rf_status := RefSucceeded, rf_rzp := Some (re_id ent), rf_updated := clock s\<rparr> else r) rs"
  define s2 where "s2 = s1\<lparr>refunds := ?rs\<rparr>"
  have up: "RefundRepo_UpdateStatus (rf_id x) RefSucceeded (Some (re_id ent)) s1 =
      Inr (x\<lparr>rf_status := RefSucceeded, rf_rzp := Some (re_id ent), rf_updated := clock s\<rparr>, s2)"
    using key_find[OF step(4), of x] step(3)
    by (simp add: RefundRepo_UpdateStatus_def tab_update_now_def tab_update_def s1_def s2_def)
  have pres: "tx_pres (commerce_ok V {} {}) ?m" by (intro tx_rules)
  have "commerce_ok V {} {} s1"
    unfolding s1_def using pres step(1) ok unfolding tx_post_def by blast
  then have ok2: "commerce_ok V {} {} s2"
    using refund_writes_pres(2) up unfolding tx_post_def by blast
  obtain lg where rev: "revokeEntitlementForPayment p ''refund.processed'' s2 = Inr (True, s2\<lparr>
     entitlements := map (\<lambda>r. if ent_id r = ent_id e then r\<lparr>ent_status := EntRevoked, ent_updated := clock s2\<rparr> else r)
       (entitlements s2),
     accesses := map (\<lambda>a. if acc_learner a = ent_learner e \<and> acc_course a = ent_course e
       then a\<lparr>acc_status := AccRevoked\<rparr> else a) (accesses s2), audit_log := lg\<rparr>)"
    using revoke_run[OF ok2, of p e "''refund.processed''"] e by (auto simp: s2_def s1_def)
  have mem: "x\<lparr>rf_status := RefSucceeded, rf_rzp := Some (re_id ent), rf_updated := clock s\<rparr> \<in> set ?rs"
    using step(3) by (auto simp: image_iff intro!: bexI[of _ x])
  have b1: "tx_bind ?m f s = f x s1" for f :: "refund \<Rightarrow> (db, unit) tx"
    by (simp only: tx_bind_def step(1) s1_def sum.case prod.case)
  have p': "PaymentRepo_GetByRazorpayPaymentID (re_payment_id ent) s = Inr (p, s)"
    by (simp add: PaymentRepo_GetByRazorpayPaymentID_def tab_select1_def p)
  obtain tr an where run: "refund_processed_tx env ent s = (if je_event env then Inr ((), s2\<lparr>
     entitlements := map (\<lambda>r. if ent_id r = ent_id e then r\<lparr>ent_status := EntRevoked, ent_updated := clock s2\<rparr> else r)
       (entitlements s2),
     accesses := map (\<lambda>a. if acc_learner a = ent_learner e \<and> acc_course a = ent_course e
       then a\<lparr>acc_status := AccRevoked\<rparr> else a) (accesses s2), audit_log := lg, audit_trail := tr, analytics := an\<rparr>) else Inl ErrStorage)"
    unfolding refund_processed_tx_def
    by (cases "je_event env") (simp_all add: p' RefundRepo_GetByRazorpayRefundID_def b1 step(2) up rev PaymentAuditRepo_Record_def
        AnalyticsEventRepo_Record_def tx_throw_def)
  show ?thesis
  proof (intro exI conjI, rule run)
    show "\<exists>x \<in> set (refunds (s2\<lparr>
       entitlements := map (\<lambda>r. if ent_id r = ent_id e then r\<lparr>ent_status := EntRevoked, ent_updated := clock s2\<rparr> else r)
         (entitlements s2),
       accesses := map (\<lambda>a. if acc_learner a = ent_learner e \<and> acc_course a = ent_course e
         then a\<lparr>acc_status := AccRevoked\<rparr> else a) (accesses s2), audit_log := lg, audit_trail := tr, analytics := an\<rparr>)).
       rf_rzp x = Some (re_id ent) \<and> rf_status x = RefSucceeded"
      by (rule bexI[where x = "x\<lparr>rf_status := RefSucceeded, rf_rzp := Some (re_id ent), rf_updated := clock s\<rparr>"])
        (use mem in \<open>simp_all add: s2_def\<close>)
  qed (auto simp: s2_def s1_def)
qed


section \<open>A late failure\<close>

text \<open>
  a payment.failed that arrives after the order has succeeded (a failed first attempt
  delivered late) moves the order to failed and leaves the entitlement and the access it paid
  for in place: the guard only recognises orders that have failed already.
\<close>

theorem late_failure_keeps_access:
  assumes ok: "commerce_ok V {} {} s"
    and ord: "find (\<lambda>x. ord_rzp x = Some (pe_order_id ent)) (orders s) = Some ord" "ord_status ord = OrdSucceeded"
  shows "\<exists>s'. payment_failed_tx ent raw s = Inr ((), s') \<and>
     (\<exists>x \<in> set (orders s'). ord_id x = ord_id ord \<and> ord_status x = OrdFailed) \<and>
     entitlements s' = entitlements s \<and> accesses s' = accesses s"
proof -
  have tabs: "keyed_ok orders ord_id s" "keyed_ok payments pay_id s"
    using ok by (simp_all add: commerce_ok_def tables_ok_def)
  have x: "ord \<in> set (orders s)" using ord(1) by (simp add: find_SomeD)
  obtain p ps n where p: "upsert_payment ord PayFailed ent raw s = Inr (p, s\<lparr>next_id := n, payments := ps\<rparr>)" "next_id s \<le> n"
    using upsert_payment_total[OF tabs(2)] by metis
  have k1: "keyed_ok orders ord_id (s\<lparr>next_id := n, payments := ps\<rparr>)"
    by (rule keyed_ok_frame[OF tabs(1)]) (use p(2) in simp_all)
  note up = OrderRepo_UpdateStatus_run[OF k1, of ord OrdFailed, simplified, OF x]
  have run: "payment_failed_tx ent raw s = Inr ((), s\<lparr>next_id := n, payments := ps,
      orders := map (\<lambda>r. if ord_id r = ord_id ord then r\<lparr>ord_status := OrdFailed, ord_updated := clock s\<rparr> else r) (orders s),
      audit_trail := audit_trail s @ [payment_audit_for ord p ''payment.failed'' OrdFailed]\<rparr>)"
    using ord p(1) by (simp add: payment_failed_tx_def OrderRepo_GetByRazorpayOrderID_def tab_select1_def up
        PaymentAuditRepo_Record_def)
  have mem: "\<exists>x \<in> set (map (\<lambda>r. if ord_id r = ord_id ord
      then r\<lparr>ord_status := OrdFailed, ord_updated := clock s\<rparr> else r) (orders s)). ord_id x = ord_id ord \<and> ord_status x = OrdFailed"
    unfolding set_map bex_simps using x by (intro bexI[of _ ord]) simp_all
  show ?thesis by (intro exI conjI, rule run) (use mem in simp_all)
qed

end
