(* ===== verification/Sweeps.thy ===== *)
theory Sweeps
  imports PaymentFacts
begin

text \<open>
  The periodic sweeps of the worker: stale orders are abandoned
  (\<^verbatim>\<open>internal/worker/orders.go\<close>) and lapsed fixed-term entitlements expire
  (\<^verbatim>\<open>internal/worker/entitlements.go\<close>). A sweep lists its rows, then handles each in a
  transaction of its own that checks the row again; a failed one is logged and skipped.
\<close>

definition staleOrderCutoff :: time where
  "staleOrderCutoff = 30 * 60 * second"

definition abandonOneOrder :: "order \<Rightarrow> (db, unit) tx" where
  "abandonOneOrder o' =
     tx_bind (OrderRepo_Get (ord_id o')) (\<lambda>current.
       if ord_status current \<noteq> OrdPending \<and> ord_status current \<noteq> OrdPaymentInitiated then tx_return ()
       else
         tx_bind (OrderRepo_UpdateStatus (ord_id o') OrdAbandoned) (\<lambda>_.
           PaymentAuditRepo_Record
             \<lparr>pa_org = ord_org current, pa_event = ''order.abandoned'', pa_order = Some (ord_id o'),
              pa_payment = None, pa_old = Some (order_status_str (ord_status current)),
              pa_new = order_status_str OrdAbandoned, pa_reason = None, pa_user = Some (ord_learner current)\<rparr>))"

definition sweepAbandonedOrders :: "(err, db, unit) hm" where
  "sweepAbandonedOrders = h_bind (run_tx (OrderRepo_ListPendingOlderThan staleOrderCutoff)) (\<lambda>stale s.
     (Inr (), fold (\<lambda>o' s. snd (run_tx (abandonOneOrder o') s)) stale s))"

definition expireOneEntitlement :: "entitlement \<Rightarrow> (db, unit) tx" where
  "expireOneEntitlement e =
     tx_bind (EntitlementRepo_Get (ent_id e)) (\<lambda>current.
     tx_bind (tx_gets clock) (\<lambda>now.
       if ent_status current \<noteq> EntActive \<or>
          (case ent_expires current of None \<Rightarrow> True | Some x \<Rightarrow> now < x) then tx_return ()
       else
         tx_bind (EntitlementRepo_Expire (ent_id current)) (\<lambda>_.
         tx_bind (tx_found (LearnerCourseAccessRepo_Get (ent_learner current) (ent_course current))) (\<lambda>acc.
         tx_bind (case acc of None \<Rightarrow> tx_return ()
                  | Some a \<Rightarrow> tx_bind (LearnerCourseAccessRepo_SetStatus (acc_id a) AccExpired)
                               (\<lambda>_. tx_return ())) (\<lambda>_.
           AuditRepo_Record (entitlement_audit current ''entitlement.expired'' None))))))"

definition sweepExpiredEntitlements :: "(err, db, unit) hm" where
  "sweepExpiredEntitlements = h_bind (run_tx (tx_bind (tx_gets clock) EntitlementRepo_ListExpiringBefore)) (\<lambda>expired s.
     (Inr (), fold (\<lambda>e s. snd (run_tx (expireOneEntitlement e) s)) expired s))"

section \<open>The sweeps keep the commerce invariants\<close>

lemma abandonOneOrder_ok: "tx_pres (commerce_ok V {} {}) (abandonOneOrder o')"
  unfolding abandonOneOrder_def by (intro tx_rules) simp

lemma tx_bind_assoc: "tx_bind m (\<lambda>x. tx_bind (g x) h) = tx_bind (tx_bind m g) h"
  by (auto simp: tx_bind_def fun_eq_iff split: sum.splits prod.splits)

lemma expireOneEntitlement_ok: "tx_pres (commerce_ok V {} {}) (expireOneEntitlement e)"
  unfolding expireOneEntitlement_def
proof (rule tx_post_bind[where R = "\<lambda>x s. commerce_ok V {} {} s \<and> x \<in> set (entitlements s)"])
  show "tx_post (commerce_ok V {} {}) (EntitlementRepo_Get (ent_id e))
      (\<lambda>x s. commerce_ok V {} {} s \<and> x \<in> set (entitlements s))"
    by (auto simp: tx_post_def repo_defs db_Inr dest!: find_SomeD)
next
  fix x
  have ex: "tx_post (\<lambda>s. commerce_ok V {} {} s \<and> x \<in> set (entitlements s)) (EntitlementRepo_Expire (ent_id x))
        (\<lambda>_. commerce_ok V {(ent_learner x, ent_course x)} {})"
    unfolding EntitlementRepo_Expire_def by (rule end_entitlement_post) simp
  show "tx_post (\<lambda>s. commerce_ok V {} {} s \<and> x \<in> set (entitlements s))
     (tx_bind (tx_gets clock) (\<lambda>now.
       if ent_status x \<noteq> EntActive \<or> (case ent_expires x of None \<Rightarrow> True | Some x \<Rightarrow> now < x) then tx_return ()
       else
         tx_bind (EntitlementRepo_Expire (ent_id x)) (\<lambda>_.
         tx_bind (tx_found (LearnerCourseAccessRepo_Get (ent_learner x) (ent_course x))) (\<lambda>acc.
         tx_bind (case acc of None \<Rightarrow> tx_return ()
                  | Some a \<Rightarrow> tx_bind (LearnerCourseAccessRepo_SetStatus (acc_id a) AccExpired)
                               (\<lambda>_. tx_return ())) (\<lambda>_.
           AuditRepo_Record (entitlement_audit x ''entitlement.expired'' None))))))
     (\<lambda>_. commerce_ok V {} {})"
    apply (rule tx_pres_bind, rule tx_pres_gets)
    apply (rule tx_post_if)
     apply (simp add: tx_post_def)
    apply (rule tx_post_bind[OF ex])
    apply (subst tx_bind_assoc)
    apply (rule tx_post_bind[OF close_access_post])
     apply simp
    by (intro tx_rules)
qed

lemma fold_run_tx_pres: "(\<And>x. tx_pres I (m x)) \<Longrightarrow> I s \<Longrightarrow> I (fold (\<lambda>x s. snd (run_tx (m x) s)) xs s)"
  by (induction xs arbitrary: s) (auto intro: run_tx_pres)

lemma sweepAbandonedOrders_ok: "h_pres (commerce_ok V {} {}) sweepAbandonedOrders"
  unfolding sweepAbandonedOrders_def
  by (intro h_rules tx_rules) (simp add: h_post_def fold_run_tx_pres abandonOneOrder_ok)

lemma sweepExpiredEntitlements_ok: "h_pres (commerce_ok V {} {}) sweepExpiredEntitlements"
  unfolding sweepExpiredEntitlements_def
  by (intro h_rules tx_rules) (simp add: h_post_def fold_run_tx_pres expireOneEntitlement_ok)

section \<open>What the order sweep does\<close>

definition abandon :: "time \<Rightarrow> order \<Rightarrow> order" where
  "abandon now r = r\<lparr>ord_status := OrdAbandoned, ord_updated := now\<rparr>"

lemma abandonOneOrder_run:
  assumes k: "keyed_ok orders ord_id s" and x: "x \<in> set (orders s)"
    and st: "ord_status x = OrdPending \<or> ord_status x = OrdPaymentInitiated"
  shows "\<exists>tr. snd (run_tx (abandonOneOrder x) s) = s\<lparr>orders := map (\<lambda>r. if ord_id r = ord_id x
    then abandon (clock s) r else r) (orders s), audit_trail := tr\<rparr>"
proof -
  have "OrderRepo_Get (ord_id x) s = Inr (x, s)"
    using key_find[OF k x] by (simp add: OrderRepo_Get_def tab_select1_def)
  moreover note OrderRepo_UpdateStatus_run[OF k x, of OrdAbandoned]
  moreover have "\<not> (ord_status x \<noteq> OrdPending \<and> ord_status x \<noteq> OrdPaymentInitiated)" using st by blast
  ultimately show ?thesis
    by (intro exI[of _ "audit_trail s @ [\<lparr>pa_org = ord_org x, pa_event = ''order.abandoned'',
        pa_order = Some (ord_id x), pa_payment = None, pa_old = Some (order_status_str (ord_status x)),
        pa_new = order_status_str OrdAbandoned, pa_reason = None, pa_user = Some (ord_learner x)\<rparr>]"])
      (simp only: abandonOneOrder_def run_tx_def PaymentAuditRepo_Record_def abandon_def tx_bind_run
        tx_run_simps if_False sum.case prod.case snd_conv, simp)
qed

lemma fold_abandon:
  assumes "distinct (map ord_id xs)" "keyed_ok orders ord_id s"
    "\<And>x. x \<in> set xs \<Longrightarrow> x \<in> set (orders s) \<and> (ord_status x = OrdPending \<or> ord_status x = OrdPaymentInitiated)"
  shows "\<exists>tr. fold (\<lambda>x s. snd (run_tx (abandonOneOrder x) s)) xs s = s\<lparr>orders := map (\<lambda>r.
    if ord_id r \<in> ord_id ` set xs then abandon (clock s) r else r) (orders s), audit_trail := tr\<rparr>"
  using assms
proof (induction xs arbitrary: s)
  case Nil
  show ?case by (rule exI[of _ "audit_trail s"]) simp
next
  case (Cons x xs)
  obtain tr where s1: "snd (run_tx (abandonOneOrder x) s) = s\<lparr>orders := map (\<lambda>r. if ord_id r = ord_id x
      then abandon (clock s) r else r) (orders s), audit_trail := tr\<rparr>"
    using abandonOneOrder_run[OF Cons.prems(2), of x] Cons.prems(3)[of x] by auto
  define s1 where "s1 = s\<lparr>orders := map (\<lambda>r. if ord_id r = ord_id x then abandon (clock s) r else r) (orders s), audit_trail := tr\<rparr>"
  have k: "keyed_ok orders ord_id s1"
    by (rule keyed_ok_map[OF Cons.prems(2), where f = "\<lambda>r. if ord_id r = ord_id x then abandon (clock s) r else r"])
      (simp_all add: s1_def abandon_def)
  have "y \<in> set (orders s1)" if "y \<in> set xs" for y
  proof -
    have "ord_id y \<noteq> ord_id x" using Cons.prems(1) that by (auto simp: image_iff)
    then show ?thesis using Cons.prems(3)[of y] that by (force simp: s1_def image_iff)
  qed
  then obtain tr' where f: "fold (\<lambda>x s. snd (run_tx (abandonOneOrder x) s)) xs s1 = s1\<lparr>orders := map (\<lambda>r.
      if ord_id r \<in> ord_id ` set xs then abandon (clock s1) r else r) (orders s1), audit_trail := tr'\<rparr>"
    using Cons.IH[OF _ k] Cons.prems by auto
  show ?case
    by (rule exI[of _ tr']) (simp add: s1 f[unfolded s1_def] abandon_def)
qed

text \<open>
  the order sweep abandons exactly the orders that are pending or awaiting payment and
  older than thirty minutes; every other order, and every entitlement and access row, is
  untouched.
\<close>

theorem order_sweep_exact:
  assumes ok: "commerce_ok V {} {} s" and run: "sweepAbandonedOrders s = (res, s')"
  shows "orders s' = map (\<lambda>r. if stale_order (clock s) staleOrderCutoff r then abandon (clock s) r else r) (orders s) \<and>
     entitlements s' = entitlements s \<and> accesses s' = accesses s \<and> payments s' = payments s"
proof -
  have k: "keyed_ok orders ord_id s" using ok by (simp add: commerce_ok_def tables_ok_def)
  let ?xs = "filter (stale_order (clock s) staleOrderCutoff) (orders s)"
  have d: "distinct (map ord_id ?xs)" using k by (simp add: keyed_ok_def distinct_map_filter)
  obtain tr where f: "fold (\<lambda>x s. snd (run_tx (abandonOneOrder x) s)) ?xs s = s\<lparr>orders := map (\<lambda>r.
      if ord_id r \<in> ord_id ` set ?xs then abandon (clock s) r else r) (orders s), audit_trail := tr\<rparr>"
    using fold_abandon[OF d k] by (auto simp: stale_order_def)
  have s': "s' = fold (\<lambda>x s. snd (run_tx (abandonOneOrder x) s)) ?xs s"
    using run by (simp add: sweepAbandonedOrders_def run_tx_def OrderRepo_ListPendingOlderThan_def)
  have "ord_id r \<in> ord_id ` set ?xs \<longleftrightarrow> stale_order (clock s) staleOrderCutoff r" if "r \<in> set (orders s)" for r
    using k that by (auto simp: keyed_ok_def distinct_map inj_on_def)
  then show ?thesis unfolding s' f by simp
qed

section \<open>What the entitlement sweep does\<close>

definition expire :: "time \<Rightarrow> entitlement \<Rightarrow> entitlement" where
  "expire now r = r\<lparr>ent_status := EntExpired, ent_updated := now\<rparr>"

lemma expireOneEntitlement_run:
  assumes ok: "commerce_ok V {} {} s" and x: "x \<in> set (entitlements s)" "expires_before (clock s) x"
  shows "\<exists>lg. snd (run_tx (expireOneEntitlement x) s) = s\<lparr>
     entitlements := map (\<lambda>r. if ent_id r = ent_id x then expire (clock s) r else r) (entitlements s),
     accesses := map (\<lambda>a. if acc_learner a = ent_learner x \<and> acc_course a = ent_course x
       then a\<lparr>acc_status := AccExpired\<rparr> else a) (accesses s), audit_log := lg\<rparr>"
proof -
  let ?s1 = "s\<lparr>entitlements := map (\<lambda>r. if ent_id r = ent_id x then r\<lparr>ent_status := EntExpired, ent_updated := clock s\<rparr> else r)
    (entitlements s)\<rparr>"
  have k: "keyed_ok entitlements ent_id s" using ok by (simp add: commerce_ok_def tables_ok_def)
  have get: "EntitlementRepo_Get (ent_id x) s = Inr (x, s)"
    using key_find[OF k x(1)] by (simp add: EntitlementRepo_Get_def tab_select1_def)
  have exp: "EntitlementRepo_Expire (ent_id x) s = Inr (x\<lparr>ent_status := EntExpired, ent_updated := clock s\<rparr>, ?s1)"
    using key_find[OF k x(1)] by (simp add: EntitlementRepo_Expire_def tab_update_now_def tab_update_def)
  have post: "tx_post (\<lambda>s. commerce_ok V {} {} s \<and> x \<in> set (entitlements s)) (EntitlementRepo_Expire (ent_id x))
      (\<lambda>_. commerce_ok V {(ent_learner x, ent_course x)} {})"
    unfolding EntitlementRepo_Expire_def by (rule end_entitlement_post) simp
  have ok1: "commerce_ok V {(ent_learner x, ent_course x)} {} ?s1"
    by (rule tx_postD[OF post exp]) (simp add: ok x(1))
  obtain t where t: "ent_status x = EntActive" "ent_expires x = Some t" "t < clock s"
    using x(2) by (auto simp: expires_before_def split: option.splits)
  have g: "\<not> (ent_status x \<noteq> EntActive \<or> (case ent_expires x of None \<Rightarrow> True | Some x \<Rightarrow> clock s < x))"
    using t by simp
  show ?thesis
    unfolding expireOneEntitlement_def run_tx_def
    by (subst tx_bind_assoc, intro exI)
      (simp only: tx_bind_run(1)[of "EntitlementRepo_Get (ent_id x)", OF get] tx_bind_run tx_run_simps g if_False exp
        close_access_run[OF ok1] AuditRepo_Record_def sum.case prod.case snd_conv expire_def, simp)
qed

lemma fold_expire:
  assumes "distinct (map ent_id xs)" "commerce_ok V {} {} s"
    "\<And>x. x \<in> set xs \<Longrightarrow> x \<in> set (entitlements s) \<and> expires_before (clock s) x"
  shows "\<exists>lg. fold (\<lambda>x s. snd (run_tx (expireOneEntitlement x) s)) xs s = s\<lparr>
     entitlements := map (\<lambda>r. if ent_id r \<in> ent_id ` set xs then expire (clock s) r else r) (entitlements s),
     accesses := map (\<lambda>a. if \<exists>e \<in> set xs. ent_learner e = acc_learner a \<and> ent_course e = acc_course a
       then a\<lparr>acc_status := AccExpired\<rparr> else a) (accesses s), audit_log := lg\<rparr>"
  using assms
proof (induction xs arbitrary: s)
  case Nil
  show ?case by (rule exI[of _ "audit_log s"]) simp
next
  case (Cons x xs)
  obtain lg where s1: "snd (run_tx (expireOneEntitlement x) s) = s\<lparr>
     entitlements := map (\<lambda>r. if ent_id r = ent_id x then expire (clock s) r else r) (entitlements s),
     accesses := map (\<lambda>a. if acc_learner a = ent_learner x \<and> acc_course a = ent_course x
       then a\<lparr>acc_status := AccExpired\<rparr> else a) (accesses s), audit_log := lg\<rparr>"
    using expireOneEntitlement_run[OF Cons.prems(2), of x] Cons.prems(3)[of x] by auto
  define s1 where "s1 = snd (run_tx (expireOneEntitlement x) s)"
  have ok1: "commerce_ok V {} {} s1"
    unfolding s1_def by (rule run_tx_pres[OF expireOneEntitlement_ok Cons.prems(2)])
  have mem: "y \<in> set (entitlements s1) \<and> expires_before (clock s1) y" if "y \<in> set xs" for y
  proof -
    have "ent_id y \<noteq> ent_id x" using Cons.prems(1) that by (auto simp: image_iff)
    then show ?thesis using Cons.prems(3)[of y] that unfolding s1_def s1 by (force simp: image_iff)
  qed
  then obtain lg' where f: "fold (\<lambda>x s. snd (run_tx (expireOneEntitlement x) s)) xs s1 = s1\<lparr>
     entitlements := map (\<lambda>r. if ent_id r \<in> ent_id ` set xs then expire (clock s1) r else r) (entitlements s1),
     accesses := map (\<lambda>a. if \<exists>e \<in> set xs. ent_learner e = acc_learner a \<and> ent_course e = acc_course a
       then a\<lparr>acc_status := AccExpired\<rparr> else a) (accesses s1), audit_log := lg'\<rparr>"
    using Cons.IH[OF _ ok1] Cons.prems(1) by auto
  have ents: "map (\<lambda>r. if ent_id r \<in> ent_id ` set xs then expire (clock s1) r else r) (entitlements s1) =
      map (\<lambda>r. if ent_id r \<in> ent_id ` set (x # xs) then expire (clock s) r else r) (entitlements s)"
    unfolding s1_def s1 by (auto simp: expire_def)
  have accs: "map (\<lambda>a. if \<exists>e \<in> set xs. ent_learner e = acc_learner a \<and> ent_course e = acc_course a
       then a\<lparr>acc_status := AccExpired\<rparr> else a) (accesses s1) =
      map (\<lambda>a. if \<exists>e \<in> set (x # xs). ent_learner e = acc_learner a \<and> ent_course e = acc_course a
       then a\<lparr>acc_status := AccExpired\<rparr> else a) (accesses s)"
    unfolding s1_def s1 by auto
  have "fold (\<lambda>x s. snd (run_tx (expireOneEntitlement x) s)) (x # xs) s =
      fold (\<lambda>x s. snd (run_tx (expireOneEntitlement x) s)) xs s1"
    by (simp add: s1_def)
  then show ?case
    unfolding f ents accs by (intro exI[of _ lg']) (simp add: s1_def s1)
qed

text \<open>
  the expiry sweep expires exactly the active entitlements whose expiry has passed and
  closes the access rows of exactly their learners and courses. It looks a row up by learner and
  course, so a row that meanwhile rests on a newer, unexpired entitlement is closed as well.
\<close>

theorem expiry_sweep_exact:
  assumes ok: "commerce_ok V {} {} s" and run: "sweepExpiredEntitlements s = (res, s')"
  shows "entitlements s' = map (\<lambda>r. if expires_before (clock s) r then expire (clock s) r else r) (entitlements s) \<and>
     accesses s' = map (\<lambda>a. if \<exists>e \<in> set (entitlements s). expires_before (clock s) e \<and>
          ent_learner e = acc_learner a \<and> ent_course e = acc_course a
        then a\<lparr>acc_status := AccExpired\<rparr> else a) (accesses s) \<and> orders s' = orders s"
proof -
  have k: "keyed_ok entitlements ent_id s" using ok by (simp add: commerce_ok_def tables_ok_def)
  let ?xs = "filter (expires_before (clock s)) (entitlements s)"
  have d: "distinct (map ent_id ?xs)" using k by (simp add: keyed_ok_def distinct_map_filter)
  obtain lg where f: "fold (\<lambda>x s. snd (run_tx (expireOneEntitlement x) s)) ?xs s = s\<lparr>
     entitlements := map (\<lambda>r. if ent_id r \<in> ent_id ` set ?xs then expire (clock s) r else r) (entitlements s),
     accesses := map (\<lambda>a. if \<exists>e \<in> set ?xs. ent_learner e = acc_learner a \<and> ent_course e = acc_course a
       then a\<lparr>acc_status := AccExpired\<rparr> else a) (accesses s), audit_log := lg\<rparr>"
    using fold_expire[OF d ok] by auto
  have s': "s' = fold (\<lambda>x s. snd (run_tx (expireOneEntitlement x) s)) ?xs s"
    using run by (simp add: sweepExpiredEntitlements_def run_tx_def EntitlementRepo_ListExpiringBefore_def)
  have id: "ent_id r \<in> ent_id ` set ?xs \<longleftrightarrow> expires_before (clock s) r" if "r \<in> set (entitlements s)" for r
    using k that by (auto simp: keyed_ok_def distinct_map inj_on_def)
  have bex: "(\<exists>e \<in> set ?xs. ent_learner e = acc_learner a \<and> ent_course e = acc_course a) \<longleftrightarrow>
      (\<exists>e \<in> set (entitlements s). expires_before (clock s) e \<and> ent_learner e = acc_learner a \<and> ent_course e = acc_course a)" for a
    by auto
  show ?thesis unfolding s' f bex using id by simp
qed

end
