(* ===== verification/Http.thy ===== *)
theory Http
  imports Schema
begin

text \<open>
  HTTP responses, the authenticated caller, and the request-scoped transaction of
  \<^verbatim>\<open>middleware/dbtx.go\<close>: a handler's writes are committed unless it answered with a
  status of 500 or more.
\<close>

record response =
  http_status :: int
  http_body :: json

abbreviation Resp :: "int \<Rightarrow> json \<Rightarrow> response" where
  "Resp c b \<equiv> \<lparr>http_status = c, http_body = b\<rparr>"

definition error_json :: "string \<Rightarrow> json" where
  "error_json msg = JObj [(''error'', JStr msg)]"

abbreviation RespErr :: "int \<Rightarrow> string \<Rightarrow> response" where
  "RespErr c msg \<equiv> Resp c (error_json msg)"

text \<open>The caller as \<^verbatim>\<open>AuthContextFromGin\<close> returns it, with the client data the audit
  rows record.\<close>

record auth_ctx =
  ac_user :: uuid
  ac_email :: string
  ac_ip :: string
  ac_agent :: string

type_synonym 's handler = "(response, 's, response) hm"

definition run_handler :: "'s handler \<Rightarrow> 's \<Rightarrow> response \<times> 's" where
  "run_handler m s = (case m s of (Inl r, s') \<Rightarrow> (r, s') | (Inr r, s') \<Rightarrow> (r, s'))"

definition WithRequestTx :: "'s handler \<Rightarrow> 's \<Rightarrow> response \<times> 's" where
  "WithRequestTx m s = (let (r, s') = run_handler m s in
     if 500 \<le> http_status r then (r, s) else (r, s'))"

lemma WithRequestTx_pres: "h_pres I m \<Longrightarrow> I s \<Longrightarrow> I (snd (WithRequestTx m s))"
  unfolding WithRequestTx_def run_handler_def Let_def
  by (auto simp: h_post_def split: prod.splits sum.splits)

text \<open>A property that the normal and the early answers below 500 establish holds of the
  request.\<close>

lemma WithRequestTx_triple:
  assumes "h_triple I m (\<lambda>_. I) (\<lambda>r s. http_status r < 500 \<longrightarrow> I s)" "I s"
  shows "I (snd (WithRequestTx m s))"
proof -
  have "case m s of (Inr x, s') \<Rightarrow> I s' | (Inl r, s') \<Rightarrow> http_status r < 500 \<longrightarrow> I s'"
    using assms by (simp add: h_triple_def)
  then show ?thesis
    using assms(2) unfolding WithRequestTx_def run_handler_def Let_def
    by (auto split: prod.splits sum.splits)
qed

lemma WithRequestTx_server_error:
  "500 \<le> http_status (fst (WithRequestTx m s)) \<Longrightarrow> snd (WithRequestTx m s) = s"
  by (auto simp: WithRequestTx_def Let_def split: prod.splits if_splits)

text \<open>Decimal rendering, as \<^verbatim>\<open>%d\<close> prints it.\<close>

fun show_nat :: "nat \<Rightarrow> string" where
  "show_nat n = (if n < 10 then [char_of (48 + n)]
     else show_nat (n div 10) @ [char_of (48 + n mod 10)])"

declare show_nat.simps [simp del]

definition show_int :: "int \<Rightarrow> string" where
  "show_int i = (if i < 0 then CHR ''-'' # show_nat (nat (- i)) else show_nat (nat i))"

end
