(* ===== verification/Checkout.thy ===== *)
theory Checkout
  imports PaymentFacts Http
begin

text \<open>
  The learner's checkout (\<^verbatim>\<open>handlers/commerce_checkout.go\<close>): the price preview page, order
  creation with the free and the paid path, and the order-status poll. The payment provider is
  the argument \<open>create\<close> (amount, currency and receipt to a provider order id, or an error), the
  request is already bound to its struct, \<open>None\<close> standing for a body that does not bind.
\<close>

section \<open>Validation shared by the page and the order\<close>

definition lookupValidDiscountCode :: "uuid \<Rightarrow> string \<Rightarrow> (string, db, discount_code option) hm" where
  "lookupValidDiscountCode off code = (if code = [] then h_return None else
     h_bind (h_tx (DiscountCodeRepo_GetByCode off code)
               (\<lambda>e. if e = ErrNotFound then ''invalid discount code'' else ''internal error'')) (\<lambda>dc.
     h_bind (h_tx (tx_gets clock) (\<lambda>_. ''internal error'')) (\<lambda>now.
       if (case dc_expires dc of None \<Rightarrow> False | Some x \<Rightarrow> x < now)
       then h_respond ''discount code has expired''
       else if (case dc_max dc of None \<Rightarrow> False | Some m \<Rightarrow> m \<le> dc_count dc)
       then h_respond ''discount code has been fully redeemed''
       else h_return (Some dc))))"

definition cohortWindowError :: "offer \<Rightarrow> (db, string) tx" where
  "cohortWindowError off = (if of_type off \<noteq> Cohort then tx_return [] else
     tx_bind (tx_gets clock) (\<lambda>now.
       if (case of_starts off of None \<Rightarrow> False | Some x \<Rightarrow> now < x)
       then tx_return ''enrollment for this cohort has not started yet''
       else if (case of_ends off of None \<Rightarrow> False | Some x \<Rightarrow> x < now)
       then tx_return ''enrollment window for this cohort is closed''
       else (case of_max_seats off of
           None \<Rightarrow> tx_return []
         | Some seats \<Rightarrow> tx_bind (OrderRepo_CountByOfferAndStatus (of_id off) OrdSucceeded) (\<lambda>count.
             if seats \<le> count then tx_return ''this cohort is full'' else tx_return []))))"

fun invite_error :: "err \<Rightarrow> string" where
  "invite_error ErrNotFound = ''invite token not found''"
| "invite_error ErrInviteTokenUsed = ''invite token has already been used''"
| "invite_error ErrInviteTokenExpired = ''invite token has expired''"
| "invite_error _ = ''internal error''"

definition resolveInviteTokenForCheckout ::
  "offer \<Rightarrow> string \<Rightarrow> string \<Rightarrow> (string, db, invite_token option) hm" where
  "resolveInviteTokenForCheckout off tok email =
     (if of_type off \<noteq> InvitationOnly then h_return None
      else if tok = [] then h_respond ''an invite token is required for this offer''
      else h_bind (h_tx (InviteTokenRepo_GetByToken tok) invite_error) (\<lambda>it.
        if it_offer it \<noteq> of_id off then h_respond ''invite token does not match this offer''
        else if (case it_bound_email it of None \<Rightarrow> False | Some b \<Rightarrow> b \<noteq> email)
        then h_respond ''invite token is bound to a different email address''
        else h_return (Some it)))"

text \<open>A sub-handler's error string becomes the handler's response.\<close>

definition h_with :: "('e, 's, 'a) hm \<Rightarrow> ('e \<Rightarrow> 'r) \<Rightarrow> ('r, 's, 'a) hm" where
  [m_defs]: "h_with m f = (\<lambda>s. case m s of (Inl e, s') \<Rightarrow> (Inl (f e), s') | (Inr x, s') \<Rightarrow> (Inr x, s'))"

lemma h_with_pres [h_rules]: "h_pres I m \<Longrightarrow> h_pres I (h_with m f)"
  by (fastforce simp: h_post_def h_with_def split: prod.splits sum.splits dest: spec)

abbreviation internal :: "err \<Rightarrow> response" where
  "internal \<equiv> (\<lambda>_. RespErr 500 ''internal error'')"

section \<open>The request (createOrderRequest)\<close>

text \<open>A \<^verbatim>\<open>json.Number\<close>: absent, a number with its \<^verbatim>\<open>Float64\<close> value, or one out of
  range.\<close>

datatype json_number = NoNumber | NumValue rat | NumOutOfRange

record createOrderRequest =
  co_discount_code :: "string option"
  co_invite_token :: "string option"
  co_price :: json_number
  co_amount :: json_number
  co_subtotal :: json_number
  co_discount_amount :: json_number
  co_tax_amount :: json_number
  co_total :: json_number
  co_currency :: string

definition forbidden_number :: "json_number \<Rightarrow> bool" where
  "forbidden_number n = (case n of NoNumber \<Rightarrow> False | NumValue v \<Rightarrow> v \<noteq> 0 | NumOutOfRange \<Rightarrow> True)"

definition rejectForbiddenMoneyFields :: "createOrderRequest \<Rightarrow> string option" where
  "rejectForbiddenMoneyFields req =
     (case find (\<lambda>(name, n). forbidden_number n)
        [(''price'', co_price req), (''amount'', co_amount req), (''subtotal'', co_subtotal req),
         (''discount_amount'', co_discount_amount req), (''tax_amount'', co_tax_amount req),
         (''total'', co_total req)] of
        Some (name, _) \<Rightarrow> Some (name @ '' must not be supplied by the client'')
      | None \<Rightarrow> if co_currency req \<noteq> [] then Some ''currency must not be supplied by the client'' else None)"

section \<open>CreateOrder\<close>

definition currency_str :: "currency \<Rightarrow> string" where
  "currency_str c = (case c of INR \<Rightarrow> ''INR'' | USD \<Rightarrow> ''USD'')"

definition new_order :: "course \<Rightarrow> auth_ctx \<Rightarrow> offer \<Rightarrow> discount_code option \<Rightarrow> rat \<Rightarrow> order" where
  "new_order course ac off dc rate = (let p = computePricePreview off dc in
     \<lparr>ord_id = 0, ord_org = c_org course, ord_offer = of_id off, ord_learner = ac_user ac,
      ord_currency = of_currency off, ord_subtotal = toMajorUnits (SubtotalMinor p),
      ord_discount = toMajorUnits (DiscountMinor p), ord_tax = toMajorUnits (TaxMinor p),
      ord_commission = toMajorUnits (commissionMinor p rate), ord_total = toMajorUnits (TotalMinor p),
      ord_rate = rate, ord_status = OrdPending, ord_rzp = None, ord_code = map_option dc_id dc,
      ord_created = 0, ord_updated = 0\<rparr>)"

definition mark_invite :: "invite_token option \<Rightarrow> uuid \<Rightarrow> uuid \<Rightarrow> (response, db, unit) hm" where
  "mark_invite it learner ord = (case it of None \<Rightarrow> h_return ()
     | Some t \<Rightarrow> h_bind (h_tx (InviteTokenRepo_MarkUsed (it_id t) learner ord) internal) (\<lambda>_. h_return ()))"

definition free_checkout ::
  "course \<Rightarrow> auth_ctx \<Rightarrow> order \<Rightarrow> discount_code option \<Rightarrow> invite_token option \<Rightarrow> db handler" where
  "free_checkout course ac ord dc it =
     h_bind (h_tx (OrderRepo_UpdateStatus (ord_id ord) OrdSucceeded) internal) (\<lambda>_.
     h_bind (h_tx (EntitlementRepo_Create
       \<lparr>ent_id = 0, ent_org = c_org course, ent_order = Some (ord_id ord), ent_learner = ac_user ac,
        ent_course = c_id course, ent_status = EntActive, ent_expires = None, ent_granted_by = None,
        ent_reason = None, ent_created = 0, ent_updated = 0\<rparr>) internal) (\<lambda>e.
     h_bind (h_tx (grant_course_access (c_org course) (ac_user ac) (c_id course) (ent_id e)) internal) (\<lambda>_.
     h_bind (case dc of None \<Rightarrow> h_return ()
             | Some d \<Rightarrow> h_bind (h_tx (DiscountCodeRepo_IncrementRedemption (dc_id d)) internal) (\<lambda>_. h_return ())) (\<lambda>_.
     h_bind (mark_invite it (ac_user ac) (ord_id ord)) (\<lambda>_.
       h_return (Resp 200 (JObj [(''free'', JBool True), (''order_id'', JInt (int (ord_id ord))),
         (''redirect_url'', JStr (''/courses/'' @ show_nat (c_id course) @ ''/learn''))])))))))"

definition paid_checkout ::
  "(int \<Rightarrow> currency \<Rightarrow> uuid \<Rightarrow> string option) \<Rightarrow> string \<Rightarrow> auth_ctx \<Rightarrow> order \<Rightarrow> invite_token option \<Rightarrow> db handler" where
  "paid_checkout create key_id ac ord it =
     (case create (toMinorUnits (ord_total ord)) (ord_currency ord) (ord_id ord) of
        None \<Rightarrow> h_bind (h_tx (OrderRepo_UpdateStatus (ord_id ord) OrdFailed) internal) (\<lambda>_.
                  h_respond (RespErr 502 ''payment provider error''))
      | Some rzp \<Rightarrow>
          h_bind (h_tx (OrderRepo_AttachRazorpayOrder (ord_id ord) rzp OrdPaymentInitiated) internal) (\<lambda>_.
          h_bind (mark_invite it (ac_user ac) (ord_id ord)) (\<lambda>_.
            h_return (Resp 200 (JObj [(''order_id'', JStr rzp), (''amount'', JDec (ord_total ord)),
              (''currency'', JStr (currency_str (ord_currency ord))), (''key_id'', JStr key_id)])))))"

definition CreateOrder ::
  "(int \<Rightarrow> currency \<Rightarrow> uuid \<Rightarrow> string option) \<Rightarrow> string \<Rightarrow> course \<Rightarrow> auth_ctx \<Rightarrow> uuid \<Rightarrow>
   createOrderRequest option \<Rightarrow> db handler" where
  "CreateOrder create key_id course ac offer_id bound = (case bound of
       None \<Rightarrow> h_respond (RespErr 400 ''invalid request'')
     | Some req \<Rightarrow> (case rejectForbiddenMoneyFields req of
         Some msg \<Rightarrow> h_respond (RespErr 400 msg)
       | None \<Rightarrow>
          h_bind (h_tx (OfferRepo_Get offer_id) (\<lambda>_. RespErr 404 ''offer not found'')) (\<lambda>off.
          h_bind (h_guard (of_course off = c_id course) (RespErr 404 ''offer not found'')) (\<lambda>_.
          h_bind (h_guard (of_status off \<noteq> OfferArchived) (RespErr 409 ''this offer is no longer available'')) (\<lambda>_.
          h_bind (h_with (resolveInviteTokenForCheckout off
                    (case co_invite_token req of None \<Rightarrow> [] | Some t \<Rightarrow> t) (ac_email ac)) (RespErr 403)) (\<lambda>it.
          h_bind (h_tx (cohortWindowError off) internal) (\<lambda>blocked.
          h_bind (h_guard (blocked = []) (RespErr 409 blocked)) (\<lambda>_.
          h_bind (h_with (lookupValidDiscountCode (of_id off)
                    (case co_discount_code req of None \<Rightarrow> [] | Some c \<Rightarrow> c)) (RespErr 400)) (\<lambda>dc.
          h_bind (h_tx PlatformSettingsRepo_Get internal) (\<lambda>rate.
          h_bind (h_tx (OrderRepo_Create (new_order course ac off dc rate)) internal) (\<lambda>ord.
            if of_type off = Free then free_checkout course ac ord dc it
            else paid_checkout create key_id ac ord it)))))))))))"

section \<open>CheckoutPage and OrderStatus\<close>

definition CheckoutPage :: "string \<Rightarrow> course \<Rightarrow> auth_ctx \<Rightarrow> uuid \<Rightarrow> string \<Rightarrow> string \<Rightarrow> db handler" where
  "CheckoutPage key_id course ac offer_id invite code =
     h_bind (h_tx (OfferRepo_Get offer_id) (\<lambda>_. Resp 404 (JStr ''offer not found''))) (\<lambda>off.
     h_bind (h_guard (of_course off = c_id course) (Resp 404 (JStr ''offer not found''))) (\<lambda>_.
     h_bind (h_guard (of_status off \<noteq> OfferArchived) (Resp 404 (JStr ''offer not found''))) (\<lambda>_.
     h_bind (h_with (resolveInviteTokenForCheckout off invite (ac_email ac)) (\<lambda>msg. Resp 403 (JStr msg))) (\<lambda>_.
     h_bind (h_tx (cohortWindowError off) (\<lambda>_. Resp 500 (JStr ''internal error''))) (\<lambda>blocked.
     (\<lambda>s. let (dc, derr) = (case fst (lookupValidDiscountCode (of_id off) code s) of
                Inl msg \<Rightarrow> (None, msg) | Inr dc \<Rightarrow> (dc, []));
              p = computePricePreview off dc
          in (Inr (Resp 200 (JObj [(''Subtotal'', JDec (toMajorUnits (SubtotalMinor p))),
                (''Discount'', JDec (toMajorUnits (DiscountMinor p))), (''Tax'', JDec (toMajorUnits (TaxMinor p))),
                (''Total'', JDec (toMajorUnits (TotalMinor p))), (''DiscountError'', JStr derr),
                (''BlockedMessage'', JStr blocked), (''Purchasable'', JBool (blocked = [])),
                (''InviteToken'', JStr invite), (''RazorpayKeyID'', JStr key_id)])), s)))))))"

definition OrderStatus :: "auth_ctx \<Rightarrow> uuid \<Rightarrow> db handler" where
  "OrderStatus ac i =
     h_bind (h_tx (OrderRepo_Get i) (\<lambda>e. if e = ErrNotFound then RespErr 404 ''order not found''
               else RespErr 500 ''internal error'')) (\<lambda>ord.
     h_bind (h_guard (ord_learner ord = ac_user ac) (RespErr 404 ''order not found'')) (\<lambda>_.
     h_bind (h_tx (tx_found (EntitlementRepo_GetByOrderID (ord_id ord))) internal) (\<lambda>ent.
     h_bind (if (case ent of None \<Rightarrow> False | Some e \<Rightarrow> ent_status e = EntActive)
             then h_tx (tx_attempt (OfferRepo_Get (ord_offer ord))) internal
             else h_return (Inl ErrNotFound)) (\<lambda>off.
       h_return (Resp 200 (JObj ([(''order_id'', JInt (int (ord_id ord))),
         (''status'', JStr (order_status_str (ord_status ord)))] @
         (case off of Inl _ \<Rightarrow> []
          | Inr f \<Rightarrow> [(''redirect_url'', JStr (''/courses/'' @ show_nat (of_course f) @ ''/learn''))]))))))))"

end
