(* ===== verification/CheckoutFacts.thy ===== *)
theory CheckoutFacts
  imports Checkout
begin

text \<open>
  Checkout keeps the commerce invariants; a paid order is created without any grant and priced
  from the stored offer; a provider failure leaves nothing behind.
\<close>

section \<open>The checks read only\<close>

lemma checks_pres [h_rules]:
  "h_pres I (lookupValidDiscountCode off code)"
  "h_pres I (resolveInviteTokenForCheckout f tok email)"
  unfolding lookupValidDiscountCode_def resolveInviteTokenForCheckout_def by (intro h_rules tx_rules)+

lemma cohortWindowError_pres [tx_rules]: "tx_pres I (cohortWindowError off)"
  unfolding cohortWindowError_def by (intro tx_rules)

lemma mark_invite_pres [h_rules]: "h_pres (commerce_ok V X Y) (mark_invite it l i)"
  unfolding mark_invite_def by (intro h_rules tx_rules)

section \<open>The free path\<close>

abbreviation below_500 :: "(db \<Rightarrow> bool) \<Rightarrow> response \<Rightarrow> db \<Rightarrow> bool" where
  "below_500 I \<equiv> (\<lambda>r s. http_status r < 500 \<longrightarrow> I s)"

lemma free_order_UpdateStatus: "tx_pres (free_order i) (OrderRepo_UpdateStatus k st)"
proof (rule tx_postI)
  fix s r s' assume p: "free_order i s" and "OrderRepo_UpdateStatus k st s = Inr (r, s')"
  then have s': "s' = s\<lparr>orders := map (\<lambda>r. if ord_id r = k
      then r\<lparr>ord_status := st, ord_updated := clock s\<rparr> else r) (orders s)\<rparr>"
    by (auto simp: repo_defs db_Inr)
  obtain x where "x \<in> set (orders s)" "ord_id x = i" "\<exists>f \<in> set (offers s). of_id f = ord_offer x \<and> of_type f = Free"
    using p by (auto simp: free_order_def)
  then show "free_order i s'"
    unfolding s' free_order_def by (intro bexI[where x = "if ord_id x = k
        then x\<lparr>ord_status := st, ord_updated := clock s\<rparr> else x"]) auto
qed

lemma free_checkout_ok:
  "h_triple (\<lambda>s. commerce_ok V {} {} s \<and> free_order (ord_id ord) s) (free_checkout course ac ord dc it)
     (\<lambda>_. commerce_ok V {} {}) (below_500 (commerce_ok V {} {}))"
proof -
  have fresh: "commerce_ok V X Y s \<Longrightarrow> free_order i s \<Longrightarrow> i < next_id s" for X Y i s
    by (auto simp: commerce_ok_def tables_ok_def keyed_ok_def free_order_def)
  have 1: "tx_post (\<lambda>s. commerce_ok V {} {} s \<and> free_order (ord_id ord) s)
      (OrderRepo_UpdateStatus (ord_id ord) OrdSucceeded)
      (\<lambda>_ s. commerce_ok V {} {ord_id ord} s \<and> free_order (ord_id ord) s)"
  proof (rule tx_postI, elim conjE, intro conjI)
    fix s r s' assume ok: "commerce_ok V {} {} s" and fr: "free_order (ord_id ord) s"
      and run: "OrderRepo_UpdateStatus (ord_id ord) OrdSucceeded s = Inr (r, s')"
    show "commerce_ok V {} {ord_id ord} s'"
      by (rule tx_postD[OF OrderRepo_UpdateStatus_pres run commerce_ok_weaken[OF ok]]) auto
    show "free_order (ord_id ord) s'" by (rule tx_postD[OF free_order_UpdateStatus run fr])
  qed
  have fin: "h_triple (commerce_ok V {} {}) (h_tx m internal) (\<lambda>_. commerce_ok V {} {})
      (below_500 (commerce_ok V {} {}))" if "tx_pres (commerce_ok V {} {}) m" for m :: "(db, 'a) tx"
    by (rule h_triple_tx[OF that]) simp
  show ?thesis
    unfolding free_checkout_def
    apply (rule h_triple_bind, rule h_triple_tx[OF 1], simp)
    apply (rule h_triple_bind)
     apply (rule h_triple_tx)
      apply (rule EntitlementRepo_Create_post[where V = V and X = "{}" and Y = "{ord_id ord}"])
        apply simp
       apply (auto dest: fresh)[1]
      apply simp
     apply simp
    apply (rule h_triple_bind[where R = "\<lambda>_. commerce_ok V {} {}"])
     apply (rule h_triple_tx)
      apply simp
      apply (rule grant_course_access_post)
     apply simp
    apply (rule h_triple_conseq[OF h_triple_pres[where I = "commerce_ok V {} {}"]])
    by (intro h_rules tx_rules) simp_all
qed

section \<open>The paid path\<close>

definition unattached :: "uuid \<Rightarrow> db \<Rightarrow> bool" where
  "unattached i s \<longleftrightarrow> (\<forall>x \<in> set (orders s). ord_id x = i \<longrightarrow> ord_rzp x = None)"

lemma Attach_post:
  "tx_post (\<lambda>s. commerce_ok V {} {} s \<and> unattached i s)
     (OrderRepo_AttachRazorpayOrder i rzp OrdPaymentInitiated) (\<lambda>_. commerce_ok V {} {})"
proof (rule tx_postI, elim conjE)
  fix s r s' assume ok: "commerce_ok V {} {} s" and un: "unattached i s"
    and "OrderRepo_AttachRazorpayOrder i rzp OrdPaymentInitiated s = Inr (r, s')"
  then have s': "s' = s\<lparr>orders := map (\<lambda>r. if ord_id r = i
      then r\<lparr>ord_rzp := Some rzp, ord_status := OrdPaymentInitiated, ord_updated := clock s\<rparr> else r) (orders s)\<rparr>"
    by (auto simp: repo_defs db_Inr)
  let ?f = "\<lambda>r. if ord_id r = i \<and> ord_rzp r = None
      then r\<lparr>ord_rzp := Some rzp, ord_status := OrdPaymentInitiated, ord_updated := clock s\<rparr> else r"
  have eq: "map (\<lambda>r. if ord_id r = i
      then r\<lparr>ord_rzp := Some rzp, ord_status := OrdPaymentInitiated, ord_updated := clock s\<rparr> else r) (orders s) =
    map ?f (orders s)"
    using un by (auto simp: unattached_def)
  have "order_kept {} ?f" by (auto simp: order_kept_def)
  then show "commerce_ok V {} {} s'" unfolding s' eq by (rule orders_map_ok[OF ok])
qed

lemma paid_checkout_ok:
  "h_triple (\<lambda>s. commerce_ok V {} {} s \<and> unattached (ord_id ord) s) (paid_checkout create key_id ac ord it)
     (\<lambda>_. commerce_ok V {} {}) (below_500 (commerce_ok V {} {}))"
proof (cases "create (toMinorUnits (ord_total ord)) (ord_currency ord) (ord_id ord)")
  case None
  have "h_triple (\<lambda>s. commerce_ok V {} {} s \<and> unattached (ord_id ord) s)
     (h_bind (h_tx (OrderRepo_UpdateStatus (ord_id ord) OrdFailed) internal) (\<lambda>_.
        h_respond (RespErr 502 ''payment provider error''))) (\<lambda>_. commerce_ok V {} {}) (below_500 (commerce_ok V {} {}))"
    by (rule h_triple_bind[where R = "\<lambda>_ _. True"], rule h_triple_tx)
      (simp_all add: tx_post_def h_triple_def h_respond_def)
  then show ?thesis by (simp add: paid_checkout_def None)
next
  case (Some rzp)
  have "h_triple (\<lambda>s. commerce_ok V {} {} s \<and> unattached (ord_id ord) s)
     (h_bind (h_tx (OrderRepo_AttachRazorpayOrder (ord_id ord) rzp OrdPaymentInitiated) internal) (\<lambda>_.
      h_bind (mark_invite it (ac_user ac) (ord_id ord)) (\<lambda>_. h_return r)))
     (\<lambda>_. commerce_ok V {} {}) (below_500 (commerce_ok V {} {}))" for r
    apply (rule h_triple_bind, rule h_triple_tx[OF Attach_post], simp)
    apply (rule h_triple_conseq[OF h_triple_pres[where I = "commerce_ok V {} {}"]])
    by (intro h_rules) simp_all
  then show ?thesis by (simp add: paid_checkout_def Some)
qed

section \<open>CreateOrder\<close>

lemma OrderRepo_Create_post:
  assumes "ord_rzp o' = None" and "\<exists>f. of_id f = ord_offer o' \<and> (\<forall>s. P s \<longrightarrow> f \<in> set (offers s))
      \<and> (b \<longrightarrow> of_type f = Free)"
    and "\<And>s. P s \<Longrightarrow> commerce_ok V {} {} s"
  shows "tx_post P (OrderRepo_Create o') (\<lambda>ord s. commerce_ok V {} {} s \<and> unattached (ord_id ord) s \<and>
           (b \<longrightarrow> free_order (ord_id ord) s))"
proof (rule tx_postI)
  fix s ord s' assume P: "P s" and run: "OrderRepo_Create o' s = Inr (ord, s')"
  have ok: "commerce_ok V {} {} s" using assms(3) P .
  have ok': "commerce_ok V {} {} s'" using OrderRepo_Create_pres run ok by (rule tx_postD)
  have o: "ord_id ord = next_id s" "ord_offer ord = ord_offer o'" "ord_rzp ord = None"
    and s': "orders s' = orders s @ [ord]" "offers s' = offers s"
    using run assms(1) by (auto simp: OrderRepo_Create_def tab_insert_Inr)
  have "\<forall>x \<in> set (orders s). ord_id x \<noteq> next_id s"
    using ok by (auto simp: commerce_ok_def tables_ok_def keyed_ok_def)
  then have "unattached (ord_id ord) s'" using o s' by (auto simp: unattached_def)
  moreover have "b \<longrightarrow> free_order (ord_id ord) s'"
    using assms(2) P o s' by (auto simp: free_order_def)
  ultimately show "commerce_ok V {} {} s' \<and> unattached (ord_id ord) s' \<and> (b \<longrightarrow> free_order (ord_id ord) s')"
    using ok' by blast
qed

lemma h_triple_step:
  assumes "h_pres J m" "\<And>x. h_triple J (f x) Q E" "\<And>r s. J s \<Longrightarrow> E r s"
  shows "h_triple J (h_bind m f) Q E"
  by (rule h_triple_bind[OF h_triple_conseq[OF h_triple_pres[OF assms(1)]] assms(2)]) (use assms(3) in auto)

lemma CreateOrder_ok:
  "h_triple (commerce_ok V {} {}) (CreateOrder create key_id course ac i bound)
     (\<lambda>_. commerce_ok V {} {}) (below_500 (commerce_ok V {} {}))"
proof -
  let ?I = "commerce_ok V {} {}"
  have "h_triple ?I (h_respond r) Q (below_500 ?I)" for r and Q :: "response \<Rightarrow> db \<Rightarrow> bool"
    by (rule h_triple_respond) simp
  note respond = this
  have create: "tx_post (\<lambda>s. ?I s \<and> off \<in> set (offers s)) (OrderRepo_Create (new_order course ac off dc rate))
      (\<lambda>ord s. ?I s \<and> unattached (ord_id ord) s \<and> (of_type off = Free \<longrightarrow> free_order (ord_id ord) s))" for off dc rate
    by (rule OrderRepo_Create_post) (auto simp: new_order_def Let_def)
  show ?thesis
  proof (cases bound)
    case None
    then show ?thesis by (simp add: CreateOrder_def respond)
  next
    case (Some req)
    show ?thesis
    proof (cases "rejectForbiddenMoneyFields req")
      case msg: (Some msg)
      then show ?thesis using Some by (simp add: CreateOrder_def respond)
    next
      case none: None
      show ?thesis
        unfolding CreateOrder_def Some option.case none
        apply (rule h_triple_bind[where R = "\<lambda>off s. ?I s \<and> off \<in> set (offers s)"])
         apply (rule h_triple_tx)
          apply (auto simp: tx_post_def repo_defs db_Inr dest!: find_SomeD)[1]
         apply simp
        apply (rule h_triple_step, intro h_rules)
        apply (rule h_triple_step, intro h_rules)
        apply (rule h_triple_step, intro h_rules)
        apply (rule h_triple_step, intro h_rules tx_rules)
        apply (rule h_triple_step, intro h_rules)
        apply (rule h_triple_step, intro h_rules)
        apply (rule h_triple_step, intro h_rules tx_rules)
        apply (rule h_triple_bind, rule h_triple_tx[OF create], simp)
        subgoal for off _ _ it _ _ dc rate ord
          by (cases "of_type off = Free")
            (auto intro: h_triple_conseq[OF free_checkout_ok] h_triple_conseq[OF paid_checkout_ok])
        by simp_all
    qed
  qed
qed

section \<open>A paid order grants nothing\<close>

definition grants_of :: "db \<Rightarrow> entitlement list \<times> course_access list \<times> discount_code list" where
  "grants_of s = (entitlements s, accesses s, discount_codes s)"

lemma grants_frame:
  "tx_pres (\<lambda>s. P (grants_of s)) (OrderRepo_Create o')"
  "tx_pres (\<lambda>s. P (grants_of s)) (OrderRepo_UpdateStatus i st)"
  "tx_pres (\<lambda>s. P (grants_of s)) (OrderRepo_AttachRazorpayOrder i z st)"
  "tx_pres (\<lambda>s. P (grants_of s)) (InviteTokenRepo_MarkUsed i l j)"
  by (auto simp: tx_post_def repo_defs db_Inr grants_of_def)

lemma CreateOrder_start:
  assumes "\<And>req msg. bound = Some req \<Longrightarrow> rejectForbiddenMoneyFields req = None \<Longrightarrow> h_triple P (CreateOrder create key_id course ac i (Some req)) Q E"
    and "\<And>r s. P s \<Longrightarrow> http_status r = 400 \<Longrightarrow> E r s"
  shows "h_triple P (CreateOrder create key_id course ac i bound) Q E"
proof (cases bound)
  case None
  then show ?thesis by (auto simp: CreateOrder_def intro!: h_triple_respond assms(2))
next
  case (Some req)
  then show ?thesis
    using assms by (cases "rejectForbiddenMoneyFields req") (auto simp: CreateOrder_def intro!: h_triple_respond assms(2))
qed

text \<open>
  creating an order for any offer that is not free leaves the entitlements, the access rows
  and the redemption counts exactly as they were, whatever the request says and whatever the
  payment provider answers.
\<close>

theorem paid_checkout_never_grants:
  assumes off: "find (\<lambda>f. of_id f = i) (offers s) = Some off" "of_type off \<noteq> Free"
    and run: "WithRequestTx (CreateOrder create key_id course ac i bound) s = (r, s')"
  shows "entitlements s' = entitlements s \<and> accesses s' = accesses s \<and> discount_codes s' = discount_codes s"
proof -
  let ?J = "\<lambda>s'. grants_of s' = grants_of s"
  have "h_triple (\<lambda>x. x = s) (CreateOrder create key_id course ac i bound) (\<lambda>_. ?J) (\<lambda>_. ?J)"
  proof (rule CreateOrder_start)
    fix req assume rej: "rejectForbiddenMoneyFields req = None"
    have paid: "h_pres ?J (paid_checkout create key_id ac ord it)" for ord it
      unfolding paid_checkout_def mark_invite_def by (intro h_rules grants_frame)
    show "h_triple (\<lambda>x. x = s) (CreateOrder create key_id course ac i (Some req)) (\<lambda>_. ?J) (\<lambda>_. ?J)"
      unfolding CreateOrder_def option.case rej
      apply (rule h_triple_bind[where R = "\<lambda>f x. ?J x \<and> of_type f \<noteq> Free"])
       apply (rule h_triple_tx)
        apply (use off in \<open>auto simp: tx_post_def repo_defs db_Inr\<close>)[2]
      subgoal for f
        apply (cases "of_type f = Free")
         apply (simp add: h_triple_def)
        apply (rule h_triple_conseq[OF h_triple_pres[where I = ?J]])
           apply (simp only: if_False, intro h_rules tx_rules grants_frame paid)
        by simp_all
      done
  qed simp
  then show ?thesis
    using run unfolding WithRequestTx_def run_handler_def h_triple_def Let_def
    by (auto simp: grants_of_def split: prod.splits sum.splits if_splits)
qed

section \<open>A failed provider call leaves no order\<close>

text \<open>
  when the payment provider refuses, the database is left as it was before the request: the
  order the handler created and moved to failed is rolled back with the 502 answer, so no failed
  order is ever recorded.
\<close>

theorem provider_failure_keeps_nothing:
  assumes off: "find (\<lambda>f. of_id f = i) (offers s) = Some off" "of_type off \<noteq> Free"
    and fail: "\<And>a c o'. create a c o' = None"
    and run: "WithRequestTx (CreateOrder create key_id course ac i bound) s = (r, s')"
  shows "s' = s"
proof -
  let ?J = "\<lambda>x. x = s"
  have "h_triple ?J (CreateOrder create key_id course ac i bound) (\<lambda>_ _. False) (\<lambda>r x. http_status r < 500 \<longrightarrow> x = s)"
  proof (rule CreateOrder_start)
    fix req assume rej: "rejectForbiddenMoneyFields req = None"
    have paid: "h_triple (\<lambda>_. True) (paid_checkout create key_id ac ord it) (\<lambda>_ _. False) (\<lambda>r x. http_status r < 500 \<longrightarrow> x = s)" for ord it
      unfolding paid_checkout_def fail option.case
      by (rule h_triple_bind[where R = "\<lambda>_ _. True"], rule h_triple_tx)
        (auto simp: tx_post_def h_triple_def h_respond_def)
    show "h_triple ?J (CreateOrder create key_id course ac i (Some req)) (\<lambda>_ _. False) (\<lambda>r x. http_status r < 500 \<longrightarrow> x = s)"
      unfolding CreateOrder_def option.case rej
      apply (rule h_triple_bind[where R = "\<lambda>f x. x = s \<and> of_type f \<noteq> Free"])
       apply (rule h_triple_tx)
        apply (use off in \<open>auto simp: tx_post_def repo_defs db_Inr\<close>)[2]
      subgoal for f
        apply (cases "of_type f = Free")
         apply (simp add: h_triple_def)
        apply (rule h_triple_conseq[where P' = ?J and Q' = "\<lambda>_ _. False" and E' = "\<lambda>r x. http_status r < 500 \<longrightarrow> x = s"])
           apply (rule h_triple_step, intro h_rules)
           apply (rule h_triple_step, intro h_rules)
           apply (rule h_triple_step, intro h_rules)
        apply (rule h_triple_step, intro h_rules tx_rules)
        apply (rule h_triple_step, intro h_rules)
        apply (rule h_triple_step, intro h_rules)
        apply (rule h_triple_step, intro h_rules tx_rules)
        apply (rule h_triple_bind[where R = "\<lambda>_ _. True"], rule h_triple_tx)
        apply (auto simp: tx_post_def intro: paid)
        done
      done
  qed simp
  then show ?thesis
    using run unfolding WithRequestTx_def run_handler_def h_triple_def Let_def
    by (auto split: prod.splits sum.splits if_splits)
qed

section \<open>An order is priced from the stored offer\<close>

definition usable_code :: "db \<Rightarrow> uuid \<Rightarrow> discount_code \<Rightarrow> bool" where
  "usable_code s off d \<longleftrightarrow> d \<in> set (discount_codes s) \<and> dc_offer d = off \<and>
     (case dc_expires d of None \<Rightarrow> True | Some x \<Rightarrow> clock s \<le> x) \<and>
     (case dc_max d of None \<Rightarrow> True | Some m \<Rightarrow> dc_count d < m)"

definition priced_from :: "offer \<Rightarrow> discount_code option \<Rightarrow> rat \<Rightarrow> order \<Rightarrow> bool" where
  "priced_from off dc rate o' \<longleftrightarrow> (let p = computePricePreview off dc in
     ord_offer o' = of_id off \<and> ord_currency o' = of_currency off \<and>
     ord_subtotal o' = toMajorUnits (SubtotalMinor p) \<and> ord_discount o' = toMajorUnits (DiscountMinor p) \<and>
     ord_tax o' = toMajorUnits (TaxMinor p) \<and> ord_total o' = toMajorUnits (TotalMinor p) \<and>
     ord_commission o' = toMajorUnits (commissionMinor p rate) \<and> ord_rate o' = rate \<and>
     ord_code o' = map_option dc_id dc)"

lemma run_handler_triple:
  "h_triple P m Q Q \<Longrightarrow> P s \<Longrightarrow> run_handler m s = (r, s') \<Longrightarrow> Q r s'"
  by (fastforce simp: h_triple_def run_handler_def split: prod.splits sum.splits)

lemma h_triple_with:
  "h_pres J m \<Longrightarrow> (\<And>e s. J s \<Longrightarrow> E (f e) s) \<Longrightarrow> h_triple J (h_with m f) (\<lambda>_. J) E"
  by (fastforce simp: h_triple_def h_post_def h_with_def split: prod.splits sum.splits dest: spec)

lemma lookup_triple:
  "h_triple (\<lambda>x. x = s) (lookupValidDiscountCode off code)
     (\<lambda>dc x. x = s \<and> (\<forall>d. dc = Some d \<longrightarrow> usable_code s off d)) (\<lambda>_ x. x = s)"
proof (cases "code = []")
  case True
  then show ?thesis by (simp add: lookupValidDiscountCode_def h_triple_def h_return_def)
next
  case False
  have get: "tx_post (\<lambda>x. x = s) (DiscountCodeRepo_GetByCode off code)
      (\<lambda>d x. x = s \<and> d \<in> set (discount_codes s) \<and> dc_offer d = off)"
    by (auto simp: tx_post_def repo_defs db_Inr dest!: find_SomeD)
  show ?thesis
    unfolding lookupValidDiscountCode_def using False
    apply (simp only: if_False)
    apply (rule h_triple_bind, rule h_triple_tx[OF get], simp)
    apply (rule h_triple_bind[where R = "\<lambda>now x. now = clock s \<and> x = s \<and> dc \<in> set (discount_codes s) \<and> dc_offer dc = off" for dc])
     apply (rule h_triple_tx)
      apply (auto simp: tx_post_def)[2]
    by (auto simp: h_triple_def h_respond_def h_return_def usable_code_def split: option.splits)
qed

lemma priced_frame:
  "tx_pres (\<lambda>s. P (orders s)) (InviteTokenRepo_MarkUsed i l j)"
  by (auto simp: tx_post_def repo_defs db_Inr)

definition added_order :: "db \<Rightarrow> (order \<Rightarrow> bool) \<Rightarrow> order list \<Rightarrow> bool" where
  "added_order s P xs \<longleftrightarrow> (\<exists>o'. xs = orders s @ [o'] \<and> ord_id o' = next_id s \<and> P o')"

lemma added_order_update:
  assumes "keyed_ok orders ord_id s" "i = next_id s"
    "\<And>t o'. P o' \<Longrightarrow> ord_id (f t o') = ord_id o' \<and> P (f t o')"
  shows "tx_pres (\<lambda>x. added_order s P (orders x)) (tab_update_now orders put_orders (\<lambda>r. ord_id r = i) f)"
proof (rule tx_postI)
  fix x r x' assume add: "added_order s P (orders x)"
    and "tab_update_now orders put_orders (\<lambda>r. ord_id r = i) f x = Inr (r, x')"
  then have x': "orders x' = map (\<lambda>r. if ord_id r = i then f (clock x) r else r) (orders x)"
    by (auto simp: tab_update_now_Inr)
  obtain o' where o': "orders x = orders s @ [o']" "ord_id o' = next_id s" "P o'"
    using add by (auto simp: added_order_def)
  have "map (\<lambda>r. if ord_id r = i then f (clock x) r else r) (orders s) = orders s"
    using assms(1,2) by (intro map_idI) (auto simp: keyed_ok_def)
  then have "orders x' = orders s @ [f (clock x) o']" unfolding x' o'(1) using o'(2) assms(2) by simp
  then show "added_order s P (orders x')" using assms(3)[OF o'(3), of "clock x"] o'(2) by (auto simp: added_order_def)
qed

text \<open>
  C10: a 200 answer of order creation adds exactly one order, whose every amount is computed
  from the stored, active offer of that course, a stored discount code that is usable now, and
  the stored commission rate; no amount comes from the request.
\<close>

theorem order_priced_from_offer:
  assumes ok: "commerce_ok V {} {} s"
    and run: "WithRequestTx (CreateOrder create key_id course ac i bound) s = (r, s')" "http_status r = 200"
  shows "\<exists>off dc rate o'. off \<in> set (offers s) \<and> of_id off = i \<and> of_course off = c_id course \<and>
     of_status off = OfferActive \<and> (\<forall>d. dc = Some d \<longrightarrow> usable_code s i d) \<and> commission_percent s = Some rate \<and>
     orders s' = orders s @ [o'] \<and> ord_learner o' = ac_user ac \<and> ord_org o' = c_org course \<and> priced_from off dc rate o'"
proof -
  let ?G = "\<lambda>off dc rate. off \<in> set (offers s) \<and> of_id off = i \<and> of_course off = c_id course \<and>
     of_status off = OfferActive \<and> (\<forall>d. dc = Some d \<longrightarrow> usable_code s i d) \<and> commission_percent s = Some rate"
  let ?P = "\<lambda>off dc rate o'. ord_learner o' = ac_user ac \<and> ord_org o' = c_org course \<and> priced_from off dc rate o'"
  let ?Q = "\<lambda>r x. http_status r = 200 \<longrightarrow> (\<exists>off dc rate. ?G off dc rate \<and> added_order s (?P off dc rate) (orders x))"
  have k: "keyed_ok orders ord_id s" using ok by (simp add: commerce_ok_def tables_ok_def)
  have upd: "tx_pres (\<lambda>x. added_order s (?P off dc rate) (orders x)) (OrderRepo_UpdateStatus (next_id s) st)"
      "tx_pres (\<lambda>x. added_order s (?P off dc rate) (orders x)) (OrderRepo_AttachRazorpayOrder (next_id s) z st)"
      for off dc rate st z
    unfolding OrderRepo_UpdateStatus_def OrderRepo_AttachRazorpayOrder_def
    by (rule added_order_update[OF k refl]; simp add: priced_from_def Let_def)+
  have paid: "h_pres (\<lambda>x. added_order s (?P off dc rate) (orders x)) (paid_checkout create key_id ac ord it)"
    if "ord_id ord = next_id s" for ord it off dc rate
    unfolding paid_checkout_def mark_invite_def that by (intro h_rules upd priced_frame)
  have free: "h_pres (\<lambda>x. added_order s (?P off dc rate) (orders x)) (free_checkout course ac ord dc' it)"
    if "ord_id ord = next_id s" for ord it off dc rate dc'
    unfolding free_checkout_def mark_invite_def grant_course_access_def that
    by (intro h_rules tx_rules upd priced_frame orders_frame)
  let ?C = "\<lambda>off x. x = s \<and> off \<in> set (offers s) \<and> of_id off = i \<and> of_course off = c_id course \<and> of_status off = OfferActive"
  have fin: "h_triple (\<lambda>x. ?G off dc rate \<and> ord_id ord = next_id s \<and> added_order s (?P off dc rate) (orders x))
      (if of_type off = Free then free_checkout course ac ord dc it else paid_checkout create key_id ac ord it) ?Q ?Q"
    for off dc rate ord it
  proof (cases "?G off dc rate \<and> ord_id ord = next_id s")
    case True
    let ?J = "\<lambda>x. added_order s (?P off dc rate) (orders x)"
    have "h_pres ?J (if of_type off = Free then free_checkout course ac ord dc it else paid_checkout create key_id ac ord it)"
      using True free paid by simp
    then show ?thesis
      by (rule h_triple_conseq[OF h_triple_pres]) (use True in auto)
  next
    case False
    then have none: "\<not> (?G off dc rate \<and> ord_id ord = next_id s \<and> added_order s (?P off dc rate) (orders x))" for x by blast
    show ?thesis unfolding h_triple_def by (intro allI impI, erule notE[OF none])
  qed
  have tail: "h_triple (?C off) (h_bind (h_with (lookupValidDiscountCode (of_id off) code) (RespErr 400)) (\<lambda>dc.
          h_bind (h_tx PlatformSettingsRepo_Get internal) (\<lambda>rate.
          h_bind (h_tx (OrderRepo_Create (new_order course ac off dc rate)) internal) (\<lambda>ord.
            if of_type off = Free then free_checkout course ac ord dc it
            else paid_checkout create key_id ac ord it)))) ?Q ?Q" for off code it
  proof (rule h_triple_bind[where R = "\<lambda>dc x. ?C off x \<and> (\<forall>d. dc = Some d \<longrightarrow> usable_code s i d)"])
    show "h_triple (?C off) (h_with (lookupValidDiscountCode (of_id off) code) (RespErr 400))
        (\<lambda>dc x. ?C off x \<and> (\<forall>d. dc = Some d \<longrightarrow> usable_code s i d)) ?Q"
      using lookup_triple[of s i code]
      by (auto simp: h_triple_def h_with_def split: prod.splits sum.splits)
  next
    fix dc
    have get: "tx_post (\<lambda>x. ?C off x \<and> (\<forall>d. dc = Some d \<longrightarrow> usable_code s i d)) PlatformSettingsRepo_Get
        (\<lambda>rate x. x = s \<and> ?G off dc rate)"
      by (auto simp: tx_post_def PlatformSettingsRepo_Get_def split: option.splits)
    have create: "tx_post (\<lambda>x. x = s \<and> ?G off dc rate) (OrderRepo_Create (new_order course ac off dc rate))
        (\<lambda>ord x. ?G off dc rate \<and> ord_id ord = next_id s \<and> added_order s (?P off dc rate) (orders x))" for rate
      by (auto simp: tx_post_def OrderRepo_Create_def tab_insert_Inr added_order_def new_order_def priced_from_def Let_def)
    show "h_triple (\<lambda>x. ?C off x \<and> (\<forall>d. dc = Some d \<longrightarrow> usable_code s i d))
       (h_bind (h_tx PlatformSettingsRepo_Get internal) (\<lambda>rate.
          h_bind (h_tx (OrderRepo_Create (new_order course ac off dc rate)) internal) (\<lambda>ord.
            if of_type off = Free then free_checkout course ac ord dc it
            else paid_checkout create key_id ac ord it))) ?Q ?Q"
      by (rule h_triple_bind, rule h_triple_tx[OF get], simp, rule h_triple_bind, rule h_triple_tx[OF create], simp, rule fin)
  qed
  have t: "h_triple (\<lambda>x. x = s) (CreateOrder create key_id course ac i bound) ?Q ?Q"
  proof (rule CreateOrder_start)
    fix req assume rej: "rejectForbiddenMoneyFields req = None"
    show "h_triple (\<lambda>x. x = s) (CreateOrder create key_id course ac i (Some req)) ?Q ?Q"
      unfolding CreateOrder_def option.case rej
      apply (rule h_triple_bind[where R = "\<lambda>off x. x = s \<and> off \<in> set (offers s) \<and> of_id off = i"])
       apply (rule h_triple_tx)
        apply (auto simp: tx_post_def repo_defs db_Inr dest!: find_SomeD)[2]
      apply (rule h_triple_bind, rule h_triple_guard, simp)
      apply (rule h_triple_bind, rule h_triple_guard, simp)
      subgoal for off u1 u2
        apply (rule h_triple_conseq[where P' = "?C off" and Q' = ?Q and E' = ?Q])
           apply (rule h_triple_bind, rule h_triple_with, rule checks_pres, simp)
           apply (rule h_triple_bind, rule h_triple_tx[OF cohortWindowError_pres], simp)
           apply (rule h_triple_bind, rule h_triple_guard, simp)
           apply (rule h_triple_conseq[OF tail])
             apply simp_all
        apply (cases "of_status off")
         apply simp_all
        done
      done
  qed simp
  have rh: "run_handler (CreateOrder create key_id course ac i bound) s = (r, s')"
    using run by (auto simp: WithRequestTx_def Let_def split: prod.splits if_splits)
  have "?Q r s'" by (rule run_handler_triple[where P = "\<lambda>x. x = s" and Q = ?Q, OF t _ rh]) (rule refl)
  then show ?thesis using run(2) unfolding added_order_def by blast
qed

end
