(* ===== verification/Refunds.thy ===== *)
theory Refunds
  imports Sweeps CheckoutFacts
begin

text \<open>
  The two staff actions of \<^verbatim>\<open>handlers/commerce_refunds.go\<close>: initiating a refund with the
  payment provider (\<open>create\<close>: provider payment id and amount to a refund id, or an error), and
  granting access by hand. \<open>None\<close> for the bound request is a body that does not bind.
\<close>

section \<open>RefundOrder\<close>

definition refund_blocks :: "refund \<Rightarrow> bool" where
  "refund_blocks rf \<longleftrightarrow> rf_status rf = RefPending \<or> rf_status rf = RefSucceeded"

definition RefundOrder ::
  "(string \<Rightarrow> int \<Rightarrow> string option) \<Rightarrow> uuid \<Rightarrow> auth_ctx \<Rightarrow> uuid \<Rightarrow> string option option \<Rightarrow> db handler" where
  "RefundOrder create org ac order_id bound = (case bound of
       None \<Rightarrow> h_respond (RespErr 400 ''invalid request'')
     | Some reason \<Rightarrow>
        h_bind (h_tx (OrderRepo_Get order_id) (\<lambda>_. RespErr 404 ''order not found'')) (\<lambda>ord.
        h_bind (h_guard (ord_org ord = org) (RespErr 404 ''order not found'')) (\<lambda>_.
        h_bind (h_tx (PaymentRepo_GetByOrderID (ord_id ord)) (\<lambda>e. if e = ErrNotFound
                  then RespErr 409 ''this order has no payment to refund'' else RespErr 500 ''internal error'')) (\<lambda>p.
        (case (pay_status p = PaySucceeded, pay_rzp p) of
          (True, Some rzp) \<Rightarrow>
            h_bind (h_tx (RefundRepo_GetByPaymentID (pay_id p)) internal) (\<lambda>existing.
            h_bind (h_guard (\<not> list_ex refund_blocks existing)
                      (RespErr 409 ''this payment already has a pending or succeeded refund'')) (\<lambda>_.
            (case create rzp (toMinorUnits (ord_total ord)) of
              None \<Rightarrow> h_respond (RespErr 502 ''payment provider error'')
            | Some refund_id \<Rightarrow>
                h_bind (h_tx (RefundRepo_Create
                  \<lparr>rf_id = 0, rf_org = org, rf_payment = pay_id p, rf_rzp = Some refund_id,
                   rf_status = RefPending, rf_amount = ord_total ord, rf_reason = reason,
                   rf_created = 0, rf_updated = 0\<rparr>) internal) (\<lambda>rf.
                h_bind (h_tx (PaymentAuditRepo_Record
                  \<lparr>pa_org = org, pa_event = ''refund_initiated'', pa_order = Some (ord_id ord),
                   pa_payment = Some (pay_id p), pa_old = Some (payment_status_str (pay_status p)),
                   pa_new = refund_status_str RefPending, pa_reason = reason, pa_user = Some (ac_user ac)\<rparr>) internal) (\<lambda>_.
                h_bind (h_ignore (AuditRepo_Record
                  \<lparr>ae_org = Some org, ae_user = Some (ac_user ac), ae_action = ''refund.initiate'',
                   ae_resource = ''refund'', ae_resource_id = Some (rf_id rf), ae_details = None,
                   ae_ip = ac_ip ac, ae_agent = ac_agent ac\<rparr>)) (\<lambda>_.
                  h_return (Resp 201 (JObj [(''id'', JInt (int (rf_id rf))),
                    (''payment_id'', JInt (int (rf_payment rf))), (''status'', JStr (refund_status_str (rf_status rf))),
                    (''amount'', JDec (rf_amount rf)),
                    (''reason'', case rf_reason rf of None \<Rightarrow> JNull | Some x \<Rightarrow> JStr x),
                    (''created_at'', JInt (rf_created rf))]))))))))
        | _ \<Rightarrow> h_respond (RespErr 409 ''this order has no successful payment to refund''))))))"

section \<open>GrantAccess\<close>

record grantAccessRequest =
  ga_learner :: uuid
  ga_reason :: string

definition GrantAccess :: "course \<Rightarrow> auth_ctx \<Rightarrow> grantAccessRequest option \<Rightarrow> db handler" where
  "GrantAccess course ac bound = (case bound of
       None \<Rightarrow> h_respond (RespErr 400 ''invalid request'')
     | Some req \<Rightarrow> (let reason = TrimSpace (ga_reason req) in
        if reason = [] then h_respond (RespErr 400 ''reason is required'')
        else
          h_bind (h_tx (EntitlementRepo_Create
            \<lparr>ent_id = 0, ent_org = c_org course, ent_order = None, ent_learner = ga_learner req,
             ent_course = c_id course, ent_status = EntActive, ent_expires = None,
             ent_granted_by = Some (ac_user ac), ent_reason = Some reason, ent_created = 0, ent_updated = 0\<rparr>) internal) (\<lambda>e.
          h_bind (h_tx (grant_course_access (c_org course) (ga_learner req) (c_id course) (ent_id e)) internal) (\<lambda>_.
          h_bind (h_ignore (AuditRepo_Record
            \<lparr>ae_org = Some (c_org course), ae_user = Some (ac_user ac), ae_action = ''entitlement.grant'',
             ae_resource = ''entitlement'', ae_resource_id = Some (ent_id e),
             ae_details = Some [(''reason'', reason), (''learner_id'', show_nat (ga_learner req))],
             ae_ip = ac_ip ac, ae_agent = ac_agent ac\<rparr>)) (\<lambda>_.
          h_bind (h_tx (PaymentAuditRepo_Record
            \<lparr>pa_org = c_org course, pa_event = ''entitlement_granted'', pa_order = None, pa_payment = None,
             pa_old = None, pa_new = ''active'', pa_reason = Some reason, pa_user = Some (ac_user ac)\<rparr>) internal) (\<lambda>_.
            h_return (Resp 201 (JObj [(''id'', JInt (int (ent_id e))), (''learner_id'', JInt (int (ent_learner e))),
              (''course_id'', JInt (int (ent_course e))), (''status'', JStr ''active''),
              (''granted_by'', JInt (int (ac_user ac))), (''grant_reason'', JStr reason),
              (''created_at'', JInt (ent_created e))]))))))))"

section \<open>The invariants\<close>

lemma RefundOrder_ok: "h_pres (commerce_ok V {} {}) (RefundOrder create org ac i bound)"
proof (cases bound)
  case None
  then show ?thesis by (simp add: RefundOrder_def h_rules)
next
  case (Some reason)
  have rest: "h_pres (commerce_ok V {} {}) (case (pay_status p = PaySucceeded, pay_rzp p) of (True, Some rzp) \<Rightarrow> f rzp | _ \<Rightarrow> h_respond r)"
    if "\<And>rzp. h_pres (commerce_ok V {} {}) (f rzp)" for p and f :: "string \<Rightarrow> db handler" and r
    using that by (auto split: option.split bool.split intro: h_rules)
  show ?thesis
    unfolding RefundOrder_def Some option.case by (intro h_rules rest tx_rules)
qed

lemma GrantAccess_ok:
  "h_triple (commerce_ok V {} {}) (GrantAccess course ac bound)
     (\<lambda>_. commerce_ok V {} {}) (below_500 (commerce_ok V {} {}))"
proof (cases bound)
  case None
  then show ?thesis by (simp add: GrantAccess_def h_triple_respond)
next
  case (Some req)
  show ?thesis
  proof (cases "TrimSpace (ga_reason req) = []")
    case True
    then show ?thesis using Some by (simp add: GrantAccess_def h_triple_respond)
  next
    case False
    show ?thesis
      unfolding GrantAccess_def Some option.case Let_def
      apply (simp only: False if_False)
      apply (rule h_triple_bind)
       apply (rule h_triple_tx)
        apply (rule EntitlementRepo_Create_post[where V = V and X = "{}" and Y = "{}"])
          apply simp
         apply simp
        apply assumption
       apply simp
      apply (rule h_triple_bind[where R = "\<lambda>_. commerce_ok V {} {}"])
       apply (rule h_triple_tx)
        apply simp
        apply (rule grant_course_access_post)
       apply simp
      apply (rule h_triple_conseq[OF h_triple_pres[where I = "commerce_ok V {} {}"]])
      by (intro h_rules tx_rules) simp_all
  qed
qed

section \<open>A payment is refunded once at a time\<close>

lemma RefundOrder_blocked:
  assumes ord: "find (\<lambda>r. ord_id r = i) (orders s) = Some ord"
    and p: "youngest pay_created (filter (\<lambda>r. pay_order r = ord_id ord) (payments s)) = Some p"
    and rf: "rf \<in> set (refunds s)" "rf_payment rf = pay_id p" "refund_blocks rf"
  shows "\<exists>r. RefundOrder create org ac i bound s = (Inl r, s) \<and> http_status r \<in> {400, 404, 409}"
proof (cases bound)
  case None
  then show ?thesis by (simp add: RefundOrder_def h_respond_def)
next
  case (Some reason)
  have ex: "list_ex refund_blocks (sort_key (\<lambda>r. - rf_created r) (filter (\<lambda>r. rf_payment r = pay_id p) (refunds s)))"
    using rf by (auto simp: list_ex_iff)
  show ?thesis
    using ord p ex
    by (auto simp: RefundOrder_def Some OrderRepo_Get_def tab_select1_def h_guard_def h_return_def h_respond_def
        PaymentRepo_GetByOrderID_def tab_latest_def RefundRepo_GetByPaymentID_def h_bind_def
        split: option.splits bool.splits)
qed

lemma RefundOrder_created:
  assumes run: "run_handler (RefundOrder create org ac i bound) s = (r, s')" and st: "http_status r = 201"
  shows "\<exists>ord p rf. find (\<lambda>r. ord_id r = i) (orders s) = Some ord \<and>
    youngest pay_created (filter (\<lambda>r. pay_order r = ord_id ord) (payments s)) = Some p \<and>
    rf \<in> set (refunds s') \<and> rf_payment rf = pay_id p \<and> refund_blocks rf \<and>
    orders s' = orders s \<and> payments s' = payments s \<and> entitlements s' = entitlements s \<and> accesses s' = accesses s"
proof -
  note go = RefundOrder_def OrderRepo_Get_def tab_select1_def h_guard_def h_return_def h_respond_def
    PaymentRepo_GetByOrderID_def tab_latest_def RefundRepo_GetByPaymentID_def run_handler_def
  obtain reason where b: "bound = Some reason"
    using run st by (cases bound) (auto simp: go)
  obtain ord where ord: "find (\<lambda>r. ord_id r = i) (orders s) = Some ord"
    using run st by (cases "find (\<lambda>r. ord_id r = i) (orders s)") (auto simp: go b)
  have org: "ord_org ord = org"
    using run st by (cases "ord_org ord = org") (auto simp: go b ord)
  obtain p where p: "youngest pay_created (filter (\<lambda>r. pay_order r = ord_id ord) (payments s)) = Some p"
    using run st by (cases "youngest pay_created (filter (\<lambda>r. pay_order r = ord_id ord) (payments s))")
      (auto simp: go b ord org)
  obtain rzp where rzp: "pay_status p = PaySucceeded" "pay_rzp p = Some rzp"
    using run st by (cases "pay_status p = PaySucceeded"; cases "pay_rzp p") (auto simp: go b ord org p)
  define ex where "ex = sort_key (\<lambda>r. - rf_created r) (filter (\<lambda>r. rf_payment r = pay_id p) (refunds s))"
  have ex: "\<not> list_ex refund_blocks ex"
    using run st by (cases "list_ex refund_blocks ex") (auto simp: go b ord org p rzp ex_def)
  obtain rid where rid: "create rzp (toMinorUnits (ord_total ord)) = Some rid"
    using run st ex by (cases "create rzp (toMinorUnits (ord_total ord))") (auto simp: go b ord org p rzp ex_def)
  have "\<exists>rf. rf \<in> set (refunds s') \<and> rf_payment rf = pay_id p \<and> refund_blocks rf \<and>
    orders s' = orders s \<and> payments s' = payments s \<and> entitlements s' = entitlements s \<and> accesses s' = accesses s"
    using run ex by (auto simp: go b ord org p rzp ex_def rid RefundRepo_Create_def tab_insert_run h_tx_def
        PaymentAuditRepo_Record_def AuditRepo_Record_def h_ignore_def h_bind_def refund_blocks_def)
  then show ?thesis using ord p by blast
qed

text \<open>
  Once a refund was started (201), every further refund request for the same order is
  turned away with 400, 404 or 409 in the state it left and changes nothing, whoever sends it
  and whatever reason it gives; and starting a refund by itself takes no access away.
\<close>

theorem refund_not_repeated:
  assumes first: "WithRequestTx (RefundOrder create org ac i bound) s = (r, s')" "http_status r = 201"
    and again: "WithRequestTx (RefundOrder create' org' ac' i bound') s' = (r', s'')"
  shows "s'' = s' \<and> http_status r' \<in> {400, 404, 409} \<and> entitlements s' = entitlements s \<and> accesses s' = accesses s"
proof -
  have "run_handler (RefundOrder create org ac i bound) s = (r, s')"
    using first by (auto simp: WithRequestTx_def Let_def split: prod.splits if_splits)
  then obtain ord p rf where f: "find (\<lambda>r. ord_id r = i) (orders s) = Some ord"
    "youngest pay_created (filter (\<lambda>r. pay_order r = ord_id ord) (payments s)) = Some p"
    "rf \<in> set (refunds s')" "rf_payment rf = pay_id p" "refund_blocks rf"
    "orders s' = orders s" "payments s' = payments s" "entitlements s' = entitlements s" "accesses s' = accesses s"
    using first(2) by (blast dest: RefundOrder_created)
  obtain q where q: "RefundOrder create' org' ac' i bound' s' = (Inl q, s')" "http_status q \<in> {400, 404, 409}"
    using RefundOrder_blocked[of i s' ord p rf create' org' ac' bound'] f by auto
  then have "r' = q \<and> s'' = s'"
    using again by (auto simp: WithRequestTx_def run_handler_def)
  then show ?thesis using q f by simp
qed

end
