(* ===== verification/Offers.thy ===== *)
theory Offers
  imports Refunds
begin

text \<open>
  Setting up what is for sale (\<^verbatim>\<open>handlers/commerce_offers.go\<close>): offers, discount codes and
  invite tokens, and what validation guarantees of the stored rows. PostgreSQL's conversion of a
  float to a \<^verbatim>\<open>NUMERIC(p,2)\<close> column is the argument \<open>num\<close>: \<open>num p v\<close> is the value read
  back, or \<open>None\<close> when it does not fit. \<open>None\<close> for the bound request is a body that does not
  bind.
\<close>

section \<open>Columns\<close>

definition parse_offer_type :: "string \<Rightarrow> offer_type option" where
  "parse_offer_type t = (if t = ''free'' then Some Free else if t = ''paid'' then Some Paid
     else if t = ''subscription'' then Some Subscription else if t = ''cohort'' then Some Cohort
     else if t = ''invitation_only'' then Some InvitationOnly else None)"

definition offer_type_str :: "offer_type \<Rightarrow> string" where
  "offer_type_str t = (case t of Free \<Rightarrow> ''free'' | Paid \<Rightarrow> ''paid'' | Subscription \<Rightarrow> ''subscription''
     | Cohort \<Rightarrow> ''cohort'' | InvitationOnly \<Rightarrow> ''invitation_only'')"

definition parse_currency :: "string \<Rightarrow> currency option" where
  "parse_currency c = (if c = ''INR'' then Some INR else if c = ''USD'' then Some USD else None)"

definition int4 :: "int option \<Rightarrow> bool" where
  "int4 v = (case v of None \<Rightarrow> True | Some i \<Rightarrow> - (2 ^ 31) \<le> i \<and> i < 2 ^ 31)"

type_synonym numeric_column = "nat \<Rightarrow> rat \<Rightarrow> rat option"

text \<open>
  What PostgreSQL documents of \<^verbatim>\<open>NUMERIC(p,2)\<close>: a stored value is a whole number of
  hundredths of at most \<open>p\<close> digits, and rounding to it is monotone.
\<close>

definition is_numeric :: "numeric_column \<Rightarrow> bool" where
  "is_numeric num \<longleftrightarrow> (\<forall>p v w. num p v = Some w \<longrightarrow> (\<exists>n. w = cents n \<and> \<bar>n\<bar> < 10 ^ p \<and>
     (\<forall>m. \<bar>m\<bar> \<le> 10 ^ 12 \<longrightarrow> (v \<le> cents m \<longrightarrow> n \<le> m) \<and> (cents m \<le> v \<longrightarrow> m \<le> n))))"

definition opt_json :: "('a \<Rightarrow> json) \<Rightarrow> 'a option \<Rightarrow> json" where
  "opt_json f v = (case v of None \<Rightarrow> JNull | Some x \<Rightarrow> f x)"

definition offerResponse :: "offer \<Rightarrow> json" where
  "offerResponse o' = JObj [(''id'', JInt (int (of_id o'))), (''org_id'', JInt (int (of_org o'))),
     (''course_id'', JInt (int (of_course o'))), (''type'', JStr (offer_type_str (of_type o'))),
     (''price'', JDec (of_price o')), (''currency'', JStr (currency_str (of_currency o'))),
     (''tax_rate_percent'', JDec (of_tax_rate o')), (''access_duration_days'', opt_json JInt (of_access_days o')),
     (''max_seats'', opt_json JInt (of_max_seats o')), (''enrollment_starts_at'', opt_json JInt (of_starts o')),
     (''enrollment_ends_at'', opt_json JInt (of_ends o')),
     (''status'', JStr (case of_status o' of OfferActive \<Rightarrow> ''active'' | OfferArchived \<Rightarrow> ''archived'')),
     (''created_at'', JInt (of_created o')), (''updated_at'', JInt (of_updated o'))]"

definition discountCodeResponse :: "discount_code \<Rightarrow> json" where
  "discountCodeResponse dc = JObj [(''id'', JInt (int (dc_id dc))), (''org_id'', JInt (int (dc_org dc))),
     (''offer_id'', JInt (int (dc_offer dc))), (''code'', JStr (dc_code dc)),
     (''discount_type'', JStr (case dc_type dc of DiscountPercent \<Rightarrow> ''percent'' | DiscountFixed \<Rightarrow> ''fixed'')),
     (''discount_value'', JDec (dc_value dc)), (''expires_at'', opt_json JInt (dc_expires dc)),
     (''max_redemptions'', opt_json JInt (dc_max dc)), (''redemption_count'', JInt (dc_count dc)),
     (''created_at'', JInt (dc_created dc))]"

section \<open>Offers\<close>

record offerRequest =
  or_type :: string
  or_price :: rat
  or_currency :: string
  or_tax :: rat
  or_days :: "int option"
  or_seats :: "int option"
  or_starts :: "time option"
  or_ends :: "time option"

definition validateOfferTypeFields :: "string \<Rightarrow> offerRequest \<Rightarrow> string option" where
  "validateOfferTypeFields typ req =
     (let hasSub = or_days req \<noteq> None;
          hasCohort = or_seats req \<noteq> None \<or> or_starts req \<noteq> None \<or> or_ends req \<noteq> None in
      if typ = ''free'' then
        (if or_price req \<noteq> 0 then Some ''free offers must have price 0''
         else if hasSub \<or> hasCohort then Some ''free offers may not set subscription/cohort-specific fields''
         else None)
      else if typ = ''paid'' then
        (if or_price req \<le> 0 then Some ''paid offers require a positive price''
         else if or_currency req = [] then Some ''currency is required''
         else if hasSub \<or> hasCohort then Some ''paid offers may not set subscription/cohort-specific fields''
         else None)
      else if typ = ''subscription'' then
        (if or_price req \<le> 0 then Some ''subscription offers require a positive price''
         else if or_currency req = [] then Some ''currency is required''
         else if (case or_days req of None \<Rightarrow> True | Some d \<Rightarrow> d \<le> 0)
           then Some ''subscription offers require a positive access_duration_days''
         else if hasCohort then Some ''subscription offers may not set cohort-specific fields''
         else None)
      else if typ = ''cohort'' then
        (if or_price req \<le> 0 then Some ''cohort offers require a positive price''
         else if or_currency req = [] then Some ''currency is required''
         else if or_starts req = None \<or> or_ends req = None
           then Some ''cohort offers require enrollment_starts_at and enrollment_ends_at''
         else if \<not> the (or_starts req) < the (or_ends req)
           then Some ''enrollment_ends_at must be after enrollment_starts_at''
         else if (case or_seats req of None \<Rightarrow> False | Some n \<Rightarrow> n \<le> 0) then Some ''max_seats must be positive if set''
         else if hasSub then Some ''cohort offers may not set access_duration_days''
         else None)
      else if typ = ''invitation_only'' then
        (if or_currency req = [] then Some ''currency is required''
         else if hasSub \<or> hasCohort
           then Some ''invitation_only offers may not set subscription/cohort-specific fields''
         else None)
      else Some (''unknown offer type '' @ typ))"

text \<open>The row an offer request describes, or \<open>None\<close> when a column rejects its value.\<close>

definition offer_columns :: "numeric_column \<Rightarrow> course \<Rightarrow> auth_ctx \<Rightarrow> offer_type option \<Rightarrow> offerRequest \<Rightarrow> offer option" where
  "offer_columns num course ac typ req =
     (case (typ, num 12 (or_price req), parse_currency (or_currency req), num 5 (or_tax req),
            int4 (or_days req) \<and> int4 (or_seats req)) of
        (Some t, Some price, Some cur, Some tax, True) \<Rightarrow> Some
          \<lparr>of_id = 0, of_org = c_org course, of_course = c_id course, of_type = t, of_price = price,
           of_currency = cur, of_tax_rate = tax, of_access_days = or_days req, of_max_seats = or_seats req,
           of_starts = or_starts req, of_ends = or_ends req, of_status = OfferActive,
           of_created_by = ac_user ac, of_created = 0, of_updated = 0\<rparr>
      | _ \<Rightarrow> None)"

definition offer_audit :: "course \<Rightarrow> auth_ctx \<Rightarrow> string \<Rightarrow> string \<Rightarrow> uuid \<Rightarrow> audit_event" where
  "offer_audit course ac action resource i =
     \<lparr>ae_org = Some (c_org course), ae_user = Some (ac_user ac), ae_action = action,
      ae_resource = resource, ae_resource_id = Some i, ae_details = None, ae_ip = ac_ip ac, ae_agent = ac_agent ac\<rparr>"

definition offerInCourse :: "course \<Rightarrow> uuid \<Rightarrow> (response, db, offer) hm" where
  "offerInCourse course i =
     h_bind (h_tx (OfferRepo_Get i) (\<lambda>e. if e = ErrNotFound then RespErr 404 ''offer not found''
               else RespErr 500 ''internal error'')) (\<lambda>off.
     h_bind (h_guard (of_course off = c_id course) (RespErr 404 ''offer not found'')) (\<lambda>_. h_return off))"

definition CreateOffer :: "numeric_column \<Rightarrow> course \<Rightarrow> auth_ctx \<Rightarrow> offerRequest option \<Rightarrow> db handler" where
  "CreateOffer num course ac bound = (case bound of
       None \<Rightarrow> h_respond (RespErr 400 ''invalid request'')
     | Some req \<Rightarrow> if or_type req = [] then h_respond (RespErr 400 ''type is required'')
       else (case validateOfferTypeFields (or_type req) req of
         Some msg \<Rightarrow> h_respond (RespErr 400 msg)
       | None \<Rightarrow> (case offer_columns num course ac (parse_offer_type (or_type req)) req of
           None \<Rightarrow> h_respond (RespErr 500 ''internal error'')
         | Some row \<Rightarrow>
             h_bind (h_tx (OfferRepo_Create row) internal) (\<lambda>off.
             h_bind (h_ignore (AuditRepo_Record (offer_audit course ac ''offer.create'' ''offer'' (of_id off)))) (\<lambda>_.
               h_return (Resp 201 (offerResponse off)))))))"

definition UpdateOffer :: "numeric_column \<Rightarrow> course \<Rightarrow> auth_ctx \<Rightarrow> uuid \<Rightarrow> offerRequest option \<Rightarrow> db handler" where
  "UpdateOffer num course ac i bound = (case bound of
       None \<Rightarrow> h_respond (RespErr 400 ''invalid request'')
     | Some req \<Rightarrow>
        h_bind (offerInCourse course i) (\<lambda>existing.
        (case validateOfferTypeFields (offer_type_str (of_type existing)) req of
           Some msg \<Rightarrow> h_respond (RespErr 400 msg)
         | None \<Rightarrow> (case offer_columns num course ac (Some (of_type existing)) req of
             None \<Rightarrow> h_respond (RespErr 500 ''internal error'')
           | Some row \<Rightarrow>
               h_bind (h_tx (OfferRepo_Update (of_id existing) row) internal) (\<lambda>off.
               h_bind (h_ignore (AuditRepo_Record (offer_audit course ac ''offer.update'' ''offer'' (of_id off)))) (\<lambda>_.
                 h_return (Resp 200 (offerResponse off))))))))"

definition ArchiveOffer :: "course \<Rightarrow> auth_ctx \<Rightarrow> uuid \<Rightarrow> db handler" where
  "ArchiveOffer course ac i =
     h_bind (offerInCourse course i) (\<lambda>existing.
     h_bind (h_tx (OfferRepo_Archive (of_id existing)) internal) (\<lambda>off.
     h_bind (h_ignore (AuditRepo_Record (offer_audit course ac ''offer.archive'' ''offer'' (of_id off)))) (\<lambda>_.
       h_return (Resp 200 (offerResponse off)))))"

definition ListOffers :: "course \<Rightarrow> string \<Rightarrow> db handler" where
  "ListOffers course include_archived =
     h_bind (h_tx (OfferRepo_ListByCourse (c_id course)) internal) (\<lambda>os.
       h_return (Resp 200 (JObj [(''offers'', JArr (map offerResponse
         (filter (\<lambda>o'. include_archived = ''true'' \<or> of_status o' \<noteq> OfferArchived) os)))])))"

section \<open>Discount codes\<close>

record discountCodeRequest =
  dr_code :: string
  dr_type :: string
  dr_value :: rat
  dr_expires :: "time option"
  dr_max :: "int option"

definition validateDiscountRequest :: "discountCodeRequest \<Rightarrow> string option" where
  "validateDiscountRequest req =
     (let limit = (case dr_max req of Some m \<Rightarrow> if m \<le> 0 then Some ''max_redemptions must be positive if set'' else None
                   | None \<Rightarrow> None) in
      if dr_type req = ''percent'' then
        (if dr_value req \<le> 0 \<or> 100 < dr_value req then Some ''percent discount_value must be between 0 and 100''
         else limit)
      else if dr_type req = ''fixed'' then
        (if dr_value req \<le> 0 then Some ''fixed discount_value must be positive'' else limit)
      else Some ''discount_type must be \"percent\" or \"fixed\"'')"

definition CreateDiscountCode ::
  "numeric_column \<Rightarrow> course \<Rightarrow> auth_ctx \<Rightarrow> uuid \<Rightarrow> discountCodeRequest option \<Rightarrow> db handler" where
  "CreateDiscountCode num course ac i bound = (case bound of
       None \<Rightarrow> h_respond (RespErr 400 ''invalid request'')
     | Some req \<Rightarrow> if dr_code req = [] \<or> dr_type req = [] \<or> dr_value req = 0
       then h_respond (RespErr 400 ''invalid request'')
       else (case validateDiscountRequest req of
         Some msg \<Rightarrow> h_respond (RespErr 400 msg)
       | None \<Rightarrow>
          h_bind (offerInCourse course i) (\<lambda>off.
          h_bind (h_tx (case num 12 (dr_value req) of
                     Some v \<Rightarrow> if int4 (dr_max req) then DiscountCodeRepo_Create
                       \<lparr>dc_id = 0, dc_org = c_org course, dc_offer = of_id off, dc_code = dr_code req,
                        dc_type = (if dr_type req = ''percent'' then DiscountPercent else DiscountFixed),
                        dc_value = v, dc_expires = dr_expires req, dc_max = dr_max req, dc_count = 0,
                        dc_created_by = ac_user ac, dc_created = 0\<rparr> else tx_throw ErrStorage
                   | None \<Rightarrow> tx_throw ErrStorage)
                   (\<lambda>_. RespErr 409 ''a discount code with that code already exists for this offer'')) (\<lambda>dc.
          h_bind (h_ignore (AuditRepo_Record (offer_audit course ac ''discount.create'' ''discount_code'' (dc_id dc)))) (\<lambda>_.
            h_return (Resp 201 (discountCodeResponse dc)))))))"

definition ListDiscountCodes :: "course \<Rightarrow> uuid \<Rightarrow> db handler" where
  "ListDiscountCodes course i =
     h_bind (offerInCourse course i) (\<lambda>off.
     h_bind (h_tx (DiscountCodeRepo_ListByOffer (of_id off)) internal) (\<lambda>codes.
       h_return (Resp 200 (JObj [(''discount_codes'', JArr (map discountCodeResponse codes))]))))"

definition DeactivateDiscountCode :: "course \<Rightarrow> auth_ctx \<Rightarrow> uuid \<Rightarrow> uuid \<Rightarrow> db handler" where
  "DeactivateDiscountCode course ac i code =
     h_bind (offerInCourse course i) (\<lambda>off.
     h_bind (h_tx (DiscountCodeRepo_Get code) (\<lambda>e. if e = ErrNotFound
               then RespErr 404 ''discount code not found'' else RespErr 500 ''internal error'')) (\<lambda>existing.
     h_bind (h_guard (dc_offer existing = of_id off) (RespErr 404 ''discount code not found'')) (\<lambda>_.
     h_bind (h_tx (DiscountCodeRepo_Deactivate (dc_id existing)) internal) (\<lambda>dc.
     h_bind (h_ignore (AuditRepo_Record (offer_audit course ac ''discount.archive'' ''discount_code'' (dc_id dc)))) (\<lambda>_.
       h_return (Resp 200 (discountCodeResponse dc)))))))"

section \<open>Invite tokens\<close>

record createInviteTokenRequest =
  ci_email :: "string option"
  ci_expires :: "time option"

text \<open>\<open>fresh\<close> is the string \<^verbatim>\<open>uuid.NewString()\<close> returns.\<close>

definition generateInviteTokenValue :: "string \<Rightarrow> string" where
  "generateInviteTokenValue fresh = ''invite_'' @ fresh"

definition CreateInviteToken ::
  "string \<Rightarrow> course \<Rightarrow> auth_ctx \<Rightarrow> uuid \<Rightarrow> createInviteTokenRequest option \<Rightarrow> db handler" where
  "CreateInviteToken fresh course ac i bound = (case bound of
       None \<Rightarrow> h_respond (RespErr 400 ''invalid request'')
     | Some req \<Rightarrow>
        h_bind (offerInCourse course i) (\<lambda>off.
        h_bind (h_guard (of_type off = InvitationOnly)
                  (RespErr 400 ''invite tokens can only be created for invitation_only offers'')) (\<lambda>_.
        h_bind (h_tx (InviteTokenRepo_Create (c_org course) (of_id off) (ac_user ac)
                  (generateInviteTokenValue fresh) (ci_email req) (ci_expires req)) internal) (\<lambda>it.
        h_bind (h_ignore (AuditRepo_Record
                  (offer_audit course ac ''invitetoken.create'' ''commerce_invite_token'' (it_id it)))) (\<lambda>_.
          h_return (Resp 201 (JObj [(''id'', JInt (int (it_id it))), (''offer_id'', JInt (int (it_offer it))),
            (''token'', JStr (it_token it)), (''bound_email'', opt_json JStr (it_bound_email it)),
            (''expires_at'', opt_json JInt (it_expires it)), (''created_at'', JInt (it_created it))])))))))"

definition invite_status :: "time \<Rightarrow> invite_token \<Rightarrow> string" where
  "invite_status now it = (if it_used_at it \<noteq> None then ''used''
     else if (case it_expires it of None \<Rightarrow> False | Some e \<Rightarrow> e < now) then ''expired'' else ''outstanding'')"

definition ListInviteTokens :: "course \<Rightarrow> uuid \<Rightarrow> db handler" where
  "ListInviteTokens course i =
     h_bind (offerInCourse course i) (\<lambda>off.
     h_bind (h_tx (InviteTokenRepo_ListByOffer (of_id off)) internal) (\<lambda>toks.
     h_bind (h_tx (tx_gets clock) internal) (\<lambda>now.
       h_return (Resp 200 (JObj [(''invite_tokens'', JArr (map (\<lambda>it. JObj
         [(''id'', JInt (int (it_id it))), (''offer_id'', JInt (int (it_offer it))),
          (''bound_email'', opt_json JStr (it_bound_email it)), (''status'', JStr (invite_status now it)),
          (''used_at'', opt_json JInt (it_used_at it)), (''expires_at'', opt_json JInt (it_expires it)),
          (''created_at'', JInt (it_created it))]) toks))])))))"

section \<open>The requests of this file, and the commerce invariants\<close>

datatype shop_request =
    ShopCreate course auth_ctx "offerRequest option"
  | ShopUpdate course auth_ctx uuid "offerRequest option"
  | ShopArchive course auth_ctx uuid
  | ShopList course string
  | ShopCreateCode course auth_ctx uuid "discountCodeRequest option"
  | ShopListCodes course uuid
  | ShopDeactivate course auth_ctx uuid uuid
  | ShopInvite string course auth_ctx uuid "createInviteTokenRequest option"
  | ShopListInvites course uuid

fun shop_handler :: "numeric_column \<Rightarrow> shop_request \<Rightarrow> db handler" where
  "shop_handler num (ShopCreate c ac b) = CreateOffer num c ac b"
| "shop_handler num (ShopUpdate c ac i b) = UpdateOffer num c ac i b"
| "shop_handler num (ShopArchive c ac i) = ArchiveOffer c ac i"
| "shop_handler num (ShopList c q) = ListOffers c q"
| "shop_handler num (ShopCreateCode c ac i b) = CreateDiscountCode num c ac i b"
| "shop_handler num (ShopListCodes c i) = ListDiscountCodes c i"
| "shop_handler num (ShopDeactivate c ac i j) = DeactivateDiscountCode c ac i j"
| "shop_handler num (ShopInvite fresh c ac i b) = CreateInviteToken fresh c ac i b"
| "shop_handler num (ShopListInvites c i) = ListInviteTokens c i"

lemmas shop_defs = CreateOffer_def UpdateOffer_def ArchiveOffer_def ListOffers_def CreateDiscountCode_def
  ListDiscountCodes_def DeactivateDiscountCode_def CreateInviteToken_def ListInviteTokens_def offerInCourse_def

lemma list_pres [tx_rules]:
  "tx_pres I (OfferRepo_ListByCourse c)" "tx_pres I (DiscountCodeRepo_ListByOffer i)"
  "tx_pres I (InviteTokenRepo_ListByOffer i)"
  by (simp_all add: OfferRepo_ListByCourse_def DiscountCodeRepo_ListByOffer_def InviteTokenRepo_ListByOffer_def tx_rules)

lemma shop_handler_ok: "h_pres (commerce_ok V {} {}) (shop_handler num r)"
  by (cases r) (auto simp: shop_defs split: option.split intro!: h_rules tx_rules)

section \<open>What validation guarantees\<close>

definition timing_ok :: "offer \<Rightarrow> bool" where
  "timing_ok f \<longleftrightarrow>
     (if of_type f = Subscription then (case of_access_days f of None \<Rightarrow> False | Some d \<Rightarrow> 0 < d \<and> d < 2 ^ 31)
      else of_access_days f = None) \<and>
     (if of_type f = Cohort
      then (case (of_starts f, of_ends f) of (Some a, Some b) \<Rightarrow> a < b | _ \<Rightarrow> False) \<and>
           (case of_max_seats f of None \<Rightarrow> True | Some n \<Rightarrow> 0 < n)
      else of_max_seats f = None \<and> of_starts f = None \<and> of_ends f = None)"

definition price_ok :: "offer \<Rightarrow> bool" where
  "price_ok f \<longleftrightarrow> (\<exists>P. of_price f = cents P \<and> \<bar>P\<bar> < 10 ^ 12 \<and> (of_type f \<noteq> InvitationOnly \<longrightarrow> 0 \<le> P) \<and>
     (of_type f = Free \<longrightarrow> P = 0))"

definition code_ok :: "discount_code \<Rightarrow> bool" where
  "code_ok c \<longleftrightarrow> (\<exists>D. dc_value c = cents D \<and> 0 \<le> D \<and> D < 10 ^ 12 \<and> (dc_type c = DiscountPercent \<longrightarrow> D \<le> 10000)) \<and>
     (case dc_max c of None \<Rightarrow> True | Some m \<Rightarrow> 0 < m)"

definition shop_ok :: "db \<Rightarrow> bool" where
  "shop_ok s \<longleftrightarrow> (\<forall>f \<in> set (offers s). price_ok f \<and> timing_ok f) \<and> (\<forall>c \<in> set (discount_codes s). code_ok c)"

lemma cents_0 [simp]: "cents 0 = 0"
  by (simp add: cents_def fl_def)

lemma cents_100 [simp]: "cents 10000 = 100"
  using fl_of_int[of 100] by (simp add: cents_def)

lemma numeric_price:
  assumes num: "is_numeric num" and v: "num 12 v = Some w"
  obtains n where "w = cents n" "\<bar>n\<bar> < 10 ^ 12" "0 \<le> v \<Longrightarrow> 0 \<le> n" "v = 0 \<Longrightarrow> n = 0" "v \<le> 100 \<Longrightarrow> n \<le> 10000"
proof -
  obtain n where n: "w = cents n" "\<bar>n\<bar> < 10 ^ 12"
    "\<And>m. \<bar>m\<bar> \<le> 10 ^ 12 \<Longrightarrow> (v \<le> cents m \<longrightarrow> n \<le> m) \<and> (cents m \<le> v \<longrightarrow> m \<le> n)"
    using num v unfolding is_numeric_def by meson
  show ?thesis
    by (rule that[of n]) (use n(1,2) n(3)[of 0] n(3)[of 10000] in auto)
qed

lemma offer_row_ok:
  assumes num: "is_numeric num" and val: "validateOfferTypeFields (offer_type_str t) req = None"
    and row: "offer_columns num course ac (Some t) req = Some f"
  shows "price_ok f \<and> timing_ok f \<and> of_type f = t"
proof -
  obtain price tax cur where p: "num 12 (or_price req) = Some price" "int4 (or_days req)" "int4 (or_seats req)"
    and f: "of_type f = t" "of_price f = price" "of_access_days f = or_days req" "of_max_seats f = or_seats req"
      "of_starts f = or_starts req" "of_ends f = or_ends req"
    using row by (auto simp: offer_columns_def split: option.splits bool.splits)
  obtain n where n: "price = cents n" "\<bar>n\<bar> < 10 ^ 12" "0 \<le> or_price req \<Longrightarrow> 0 \<le> n" "or_price req = 0 \<Longrightarrow> n = 0"
    using numeric_price[OF num p(1)] by metis
  have "price_ok f"
    unfolding price_ok_def f n(1) using n(2-4) val
    by (intro exI[of _ n]) (cases t; auto simp: validateOfferTypeFields_def offer_type_str_def Let_def split: if_splits)
  moreover have "timing_ok f"
    using val p(2,3)
    by (cases t; auto simp: timing_ok_def f validateOfferTypeFields_def offer_type_str_def Let_def int4_def
        split: if_splits option.splits)
  ultimately show ?thesis by (simp add: f)
qed

lemma parse_offer_type_str: "parse_offer_type s = Some t \<Longrightarrow> offer_type_str t = s"
  by (auto simp: parse_offer_type_def offer_type_str_def split: if_splits)

lemma code_row_ok:
  assumes num: "is_numeric num" and val: "validateDiscountRequest req = None" and v: "num 12 (dr_value req) = Some w"
    and c: "dc_value c = w" "dc_max c = dr_max req"
      "dc_type c = (if dr_type req = ''percent'' then DiscountPercent else DiscountFixed)"
  shows "code_ok c"
proof -
  obtain n where n: "w = cents n" "\<bar>n\<bar> < 10 ^ 12" "0 \<le> dr_value req \<Longrightarrow> 0 \<le> n" "dr_value req \<le> 100 \<Longrightarrow> n \<le> 10000"
    using numeric_price[OF num v] by metis
  show ?thesis
    using val n unfolding code_ok_def c
    by (auto simp: validateDiscountRequest_def Let_def split: if_splits option.splits intro!: exI[of _ n])
qed

lemma shop_frame [tx_rules]:
  "tx_pres shop_ok (AuditRepo_Record a)" "tx_pres shop_ok (OfferRepo_Archive i)"
  "tx_pres shop_ok (DiscountCodeRepo_Deactivate i)"
  "tx_pres shop_ok (InviteTokenRepo_Create org off l tok email xp)"
proof -
  have "price_ok (r\<lparr>of_status := OfferArchived, of_updated := t\<rparr>) = price_ok r"
    "timing_ok (r\<lparr>of_status := OfferArchived, of_updated := t\<rparr>) = timing_ok r"
    "code_ok (c\<lparr>dc_expires := x\<rparr>) = code_ok c" for r t c x
    by (simp_all add: price_ok_def timing_ok_def code_ok_def)
  then show "tx_pres shop_ok (OfferRepo_Archive i)" "tx_pres shop_ok (DiscountCodeRepo_Deactivate i)"
    by (auto simp: tx_post_def OfferRepo_Archive_def DiscountCodeRepo_Deactivate_def tab_update_now_Inr shop_ok_def)
  show "tx_pres shop_ok (AuditRepo_Record a)"
    by (auto simp: tx_post_def AuditRepo_Record_def shop_ok_def)
  show "tx_pres shop_ok (InviteTokenRepo_Create org off l tok email xp)"
    by (auto simp: tx_post_def InviteTokenRepo_Create_def tab_insert_Inr shop_ok_def split: if_splits)
qed

lemma OfferRepo_Create_shop: "price_ok f \<Longrightarrow> timing_ok f \<Longrightarrow> tx_pres shop_ok (OfferRepo_Create f)"
  by (auto simp: tx_post_def OfferRepo_Create_def tab_insert_Inr shop_ok_def price_ok_def timing_ok_def)

lemma OfferRepo_Update_shop:
  assumes f: "price_ok f" "timing_ok f"
  shows "tx_pres (\<lambda>s. shop_ok s \<and> (\<forall>x \<in> set (offers s). of_id x = i \<longrightarrow> of_type x = of_type f)) (OfferRepo_Update i f)"
proof -
  let ?u = "\<lambda>t r. r\<lparr>of_price := of_price f, of_currency := of_currency f, of_tax_rate := of_tax_rate f,
        of_access_days := of_access_days f, of_max_seats := of_max_seats f,
        of_starts := of_starts f, of_ends := of_ends f, of_updated := t\<rparr>"
  have u: "price_ok (?u t r) \<and> timing_ok (?u t r) \<and> of_type (?u t r) = of_type r" if "of_type r = of_type f" for t r
    using f that by (auto simp: price_ok_def timing_ok_def)
  show ?thesis
  proof (rule tx_postI)
    fix s r s'
    assume ok: "shop_ok s \<and> (\<forall>x \<in> set (offers s). of_id x = i \<longrightarrow> of_type x = of_type f)"
      and "OfferRepo_Update i f s = Inr (r, s')"
    then have s': "s' = put_offers (map (\<lambda>r. if of_id r = i then ?u (clock s) r else r) (offers s)) s"
      unfolding OfferRepo_Update_def tab_update_now_Inr by blast
    have "price_ok x \<and> timing_ok x \<and> (of_id x = i \<longrightarrow> of_type x = of_type f)" if x: "x \<in> set (offers s')" for x
    proof -
      from x obtain y where y: "y \<in> set (offers s)" "x = (if of_id y = i then ?u (clock s) y else y)"
        unfolding s' by auto
      show ?thesis
      proof (cases "of_id y = i")
        case True
        then show ?thesis using u[of y "clock s"] ok y(1) unfolding y(2) by simp
      next
        case False
        then have "x = y" using y(2) by simp
        then show ?thesis using ok y(1) False unfolding shop_ok_def by blast
      qed
    qed
    moreover have "discount_codes s' = discount_codes s" unfolding s' by simp
    ultimately show "shop_ok s' \<and> (\<forall>x \<in> set (offers s'). of_id x = i \<longrightarrow> of_type x = of_type f)"
      using ok unfolding shop_ok_def by metis
  qed
qed

lemma DiscountCodeRepo_Create_shop: "code_ok c \<Longrightarrow> tx_pres shop_ok (DiscountCodeRepo_Create c)"
proof -
  assume c: "code_ok c"
  have "code_ok (c\<lparr>dc_id := i, dc_count := 0, dc_created := t\<rparr>)" for i t
    using c by (simp add: code_ok_def)
  then show ?thesis
    by (auto simp: tx_post_def DiscountCodeRepo_Create_def tab_insert_Inr shop_ok_def split: if_splits)
qed

lemma offerInCourse_run:
  "offerInCourse course i s = (Inr off, s') \<Longrightarrow> off \<in> set (offers s) \<and> of_id off = i"
  by (cases "find (\<lambda>r. of_id r = i) (offers s)") (auto simp: offerInCourse_def OfferRepo_Get_def tab_select1_def
      h_guard_def h_return_def h_respond_def h_bind_def h_tx_def split: if_splits dest: find_SomeD)

lemma offerInCourse_state: "offerInCourse course i s = (r, s') \<Longrightarrow> s' = s"
  by (cases "find (\<lambda>r. of_id r = i) (offers s)") (auto simp: offerInCourse_def OfferRepo_Get_def tab_select1_def
      h_guard_def h_return_def h_respond_def h_bind_def h_tx_def split: if_splits)

lemma offerInCourse_pres [h_rules]: "h_pres I (offerInCourse course i)"
  by (auto simp: offerInCourse_def intro!: h_rules tx_rules)

lemma UpdateOffer_shop:
  assumes num: "is_numeric num" and ok: "shop_ok s" and k: "keyed_ok offers of_id s"
  shows "shop_ok (snd (UpdateOffer num course ac i bound s))"
proof (cases bound)
  case None
  then show ?thesis using ok by (simp add: UpdateOffer_def h_respond_def)
next
  case (Some req)
  show ?thesis
  proof (cases "offerInCourse course i s")
    case (Pair res s1)
    show ?thesis
    proof (cases res)
      case (Inl r)
      then show ?thesis
        using Pair ok offerInCourse_state[OF Pair] by (simp add: UpdateOffer_def Some)
    next
      case (Inr off)
      have off: "off \<in> set (offers s)" "of_id off = i" "s1 = s"
        using offerInCourse_run offerInCourse_state Pair Inr by blast+
      have same: "\<forall>x \<in> set (offers s). of_id x = of_id off \<longrightarrow> of_type x = of_type off"
        using key_find[OF k off(1)] key_find[OF k] by (metis option.inject)
      have "shop_ok (snd (h_bind (h_tx (OfferRepo_Update (of_id off) row) internal) (\<lambda>f.
          h_bind (h_ignore (AuditRepo_Record (offer_audit course ac ''offer.update'' ''offer'' (of_id f)))) (\<lambda>_.
            h_return (Resp 200 (offerResponse f)))) s))"
        if "validateOfferTypeFields (offer_type_str (of_type off)) req = None"
          "offer_columns num course ac (Some (of_type off)) req = Some row" for row
      proof (cases "OfferRepo_Update (of_id off) row s")
        case (Inl e)
        then show ?thesis using ok by simp
      next
        case (Inr p)
        obtain f t where p: "p = (f, t)" by force
        have row: "price_ok row" "timing_ok row" "of_type row = of_type off" using offer_row_ok[OF num that] by auto
        have "shop_ok t"
          using tx_postD[OF OfferRepo_Update_shop[OF row(1,2)] Inr[unfolded p]] ok same row(3) by simp
        moreover have "h_pres shop_ok (h_bind (h_ignore (AuditRepo_Record a)) (\<lambda>_. h_return x) :: db handler)"
          for a x
          by (intro h_rules tx_rules)
        ultimately show ?thesis using Inr p by (simp add: h_presD[of shop_ok])
      qed
      then show ?thesis
        using Pair Inr ok off(3) by (auto simp: UpdateOffer_def Some h_respond_def split: option.split)
    qed
  qed
qed

lemma tx_post_option_eq:
  "(v = None \<Longrightarrow> tx_post P m Q) \<Longrightarrow> (\<And>x. v = Some x \<Longrightarrow> tx_post P (f x) Q) \<Longrightarrow>
    tx_post P (case v of None \<Rightarrow> m | Some x \<Rightarrow> f x) Q"
  by (cases v) simp_all

text \<open>
  offer validation protects what is stored. After any offer, discount or invite request,
  and any answer, every offer is priced in whole cents, free offers at zero and no offer below
  zero unless it is invitation-only; subscriptions have a positive 32-bit number of access days,
  cohorts a non-empty enrolment window and positive seats, and no type carries another type's
  fields; every discount code is worth a non-negative number of cents, a percentage at most 100,
  with a positive cap if any.
\<close>

theorem stored_offers_valid:
  assumes num: "is_numeric num" and ok: "shop_ok s" "commerce_ok V {} {} s"
  shows "shop_ok (snd (WithRequestTx (shop_handler num r) s))"
proof -
  have k: "keyed_ok offers of_id s" using ok by (simp add: commerce_ok_def tables_ok_def)
  have create: "tx_pres shop_ok (OfferRepo_Create f)"
    if "validateOfferTypeFields t req = None" "offer_columns num course ac (parse_offer_type t) req = Some f"
    for t :: string and req course ac f
  proof -
    note row = that
    obtain ty where ty: "parse_offer_type t = Some ty" using row
      by (auto simp: offer_columns_def split: option.splits)
    show ?thesis
      using offer_row_ok[OF num, of ty req course ac f] row ty parse_offer_type_str[OF ty]
      by (auto intro!: OfferRepo_Create_shop)
  qed
  have "shop_ok (snd (shop_handler num r s))"
  proof (cases r)
    case (ShopUpdate c ac i b)
    then show ?thesis using UpdateOffer_shop[OF num ok(1) k] by simp
  next
    case (ShopCreateCode c ac i b)
    have "h_pres shop_ok (CreateDiscountCode num c ac i b)"
      unfolding CreateDiscountCode_def
      by (auto split: option.split intro!: h_rules tx_post_option_eq tx_post_if tx_pres_throw shop_frame
          DiscountCodeRepo_Create_shop code_row_ok[OF num])
    then show ?thesis using ShopCreateCode ok(1) by (simp add: h_presD)
  next
    case (ShopCreate c ac b)
    have "h_pres shop_ok (CreateOffer num c ac b)"
      unfolding CreateOffer_def by (auto split: option.split intro!: h_rules tx_rules create)
    then show ?thesis using ShopCreate ok(1) by (simp add: h_presD)
  qed (use ok(1) in \<open>auto simp: shop_defs split: option.split intro!: h_presD[of shop_ok] h_rules tx_rules\<close>)
  then show ?thesis
    using ok(1) by (auto simp: WithRequestTx_def run_handler_def Let_def split: prod.splits sum.splits)
qed

text \<open>Two values no branch of the validation looks at: the tax rate, and the price of an
  invitation-only offer. A negative one is stored and priced.\<close>

lemma unchecked_price_and_tax:
  "or_currency req \<noteq> [] \<Longrightarrow> or_days req = None \<Longrightarrow> or_seats req = None \<Longrightarrow> or_starts req = None \<Longrightarrow>
    or_ends req = None \<Longrightarrow>
    validateOfferTypeFields ''invitation_only'' req = None \<and>
    validateOfferTypeFields ''paid'' (req\<lparr>or_price := 100, or_tax := - 50\<rparr>) = None"
  by (simp add: validateOfferTypeFields_def)

end
