(* ===== verification/Reports.thy ===== *)
theory Reports
  imports Offers
begin

text \<open>
  The owner's revenue report (\<^verbatim>\<open>handlers/commerce_reports.go\<close>): one pass over an
  organisation's succeeded orders in a time window, accumulated per currency, and within a currency
  per course and per offer type. A Go map is a partial function; amounts are \<open>float64\<close> sums in
  the order of the loop. The report reads through the caller's request transaction, where
  PostgreSQL's row-level security hides rows: each of its queries runs on the rows its policy
  shows the caller (migrations 000006 and 000007).
\<close>

section \<open>What the policies show a caller\<close>

text \<open>
  The caller's id, the organisations he is a member of, the role of the request
  (\<^verbatim>\<open>app_current_role()\<close>) and whether he is a platform owner.
\<close>

record viewer =
  vw_user :: uuid
  vw_orgs :: "uuid list"
  vw_role :: string
  vw_platform :: bool

definition vw_staff :: "viewer \<Rightarrow> uuid \<Rightarrow> bool" where
  "vw_staff v org \<longleftrightarrow> org \<in> set (vw_orgs v) \<and> vw_role v \<in> {''owner'', ''teacher''}"

text \<open>\<^verbatim>\<open>offers_select\<close>, \<^verbatim>\<open>orders_select\<close>, \<^verbatim>\<open>payments_select\<close>, \<^verbatim>\<open>refunds_select\<close>.\<close>

definition offers_select :: "viewer \<Rightarrow> offer \<Rightarrow> bool" where
  "offers_select v f \<longleftrightarrow> of_org f \<in> set (vw_orgs v)"

definition orders_select :: "viewer \<Rightarrow> order \<Rightarrow> bool" where
  "orders_select v x \<longleftrightarrow> ord_learner x = vw_user v \<or> vw_staff v (ord_org x) \<or> vw_platform v"

definition payments_select :: "viewer \<Rightarrow> db \<Rightarrow> payment \<Rightarrow> bool" where
  "payments_select v s p \<longleftrightarrow> vw_staff v (pay_org p) \<or>
     (\<exists>x \<in> set (orders s). ord_id x = pay_order p \<and> ord_learner x = vw_user v)"

definition refunds_select :: "viewer \<Rightarrow> db \<Rightarrow> refund \<Rightarrow> bool" where
  "refunds_select v s r \<longleftrightarrow> vw_staff v (rf_org r) \<or>
     (\<exists>p \<in> set (payments s). pay_id p = rf_payment r \<and>
        (\<exists>x \<in> set (orders s). ord_id x = pay_order p \<and> ord_learner x = vw_user v))"

definition seen :: "viewer \<Rightarrow> db \<Rightarrow> db" where
  "seen v s = s\<lparr>offers := filter (offers_select v) (offers s), orders := filter (orders_select v) (orders s),
     payments := filter (payments_select v s) (payments s), refunds := filter (refunds_select v s) (refunds s)\<rparr>"

text \<open>A query of a repository method, run on the rows the caller sees.\<close>

definition tx_select :: "viewer \<Rightarrow> (db, 'a) tx \<Rightarrow> (db, 'a) tx" where
  "tx_select v q = (\<lambda>s. case q (seen v s) of Inl e \<Rightarrow> Inl e | Inr (x, _) \<Rightarrow> Inr (x, s))"

lemma tx_select_run: "q (seen v s) = Inr (x, t) \<Longrightarrow> tx_select v q s = Inr (x, s)"
  by (simp add: tx_select_def)

section \<open>The report\<close>

text \<open>The totals the three row types share, and a bucket.\<close>

record revenueRow =
  GrossTotal :: rat
  CommissionTotal :: rat
  NetTotal :: rat
  RefundedTotal :: rat
  OrderCount :: int

record revenueCurrencyBucket =
  Totals :: revenueRow
  ByCourse :: "uuid \<rightharpoonup> revenueRow"
  ByOfferType :: "offer_type \<rightharpoonup> revenueRow"

definition empty_row :: revenueRow where
  "empty_row = \<lparr>GrossTotal = 0, CommissionTotal = 0, NetTotal = 0, RefundedTotal = 0, OrderCount = 0\<rparr>"

definition empty_bucket :: revenueCurrencyBucket where
  "empty_bucket = \<lparr>Totals = empty_row, ByCourse = Map.empty, ByOfferType = Map.empty\<rparr>"

text \<open>A query parameter that holds a timestamp: absent, not RFC3339, or parsed.\<close>

datatype time_param = NoTime | BadTime | Time time

definition defaultRevenueReportWindow :: time where
  "defaultRevenueReportWindow = 90 * 24 * hour"

definition sumSucceededRefundsForOrder :: "viewer \<Rightarrow> uuid \<Rightarrow> (db, rat) tx" where
  "sumSucceededRefundsForOrder v i =
     tx_bind (tx_select v (tx_found (PaymentRepo_GetByOrderID i))) (\<lambda>found.
       case found of None \<Rightarrow> tx_return 0
       | Some p \<Rightarrow> tx_bind (tx_select v (RefundRepo_GetByPaymentID (pay_id p))) (\<lambda>rfs.
           tx_return (foldl fadd 0 (map rf_amount (filter (\<lambda>rf. rf_status rf = RefSucceeded) rfs)))))"

definition effective_commission :: "order \<Rightarrow> rat \<Rightarrow> rat" where
  "effective_commission ord refunded = (if 0 < ord_total ord
     then fmul (ord_commission ord) (fsub 1 (fdiv refunded (ord_total ord))) else ord_commission ord)"

definition add_order :: "order \<Rightarrow> rat \<Rightarrow> revenueRow \<Rightarrow> revenueRow" where
  "add_order ord refunded r = (let com = effective_commission ord refunded;
       net = fsub (fsub (ord_total ord) refunded) com in
     r\<lparr>GrossTotal := fadd (GrossTotal r) (ord_total ord), CommissionTotal := fadd (CommissionTotal r) com,
       RefundedTotal := fadd (RefundedTotal r) refunded, NetTotal := fadd (NetTotal r) net,
       OrderCount := OrderCount r + 1\<rparr>)"

definition or_empty :: "revenueRow option \<Rightarrow> revenueRow" where
  "or_empty v = (case v of None \<Rightarrow> empty_row | Some r \<Rightarrow> r)"

definition add_to_bucket :: "order \<Rightarrow> offer \<Rightarrow> rat \<Rightarrow> revenueCurrencyBucket \<Rightarrow> revenueCurrencyBucket" where
  "add_to_bucket ord off refunded b =
     \<lparr>Totals = add_order ord refunded (Totals b),
      ByCourse = (ByCourse b)(of_course off \<mapsto> add_order ord refunded (or_empty (ByCourse b (of_course off)))),
      ByOfferType = (ByOfferType b)(of_type off \<mapsto> add_order ord refunded (or_empty (ByOfferType b (of_type off))))\<rparr>"

definition filtered_out :: "string \<Rightarrow> uuid option \<Rightarrow> offer \<Rightarrow> bool" where
  "filtered_out ty c off \<longleftrightarrow> (ty \<noteq> [] \<and> offer_type_str (of_type off) \<noteq> ty) \<or>
     (case c of None \<Rightarrow> False | Some x \<Rightarrow> of_course off \<noteq> x)"

type_synonym report_state = "(uuid \<rightharpoonup> offer) \<times> (currency \<rightharpoonup> revenueCurrencyBucket)"

definition report_order :: "viewer \<Rightarrow> string \<Rightarrow> uuid option \<Rightarrow> order \<Rightarrow> report_state \<Rightarrow> (db, report_state) tx" where
  "report_order v ty c ord = (\<lambda>(cache, buckets).
     if ord_status ord \<noteq> OrdSucceeded then tx_return (cache, buckets)
     else tx_bind (case cache (ord_offer ord) of Some f \<Rightarrow> tx_return (Some f)
                   | None \<Rightarrow> tx_select v (tx_found (OfferRepo_Get (ord_offer ord)))) (\<lambda>found.
       case found of None \<Rightarrow> tx_return (cache, buckets)
       | Some off \<Rightarrow> let cache' = cache(ord_offer ord \<mapsto> off) in
           if filtered_out ty c off then tx_return (cache', buckets)
           else tx_bind (sumSucceededRefundsForOrder v (ord_id ord)) (\<lambda>refunded.
             let b = (case buckets (ord_currency ord) of None \<Rightarrow> empty_bucket | Some b \<Rightarrow> b) in
             tx_return (cache', buckets(ord_currency ord \<mapsto> add_to_bucket ord off refunded b)))))"

fun report_orders :: "viewer \<Rightarrow> string \<Rightarrow> uuid option \<Rightarrow> order list \<Rightarrow> report_state \<Rightarrow> (db, report_state) tx" where
  "report_orders v ty c [] st = tx_return st"
| "report_orders v ty c (o' # os) st = tx_bind (report_order v ty c o' st) (report_orders v ty c os)"

record revenue_report =
  rr_from :: time
  rr_to :: time
  rr_currencies :: "currency \<rightharpoonup> revenueCurrencyBucket"

definition RevenueReport ::
  "viewer \<Rightarrow> uuid \<Rightarrow> time_param \<Rightarrow> time_param \<Rightarrow> string \<Rightarrow> uuid option \<Rightarrow> (response, db, revenue_report) hm" where
  "RevenueReport v org fromP toP ty c =
     h_bind (h_tx (tx_gets clock) internal) (\<lambda>now.
       case (fromP, toP) of
         (BadTime, _) \<Rightarrow> h_respond (RespErr 400 ''invalid from timestamp, expected RFC3339'')
       | (_, BadTime) \<Rightarrow> h_respond (RespErr 400 ''invalid to timestamp, expected RFC3339'')
       | _ \<Rightarrow>
          let start = (case fromP of Time t \<Rightarrow> t | _ \<Rightarrow> now - defaultRevenueReportWindow);
              stop = (case toP of Time t \<Rightarrow> t | _ \<Rightarrow> now) in
          h_bind (h_tx (tx_select v (OrderRepo_ListByOrg org start stop)) internal) (\<lambda>os.
          h_bind (h_tx (report_orders v ty c os (Map.empty, Map.empty)) internal) (\<lambda>(_, buckets).
            h_return \<lparr>rr_from = start, rr_to = stop, rr_currencies = buckets\<rparr>)))"

section \<open>What it adds up to\<close>

text \<open>The reference: the counted orders of a currency with their offers and refunds, and the row
  that adds up a list of them.\<close>

definition offer_of :: "db \<Rightarrow> order \<Rightarrow> offer option" where
  "offer_of s ord = find (\<lambda>f. of_id f = ord_offer ord) (offers s)"

definition refunded_of :: "db \<Rightarrow> order \<Rightarrow> rat" where
  "refunded_of s ord = (case youngest pay_created (filter (\<lambda>p. pay_order p = ord_id ord) (payments s)) of
     None \<Rightarrow> 0
   | Some p \<Rightarrow> foldl fadd 0 (map rf_amount (filter (\<lambda>rf. rf_status rf = RefSucceeded)
       (sort_key (\<lambda>r. - rf_created r) (filter (\<lambda>r. rf_payment r = pay_id p) (refunds s))))))"

definition counted :: "db \<Rightarrow> string \<Rightarrow> uuid option \<Rightarrow> order \<Rightarrow> bool" where
  "counted s ty c ord \<longleftrightarrow> ord_status ord = OrdSucceeded \<and>
     (case offer_of s ord of None \<Rightarrow> False | Some off \<Rightarrow> \<not> filtered_out ty c off)"

definition sum_row :: "db \<Rightarrow> order list \<Rightarrow> revenueRow" where
  "sum_row s os = fold (\<lambda>ord. add_order ord (refunded_of s ord)) os empty_row"

definition row_of :: "db \<Rightarrow> order list \<Rightarrow> revenueRow option" where
  "row_of s os = (if os = [] then None else Some (sum_row s os))"

definition in_course :: "db \<Rightarrow> uuid \<Rightarrow> order \<Rightarrow> bool" where
  "in_course s k ord = (map_option of_course (offer_of s ord) = Some k)"

definition of_offer_type :: "db \<Rightarrow> offer_type \<Rightarrow> order \<Rightarrow> bool" where
  "of_offer_type s t ord = (map_option of_type (offer_of s ord) = Some t)"

definition bucket_of :: "db \<Rightarrow> order list \<Rightarrow> revenueCurrencyBucket option" where
  "bucket_of s os = (if os = [] then None else Some
     \<lparr>Totals = sum_row s os, ByCourse = (\<lambda>k. row_of s (filter (in_course s k) os)),
      ByOfferType = (\<lambda>t. row_of s (filter (of_offer_type s t) os))\<rparr>)"

lemma sum_refunds: "sumSucceededRefundsForOrder v (ord_id x) s = Inr (refunded_of (seen v s) x, s)"
proof -
  have p: "tx_select v (tx_found (PaymentRepo_GetByOrderID (ord_id x))) s =
      Inr (youngest pay_created (filter (\<lambda>p. pay_order p = ord_id x) (payments (seen v s))), s)"
    by (rule tx_select_run) (simp add: PaymentRepo_GetByOrderID_def)
  have r: "tx_select v (RefundRepo_GetByPaymentID i) s =
      Inr (sort_key (\<lambda>r. - rf_created r) (filter (\<lambda>r. rf_payment r = i) (refunds (seen v s))), s)" for i
    by (rule tx_select_run) (simp add: RefundRepo_GetByPaymentID_def)
  show ?thesis
    unfolding sumSucceededRefundsForOrder_def by (simp add: p r refunded_of_def split: option.split)
qed

lemma row_of_snoc:
  "row_of s (filter P (os @ [x])) =
     (if P x then Some (add_order x (refunded_of s x) (or_empty (row_of s (filter P os)))) else row_of s (filter P os))"
  by (simp add: row_of_def sum_row_def or_empty_def)

lemma bucket_of_snoc:
  assumes "offer_of s x = Some off"
  shows "bucket_of s (os @ [x]) = Some (add_to_bucket x off (refunded_of s x)
    (case bucket_of s os of None \<Rightarrow> empty_bucket | Some b \<Rightarrow> b))"
proof -
  have c: "in_course s k x = (k = of_course off)" "of_offer_type s t x = (t = of_type off)" for k t
    using assms by (auto simp: in_course_def of_offer_type_def)
  show ?thesis
    unfolding bucket_of_def row_of_snoc c
    by (auto simp: add_to_bucket_def empty_bucket_def sum_row_def fun_eq_iff row_of_def or_empty_def)
qed

definition buckets_of :: "db \<Rightarrow> string \<Rightarrow> uuid option \<Rightarrow> order list \<Rightarrow> currency \<rightharpoonup> revenueCurrencyBucket" where
  "buckets_of s ty c xs = (\<lambda>cur. bucket_of s (filter (\<lambda>x. counted s ty c x \<and> ord_currency x = cur) xs))"

lemma report_order_run:
  assumes cache: "\<And>i f. cache i = Some f \<Longrightarrow> find (\<lambda>g. of_id g = i) (offers (seen v s)) = Some f"
  shows "\<exists>cache'. report_order v ty c x (cache, buckets_of (seen v s) ty c xs) s = Inr ((cache', buckets_of (seen v s) ty c (xs @ [x])), s) \<and>
     (\<forall>i f. cache' i = Some f \<longrightarrow> find (\<lambda>g. of_id g = i) (offers (seen v s)) = Some f)"
proof (cases "ord_status x = OrdSucceeded")
  case False
  then show ?thesis using cache by (auto simp: report_order_def buckets_of_def counted_def)
next
  case True
  have found: "(case cache (ord_offer x) of Some f \<Rightarrow> tx_return (Some f)
      | None \<Rightarrow> tx_select v (tx_found (OfferRepo_Get (ord_offer x)))) s = Inr (offer_of (seen v s) x, s)"
    using cache[of "ord_offer x"] by (auto simp: OfferRepo_Get_def offer_of_def tx_select_def split: option.split)
  have bind: "tx_bind (case cache (ord_offer x) of Some f \<Rightarrow> tx_return (Some f)
      | None \<Rightarrow> tx_select v (tx_found (OfferRepo_Get (ord_offer x)))) g s = g (offer_of (seen v s) x) s" for g :: "offer option \<Rightarrow> (db, report_state) tx"
    by (rule tx_bind_run(1)) (rule found)
  have bind': "tx_bind (sumSucceededRefundsForOrder v (ord_id x)) g s = g (refunded_of (seen v s) x) s" for g :: "rat \<Rightarrow> (db, report_state) tx"
    by (rule tx_bind_run(1)) (rule sum_refunds)
  show ?thesis
  proof (cases "offer_of (seen v s) x")
    case None
    then show ?thesis
      using True found cache by (auto simp: report_order_def bind buckets_of_def counted_def)
  next
    case (Some off)
    have keep: "\<forall>i f. (cache(ord_offer x \<mapsto> off)) i = Some f \<longrightarrow> find (\<lambda>g. of_id g = i) (offers (seen v s)) = Some f"
      using cache Some by (auto simp: offer_of_def)
    show ?thesis
    proof (cases "filtered_out ty c off")
      case out: True
      then have "\<not> counted (seen v s) ty c x" using Some by (simp add: counted_def)
      then show ?thesis
        using True out keep Some by (auto simp: report_order_def bind buckets_of_def Let_def)
    next
      case False
      then have cnt: "counted (seen v s) ty c x" using Some True by (simp add: counted_def)
      have "(buckets_of (seen v s) ty c xs)(ord_currency x \<mapsto> add_to_bucket x off (refunded_of (seen v s) x)
          (case buckets_of (seen v s) ty c xs (ord_currency x) of None \<Rightarrow> empty_bucket | Some b \<Rightarrow> b)) =
        buckets_of (seen v s) ty c (xs @ [x])"
        using cnt Some by (auto simp: buckets_of_def fun_eq_iff bucket_of_snoc)
      then show ?thesis
        using True False keep Some
        by (auto simp: report_order_def bind bind' Let_def)
    qed
  qed
qed

lemma report_orders_run:
  assumes "\<And>i f. cache i = Some f \<Longrightarrow> find (\<lambda>g. of_id g = i) (offers (seen v s)) = Some f"
  shows "\<exists>cache'. report_orders v ty c os (cache, buckets_of (seen v s) ty c xs) s = Inr ((cache', buckets_of (seen v s) ty c (xs @ os)), s)"
  using assms
proof (induction os arbitrary: cache xs)
  case (Cons o' os)
  obtain cache' where o': "report_order v ty c o' (cache, buckets_of (seen v s) ty c xs) s = Inr ((cache', buckets_of (seen v s) ty c (xs @ [o'])), s)"
    "\<And>i f. cache' i = Some f \<Longrightarrow> find (\<lambda>g. of_id g = i) (offers (seen v s)) = Some f"
    using report_order_run[OF Cons.prems, where x = o' and xs = xs] by blast
  then show ?case using Cons.IH[OF o'(2), where xs = "xs @ [o']"] by simp
qed simp

text \<open>
  The rows of a sale name one organisation: the offer of an order, its payments and their refunds
  carry the organisation of the order. So the writers of those rows leave it: each copies the
  organisation of the row it refers to.
\<close>

definition rows_in_org :: "db \<Rightarrow> bool" where
  "rows_in_org s \<longleftrightarrow>
     (\<forall>x \<in> set (orders s). \<forall>f \<in> set (offers s). of_id f = ord_offer x \<longrightarrow> of_org f = ord_org x) \<and>
     (\<forall>x \<in> set (orders s). \<forall>p \<in> set (payments s). pay_order p = ord_id x \<longrightarrow> pay_org p = ord_org x) \<and>
     (\<forall>p \<in> set (payments s). \<forall>r \<in> set (refunds s). rf_payment r = pay_id p \<longrightarrow> rf_org r = pay_org p)"

text \<open>Staff of the organisation see everything its report needs.\<close>

lemma find_filter_weaken: "(\<And>x. x \<in> set xs \<Longrightarrow> P x \<Longrightarrow> Q x) \<Longrightarrow> find P (filter Q xs) = find P xs"
  by (induction xs) auto

lemma offer_of_seen:
  assumes "rows_in_org s" "x \<in> set (orders s)" "ord_org x \<in> set (vw_orgs v)"
  shows "offer_of (seen v s) x = offer_of s x"
  using assms by (simp add: offer_of_def seen_def rows_in_org_def offers_select_def find_filter_weaken)

lemma refunded_of_seen:
  assumes "rows_in_org s" "x \<in> set (orders s)" "vw_staff v (ord_org x)"
  shows "refunded_of (seen v s) x = refunded_of s x"
proof -
  have p: "filter (\<lambda>p. pay_order p = ord_id x) (payments (seen v s)) = filter (\<lambda>p. pay_order p = ord_id x) (payments s)"
    by (simp add: seen_def, rule filter_cong[OF refl], use assms in \<open>auto simp: payments_select_def rows_in_org_def\<close>)
  have r: "filter (\<lambda>r. rf_payment r = pay_id p) (refunds (seen v s)) = filter (\<lambda>r. rf_payment r = pay_id p) (refunds s)"
    if "p \<in> set (payments s)" "pay_order p = ord_id x" for p
    by (simp add: seen_def, rule filter_cong[OF refl], use assms that in \<open>auto simp: refunds_select_def rows_in_org_def\<close>)
  show ?thesis
    unfolding refunded_of_def p using r by (auto split: option.split dest!: youngest_in)
qed

lemma sum_row_seen:
  assumes "rows_in_org s" "\<And>x. x \<in> set os \<Longrightarrow> x \<in> set (orders s) \<and> vw_staff v (ord_org x)"
  shows "sum_row (seen v s) os = sum_row s os"
  unfolding sum_row_def by (rule fold_cong) (use assms refunded_of_seen in auto)

lemma bucket_of_seen:
  assumes "rows_in_org s" "\<And>x. x \<in> set os \<Longrightarrow> x \<in> set (orders s) \<and> vw_staff v (ord_org x)"
  shows "bucket_of (seen v s) os = bucket_of s os"
proof -
  have f: "filter (in_course (seen v s) k) os = filter (in_course s k) os"
      "filter (of_offer_type (seen v s) t) os = filter (of_offer_type s t) os" for k t
    using assms offer_of_seen by (auto simp: in_course_def of_offer_type_def vw_staff_def intro!: filter_cong)
  have r: "row_of (seen v s) (filter P os) = row_of s (filter P os)" for P
    unfolding row_of_def using sum_row_seen[OF assms(1), of "filter P os" v] assms(2) by auto
  show ?thesis using assms by (simp add: bucket_of_def f r sum_row_seen)
qed

text \<open>
  C12: the report stores nothing, and equals its reference on the rows that row-level security
  shows the caller: for each currency, exactly the succeeded orders of that organisation in the
  window whose offer is visible and passes the filters, newest first, added up once in the
  totals, once under their course and once under their offer type; no order of another currency,
  organisation or time enters a currency's figures. Where the rows of a sale name one
  organisation, an owner or teacher who is a member gets the reference on the whole database,
  and a caller who is no member (a platform owner) gets a report without any currency.
\<close>

theorem revenue_report_exact:
  assumes "fromP \<noteq> BadTime" "toP \<noteq> BadTime"
  shows "\<exists>rep. RevenueReport v org fromP toP ty c s = (Inr rep, s) \<and>
     rr_from rep = (case fromP of Time t \<Rightarrow> t | _ \<Rightarrow> clock s - defaultRevenueReportWindow) \<and>
     rr_to rep = (case toP of Time t \<Rightarrow> t | _ \<Rightarrow> clock s) \<and>
     (\<forall>cur. rr_currencies rep cur = bucket_of (seen v s) (filter (\<lambda>x. counted (seen v s) ty c x \<and> ord_currency x = cur)
        (sort_key (\<lambda>r. - ord_created r) (filter (\<lambda>r. ord_org r = org \<and> rr_from rep \<le> ord_created r \<and>
           ord_created r < rr_to rep) (orders (seen v s)))))) \<and>
     (rows_in_org s \<and> org \<in> set (vw_orgs v) \<and> vw_role v \<in> {''owner'', ''teacher''} \<longrightarrow>
       (\<forall>cur. rr_currencies rep cur = bucket_of s (filter (\<lambda>x. counted s ty c x \<and> ord_currency x = cur)
          (sort_key (\<lambda>r. - ord_created r) (filter (\<lambda>r. ord_org r = org \<and> rr_from rep \<le> ord_created r \<and>
             ord_created r < rr_to rep) (orders s)))))) \<and>
     (rows_in_org s \<and> org \<notin> set (vw_orgs v) \<longrightarrow> rr_currencies rep = Map.empty)"
proof -
  define start where "start = (case fromP of Time t \<Rightarrow> t | _ \<Rightarrow> clock s - defaultRevenueReportWindow)"
  define stop where "stop = (case toP of Time t \<Rightarrow> t | _ \<Rightarrow> clock s)"
  define P where "P = (\<lambda>r::order. ord_org r = org \<and> start \<le> ord_created r \<and> ord_created r < stop)"
  define os where "os = sort_key (\<lambda>r. - ord_created r) (filter P (orders (seen v s)))"
  have "buckets_of (seen v s) ty c [] = Map.empty" by (simp add: buckets_of_def bucket_of_def)
  then obtain cache where run: "report_orders v ty c os (Map.empty, Map.empty) s = Inr ((cache, buckets_of (seen v s) ty c os), s)"
    using report_orders_run[of Map.empty v s ty c os "[]"] by auto
  have list: "tx_select v (OrderRepo_ListByOrg org start stop) s = Inr (os, s)"
    by (rule tx_select_run) (simp add: OrderRepo_ListByOrg_def os_def P_def)
  have rep: "RevenueReport v org fromP toP ty c s =
      (Inr \<lparr>rr_from = start, rr_to = stop, rr_currencies = buckets_of (seen v s) ty c os\<rparr>, s)"
    using assms run list
    by (cases fromP; cases toP; simp add: RevenueReport_def h_bind_def h_tx_def h_return_def start_def stop_def Let_def)
  have sub: "x \<in> set (orders s) \<and> ord_org x = org" if "x \<in> set os" for x
    using that by (auto simp: os_def P_def seen_def)
  have staff: "buckets_of (seen v s) ty c os = buckets_of s ty c (sort_key (\<lambda>r. - ord_created r) (filter P (orders s)))"
    if rows: "rows_in_org s" and st: "vw_staff v org"
  proof -
    have "filter P (orders (seen v s)) = filter P (orders s)"
      by (simp add: seen_def, rule filter_cong[OF refl], use st in \<open>auto simp: P_def orders_select_def\<close>)
    then have os: "os = sort_key (\<lambda>r. - ord_created r) (filter P (orders s))" by (simp add: os_def)
    have cnt: "counted (seen v s) ty c x = counted s ty c x" if "x \<in> set os" for x
      using offer_of_seen[OF rows, of x v] sub[OF that] st by (simp add: counted_def vw_staff_def)
    have "buckets_of (seen v s) ty c os = buckets_of s ty c os"
    proof
      fix cur
      have "filter (\<lambda>x. counted (seen v s) ty c x \<and> ord_currency x = cur) os =
          filter (\<lambda>x. counted s ty c x \<and> ord_currency x = cur) os"
        by (rule filter_cong[OF refl]) (simp add: cnt)
      then show "buckets_of (seen v s) ty c os cur = buckets_of s ty c os cur"
        unfolding buckets_of_def by (simp only:) (rule bucket_of_seen[OF rows], use sub st in auto)
    qed
    then show ?thesis unfolding os .
  qed
  have none: "buckets_of (seen v s) ty c os = Map.empty" if rows: "rows_in_org s" and out: "org \<notin> set (vw_orgs v)"
  proof -
    have "offer_of (seen v s) x = None" if "x \<in> set os" for x
      using sub[OF that] rows out
      by (fastforce simp: offer_of_def seen_def find_None_iff offers_select_def rows_in_org_def)
    then have "filter (\<lambda>x. counted (seen v s) ty c x \<and> ord_currency x = cur) os = []" for cur
      by (auto simp: filter_empty_conv counted_def)
    then show ?thesis by (simp add: buckets_of_def bucket_of_def)
  qed
  show ?thesis
    by (intro exI conjI, rule rep)
      (use staff none in \<open>auto simp: start_def stop_def os_def P_def buckets_of_def vw_staff_def\<close>)
qed

end
