(* ===== verification/WebhookHttp.thy ===== *)
theory WebhookHttp
  imports PaymentFacts Http
begin

text \<open>
  The HTTP side of a Razorpay delivery (\<^verbatim>\<open>handlers/webhooks.go\<close>): verify the signature,
  record the delivery under its event id, and queue the job when the record is new. The state is
  the commerce tables \<open>web_db\<close>, the job queue, and the table \<^verbatim>\<open>system_alerts\<close> of the same
  database, \<open>web_alerts\<close>. Arguments stand for what is outside: the keyed hash \<open>hmac\<close> (hex
  HMAC-SHA256), the text-to-JSON parser, the order \<open>iter\<close> in which Go happens to walk a map,
  whether the database and the queue accept the write (\<open>wr_record_ok\<close>, \<open>wr_enqueue_ok\<close>, with
  \<open>wr_error\<close> the text of the error otherwise) and whether the alert is stored (\<open>wr_alert_ok\<close>).
\<close>

text \<open>A row of \<^verbatim>\<open>system_alerts\<close> as it is inserted; nothing reads its generated id.\<close>

record system_alert =
  al_org :: "uuid option"
  al_severity :: string
  al_category :: string
  al_source :: string
  al_message :: string
  al_details :: "(string \<times> string) list"
  al_created :: time

record web =
  web_db :: db
  web_queue :: "webhook_job list"
  web_alerts :: "system_alert list"

record webhook_request =
  wr_body :: "string option"
  wr_signature :: string
  wr_event_id :: string
  wr_client :: string
  wr_record_ok :: bool
  wr_enqueue_ok :: bool
  wr_alert_ok :: bool
  wr_error :: string

definition VerifyWebhookSignature ::
  "(string \<Rightarrow> string \<Rightarrow> string) \<Rightarrow> string \<Rightarrow> string \<Rightarrow> string \<Rightarrow> bool" where
  "VerifyWebhookSignature hmac secret payload signature =
     (if secret = [] \<or> signature = [] then False else hmac secret payload = signature)"

definition VerifyPaymentSignature ::
  "(string \<Rightarrow> string \<Rightarrow> string) \<Rightarrow> string \<Rightarrow> string \<Rightarrow> string \<Rightarrow> string \<Rightarrow> bool" where
  "VerifyPaymentSignature hmac key_secret order_id payment_id signature =
     (if key_secret = [] \<or> order_id = [] \<or> payment_id = [] \<or> signature = [] then False
      else hmac key_secret (order_id @ ''|'' @ payment_id) = signature)"

text \<open>
  \<open>Record\<close> fills in a missing severity and category and inserts through
  \<^verbatim>\<open>record_system_alert()\<close>, under the table's two checks.
\<close>

definition AlertRepo_Record :: "bool \<Rightarrow> system_alert \<Rightarrow> (err, web, unit) hm" where
  "AlertRepo_Record ok a = (\<lambda>w.
     let a' = a\<lparr>al_severity := if al_severity a = [] then ''warning'' else al_severity a,
                al_category := if al_category a = [] then ''other'' else al_category a,
                al_created := clock (web_db w)\<rparr> in
     if \<not> ok \<or> al_severity a' \<notin> {''info'', ''warning'', ''critical''} \<or>
        al_category a' \<notin> {''job'', ''webhook'', ''storage'', ''database'', ''auth'', ''other''}
     then (Inl ErrStorage, w) else (Inr (), w\<lparr>web_alerts := web_alerts w @ [a']\<rparr>))"

text \<open>The error of an alert that could not be stored is dropped.\<close>

definition recordAlert ::
  "bool \<Rightarrow> string \<Rightarrow> string \<Rightarrow> string \<Rightarrow> string \<Rightarrow> (string \<times> string) list \<Rightarrow> (response, web, unit) hm" where
  "recordAlert ok severity category source msg details = (\<lambda>w.
     (Inr (), snd (AlertRepo_Record ok \<lparr>al_org = None, al_severity = severity, al_category = category,
        al_source = source, al_message = msg, al_details = details, al_created = 0\<rparr> w)))"

text \<open>The entries of the decoded map, walked in the order \<open>iter\<close> gives.\<close>

definition map_entries :: "webhook_body \<Rightarrow> (string \<times> json) list" where
  "map_entries m = map (\<lambda>k. (k, the (map_get m k))) (remdups (map fst m))"

fun first_entity_id :: "(string \<times> json) list \<Rightarrow> string" where
  "first_entity_id [] = []"
| "first_entity_id ((k, raw) # r) =
     (case razorpayEntityPayload raw of
        Inr i \<Rightarrow> if i \<noteq> [] then i else first_entity_id r
      | Inl _ \<Rightarrow> first_entity_id r)"

definition event_id ::
  "((string \<times> json) list \<Rightarrow> (string \<times> json) list) \<Rightarrow> string \<Rightarrow> envelope \<Rightarrow> string option" where
  "event_id iter header env = (if header \<noteq> [] then Some header else
     (let entity = first_entity_id (iter (map_entries (env_payload env))) in
      if entity = [] then None
      else Some (env_event env @ '':'' @ entity @ '':'' @ show_int (env_created env))))"

definition TryRecord_http :: "bool \<Rightarrow> string \<Rightarrow> string \<Rightarrow> json \<Rightarrow> (err, web, bool) hm" where
  "TryRecord_http ok ev ty body = (\<lambda>w. if \<not> ok then (Inl ErrStorage, w) else
     (case run_tx (WebhookEventRepo_TryRecord ev ty body) (web_db w) of
        (Inl e, d) \<Rightarrow> (Inl e, w\<lparr>web_db := d\<rparr>) | (Inr b, d) \<Rightarrow> (Inr b, w\<lparr>web_db := d\<rparr>)))"

definition EnqueueRazorpayWebhook :: "bool \<Rightarrow> webhook_job \<Rightarrow> (err, web, unit) hm" where
  "EnqueueRazorpayWebhook ok job = (\<lambda>w. if ok then (Inr (), w\<lparr>web_queue := web_queue w @ [job]\<rparr>)
     else (Inl ErrStorage, w))"

text \<open>A pool call whose error is handled by a handler of its own.\<close>

definition h_catch :: "('e, 's, 'a) hm \<Rightarrow> ('r, 's, 'a) hm \<Rightarrow> ('r, 's, 'a) hm" where
  "h_catch m n = (\<lambda>s. case m s of (Inl _, s') \<Rightarrow> n s' | (Inr x, s') \<Rightarrow> (Inr x, s'))"

text \<open>The two critical alerts, each followed by its 500.\<close>

definition record_failed :: "webhook_request \<Rightarrow> string \<Rightarrow> string \<Rightarrow> (response, web, bool) hm" where
  "record_failed req event ev =
     h_bind (recordAlert (wr_alert_ok req) ''critical'' ''webhook'' ''razorpay_webhook''
         (''failed to record verified payment webhook: '' @ wr_error req)
         [(''event'', event), (''event_id'', ev)]) (\<lambda>_.
       h_respond (RespErr 500 ''failed to record webhook event''))"

definition enqueue_failed :: "webhook_request \<Rightarrow> string \<Rightarrow> string \<Rightarrow> (response, web, unit) hm" where
  "enqueue_failed req event ev =
     h_bind (recordAlert (wr_alert_ok req) ''critical'' ''webhook'' ''razorpay_webhook''
         (''verified payment webhook recorded but failed to enqueue: '' @ wr_error req)
         [(''event'', event), (''event_id'', ev)]) (\<lambda>_.
       h_respond (RespErr 500 ''failed to enqueue''))"

definition RazorpayWebhook ::
  "(string \<Rightarrow> string \<Rightarrow> string) \<Rightarrow> string \<Rightarrow> (string \<Rightarrow> json option) \<Rightarrow>
   ((string \<times> json) list \<Rightarrow> (string \<times> json) list) \<Rightarrow> webhook_request \<Rightarrow> web handler" where
  "RazorpayWebhook hmac secret parse iter req = (case wr_body req of
       None \<Rightarrow> h_respond (RespErr 400 ''invalid request'')
     | Some body \<Rightarrow>
        if \<not> VerifyWebhookSignature hmac secret body (wr_signature req)
        then h_bind (recordAlert (wr_alert_ok req) ''warning'' ''webhook'' ''razorpay_webhook''
                 ''payment webhook rejected: invalid signature'' [(''client_ip'', wr_client req)]) (\<lambda>_.
               h_respond (RespErr 401 ''invalid signature''))
        else (case parse body of
           None \<Rightarrow> h_respond (RespErr 400 ''invalid payload'')
         | Some j \<Rightarrow> (case razorpayWebhookEnvelope j of
              Inl _ \<Rightarrow> h_respond (RespErr 400 ''invalid payload'')
            | Inr env \<Rightarrow>
               if env_event env = [] then h_respond (RespErr 400 ''invalid payload'')
               else (case event_id iter (wr_event_id req) env of
                 None \<Rightarrow> h_respond (RespErr 400 ''invalid payload'')
               | Some ev \<Rightarrow>
                  h_bind (h_catch (TryRecord_http (wr_record_ok req) ev (env_event env) j)
                    (record_failed req (env_event env) ev)) (\<lambda>isNew.
                  if \<not> isNew then h_return (Resp 200 JNull)
                  else
                    h_bind (h_catch (EnqueueRazorpayWebhook (wr_enqueue_ok req)
                              \<lparr>job_event = env_event env, job_body = body\<rparr>)
                      (enqueue_failed req (env_event env) ev)) (\<lambda>_.
                    h_return (Resp 200 JNull)))))))"

section \<open>What a delivery does\<close>

text \<open>The event id and the job of a delivery that passes verification and parsing.\<close>

definition delivery ::
  "(string \<Rightarrow> string \<Rightarrow> string) \<Rightarrow> string \<Rightarrow> (string \<Rightarrow> json option) \<Rightarrow>
   ((string \<times> json) list \<Rightarrow> (string \<times> json) list) \<Rightarrow> webhook_request \<Rightarrow> (string \<times> json \<times> webhook_job) option" where
  "delivery hmac secret parse iter req = (case wr_body req of None \<Rightarrow> None | Some body \<Rightarrow>
     if \<not> VerifyWebhookSignature hmac secret body (wr_signature req) then None
     else (case parse body of None \<Rightarrow> None | Some j \<Rightarrow>
       (case razorpayWebhookEnvelope j of Inl _ \<Rightarrow> None | Inr env \<Rightarrow>
          if env_event env = [] then None
          else (case event_id iter (wr_event_id req) env of None \<Rightarrow> None
            | Some ev \<Rightarrow> Some (ev, j, \<lparr>job_event = env_event env, job_body = body\<rparr>)))))"

definition event_ids :: "web \<Rightarrow> string set" where
  "event_ids w = we_event_id ` set (webhook_events (web_db w))"

lemma TryRecord_run:
  "run_tx (WebhookEventRepo_TryRecord ev ty b) d =
     (if ev \<in> we_event_id ` set (webhook_events d) then (Inr False, d)
      else (Inr True, d\<lparr>next_id := Suc (next_id d), webhook_events := webhook_events d @
        [\<lparr>we_id = next_id d, we_event_id = ev, we_type = ty, we_payload = jsonb b, we_processed = None,
          we_created = clock d\<rparr>]\<rparr>))"
  by (auto simp: run_tx_def WebhookEventRepo_TryRecord_def tab_insert_run image_iff)

text \<open>The alert of a request whose signature does not verify.\<close>

definition forged_alert :: "webhook_request \<Rightarrow> web \<Rightarrow> system_alert list" where
  "forged_alert req w = (if wr_alert_ok req then [\<lparr>al_org = None, al_severity = ''warning'',
     al_category = ''webhook'', al_source = ''razorpay_webhook'',
     al_message = ''payment webhook rejected: invalid signature'',
     al_details = [(''client_ip'', wr_client req)], al_created = clock (web_db w)\<rparr>] else [])"

lemma recordAlert_run:
  "\<exists>al. recordAlert ok sv cat src msg ds w = (Inr (), w\<lparr>web_alerts := web_alerts w @ al\<rparr>) \<and> length al \<le> 1"
proof -
  have Record: "\<exists>al. snd (AlertRepo_Record ok a w) = w\<lparr>web_alerts := web_alerts w @ al\<rparr> \<and> length al \<le> 1" for a
    unfolding AlertRepo_Record_def Let_def if_distrib[of snd] snd_conv
    by (rule if_split[THEN iffD2], intro conjI impI) (rule exI[of _ "[]"], simp, rule exI, rule conjI, rule refl, simp)
  show ?thesis unfolding recordAlert_def using Record by blast
qed

lemma alert_then_respond:
  "\<exists>al. h_bind (recordAlert ok sv cat src msg ds) (\<lambda>_. h_respond r) w =
     (Inl r, w\<lparr>web_alerts := web_alerts w @ al\<rparr>) \<and> length al \<le> 1"
proof -
  obtain al where "recordAlert ok sv cat src msg ds w = (Inr (), w\<lparr>web_alerts := web_alerts w @ al\<rparr>)" "length al \<le> 1"
    using recordAlert_run by blast
  then show ?thesis by (auto simp: h_bind_def h_respond_def)
qed

lemma record_failed_run:
  "\<exists>al. record_failed req e ev w = (Inl (RespErr 500 ''failed to record webhook event''),
     w\<lparr>web_alerts := web_alerts w @ al\<rparr>) \<and> length al \<le> 1"
  unfolding record_failed_def by (rule alert_then_respond)

lemma enqueue_failed_run:
  "\<exists>al. enqueue_failed req e ev w = (Inl (RespErr 500 ''failed to enqueue''),
     w\<lparr>web_alerts := web_alerts w @ al\<rparr>) \<and> length al \<le> 1"
  unfolding enqueue_failed_def by (rule alert_then_respond)

lemma forged_run:
  "recordAlert (wr_alert_ok req) ''warning'' ''webhook'' ''razorpay_webhook''
     ''payment webhook rejected: invalid signature'' [(''client_ip'', wr_client req)] w =
   (Inr (), w\<lparr>web_alerts := web_alerts w @ forged_alert req w\<rparr>)"
  by (cases "wr_alert_ok req") (simp_all add: recordAlert_def AlertRepo_Record_def forged_alert_def)

lemma RazorpayWebhook_rejects:
  assumes "delivery hmac secret parse iter req = None"
  shows "(\<exists>msg. RazorpayWebhook hmac secret parse iter req w = (Inl (RespErr 400 msg), w)) \<or>
    (\<exists>body msg. wr_body req = Some body \<and> \<not> VerifyWebhookSignature hmac secret body (wr_signature req) \<and>
       RazorpayWebhook hmac secret parse iter req w =
         (Inl (RespErr 401 msg), w\<lparr>web_alerts := web_alerts w @ forged_alert req w\<rparr>))"
proof -
  have "RazorpayWebhook hmac secret parse iter req = h_respond (RespErr 400 ''invalid request'') \<or>
      RazorpayWebhook hmac secret parse iter req = h_respond (RespErr 400 ''invalid payload'') \<or>
      (\<exists>body. wr_body req = Some body \<and> \<not> VerifyWebhookSignature hmac secret body (wr_signature req) \<and>
       RazorpayWebhook hmac secret parse iter req =
        h_bind (recordAlert (wr_alert_ok req) ''warning'' ''webhook'' ''razorpay_webhook''
           ''payment webhook rejected: invalid signature'' [(''client_ip'', wr_client req)]) (\<lambda>_.
          h_respond (RespErr 401 ''invalid signature'')))"
    using assms unfolding delivery_def RazorpayWebhook_def
    by (auto split: option.splits if_splits sum.splits)
  moreover have "h_respond x w = (Inl x, w)" for x :: response by (simp add: h_respond_def)
  moreover have "h_bind (recordAlert (wr_alert_ok req) ''warning'' ''webhook'' ''razorpay_webhook''
           ''payment webhook rejected: invalid signature'' [(''client_ip'', wr_client req)]) (\<lambda>_.
          h_respond x) w = (Inl x, w\<lparr>web_alerts := web_alerts w @ forged_alert req w\<rparr>)" for x
    unfolding h_bind_def forged_run h_respond_def by simp
  ultimately show ?thesis by metis
qed

lemma RazorpayWebhook_accepts:
  assumes "delivery hmac secret parse iter req = Some (ev, j, job)"
  shows "RazorpayWebhook hmac secret parse iter req = h_bind (h_catch (TryRecord_http (wr_record_ok req) ev (job_event job) j)
      (record_failed req (job_event job) ev)) (\<lambda>isNew.
    if \<not> isNew then h_return (Resp 200 JNull)
    else
      h_bind (h_catch (EnqueueRazorpayWebhook (wr_enqueue_ok req) job)
        (enqueue_failed req (job_event job) ev)) (\<lambda>_.
      h_return (Resp 200 JNull)))"
  using assms unfolding delivery_def RazorpayWebhook_def
  by (auto split: option.splits if_splits sum.splits cong: if_cong)

lemma RazorpayWebhook_cases:
  assumes run: "run_handler (RazorpayWebhook hmac secret parse iter req) w = (r, w')"
  obtains (malformed) "delivery hmac secret parse iter req = None" "w' = w" "http_status r = 400"
    | (forged) body where "delivery hmac secret parse iter req = None" "wr_body req = Some body"
      "\<not> VerifyWebhookSignature hmac secret body (wr_signature req)"
      "w' = w\<lparr>web_alerts := web_alerts w @ forged_alert req w\<rparr>" "http_status r = 401"
    | (failed) al where "delivery hmac secret parse iter req \<noteq> None" "\<not> wr_record_ok req"
      "w' = w\<lparr>web_alerts := web_alerts w @ al\<rparr>" "length al \<le> 1" "http_status r = 500"
    | (seen) ev j job where "delivery hmac secret parse iter req = Some (ev, j, job)" "ev \<in> event_ids w"
      "w' = w" "http_status r = 200"
    | (fresh) ev j job al where "delivery hmac secret parse iter req = Some (ev, j, job)" "ev \<notin> event_ids w"
      "web_db w' = (web_db w)\<lparr>next_id := Suc (next_id (web_db w)), webhook_events := webhook_events (web_db w) @
        [\<lparr>we_id = next_id (web_db w), we_event_id = ev, we_type = job_event job, we_payload = jsonb j,
          we_processed = None, we_created = clock (web_db w)\<rparr>]\<rparr>"
      "web_queue w' = web_queue w @ (if wr_enqueue_ok req then [job] else [])"
      "http_status r = (if wr_enqueue_ok req then 200 else 500)"
      "web_alerts w' = web_alerts w @ al" "length al \<le> 1"
proof (cases "delivery hmac secret parse iter req")
  case None
  then show ?thesis
    using RazorpayWebhook_rejects[OF None, of w] run malformed forged by (fastforce simp: run_handler_def)
next
  case (Some t)
  then obtain ev j job where d: "delivery hmac secret parse iter req = Some (ev, j, job)" by (cases t) auto
  note acc = RazorpayWebhook_accepts[OF d]
  show ?thesis
  proof (cases "wr_record_ok req")
    case False
    obtain al where al: "record_failed req (job_event job) ev w = (Inl (RespErr 500 ''failed to record webhook event''),
       w\<lparr>web_alerts := web_alerts w @ al\<rparr>)" "length al \<le> 1"
      using record_failed_run by blast
    then have "w' = w\<lparr>web_alerts := web_alerts w @ al\<rparr>" "http_status r = 500"
      using run False by (auto simp: run_handler_def acc TryRecord_http_def h_catch_def h_bind_def al(1))
    then show ?thesis using failed d False al(2) by blast
  next
    case True
    show ?thesis
    proof (cases "ev \<in> event_ids w")
      case old: True
      have "w' = w" "http_status r = 200"
        using run True old by (auto simp: run_handler_def acc TryRecord_http_def h_catch_def h_bind_def
            TryRecord_run event_ids_def h_return_def)
      then show ?thesis using seen d old by blast
    next
      case new: False
      let ?d = "(web_db w)\<lparr>next_id := Suc (next_id (web_db w)), webhook_events := webhook_events (web_db w) @
        [\<lparr>we_id = next_id (web_db w), we_event_id = ev, we_type = job_event job, we_payload = jsonb j,
          we_processed = None, we_created = clock (web_db w)\<rparr>]\<rparr>"
      let ?w = "w\<lparr>web_db := ?d\<rparr>"
      obtain al where al: "enqueue_failed req (job_event job) ev ?w = (Inl (RespErr 500 ''failed to enqueue''),
         ?w\<lparr>web_alerts := web_alerts ?w @ al\<rparr>)" "length al \<le> 1"
        using enqueue_failed_run by blast
      have rec: "TryRecord_http True ev (job_event job) j w = (Inr True, ?w)"
        using new by (simp add: TryRecord_http_def TryRecord_run event_ids_def)
      have "RazorpayWebhook hmac secret parse iter req w = (if wr_enqueue_ok req
          then (Inr (Resp 200 JNull), ?w\<lparr>web_queue := web_queue w @ [job]\<rparr>)
          else (Inl (RespErr 500 ''failed to enqueue''), ?w\<lparr>web_alerts := web_alerts w @ al\<rparr>))"
        using al(1) by (simp add: acc True h_catch_def h_bind_def rec EnqueueRazorpayWebhook_def h_return_def)
      then have "w' = (if wr_enqueue_ok req then ?w\<lparr>web_queue := web_queue w @ [job]\<rparr>
            else ?w\<lparr>web_alerts := web_alerts w @ al\<rparr>)" "http_status r = (if wr_enqueue_ok req then 200 else 500)"
        using run by (auto simp: run_handler_def split: if_splits)
      then show ?thesis
        using fresh[OF d new, of "if wr_enqueue_ok req then [] else al"] al(2) by simp
    qed
  qed
qed

section \<open>Only verified deliveries reach the queue\<close>

text \<open>
  C8: the handler queues at most one job, only for a body whose signature it has verified, and
  the job carries that body unchanged. Of the tables it writes only webhook_events, where it
  adds rows, and system_alerts, where it adds at most one row. A request it turns away with 400
  changes nothing at all; one it turns away with 401 had a body whose signature does not verify,
  and adds exactly the warning that says so (unless that best-effort insert fails) and nothing
  else.
\<close>

theorem webhook_only_verified:
  assumes "run_handler (RazorpayWebhook hmac secret parse iter req) w = (r, w')"
  shows "(web_queue w' = web_queue w \<or> (\<exists>body job. wr_body req = Some body \<and>
       VerifyWebhookSignature hmac secret body (wr_signature req) \<and> job_body job = body \<and>
       web_queue w' = web_queue w @ [job])) \<and>
     (\<exists>n ws. web_db w' = (web_db w)\<lparr>next_id := n, webhook_events := webhook_events (web_db w) @ ws\<rparr>) \<and>
     (\<exists>al. web_alerts w' = web_alerts w @ al \<and> length al \<le> 1) \<and>
     (http_status r = 400 \<longrightarrow> w' = w) \<and>
     (http_status r = 401 \<longrightarrow>
        (\<exists>body. wr_body req = Some body \<and> \<not> VerifyWebhookSignature hmac secret body (wr_signature req)) \<and>
        w' = w\<lparr>web_alerts := web_alerts w @ (if wr_alert_ok req then [\<lparr>al_org = None, al_severity = ''warning'',
          al_category = ''webhook'', al_source = ''razorpay_webhook'',
          al_message = ''payment webhook rejected: invalid signature'',
          al_details = [(''client_ip'', wr_client req)], al_created = clock (web_db w)\<rparr>] else [])\<rparr>)"
proof -
  have same: "\<exists>n ws. web_db w = (web_db w)\<lparr>next_id := n, webhook_events := webhook_events (web_db w) @ ws\<rparr>"
    by (rule exI[of _ "next_id (web_db w)"], rule exI[of _ "[]"]) simp
  show ?thesis
  proof (cases rule: RazorpayWebhook_cases[OF assms, case_names malformed forged failed seen fresh])
    case (forged body)
    then show ?thesis using same by (auto simp: forged_alert_def)
  next
    case (fresh ev j job al)
    then have "\<exists>body. wr_body req = Some body \<and> VerifyWebhookSignature hmac secret body (wr_signature req) \<and>
        job_body job = body"
      by (auto simp: delivery_def split: option.splits if_splits sum.splits)
    then show ?thesis using fresh(3-7) by (cases "wr_enqueue_ok req") auto
  qed (use same in auto)
qed

text \<open>A sequence of deliveries, and the event ids of those that were queued.\<close>

fun deliver_all ::
  "(string \<Rightarrow> string \<Rightarrow> string) \<Rightarrow> string \<Rightarrow> (string \<Rightarrow> json option) \<Rightarrow>
   ((string \<times> json) list \<Rightarrow> (string \<times> json) list) \<Rightarrow> webhook_request list \<Rightarrow> web \<Rightarrow> string list \<times> web" where
  "deliver_all hmac secret parse iter [] w = ([], w)"
| "deliver_all hmac secret parse iter (req # reqs) w =
     (let w' = snd (run_handler (RazorpayWebhook hmac secret parse iter req) w);
          (ks, w'') = deliver_all hmac secret parse iter reqs w'
      in ((if web_queue w' = web_queue w then [] else
             (case delivery hmac secret parse iter req of None \<Rightarrow> [] | Some (ev, _, _) \<Rightarrow> [ev])) @ ks, w''))"

text \<open>
  C9: over any sequence of deliveries, however often and in whatever order the provider retries,
  each event id is queued at most once, never when it was recorded before, and the queue grows
  by exactly the queued deliveries.
\<close>

theorem webhook_at_most_once:
  assumes "deliver_all hmac secret parse iter reqs w = (ks, w')"
  shows "distinct ks \<and> set ks \<inter> event_ids w = {} \<and> set ks \<subseteq> event_ids w' \<and> event_ids w \<subseteq> event_ids w' \<and>
     length (web_queue w') = length (web_queue w) + length ks"
  using assms
proof (induction reqs arbitrary: w ks)
  case Nil
  then show ?case by simp
next
  case (Cons req reqs)
  obtain r w1 where run: "run_handler (RazorpayWebhook hmac secret parse iter req) w = (r, w1)" by force
  obtain ks1 where rest: "deliver_all hmac secret parse iter reqs w1 = (ks1, w')"
    using Cons.prems by (auto simp: run Let_def split: prod.splits)
  note IH = Cons.IH[OF rest]
  show ?case
  proof (cases rule: RazorpayWebhook_cases[OF run, case_names malformed forged failed seen fresh])
    case (fresh ev j job al)
    have ids: "event_ids w1 = insert ev (event_ids w)" using fresh(3) by (simp add: event_ids_def)
    have ks: "ks = (if wr_enqueue_ok req then [ev] else []) @ ks1"
      using Cons.prems rest fresh by (auto simp: run)
    show ?thesis using IH ids fresh(2,4) unfolding ks by auto
  qed (use Cons.prems rest IH run in \<open>auto simp: event_ids_def\<close>)
qed

section \<open>The fallback event id\<close>

text \<open>Without the event-id header the id is built from whichever entity the walk over the
  payload map meets first, so a delivery with two entities has no stable id.\<close>

definition two_entities :: envelope where
  "two_entities = \<lparr>env_event = ''refund.processed'', env_created = 1,
     env_payload = [(''payment'', JObj [(''entity'', JObj [(''id'', JStr ''pay_1'')])]),
                    (''refund'', JObj [(''entity'', JObj [(''id'', JStr ''rfnd_1'')])])]\<rparr>"

lemma fallback_id_unstable:
  "event_id (\<lambda>m. m) [] two_entities = Some ''refund.processed:pay_1:1'' \<and>
   event_id rev [] two_entities = Some ''refund.processed:rfnd_1:1''"
  by code_simp

end
