(* ===== verification/CommerceSystem.thy ===== *)
theory CommerceSystem
  imports Reports WebhookHttp
begin

text \<open>
  The commerce side of the program as one transition system: webhook deliveries, runs of queued
  jobs in any order and any number of times, the two periodic sweeps, checkout, refunds, grants and
  the shop requests, interleaved at the granularity of their transactions, with the clock moving
  forward and the course catalogue edited by the rest of the program. \<open>sys_captured\<close> is a history
  variable: the provider order ids of the \<^verbatim>\<open>payment.captured\<close> deliveries whose signature was
  verified. The invariant of a reachable state is \<open>commerce_ok\<close> for that history.
\<close>

record sys =
  sys_web :: web
  sys_captured :: "string set"

definition sys_db :: "sys \<Rightarrow> db" where
  "sys_db \<sigma> = web_db (sys_web \<sigma>)"

definition with_db :: "sys \<Rightarrow> db \<Rightarrow> sys" where
  "with_db \<sigma> d = \<sigma>\<lparr>sys_web := (sys_web \<sigma>)\<lparr>web_db := d\<rparr>\<rparr>"

definition verified_captures ::
  "(string \<Rightarrow> string \<Rightarrow> string) \<Rightarrow> string \<Rightarrow> (string \<Rightarrow> json option) \<Rightarrow>
   ((string \<times> json) list \<Rightarrow> (string \<times> json) list) \<Rightarrow> webhook_request \<Rightarrow> string set" where
  "verified_captures hmac secret parse iter req = (case delivery hmac secret parse iter req of
     None \<Rightarrow> {} | Some (_, _, job) \<Rightarrow> set_option (captured_order_id parse job))"

inductive commerce_step ::
  "(string \<Rightarrow> string \<Rightarrow> string) \<Rightarrow> string \<Rightarrow> (string \<Rightarrow> json option) \<Rightarrow> numeric_column \<Rightarrow> sys \<Rightarrow> sys \<Rightarrow> bool"
  for hmac secret parse num where
  deliver: "commerce_step hmac secret parse num \<sigma>
    (\<sigma>\<lparr>sys_web := snd (run_handler (RazorpayWebhook hmac secret parse iter req) (sys_web \<sigma>)),
       sys_captured := sys_captured \<sigma> \<union> verified_captures hmac secret parse iter req\<rparr>)"
| job: "j \<in> set (web_queue (sys_web \<sigma>)) \<Longrightarrow> set q \<subseteq> set (web_queue (sys_web \<sigma>)) \<Longrightarrow>
    commerce_step hmac secret parse num \<sigma> (\<sigma>\<lparr>sys_web := (sys_web \<sigma>)
      \<lparr>web_db := snd (handle parse mail_ok j (sys_db \<sigma>)), web_queue := q\<rparr>\<rparr>)"
| order_sweep: "commerce_step hmac secret parse num \<sigma> (with_db \<sigma> (snd (sweepAbandonedOrders (sys_db \<sigma>))))"
| expiry_sweep: "commerce_step hmac secret parse num \<sigma> (with_db \<sigma> (snd (sweepExpiredEntitlements (sys_db \<sigma>))))"
| checkout: "commerce_step hmac secret parse num \<sigma>
    (with_db \<sigma> (snd (WithRequestTx (CreateOrder create key_id course ac offer_id body) (sys_db \<sigma>))))"
| start_refund: "commerce_step hmac secret parse num \<sigma>
    (with_db \<sigma> (snd (WithRequestTx (RefundOrder create' org ac order_id reason) (sys_db \<sigma>))))"
| grant: "commerce_step hmac secret parse num \<sigma>
    (with_db \<sigma> (snd (WithRequestTx (GrantAccess course ac grant_req) (sys_db \<sigma>))))"
| shop: "commerce_step hmac secret parse num \<sigma>
    (with_db \<sigma> (snd (WithRequestTx (shop_handler num r) (sys_db \<sigma>))))"
| tick: "clock (sys_db \<sigma>) \<le> t \<Longrightarrow> commerce_step hmac secret parse num \<sigma> (with_db \<sigma> ((sys_db \<sigma>)\<lparr>clock := t\<rparr>))"
| catalogue: "commerce_step hmac secret parse num \<sigma> (with_db \<sigma> ((sys_db \<sigma>)\<lparr>courses := cs\<rparr>))"

inductive_cases commerce_stepE: "commerce_step hmac secret parse num \<sigma> \<sigma>'"

text \<open>Any installation before its first sale.\<close>

definition commerce_init :: "sys \<Rightarrow> bool" where
  "commerce_init \<sigma> \<longleftrightarrow> sys_captured \<sigma> = {} \<and> web_queue (sys_web \<sigma>) = [] \<and>
     orders (sys_db \<sigma>) = [] \<and> offers (sys_db \<sigma>) = [] \<and> payments (sys_db \<sigma>) = [] \<and> refunds (sys_db \<sigma>) = [] \<and>
     entitlements (sys_db \<sigma>) = [] \<and> accesses (sys_db \<sigma>) = [] \<and> discount_codes (sys_db \<sigma>) = [] \<and>
     webhook_events (sys_db \<sigma>) = []"

inductive commerce_reachable ::
  "(string \<Rightarrow> string \<Rightarrow> string) \<Rightarrow> string \<Rightarrow> (string \<Rightarrow> json option) \<Rightarrow> numeric_column \<Rightarrow> sys \<Rightarrow> bool"
  for hmac secret parse num where
  init: "commerce_init \<sigma> \<Longrightarrow> commerce_reachable hmac secret parse num \<sigma>"
| step: "commerce_reachable hmac secret parse num \<sigma> \<Longrightarrow> commerce_step hmac secret parse num \<sigma> \<sigma>' \<Longrightarrow>
    commerce_reachable hmac secret parse num \<sigma>'"

section \<open>The invariant\<close>

definition queue_ok :: "(string \<Rightarrow> json option) \<Rightarrow> sys \<Rightarrow> bool" where
  "queue_ok parse \<sigma> \<longleftrightarrow> (\<forall>j \<in> set (web_queue (sys_web \<sigma>)). set_option (captured_order_id parse j) \<subseteq> sys_captured \<sigma>)"

definition sys_ok :: "(string \<Rightarrow> json option) \<Rightarrow> sys \<Rightarrow> bool" where
  "sys_ok parse \<sigma> \<longleftrightarrow> commerce_ok (sys_captured \<sigma>) {} {} (sys_db \<sigma>) \<and> queue_ok parse \<sigma>"

lemma sys_ok_with_db: "sys_ok parse \<sigma> \<Longrightarrow> commerce_ok (sys_captured \<sigma>) {} {} d \<Longrightarrow> sys_ok parse (with_db \<sigma> d)"
  by (simp add: sys_ok_def queue_ok_def with_db_def sys_db_def)

lemma request_ok:
  assumes "h_triple I m (\<lambda>_. I) (below_500 I)" "I s"
  shows "I (snd (WithRequestTx m s))"
  using WithRequestTx_triple[of I m s] assms by simp

lemma deliver_ok:
  assumes ok: "sys_ok parse \<sigma>"
  shows "sys_ok parse (\<sigma>\<lparr>sys_web := snd (run_handler (RazorpayWebhook hmac secret parse iter req) (sys_web \<sigma>)),
     sys_captured := sys_captured \<sigma> \<union> verified_captures hmac secret parse iter req\<rparr>)"
proof -
  let ?V = "sys_captured \<sigma> \<union> verified_captures hmac secret parse iter req"
  obtain r w' where run: "run_handler (RazorpayWebhook hmac secret parse iter req) (sys_web \<sigma>) = (r, w')" by force
  have V: "commerce_ok ?V {} {} (sys_db \<sigma>)"
    using ok commerce_ok_weaken[of "sys_captured \<sigma>" "{}" "{}" "sys_db \<sigma>" "{}" "{}" ?V] by (simp add: sys_ok_def)
  have q: "\<forall>j \<in> set (web_queue (sys_web \<sigma>)). set_option (captured_order_id parse j) \<subseteq> ?V"
    using ok by (auto simp: sys_ok_def queue_ok_def)
  have "commerce_ok ?V {} {} (web_db w') \<and>
      (\<forall>j \<in> set (web_queue w'). set_option (captured_order_id parse j) \<subseteq> ?V)"
  proof (rule RazorpayWebhook_cases[OF run])
    fix ev j job and al :: "system_alert list"
    assume d: "delivery hmac secret parse iter req = Some (ev, j, job)" "ev \<notin> event_ids (sys_web \<sigma>)"
      and db: "web_db w' = (web_db (sys_web \<sigma>))\<lparr>next_id := Suc (next_id (web_db (sys_web \<sigma>))),
        webhook_events := webhook_events (web_db (sys_web \<sigma>)) @
        [\<lparr>we_id = next_id (web_db (sys_web \<sigma>)), we_event_id = ev, we_type = job_event job, we_payload = jsonb j,
          we_processed = None, we_created = clock (web_db (sys_web \<sigma>))\<rparr>]\<rparr>"
      and q': "web_queue w' = web_queue (sys_web \<sigma>) @ (if wr_enqueue_ok req then [job] else [])"
    have "commerce_ok ?V {} {} (web_db w')"
      unfolding db using webhooks_append_ok V d(2) by (auto simp: sys_db_def event_ids_def)
    then show ?thesis using q d(1) unfolding q' by (auto simp: verified_captures_def)
  qed (use V q in \<open>auto simp: sys_db_def\<close>)
  then show ?thesis using run by (simp add: sys_ok_def queue_ok_def sys_db_def)
qed

lemma commerce_step_ok: "commerce_step hmac secret parse num \<sigma> \<sigma>' \<Longrightarrow> sys_ok parse \<sigma> \<Longrightarrow> sys_ok parse \<sigma>'"
proof (induction rule: commerce_step.induct)
  case (deliver \<sigma> iter req)
  then show ?case by (rule deliver_ok)
next
  case (job j \<sigma> q mail_ok)
  have "commerce_ok (sys_captured \<sigma>) {} {} (snd (handle parse mail_ok j (sys_db \<sigma>)))"
    using job by (intro h_presD[OF handle_ok]) (auto simp: sys_ok_def queue_ok_def)
  then show ?case using job by (auto simp: sys_ok_def queue_ok_def sys_db_def)
next
  case (order_sweep \<sigma>)
  then show ?case by (intro sys_ok_with_db h_presD[OF sweepAbandonedOrders_ok]) (simp_all add: sys_ok_def)
next
  case (expiry_sweep \<sigma>)
  then show ?case by (intro sys_ok_with_db h_presD[OF sweepExpiredEntitlements_ok]) (simp_all add: sys_ok_def)
next
  case (checkout \<sigma> create key_id course ac offer_id body)
  then show ?case by (intro sys_ok_with_db request_ok[OF CreateOrder_ok]) (simp_all add: sys_ok_def)
next
  case (start_refund \<sigma> create' org ac order_id reason)
  then show ?case by (intro sys_ok_with_db WithRequestTx_pres[OF RefundOrder_ok]) (simp_all add: sys_ok_def)
next
  case (grant \<sigma> course ac grant_req)
  then show ?case by (intro sys_ok_with_db request_ok[OF GrantAccess_ok]) (simp_all add: sys_ok_def)
next
  case (shop \<sigma> r)
  then show ?case by (intro sys_ok_with_db WithRequestTx_pres[OF shop_handler_ok]) (simp_all add: sys_ok_def)
next
  case (tick \<sigma> t)
  have "commerce_ok (sys_captured \<sigma>) {} {} ((sys_db \<sigma>)\<lparr>clock := t\<rparr>)"
    by (rule same_commerce_ok[of "sys_db \<sigma>" "(sys_db \<sigma>)\<lparr>clock := t\<rparr>"]) (use tick in \<open>simp_all add: sys_ok_def same_commerce_def\<close>)
  then show ?case by (rule sys_ok_with_db[OF tick(2)])
next
  case (catalogue \<sigma> cs)
  have "commerce_ok (sys_captured \<sigma>) {} {} ((sys_db \<sigma>)\<lparr>courses := cs\<rparr>)"
    by (rule same_commerce_ok[of "sys_db \<sigma>" "(sys_db \<sigma>)\<lparr>courses := cs\<rparr>"]) (use catalogue in \<open>simp_all add: sys_ok_def same_commerce_def\<close>)
  then show ?case by (rule sys_ok_with_db[OF catalogue])
qed

lemma commerce_init_ok: "commerce_init \<sigma> \<Longrightarrow> sys_ok parse \<sigma>"
  by (auto simp: commerce_init_def sys_ok_def queue_ok_def commerce_ok_def inv_defs)

lemma reachable_ok: "commerce_reachable hmac secret parse num \<sigma> \<Longrightarrow> commerce_ok (sys_captured \<sigma>) {} {} (sys_db \<sigma>)"
proof -
  assume "commerce_reachable hmac secret parse num \<sigma>"
  then have "sys_ok parse \<sigma>" by induction (auto intro: commerce_init_ok commerce_step_ok)
  then show ?thesis by (simp add: sys_ok_def)
qed

section \<open>What holds of every reachable state\<close>

text \<open>
  C1: access is granted only by a verified payment. In every state the commerce side can reach,
  by any interleaving of deliveries, job runs, sweeps and requests, an entitlement that belongs
  to an order belongs to an order of a free offer or to one whose provider order id was named by
  a payment.captured delivery with a verified signature.
\<close>

theorem access_needs_verified_payment:
  assumes "commerce_reachable hmac secret parse num \<sigma>"
    and "e \<in> set (entitlements (sys_db \<sigma>))" "ent_order e = Some i"
  shows "\<exists>x \<in> set (orders (sys_db \<sigma>)). ord_id x = i \<and>
     ((\<exists>f \<in> set (offers (sys_db \<sigma>)). of_id f = ord_offer x \<and> of_type f = Free) \<or>
      (\<exists>r \<in> sys_captured \<sigma>. ord_rzp x = Some r))"
  using reachable_ok[OF assms(1)] assms(2,3)
  unfolding commerce_ok_def grants_ok_def free_order_def paid_order_def by blast

text \<open>
  C2: in every reachable state, an active access row that rests on an entitlement rests on an
  existing, active entitlement of the same learner to the same course, so refunds, lost disputes
  and expiry never leave access open on a closed entitlement.
\<close>

theorem active_access_is_backed:
  assumes "commerce_reachable hmac secret parse num \<sigma>"
    and "a \<in> set (accesses (sys_db \<sigma>))" "acc_status a = AccActive" "acc_entitlement a = Some i"
  shows "\<exists>e \<in> set (entitlements (sys_db \<sigma>)). ent_id e = i \<and> ent_status e = EntActive \<and>
     ent_learner e = acc_learner a \<and> ent_course e = acc_course a"
  using reachable_ok[OF assms(1)] assms(2-4)
  unfolding commerce_ok_def pointers_ok_def access_sound_except_def by fastforce

text \<open>
  C3: in every reachable state, every order recorded as succeeded has an entitlement, whatever
  the interleaving of duplicate deliveries, failures, refunds and sweeps. A capture whose
  analytics event the server refuses records neither: it is rolled back as a whole, so the buyer
  has paid and the order stays as it was.
\<close>

theorem paid_orders_deliver:
  assumes "commerce_reachable hmac secret parse num \<sigma>"
    and "x \<in> set (orders (sys_db \<sigma>))" "ord_status x = OrdSucceeded"
  shows "\<exists>e \<in> set (entitlements (sys_db \<sigma>)). ent_order e = Some (ord_id x)"
  using reachable_ok[OF assms(1)] assms(2,3)
  unfolding commerce_ok_def succeeded_granted_except_def by blast

text \<open>
  C4: in every reachable state, no discount code has been redeemed more often than its cap,
  whatever mixture of free checkouts and captured payments redeemed it.
\<close>

theorem codes_never_overredeemed:
  assumes "commerce_reachable hmac secret parse num \<sigma>"
    and "c \<in> set (discount_codes (sys_db \<sigma>))" "dc_max c = Some m" "0 \<le> m"
  shows "dc_count c \<le> m"
  using reachable_ok[OF assms(1)] assms(2-4) unfolding commerce_ok_def caps_ok_def by blast

end
