(* ===== verification/CommerceDemo.thy ===== *)
theory CommerceDemo
  imports CommerceSystem
begin

text \<open>
  Concrete inputs for the commerce properties: a small shop with a free and a paid offer and an
  order waiting for its payment, the same shop after the capture, and the deliveries between
  them. Each theorem here applies a property at these inputs, where its hypotheses hold.
\<close>

section \<open>A shop\<close>

definition demo_course :: course where
  "demo_course = \<lparr>c_id = 1, c_org = 7, c_title = ''Go'', c_description = [], c_cover = None, c_category = None,
     c_status = CPublished, c_publish_date = None, c_created_by = 8, c_created = 0, c_updated = 0,
     c_published_at = None, c_archived_at = None\<rparr>"

definition demo_offer :: offer where
  "demo_offer = \<lparr>of_id = 2, of_org = 7, of_course = 1, of_type = Subscription, of_price = cents 49900,
     of_currency = INR, of_tax_rate = 18, of_access_days = Some 30, of_max_seats = None, of_starts = None,
     of_ends = None, of_status = OfferActive, of_created_by = 8, of_created = 0, of_updated = 0\<rparr>"

definition demo_order :: order where
  "demo_order = \<lparr>ord_id = 3, ord_org = 7, ord_offer = 2, ord_learner = 9, ord_currency = INR,
     ord_subtotal = cents 49900, ord_discount = 0, ord_tax = cents 8982, ord_commission = cents 4990,
     ord_total = cents 58882, ord_rate = 10, ord_status = OrdPaymentInitiated, ord_rzp = Some ''order_A'',
     ord_code = None, ord_created = 0, ord_updated = 0\<rparr>"

definition demo_db :: db where
  "demo_db = \<lparr>next_id = 20, clock = 1000, courses = [demo_course], offers = [demo_offer], discount_codes = [],
     invite_tokens = [], orders = [demo_order], payments = [], refunds = [], chargebacks = [], entitlements = [],
     accesses = [], webhook_events = [], audit_trail = [], audit_log = [], analytics = [],
     commission_percent = Some 10, receipts = []\<rparr>"

definition demo_payment :: payment where
  "demo_payment = \<lparr>pay_id = 4, pay_org = 7, pay_order = 3, pay_rzp = Some ''pay_A'', pay_status = PaySucceeded,
     pay_raw = None, pay_created = 0, pay_updated = 0\<rparr>"

definition demo_entitlement :: entitlement where
  "demo_entitlement = \<lparr>ent_id = 5, ent_org = 7, ent_order = Some 3, ent_learner = 9, ent_course = 1,
     ent_status = EntActive, ent_expires = Some 500, ent_granted_by = None, ent_reason = None,
     ent_created = 0, ent_updated = 0\<rparr>"

definition demo_access :: course_access where
  "demo_access = \<lparr>acc_id = 6, acc_org = 7, acc_learner = 9, acc_course = 1, acc_entitlement = Some 5,
     acc_enrolled = 0, acc_status = AccActive\<rparr>"

text \<open>The shop after the capture.\<close>

definition demo_paid :: db where
  "demo_paid = demo_db\<lparr>orders := [demo_order\<lparr>ord_status := OrdSucceeded\<rparr>], payments := [demo_payment],
     entitlements := [demo_entitlement], accesses := [demo_access]\<rparr>"

lemmas demo_defs = demo_course_def demo_offer_def demo_order_def demo_db_def demo_payment_def
  demo_entitlement_def demo_access_def demo_paid_def

lemma demo_db_ok: "commerce_ok V {} {} demo_db"
  by (simp add: commerce_ok_def inv_defs demo_defs)

lemma demo_paid_ok: "commerce_ok {''order_A''} {} {} demo_paid"
  by (simp add: commerce_ok_def inv_defs demo_defs)

section \<open>Deliveries\<close>

definition demo_json :: json where
  "demo_json = JObj [(''event'', JStr ''payment.captured''), (''created_at'', JInt 1),
     (''payload'', JObj [(''payment'', JObj [(''entity'', JObj [(''id'', JStr ''pay_A''),
        (''order_id'', JStr ''order_A''), (''amount'', JInt 58882)])])])]"

definition demo_parse :: "string \<Rightarrow> json option" where
  "demo_parse body = (if body = ''B'' then Some demo_json else None)"

definition demo_job :: webhook_job where
  "demo_job = \<lparr>job_event = ''payment.captured'', job_body = ''B''\<rparr>"

definition demo_entity :: payment_entity where
  "demo_entity = \<lparr>pe_id = ''pay_A'', pe_order_id = ''order_A'', pe_amount = 58882\<rparr>"

definition demo_refund :: refund_entity where
  "demo_refund = \<lparr>re_id = ''rf_A'', re_payment_id = ''pay_A'', re_amount = 58882\<rparr>"

lemmas decode_defs = razorpayPaymentEntity_def extractEntity_def json_members_def dec_string_def dec_int64_def dec_map_def dec_raw_def map_get_def key_eq_def lower_char_def

lemma demo_body: "razorpayWebhookBody demo_json = Inr [(''payment'', JObj [(''entity'', JObj [(''id'', JStr ''pay_A''),
        (''order_id'', JStr ''order_A''), (''amount'', JInt 58882)])])]"
  by (simp add: razorpayWebhookBody_def demo_json_def decode_defs)

definition demo_payload :: webhook_body where
  "demo_payload = [(''payment'', JObj [(''entity'', JObj [(''id'', JStr ''pay_A''),
     (''order_id'', JStr ''order_A''), (''amount'', JInt 58882)])])]"

definition demo_refund_payload :: webhook_body where
  "demo_refund_payload = [(''refund'', JObj [(''entity'', JObj [(''id'', JStr ''rf_A''),
     (''payment_id'', JStr ''pay_A''), (''amount'', JInt 58882)])])]"

theorem capture_stands_with_its_event_witness:
  "handlePaymentCaptured \<lparr>je_queue = True, je_event = False\<rparr> demo_payload demo_db = (Inl ErrStorage, demo_db) \<and>
   (\<exists>rc s'. handlePaymentCaptured \<lparr>je_queue = True, je_event = True\<rparr> demo_payload demo_db = (Inr (), s') \<and>
      receipts s' = [rc] \<and> rc_total rc = cents 58882)"
proof -
  have body: "\<exists>raw. extractEntity demo_payload ''payment'' = Some raw \<and> razorpayPaymentEntity raw = Inr demo_entity"
    by (simp add: demo_payload_def demo_entity_def decode_defs)
  then obtain raw where raw: "extractEntity demo_payload ''payment'' = Some raw" "razorpayPaymentEntity raw = Inr demo_entity"
    by blast
  note run = capture_stands_with_its_event[OF demo_db_ok raw, of demo_order demo_offer demo_course]
  show ?thesis
    using run[of "\<lparr>je_queue = True, je_event = False\<rparr>"] run[of "\<lparr>je_queue = True, je_event = True\<rparr>"]
    by (auto simp: demo_defs demo_entity_def)
qed


theorem late_failure_keeps_access_witness:
  "\<exists>s'. payment_failed_tx demo_entity JNull demo_paid = Inr ((), s') \<and> entitlements s' = [demo_entitlement]"
  using late_failure_keeps_access[OF demo_paid_ok, of demo_entity "demo_order\<lparr>ord_status := OrdSucceeded\<rparr>" JNull]
  by (auto simp: demo_defs demo_entity_def)

lemma demo_capture_runs: "\<exists>s1. handlePaymentCaptured \<lparr>je_queue = True, je_event = False\<rparr> [(''payment'', JObj [(''entity'', JObj [(''id'', JStr ''pay_A''),
        (''order_id'', JStr ''order_A''), (''amount'', JInt 58882)])])] demo_paid = (Inr (), s1)"
  by (simp add: handlePaymentCaptured_def decode_defs run_tx_def h_bind_def payment_captured_tx_def
      OrderRepo_GetByRazorpayOrderID_def tab_select1_def tx_bind_def h_return_def demo_defs)

theorem capture_idempotent_witness:
  "\<exists>body s1. handlePaymentCaptured \<lparr>je_queue = True, je_event = False\<rparr> body demo_paid = (Inr (), s1) \<and>
     handlePaymentCaptured \<lparr>je_queue = False, je_event = False\<rparr> body s1 = (Inr (), s1)"
  using demo_capture_runs capture_idempotent by blast

theorem order_sweep_exact_witness:
  "orders (snd (sweepAbandonedOrders (demo_db\<lparr>clock := 10 ^ 15\<rparr>))) = [abandon (10 ^ 15) demo_order]"
  using order_sweep_exact[of "{}" "demo_db\<lparr>clock := 10 ^ 15\<rparr>", OF _ prod.collapse[symmetric]]
  by (simp add: commerce_ok_def inv_defs demo_defs stale_order_def staleOrderCutoff_def)

theorem expiry_sweep_exact_witness:
  "accesses (snd (sweepExpiredEntitlements demo_paid)) = [demo_access\<lparr>acc_status := AccExpired\<rparr>]"
  using expiry_sweep_exact[OF demo_paid_ok prod.collapse[symmetric]]
  by (simp add: demo_defs expires_before_def)

lemma demo_event_run:
  assumes "s = demo_paid\<lparr>webhook_events := [\<lparr>we_id = 11, we_event_id = ''evt'', we_type = ''payment.captured'',
     we_payload = jsonb demo_json, we_processed = None, we_created = 0\<rparr>]\<rparr>"
  shows "\<exists>s1. handle demo_parse \<lparr>je_queue = True, je_event = False\<rparr> demo_job s = (Inr (), s1)"
  by (simp add: assms handle_def demo_parse_def demo_job_def demo_body WebhookEventRepo_GetByPayload_def run_tx_def
      h_bind_def h_return_def dispatch_event_def handlePaymentCaptured_def payment_captured_tx_def
      WebhookEventRepo_MarkProcessed_def OrderRepo_GetByRazorpayOrderID_def tab_select1_def tx_bind_def tx_found_def
      tab_update_now_def tab_update_def tab_latest_def demo_defs decode_defs)

theorem job_exactly_once_witness:
  "\<exists>s s1. webhook_events s \<noteq> [] \<and>
     handle demo_parse \<lparr>je_queue = True, je_event = False\<rparr> demo_job s = (Inr (), s1) \<and>
     handle demo_parse \<lparr>je_queue = True, je_event = True\<rparr> demo_job (s1\<lparr>orders := [], clock := 99\<rparr>) =
       (Inr (), s1\<lparr>orders := [], clock := 99\<rparr>)"
proof -
  let ?s = "demo_paid\<lparr>webhook_events := [\<lparr>we_id = 11, we_event_id = ''evt'', we_type = ''payment.captured'',
     we_payload = jsonb demo_json, we_processed = None, we_created = 0\<rparr>]\<rparr>"
  obtain s1 where s1: "handle demo_parse \<lparr>je_queue = True, je_event = False\<rparr> demo_job ?s = (Inr (), s1)"
    using demo_event_run by blast
  have "handle demo_parse \<lparr>je_queue = True, je_event = True\<rparr> demo_job (s1\<lparr>orders := [], clock := 99\<rparr>) =
      (Inr (), s1\<lparr>orders := [], clock := 99\<rparr>)"
    by (rule job_exactly_once[OF s1, where j = demo_json]) (simp_all add: demo_parse_def demo_job_def)
  then show ?thesis using s1 by (intro exI[of _ ?s] exI[of _ s1]) simp
qed

definition demo_web :: web where
  "demo_web = \<lparr>web_db = demo_db, web_queue = [], web_alerts = []\<rparr>"

definition demo_request :: webhook_request where
  "demo_request = \<lparr>wr_body = Some ''B'', wr_signature = ''B'', wr_event_id = ''evt'', wr_client = ''::1'',
     wr_record_ok = True, wr_enqueue_ok = True, wr_alert_ok = True, wr_error = []\<rparr>"

theorem webhook_only_verified_witness:
  "\<exists>n ws. web_db (snd (run_handler (RazorpayWebhook (\<lambda>_ p. p) ''k'' demo_parse id demo_request) demo_web)) =
     demo_db\<lparr>next_id := n, webhook_events := ws\<rparr>"
  using webhook_only_verified[of "\<lambda>_ p. p" "''k''" demo_parse id demo_request demo_web, OF prod.collapse[symmetric]]
  by (auto simp: demo_web_def)

theorem webhook_at_most_once_witness:
  "length (web_queue (snd (deliver_all (\<lambda>_ p. p) ''k'' demo_parse id [demo_request, demo_request] demo_web))) =
     length (fst (deliver_all (\<lambda>_ p. p) ''k'' demo_parse id [demo_request, demo_request] demo_web))"
  using webhook_at_most_once[of "\<lambda>_ p. p" "''k''" demo_parse id "[demo_request, demo_request]" demo_web,
      OF prod.collapse[symmetric]]
  by (simp add: demo_web_def)

section \<open>Checkout\<close>

definition demo_ac :: auth_ctx where
  "demo_ac = \<lparr>ac_user = 9, ac_email = ''l@x'', ac_ip = [], ac_agent = []\<rparr>"

definition demo_checkout :: createOrderRequest where
  "demo_checkout = \<lparr>co_discount_code = None, co_invite_token = None, co_price = NoNumber, co_amount = NoNumber,
     co_subtotal = NoNumber, co_discount_amount = NoNumber, co_tax_amount = NoNumber, co_total = NoNumber,
     co_currency = []\<rparr>"

lemma demo_checkout_200:
  "http_status (fst (WithRequestTx (CreateOrder (\<lambda>_ _ _. Some ''order_B'') ''key'' demo_course demo_ac 2 (Some demo_checkout))
     demo_db)) = 200"
  by (simp add: CreateOrder_def WithRequestTx_def run_handler_def h_bind_def h_tx_def h_with_def h_guard_def h_return_def
      rejectForbiddenMoneyFields_def forbidden_number_def demo_checkout_def OfferRepo_Get_def tab_select1_def
      resolveInviteTokenForCheckout_def cohortWindowError_def lookupValidDiscountCode_def PlatformSettingsRepo_Get_def
      OrderRepo_Create_def tab_insert_run paid_checkout_def OrderRepo_AttachRazorpayOrder_def tab_update_now_def
      tab_update_def mark_invite_def new_order_def Let_def demo_defs)

theorem order_priced_from_offer_witness:
  "\<exists>o'. orders (snd (WithRequestTx (CreateOrder (\<lambda>_ _ _. Some ''order_B'') ''key'' demo_course demo_ac 2 (Some demo_checkout))
     demo_db)) = [demo_order, o'] \<and> ord_learner o' = 9"
  using order_priced_from_offer[OF demo_db_ok prod.collapse[symmetric] demo_checkout_200]
  by (auto simp: demo_defs demo_ac_def)

theorem paid_checkout_never_grants_witness:
  "entitlements (snd (WithRequestTx (CreateOrder (\<lambda>_ _ _. Some ''order_B'') ''key'' demo_course demo_ac 2 (Some demo_checkout))
     demo_db)) = []"
  using paid_checkout_never_grants[of 2 demo_db demo_offer, OF _ _ prod.collapse[symmetric]]
  by (simp add: demo_defs)

theorem provider_failure_keeps_nothing_witness:
  "snd (WithRequestTx (CreateOrder (\<lambda>_ _ _. None) ''key'' demo_course demo_ac 2 (Some demo_checkout)) demo_db) = demo_db"
  using provider_failure_keeps_nothing[of 2 demo_db demo_offer "\<lambda>_ _ _. None", OF _ _ _ prod.collapse[symmetric]]
  by (simp add: demo_defs)

lemma demo_refund_201:
  "http_status (fst (WithRequestTx (RefundOrder (\<lambda>_ _. Some ''rf_A'') 7 demo_ac 3 (Some None)) demo_paid)) = 201"
  by (simp add: RefundOrder_def WithRequestTx_def run_handler_def h_bind_def h_tx_def h_guard_def h_return_def
      OrderRepo_Get_def tab_select1_def PaymentRepo_GetByOrderID_def tab_latest_def RefundRepo_GetByPaymentID_def
      RefundRepo_Create_def tab_insert_run PaymentAuditRepo_Record_def h_ignore_def AuditRepo_Record_def demo_defs)

theorem refund_not_repeated_witness:
  "let s' = snd (WithRequestTx (RefundOrder (\<lambda>_ _. Some ''rf_A'') 7 demo_ac 3 (Some None)) demo_paid) in
     snd (WithRequestTx (RefundOrder (\<lambda>_ _. Some ''rf_B'') 7 demo_ac 3 (Some (Some ''again''))) s') = s'"
  using refund_not_repeated[OF prod.collapse[symmetric] demo_refund_201 prod.collapse[symmetric]]
  by (simp add: Let_def)

theorem price_preview_correct_witness:
  "let p = computePricePreview demo_offer None in SubtotalMinor p = 49900 \<and> TaxMinor p \<le> 49900 - DiscountMinor p"
  using price_preview_correct[of demo_offer 49900 None] by (simp add: demo_offer_def Let_def)

theorem commission_bounds_witness:
  "commissionMinor \<lparr>SubtotalMinor = 49900, DiscountMinor = 0, TaxMinor = 0, TotalMinor = 49900\<rparr> 10 \<le> 49900"
  using commission_bounds[of "\<lparr>SubtotalMinor = 49900, DiscountMinor = 0, TaxMinor = 0, TotalMinor = 49900\<rparr>" 10] by simp

section \<open>Offers and reports\<close>

text \<open>A numeric column that rounds half away from zero.\<close>

definition demo_numeric :: numeric_column where
  "demo_numeric p v = (let n = go_round (v * 100) in if \<bar>n\<bar> < 10 ^ p then Some (cents n) else None)"

lemma go_round_cents: "\<bar>m\<bar> \<le> 10 ^ 12 \<Longrightarrow> go_round (cents m * 100) = m"
proof (rule go_round_near)
  assume m: "\<bar>m\<bar> \<le> 10 ^ 12"
  have "\<bar>cents m - of_int m / 100\<bar> \<le> \<bar>of_int m / 100 :: rat\<bar> / 2 ^ 53" unfolding cents_def by (rule fl_error)
  also have "\<dots> \<le> 10 ^ 12 / 100 / 2 ^ 53"
    using m of_int_le_iff[of "\<bar>m\<bar>" "10 ^ 12", where 'a = rat] by (simp add: abs_divide)
  also have "\<dots> < (1 / 1000 :: rat)" by simp
  finally show "\<bar>of_int m - cents m * 100\<bar> < 1 / 2" by linarith
qed

lemma demo_is_numeric: "is_numeric demo_numeric"
  unfolding is_numeric_def
proof (intro allI impI)
  fix p v w assume "demo_numeric p v = Some w"
  then have w: "w = cents (go_round (v * 100))" "\<bar>go_round (v * 100)\<bar> < 10 ^ p"
    by (auto simp: demo_numeric_def Let_def split: if_splits)
  have "(v \<le> cents m \<longrightarrow> go_round (v * 100) \<le> m) \<and> (cents m \<le> v \<longrightarrow> m \<le> go_round (v * 100))"
    if "\<bar>m\<bar> \<le> 10 ^ 12" for m
    using go_round_cents[OF that] go_round_mono[of "v * 100" "cents m * 100"] go_round_mono[of "cents m * 100" "v * 100"]
    by auto
  then show "\<exists>n. w = cents n \<and> \<bar>n\<bar> < 10 ^ p \<and>
      (\<forall>m. \<bar>m\<bar> \<le> 10 ^ 12 \<longrightarrow> (v \<le> cents m \<longrightarrow> n \<le> m) \<and> (cents m \<le> v \<longrightarrow> m \<le> n))"
    using w by blast
qed

definition demo_free_offer :: offerRequest where
  "demo_free_offer = \<lparr>or_type = ''free'', or_price = 0, or_currency = ''INR'', or_tax = 0, or_days = None,
     or_seats = None, or_starts = None, or_ends = None\<rparr>"

theorem stored_offers_valid_witness:
  "shop_ok (snd (WithRequestTx (shop_handler demo_numeric (ShopCreate demo_course demo_ac (Some demo_free_offer))) demo_db))"
proof (rule stored_offers_valid[OF demo_is_numeric _ demo_db_ok])
  show "shop_ok demo_db"
    by (auto simp: shop_ok_def price_ok_def timing_ok_def demo_db_def demo_offer_def intro!: exI[of _ 49900])
qed

definition demo_owner :: viewer where
  "demo_owner = \<lparr>vw_user = 8, vw_orgs = [7], vw_role = ''owner'', vw_platform = False\<rparr>"

theorem revenue_report_exact_witness:
  "rows_in_org demo_paid \<and>
   (\<exists>rep. RevenueReport demo_owner 7 (Time 0) NoTime [] None demo_paid = (Inr rep, demo_paid) \<and>
      map_option (OrderCount \<circ> Totals) (rr_currencies rep INR) = Some 1) \<and>
   (\<exists>rep. RevenueReport (demo_owner\<lparr>vw_orgs := [], vw_platform := True\<rparr>) 7 (Time 0) NoTime [] None demo_paid =
        (Inr rep, demo_paid) \<and> rr_currencies rep = Map.empty)"
proof (intro conjI)
  show rows: "rows_in_org demo_paid" by (simp add: rows_in_org_def demo_defs)
  have [simp]: "vw_role demo_owner = ''owner''" "vw_orgs demo_owner = [7]" by (simp_all add: demo_owner_def)
  show "\<exists>rep. RevenueReport demo_owner 7 (Time 0) NoTime [] None demo_paid = (Inr rep, demo_paid) \<and>
      map_option (OrderCount \<circ> Totals) (rr_currencies rep INR) = Some 1"
    using revenue_report_exact[of "Time 0" NoTime demo_owner 7 "[]" None demo_paid] rows
    by (auto simp: demo_defs bucket_of_def counted_def offer_of_def filtered_out_def sum_row_def add_order_def
        Let_def empty_row_def)
  show "\<exists>rep. RevenueReport (demo_owner\<lparr>vw_orgs := [], vw_platform := True\<rparr>) 7 (Time 0) NoTime [] None demo_paid =
        (Inr rep, demo_paid) \<and> rr_currencies rep = Map.empty"
    using revenue_report_exact[of "Time 0" NoTime "demo_owner\<lparr>vw_orgs := [], vw_platform := True\<rparr>" 7 "[]" None demo_paid] rows
    by auto
qed

section \<open>A reachable sale\<close>

definition demo_sys0 :: sys where
  "demo_sys0 = \<lparr>sys_web = \<lparr>web_db = demo_db\<lparr>offers := [], orders := []\<rparr>, web_queue = [], web_alerts = []\<rparr>,
     sys_captured = {}\<rparr>"

definition demo_code :: discountCodeRequest where
  "demo_code = \<lparr>dr_code = ''C'', dr_type = ''fixed'', dr_value = 1, dr_expires = None, dr_max = Some 5\<rparr>"

definition demo_sys1 :: sys where
  "demo_sys1 = with_db demo_sys0 (snd (WithRequestTx
     (shop_handler (\<lambda>_. Some) (ShopCreate demo_course demo_ac (Some demo_free_offer))) (sys_db demo_sys0)))"

definition demo_sys2 :: sys where
  "demo_sys2 = with_db demo_sys1 (snd (WithRequestTx
     (shop_handler (\<lambda>_. Some) (ShopCreateCode demo_course demo_ac 20 (Some demo_code))) (sys_db demo_sys1)))"

definition demo_sys3 :: sys where
  "demo_sys3 = with_db demo_sys2 (snd (WithRequestTx
     (CreateOrder (\<lambda>_ _ _. None) [] demo_course demo_ac 20 (Some (demo_checkout\<lparr>co_discount_code := Some ''C''\<rparr>)))
     (sys_db demo_sys2)))"

lemma demo_reachable: "commerce_reachable (\<lambda>_ p. p) ''k'' demo_parse (\<lambda>_. Some) demo_sys3"
proof -
  have "commerce_init demo_sys0" by (simp add: commerce_init_def demo_sys0_def sys_db_def demo_db_def)
  then have "commerce_reachable (\<lambda>_ p. p) ''k'' demo_parse (\<lambda>_. Some) demo_sys0" by (rule commerce_reachable.init)
  then have "commerce_reachable (\<lambda>_ p. p) ''k'' demo_parse (\<lambda>_. Some) demo_sys1"
    unfolding demo_sys1_def by (rule commerce_reachable.step) (rule commerce_step.shop)
  then have "commerce_reachable (\<lambda>_ p. p) ''k'' demo_parse (\<lambda>_. Some) demo_sys2"
    unfolding demo_sys2_def by (rule commerce_reachable.step) (rule commerce_step.shop)
  then show ?thesis unfolding demo_sys3_def by (rule commerce_reachable.step) (rule commerce_step.checkout)
qed

lemmas run_simps = WithRequestTx_def run_handler_def h_bind_def h_tx_def h_with_def h_guard_def h_return_def h_respond_def
  h_ignore_def Let_def tab_insert_run tab_select1_def tab_update_now_def tab_update_def AuditRepo_Record_def

lemma demo_db1: "sys_db demo_sys1 = (demo_db\<lparr>offers := [], orders := []\<rparr>)\<lparr>next_id := 21,
    audit_log := [offer_audit demo_course demo_ac ''offer.create'' ''offer'' 20],
    offers := [\<lparr>of_id = 20, of_org = 7, of_course = 1, of_type = Free, of_price = 0, of_currency = INR,
      of_tax_rate = 0, of_access_days = None, of_max_seats = None, of_starts = None, of_ends = None,
      of_status = OfferActive, of_created_by = 9, of_created = 1000, of_updated = 1000\<rparr>]\<rparr>"
  by (simp add: demo_sys1_def demo_sys0_def sys_db_def with_db_def run_simps CreateOffer_def OfferRepo_Create_def
      demo_free_offer_def validateOfferTypeFields_def offer_columns_def parse_offer_type_def parse_currency_def int4_def
      demo_ac_def demo_course_def demo_db_def)

lemma demo_db2: "sys_db demo_sys2 = (sys_db demo_sys1)\<lparr>next_id := 22,
    audit_log := audit_log (sys_db demo_sys1) @ [offer_audit demo_course demo_ac ''discount.create'' ''discount_code'' 21],
    discount_codes := [\<lparr>dc_id = 21, dc_org = 7, dc_offer = 20, dc_code = ''C'', dc_type = DiscountFixed, dc_value = 1,
      dc_expires = None, dc_max = Some 5, dc_count = 0, dc_created_by = 9, dc_created = 1000\<rparr>]\<rparr>"
  unfolding demo_sys2_def
  by (simp add: sys_db_def[symmetric] demo_db1 with_db_def run_simps CreateDiscountCode_def)
     (simp add: sys_db_def with_db_def run_simps CreateDiscountCode_def DiscountCodeRepo_Create_def demo_code_def
      validateDiscountRequest_def offerInCourse_def OfferRepo_Get_def int4_def demo_ac_def demo_course_def demo_db_def)

lemma demo_sale:
  "map ent_order (entitlements (sys_db demo_sys3)) = [Some 22]"
  "map (\<lambda>a. (acc_status a, acc_entitlement a)) (accesses (sys_db demo_sys3)) = [(AccActive, Some 23)]"
  "map (\<lambda>x. (ord_id x, ord_status x)) (orders (sys_db demo_sys3)) = [(22, OrdSucceeded)]"
  "map (\<lambda>c. (dc_max c, dc_count c)) (discount_codes (sys_db demo_sys3)) = [(Some 5, 1)]"
proof -
  define d where "d = snd (WithRequestTx (CreateOrder (\<lambda>_ _ _. None) [] demo_course demo_ac 20
     (Some (demo_checkout\<lparr>co_discount_code := Some ''C''\<rparr>))) (sys_db demo_sys2))"
  have d: "sys_db demo_sys3 = d" by (simp add: demo_sys3_def d_def sys_db_def with_db_def)
  note go = run_simps CreateOrder_def rejectForbiddenMoneyFields_def forbidden_number_def demo_checkout_def OfferRepo_Get_def
      resolveInviteTokenForCheckout_def cohortWindowError_def lookupValidDiscountCode_def PlatformSettingsRepo_Get_def
      DiscountCodeRepo_GetByCode_def DiscountCodeRepo_IncrementRedemption_def below_cap_def
      OrderRepo_Create_def free_checkout_def mark_invite_def new_order_def OrderRepo_UpdateStatus_def
      EntitlementRepo_Create_def grant_course_access_def LearnerCourseAccessRepo_Get_def LearnerCourseAccessRepo_Create_def
      tx_bind_def tx_found_def demo_ac_def demo_course_def demo_db_def demo_db1 demo_db2
  show "map ent_order (entitlements (sys_db demo_sys3)) = [Some 22]"
    unfolding d d_def by (simp add: go)
  show "map (\<lambda>a. (acc_status a, acc_entitlement a)) (accesses (sys_db demo_sys3)) = [(AccActive, Some 23)]"
    unfolding d d_def by (simp add: go)
  show "map (\<lambda>x. (ord_id x, ord_status x)) (orders (sys_db demo_sys3)) = [(22, OrdSucceeded)]"
    unfolding d d_def by (simp add: go)
  show "map (\<lambda>c. (dc_max c, dc_count c)) (discount_codes (sys_db demo_sys3)) = [(Some 5, 1)]"
    unfolding d d_def by (simp add: go)
qed

theorem access_needs_verified_payment_witness:
  "\<exists>e \<in> set (entitlements (sys_db demo_sys3)). \<exists>x \<in> set (orders (sys_db demo_sys3)). ent_order e = Some (ord_id x)"
proof -
  obtain e where e: "e \<in> set (entitlements (sys_db demo_sys3))" "ent_order e = Some 22"
    using demo_sale(1) by (cases "entitlements (sys_db demo_sys3)") auto
  show ?thesis using access_needs_verified_payment[OF demo_reachable e] e by force
qed

theorem active_access_is_backed_witness:
  "\<exists>e \<in> set (entitlements (sys_db demo_sys3)). ent_id e = 23 \<and> ent_status e = EntActive"
proof -
  obtain a where a: "a \<in> set (accesses (sys_db demo_sys3))" "acc_status a = AccActive" "acc_entitlement a = Some 23"
    using demo_sale(2) by (cases "accesses (sys_db demo_sys3)") auto
  show ?thesis using active_access_is_backed[OF demo_reachable a] by blast
qed

theorem paid_orders_deliver_witness:
  "\<exists>e \<in> set (entitlements (sys_db demo_sys3)). ent_order e = Some 22"
proof -
  obtain x where x: "x \<in> set (orders (sys_db demo_sys3))" "ord_status x = OrdSucceeded" "ord_id x = 22"
    using demo_sale(3) by (cases "orders (sys_db demo_sys3)") auto
  show ?thesis using paid_orders_deliver[OF demo_reachable x(1,2)] x(3) by simp
qed

theorem codes_never_overredeemed_witness:
  "\<exists>c \<in> set (discount_codes (sys_db demo_sys3)). dc_count c = 1 \<and> dc_count c \<le> 5"
proof -
  obtain c where c: "c \<in> set (discount_codes (sys_db demo_sys3))" "dc_max c = Some 5" "dc_count c = 1"
    using demo_sale(4) by (cases "discount_codes (sys_db demo_sys3)") auto
  show ?thesis using codes_never_overredeemed[OF demo_reachable c(1,2)] c by auto
qed

end
