(* ===== verification/AuthorSchema.thy ===== *)
theory AuthorSchema
  imports RazorpayJson Http
begin

text \<open>
  The tenancy and course-authoring tables (migrations \<^verbatim>\<open>000002\<close>, \<^verbatim>\<open>000003\<close>,
  \<^verbatim>\<open>000016\<close>, \<^verbatim>\<open>000017\<close>) with their row-level security. A transaction carries the
  caller stamped on it by \<^verbatim>\<open>dbctx.Begin\<close>; the policies decide what a statement sees and
  changes, and do not apply to the worker's administrative connection, which carries no caller.
  Foreign keys, as PostgreSQL documents, are checked and cascaded without regard to the policies.
  A statement that fails aborts its transaction: \<open>a_aborted\<close> remembers it, every later statement
  fails, and the commit is a rollback.
\<close>

section \<open>Rows\<close>

datatype role = Owner | Teacher | Moderator | Learner

datatype invitation_status = InvPending | InvAccepted | InvDeclined

record org =
  og_id :: uuid
  og_slug :: string
  og_name :: string
  og_created_by :: uuid
  og_deactivated :: "time option"
  og_reason :: "string option"
  og_plan :: "uuid option"
  og_created :: time
  og_updated :: time

record membership =
  mb_id :: uuid
  mb_user :: uuid
  mb_org :: uuid
  mb_role :: role
  mb_joined :: time

record profile =
  pf_id :: uuid
  pf_email :: string
  pf_name :: "string option"
  pf_platform_owner :: bool
  pf_suspended :: "time option"
  pf_reason :: "string option"
  pf_updated :: time

record invitation =
  iv_id :: uuid
  iv_org :: uuid
  iv_email :: string
  iv_role :: role
  iv_by :: uuid
  iv_status :: invitation_status
  iv_token :: string
  iv_created :: time
  iv_expires :: time

record plan =
  pl_id :: uuid
  pl_code :: string
  pl_name :: string
  pl_max_courses :: "int option"
  pl_max_published :: "int option"
  pl_max_members :: "int option"
  pl_max_storage :: "int option"
  pl_max_tokens :: "int option"
  pl_default :: bool

record ai_usage =
  au_org :: uuid
  au_period :: "int \<times> int"
  au_input :: int
  au_output :: int

datatype block_type = TextBlock | ImageBlock | VideoBlock | FileBlock | QuizBlock | AssignmentBlock

datatype processing_status = ProcPending | ProcProcessing | ProcReady | ProcFailed

record chapter_row =
  ch_id :: uuid
  ch_course :: uuid
  ch_org :: uuid
  ch_title :: string
  ch_sort :: rat
  ch_created_by :: uuid
  ch_updated :: time

record lesson =
  ls_id :: uuid
  ls_chapter :: uuid
  ls_course :: uuid
  ls_org :: uuid
  ls_title :: string
  ls_sort :: rat
  ls_created_by :: uuid
  ls_updated :: time
  ls_watch :: "int option"

record block =
  bk_id :: uuid
  bk_lesson :: uuid
  bk_course :: uuid
  bk_org :: uuid
  bk_type :: block_type
  bk_content :: json
  bk_sort :: rat
  bk_created_by :: uuid
  bk_updated :: time

record asset =
  as_id :: uuid
  as_org :: uuid
  as_course :: uuid
  as_size :: "int option"
  as_status :: processing_status
  as_url :: "string option"
  as_url_expires :: "time option"

record snapshot_block =
  sb_type :: block_type
  sb_content :: json
  sb_sort :: rat

record snapshot_lesson =
  sl_title :: string
  sl_sort :: rat
  sl_blocks :: "snapshot_block list"

record snapshot_chapter =
  sc_title :: string
  sc_sort :: rat
  sc_lessons :: "snapshot_lesson list"

record course_snapshot =
  cs_title :: string
  cs_description :: string
  cs_chapters :: "snapshot_chapter list"

record course_version =
  cv_id :: uuid
  cv_course :: uuid
  cv_org :: uuid
  cv_number :: int
  cv_snapshot :: course_snapshot
  cv_created_by :: uuid
  cv_created :: time

section \<open>The database of one transaction\<close>

record adb =
  a_session :: "uuid option"
  a_aborted :: bool
  a_next :: uuid
  a_clock :: time
  a_orgs :: "org list"
  a_members :: "membership list"
  a_profiles :: "profile list"
  a_invites :: "invitation list"
  a_plans :: "plan list"
  a_usage :: "ai_usage list"
  a_courses :: "course list"
  a_chapters :: "chapter_row list"
  a_lessons :: "lesson list"
  a_blocks :: "block list"
  a_assets :: "asset list"
  a_versions :: "course_version list"
  a_audit :: "audit_event list"

abbreviation put_orgs :: "org list \<Rightarrow> adb \<Rightarrow> adb" where "put_orgs xs s \<equiv> s\<lparr>a_orgs := xs\<rparr>"
abbreviation put_members :: "membership list \<Rightarrow> adb \<Rightarrow> adb" where "put_members xs s \<equiv> s\<lparr>a_members := xs\<rparr>"
abbreviation put_profiles :: "profile list \<Rightarrow> adb \<Rightarrow> adb" where "put_profiles xs s \<equiv> s\<lparr>a_profiles := xs\<rparr>"
abbreviation put_invites :: "invitation list \<Rightarrow> adb \<Rightarrow> adb" where "put_invites xs s \<equiv> s\<lparr>a_invites := xs\<rparr>"
abbreviation put_acourses :: "course list \<Rightarrow> adb \<Rightarrow> adb" where "put_acourses xs s \<equiv> s\<lparr>a_courses := xs\<rparr>"
abbreviation put_chapters :: "chapter_row list \<Rightarrow> adb \<Rightarrow> adb" where "put_chapters xs s \<equiv> s\<lparr>a_chapters := xs\<rparr>"
abbreviation put_lessons :: "lesson list \<Rightarrow> adb \<Rightarrow> adb" where "put_lessons xs s \<equiv> s\<lparr>a_lessons := xs\<rparr>"
abbreviation put_blocks :: "block list \<Rightarrow> adb \<Rightarrow> adb" where "put_blocks xs s \<equiv> s\<lparr>a_blocks := xs\<rparr>"
abbreviation put_assets :: "asset list \<Rightarrow> adb \<Rightarrow> adb" where "put_assets xs s \<equiv> s\<lparr>a_assets := xs\<rparr>"
abbreviation put_versions :: "course_version list \<Rightarrow> adb \<Rightarrow> adb" where "put_versions xs s \<equiv> s\<lparr>a_versions := xs\<rparr>"

section \<open>Row-level security\<close>

definition is_org_member :: "adb \<Rightarrow> uuid \<Rightarrow> uuid \<Rightarrow> bool" where
  "is_org_member s u o' \<longleftrightarrow> (\<exists>m \<in> set (a_members s). mb_user m = u \<and> mb_org m = o')"

definition is_org_owner :: "adb \<Rightarrow> uuid \<Rightarrow> uuid \<Rightarrow> bool" where
  "is_org_owner s u o' \<longleftrightarrow> (\<exists>m \<in> set (a_members s). mb_user m = u \<and> mb_org m = o' \<and> mb_role m = Owner)"

definition app_is_platform_owner :: "adb \<Rightarrow> bool" where
  "app_is_platform_owner s = (case a_session s of None \<Rightarrow> False
     | Some u \<Rightarrow> (case find (\<lambda>p. pf_id p = u) (a_profiles s) of None \<Rightarrow> False | Some p \<Rightarrow> pf_platform_owner p))"

text \<open>What the policies built on \<^verbatim>\<open>is_org_member\<close> and \<^verbatim>\<open>is_org_owner\<close> admit.\<close>

definition sees :: "adb \<Rightarrow> uuid \<Rightarrow> bool" where
  "sees s o' = (case a_session s of None \<Rightarrow> True | Some u \<Rightarrow> is_org_member s u o')"

definition owns :: "adb \<Rightarrow> uuid \<Rightarrow> bool" where
  "owns s o' = (case a_session s of None \<Rightarrow> True | Some u \<Rightarrow> is_org_owner s u o')"

lemma owns_sees: "owns s o' \<Longrightarrow> sees s o'"
  by (auto simp: owns_def sees_def is_org_owner_def is_org_member_def split: option.splits)

text \<open>Statements on a table whose policies are \<^verbatim>\<open>is_org_member(org_id)\<close>.\<close>

definition a_rows :: "(adb \<Rightarrow> 'a list) \<Rightarrow> ('a \<Rightarrow> uuid) \<Rightarrow> ('a \<Rightarrow> bool) \<Rightarrow> adb \<Rightarrow> 'a list" where
  "a_rows get org_of P s = filter (\<lambda>r. sees s (org_of r) \<and> P r) (get s)"

definition a_select :: "(adb \<Rightarrow> 'a list) \<Rightarrow> ('a \<Rightarrow> uuid) \<Rightarrow> ('a \<Rightarrow> bool) \<Rightarrow> (adb, 'a) tx" where
  "a_select get org_of P = (\<lambda>s. tab_select1 (a_rows get org_of P) (\<lambda>_. True) s)"

definition a_insert ::
  "(adb \<Rightarrow> 'a list) \<Rightarrow> ('a list \<Rightarrow> adb \<Rightarrow> adb) \<Rightarrow> ('a \<Rightarrow> uuid) \<Rightarrow> (uuid \<Rightarrow> time \<Rightarrow> 'a) \<Rightarrow> (adb, 'a) tx" where
  "a_insert get put org_of mk = (\<lambda>s. let r = mk (a_next s) (a_clock s) in
     if sees s (org_of r) then Inr (r, put (get s @ [r]) (s\<lparr>a_next := Suc (a_next s)\<rparr>)) else Inl ErrStorage)"

definition a_update ::
  "(adb \<Rightarrow> 'a list) \<Rightarrow> ('a list \<Rightarrow> adb \<Rightarrow> adb) \<Rightarrow> ('a \<Rightarrow> uuid) \<Rightarrow> ('a \<Rightarrow> bool) \<Rightarrow> (time \<Rightarrow> 'a \<Rightarrow> 'a) \<Rightarrow> (adb, 'a) tx" where
  "a_update get put org_of P f = (\<lambda>s. tab_update get put (\<lambda>r. sees s (org_of r) \<and> P r) (f (a_clock s)) s)"

text \<open>A handler's statement: an error aborts the transaction unless it only reports that no row
  was found or that children exist.\<close>

definition aborts :: "err \<Rightarrow> bool" where
  "aborts e = (case e of ErrNotFound \<Rightarrow> False | ErrHasChildren n \<Rightarrow> False | _ \<Rightarrow> True)"

definition sql_attempt :: "(adb, 'a) tx \<Rightarrow> (response, adb, err + 'a) hm" where
  "sql_attempt m = (\<lambda>s. case (if a_aborted s then Inl ErrStorage else m s) of
       Inr (x, s') \<Rightarrow> (Inr (Inr x), s')
     | Inl e \<Rightarrow> (Inr (Inl e), s\<lparr>a_aborted := a_aborted s \<or> aborts e\<rparr>))"

definition sql :: "(adb, 'a) tx \<Rightarrow> (err \<Rightarrow> response) \<Rightarrow> (response, adb, 'a) hm" where
  "sql m f = h_bind (sql_attempt m) (\<lambda>r. case r of Inl e \<Rightarrow> h_respond (f e) | Inr x \<Rightarrow> h_return x)"

definition sql_ignore :: "(adb, 'a) tx \<Rightarrow> (response, adb, unit) hm" where
  "sql_ignore m = h_bind (sql_attempt m) (\<lambda>_. h_return ())"

definition internal_error :: "err \<Rightarrow> response" where
  "internal_error e = RespErr 500 ''internal error''"

definition not_found_or_internal :: "string \<Rightarrow> err \<Rightarrow> response" where
  "not_found_or_internal msg e = (if e = ErrNotFound then RespErr 404 msg else internal_error e)"

text \<open>\<^verbatim>\<open>WithRequestTx\<close> for a caller: stamp, run, and commit unless the answer is a server
  error or the transaction was aborted; the answer is sent either way.\<close>

definition serve :: "uuid \<Rightarrow> adb handler \<Rightarrow> adb \<Rightarrow> response \<times> adb" where
  "serve u m s = (let (r, s') = run_handler m (s\<lparr>a_session := Some u, a_aborted := False\<rparr>) in
     if 500 \<le> http_status r \<or> a_aborted s' then (r, s) else (r, s'\<lparr>a_session := None, a_aborted := False\<rparr>))"

section \<open>Tables under the policies\<close>

locale tenant_table =
  fixes get :: "adb \<Rightarrow> 'a list" and put :: "'a list \<Rightarrow> adb \<Rightarrow> adb" and org_of :: "'a \<Rightarrow> uuid" and key :: "'a \<Rightarrow> uuid"
  assumes get_put [simp]: "get (put xs s) = xs"
    and get_next [simp]: "get (s\<lparr>a_next := n\<rparr>) = get s"
    and session_put [simp]: "a_session (put xs s) = a_session s"
    and members_put [simp]: "a_members (put xs s) = a_members s"
begin

lemma select_seen: "a_select get org_of P s = Inr (r, s') \<Longrightarrow> s' = s \<and> r \<in> set (get s) \<and> sees s (org_of r) \<and> P r"
  by (auto simp: a_select_def a_rows_def tab_select1_Inr dest!: find_SomeD)

lemma update_foreign:
  "a_update get put org_of P f s = Inr (r, s') \<Longrightarrow> (\<And>t r. org_of (f t r) = org_of r) \<Longrightarrow> \<not> sees s o' \<Longrightarrow>
    filter (\<lambda>r. org_of r = o') (get s') = filter (\<lambda>r. org_of r = o') (get s)"
proof -
  assume h: "a_update get put org_of P f s = Inr (r, s')" "\<And>t r. org_of (f t r) = org_of r" "\<not> sees s o'"
  have "filter (\<lambda>r. org_of r = o') (map (\<lambda>r. if sees s (org_of r) \<and> P r then f (a_clock s) r else r) xs) =
      filter (\<lambda>r. org_of r = o') xs" for xs
    using h(2,3) by (induction xs) auto
  then show ?thesis using h(1) by (auto simp: a_update_def tab_update_Inr)
qed

lemma insert_foreign:
  "a_insert get put org_of mk s = Inr (r, s') \<Longrightarrow> \<not> sees s o' \<Longrightarrow>
    filter (\<lambda>r. org_of r = o') (get s') = filter (\<lambda>r. org_of r = o') (get s)"
  by (auto simp: a_insert_def Let_def split: if_splits)

lemma insert_Inr:
  "a_insert get put org_of mk s = Inr (r, s') \<longleftrightarrow> r = mk (a_next s) (a_clock s) \<and> sees s (org_of r) \<and>
     s' = put (get s @ [r]) (s\<lparr>a_next := Suc (a_next s)\<rparr>)"
  by (auto simp: a_insert_def Let_def)

end

interpretation chapter_rows: tenant_table a_chapters put_chapters ch_org ch_id by unfold_locales auto
interpretation lesson_rows: tenant_table a_lessons put_lessons ls_org ls_id by unfold_locales auto
interpretation block_rows: tenant_table a_blocks put_blocks bk_org bk_id by unfold_locales auto
interpretation asset_rows: tenant_table a_assets put_assets as_org as_id by unfold_locales auto
interpretation version_rows: tenant_table a_versions put_versions cv_org cv_id by unfold_locales auto
interpretation course_rows: tenant_table a_courses put_acourses c_org c_id by unfold_locales auto

end
