(* ===== verification/AuthorRepos.thy ===== *)
theory AuthorRepos
  imports AuthorSchema
begin

text \<open>
  The repositories of the authoring domain (\<^verbatim>\<open>models/course.go\<close>, \<^verbatim>\<open>chapter.go\<close>,
  \<^verbatim>\<open>lesson.go\<close>, \<^verbatim>\<open>block.go\<close>, \<^verbatim>\<open>asset.go\<close>,
  \<^verbatim>\<open>course_version.go\<close>): one definition per method, a statement at a time. Positions are
  \<^verbatim>\<open>NUMERIC(20,10)\<close> columns read as floats; the conversion of a new float to the column
  is the argument \<open>col\<close> of the handlers that store one.
\<close>

section \<open>Courses (course.go)\<close>

definition CourseRepo_Create :: "uuid \<Rightarrow> uuid \<Rightarrow> string \<Rightarrow> string \<Rightarrow> uuid option \<Rightarrow> (adb, course) tx" where
  "CourseRepo_Create org by title desc cat = a_insert a_courses put_acourses c_org (\<lambda>i t.
     \<lparr>c_id = i, c_org = org, c_title = title, c_description = desc, c_cover = None, c_category = cat,
      c_status = CDraft, c_publish_date = None, c_created_by = by, c_created = t, c_updated = t,
      c_published_at = None, c_archived_at = None\<rparr>)"

text \<open>The read policy of courses admits the platform's owners as well (migration
  \<^verbatim>\<open>000007\<close>); what changes courses goes by membership alone.\<close>

definition sees_course :: "adb \<Rightarrow> course \<Rightarrow> bool" where
  "sees_course s c \<longleftrightarrow> sees s (c_org c) \<or> app_is_platform_owner s"

definition seen_courses :: "(course \<Rightarrow> bool) \<Rightarrow> adb \<Rightarrow> course list" where
  "seen_courses P s = filter (\<lambda>c. sees_course s c \<and> P c) (a_courses s)"

definition ACourseRepo_Get :: "uuid \<Rightarrow> (adb, course) tx" where
  "ACourseRepo_Get i = (\<lambda>s. tab_select1 a_courses (\<lambda>c. sees_course s c \<and> c_id c = i) s)"

lemma get_course_seen:
  "ACourseRepo_Get i s = Inr (c, t) \<Longrightarrow> t = s \<and> c \<in> set (a_courses s) \<and> c_id c = i \<and> sees_course s c"
  by (auto simp: ACourseRepo_Get_def tab_select1_Inr dest!: find_SomeD)

definition CourseRepo_List :: "uuid \<Rightarrow> (adb, course list) tx" where
  "CourseRepo_List org = tx_gets (\<lambda>s. sort_key (\<lambda>r. - c_updated r) (seen_courses (\<lambda>r. c_org r = org) s))"

definition CourseRepo_CountByOrg :: "uuid \<Rightarrow> (adb, int) tx" where
  "CourseRepo_CountByOrg org = tx_gets (\<lambda>s. int (length (seen_courses (\<lambda>r. c_org r = org) s)))"

definition CourseRepo_UpdateMetadata ::
  "uuid \<Rightarrow> string \<Rightarrow> string \<Rightarrow> uuid option \<Rightarrow> string option \<Rightarrow> (adb, course) tx" where
  "CourseRepo_UpdateMetadata i title desc cat cover = a_update a_courses put_acourses c_org (\<lambda>r. c_id r = i)
     (\<lambda>t r. r\<lparr>c_title := title, c_description := desc, c_category := cat, c_cover := cover, c_updated := t\<rparr>)"

definition CourseRepo_SetStatus :: "uuid \<Rightarrow> course_status \<Rightarrow> (adb, course) tx" where
  "CourseRepo_SetStatus i st = a_update a_courses put_acourses c_org (\<lambda>r. c_id r = i)
     (\<lambda>t r. r\<lparr>c_status := st, c_updated := t\<rparr>)"

definition CourseRepo_SetScheduled :: "uuid \<Rightarrow> time \<Rightarrow> (adb, course) tx" where
  "CourseRepo_SetScheduled i d = a_update a_courses put_acourses c_org (\<lambda>r. c_id r = i)
     (\<lambda>t r. r\<lparr>c_status := CScheduled, c_publish_date := Some d, c_updated := t\<rparr>)"

definition CourseRepo_Publish :: "uuid \<Rightarrow> (adb, course) tx" where
  "CourseRepo_Publish i = a_update a_courses put_acourses c_org (\<lambda>r. c_id r = i)
     (\<lambda>t r. r\<lparr>c_status := CPublished, c_published_at := Some t, c_publish_date := None, c_updated := t\<rparr>)"

definition CourseRepo_Archive :: "uuid \<Rightarrow> (adb, course) tx" where
  "CourseRepo_Archive i = a_update a_courses put_acourses c_org (\<lambda>r. c_id r = i)
     (\<lambda>t r. r\<lparr>c_status := CArchived, c_archived_at := Some t, c_updated := t\<rparr>)"

text \<open>\<^verbatim>\<open>ON DELETE CASCADE\<close>: deleting rows deletes the rows that refer to them.\<close>

definition drop_blocks :: "(block \<Rightarrow> bool) \<Rightarrow> adb \<Rightarrow> adb" where
  "drop_blocks P s = s\<lparr>a_blocks := filter (\<lambda>b. \<not> P b) (a_blocks s)\<rparr>"

definition drop_lessons :: "(lesson \<Rightarrow> bool) \<Rightarrow> adb \<Rightarrow> adb" where
  "drop_lessons P s = (drop_blocks (\<lambda>b. \<exists>l \<in> set (a_lessons s). P l \<and> ls_id l = bk_lesson b) s)
     \<lparr>a_lessons := filter (\<lambda>l. \<not> P l) (a_lessons s)\<rparr>"

definition drop_chapters :: "(chapter_row \<Rightarrow> bool) \<Rightarrow> adb \<Rightarrow> adb" where
  "drop_chapters P s = (drop_lessons (\<lambda>l. \<exists>c \<in> set (a_chapters s). P c \<and> ch_id c = ls_chapter l) s)
     \<lparr>a_chapters := filter (\<lambda>c. \<not> P c) (a_chapters s)\<rparr>"

definition drop_courses :: "(course \<Rightarrow> bool) \<Rightarrow> adb \<Rightarrow> adb" where
  "drop_courses P s = (let gone = (\<lambda>i. \<exists>c \<in> set (a_courses s). P c \<and> c_id c = i);
     s1 = drop_chapters (\<lambda>c. gone (ch_course c)) s;
     s2 = drop_lessons (\<lambda>l. gone (ls_course l)) s1;
     s3 = drop_blocks (\<lambda>b. gone (bk_course b)) s2 in
     s3\<lparr>a_courses := filter (\<lambda>c. \<not> P c) (a_courses s3),
        a_assets := filter (\<lambda>a. \<not> gone (as_course a)) (a_assets s3),
        a_versions := filter (\<lambda>v. \<not> gone (cv_course v)) (a_versions s3)\<rparr>)"

text \<open>\<^verbatim>\<open>DELETE ... WHERE\<close> that must affect a row.\<close>

definition a_delete ::
  "(adb \<Rightarrow> 'a list) \<Rightarrow> ('a \<Rightarrow> uuid) \<Rightarrow> (('a \<Rightarrow> bool) \<Rightarrow> adb \<Rightarrow> adb) \<Rightarrow> ('a \<Rightarrow> bool) \<Rightarrow> (adb, unit) tx" where
  "a_delete get org_of rm P = (\<lambda>s. if a_rows get org_of P s = [] then Inl ErrNotFound
     else Inr ((), rm (\<lambda>r. sees s (org_of r) \<and> P r) s))"

definition CourseRepo_Delete :: "uuid \<Rightarrow> (adb, unit) tx" where
  "CourseRepo_Delete i = a_delete a_courses c_org drop_courses (\<lambda>r. c_id r = i)"

section \<open>Chapters, lessons and blocks\<close>

type_synonym sort_column = "rat \<Rightarrow> rat option"

text \<open>A parent that is missing fails the insert's foreign key; a position out of range its column.\<close>

definition stored_at :: "sort_column \<Rightarrow> rat \<Rightarrow> (rat \<Rightarrow> (adb, 'a) tx) \<Rightarrow> (adb, 'a) tx" where
  "stored_at col v f = (case col v of None \<Rightarrow> tx_throw ErrStorage | Some w \<Rightarrow> f w)"

definition new_chapter :: "uuid \<Rightarrow> uuid \<Rightarrow> uuid \<Rightarrow> string \<Rightarrow> rat \<Rightarrow> uuid \<Rightarrow> time \<Rightarrow> chapter_row" where
  "new_chapter course org by title pos i t = \<lparr>ch_id = i, ch_course = course, ch_org = org, ch_title = title,
     ch_sort = pos, ch_created_by = by, ch_updated = t\<rparr>"

definition ChapterRepo_Create :: "uuid \<Rightarrow> uuid \<Rightarrow> uuid \<Rightarrow> string \<Rightarrow> rat \<Rightarrow> (adb, chapter_row) tx" where
  "ChapterRepo_Create course org by title pos = (\<lambda>s.
     if find (\<lambda>c. c_id c = course) (a_courses s) = None then Inl ErrStorage
     else a_insert a_chapters put_chapters ch_org (new_chapter course org by title pos) s)"

definition ChapterRepo_Get :: "uuid \<Rightarrow> (adb, chapter_row) tx" where
  "ChapterRepo_Get i = a_select a_chapters ch_org (\<lambda>r. ch_id r = i)"

definition ChapterRepo_ListByCourse :: "uuid \<Rightarrow> (adb, chapter_row list) tx" where
  "ChapterRepo_ListByCourse course = tx_gets (\<lambda>s. sort_key ch_sort (a_rows a_chapters ch_org (\<lambda>r. ch_course r = course) s))"

definition ChapterRepo_Update :: "uuid \<Rightarrow> string \<Rightarrow> rat option \<Rightarrow> (adb, chapter_row) tx" where
  "ChapterRepo_Update i title pos = a_update a_chapters put_chapters ch_org (\<lambda>r. ch_id r = i)
     (\<lambda>t r. r\<lparr>ch_title := title, ch_sort := (case pos of None \<Rightarrow> ch_sort r | Some p \<Rightarrow> p), ch_updated := t\<rparr>)"

definition ChapterRepo_SetSortOrder :: "uuid \<Rightarrow> rat \<Rightarrow> (adb, unit) tx" where
  "ChapterRepo_SetSortOrder i pos = tx_bind (a_update a_chapters put_chapters ch_org (\<lambda>r. ch_id r = i)
     (\<lambda>t r. r\<lparr>ch_sort := pos, ch_updated := t\<rparr>)) (\<lambda>_. tx_return ())"

definition ChapterRepo_Delete :: "uuid \<Rightarrow> (adb, unit) tx" where
  "ChapterRepo_Delete i = (\<lambda>s. let n = length (a_rows a_lessons ls_org (\<lambda>r. ls_chapter r = i) s) in
     if 0 < n then Inl (ErrHasChildren n) else a_delete a_chapters ch_org drop_chapters (\<lambda>r. ch_id r = i) s)"

definition new_lesson :: "uuid \<Rightarrow> uuid \<Rightarrow> uuid \<Rightarrow> uuid \<Rightarrow> string \<Rightarrow> rat \<Rightarrow> uuid \<Rightarrow> time \<Rightarrow> lesson" where
  "new_lesson chapter course org by title pos i t = \<lparr>ls_id = i, ls_chapter = chapter, ls_course = course,
     ls_org = org, ls_title = title, ls_sort = pos, ls_created_by = by, ls_updated = t, ls_watch = None\<rparr>"

definition LessonRepo_Create :: "uuid \<Rightarrow> uuid \<Rightarrow> uuid \<Rightarrow> uuid \<Rightarrow> string \<Rightarrow> rat \<Rightarrow> (adb, lesson) tx" where
  "LessonRepo_Create chapter course org by title pos = (\<lambda>s.
     if find (\<lambda>c. ch_id c = chapter) (a_chapters s) = None then Inl ErrStorage
     else a_insert a_lessons put_lessons ls_org (new_lesson chapter course org by title pos) s)"

definition LessonRepo_Get :: "uuid \<Rightarrow> (adb, lesson) tx" where
  "LessonRepo_Get i = a_select a_lessons ls_org (\<lambda>r. ls_id r = i)"

definition LessonRepo_SetWatchThresholdPercent :: "uuid \<Rightarrow> int option \<Rightarrow> (adb, lesson) tx" where
  "LessonRepo_SetWatchThresholdPercent i w = a_update a_lessons put_lessons ls_org (\<lambda>r. ls_id r = i)
     (\<lambda>t r. r\<lparr>ls_watch := w, ls_updated := t\<rparr>)"

definition LessonRepo_ListByChapter :: "uuid \<Rightarrow> (adb, lesson list) tx" where
  "LessonRepo_ListByChapter chapter =
     tx_gets (\<lambda>s. sort_key ls_sort (a_rows a_lessons ls_org (\<lambda>r. ls_chapter r = chapter) s))"

definition LessonRepo_Update :: "uuid \<Rightarrow> string \<Rightarrow> rat option \<Rightarrow> (adb, lesson) tx" where
  "LessonRepo_Update i title pos = a_update a_lessons put_lessons ls_org (\<lambda>r. ls_id r = i)
     (\<lambda>t r. r\<lparr>ls_title := title, ls_sort := (case pos of None \<Rightarrow> ls_sort r | Some p \<Rightarrow> p), ls_updated := t\<rparr>)"

definition LessonRepo_SetSortOrder :: "uuid \<Rightarrow> rat \<Rightarrow> (adb, unit) tx" where
  "LessonRepo_SetSortOrder i pos = tx_bind (a_update a_lessons put_lessons ls_org (\<lambda>r. ls_id r = i)
     (\<lambda>t r. r\<lparr>ls_sort := pos, ls_updated := t\<rparr>)) (\<lambda>_. tx_return ())"

definition LessonRepo_Delete :: "uuid \<Rightarrow> (adb, unit) tx" where
  "LessonRepo_Delete i = (\<lambda>s. let n = length (a_rows a_blocks bk_org (\<lambda>r. bk_lesson r = i) s) in
     if 0 < n then Inl (ErrHasChildren n) else a_delete a_lessons ls_org drop_lessons (\<lambda>r. ls_id r = i) s)"

definition new_block ::
  "uuid \<Rightarrow> uuid \<Rightarrow> uuid \<Rightarrow> uuid \<Rightarrow> block_type \<Rightarrow> json \<Rightarrow> rat \<Rightarrow> uuid \<Rightarrow> time \<Rightarrow> block" where
  "new_block lesson course org by ty content pos i t = \<lparr>bk_id = i, bk_lesson = lesson, bk_course = course,
     bk_org = org, bk_type = ty, bk_content = content, bk_sort = pos, bk_created_by = by, bk_updated = t\<rparr>"

definition BlockRepo_Create ::
  "uuid \<Rightarrow> uuid \<Rightarrow> uuid \<Rightarrow> uuid \<Rightarrow> block_type \<Rightarrow> json \<Rightarrow> rat \<Rightarrow> (adb, block) tx" where
  "BlockRepo_Create lesson course org by ty content pos = (\<lambda>s.
     if find (\<lambda>l. ls_id l = lesson) (a_lessons s) = None then Inl ErrStorage
     else a_insert a_blocks put_blocks bk_org (new_block lesson course org by ty content pos) s)"

definition BlockRepo_Get :: "uuid \<Rightarrow> (adb, block) tx" where
  "BlockRepo_Get i = a_select a_blocks bk_org (\<lambda>r. bk_id r = i)"

definition BlockRepo_ListByLesson :: "uuid \<Rightarrow> (adb, block list) tx" where
  "BlockRepo_ListByLesson lesson = tx_gets (\<lambda>s. sort_key bk_sort (a_rows a_blocks bk_org (\<lambda>r. bk_lesson r = lesson) s))"

definition BlockRepo_ListVideoBlocksByCourse :: "uuid \<Rightarrow> (adb, block list) tx" where
  "BlockRepo_ListVideoBlocksByCourse course = tx_gets (\<lambda>s.
     sort_key bk_sort (a_rows a_blocks bk_org (\<lambda>r. bk_course r = course \<and> bk_type r = VideoBlock) s))"

definition BlockRepo_Update :: "uuid \<Rightarrow> json \<Rightarrow> rat option \<Rightarrow> (adb, block) tx" where
  "BlockRepo_Update i content pos = a_update a_blocks put_blocks bk_org (\<lambda>r. bk_id r = i)
     (\<lambda>t r. r\<lparr>bk_content := content, bk_sort := (case pos of None \<Rightarrow> bk_sort r | Some p \<Rightarrow> p), bk_updated := t\<rparr>)"

definition BlockRepo_Autosave :: "uuid \<Rightarrow> json \<Rightarrow> (adb, block) tx" where
  "BlockRepo_Autosave i content = a_update a_blocks put_blocks bk_org (\<lambda>r. bk_id r = i)
     (\<lambda>t r. r\<lparr>bk_content := content, bk_updated := t\<rparr>)"

definition BlockRepo_SetSortOrder :: "uuid \<Rightarrow> rat \<Rightarrow> (adb, unit) tx" where
  "BlockRepo_SetSortOrder i pos = tx_bind (a_update a_blocks put_blocks bk_org (\<lambda>r. bk_id r = i)
     (\<lambda>t r. r\<lparr>bk_sort := pos, bk_updated := t\<rparr>)) (\<lambda>_. tx_return ())"

definition BlockRepo_Delete :: "uuid \<Rightarrow> (adb, unit) tx" where
  "BlockRepo_Delete i = a_delete a_blocks bk_org drop_blocks (\<lambda>r. bk_id r = i)"

section \<open>Assets (asset.go)\<close>

text \<open>Identifiers are decimal numerals where they are text; any other text is no \<^verbatim>\<open>UUID\<close>.\<close>

definition parse_uuid :: "string \<Rightarrow> uuid option" where
  "parse_uuid t = (let d = (\<lambda>c. of_char c - (48 :: nat)) in
     if t \<noteq> [] \<and> list_all (\<lambda>c. 48 \<le> (of_char c :: nat) \<and> (of_char c :: nat) \<le> 57) t
     then Some (foldl (\<lambda>n c. 10 * n + d c) 0 t) else None)"

definition AssetRepo_Get :: "string \<Rightarrow> (adb, asset) tx" where
  "AssetRepo_Get t = (case parse_uuid t of None \<Rightarrow> tx_throw ErrStorage
     | Some i \<Rightarrow> a_select a_assets as_org (\<lambda>r. as_id r = i))"

definition AssetRepo_RevokeSignedURLsForCourse :: "uuid \<Rightarrow> (adb, unit) tx" where
  "AssetRepo_RevokeSignedURLsForCourse course = tx_modify (\<lambda>s. put_assets (map (\<lambda>a.
     if sees s (as_org a) \<and> as_course a = course \<and> as_url a \<noteq> None
     then a\<lparr>as_url := None, as_url_expires := None\<rparr> else a) (a_assets s)) s)"

section \<open>Versions (course\_version.go)\<close>

text \<open>\<^verbatim>\<open>Snapshot\<close> reads the live content and inserts the next version.\<close>

definition snap_lesson :: "adb \<Rightarrow> lesson \<Rightarrow> snapshot_lesson" where
  "snap_lesson s l = \<lparr>sl_title = ls_title l, sl_sort = ls_sort l,
     sl_blocks = map (\<lambda>b. \<lparr>sb_type = bk_type b, sb_content = bk_content b, sb_sort = bk_sort b\<rparr>)
       (sort_key bk_sort (a_rows a_blocks bk_org (\<lambda>b. bk_lesson b = ls_id l) s))\<rparr>"

definition snap_chapter :: "adb \<Rightarrow> chapter_row \<Rightarrow> snapshot_chapter" where
  "snap_chapter s c = \<lparr>sc_title = ch_title c, sc_sort = ch_sort c,
     sc_lessons = map (snap_lesson s) (sort_key ls_sort (a_rows a_lessons ls_org (\<lambda>l. ls_chapter l = ch_id c) s))\<rparr>"

definition live_content :: "adb \<Rightarrow> uuid \<Rightarrow> snapshot_chapter list" where
  "live_content s course = map (snap_chapter s) (sort_key ch_sort (a_rows a_chapters ch_org (\<lambda>c. ch_course c = course) s))"

definition next_version :: "adb \<Rightarrow> uuid \<Rightarrow> int" where
  "next_version s course = (let ns = map cv_number (a_rows a_versions cv_org (\<lambda>v. cv_course v = course) s) in
     (if ns = [] then 0 else Max (set ns)) + 1)"

definition CourseVersionRepo_Snapshot :: "uuid \<Rightarrow> uuid \<Rightarrow> uuid \<Rightarrow> (adb, course_version) tx" where
  "CourseVersionRepo_Snapshot course org by =
     tx_bind (ACourseRepo_Get course) (\<lambda>c s.
       if \<exists>v \<in> set (a_versions s). cv_course v = course \<and> cv_number v = next_version s course then Inl ErrUniqueViolation
       else a_insert a_versions put_versions cv_org (\<lambda>i t.
         \<lparr>cv_id = i, cv_course = course, cv_org = org, cv_number = next_version s course,
          cv_snapshot = \<lparr>cs_title = c_title c, cs_description = c_description c, cs_chapters = live_content s course\<rparr>,
          cv_created_by = by, cv_created = t\<rparr>) s)"

definition CourseVersionRepo_List :: "uuid \<Rightarrow> (adb, course_version list) tx" where
  "CourseVersionRepo_List course = tx_gets (\<lambda>s.
     sort_key (\<lambda>v. - cv_number v) (a_rows a_versions cv_org (\<lambda>v. cv_course v = course) s))"

definition CourseVersionRepo_Get :: "uuid \<Rightarrow> (adb, course_version) tx" where
  "CourseVersionRepo_Get i = a_select a_versions cv_org (\<lambda>v. cv_id v = i)"

text \<open>Rows from a snapshot, chapter by chapter.\<close>

definition insert_lesson :: "uuid \<Rightarrow> uuid \<Rightarrow> uuid \<Rightarrow> uuid \<Rightarrow> snapshot_lesson \<Rightarrow> (adb, unit) tx" where
  "insert_lesson course org by chapter l =
     tx_bind (LessonRepo_Create chapter course org by (sl_title l) (sl_sort l)) (\<lambda>row.
     tx_for (sl_blocks l) (\<lambda>b.
       tx_bind (BlockRepo_Create (ls_id row) course org by (sb_type b) (sb_content b) (sb_sort b)) (\<lambda>_. tx_return ())))"

definition insert_chapter :: "uuid \<Rightarrow> uuid \<Rightarrow> uuid \<Rightarrow> snapshot_chapter \<Rightarrow> (adb, unit) tx" where
  "insert_chapter course org by c =
     tx_bind (ChapterRepo_Create course org by (sc_title c) (sc_sort c)) (\<lambda>row.
     tx_for (sc_lessons c) (insert_lesson course org by (ch_id row)))"

definition CourseVersionRepo_Restore :: "uuid \<Rightarrow> uuid \<Rightarrow> uuid \<Rightarrow> (adb, course_version) tx" where
  "CourseVersionRepo_Restore course version by =
     tx_bind (CourseVersionRepo_Get version) (\<lambda>v.
       if cv_course v \<noteq> course then tx_throw ErrNotFound else
       tx_bind (ACourseRepo_Get course) (\<lambda>c.
       tx_bind (tx_modify (\<lambda>s. drop_chapters (\<lambda>r. sees s (ch_org r) \<and> ch_course r = course) s)) (\<lambda>_.
       tx_bind (tx_for (cs_chapters (cv_snapshot v)) (insert_chapter course (c_org c) by)) (\<lambda>_.
       tx_bind (a_update a_courses put_acourses c_org (\<lambda>r. c_id r = course)
         (\<lambda>t r. r\<lparr>c_title := cs_title (cv_snapshot v), c_description := cs_description (cv_snapshot v), c_updated := t\<rparr>)) (\<lambda>_.
       CourseVersionRepo_Snapshot course (c_org c) by)))))"

text \<open>\<^verbatim>\<open>Duplicate\<close>: a new draft with copies of the rows; a lesson's blocks are copied in
  one statement, in the order the table holds them.\<close>

definition copy_lesson :: "uuid \<Rightarrow> uuid \<Rightarrow> uuid \<Rightarrow> uuid \<Rightarrow> lesson \<Rightarrow> (adb, unit) tx" where
  "copy_lesson course org by chapter l =
     tx_bind (LessonRepo_Create chapter course org by (ls_title l) (ls_sort l)) (\<lambda>row s.
       tx_for (a_rows a_blocks bk_org (\<lambda>b. bk_lesson b = ls_id l) s) (\<lambda>b.
         tx_bind (BlockRepo_Create (ls_id row) course org by (bk_type b) (bk_content b) (bk_sort b)) (\<lambda>_. tx_return ())) s)"

definition copy_chapter :: "uuid \<Rightarrow> uuid \<Rightarrow> uuid \<Rightarrow> chapter_row \<Rightarrow> (adb, unit) tx" where
  "copy_chapter course org by c =
     tx_bind (ChapterRepo_Create course org by (ch_title c) (ch_sort c)) (\<lambda>row.
     tx_bind (LessonRepo_ListByChapter (ch_id c)) (\<lambda>ls.
       tx_for ls (copy_lesson course org by (ch_id row))))"

definition CourseRepo_Duplicate :: "uuid \<Rightarrow> uuid \<Rightarrow> (adb, course) tx" where
  "CourseRepo_Duplicate source by =
     tx_bind (ACourseRepo_Get source) (\<lambda>src.
     tx_bind (a_insert a_courses put_acourses c_org (\<lambda>i t.
       \<lparr>c_id = i, c_org = c_org src, c_title = c_title src @ '' (copy)'', c_description = c_description src,
        c_cover = c_cover src, c_category = c_category src, c_status = CDraft, c_publish_date = None,
        c_created_by = by, c_created = t, c_updated = t, c_published_at = None, c_archived_at = None\<rparr>)) (\<lambda>new.
     tx_bind (ChapterRepo_ListByCourse source) (\<lambda>chs.
     tx_bind (tx_for chs (copy_chapter (c_id new) (c_org new) by)) (\<lambda>_.
       tx_return new))))"

end
