(* ===== verification/TenancyRepos.thy ===== *)
theory TenancyRepos
  imports AuthorRepos
begin

text \<open>
  Organizations, memberships, profiles, invitations, plans and usage
  (\<^verbatim>\<open>models/organization.go\<close>, \<^verbatim>\<open>membership.go\<close>, \<^verbatim>\<open>profile.go\<close>,
  \<^verbatim>\<open>invitation.go\<close>, \<^verbatim>\<open>plan.go\<close>, \<^verbatim>\<open>quota.go\<close>,
  \<^verbatim>\<open>ai_usage.go\<close>, \<^verbatim>\<open>admin_ops.go\<close>, \<^verbatim>\<open>audit.go\<close>) and the
  \<^verbatim>\<open>SECURITY DEFINER\<close> functions they call, which run without row-level security.
\<close>

section \<open>Organizations (organization.go)\<close>

definition OrgRepo_Create :: "string \<Rightarrow> string \<Rightarrow> (adb, org) tx" where
  "OrgRepo_Create name slug = (\<lambda>s. case a_session s of None \<Rightarrow> Inl ErrStorage
     | Some u \<Rightarrow> if find (\<lambda>p. pf_id p = u) (a_profiles s) = None then Inl ErrStorage
       else if \<exists>o' \<in> set (a_orgs s). og_slug o' = slug then Inl ErrUniqueViolation
       else (let o' = \<lparr>og_id = a_next s, og_slug = slug, og_name = name, og_created_by = u, og_deactivated = None,
                       og_reason = None, og_plan = None, og_created = a_clock s, og_updated = a_clock s\<rparr>;
                 m = \<lparr>mb_id = Suc (a_next s), mb_user = u, mb_org = a_next s, mb_role = Owner, mb_joined = a_clock s\<rparr> in
             Inr (o', s\<lparr>a_next := Suc (Suc (a_next s)), a_orgs := a_orgs s @ [o'], a_members := a_members s @ [m]\<rparr>)))"

definition sees_org :: "adb \<Rightarrow> org \<Rightarrow> bool" where
  "sees_org s o' \<longleftrightarrow> sees s (og_id o') \<or> app_is_platform_owner s"

definition OrgRepo_GetBySlug :: "string \<Rightarrow> (adb, org) tx" where
  "OrgRepo_GetBySlug slug = (\<lambda>s. tab_select1 a_orgs (\<lambda>o'. sees_org s o' \<and> og_slug o' = slug) s)"

definition OrgRepo_Update :: "uuid \<Rightarrow> string \<Rightarrow> (adb, org) tx" where
  "OrgRepo_Update i name = (\<lambda>s. tab_update a_orgs put_orgs (\<lambda>o'. owns s (og_id o') \<and> og_id o' = i)
     (\<lambda>o'. o'\<lparr>og_name := name, og_updated := a_clock s\<rparr>) s)"

definition drop_org :: "uuid \<Rightarrow> adb \<Rightarrow> adb" where
  "drop_org i s = (let
     s1 = drop_courses (\<lambda>c. c_org c = i) s;
     s2 = drop_chapters (\<lambda>c. ch_org c = i) s1;
     s3 = drop_lessons (\<lambda>l. ls_org l = i) s2;
     s4 = drop_blocks (\<lambda>b. bk_org b = i) s3 in
     s4\<lparr>a_orgs := filter (\<lambda>o'. og_id o' \<noteq> i) (a_orgs s4),
        a_members := filter (\<lambda>m. mb_org m \<noteq> i) (a_members s4),
        a_invites := filter (\<lambda>v. iv_org v \<noteq> i) (a_invites s4),
        a_usage := filter (\<lambda>u. au_org u \<noteq> i) (a_usage s4),
        a_assets := filter (\<lambda>a. as_org a \<noteq> i) (a_assets s4),
        a_versions := filter (\<lambda>v. cv_org v \<noteq> i) (a_versions s4),
        a_audit := map (\<lambda>e. if ae_org e = Some i then e\<lparr>ae_org := None\<rparr> else e) (a_audit s4)\<rparr>)"

definition OrgRepo_Delete :: "uuid \<Rightarrow> (adb, unit) tx" where
  "OrgRepo_Delete i = (\<lambda>s. if find (\<lambda>o'. owns s (og_id o') \<and> og_id o' = i) (a_orgs s) = None
     then Inl ErrNotFound else Inr ((), drop_org i s))"

section \<open>Memberships and profiles (membership.go, profile.go)\<close>

definition sees_membership :: "adb \<Rightarrow> membership \<Rightarrow> bool" where
  "sees_membership s m \<longleftrightarrow> sees s (mb_org m) \<or> app_is_platform_owner s"

definition sees_profile :: "adb \<Rightarrow> profile \<Rightarrow> bool" where
  "sees_profile s p = (case a_session s of None \<Rightarrow> True | Some u \<Rightarrow> pf_id p = u \<or> app_is_platform_owner s)"

definition MembershipRepo_GetRole :: "uuid \<Rightarrow> uuid \<Rightarrow> (adb, role) tx" where
  "MembershipRepo_GetRole u o' = (\<lambda>s. case find (\<lambda>m. sees_membership s m \<and> mb_user m = u \<and> mb_org m = o') (a_members s) of
     None \<Rightarrow> Inl ErrNotFound | Some m \<Rightarrow> Inr (mb_role m, s))"

definition MembershipRepo_ListByOrg :: "uuid \<Rightarrow> (adb, (membership \<times> profile) list) tx" where
  "MembershipRepo_ListByOrg o' = tx_gets (\<lambda>s. concat (map (\<lambda>m. map (Pair m)
       (filter (\<lambda>p. sees_profile s p \<and> pf_id p = mb_user m) (a_profiles s)))
     (sort_key mb_joined (filter (\<lambda>m. sees_membership s m \<and> mb_org m = o') (a_members s)))))"

definition MembershipRepo_CountByOrg :: "uuid \<Rightarrow> (adb, int) tx" where
  "MembershipRepo_CountByOrg o' = tx_gets (\<lambda>s. int (length (filter (\<lambda>m. sees_membership s m \<and> mb_org m = o') (a_members s))))"

definition MembershipRepo_UpdateRole :: "uuid \<Rightarrow> uuid \<Rightarrow> role \<Rightarrow> (adb, unit) tx" where
  "MembershipRepo_UpdateRole u o' r = (\<lambda>s. tx_bind
     (tab_update a_members put_members (\<lambda>m. owns s (mb_org m) \<and> mb_user m = u \<and> mb_org m = o') (\<lambda>m. m\<lparr>mb_role := r\<rparr>))
     (\<lambda>_. tx_return ()) s)"

definition MembershipRepo_Remove :: "uuid \<Rightarrow> uuid \<Rightarrow> (adb, unit) tx" where
  "MembershipRepo_Remove u o' = (\<lambda>s. let gone = (\<lambda>m. owns s (mb_org m) \<and> mb_user m = u \<and> mb_org m = o') in
     if find gone (a_members s) = None then Inl ErrNotFound
     else Inr ((), put_members (filter (\<lambda>m. \<not> gone m) (a_members s)) s))"

definition ProfileRepo_GetByID :: "uuid \<Rightarrow> (adb, profile) tx" where
  "ProfileRepo_GetByID i = (\<lambda>s. tab_select1 a_profiles (\<lambda>p. sees_profile s p \<and> pf_id p = i) s)"

definition ProfileRepo_IsSuspended :: "uuid \<Rightarrow> (adb, bool) tx" where
  "ProfileRepo_IsSuspended i = tx_gets (\<lambda>s. case find (\<lambda>p. pf_id p = i) (a_profiles s) of
     None \<Rightarrow> False | Some p \<Rightarrow> pf_suspended p \<noteq> None)"

section \<open>Invitations (invitation.go)\<close>

definition InvitationRepo_Create :: "uuid \<Rightarrow> string \<Rightarrow> role \<Rightarrow> uuid \<Rightarrow> string \<Rightarrow> time \<Rightarrow> (adb, invitation) tx" where
  "InvitationRepo_Create o' email r by token expires = (\<lambda>s.
     if \<not> owns s o' \<or> find (\<lambda>g. og_id g = o') (a_orgs s) = None then Inl ErrStorage
     else if \<exists>v \<in> set (a_invites s). iv_token v = token then Inl ErrUniqueViolation
     else (let v = \<lparr>iv_id = a_next s, iv_org = o', iv_email = email, iv_role = r, iv_by = by, iv_status = InvPending,
                    iv_token = token, iv_created = a_clock s, iv_expires = expires\<rparr> in
           Inr (v, s\<lparr>a_next := Suc (a_next s), a_invites := a_invites s @ [v]\<rparr>)))"

definition InvitationRepo_ListPendingByOrg :: "uuid \<Rightarrow> (adb, invitation list) tx" where
  "InvitationRepo_ListPendingByOrg o' = tx_gets (\<lambda>s. sort_key (\<lambda>v. - iv_created v)
     (filter (\<lambda>v. sees s (iv_org v) \<and> iv_org v = o' \<and> iv_status v = InvPending) (a_invites s)))"

definition InvitationRepo_Revoke :: "uuid \<Rightarrow> (adb, unit) tx" where
  "InvitationRepo_Revoke i = (\<lambda>s. let gone = (\<lambda>v. owns s (iv_org v) \<and> iv_id v = i \<and> iv_status v = InvPending) in
     if find gone (a_invites s) = None then Inl ErrNotFound
     else Inr ((), put_invites (filter (\<lambda>v. \<not> gone v) (a_invites s)) s))"

text \<open>\<^verbatim>\<open>accept_invitation\<close> and \<^verbatim>\<open>decline_invitation\<close> (migration \<^verbatim>\<open>000002\<close>).\<close>

definition usable_invitation :: "string \<Rightarrow> adb \<Rightarrow> err + uuid \<times> invitation" where
  "usable_invitation token s = (case a_session s of None \<Rightarrow> Inl ErrStorage
     | Some u \<Rightarrow> (case find (\<lambda>v. iv_token v = token \<and> iv_status v = InvPending \<and> a_clock s < iv_expires v) (a_invites s) of
         None \<Rightarrow> Inl ErrStorage
       | Some v \<Rightarrow> (case find (\<lambda>p. pf_id p = u) (a_profiles s) of None \<Rightarrow> Inl ErrStorage
           | Some p \<Rightarrow> if map lower_char (iv_email v) \<noteq> map lower_char (pf_email p) then Inl ErrStorage else Inr (u, v))))"

definition set_invitation :: "uuid \<Rightarrow> invitation_status \<Rightarrow> adb \<Rightarrow> adb" where
  "set_invitation i st s = put_invites (map (\<lambda>v. if iv_id v = i then v\<lparr>iv_status := st\<rparr> else v) (a_invites s)) s"

definition put_membership :: "uuid \<Rightarrow> uuid \<Rightarrow> role \<Rightarrow> adb \<Rightarrow> membership \<times> adb" where
  "put_membership u o' r s = (case find (\<lambda>m. mb_user m = u \<and> mb_org m = o') (a_members s) of
     Some m \<Rightarrow> (m\<lparr>mb_role := r\<rparr>,
       put_members (map (\<lambda>m. if mb_user m = u \<and> mb_org m = o' then m\<lparr>mb_role := r\<rparr> else m) (a_members s)) s)
   | None \<Rightarrow> (let m = \<lparr>mb_id = a_next s, mb_user = u, mb_org = o', mb_role = r, mb_joined = a_clock s\<rparr> in
       (m, s\<lparr>a_next := Suc (a_next s), a_members := a_members s @ [m]\<rparr>)))"

definition InvitationRepo_Accept :: "string \<Rightarrow> (adb, membership) tx" where
  "InvitationRepo_Accept token = (\<lambda>s. case usable_invitation token s of Inl e \<Rightarrow> Inl e
     | Inr (u, v) \<Rightarrow> (let (m, s') = put_membership u (iv_org v) (iv_role v) s in
         Inr (m, set_invitation (iv_id v) InvAccepted s')))"

definition InvitationRepo_Decline :: "string \<Rightarrow> (adb, invitation) tx" where
  "InvitationRepo_Decline token = (\<lambda>s. case usable_invitation token s of Inl e \<Rightarrow> Inl e
     | Inr (u, v) \<Rightarrow> Inr (v\<lparr>iv_status := InvDeclined\<rparr>, set_invitation (iv_id v) InvDeclined s))"

section \<open>The audit log (audit.go)\<close>

definition AAuditRepo_Record :: "audit_event \<Rightarrow> (adb, unit) tx" where
  "AAuditRepo_Record e = (\<lambda>s. if (case ae_org e of None \<Rightarrow> True | Some o' \<Rightarrow> sees s o')
     then Inr ((), s\<lparr>a_audit := a_audit s @ [e]\<rparr>) else Inl ErrStorage)"

section \<open>Plans and usage (plan.go, quota.go, ai\_usage.go)\<close>

definition PlanRepo_GetDefault :: "(adb, plan) tx" where
  "PlanRepo_GetDefault = tab_select1 a_plans pl_default"

definition PlanRepo_ResolveForOrg :: "uuid \<Rightarrow> (adb, plan) tx" where
  "PlanRepo_ResolveForOrg o' = (\<lambda>s.
     case find (\<lambda>g. sees_org s g \<and> og_id g = o') (a_orgs s) of None \<Rightarrow> PlanRepo_GetDefault s
     | Some g \<Rightarrow> (case og_plan g of None \<Rightarrow> PlanRepo_GetDefault s
         | Some i \<Rightarrow> (case find (\<lambda>p. pl_id p = i) (a_plans s) of None \<Rightarrow> PlanRepo_GetDefault s
             | Some p \<Rightarrow> Inr (p, s))))"

record org_usage =
  us_courses :: int
  us_published :: int
  us_members :: int
  us_storage :: int
  us_tokens :: int

definition QuotaRepo_CurrentUsage :: "uuid \<Rightarrow> (adb, org_usage) tx" where
  "QuotaRepo_CurrentUsage o' = tx_gets (\<lambda>s.
     \<lparr>us_courses = int (length (seen_courses (\<lambda>c. c_org c = o') s)),
      us_published = int (length (seen_courses (\<lambda>c. c_org c = o' \<and> c_status c = CPublished) s)),
      us_members = int (length (filter (\<lambda>m. sees_membership s m \<and> mb_org m = o') (a_members s))),
      us_storage = sum_list (map (\<lambda>a. case as_size a of None \<Rightarrow> 0 | Some n \<Rightarrow> n)
        (a_rows a_assets as_org (\<lambda>a. as_org a = o') s)),
      us_tokens = 0\<rparr>)"

text \<open>The civil month of an instant in UTC, as \<^verbatim>\<open>time.Date\<close> reckons it.\<close>

definition MonthPeriod :: "time \<Rightarrow> int \<times> int" where
  "MonthPeriod t = (let z = t div (86400 * second) + 719468;
     era = z div 146097; doe = z mod 146097;
     yoe = (doe - doe div 1460 + doe div 36524 - doe div 146096) div 365;
     doy = doe - (365 * yoe + yoe div 4 - yoe div 100);
     mp = (5 * doy + 2) div 153;
     m = (if mp < 10 then mp + 3 else mp - 9) in
     (yoe + era * 400 + (if m \<le> 2 then 1 else 0), m))"

definition TotalTokens :: "ai_usage \<Rightarrow> int" where
  "TotalTokens c = int64 (au_input c + au_output c)"

definition AIUsageRepo_GetForPeriod :: "uuid \<Rightarrow> int \<times> int \<Rightarrow> (adb, ai_usage) tx" where
  "AIUsageRepo_GetForPeriod o' period = tx_gets (\<lambda>s.
     case find (\<lambda>c. (sees s (au_org c) \<or> app_is_platform_owner s) \<and> au_org c = o' \<and> au_period c = period) (a_usage s) of
       None \<Rightarrow> \<lparr>au_org = o', au_period = period, au_input = 0, au_output = 0\<rparr> | Some c \<Rightarrow> c)"

section \<open>Platform administration (admin\_ops.go)\<close>

definition AdminOpsRepo_SetUserSuspended :: "uuid \<Rightarrow> bool \<Rightarrow> string \<Rightarrow> (adb, unit) tx" where
  "AdminOpsRepo_SetUserSuspended i susp reason = (\<lambda>s. if \<not> app_is_platform_owner s then Inl ErrStorage else
     tx_bind (tab_update a_profiles put_profiles (\<lambda>p. pf_id p = i \<and> \<not> pf_platform_owner p)
       (\<lambda>p. p\<lparr>pf_suspended := (if susp then (case pf_suspended p of None \<Rightarrow> Some (a_clock s) | t \<Rightarrow> t) else None),
              pf_reason := (if susp \<and> reason \<noteq> [] then Some reason else None), pf_updated := a_clock s\<rparr>))
       (\<lambda>_. tx_return ()) s)"

definition AdminOpsRepo_SetOrgActive :: "uuid \<Rightarrow> bool \<Rightarrow> string \<Rightarrow> (adb, unit) tx" where
  "AdminOpsRepo_SetOrgActive i active reason = (\<lambda>s. if \<not> app_is_platform_owner s then Inl ErrStorage else
     tx_bind (tab_update a_orgs put_orgs (\<lambda>g. og_id g = i)
       (\<lambda>g. g\<lparr>og_deactivated := (if active then None else (case og_deactivated g of None \<Rightarrow> Some (a_clock s) | t \<Rightarrow> t)),
              og_reason := (if \<not> active \<and> reason \<noteq> [] then Some reason else None), og_updated := a_clock s\<rparr>))
       (\<lambda>_. tx_return ()) s)"

definition AdminOpsRepo_SetCourseStatus :: "uuid \<Rightarrow> course_status \<Rightarrow> (adb, unit) tx" where
  "AdminOpsRepo_SetCourseStatus i st = (\<lambda>s. if \<not> app_is_platform_owner s then Inl ErrStorage else
     tx_bind (tab_update a_courses put_acourses (\<lambda>c. c_id c = i)
       (\<lambda>c. c\<lparr>c_status := st, c_updated := a_clock s\<rparr>))
       (\<lambda>_. tx_return ()) s)"

end
