(* ===== verification/Tenancy.thy ===== *)
theory Tenancy
  imports TenancyRepos
begin

text \<open>
  Who may do what: the middleware that resolves the organization of a request and the caller's
  role in it (\<^verbatim>\<open>middleware/org.go\<close>, \<^verbatim>\<open>course.go\<close>), plan limits
  (\<^verbatim>\<open>quota/quota.go\<close>, \<^verbatim>\<open>handlers/admin_quota.go\<close>), and the handlers of
  organizations, members, invitations and platform administration. A body that does not bind is
  \<open>None\<close>.
\<close>

section \<open>Middleware\<close>

record org_ctx =
  oc_org :: uuid
  oc_slug :: string
  oc_role :: "role option"
  oc_platform :: bool

text \<open>The role lookup that the resolvers share: \<open>None\<close> when there is no membership.\<close>

definition caller_role :: "auth_ctx \<Rightarrow> uuid \<Rightarrow> (response, adb, role option) hm" where
  "caller_role ac o' = h_bind (sql_attempt (MembershipRepo_GetRole (ac_user ac) o')) (\<lambda>r. case r of
     Inr role \<Rightarrow> h_return (Some role)
   | Inl e \<Rightarrow> if e = ErrNotFound then h_return None else h_respond (internal_error e))"

definition ResolveOrg :: "auth_ctx \<Rightarrow> string \<Rightarrow> (response, adb, org_ctx) hm" where
  "ResolveOrg ac slug =
     h_bind (sql (ProfileRepo_GetByID (ac_user ac)) internal_error) (\<lambda>p.
     h_bind (h_guard (pf_suspended p = None) (RespErr 403 ''this account has been suspended'')) (\<lambda>_.
     h_bind (sql (OrgRepo_GetBySlug slug) (not_found_or_internal ''organization not found'')) (\<lambda>g.
     h_bind (h_guard (og_deactivated g = None \<or> pf_platform_owner p) (RespErr 403 ''organization is deactivated'')) (\<lambda>_.
     h_bind (caller_role ac (og_id g)) (\<lambda>role.
     h_bind (h_guard (role \<noteq> None \<or> pf_platform_owner p) (RespErr 403 ''not a member of this organization'')) (\<lambda>_.
       h_return \<lparr>oc_org = og_id g, oc_slug = og_slug g, oc_role = role, oc_platform = (role = None)\<rparr>))))))"

text \<open>The fallback for a caller without a role (\<^verbatim>\<open>course.go\<close>, \<^verbatim>\<open>community.go\<close>):
  only a platform owner passes.\<close>

definition stampOrgContext :: "auth_ctx \<Rightarrow> uuid \<Rightarrow> string \<Rightarrow> (response, adb, org_ctx) hm" where
  "stampOrgContext ac o' msg =
     h_bind (caller_role ac o') (\<lambda>role. case role of
       Some r \<Rightarrow> h_return \<lparr>oc_org = o', oc_slug = [], oc_role = Some r, oc_platform = False\<rparr>
     | None \<Rightarrow> h_bind (sql_attempt (ProfileRepo_GetByID (ac_user ac))) (\<lambda>p. case p of
           Inl e \<Rightarrow> h_respond (RespErr 404 msg)
         | Inr p \<Rightarrow> if pf_platform_owner p
             then h_return \<lparr>oc_org = o', oc_slug = [], oc_role = None, oc_platform = True\<rparr>
             else h_respond (RespErr 404 msg)))"

definition ResolveCourseOrg :: "auth_ctx \<Rightarrow> uuid \<Rightarrow> (response, adb, course \<times> org_ctx) hm" where
  "ResolveCourseOrg ac i =
     h_bind (sql (ACourseRepo_Get i) (not_found_or_internal ''course not found'')) (\<lambda>c.
     h_bind (stampOrgContext ac (c_org c) ''course not found'') (\<lambda>oc.
       h_return (c, oc)))"

definition RequireRole :: "role set \<Rightarrow> org_ctx \<Rightarrow> (response, adb, unit) hm" where
  "RequireRole allowed oc = h_guard (oc_platform oc \<or> (case oc_role oc of None \<Rightarrow> False | Some r \<Rightarrow> r \<in> allowed))
     (RespErr 403 ''forbidden'')"

definition RequirePlatformOwner :: "auth_ctx \<Rightarrow> (response, adb, unit) hm" where
  "RequirePlatformOwner ac = h_bind (sql_attempt (ProfileRepo_GetByID (ac_user ac))) (\<lambda>p. case p of
     Inl e \<Rightarrow> h_respond (RespErr 403 ''forbidden'')
   | Inr p \<Rightarrow> h_guard (pf_platform_owner p) (RespErr 403 ''forbidden''))"

section \<open>Plan limits (quota.go)\<close>

datatype dimension = DimCourses | DimPublishedCourses | DimMembers | DimStorageBytes | DimAITokensMonth

fun dimension_str :: "dimension \<Rightarrow> string" where
  "dimension_str DimCourses = ''courses''"
| "dimension_str DimPublishedCourses = ''published_courses''"
| "dimension_str DimMembers = ''members''"
| "dimension_str DimStorageBytes = ''storage_bytes''"
| "dimension_str DimAITokensMonth = ''ai_tokens_month''"

fun limitFor :: "plan \<Rightarrow> dimension \<Rightarrow> int option" where
  "limitFor p DimCourses = pl_max_courses p"
| "limitFor p DimPublishedCourses = pl_max_published p"
| "limitFor p DimMembers = pl_max_members p"
| "limitFor p DimStorageBytes = pl_max_storage p"
| "limitFor p DimAITokensMonth = pl_max_tokens p"

fun usageFor :: "org_usage \<Rightarrow> dimension \<Rightarrow> int" where
  "usageFor u DimCourses = us_courses u"
| "usageFor u DimPublishedCourses = us_published u"
| "usageFor u DimMembers = us_members u"
| "usageFor u DimStorageBytes = us_storage u"
| "usageFor u DimAITokensMonth = us_tokens u"

record limit_usage =
  lu_dim :: dimension
  lu_used :: int
  lu_limit :: "int option"

definition Exceeded :: "limit_usage \<Rightarrow> bool" where
  "Exceeded l = (case lu_limit l of None \<Rightarrow> False | Some m \<Rightarrow> 0 < m \<and> m \<le> lu_used l)"

definition allDimensions :: "dimension list" where
  "allDimensions = [DimCourses, DimPublishedCourses, DimMembers, DimStorageBytes, DimAITokensMonth]"

definition quota_load :: "uuid \<Rightarrow> (adb, plan \<times> org_usage) tx" where
  "quota_load o' =
     tx_bind (PlanRepo_ResolveForOrg o') (\<lambda>p.
     tx_bind (QuotaRepo_CurrentUsage o') (\<lambda>u s.
     tx_bind (AIUsageRepo_GetForPeriod o' (MonthPeriod (a_clock s))) (\<lambda>c.
       tx_return (p, u\<lparr>us_tokens := TotalTokens c\<rparr>)) s))"

definition quota_report :: "uuid \<Rightarrow> (adb, plan \<times> limit_usage list) tx" where
  "quota_report o' = tx_bind (quota_load o') (\<lambda>(p, u). tx_return (p,
     map (\<lambda>d. \<lparr>lu_dim = d, lu_used = usageFor u d, lu_limit = limitFor p d\<rparr>) allDimensions))"

definition quota_check :: "uuid \<Rightarrow> dimension \<Rightarrow> int \<Rightarrow> (adb, bool \<times> limit_usage) tx" where
  "quota_check o' d delta = tx_bind (quota_load o') (\<lambda>(p, u).
     (let lu = \<lparr>lu_dim = d, lu_used = usageFor u d, lu_limit = limitFor p d\<rparr> in
      tx_return ((case lu_limit lu of None \<Rightarrow> True | Some m \<Rightarrow> m \<le> 0 \<or> int64 (lu_used lu + delta) \<le> m), lu)))"

definition enforceQuota :: "uuid \<Rightarrow> dimension \<Rightarrow> (response, adb, unit) hm" where
  "enforceQuota o' d = h_bind (sql (quota_check o' d 1) internal_error) (\<lambda>(ok, lu).
     h_guard ok (Resp 402 (JObj [(''error'', JStr ''plan limit reached''), (''dimension'', JStr (dimension_str (lu_dim lu))),
       (''used'', JInt (lu_used lu)), (''limit'', JInt (case lu_limit lu of None \<Rightarrow> 0 | Some m \<Rightarrow> m))])))"

definition quotaReportView :: "plan \<times> limit_usage list \<Rightarrow> json" where
  "quotaReportView r = (case r of (p, ls) \<Rightarrow> JObj
     [(''plan'', JObj [(''id'', JInt (int (pl_id p))), (''code'', JStr (pl_code p)), (''name'', JStr (pl_name p))]),
      (''limits'', JArr (map (\<lambda>l. JObj [(''dimension'', JStr (dimension_str (lu_dim l))), (''used'', JInt (lu_used l)),
         (''limit'', case lu_limit l of None \<Rightarrow> JNull | Some m \<Rightarrow> JInt m), (''exceeded'', JBool (Exceeded l))]) ls))])"

definition OrgQuotaDashboard :: "org_ctx \<Rightarrow> adb handler" where
  "OrgQuotaDashboard oc = h_bind (sql (quota_report (oc_org oc)) internal_error) (\<lambda>r. h_return (Resp 200 (quotaReportView r)))"

definition PlatformOrgQuota :: "string \<Rightarrow> adb handler" where
  "PlatformOrgQuota slug =
     h_bind (sql (OrgRepo_GetBySlug slug) (not_found_or_internal ''organization not found'')) (\<lambda>g.
     h_bind (sql (quota_report (og_id g)) internal_error) (\<lambda>r. h_return (Resp 200 (quotaReportView r))))"

section \<open>Organizations (orgs.go)\<close>

definition audit_of :: "auth_ctx \<Rightarrow> uuid option \<Rightarrow> string \<Rightarrow> string \<Rightarrow> uuid \<Rightarrow> (string \<times> string) list option \<Rightarrow> audit_event" where
  "audit_of ac o' action resource i details = \<lparr>ae_org = o', ae_user = Some (ac_user ac), ae_action = action,
     ae_resource = resource, ae_resource_id = Some i, ae_details = details, ae_ip = ac_ip ac, ae_agent = ac_agent ac\<rparr>"

definition orgResponse :: "org \<Rightarrow> json" where
  "orgResponse g = JObj [(''id'', JInt (int (og_id g))), (''slug'', JStr (og_slug g)), (''name'', JStr (og_name g)),
     (''created_at'', JInt (og_created g))]"

fun slug_from :: "bool \<Rightarrow> string \<Rightarrow> bool" where
  "slug_from seen [] = seen"
| "slug_from seen (c # cs) = (if c = CHR ''-'' then seen \<and> slug_from False cs
     else (let n = of_char c :: nat in (97 \<le> n \<and> n \<le> 122 \<or> 48 \<le> n \<and> n \<le> 57) \<and> slug_from True cs))"

definition slugPattern :: "string \<Rightarrow> bool" where
  "slugPattern t = slug_from False t"

record createOrgRequest =
  cr_name :: string
  cr_slug :: string

definition size_between :: "nat \<Rightarrow> nat \<Rightarrow> string \<Rightarrow> bool" where
  "size_between lo hi t \<longleftrightarrow> lo \<le> length t \<and> length t \<le> hi"

definition CreateOrg :: "auth_ctx \<Rightarrow> createOrgRequest option \<Rightarrow> adb handler" where
  "CreateOrg ac body = (case body of None \<Rightarrow> h_respond (RespErr 400 ''invalid request'')
     | Some req \<Rightarrow>
       h_bind (h_guard (size_between 2 200 (cr_name req) \<and> size_between 2 60 (cr_slug req)) (RespErr 400 ''invalid request'')) (\<lambda>_.
       (let slug = map lower_char (TrimSpace (cr_slug req)) in
       h_bind (h_guard (slugPattern slug) (RespErr 400 ''slug must be lowercase letters, numbers, and hyphens'')) (\<lambda>_.
       h_bind (sql (OrgRepo_Create (cr_name req) slug)
         (\<lambda>_. RespErr 409 ''an organization with that slug already exists'')) (\<lambda>g.
       h_bind (sql_ignore (AAuditRepo_Record (audit_of ac (Some (og_id g)) ''org.created'' ''organization'' (og_id g) None))) (\<lambda>_.
         h_return (Resp 201 (orgResponse g))))))))"

definition GetOrg :: "org_ctx \<Rightarrow> adb handler" where
  "GetOrg oc = h_bind (sql (OrgRepo_GetBySlug (oc_slug oc)) (\<lambda>_. RespErr 404 ''organization not found'')) (\<lambda>g.
     h_return (Resp 200 (orgResponse g)))"

definition UpdateOrg :: "auth_ctx \<Rightarrow> org_ctx \<Rightarrow> string option \<Rightarrow> adb handler" where
  "UpdateOrg ac oc body = (case body of None \<Rightarrow> h_respond (RespErr 400 ''invalid request'')
     | Some name \<Rightarrow>
       h_bind (h_guard (size_between 2 200 name) (RespErr 400 ''invalid request'')) (\<lambda>_.
       h_bind (sql (OrgRepo_Update (oc_org oc) name) (not_found_or_internal ''organization not found'')) (\<lambda>g.
       h_bind (sql_ignore (AAuditRepo_Record (audit_of ac (Some (oc_org oc)) ''org.updated'' ''organization'' (oc_org oc) None))) (\<lambda>_.
         h_return (Resp 200 (orgResponse g))))))"

definition DeleteOrg :: "auth_ctx \<Rightarrow> org_ctx \<Rightarrow> adb handler" where
  "DeleteOrg ac oc =
     h_bind (sql_ignore (AAuditRepo_Record (audit_of ac (Some (oc_org oc)) ''org.deleted'' ''organization'' (oc_org oc) None))) (\<lambda>_.
     h_bind (sql (OrgRepo_Delete (oc_org oc)) (not_found_or_internal ''organization not found'')) (\<lambda>_.
       h_return (Resp 204 JNull)))"

section \<open>Members (members.go)\<close>

fun parse_role :: "string \<Rightarrow> role option" where
  "parse_role r = (if r = ''owner'' then Some Owner else if r = ''teacher'' then Some Teacher
     else if r = ''moderator'' then Some Moderator else if r = ''learner'' then Some Learner else None)"

fun role_str :: "role \<Rightarrow> string" where
  "role_str Owner = ''owner''" | "role_str Teacher = ''teacher''"
| "role_str Moderator = ''moderator''" | "role_str Learner = ''learner''"

definition ListMembers :: "org_ctx \<Rightarrow> adb handler" where
  "ListMembers oc = h_bind (sql (MembershipRepo_ListByOrg (oc_org oc)) internal_error) (\<lambda>ms.
     h_return (Resp 200 (JObj [(''members'', JArr (map (\<lambda>(m, p). JObj
       [(''user_id'', JInt (int (mb_user m))), (''email'', JStr (pf_email p)),
        (''full_name'', case pf_name p of None \<Rightarrow> JNull | Some n \<Rightarrow> JStr n),
        (''role'', JStr (role_str (mb_role m))), (''joined_at'', JInt (mb_joined m))]) ms))])))"

definition ChangeMemberRole :: "auth_ctx \<Rightarrow> org_ctx \<Rightarrow> uuid \<Rightarrow> string option \<Rightarrow> adb handler" where
  "ChangeMemberRole ac oc target body = (case body of None \<Rightarrow> h_respond (RespErr 400 ''invalid request'')
     | Some r \<Rightarrow> if r = [] then h_respond (RespErr 400 ''invalid request'') else
       (case parse_role r of None \<Rightarrow> h_respond (RespErr 400 ''invalid role'')
        | Some role \<Rightarrow>
          h_bind (sql (MembershipRepo_UpdateRole target (oc_org oc) role) (not_found_or_internal ''member not found'')) (\<lambda>_.
          h_bind (sql_ignore (AAuditRepo_Record (audit_of ac (Some (oc_org oc)) ''member.role_changed'' ''membership'' target
            (Some [(''new_role'', r)])))) (\<lambda>_.
            h_return (Resp 204 JNull)))))"

definition RemoveMember :: "auth_ctx \<Rightarrow> org_ctx \<Rightarrow> uuid \<Rightarrow> adb handler" where
  "RemoveMember ac oc target =
     h_bind (sql (MembershipRepo_Remove target (oc_org oc)) (not_found_or_internal ''member not found'')) (\<lambda>_.
     h_bind (sql_ignore (AAuditRepo_Record (audit_of ac (Some (oc_org oc)) ''member.removed'' ''membership'' target None))) (\<lambda>_.
       h_return (Resp 204 JNull)))"

section \<open>Invitations (invitations.go)\<close>

text \<open>The random token and the configured base URL are arguments.\<close>

definition invitationTTL :: time where "invitationTTL = 7 * 24 * hour"

record createInvitationRequest =
  ci_email :: string
  ci_role :: string

definition CreateInvitation :: "string \<Rightarrow> auth_ctx \<Rightarrow> org_ctx \<Rightarrow> string \<Rightarrow> createInvitationRequest option \<Rightarrow> adb handler" where
  "CreateInvitation base ac oc token body = (case body of None \<Rightarrow> h_respond (RespErr 400 ''invalid request'')
     | Some req \<Rightarrow> (case parse_role (ci_role req) of
         None \<Rightarrow> h_respond (RespErr 400 (if ci_role req = [] then ''invalid request'' else ''invalid role''))
       | Some role \<Rightarrow>
         h_bind (h_guard (role \<noteq> Owner) (RespErr 400 ''invalid role'')) (\<lambda>_.
         h_bind (enforceQuota (oc_org oc) DimMembers) (\<lambda>_.
         (let email = map lower_char (TrimSpace (ci_email req)) in
         h_bind (sql (\<lambda>s. InvitationRepo_Create (oc_org oc) email role (ac_user ac) token (a_clock s + invitationTTL) s)
           internal_error) (\<lambda>v.
         h_bind (sql_ignore (AAuditRepo_Record (audit_of ac (Some (oc_org oc)) ''invitation.created'' ''invitation'' (iv_id v)
           (Some [(''email'', email), (''role'', ci_role req)])))) (\<lambda>_.
           h_return (Resp 201 (JObj [(''id'', JInt (int (iv_id v))), (''email'', JStr (iv_email v)),
             (''role'', JStr (role_str (iv_role v))), (''expires_at'', JInt (iv_expires v)),
             (''invite_url'', JStr (base @ ''/invitations/'' @ iv_token v))])))))))))"

definition ListInvitations :: "org_ctx \<Rightarrow> adb handler" where
  "ListInvitations oc = h_bind (sql (InvitationRepo_ListPendingByOrg (oc_org oc)) internal_error) (\<lambda>vs.
     h_return (Resp 200 (JObj [(''invitations'', JArr (map (\<lambda>v. JObj [(''id'', JInt (int (iv_id v))),
       (''email'', JStr (iv_email v)), (''role'', JStr (role_str (iv_role v))), (''status'', JStr ''pending''),
       (''expires_at'', JInt (iv_expires v)), (''created_at'', JInt (iv_created v))]) vs))])))"

definition RevokeInvitation :: "auth_ctx \<Rightarrow> org_ctx \<Rightarrow> uuid \<Rightarrow> adb handler" where
  "RevokeInvitation ac oc i =
     h_bind (sql (InvitationRepo_Revoke i) (not_found_or_internal ''invitation not found'')) (\<lambda>_.
     h_bind (sql_ignore (AAuditRepo_Record (audit_of ac (Some (oc_org oc)) ''invitation.revoked'' ''invitation'' i None))) (\<lambda>_.
       h_return (Resp 204 JNull)))"

definition AcceptInvitation :: "auth_ctx \<Rightarrow> string \<Rightarrow> adb handler" where
  "AcceptInvitation ac token =
     h_bind (sql (InvitationRepo_Accept token)
       (\<lambda>_. RespErr 400 ''invitation not found, expired, or already resolved'')) (\<lambda>m.
     h_bind (sql_ignore (AAuditRepo_Record (audit_of ac (Some (mb_org m)) ''invitation.accepted'' ''membership'' (mb_id m) None))) (\<lambda>_.
       h_return (Resp 200 (JObj [(''org_id'', JInt (int (mb_org m))), (''role'', JStr (role_str (mb_role m)))]))))"

definition DeclineInvitation :: "auth_ctx \<Rightarrow> string \<Rightarrow> adb handler" where
  "DeclineInvitation ac token =
     h_bind (sql (InvitationRepo_Decline token)
       (\<lambda>_. RespErr 400 ''invitation not found, expired, or already resolved'')) (\<lambda>v.
     h_bind (sql_ignore (AAuditRepo_Record (audit_of ac (Some (iv_org v)) ''invitation.declined'' ''invitation'' (iv_id v) None))) (\<lambda>_.
       h_return (Resp 204 JNull)))"

section \<open>Platform administration (admin\_ops.go)\<close>

definition reason_detail :: "bool \<Rightarrow> string \<Rightarrow> (string \<times> string) list" where
  "reason_detail b reason = (if b \<and> reason \<noteq> [] then [(''reason'', reason)] else [])"

definition setUserSuspended :: "auth_ctx \<Rightarrow> bool \<Rightarrow> string \<Rightarrow> uuid \<Rightarrow> string \<Rightarrow> adb handler" where
  "setUserSuspended ac susp action target reason =
     h_bind (sql (AdminOpsRepo_SetUserSuspended target susp reason)
       (not_found_or_internal ''user not found or is a platform owner'')) (\<lambda>_.
     h_bind (sql_ignore (AAuditRepo_Record (audit_of ac None action ''profile'' target (Some (reason_detail susp reason))))) (\<lambda>_.
       h_return (Resp 200 (JObj [(''id'', JInt (int target)), (''suspended'', JBool susp)]))))"

definition setOrgActive :: "auth_ctx \<Rightarrow> bool \<Rightarrow> string \<Rightarrow> string \<Rightarrow> string \<Rightarrow> adb handler" where
  "setOrgActive ac active action slug reason =
     h_bind (sql (OrgRepo_GetBySlug slug) (not_found_or_internal ''organization not found'')) (\<lambda>g.
     h_bind (sql (AdminOpsRepo_SetOrgActive (og_id g) active reason) (not_found_or_internal ''organization not found'')) (\<lambda>_.
     h_bind (sql_ignore (AAuditRepo_Record (audit_of ac (Some (og_id g)) action ''organization'' (og_id g)
       (Some (reason_detail (\<not> active) reason))))) (\<lambda>_.
       h_return (Resp 200 (JObj [(''org_slug'', JStr (og_slug g)), (''active'', JBool active)])))))"

fun course_status_str :: "course_status \<Rightarrow> string" where
  "course_status_str CDraft = ''draft''" | "course_status_str CReview = ''review''"
| "course_status_str CScheduled = ''scheduled''" | "course_status_str CPublished = ''published''"
| "course_status_str CUnpublished = ''unpublished''" | "course_status_str CArchived = ''archived''"

definition setCourseStatus :: "auth_ctx \<Rightarrow> course_status \<Rightarrow> string \<Rightarrow> uuid \<Rightarrow> string \<Rightarrow> adb handler" where
  "setCourseStatus ac st action i reason =
     h_bind (sql (AdminOpsRepo_SetCourseStatus i st) (not_found_or_internal ''course not found'')) (\<lambda>_.
     h_bind (sql_ignore (AAuditRepo_Record (audit_of ac None action ''course'' i
       (Some ((''status'', course_status_str st) # reason_detail True reason))))) (\<lambda>_.
       h_return (Resp 200 (JObj [(''id'', JInt (int i)), (''status'', JStr (course_status_str st))]))))"

section \<open>The routes\<close>

text \<open>\<^verbatim>\<open>registerOrgRoutes\<close> and the platform owner's routes, with the guards they are
  mounted behind.\<close>

datatype org_action =
    OGet
  | OUpdate "string option"
  | ODelete
  | OMembers
  | OChangeRole uuid "string option"
  | ORemove uuid
  | OInvite string "createInvitationRequest option"
  | OInvitations
  | ORevoke uuid
  | OQuota

definition org_roles :: "org_action \<Rightarrow> role set" where
  "org_roles a = (case a of OGet \<Rightarrow> UNIV | OMembers \<Rightarrow> UNIV | _ \<Rightarrow> {Owner})"

definition org_handler :: "string \<Rightarrow> auth_ctx \<Rightarrow> org_ctx \<Rightarrow> org_action \<Rightarrow> adb handler" where
  "org_handler base ac oc a = (case a of
     OGet \<Rightarrow> GetOrg oc
   | OUpdate body \<Rightarrow> UpdateOrg ac oc body
   | ODelete \<Rightarrow> DeleteOrg ac oc
   | OMembers \<Rightarrow> ListMembers oc
   | OChangeRole u body \<Rightarrow> ChangeMemberRole ac oc u body
   | ORemove u \<Rightarrow> RemoveMember ac oc u
   | OInvite token body \<Rightarrow> CreateInvitation base ac oc token body
   | OInvitations \<Rightarrow> ListInvitations oc
   | ORevoke i \<Rightarrow> RevokeInvitation ac oc i
   | OQuota \<Rightarrow> OrgQuotaDashboard oc)"

definition org_route :: "string \<Rightarrow> auth_ctx \<Rightarrow> string \<Rightarrow> org_action \<Rightarrow> adb handler" where
  "org_route base ac slug a =
     h_bind (ResolveOrg ac slug) (\<lambda>oc. h_bind (RequireRole (org_roles a) oc) (\<lambda>_. org_handler base ac oc a))"

datatype admin_action =
    AdSuspend uuid string
  | AdReactivate uuid string
  | AdDeactivateOrg string string
  | AdReactivateOrg string string
  | AdTakedown uuid string
  | AdRestore uuid string
  | AdQuota string

definition admin_handler :: "auth_ctx \<Rightarrow> admin_action \<Rightarrow> adb handler" where
  "admin_handler ac a = (case a of
     AdSuspend u r \<Rightarrow> setUserSuspended ac True ''user.suspended'' u r
   | AdReactivate u r \<Rightarrow> setUserSuspended ac False ''user.reactivated'' u r
   | AdDeactivateOrg g r \<Rightarrow> setOrgActive ac False ''org.deactivated'' g r
   | AdReactivateOrg g r \<Rightarrow> setOrgActive ac True ''org.reactivated'' g r
   | AdTakedown i r \<Rightarrow> setCourseStatus ac CArchived ''course.takedown'' i r
   | AdRestore i r \<Rightarrow> setCourseStatus ac CDraft ''course.restored'' i r
   | AdQuota g \<Rightarrow> PlatformOrgQuota g)"

definition admin_route :: "auth_ctx \<Rightarrow> admin_action \<Rightarrow> adb handler" where
  "admin_route ac a = h_bind (RequirePlatformOwner ac) (\<lambda>_. admin_handler ac a)"

datatype tenancy_request =
    TrCreateOrg "createOrgRequest option"
  | TrOrg string org_action
  | TrAccept string
  | TrDecline string
  | TrAdmin admin_action

definition tenancy_handler :: "string \<Rightarrow> auth_ctx \<Rightarrow> tenancy_request \<Rightarrow> adb handler" where
  "tenancy_handler base ac q = (case q of
     TrCreateOrg body \<Rightarrow> CreateOrg ac body
   | TrOrg slug a \<Rightarrow> org_route base ac slug a
   | TrAccept token \<Rightarrow> AcceptInvitation ac token
   | TrDecline token \<Rightarrow> DeclineInvitation ac token
   | TrAdmin a \<Rightarrow> admin_route ac a)"

end
