(* ===== verification/TenancyFacts.thy ===== *)
theory TenancyFacts
  imports Tenancy
begin

section \<open>Running handlers\<close>

lemma h_bind_Inr: "h_bind m f s = (Inr y, t) \<longleftrightarrow> (\<exists>x s'. m s = (Inr x, s') \<and> f x s' = (Inr y, t))"
  by (auto simp: h_bind_def split: prod.splits sum.splits)

lemma h_bind_Inl:
  "h_bind m f s = (Inl r, t) \<longleftrightarrow> m s = (Inl r, t) \<or> (\<exists>x s'. m s = (Inr x, s') \<and> f x s' = (Inl r, t))"
  by (auto simp: h_bind_def split: prod.splits sum.splits)

lemma h_simple_run [simp]:
  "h_return x s = (Inr y, t) \<longleftrightarrow> y = x \<and> t = s" "h_return x s \<noteq> (Inl r, t)"
  "h_respond r s = (Inl r', t) \<longleftrightarrow> r' = r \<and> t = s" "h_respond r s \<noteq> (Inr x', t)"
  "h_guard b r s = (Inr u, t) \<longleftrightarrow> b \<and> t = s" "h_guard b r s = (Inl r', t) \<longleftrightarrow> \<not> b \<and> r' = r \<and> t = s"
  by (auto simp: h_return_def h_respond_def h_guard_def)

lemma sql_attempt_run:
  "sql_attempt m s = (Inr (Inr x), t) \<longleftrightarrow> \<not> a_aborted s \<and> m s = Inr (x, t)"
  "sql_attempt m s = (Inr (Inl e), t) \<longleftrightarrow> (if a_aborted s then e = ErrStorage else m s = Inl e) \<and>
     t = s\<lparr>a_aborted := a_aborted s \<or> aborts e\<rparr>"
  "sql_attempt m s \<noteq> (Inl r, t)"
  by (auto simp: sql_attempt_def split: sum.splits)

lemma sql_eq: "sql m f s = (case (if a_aborted s then Inl ErrStorage else m s) of
     Inr (x, t) \<Rightarrow> (Inr x, t) | Inl e \<Rightarrow> (Inl (f e), s\<lparr>a_aborted := a_aborted s \<or> aborts e\<rparr>))"
  by (auto simp: sql_def h_bind_def sql_attempt_def h_return_def h_respond_def split: sum.split)

lemma sql_ignore_eq: "sql_ignore m s = (case (if a_aborted s then Inl ErrStorage else m s) of
     Inr (x, t) \<Rightarrow> (Inr (), t) | Inl e \<Rightarrow> (Inr (), s\<lparr>a_aborted := a_aborted s \<or> aborts e\<rparr>))"
  by (auto simp: sql_ignore_def h_bind_def sql_attempt_def h_return_def split: sum.split)

lemma sql_run:
  "sql m f s = (Inr x, t) \<longleftrightarrow> \<not> a_aborted s \<and> m s = Inr (x, t)"
  "sql m f s = (Inl r, t) \<longleftrightarrow> (\<exists>e. (if a_aborted s then e = ErrStorage else m s = Inl e) \<and> r = f e \<and>
     t = s\<lparr>a_aborted := a_aborted s \<or> aborts e\<rparr>)"
  by (auto simp: sql_eq split: sum.splits)

lemma sql_ignore_run:
  "sql_ignore m s = (Inr u, t) \<longleftrightarrow> (\<not> a_aborted s \<and> m s = Inr ((), t)) \<or>
     (\<exists>e. (if a_aborted s then e = ErrStorage else m s = Inl e) \<and> t = s\<lparr>a_aborted := a_aborted s \<or> aborts e\<rparr>)"
  "sql_ignore m s \<noteq> (Inl r, t)"
  by (auto simp: sql_ignore_eq split: sum.splits)

lemma attempt_bind_run:
  "h_bind (sql_attempt m) (\<lambda>r. case r of Inl e \<Rightarrow> g e | Inr x \<Rightarrow> f x) s = (v, t) \<longleftrightarrow>
     (\<exists>x s'. \<not> a_aborted s \<and> m s = Inr (x, s') \<and> f x s' = (v, t)) \<or>
     (\<exists>e. (if a_aborted s then e = ErrStorage else m s = Inl e) \<and>
        g e (s\<lparr>a_aborted := a_aborted s \<or> aborts e\<rparr>) = (v, t))"
  by (auto simp: h_bind_def sql_attempt_def split: sum.splits prod.splits)

lemmas h_run = h_bind_Inr h_bind_Inl sql_run sql_ignore_run

abbreviation stamp :: "uuid \<Rightarrow> adb \<Rightarrow> adb" where
  "stamp u s \<equiv> s\<lparr>a_session := Some u, a_aborted := False\<rparr>"

abbreviation unstamp :: "adb \<Rightarrow> adb" where
  "unstamp s \<equiv> s\<lparr>a_session := None, a_aborted := False\<rparr>"

lemma serve_cases:
  assumes "serve u m s = (r, s')"
  obtains t where "run_handler m (stamp u s) = (r, t)" "s' = s"
  | t where "run_handler m (stamp u s) = (r, t)" "http_status r < 500" "\<not> a_aborted t" "s' = unstamp t"
  using assms unfolding serve_def by (auto simp: Let_def split: prod.splits if_splits)

lemma run_handler_cases:
  "run_handler m s = (r, t) \<longleftrightarrow> m s = (Inl r, t) \<or> m s = (Inr r, t)"
  by (auto simp: run_handler_def split: prod.splits sum.splits)

text \<open>A property of states that an aborted transaction does not affect is kept by a handler whose
  statements keep it.\<close>

locale abort_safe =
  fixes I :: "adb \<Rightarrow> bool"
  assumes aborted: "I s \<Longrightarrow> I (s\<lparr>a_aborted := b\<rparr>)"
begin

lemma pres_attempt: "tx_pres I m \<Longrightarrow> h_pres I (sql_attempt m)"
  by (auto simp: h_post_def sql_attempt_def tx_post_def aborted split: sum.splits)

lemma pres_sql: "tx_pres I m \<Longrightarrow> h_pres I (sql m f)"
  unfolding sql_def by (intro h_pres_bind pres_attempt h_pres_sum h_pres_respond h_pres_return)

lemma pres_sql_ignore: "tx_pres I m \<Longrightarrow> h_pres I (sql_ignore m)"
  unfolding sql_ignore_def by (intro h_pres_bind pres_attempt h_pres_return)

lemma serve_keeps:
  assumes "h_pres I m" "I (stamp u s)"
  obtains "snd (serve u m s) = s"
  | t where "I t" "snd (serve u m s) = unstamp t"
proof -
  obtain r s' where sv: "serve u m s = (r, s')" by fastforce
  from sv show thesis
  proof (cases rule: serve_cases)
    case (1 t)
    then show ?thesis using that(1) sv by simp
  next
    case (2 t)
    have "I (snd (m (stamp u s)))" using assms by (simp add: h_post_def)
    then have "I t" using 2(1) by (auto simp: run_handler_cases)
    then show ?thesis using that(2) sv 2 by simp
  qed
qed

end

section \<open>Authorization\<close>

lemma caller_role_run:
  "caller_role ac o' s = (Inr r, t) \<Longrightarrow> t = s \<and> (case r of
     Some x \<Rightarrow> \<exists>m \<in> set (a_members s). mb_user m = ac_user ac \<and> mb_org m = o' \<and> mb_role m = x
   | None \<Rightarrow> MembershipRepo_GetRole (ac_user ac) o' s = Inl ErrNotFound)"
  unfolding caller_role_def attempt_bind_run
  by (fastforce simp: MembershipRepo_GetRole_def aborts_def split: if_splits option.splits dest!: find_SomeD)

lemma ResolveOrg_run:
  assumes "ResolveOrg ac slug s = (Inr oc, t)"
  obtains p g where "t = s" "p \<in> set (a_profiles s)" "pf_id p = ac_user ac" "pf_suspended p = None"
    "g \<in> set (a_orgs s)" "og_slug g = slug" "og_deactivated g = None \<or> pf_platform_owner p"
    "oc_org oc = og_id g" "oc_slug oc = slug" "oc_platform oc \<longrightarrow> pf_platform_owner p"
    "oc_platform oc \<longleftrightarrow> oc_role oc = None"
    "\<And>r. oc_role oc = Some r \<Longrightarrow>
       \<exists>m \<in> set (a_members s). mb_user m = ac_user ac \<and> mb_org m = og_id g \<and> mb_role m = r"
proof -
  from assms obtain p g role where h:
      "ProfileRepo_GetByID (ac_user ac) s = Inr (p, s)" "pf_suspended p = None"
      "OrgRepo_GetBySlug slug s = Inr (g, s)" "og_deactivated g = None \<or> pf_platform_owner p"
      "caller_role ac (og_id g) s = (Inr role, t)" "role \<noteq> None \<or> pf_platform_owner p"
      "oc = \<lparr>oc_org = og_id g, oc_slug = og_slug g, oc_role = role, oc_platform = (role = None)\<rparr>" "t = s"
    unfolding ResolveOrg_def h_run
    by (auto simp: ProfileRepo_GetByID_def OrgRepo_GetBySlug_def tab_select1_Inr dest: caller_role_run)
  show thesis
  proof (rule that[of p g])
    show "\<exists>m\<in>set (a_members s). mb_user m = ac_user ac \<and> mb_org m = og_id g \<and> mb_role m = r"
      if "oc_role oc = Some r" for r
      using caller_role_run[OF h(5)] that h(7) by simp
  qed (use h in \<open>auto simp: ProfileRepo_GetByID_def OrgRepo_GetBySlug_def tab_select1_Inr dest!: find_SomeD\<close>)
qed

text \<open>Handlers that only read.\<close>

definition same_but_aborted :: "adb \<Rightarrow> adb \<Rightarrow> bool" where
  "same_but_aborted s t \<longleftrightarrow> (\<exists>b. t = s\<lparr>a_aborted := b\<rparr>)"

interpretation reads: abort_safe "same_but_aborted s0" for s0
  by unfold_locales (auto simp: same_but_aborted_def)

lemma same_but_aborted_refl [simp]: "same_but_aborted s s"
  unfolding same_but_aborted_def by (rule exI[of _ "a_aborted s"]) simp

lemma select_reads:
  "tx_pres I (a_select get org_of P)" "tx_pres I (ProfileRepo_GetByID i)" "tx_pres I (OrgRepo_GetBySlug slug)"
  "tx_pres I (MembershipRepo_GetRole u o')" "tx_pres I (ACourseRepo_Get i)"
  by (auto simp: tx_post_def a_select_def ProfileRepo_GetByID_def OrgRepo_GetBySlug_def MembershipRepo_GetRole_def
      ACourseRepo_Get_def tab_select1_Inr split: option.splits)

lemma caller_role_reads: "h_pres (same_but_aborted s0) (caller_role ac o')"
  unfolding caller_role_def
  by (intro h_pres_bind reads.pres_attempt select_reads h_pres_sum h_pres_if h_pres_return h_pres_respond)

lemma ResolveOrg_reads: "h_pres (same_but_aborted s0) (ResolveOrg ac slug)"
  unfolding ResolveOrg_def
  by (intro h_pres_bind reads.pres_sql select_reads caller_role_reads h_pres_guard h_pres_return)

lemma stampOrgContext_reads: "h_pres (same_but_aborted s0) (stampOrgContext ac o' msg)"
  unfolding stampOrgContext_def
  by (intro h_pres_bind reads.pres_attempt select_reads caller_role_reads h_pres_option h_pres_sum h_pres_if
      h_pres_return h_pres_respond)

lemma ResolveCourseOrg_reads: "h_pres (same_but_aborted s0) (ResolveCourseOrg ac i)"
  unfolding ResolveCourseOrg_def
  by (intro h_pres_bind reads.pres_sql select_reads stampOrgContext_reads h_pres_return)

lemma error_status [simp]:
  "http_status (internal_error e) = 500" "400 \<le> http_status (not_found_or_internal msg e)"
  by (simp_all add: internal_error_def not_found_or_internal_def)

lemma caller_role_error: "caller_role ac o' s = (Inl r, t) \<Longrightarrow> 400 \<le> http_status r"
  unfolding caller_role_def attempt_bind_run by (auto split: if_splits)

lemma ResolveOrg_error: "ResolveOrg ac slug s = (Inl r, t) \<Longrightarrow> 400 \<le> http_status r"
  unfolding ResolveOrg_def h_run by (auto dest: caller_role_error)

lemma stampOrgContext_error: "stampOrgContext ac o' msg s = (Inl r, t) \<Longrightarrow> 400 \<le> http_status r"
  unfolding stampOrgContext_def h_bind_Inl
  by (auto simp: attempt_bind_run split: if_splits option.splits dest: caller_role_error)

lemma ResolveCourseOrg_error: "ResolveCourseOrg ac i s = (Inl r, t) \<Longrightarrow> 400 \<le> http_status r"
  unfolding ResolveCourseOrg_def h_run by (auto dest: stampOrgContext_error)

text \<open>Between requests no transaction is open.\<close>

definition idle :: "adb \<Rightarrow> bool" where
  "idle s \<longleftrightarrow> a_session s = None \<and> \<not> a_aborted s"

lemma idle_unstamp [simp]: "idle (unstamp t)"
  by (simp add: idle_def)

lemma idle_stamp: "idle s \<Longrightarrow> same_but_aborted (stamp u s) t \<Longrightarrow> unstamp t = s"
  by (auto simp: idle_def same_but_aborted_def)

text \<open>A guard in front of a handler: when the answer is no error or something changed, the guard
  let the request through.\<close>

lemma guarded_request:
  assumes srv: "serve u (h_bind m f) s = (r, s')" and ok: "http_status r < 400 \<or> s' \<noteq> s" and "idle s"
    and reads: "h_pres (same_but_aborted (stamp u s)) m"
    and err: "\<And>r t. m (stamp u s) = (Inl r, t) \<Longrightarrow> 400 \<le> http_status r"
  obtains x t where "m (stamp u s) = (Inr x, t)" "same_but_aborted (stamp u s) t"
proof (cases "m (stamp u s)")
  case (Pair y t)
  have sm: "same_but_aborted (stamp u s) t"
    using h_presD[OF reads, of "stamp u s"] Pair by simp
  show thesis
  proof (cases y)
    case (Inr x)
    then show ?thesis using that Pair sm by simp
  next
    case (Inl r')
    then have st: "h_bind m f (stamp u s) = (Inl r', t)" and "400 \<le> http_status r'"
      using Pair err by (auto simp: h_bind_Inl)
    moreover have "run_handler (h_bind m f) (stamp u s) = (r', t)" using st by (simp add: run_handler_cases)
    ultimately have "r = r'" "s' = s"
      using srv idle_stamp[OF \<open>idle s\<close> sm] by (auto simp: serve_def Let_def split: if_splits)
    then show ?thesis using ok \<open>400 \<le> http_status r'\<close> by auto
  qed
qed

lemma RequireRole_run: "RequireRole R oc s = (Inr x, t) \<longleftrightarrow> t = s \<and>
    (oc_platform oc \<or> (\<exists>r. oc_role oc = Some r \<and> r \<in> R))"
  by (auto simp: RequireRole_def split: option.splits)

text \<open>
  A request to an organization's routes that answers without an error, or that changes
  anything, was made by a caller who is not suspended, about an organization that is active (or
  the caller is a platform owner), and the caller is a member with a role the route admits, or a
  platform owner.
\<close>

theorem org_route_authorised:
  assumes "serve (ac_user ac) (org_route base ac slug a) s = (r, s')"
    and "http_status r < 400 \<or> s' \<noteq> s" and "idle s"
  shows "\<exists>p \<in> set (a_profiles s). \<exists>g \<in> set (a_orgs s).
     pf_id p = ac_user ac \<and> pf_suspended p = None \<and> og_slug g = slug \<and>
     (og_deactivated g = None \<or> pf_platform_owner p) \<and>
     (pf_platform_owner p \<or> (\<exists>m \<in> set (a_members s).
        mb_user m = ac_user ac \<and> mb_org m = og_id g \<and> mb_role m \<in> org_roles a))"
proof -
  let ?guard = "h_bind (ResolveOrg ac slug) (\<lambda>oc. h_bind (RequireRole (org_roles a) oc) (\<lambda>_. h_return oc))"
  have route: "org_route base ac slug a = h_bind ?guard (\<lambda>oc. org_handler base ac oc a)"
    unfolding org_route_def by (rule ext) (auto simp: h_bind_def h_return_def split: prod.splits sum.splits)
  obtain oc t where g: "?guard (stamp (ac_user ac) s) = (Inr oc, t)"
  proof (rule guarded_request[OF assms(1)[unfolded route] assms(2,3)])
    show "h_pres (same_but_aborted (stamp (ac_user ac) s)) ?guard"
      by (intro h_pres_bind ResolveOrg_reads) (simp add: RequireRole_def h_pres_guard, rule h_pres_return)
    show "400 \<le> http_status r'" if "?guard (stamp (ac_user ac) s) = (Inl r', t')" for r' t'
      using that unfolding h_run by (auto dest: ResolveOrg_error simp: RequireRole_def)
  qed
  from g have res: "ResolveOrg ac slug (stamp (ac_user ac) s) = (Inr oc, t)"
    and "oc_platform oc \<or> (\<exists>r. oc_role oc = Some r \<and> r \<in> org_roles a)"
    unfolding h_bind_Inr by (auto simp: RequireRole_run)
  with ResolveOrg_run[OF res] show ?thesis by (smt (verit) adb.ext_inject adb.surjective adb.update_convs)
qed

end
