(* ===== verification/LearnSchema.thy ===== *)
theory LearnSchema
  imports TenancyFacts Repos
begin

text \<open>
  The tables of the learner journey (migrations \<^verbatim>\<open>000003\<close> to \<^verbatim>\<open>000005\<close>) with their
  repositories. A learning transaction sees the authoring tables, the shop's tables, where access
  to courses is recorded, and its own. The policies of the learner tables let a caller read own
  rows, and owners and teachers, by the role stamped on the transaction, all rows of their
  organization; they let members write own rows only.
\<close>

section \<open>Rows\<close>

record resume_position =
  rp_org :: uuid
  rp_learner :: uuid
  rp_course :: uuid
  rp_lesson :: uuid
  rp_at :: time

record lesson_progress =
  lp_org :: uuid
  lp_learner :: uuid
  lp_lesson :: uuid
  lp_course :: uuid
  lp_completed :: "time option"
  lp_watched :: int
  lp_percent :: rat

record quiz_answer =
  qn_question :: string
  qn_index :: "int option"
  qn_text :: string

record quiz_attempt =
  qa_id :: uuid
  qa_org :: uuid
  qa_learner :: uuid
  qa_block :: uuid
  qa_number :: int
  qa_answers :: "quiz_answer list"
  qa_at :: time

record quiz_score =
  qs_id :: uuid
  qs_org :: uuid
  qs_learner :: uuid
  qs_block :: uuid
  qs_number :: int
  qs_earned :: int
  qs_max :: int
  qs_percent :: rat
  qs_passed :: bool
  qs_at :: time

datatype submission_status = SubSubmitted | SubGraded | SubResubmitted
datatype due_status = DueOnTime | DueLate

record submission =
  sm_id :: uuid
  sm_org :: uuid
  sm_learner :: uuid
  sm_block :: uuid
  sm_number :: int
  sm_path :: string
  sm_at :: time
  sm_status :: submission_status
  sm_due :: due_status

record assignment_grade =
  gr_id :: uuid
  gr_org :: uuid
  gr_submission :: uuid
  gr_percent :: rat
  gr_feedback :: "string option"
  gr_by :: uuid
  gr_at :: time

record certificate =
  ct_id :: uuid
  ct_org :: uuid
  ct_learner :: uuid
  ct_course :: uuid
  ct_public :: string
  ct_issued :: time
  ct_path :: string

datatype rule_type = AllLessons | PercentLessons | AllQuizzes | PercentQuizzes

record completion_rule =
  ru_id :: uuid
  ru_course :: uuid
  ru_org :: uuid
  ru_type :: rule_type
  ru_threshold :: int
  ru_by :: uuid
  ru_updated :: time

record prerequisite =
  pq_course :: uuid
  pq_needs :: uuid
  pq_org :: uuid

record ldb =
  ld_adb :: adb
  ld_shop :: db
  ld_role :: "role option"
  ld_next :: uuid
  ld_resume :: "resume_position list"
  ld_progress :: "lesson_progress list"
  ld_attempts :: "quiz_attempt list"
  ld_scores :: "quiz_score list"
  ld_submissions :: "submission list"
  ld_grades :: "assignment_grade list"
  ld_certs :: "certificate list"
  ld_rules :: "completion_rule list"
  ld_prereqs :: "prerequisite list"

abbreviation now :: "ldb \<Rightarrow> time" where "now s \<equiv> a_clock (ld_adb s)"

section \<open>Statements\<close>

text \<open>Statements on the authoring tables and on the shop's.\<close>

definition on_adb :: "(adb, 'a) tx \<Rightarrow> (ldb, 'a) tx" where
  "on_adb m = (\<lambda>s. case m (ld_adb s) of Inl e \<Rightarrow> Inl e | Inr (x, t) \<Rightarrow> Inr (x, s\<lparr>ld_adb := t\<rparr>))"

definition on_shop :: "(db, 'a) tx \<Rightarrow> (ldb, 'a) tx" where
  "on_shop m = (\<lambda>s. case m (ld_shop s) of Inl e \<Rightarrow> Inl e | Inr (x, t) \<Rightarrow> Inr (x, s\<lparr>ld_shop := t\<rparr>))"

definition in_adb :: "(response, adb, 'a) hm \<Rightarrow> (response, ldb, 'a) hm" where
  "in_adb m = (\<lambda>s. let (r, t) = m (ld_adb s) in (r, s\<lparr>ld_adb := t\<rparr>))"

definition abort :: "err \<Rightarrow> ldb \<Rightarrow> ldb" where
  "abort e s = s\<lparr>ld_adb := (ld_adb s)\<lparr>a_aborted := a_aborted (ld_adb s) \<or> aborts e\<rparr>\<rparr>"

definition lsql_attempt :: "(ldb, 'a) tx \<Rightarrow> (response, ldb, err + 'a) hm" where
  "lsql_attempt m = (\<lambda>s. case (if a_aborted (ld_adb s) then Inl ErrStorage else m s) of
       Inr (x, s') \<Rightarrow> (Inr (Inr x), s') | Inl e \<Rightarrow> (Inr (Inl e), abort e s))"

definition lsql :: "(ldb, 'a) tx \<Rightarrow> (err \<Rightarrow> response) \<Rightarrow> (response, ldb, 'a) hm" where
  "lsql m f = h_bind (lsql_attempt m) (\<lambda>r. case r of Inl e \<Rightarrow> h_respond (f e) | Inr x \<Rightarrow> h_return x)"

definition lsql_ignore :: "(ldb, 'a) tx \<Rightarrow> (response, ldb, unit) hm" where
  "lsql_ignore m = h_bind (lsql_attempt m) (\<lambda>_. h_return ())"

definition lserve :: "uuid \<Rightarrow> ldb handler \<Rightarrow> ldb \<Rightarrow> response \<times> ldb" where
  "lserve u m s = (let (r, s') = run_handler m (s\<lparr>ld_adb := stamp u (ld_adb s), ld_role := None\<rparr>) in
     if 500 \<le> http_status r \<or> a_aborted (ld_adb s') then (r, s)
     else (r, s'\<lparr>ld_adb := unstamp (ld_adb s'), ld_role := None\<rparr>))"

section \<open>Row-level security of the learner tables\<close>

definition own_or_staff :: "ldb \<Rightarrow> uuid \<Rightarrow> uuid \<Rightarrow> bool" where
  "own_or_staff s learner o' = (case a_session (ld_adb s) of None \<Rightarrow> True
     | Some u \<Rightarrow> learner = u \<or> is_org_member (ld_adb s) u o' \<and> ld_role s \<in> {Some Owner, Some Teacher})"

definition own_member :: "ldb \<Rightarrow> uuid \<Rightarrow> uuid \<Rightarrow> bool" where
  "own_member s learner o' = (case a_session (ld_adb s) of None \<Rightarrow> True
     | Some u \<Rightarrow> learner = u \<and> is_org_member (ld_adb s) u o')"

definition own_row :: "ldb \<Rightarrow> uuid \<Rightarrow> bool" where
  "own_row s learner = (case a_session (ld_adb s) of None \<Rightarrow> True | Some u \<Rightarrow> learner = u)"

section \<open>Access (learner\_course\_access.go)\<close>

definition LAccess_Get :: "uuid \<Rightarrow> uuid \<Rightarrow> (ldb, course_access) tx" where
  "LAccess_Get l c = (\<lambda>s. case find (\<lambda>a. (own_or_staff s (acc_learner a) (acc_org a) \<or> app_is_platform_owner (ld_adb s)) \<and>
       acc_learner a = l \<and> acc_course a = c) (accesses (ld_shop s)) of
     None \<Rightarrow> Inl ErrNotFound | Some a \<Rightarrow> Inr (a, s))"

definition LAccess_Create :: "uuid \<Rightarrow> uuid \<Rightarrow> uuid \<Rightarrow> (ldb, course_access) tx" where
  "LAccess_Create o' l c = (\<lambda>s. if own_member s l o' then on_shop (LearnerCourseAccessRepo_Create o' l c None) s
     else Inl ErrStorage)"

section \<open>Resume position (learner\_resume\_position.go)\<close>

definition ResumeRepo_Upsert :: "uuid \<Rightarrow> uuid \<Rightarrow> uuid \<Rightarrow> uuid \<Rightarrow> (ldb, resume_position) tx" where
  "ResumeRepo_Upsert o' l c lesson = (\<lambda>s. if \<not> own_member s l o' then Inl ErrStorage else
     (case find (\<lambda>r. rp_learner r = l \<and> rp_course r = c) (ld_resume s) of
        None \<Rightarrow> let r = \<lparr>rp_org = o', rp_learner = l, rp_course = c, rp_lesson = lesson, rp_at = now s\<rparr> in
          Inr (r, s\<lparr>ld_resume := ld_resume s @ [r]\<rparr>)
      | Some r \<Rightarrow> Inr (r\<lparr>rp_lesson := lesson, rp_at := now s\<rparr>,
          s\<lparr>ld_resume := map (\<lambda>r. if rp_learner r = l \<and> rp_course r = c then r\<lparr>rp_lesson := lesson, rp_at := now s\<rparr> else r)
            (ld_resume s)\<rparr>)))"

definition ResumeRepo_Get :: "uuid \<Rightarrow> uuid \<Rightarrow> (ldb, resume_position) tx" where
  "ResumeRepo_Get l c = (\<lambda>s. tab_select1 ld_resume (\<lambda>r. own_or_staff s (rp_learner r) (rp_org r) \<and>
     rp_learner r = l \<and> rp_course r = c) s)"

section \<open>Progress (learner\_lesson\_progress.go)\<close>

text \<open>Both upserts: a fresh row, or the columns \<open>f\<close> sets in the row of the learner and lesson.\<close>

definition upsert_progress ::
  "uuid \<Rightarrow> uuid \<Rightarrow> (time \<Rightarrow> lesson_progress) \<Rightarrow> (time \<Rightarrow> lesson_progress \<Rightarrow> lesson_progress) \<Rightarrow> (ldb, lesson_progress) tx" where
  "upsert_progress l lesson fresh f = (\<lambda>s.
     if \<not> own_member s l (lp_org (fresh (now s))) then Inl ErrStorage else
     (case find (\<lambda>p. lp_learner p = l \<and> lp_lesson p = lesson) (ld_progress s) of
        None \<Rightarrow> Inr (fresh (now s), s\<lparr>ld_progress := ld_progress s @ [fresh (now s)]\<rparr>)
      | Some p \<Rightarrow> Inr (f (now s) p, s\<lparr>ld_progress :=
          map (\<lambda>p. if lp_learner p = l \<and> lp_lesson p = lesson then f (now s) p else p) (ld_progress s)\<rparr>)))"

definition ProgressRepo_UpsertWatchProgress ::
  "(rat \<Rightarrow> rat option) \<Rightarrow> uuid \<Rightarrow> uuid \<Rightarrow> uuid \<Rightarrow> uuid \<Rightarrow> int \<Rightarrow> rat \<Rightarrow> (ldb, lesson_progress) tx" where
  "ProgressRepo_UpsertWatchProgress col o' l lesson c ms pct = (case col pct of None \<Rightarrow> tx_throw ErrStorage
     | Some w \<Rightarrow> upsert_progress l lesson
         (\<lambda>t. \<lparr>lp_org = o', lp_learner = l, lp_lesson = lesson, lp_course = c, lp_completed = None,
               lp_watched = ms, lp_percent = w\<rparr>)
         (\<lambda>t p. p\<lparr>lp_watched := ms, lp_percent := w\<rparr>))"

definition ProgressRepo_MarkComplete :: "uuid \<Rightarrow> uuid \<Rightarrow> uuid \<Rightarrow> uuid \<Rightarrow> (ldb, lesson_progress) tx" where
  "ProgressRepo_MarkComplete o' l lesson c = upsert_progress l lesson
     (\<lambda>t. \<lparr>lp_org = o', lp_learner = l, lp_lesson = lesson, lp_course = c, lp_completed = Some t,
           lp_watched = 0, lp_percent = 0\<rparr>)
     (\<lambda>t p. p\<lparr>lp_completed := (case lp_completed p of None \<Rightarrow> Some t | Some d \<Rightarrow> Some d)\<rparr>)"

definition ProgressRepo_ListByCourse :: "uuid \<Rightarrow> uuid \<Rightarrow> (ldb, lesson_progress list) tx" where
  "ProgressRepo_ListByCourse l c = tx_gets (\<lambda>s. filter (\<lambda>p. own_or_staff s (lp_learner p) (lp_org p) \<and>
     lp_learner p = l \<and> lp_course p = c) (ld_progress s))"

section \<open>Quizzes (learner\_quiz\_attempt.go, learner\_quiz\_score.go)\<close>

definition AttemptRepo_Create :: "uuid \<Rightarrow> uuid \<Rightarrow> uuid \<Rightarrow> int \<Rightarrow> quiz_answer list \<Rightarrow> (ldb, quiz_attempt) tx" where
  "AttemptRepo_Create o' l b n answers = (\<lambda>s.
     if \<not> own_member s l o' then Inl ErrStorage
     else if \<exists>a \<in> set (ld_attempts s). qa_learner a = l \<and> qa_block a = b \<and> qa_number a = n then Inl ErrUniqueViolation
     else let a = \<lparr>qa_id = ld_next s, qa_org = o', qa_learner = l, qa_block = b, qa_number = n, qa_answers = answers, qa_at = now s\<rparr> in
       Inr (a, s\<lparr>ld_attempts := ld_attempts s @ [a], ld_next := Suc (ld_next s)\<rparr>))"

definition AttemptRepo_CountByLearnerAndBlock :: "uuid \<Rightarrow> uuid \<Rightarrow> (ldb, int) tx" where
  "AttemptRepo_CountByLearnerAndBlock l b = tx_gets (\<lambda>s. int (length (filter (\<lambda>a. own_or_staff s (qa_learner a) (qa_org a) \<and>
     qa_learner a = l \<and> qa_block a = b) (ld_attempts s))))"

definition ScoreRepo_Create ::
  "(rat \<Rightarrow> rat option) \<Rightarrow> uuid \<Rightarrow> uuid \<Rightarrow> uuid \<Rightarrow> int \<Rightarrow> int \<Rightarrow> int \<Rightarrow> rat \<Rightarrow> bool \<Rightarrow> (ldb, quiz_score) tx" where
  "ScoreRepo_Create col o' l b n earned mx pct passed = (\<lambda>s. case col pct of None \<Rightarrow> Inl ErrStorage | Some w \<Rightarrow>
     if \<not> own_member s l o' then Inl ErrStorage
     else if \<exists>a \<in> set (ld_scores s). qs_learner a = l \<and> qs_block a = b \<and> qs_number a = n then Inl ErrUniqueViolation
     else let a = \<lparr>qs_id = ld_next s, qs_org = o', qs_learner = l, qs_block = b, qs_number = n, qs_earned = earned,
            qs_max = mx, qs_percent = w, qs_passed = passed, qs_at = now s\<rparr> in
       Inr (a, s\<lparr>ld_scores := ld_scores s @ [a], ld_next := Suc (ld_next s)\<rparr>))"

text \<open>\<^verbatim>\<open>ORDER BY percentage DESC, attempt_number DESC LIMIT 1\<close>.\<close>

fun best_score :: "quiz_score list \<Rightarrow> quiz_score option" where
  "best_score [] = None"
| "best_score (a # as) = (case best_score as of None \<Rightarrow> Some a
     | Some b \<Rightarrow> if qs_percent b < qs_percent a \<or> qs_percent b = qs_percent a \<and> qs_number b < qs_number a
         then Some a else Some b)"

definition ScoreRepo_GetBestScore :: "uuid \<Rightarrow> uuid \<Rightarrow> (ldb, quiz_score) tx" where
  "ScoreRepo_GetBestScore l b = (\<lambda>s. case best_score (filter (\<lambda>a. own_or_staff s (qs_learner a) (qs_org a) \<and>
       qs_learner a = l \<and> qs_block a = b) (ld_scores s)) of None \<Rightarrow> Inl ErrNotFound | Some a \<Rightarrow> Inr (a, s))"

section \<open>Assignments (learner\_assignment\_submission.go, learner\_assignment\_grade.go)\<close>

definition SubmissionRepo_Create ::
  "uuid \<Rightarrow> uuid \<Rightarrow> uuid \<Rightarrow> int \<Rightarrow> string \<Rightarrow> submission_status \<Rightarrow> due_status \<Rightarrow> (ldb, submission) tx" where
  "SubmissionRepo_Create o' l b n path st due = (\<lambda>s.
     if \<not> own_member s l o' then Inl ErrStorage
     else if \<exists>a \<in> set (ld_submissions s). sm_learner a = l \<and> sm_block a = b \<and> sm_number a = n then Inl ErrUniqueViolation
     else let a = \<lparr>sm_id = ld_next s, sm_org = o', sm_learner = l, sm_block = b, sm_number = n, sm_path = path,
            sm_at = now s, sm_status = st, sm_due = due\<rparr> in
       Inr (a, s\<lparr>ld_submissions := ld_submissions s @ [a], ld_next := Suc (ld_next s)\<rparr>))"

definition SubmissionRepo_Get :: "uuid \<Rightarrow> (ldb, submission) tx" where
  "SubmissionRepo_Get i = (\<lambda>s. tab_select1 ld_submissions (\<lambda>a. own_or_staff s (sm_learner a) (sm_org a) \<and> sm_id a = i) s)"

definition SubmissionRepo_CountByLearnerAndBlock :: "uuid \<Rightarrow> uuid \<Rightarrow> (ldb, int) tx" where
  "SubmissionRepo_CountByLearnerAndBlock l b = tx_gets (\<lambda>s. int (length (filter (\<lambda>a. own_or_staff s (sm_learner a) (sm_org a) \<and>
     sm_learner a = l \<and> sm_block a = b) (ld_submissions s))))"

definition SubmissionRepo_ListPendingByCourse :: "uuid \<Rightarrow> (ldb, submission list) tx" where
  "SubmissionRepo_ListPendingByCourse c = tx_gets (\<lambda>s. sort_key sm_at (filter (\<lambda>a. own_or_staff s (sm_learner a) (sm_org a) \<and>
     sm_status a \<noteq> SubGraded \<and>
     (\<exists>b \<in> set (a_blocks (ld_adb s)). sees (ld_adb s) (bk_org b) \<and> bk_id b = sm_block a \<and> bk_course b = c)) (ld_submissions s)))"

definition SubmissionRepo_SetStatus :: "uuid \<Rightarrow> submission_status \<Rightarrow> (ldb, submission) tx" where
  "SubmissionRepo_SetStatus i st = (\<lambda>s. tab_update ld_submissions (\<lambda>xs s. s\<lparr>ld_submissions := xs\<rparr>)
     (\<lambda>a. own_or_staff s (sm_learner a) (sm_org a) \<and> sm_id a = i) (\<lambda>a. a\<lparr>sm_status := st\<rparr>) s)"

definition GradeRepo_Create :: "(rat \<Rightarrow> rat option) \<Rightarrow> uuid \<Rightarrow> uuid \<Rightarrow> rat \<Rightarrow> string option \<Rightarrow> uuid \<Rightarrow> (ldb, assignment_grade) tx" where
  "GradeRepo_Create col o' sub pct feedback teacher = (\<lambda>s. case col pct of None \<Rightarrow> Inl ErrStorage | Some w \<Rightarrow>
     if \<not> (case a_session (ld_adb s) of None \<Rightarrow> True
           | Some u \<Rightarrow> is_org_member (ld_adb s) u o' \<and> ld_role s \<in> {Some Owner, Some Teacher} \<and> teacher = u) then Inl ErrStorage
     else if \<exists>g \<in> set (ld_grades s). gr_submission g = sub then Inl ErrUniqueViolation
     else let g = \<lparr>gr_id = ld_next s, gr_org = o', gr_submission = sub, gr_percent = w, gr_feedback = feedback,
            gr_by = teacher, gr_at = now s\<rparr> in
       Inr (g, s\<lparr>ld_grades := ld_grades s @ [g], ld_next := Suc (ld_next s)\<rparr>))"

text \<open>The policy of grades admits the learner of the graded submission.\<close>

definition sees_grade :: "ldb \<Rightarrow> assignment_grade \<Rightarrow> bool" where
  "sees_grade s g = (case a_session (ld_adb s) of None \<Rightarrow> True
     | Some u \<Rightarrow> is_org_member (ld_adb s) u (gr_org g) \<and> ld_role s \<in> {Some Owner, Some Teacher} \<or>
         (\<exists>a \<in> set (ld_submissions s). sm_id a = gr_submission g \<and> sm_learner a = u))"

definition GradeRepo_ListSubmissionsWithGrades :: "uuid \<Rightarrow> uuid \<Rightarrow> (ldb, (submission \<times> assignment_grade option) list) tx" where
  "GradeRepo_ListSubmissionsWithGrades l b = tx_gets (\<lambda>s.
     map (\<lambda>a. (a, find (\<lambda>g. sees_grade s g \<and> gr_submission g = sm_id a) (ld_grades s)))
       (sort_key (\<lambda>a. - sm_number a) (filter (\<lambda>a. own_or_staff s (sm_learner a) (sm_org a) \<and>
          sm_learner a = l \<and> sm_block a = b) (ld_submissions s))))"

section \<open>Certificates (learner\_certificate.go)\<close>

definition CertificateRepo_Create :: "uuid \<Rightarrow> uuid \<Rightarrow> uuid \<Rightarrow> string \<Rightarrow> string \<Rightarrow> (ldb, certificate) tx" where
  "CertificateRepo_Create o' l c public path = (\<lambda>s.
     if \<not> own_member s l o' then Inl ErrStorage
     else if \<exists>x \<in> set (ld_certs s). ct_public x = public \<or> ct_learner x = l \<and> ct_course x = c then Inl ErrUniqueViolation
     else let x = \<lparr>ct_id = ld_next s, ct_org = o', ct_learner = l, ct_course = c, ct_public = public, ct_issued = now s, ct_path = path\<rparr> in
       Inr (x, s\<lparr>ld_certs := ld_certs s @ [x], ld_next := Suc (ld_next s)\<rparr>))"

definition CertificateRepo_GetByLearnerAndCourse :: "uuid \<Rightarrow> uuid \<Rightarrow> (ldb, certificate) tx" where
  "CertificateRepo_GetByLearnerAndCourse l c = (\<lambda>s. tab_select1 ld_certs (\<lambda>x. own_or_staff s (ct_learner x) (ct_org x) \<and>
     ct_learner x = l \<and> ct_course x = c) s)"

definition CertificateRepo_ListByLearner :: "uuid \<Rightarrow> (ldb, certificate list) tx" where
  "CertificateRepo_ListByLearner l = tx_gets (\<lambda>s. sort_key (\<lambda>x. - ct_issued x)
     (filter (\<lambda>x. own_or_staff s (ct_learner x) (ct_org x) \<and> ct_learner x = l) (ld_certs s)))"

text \<open>\<^verbatim>\<open>verify_certificate()\<close> runs past the policies and returns three columns.\<close>

definition verify_certificate :: "string \<Rightarrow> (ldb, string option \<times> string \<times> time) tx" where
  "verify_certificate public = (\<lambda>s. case find (\<lambda>x. ct_public x = public) (ld_certs s) of None \<Rightarrow> Inl ErrNotFound
     | Some x \<Rightarrow> (case (find (\<lambda>p. pf_id p = ct_learner x) (a_profiles (ld_adb s)),
                      find (\<lambda>c. c_id c = ct_course x) (a_courses (ld_adb s))) of
         (Some p, Some c) \<Rightarrow> Inr ((pf_name p, c_title c, ct_issued x), s) | _ \<Rightarrow> Inl ErrNotFound))"

section \<open>Prerequisites and completion rules (course\_prerequisite.go, course\_completion\_rule.go)\<close>

definition PrerequisiteRepo_ListForCourse :: "uuid \<Rightarrow> (ldb, uuid list) tx" where
  "PrerequisiteRepo_ListForCourse c = tx_gets (\<lambda>s. map pq_needs
     (filter (\<lambda>q. sees (ld_adb s) (pq_org q) \<and> pq_course q = c) (ld_prereqs s)))"

definition RuleRepo_ListForCourse :: "uuid \<Rightarrow> (ldb, completion_rule list) tx" where
  "RuleRepo_ListForCourse c = tx_gets (\<lambda>s. filter (\<lambda>r. sees (ld_adb s) (ru_org r) \<and> ru_course r = c) (ld_rules s))"

definition percentOf :: "int \<Rightarrow> int \<Rightarrow> rat" where
  "percentOf part n = (if n = 0 then 0 else fl (fl (of_int part / of_int n) * 100))"

definition countCourseLessons :: "uuid \<Rightarrow> uuid \<Rightarrow> (ldb, int \<times> int) tx" where
  "countCourseLessons c l = tx_gets (\<lambda>s.
     (int (length (a_rows a_lessons ls_org (\<lambda>r. ls_course r = c) (ld_adb s))),
      int (length (filter (\<lambda>p. own_or_staff s (lp_learner p) (lp_org p) \<and> lp_course p = c \<and> lp_learner p = l \<and>
        lp_completed p \<noteq> None) (ld_progress s)))))"

definition countCourseQuizzes :: "uuid \<Rightarrow> uuid \<Rightarrow> (ldb, int \<times> int) tx" where
  "countCourseQuizzes c l = tx_gets (\<lambda>s.
     let quizzes = a_rows a_blocks bk_org (\<lambda>b. bk_course b = c \<and> bk_type b = QuizBlock) (ld_adb s) in
     (int (length quizzes), int (length (filter (\<lambda>b. \<exists>x \<in> set (ld_scores s).
        own_or_staff s (qs_learner x) (qs_org x) \<and> qs_block x = bk_id b \<and> qs_learner x = l \<and> qs_passed x) quizzes))))"

definition rule_satisfied :: "rule_type \<times> int \<Rightarrow> int \<times> int \<Rightarrow> int \<times> int \<Rightarrow> bool" where
  "rule_satisfied r lessons quizzes = (case (r, lessons, quizzes) of ((ty, threshold), (nl, cl), (nq, pq)) \<Rightarrow> (case ty of
       AllLessons \<Rightarrow> 0 < nl \<and> cl = nl
     | PercentLessons \<Rightarrow> 0 < nl \<and> of_int threshold \<le> percentOf cl nl
     | AllQuizzes \<Rightarrow> 0 < nq \<and> pq = nq
     | PercentQuizzes \<Rightarrow> 0 < nq \<and> of_int threshold \<le> percentOf pq nq))"

definition EvaluateCompletion :: "uuid \<Rightarrow> uuid \<Rightarrow> (ldb, bool) tx" where
  "EvaluateCompletion c l =
     tx_bind (RuleRepo_ListForCourse c) (\<lambda>rules.
     tx_bind (countCourseLessons c l) (\<lambda>lessons.
     tx_bind (countCourseQuizzes c l) (\<lambda>quizzes.
       tx_return (\<forall>r \<in> set (if rules = [] then [(AllLessons, 100)] else map (\<lambda>r. (ru_type r, ru_threshold r)) rules).
         rule_satisfied r lessons quizzes))))"

end
