(* ===== verification/Courses.thy ===== *)
theory Courses
  imports Tenancy
begin

text \<open>
  The course handlers (\<^verbatim>\<open>handlers/courses.go\<close>, \<^verbatim>\<open>versions.go\<close>) and the
  worker's sweep over scheduled courses (\<^verbatim>\<open>worker/publish.go\<close>). What PostgreSQL and the
  HTML sanitizer do to stored values is an environment: \<open>ce_col\<close> converts a float to a
  \<^verbatim>\<open>NUMERIC(20,10)\<close> column (\<open>None\<close> when it does not fit), \<open>ce_jsonb\<close> a JSON text to
  \<^verbatim>\<open>jsonb\<close>, \<open>ce_html\<close> is bluemonday's policy and \<open>ce_category\<close> says which categories
  exist. The cached public catalog is not modelled.
\<close>

record content_env =
  ce_col :: "rat \<Rightarrow> rat option"
  ce_jsonb :: "json \<Rightarrow> json option"
  ce_html :: "string \<Rightarrow> string"
  ce_category :: "uuid \<Rightarrow> bool"

definition known_category :: "content_env \<Rightarrow> uuid option \<Rightarrow> bool" where
  "known_category env cat = (case cat of None \<Rightarrow> True | Some i \<Rightarrow> ce_category env i)"

definition j_opt :: "('a \<Rightarrow> json) \<Rightarrow> 'a option \<Rightarrow> json" where
  "j_opt f v = (case v of None \<Rightarrow> JNull | Some x \<Rightarrow> f x)"

definition courseResponse :: "course \<Rightarrow> json" where
  "courseResponse c = JObj [(''id'', JInt (int (c_id c))), (''org_id'', JInt (int (c_org c))), (''title'', JStr (c_title c)),
     (''description'', JStr (c_description c)), (''cover_image_url'', j_opt JStr (c_cover c)),
     (''category_id'', j_opt (\<lambda>i. JInt (int i)) (c_category c)), (''status'', JStr (course_status_str (c_status c))),
     (''publish_date'', j_opt JInt (c_publish_date c)), (''created_by'', JInt (int (c_created_by c))),
     (''created_at'', JInt (c_created c)), (''updated_at'', JInt (c_updated c)),
     (''published_at'', j_opt JInt (c_published_at c)), (''archived_at'', j_opt JInt (c_archived_at c))]"

section \<open>Creating and listing\<close>

definition resolveOrgBySlugForCourseCreation :: "auth_ctx \<Rightarrow> string \<Rightarrow> (response, adb, uuid) hm" where
  "resolveOrgBySlugForCourseCreation ac slug =
     h_bind (h_guard (slug \<noteq> []) (RespErr 400 ''org_slug is required'')) (\<lambda>_.
     h_bind (sql (OrgRepo_GetBySlug slug) (\<lambda>_. RespErr 404 ''organization not found'')) (\<lambda>g.
     h_bind (sql (MembershipRepo_GetRole (ac_user ac) (og_id g)) (\<lambda>_. RespErr 403 ''forbidden'')) (\<lambda>role.
     h_bind (h_guard (role = Owner \<or> role = Teacher) (RespErr 403 ''forbidden'')) (\<lambda>_.
       h_return (og_id g)))))"

record createCourseRequest =
  cc_slug :: string
  cc_title :: string
  cc_description :: string
  cc_category :: "uuid option"

definition CreateCourse :: "content_env \<Rightarrow> auth_ctx \<Rightarrow> createCourseRequest option \<Rightarrow> adb handler" where
  "CreateCourse env ac body = (case body of None \<Rightarrow> h_respond (RespErr 400 ''invalid request'')
     | Some req \<Rightarrow>
       h_bind (h_guard (cc_slug req \<noteq> [] \<and> size_between 1 300 (cc_title req)) (RespErr 400 ''invalid request'')) (\<lambda>_.
       h_bind (resolveOrgBySlugForCourseCreation ac (cc_slug req)) (\<lambda>o'.
       h_bind (enforceQuota o' DimCourses) (\<lambda>_.
       h_bind (sql (if known_category env (cc_category req)
           then CourseRepo_Create o' (ac_user ac) (cc_title req) (cc_description req) (cc_category req)
           else tx_throw ErrStorage) internal_error) (\<lambda>c.
         h_return (Resp 201 (courseResponse c)))))))"

definition ListCourses :: "auth_ctx \<Rightarrow> string \<Rightarrow> adb handler" where
  "ListCourses ac slug =
     h_bind (h_guard (slug \<noteq> []) (RespErr 400 ''org_slug query parameter is required'')) (\<lambda>_.
     h_bind (sql (OrgRepo_GetBySlug slug) (\<lambda>_. RespErr 404 ''organization not found'')) (\<lambda>g.
     h_bind (sql (MembershipRepo_GetRole (ac_user ac) (og_id g)) (\<lambda>_. RespErr 403 ''forbidden'')) (\<lambda>_.
     h_bind (sql (CourseRepo_List (og_id g)) internal_error) (\<lambda>cs.
       h_return (Resp 200 (JObj [(''courses'', JArr (map courseResponse cs))]))))))"

section \<open>One course\<close>

record updateCourseRequest =
  uc_title :: string
  uc_description :: string
  uc_category :: "uuid option"
  uc_cover :: "string option"

definition UpdateCourse :: "content_env \<Rightarrow> course \<Rightarrow> updateCourseRequest option \<Rightarrow> adb handler" where
  "UpdateCourse env c body = (case body of None \<Rightarrow> h_respond (RespErr 400 ''invalid request'')
     | Some req \<Rightarrow>
       h_bind (h_guard (size_between 1 300 (uc_title req)) (RespErr 400 ''invalid request'')) (\<lambda>_.
       h_bind (sql (if known_category env (uc_category req)
           then CourseRepo_UpdateMetadata (c_id c) (uc_title req) (uc_description req) (uc_category req) (uc_cover req)
           else tx_throw ErrStorage) internal_error) (\<lambda>c'.
         h_return (Resp 200 (courseResponse c')))))"

definition DeleteCourse :: "course \<Rightarrow> adb handler" where
  "DeleteCourse c =
     h_bind (h_guard (c_status c = CDraft)
       (RespErr 409 ''only draft courses can be deleted; archive this course instead'')) (\<lambda>_.
     h_bind (sql (CourseRepo_Delete (c_id c)) internal_error) (\<lambda>_.
       h_return (Resp 204 JNull)))"

fun validTransitions :: "course_status \<Rightarrow> course_status list" where
  "validTransitions CDraft = [CReview, CArchived]"
| "validTransitions CReview = [CDraft, CPublished, CScheduled, CArchived]"
| "validTransitions CScheduled = [CReview, CPublished, CArchived]"
| "validTransitions CPublished = [CUnpublished, CArchived]"
| "validTransitions CUnpublished = [CArchived]"
| "validTransitions CArchived = []"

definition parse_course_status :: "string \<Rightarrow> course_status option" where
  "parse_course_status t = find (\<lambda>st. course_status_str st = t)
     [CDraft, CReview, CScheduled, CPublished, CUnpublished, CArchived]"

record transitionRequest =
  tq_status :: string
  tq_date :: "time option"

definition cannot :: "string \<Rightarrow> course_status \<Rightarrow> string \<Rightarrow> response" where
  "cannot verb st rest = RespErr 400 (''cannot '' @ verb @ '' from \"'' @ course_status_str st @ ''\"'' @ rest)"

definition TransitionCourse :: "course \<Rightarrow> transitionRequest option \<Rightarrow> adb handler" where
  "TransitionCourse c body = (case body of None \<Rightarrow> h_respond (RespErr 400 ''invalid request'')
     | Some req \<Rightarrow> if tq_status req = [] then h_respond (RespErr 400 ''invalid request'')
       else if parse_course_status (tq_status req) = Some CPublished
         then h_respond (RespErr 400 ''use POST /publish to transition to published'')
       else (case parse_course_status (tq_status req) of
         None \<Rightarrow> h_respond (cannot ''transition'' (c_status c) ('' to \"'' @ tq_status req @ ''\"''))
       | Some st \<Rightarrow>
           h_bind (h_guard (st \<in> set (validTransitions (c_status c)))
             (cannot ''transition'' (c_status c) ('' to \"'' @ tq_status req @ ''\"''))) (\<lambda>_.
           h_bind (if st = CArchived then sql (CourseRepo_Archive (c_id c)) internal_error
             else if st = CScheduled then
               (case tq_date req of None \<Rightarrow> h_respond (RespErr 400 ''publish_date is required to schedule a course'')
                | Some d \<Rightarrow> sql (CourseRepo_SetScheduled (c_id c) d) internal_error)
             else sql (CourseRepo_SetStatus (c_id c) st) internal_error) (\<lambda>c'.
             h_return (Resp 200 (courseResponse c'))))))"

section \<open>Publishing\<close>

text \<open>\<^verbatim>\<open>VideoBlockContent\<close>: the interactive path ignores a decoding error and goes on with
  the fields decoded so far; the decoder keeps decoding after a value of the wrong type.\<close>

fun last_string :: "string \<Rightarrow> (string \<times> json) list \<Rightarrow> string \<Rightarrow> string" where
  "last_string n [] a = a"
| "last_string n ((k, j) # r) a = last_string n r (if key_eq k n then (case j of JStr t \<Rightarrow> t | _ \<Rightarrow> a) else a)"

definition video_asset :: "json \<Rightarrow> string" where
  "video_asset j = (case j of JObj kvs \<Rightarrow> last_string ''asset_id'' kvs [] | _ \<Rightarrow> [])"

definition videoBlockContent :: "json \<Rightarrow> err + string" where
  "videoBlockContent j = (case json_members j of Inl e \<Rightarrow> Inl e | Inr kvs \<Rightarrow>
     (case (dec_field dec_string ''asset_id'' kvs [], dec_field dec_int64 ''duration'' kvs 0,
            dec_field dec_string ''thumbnail_url'' kvs []) of
        (Inr a, Inr _, Inr _) \<Rightarrow> Inr a | _ \<Rightarrow> Inl ErrUnmarshal))"

fun collect_not_ready :: "block list \<Rightarrow> (response, adb, uuid list) hm" where
  "collect_not_ready [] = h_return []"
| "collect_not_ready (b # bs) =
     h_bind (sql_attempt (AssetRepo_Get (video_asset (bk_content b)))) (\<lambda>r.
     h_bind (collect_not_ready bs) (\<lambda>rest.
       h_return (case r of Inl _ \<Rightarrow> bk_id b # rest
         | Inr a \<Rightarrow> if as_status a = ProcReady then rest else bk_id b # rest)))"

definition PublishCourse :: "auth_ctx \<Rightarrow> course \<Rightarrow> adb handler" where
  "PublishCourse ac c =
     h_bind (h_guard (c_status c \<in> {CReview, CScheduled, CUnpublished}) (cannot ''publish'' (c_status c) [])) (\<lambda>_.
     h_bind (sql (BlockRepo_ListVideoBlocksByCourse (c_id c)) internal_error) (\<lambda>vs.
     h_bind (collect_not_ready vs) (\<lambda>notReady.
     h_bind (h_guard (notReady = []) (Resp 409 (JObj
       [(''error'', JStr ''cannot publish: some video blocks are not finished processing''),
        (''blocks'', JArr (map (\<lambda>i. JInt (int i)) notReady))]))) (\<lambda>_.
     h_bind (sql (CourseRepo_Publish (c_id c)) internal_error) (\<lambda>c'.
     h_bind (sql (CourseVersionRepo_Snapshot (c_id c) (c_org c) (ac_user ac)) internal_error) (\<lambda>_.
       h_return (Resp 200 (courseResponse c'))))))))"

definition UnpublishCourse :: "course \<Rightarrow> adb handler" where
  "UnpublishCourse c =
     h_bind (h_guard (c_status c = CPublished) (cannot ''unpublish'' (c_status c) [])) (\<lambda>_.
     h_bind (sql (CourseRepo_SetStatus (c_id c) CUnpublished) internal_error) (\<lambda>c'.
     h_bind (sql (AssetRepo_RevokeSignedURLsForCourse (c_id c)) internal_error) (\<lambda>_.
       h_return (Resp 200 (courseResponse c')))))"

definition DuplicateCourse :: "auth_ctx \<Rightarrow> course \<Rightarrow> adb handler" where
  "DuplicateCourse ac c =
     h_bind (sql (CourseRepo_Duplicate (c_id c) (ac_user ac)) (not_found_or_internal ''course not found'')) (\<lambda>c'.
       h_return (Resp 201 (courseResponse c')))"

section \<open>Versions (versions.go)\<close>

definition version_head :: "course_version \<Rightarrow> (string \<times> json) list" where
  "version_head v = [(''id'', JInt (int (cv_id v))), (''version_number'', JInt (cv_number v)),
     (''created_by'', JInt (int (cv_created_by v))), (''created_at'', JInt (cv_created v))]"

fun block_type_str :: "block_type \<Rightarrow> string" where
  "block_type_str TextBlock = ''text''" | "block_type_str ImageBlock = ''image''"
| "block_type_str VideoBlock = ''video''" | "block_type_str FileBlock = ''file''"
| "block_type_str QuizBlock = ''quiz''" | "block_type_str AssignmentBlock = ''assignment''"

definition snapshot_json :: "course_snapshot \<Rightarrow> json" where
  "snapshot_json cs = JObj [(''title'', JStr (cs_title cs)), (''description'', JStr (cs_description cs)),
     (''chapters'', JArr (map (\<lambda>c. JObj [(''title'', JStr (sc_title c)), (''sort_order'', JDec (sc_sort c)),
        (''lessons'', JArr (map (\<lambda>l. JObj [(''title'', JStr (sl_title l)), (''sort_order'', JDec (sl_sort l)),
           (''blocks'', JArr (map (\<lambda>b. JObj [(''type'', JStr (block_type_str (sb_type b))), (''content'', sb_content b), (''sort_order'', JDec (sb_sort b))])
              (sl_blocks l)))]) (sc_lessons c)))]) (cs_chapters cs)))]"

definition ListCourseVersions :: "course \<Rightarrow> adb handler" where
  "ListCourseVersions c = h_bind (sql (CourseVersionRepo_List (c_id c)) internal_error) (\<lambda>vs.
     h_return (Resp 200 (JObj [(''versions'', JArr (map (\<lambda>v.
       JObj (version_head v @ [(''chapter_count'', JInt (int (length (cs_chapters (cv_snapshot v)))))])) vs))])))"

definition GetCourseVersion :: "uuid \<Rightarrow> adb handler" where
  "GetCourseVersion i = h_bind (sql (CourseVersionRepo_Get i) (not_found_or_internal ''version not found'')) (\<lambda>v.
     h_return (Resp 200 (JObj (version_head v @ [(''snapshot'', snapshot_json (cv_snapshot v))]))))"

definition RestoreCourseVersion :: "auth_ctx \<Rightarrow> course \<Rightarrow> uuid \<Rightarrow> adb handler" where
  "RestoreCourseVersion ac c i =
     h_bind (sql (CourseVersionRepo_Restore (c_id c) i (ac_user ac)) (not_found_or_internal ''version not found'')) (\<lambda>v.
       h_return (Resp 201 (JObj (version_head v))))"

section \<open>The sweep of scheduled courses (publish.go)\<close>

text \<open>The worker's connection carries no caller: \<open>a_session\<close> is \<open>None\<close>.\<close>

fun sweep_videos_ready :: "adb \<Rightarrow> block list \<Rightarrow> bool" where
  "sweep_videos_ready s [] = True"
| "sweep_videos_ready s (b # bs) = (case videoBlockContent (bk_content b) of
     Inl _ \<Rightarrow> sweep_videos_ready s bs
   | Inr i \<Rightarrow> (case AssetRepo_Get i s of Inl _ \<Rightarrow> False
       | Inr (a, _) \<Rightarrow> as_status a = ProcReady \<and> sweep_videos_ready s bs))"

definition publishOneScheduledCourse :: "uuid \<Rightarrow> (adb, unit) tx" where
  "publishOneScheduledCourse i =
     tx_bind (ACourseRepo_Get i) (\<lambda>c.
     if c_status c \<noteq> CScheduled then tx_return () else
     tx_bind (BlockRepo_ListVideoBlocksByCourse i) (\<lambda>vs s.
       if \<not> sweep_videos_ready s vs then Inr ((), s)
       else tx_bind (CourseRepo_Publish i) (\<lambda>_.
            tx_bind (CourseVersionRepo_Snapshot i (c_org c) (c_created_by c)) (\<lambda>_. tx_return ())) s))"

definition due_courses :: "adb \<Rightarrow> uuid list" where
  "due_courses s = map c_id (filter (\<lambda>c. c_status c = CScheduled \<and>
     (case c_publish_date c of None \<Rightarrow> False | Some d \<Rightarrow> d \<le> a_clock s)) (a_courses s))"

definition sweepScheduledPublishes :: "adb \<Rightarrow> adb" where
  "sweepScheduledPublishes s = foldl (\<lambda>t i. snd (run_tx (publishOneScheduledCourse i) t)) s (due_courses s)"

end
