(* ===== verification/Content.thy ===== *)
theory Content
  imports Courses
begin

text \<open>
  Chapters, lessons and blocks (\<^verbatim>\<open>handlers/chapters.go\<close>, \<^verbatim>\<open>lessons.go\<close>,
  \<^verbatim>\<open>blocks.go\<close>), the arithmetic of their positions (\<^verbatim>\<open>models/sortorder.go\<close>) and
  the course routes of \<^verbatim>\<open>server.go\<close>.
\<close>

section \<open>Positions (sortorder.go)\<close>

definition renormalizeThreshold :: rat where
  "renormalizeThreshold = fl (1 / 10 ^ 6)"

definition NextSortOrder :: "rat list \<Rightarrow> rat" where
  "NextSortOrder existing = (if existing = [] then 1 else fl (last existing + 1))"

definition MidpointSortOrder :: "rat \<Rightarrow> rat \<Rightarrow> rat \<times> bool" where
  "MidpointSortOrder before after = (if fl (after - before) \<le> renormalizeThreshold then (0, True)
     else (fl (before + fl (fl (after - before) / 2)), False))"

fun NeedsRenormalize :: "rat list \<Rightarrow> bool" where
  "NeedsRenormalize (x # y # r) = (fl (y - x) \<le> renormalizeThreshold \<or> NeedsRenormalize (y # r))"
| "NeedsRenormalize _ = False"

definition Renormalize :: "nat \<Rightarrow> rat list" where
  "Renormalize n = map (\<lambda>i. of_nat (Suc i)) [0 ..< n]"

text \<open>The body of \<^verbatim>\<open>renormalizeChaptersIfNeeded\<close> and its two siblings.\<close>

definition renormalize_rows ::
  "sort_column \<Rightarrow> (adb, 'a list) tx \<Rightarrow> ('a \<Rightarrow> rat) \<Rightarrow> ('a \<Rightarrow> uuid) \<Rightarrow> (uuid \<Rightarrow> rat \<Rightarrow> (adb, unit) tx) \<Rightarrow> (adb, unit) tx" where
  "renormalize_rows col rows srt key upd = tx_bind rows (\<lambda>rs.
     if NeedsRenormalize (map srt rs)
     then tx_for (zip rs (Renormalize (length rs))) (\<lambda>(r, v). stored_at col v (upd (key r)))
     else tx_return ())"

type_synonym reorder = "(uuid \<times> rat) list"

definition reorder_rows :: "sort_column \<Rightarrow> (uuid \<Rightarrow> rat \<Rightarrow> (adb, unit) tx) \<Rightarrow> (adb, unit) tx \<Rightarrow> reorder option \<Rightarrow> adb handler" where
  "reorder_rows col upd renormalize body = (case body of None \<Rightarrow> h_respond (RespErr 400 ''invalid request'')
     | Some items \<Rightarrow> if items = [] then h_respond (RespErr 400 ''invalid request'') else
       h_bind (sql (tx_for items (\<lambda>(i, v). stored_at col v (upd i))) internal_error) (\<lambda>_.
       h_bind (sql renormalize internal_error) (\<lambda>_.
         h_return (Resp 204 JNull))))"

section \<open>Chapters\<close>

definition chapterResponse :: "chapter_row \<Rightarrow> json" where
  "chapterResponse ch = JObj [(''id'', JInt (int (ch_id ch))), (''course_id'', JInt (int (ch_course ch))),
     (''title'', JStr (ch_title ch)), (''sort_order'', JDec (ch_sort ch)), (''updated_at'', JInt (ch_updated ch))]"

definition CreateChapter :: "content_env \<Rightarrow> auth_ctx \<Rightarrow> course \<Rightarrow> string option \<Rightarrow> adb handler" where
  "CreateChapter env ac c body = (case body of None \<Rightarrow> h_respond (RespErr 400 ''invalid request'')
     | Some title \<Rightarrow>
       h_bind (h_guard (size_between 1 300 title) (RespErr 400 ''invalid request'')) (\<lambda>_.
       h_bind (sql (ChapterRepo_ListByCourse (c_id c)) internal_error) (\<lambda>existing.
       h_bind (sql (stored_at (ce_col env) (NextSortOrder (map ch_sort existing))
           (ChapterRepo_Create (c_id c) (c_org c) (ac_user ac) title)) internal_error) (\<lambda>ch.
         h_return (Resp 201 (chapterResponse ch))))))"

definition ListChapters :: "course \<Rightarrow> adb handler" where
  "ListChapters c = h_bind (sql (ChapterRepo_ListByCourse (c_id c)) internal_error) (\<lambda>chs.
     h_return (Resp 200 (JObj [(''chapters'', JArr (map chapterResponse chs))])))"

text \<open>An optional new position goes through its column.\<close>

definition stored_opt :: "sort_column \<Rightarrow> rat option \<Rightarrow> (rat option \<Rightarrow> (adb, 'a) tx) \<Rightarrow> (adb, 'a) tx" where
  "stored_opt col pos f = (case pos of None \<Rightarrow> f None | Some v \<Rightarrow> stored_at col v (\<lambda>w. f (Some w)))"

record updateTitleRequest =
  ut_title :: string
  ut_sort :: "rat option"

definition UpdateChapter :: "content_env \<Rightarrow> uuid \<Rightarrow> updateTitleRequest option \<Rightarrow> adb handler" where
  "UpdateChapter env i body = (case body of None \<Rightarrow> h_respond (RespErr 400 ''invalid request'')
     | Some req \<Rightarrow>
       h_bind (h_guard (size_between 1 300 (ut_title req)) (RespErr 400 ''invalid request'')) (\<lambda>_.
       h_bind (sql (stored_opt (ce_col env) (ut_sort req) (ChapterRepo_Update i (ut_title req)))
         (not_found_or_internal ''chapter not found'')) (\<lambda>ch.
         h_return (Resp 200 (chapterResponse ch)))))"

definition has_children :: "string \<Rightarrow> string \<Rightarrow> string \<Rightarrow> err \<Rightarrow> response" where
  "has_children msg count missing e = (case e of
     ErrHasChildren n \<Rightarrow> Resp 409 (JObj [(''error'', JStr msg), (count, JInt (int n))])
   | _ \<Rightarrow> not_found_or_internal missing e)"

definition DeleteChapter :: "uuid \<Rightarrow> adb handler" where
  "DeleteChapter i = h_bind (sql (ChapterRepo_Delete i)
     (has_children ''chapter still has lessons'' ''lesson_count'' ''chapter not found'')) (\<lambda>_. h_return (Resp 204 JNull))"

definition renormalizeChaptersIfNeeded :: "sort_column \<Rightarrow> uuid \<Rightarrow> (adb, unit) tx" where
  "renormalizeChaptersIfNeeded col course = renormalize_rows col (ChapterRepo_ListByCourse course) ch_sort ch_id ChapterRepo_SetSortOrder"

definition ReorderChapters :: "content_env \<Rightarrow> uuid \<Rightarrow> reorder option \<Rightarrow> adb handler" where
  "ReorderChapters env course body =
     reorder_rows (ce_col env) ChapterRepo_SetSortOrder (renormalizeChaptersIfNeeded (ce_col env) course) body"

section \<open>Lessons\<close>

definition lessonResponse :: "lesson \<Rightarrow> json" where
  "lessonResponse l = JObj [(''id'', JInt (int (ls_id l))), (''chapter_id'', JInt (int (ls_chapter l))),
     (''course_id'', JInt (int (ls_course l))), (''title'', JStr (ls_title l)), (''sort_order'', JDec (ls_sort l)),
     (''updated_at'', JInt (ls_updated l))]"

definition CreateLesson :: "content_env \<Rightarrow> auth_ctx \<Rightarrow> course \<Rightarrow> uuid \<Rightarrow> string option \<Rightarrow> adb handler" where
  "CreateLesson env ac c chapter body = (case body of None \<Rightarrow> h_respond (RespErr 400 ''invalid request'')
     | Some title \<Rightarrow>
       h_bind (h_guard (size_between 1 300 title) (RespErr 400 ''invalid request'')) (\<lambda>_.
       h_bind (sql (LessonRepo_ListByChapter chapter) internal_error) (\<lambda>existing.
       h_bind (sql (stored_at (ce_col env) (NextSortOrder (map ls_sort existing))
           (LessonRepo_Create chapter (c_id c) (c_org c) (ac_user ac) title)) internal_error) (\<lambda>l.
         h_return (Resp 201 (lessonResponse l))))))"

definition ListLessons :: "uuid \<Rightarrow> adb handler" where
  "ListLessons chapter = h_bind (sql (LessonRepo_ListByChapter chapter) internal_error) (\<lambda>ls.
     h_return (Resp 200 (JObj [(''lessons'', JArr (map lessonResponse ls))])))"

definition UpdateLesson :: "content_env \<Rightarrow> uuid \<Rightarrow> updateTitleRequest option \<Rightarrow> adb handler" where
  "UpdateLesson env i body = (case body of None \<Rightarrow> h_respond (RespErr 400 ''invalid request'')
     | Some req \<Rightarrow>
       h_bind (h_guard (size_between 1 300 (ut_title req)) (RespErr 400 ''invalid request'')) (\<lambda>_.
       h_bind (sql (stored_opt (ce_col env) (ut_sort req) (LessonRepo_Update i (ut_title req)))
         (not_found_or_internal ''lesson not found'')) (\<lambda>l.
         h_return (Resp 200 (lessonResponse l)))))"

definition DeleteLesson :: "uuid \<Rightarrow> adb handler" where
  "DeleteLesson i = h_bind (sql (LessonRepo_Delete i)
     (has_children ''lesson still has blocks'' ''block_count'' ''lesson not found'')) (\<lambda>_. h_return (Resp 204 JNull))"

definition renormalizeLessonsIfNeeded :: "sort_column \<Rightarrow> uuid \<Rightarrow> (adb, unit) tx" where
  "renormalizeLessonsIfNeeded col chapter = renormalize_rows col (LessonRepo_ListByChapter chapter) ls_sort ls_id LessonRepo_SetSortOrder"

definition ReorderLessons :: "content_env \<Rightarrow> uuid \<Rightarrow> reorder option \<Rightarrow> adb handler" where
  "ReorderLessons env chapter body =
     reorder_rows (ce_col env) LessonRepo_SetSortOrder (renormalizeLessonsIfNeeded (ce_col env) chapter) body"

section \<open>Blocks\<close>

definition blockResponse :: "block \<Rightarrow> json" where
  "blockResponse b = JObj [(''id'', JInt (int (bk_id b))), (''lesson_id'', JInt (int (bk_lesson b))),
     (''type'', JStr (block_type_str (bk_type b))), (''content'', bk_content b), (''sort_order'', JDec (bk_sort b)),
     (''updated_at'', JInt (bk_updated b))]"

definition validBlockTypes :: "string \<Rightarrow> block_type option" where
  "validBlockTypes t = find (\<lambda>b. block_type_str b = t)
     [TextBlock, ImageBlock, VideoBlock, FileBlock, QuizBlock, AssignmentBlock]"

definition sanitizeBlockContent :: "content_env \<Rightarrow> block_type \<Rightarrow> json \<Rightarrow> err + json" where
  "sanitizeBlockContent env ty content = (if ty \<noteq> TextBlock then Inr content else
     (case json_members content of Inl e \<Rightarrow> Inl e | Inr kvs \<Rightarrow>
       (case dec_field dec_string ''html'' kvs [] of Inl e \<Rightarrow> Inl e
        | Inr html \<Rightarrow> Inr (JObj [(''html'', JStr (ce_html env html))]))))"

definition stored_json :: "content_env \<Rightarrow> json \<Rightarrow> (json \<Rightarrow> (adb, 'a) tx) \<Rightarrow> (adb, 'a) tx" where
  "stored_json env j f = (case ce_jsonb env j of None \<Rightarrow> tx_throw ErrStorage | Some v \<Rightarrow> f v)"

record createBlockRequest =
  cb_type :: string
  cb_content :: json

definition CreateBlock :: "content_env \<Rightarrow> auth_ctx \<Rightarrow> course \<Rightarrow> uuid \<Rightarrow> createBlockRequest option \<Rightarrow> adb handler" where
  "CreateBlock env ac c lesson body = (case body of None \<Rightarrow> h_respond (RespErr 400 ''invalid request'')
     | Some req \<Rightarrow> if cb_type req = [] then h_respond (RespErr 400 ''invalid request'') else
       (case validBlockTypes (cb_type req) of None \<Rightarrow> h_respond (RespErr 400 ''invalid block type'')
        | Some ty \<Rightarrow> (case sanitizeBlockContent env ty (cb_content req) of
            Inl _ \<Rightarrow> h_respond (RespErr 400 ''invalid block content'')
          | Inr content \<Rightarrow>
              h_bind (sql (BlockRepo_ListByLesson lesson) internal_error) (\<lambda>existing.
              h_bind (sql (stored_json env content (\<lambda>j. stored_at (ce_col env) (NextSortOrder (map bk_sort existing))
                  (BlockRepo_Create lesson (c_id c) (c_org c) (ac_user ac) ty j))) internal_error) (\<lambda>b.
                h_return (Resp 201 (blockResponse b)))))))"

definition ListBlocks :: "uuid \<Rightarrow> adb handler" where
  "ListBlocks lesson = h_bind (sql (BlockRepo_ListByLesson lesson) internal_error) (\<lambda>bs.
     h_return (Resp 200 (JObj [(''blocks'', JArr (map blockResponse bs))])))"

record updateBlockRequest =
  ub_content :: json
  ub_sort :: "rat option"

definition UpdateBlock :: "content_env \<Rightarrow> uuid \<Rightarrow> updateBlockRequest option \<Rightarrow> adb handler" where
  "UpdateBlock env i body = (case body of None \<Rightarrow> h_respond (RespErr 400 ''invalid request'')
     | Some req \<Rightarrow>
       h_bind (sql (BlockRepo_Get i) (not_found_or_internal ''block not found'')) (\<lambda>existing.
       (case sanitizeBlockContent env (bk_type existing) (ub_content req) of
          Inl _ \<Rightarrow> h_respond (RespErr 400 ''invalid block content'')
        | Inr content \<Rightarrow>
            h_bind (sql (stored_json env content (\<lambda>j. stored_opt (ce_col env) (ub_sort req) (BlockRepo_Update (bk_id existing) j)))
              internal_error) (\<lambda>b.
              h_return (Resp 200 (blockResponse b))))))"

definition AutosaveBlock :: "content_env \<Rightarrow> uuid \<Rightarrow> json option \<Rightarrow> adb handler" where
  "AutosaveBlock env i body = (case body of None \<Rightarrow> h_respond (RespErr 400 ''invalid request'')
     | Some raw \<Rightarrow>
       h_bind (sql (BlockRepo_Get i) (not_found_or_internal ''block not found'')) (\<lambda>existing.
       (case sanitizeBlockContent env (bk_type existing) raw of
          Inl _ \<Rightarrow> h_respond (RespErr 400 ''invalid block content'')
        | Inr content \<Rightarrow>
            h_bind (sql (stored_json env content (BlockRepo_Autosave (bk_id existing))) internal_error) (\<lambda>b.
              h_return (Resp 200 (blockResponse b))))))"

definition DeleteBlock :: "uuid \<Rightarrow> adb handler" where
  "DeleteBlock i = h_bind (sql (BlockRepo_Delete i) (not_found_or_internal ''block not found'')) (\<lambda>_.
     h_return (Resp 204 JNull))"

definition renormalizeBlocksIfNeeded :: "sort_column \<Rightarrow> uuid \<Rightarrow> (adb, unit) tx" where
  "renormalizeBlocksIfNeeded col lesson = renormalize_rows col (BlockRepo_ListByLesson lesson) bk_sort bk_id BlockRepo_SetSortOrder"

definition ReorderBlocks :: "content_env \<Rightarrow> uuid \<Rightarrow> reorder option \<Rightarrow> adb handler" where
  "ReorderBlocks env lesson body =
     reorder_rows (ce_col env) BlockRepo_SetSortOrder (renormalizeBlocksIfNeeded (ce_col env) lesson) body"

section \<open>The course routes\<close>

datatype course_action =
    CGet | CUpdate "updateCourseRequest option" | CDelete | CTransition "transitionRequest option"
  | CPublish | CUnpublish | CDuplicate | CVersions | CVersion uuid | CRestore uuid
  | CNewChapter "string option" | CChapters | CReorder "reorder option"
  | CUpdateChapter uuid "updateTitleRequest option" | CDeleteChapter uuid
  | CNewLesson uuid "string option" | CLessons uuid | CReorderLessons uuid "reorder option"
  | CUpdateLesson uuid "updateTitleRequest option" | CDeleteLesson uuid
  | CNewBlock uuid "createBlockRequest option" | CBlocks uuid | CReorderBlocks uuid "reorder option"
  | CUpdateBlock uuid "updateBlockRequest option" | CAutosave uuid "json option" | CDeleteBlock uuid

definition course_handler :: "content_env \<Rightarrow> auth_ctx \<Rightarrow> course \<Rightarrow> course_action \<Rightarrow> adb handler" where
  "course_handler env ac c a = (case a of
     CGet \<Rightarrow> h_return (Resp 200 (courseResponse c)) | CUpdate b \<Rightarrow> UpdateCourse env c b | CDelete \<Rightarrow> DeleteCourse c
   | CTransition b \<Rightarrow> TransitionCourse c b | CPublish \<Rightarrow> PublishCourse ac c | CUnpublish \<Rightarrow> UnpublishCourse c
   | CDuplicate \<Rightarrow> DuplicateCourse ac c | CVersions \<Rightarrow> ListCourseVersions c | CVersion i \<Rightarrow> GetCourseVersion i
   | CRestore i \<Rightarrow> RestoreCourseVersion ac c i
   | CNewChapter b \<Rightarrow> CreateChapter env ac c b | CChapters \<Rightarrow> ListChapters c | CReorder b \<Rightarrow> ReorderChapters env (c_id c) b
   | CUpdateChapter i b \<Rightarrow> UpdateChapter env i b | CDeleteChapter i \<Rightarrow> DeleteChapter i
   | CNewLesson ch b \<Rightarrow> CreateLesson env ac c ch b | CLessons ch \<Rightarrow> ListLessons ch | CReorderLessons ch b \<Rightarrow> ReorderLessons env ch b
   | CUpdateLesson i b \<Rightarrow> UpdateLesson env i b | CDeleteLesson i \<Rightarrow> DeleteLesson i
   | CNewBlock l b \<Rightarrow> CreateBlock env ac c l b | CBlocks l \<Rightarrow> ListBlocks l | CReorderBlocks l b \<Rightarrow> ReorderBlocks env l b
   | CUpdateBlock i b \<Rightarrow> UpdateBlock env i b | CAutosave i b \<Rightarrow> AutosaveBlock env i b | CDeleteBlock i \<Rightarrow> DeleteBlock i)"

definition course_route :: "content_env \<Rightarrow> auth_ctx \<Rightarrow> uuid \<Rightarrow> course_action \<Rightarrow> adb handler" where
  "course_route env ac i a =
     h_bind (ResolveCourseOrg ac i) (\<lambda>(c, oc). h_bind (RequireRole {Owner, Teacher} oc) (\<lambda>_. course_handler env ac c a))"

datatype course_request =
    CrCreate "createCourseRequest option"
  | CrList string
  | CrCourse uuid course_action

definition course_request_handler :: "content_env \<Rightarrow> auth_ctx \<Rightarrow> course_request \<Rightarrow> adb handler" where
  "course_request_handler env ac q = (case q of
     CrCreate b \<Rightarrow> CreateCourse env ac b | CrList slug \<Rightarrow> ListCourses ac slug | CrCourse i a \<Rightarrow> course_route env ac i a)"

end
