(* ===== verification/Learning.thy ===== *)
theory Learning
  imports LearnSchema Content
begin

text \<open>
  The learner journey: the gate in front of course content (\<^verbatim>\<open>middleware/entitlement.go\<close>),
  enrolment, the player and progress (\<^verbatim>\<open>handlers/learner.go\<close>), quizzes (\<^verbatim>\<open>quiz.go\<close>),
  assignments (\<^verbatim>\<open>assignment.go\<close>), completion and certificates (\<^verbatim>\<open>completion.go\<close>), with
  their routes. What lies outside is an environment: \<open>le_pct\<close> stores a float in a
  \<^verbatim>\<open>NUMERIC(5,2)\<close> column, \<open>le_upload\<close> says whether the rendered certificate was stored and
  \<open>le_public\<close> is its random id, \<open>le_event\<close> says whether the server takes the analytics row
  (PostgreSQL does not, see \<open>AnalyticsEventRepo_Record\<close>),
  \<open>le_head\<close> is the storage's answer about an object, \<open>le_sign\<close> signs a download and
  \<open>le_sign_upload\<close> an upload. Queued notifications are left out.
\<close>

record learn_env =
  le_pct :: "rat \<Rightarrow> rat option"
  le_upload :: bool
  le_public :: string
  le_event :: bool
  le_head :: "string \<Rightarrow> bool option"
  le_sign :: "string \<Rightarrow> string option"
  le_sign_upload :: "string \<Rightarrow> (string \<times> time) option"

definition record_event :: "learn_env \<Rightarrow> uuid \<Rightarrow> string \<Rightarrow> uuid \<Rightarrow> uuid \<Rightarrow> (ldb, unit) tx" where
  "record_event env o' ty u c = (\<lambda>s. if \<not> sees (ld_adb s) o' then Inl ErrStorage
     else on_shop (AnalyticsEventRepo_Record (le_event env) o' ty (Some u) (Some c)) s)"

section \<open>The gate (entitlement.go)\<close>

definition RequireEntitlement :: "auth_ctx \<Rightarrow> course \<Rightarrow> org_ctx \<Rightarrow> (response, ldb, unit) hm" where
  "RequireEntitlement ac c oc =
     (if oc_platform oc \<or> oc_role oc = Some Owner \<or> oc_role oc = Some Teacher then h_return () else
      h_bind (h_guard (c_status c = CPublished) (RespErr 403 ''forbidden'')) (\<lambda>_.
      h_bind (lsql (LAccess_Get (ac_user ac) (c_id c))
        (\<lambda>e. if e = ErrNotFound then RespErr 403 ''forbidden'' else internal_error e)) (\<lambda>a.
      h_guard (acc_status a = AccActive) (RespErr 403 ''forbidden''))))"

section \<open>Certificates (completion.go)\<close>

definition certificate_path :: "course \<Rightarrow> string \<Rightarrow> string" where
  "certificate_path c public = ''org/'' @ show_nat (c_org c) @ ''/courses/'' @ show_nat (c_id c) @ ''/certificates/'' @ public @ ''.pdf''"

definition evaluateAndIssueCertificateIfComplete :: "learn_env \<Rightarrow> uuid \<Rightarrow> uuid \<Rightarrow> (response, ldb, unit) hm" where
  "evaluateAndIssueCertificateIfComplete env course learner =
     h_bind (lsql_attempt (CertificateRepo_GetByLearnerAndCourse learner course)) (\<lambda>r. case r of
       Inr _ \<Rightarrow> h_return ()
     | Inl e \<Rightarrow> if e \<noteq> ErrNotFound then h_respond (internal_error e) else
         h_bind (lsql (EvaluateCompletion course learner) internal_error) (\<lambda>complete.
         if \<not> complete then h_return () else
         h_bind (lsql (on_adb (ACourseRepo_Get course)) internal_error) (\<lambda>c.
         h_bind (lsql (on_adb (ProfileRepo_GetByID learner)) internal_error) (\<lambda>p.
         h_bind (h_guard (le_upload env) (internal_error ErrStorage)) (\<lambda>_.
         h_bind (lsql (CertificateRepo_Create (c_org c) learner course (le_public env) (certificate_path c (le_public env)))
           internal_error) (\<lambda>_.
         lsql_ignore (record_event env (c_org c) ''certificate_issued'' learner (c_id c))))))))"

definition GetCourseCertificate :: "learn_env \<Rightarrow> auth_ctx \<Rightarrow> course \<Rightarrow> ldb handler" where
  "GetCourseCertificate env ac c =
     h_bind (lsql (CertificateRepo_GetByLearnerAndCourse (ac_user ac) (c_id c))
       (not_found_or_internal ''certificate not yet issued'')) (\<lambda>x.
     case le_sign env (ct_path x) of
       None \<Rightarrow> h_respond (RespErr 502 ''failed to create download url'')
     | Some url \<Rightarrow> h_return (Resp 200 (JObj [(''certificate_id'', JStr (ct_public x)), (''course_id'', JInt (int (ct_course x))),
         (''issued_at'', JInt (ct_issued x)), (''download_url'', JStr url)])))"

definition ListCertificates :: "auth_ctx \<Rightarrow> ldb handler" where
  "ListCertificates ac = h_bind (lsql (CertificateRepo_ListByLearner (ac_user ac)) internal_error) (\<lambda>xs.
     h_return (Resp 200 (JObj [(''certificates'', JArr (map (\<lambda>x. JObj [(''certificate_id'', JStr (ct_public x)),
       (''course_id'', JInt (int (ct_course x))), (''issued_at'', JInt (ct_issued x))]) xs))])))"

text \<open>The public check runs outside any request transaction.\<close>

definition VerifyCertificate :: "string \<Rightarrow> ldb \<Rightarrow> response" where
  "VerifyCertificate public s = (case verify_certificate public s of
     Inl e \<Rightarrow> not_found_or_internal ''certificate not found'' e
   | Inr ((name, title, issued), _) \<Rightarrow> Resp 200 (JObj [(''learner_name'', j_opt JStr name), (''course_title'', JStr title),
       (''issued_at'', JInt issued)]))"

section \<open>Enrolment, player and progress (learner.go)\<close>

definition learnerCourseAccessResponse :: "course_access \<Rightarrow> json" where
  "learnerCourseAccessResponse a = JObj [(''id'', JInt (int (acc_id a))), (''org_id'', JInt (int (acc_org a))),
     (''learner_id'', JInt (int (acc_learner a))), (''course_id'', JInt (int (acc_course a))),
     (''entitlement_id'', j_opt (\<lambda>i. JInt (int i)) (acc_entitlement a)), (''enrolled_at'', JInt (acc_enrolled a)),
     (''access_status'', JStr (case acc_status a of AccActive \<Rightarrow> ''active'' | AccRevoked \<Rightarrow> ''revoked'' | AccExpired \<Rightarrow> ''expired''))]"

fun incomplete_prerequisites :: "uuid \<Rightarrow> uuid list \<Rightarrow> (response, ldb, uuid list) hm" where
  "incomplete_prerequisites l [] = h_return []"
| "incomplete_prerequisites l (c # cs) =
     h_bind (lsql_attempt (CertificateRepo_GetByLearnerAndCourse l c)) (\<lambda>r. case r of
       Inr _ \<Rightarrow> incomplete_prerequisites l cs
     | Inl e \<Rightarrow> if e = ErrNotFound
         then h_bind (incomplete_prerequisites l cs) (\<lambda>rest. h_return (c # rest))
         else h_respond (internal_error e))"

definition EnrollCourse :: "learn_env \<Rightarrow> auth_ctx \<Rightarrow> course \<Rightarrow> ldb handler" where
  "EnrollCourse env ac c =
     h_bind (h_guard (c_status c = CPublished) (RespErr 409 ''course is not published'')) (\<lambda>_.
     h_bind (lsql_attempt (LAccess_Get (ac_user ac) (c_id c))) (\<lambda>r. case r of
       Inr a \<Rightarrow> h_return (Resp 200 (learnerCourseAccessResponse a))
     | Inl e \<Rightarrow> if e \<noteq> ErrNotFound then h_respond (internal_error e) else
         h_bind (lsql (PrerequisiteRepo_ListForCourse (c_id c)) internal_error) (\<lambda>ids.
         h_bind (incomplete_prerequisites (ac_user ac) ids) (\<lambda>incomplete.
         h_bind (h_guard (incomplete = []) (Resp 400 (JObj [(''error'', JStr ''prerequisite courses not yet completed''),
           (''incomplete_prerequisites'', JArr (map (\<lambda>i. JInt (int i)) incomplete))]))) (\<lambda>_.
         h_bind (lsql (LAccess_Create (c_org c) (ac_user ac) (c_id c)) internal_error) (\<lambda>a.
         h_bind (lsql_ignore (record_event env (c_org c) ''enrollment'' (ac_user ac) (c_id c))) (\<lambda>_.
           h_return (Resp 201 (learnerCourseAccessResponse a)))))))))"

fun load_lessons :: "chapter_row list \<Rightarrow> (adb, (chapter_row \<times> lesson list) list) tx" where
  "load_lessons [] = tx_return []"
| "load_lessons (c # cs) = tx_bind (LessonRepo_ListByChapter (ch_id c)) (\<lambda>ls.
     tx_bind (load_lessons cs) (\<lambda>rest. tx_return ((c, ls) # rest)))"

definition loadCourseStructureWithProgress ::
  "uuid \<Rightarrow> uuid \<Rightarrow> (ldb, (chapter_row \<times> lesson list) list \<times> uuid set) tx" where
  "loadCourseStructureWithProgress c l =
     tx_bind (on_adb (tx_bind (ChapterRepo_ListByCourse c) load_lessons)) (\<lambda>chs.
     tx_bind (ProgressRepo_ListByCourse l c) (\<lambda>ps.
       tx_return (chs, set (map lp_lesson (filter (\<lambda>p. lp_completed p \<noteq> None) ps)))))"

definition GetPlayer :: "auth_ctx \<Rightarrow> course \<Rightarrow> ldb handler" where
  "GetPlayer ac c =
     h_bind (lsql (loadCourseStructureWithProgress (c_id c) (ac_user ac)) internal_error) (\<lambda>(chs, completed).
     h_bind (lsql_attempt (ResumeRepo_Get (ac_user ac) (c_id c))) (\<lambda>r.
     h_bind (case r of Inr p \<Rightarrow> h_return (Some (rp_lesson p))
             | Inl e \<Rightarrow> if e = ErrNotFound then h_return (case concat (map snd chs) of [] \<Rightarrow> None | l # _ \<Rightarrow> Some (ls_id l))
                 else h_respond (internal_error e)) (\<lambda>current.
       h_return (Resp 200 (JObj [(''current_lesson_id'', j_opt (\<lambda>i. JInt (int i)) current),
         (''chapters'', JArr (map (\<lambda>(ch, ls). JObj [(''id'', JInt (int (ch_id ch))), (''title'', JStr (ch_title ch)),
           (''lessons'', JArr (map (\<lambda>l. JObj [(''id'', JInt (int (ls_id l))), (''title'', JStr (ls_title l)),
              (''completed'', JBool (ls_id l \<in> completed))]) ls))]) chs))])))))"

definition lessonInCourse :: "uuid \<Rightarrow> course \<Rightarrow> (response, ldb, lesson) hm" where
  "lessonInCourse i c = h_bind (lsql (on_adb (LessonRepo_Get i)) (not_found_or_internal ''lesson not found'')) (\<lambda>l.
     h_bind (h_guard (ls_course l = c_id c) (RespErr 404 ''lesson not found'')) (\<lambda>_. h_return l))"

definition ResumeLesson :: "auth_ctx \<Rightarrow> course \<Rightarrow> uuid \<Rightarrow> ldb handler" where
  "ResumeLesson ac c lesson =
     h_bind (lessonInCourse lesson c) (\<lambda>l.
     h_bind (lsql (ResumeRepo_Upsert (c_org c) (ac_user ac) (c_id c) (ls_id l)) internal_error) (\<lambda>r.
       h_return (Resp 200 (JObj [(''course_id'', JInt (int (rp_course r))), (''current_lesson_id'', JInt (int (rp_lesson r))),
         (''last_resumed_at'', JInt (rp_at r))]))))"

definition lessonProgressResponse :: "lesson_progress \<Rightarrow> json" where
  "lessonProgressResponse p = JObj [(''lesson_id'', JInt (int (lp_lesson p))), (''course_id'', JInt (int (lp_course p))),
     (''completed_at'', j_opt JInt (lp_completed p)), (''watched_duration_ms'', JInt (lp_watched p)),
     (''watch_percentage'', JDec (lp_percent p))]"

record lessonProgressRequest =
  lr_watched :: int
  lr_percent :: rat

definition defaultWatchThresholdPercent :: int where "defaultWatchThresholdPercent = 80"

definition ReportLessonProgress :: "learn_env \<Rightarrow> auth_ctx \<Rightarrow> course \<Rightarrow> uuid \<Rightarrow> lessonProgressRequest option \<Rightarrow> ldb handler" where
  "ReportLessonProgress env ac c lesson body = (case body of None \<Rightarrow> h_respond (RespErr 400 ''invalid request'')
     | Some req \<Rightarrow>
       h_bind (h_guard (0 \<le> lr_watched req \<and> 0 \<le> lr_percent req \<and> lr_percent req \<le> 100) (RespErr 400 ''invalid request'')) (\<lambda>_.
       h_bind (lessonInCourse lesson c) (\<lambda>l.
       h_bind (lsql (ProgressRepo_UpsertWatchProgress (le_pct env) (c_org c) (ac_user ac) (ls_id l) (c_id c)
         (lr_watched req) (lr_percent req)) internal_error) (\<lambda>p.
       if of_int (case ls_watch l of None \<Rightarrow> defaultWatchThresholdPercent | Some w \<Rightarrow> w) \<le> lr_percent req then
         h_bind (lsql (ProgressRepo_MarkComplete (c_org c) (ac_user ac) (ls_id l) (c_id c)) internal_error) (\<lambda>p.
         h_bind (evaluateAndIssueCertificateIfComplete env (c_id c) (ac_user ac)) (\<lambda>_.
           h_return (Resp 200 (lessonProgressResponse p))))
       else h_return (Resp 200 (lessonProgressResponse p))))))"

definition CompleteLesson :: "learn_env \<Rightarrow> auth_ctx \<Rightarrow> course \<Rightarrow> uuid \<Rightarrow> ldb handler" where
  "CompleteLesson env ac c lesson =
     h_bind (lessonInCourse lesson c) (\<lambda>l.
     h_bind (lsql (ProgressRepo_MarkComplete (c_org c) (ac_user ac) (ls_id l) (c_id c)) internal_error) (\<lambda>p.
     h_bind (evaluateAndIssueCertificateIfComplete env (c_id c) (ac_user ac)) (\<lambda>_.
     h_bind (lsql_ignore (record_event env (c_org c) ''lesson_completion'' (ac_user ac) (c_id c))) (\<lambda>_.
       h_return (Resp 200 (lessonProgressResponse p))))))"

definition GetCourseProgress :: "auth_ctx \<Rightarrow> course \<Rightarrow> ldb handler" where
  "GetCourseProgress ac c =
     h_bind (lsql (loadCourseStructureWithProgress (c_id c) (ac_user ac)) internal_error) (\<lambda>(chs, completed).
     (let lessons = concat (map snd chs); n = int (length lessons);
          done' = int (length (filter (\<lambda>l. ls_id l \<in> completed) lessons)) in
       h_return (Resp 200 (JObj [(''completed_lessons'', JInt done'), (''total_lessons'', JInt n),
         (''percentage'', JDec (percentOf done' n))]))))"

end
