(* ===== verification/Assessment.thy ===== *)
theory Assessment
  imports Learning GoUnicode
begin

text \<open>
  Quizzes (\<^verbatim>\<open>handlers/quiz.go\<close>) and assignments (\<^verbatim>\<open>assignment.go\<close>), the shapes of
  their blocks (\<^verbatim>\<open>models/block.go\<close>), and the learner routes of \<^verbatim>\<open>server.go\<close>.
\<close>

section \<open>Decoding block contents\<close>

definition dec_bool :: "json \<Rightarrow> bool \<Rightarrow> err + bool" where
  "dec_bool j a = (case j of JNull \<Rightarrow> Inr a | JBool b \<Rightarrow> Inr b | _ \<Rightarrow> Inl ErrUnmarshal)"

definition dec_int_ptr :: "json \<Rightarrow> int option \<Rightarrow> err + int option" where
  "dec_int_ptr j a = (case j of JNull \<Rightarrow> Inr None | _ \<Rightarrow> (case dec_int64 j 0 of Inl e \<Rightarrow> Inl e | Inr i \<Rightarrow> Inr (Some i)))"

fun decode_all :: "(json \<Rightarrow> err + 'a) \<Rightarrow> json list \<Rightarrow> err + 'a list" where
  "decode_all d [] = Inr []"
| "decode_all d (j # js) = (case d j of Inl e \<Rightarrow> Inl e | Inr x \<Rightarrow>
     (case decode_all d js of Inl e \<Rightarrow> Inl e | Inr xs \<Rightarrow> Inr (x # xs)))"

text \<open>
  The elements of a list start from fresh values. Go would decode into the elements of an earlier
  list under a repeated key of the same object; block contents are read from \<^verbatim>\<open>jsonb\<close>
  columns, which keep no repeated keys.
\<close>

definition dec_list :: "(json \<Rightarrow> err + 'a) \<Rightarrow> json \<Rightarrow> 'a list \<Rightarrow> err + 'a list" where
  "dec_list d j a = (case j of JNull \<Rightarrow> Inr [] | JArr js \<Rightarrow> decode_all d js | _ \<Rightarrow> Inl ErrUnmarshal)"

text \<open>\<^verbatim>\<open>time.Time\<close> from JSON: RFC 3339, to the nanosecond.\<close>

fun digits :: "nat \<Rightarrow> int \<Rightarrow> string \<Rightarrow> (int \<times> string) option" where
  "digits 0 a t = Some (a, t)"
| "digits (Suc n) a [] = None"
| "digits (Suc n) a (c # t) = (let d = of_char c :: int in
     if 48 \<le> d \<and> d \<le> 57 then digits n (10 * a + (d - 48)) t else None)"

definition lit :: "char \<Rightarrow> string \<Rightarrow> string option" where
  "lit c t = (case t of [] \<Rightarrow> None | d # r \<Rightarrow> if d = c then Some r else None)"

text \<open>The digits of a fraction of a second, the first nine of which count.\<close>

fun fraction :: "nat \<Rightarrow> int \<Rightarrow> string \<Rightarrow> int \<times> string" where
  "fraction n a [] = (a * 10 ^ n, [])"
| "fraction n a (c # t) = (let d = of_char c :: int in
     if 48 \<le> d \<and> d \<le> 57 then (if n = 0 then fraction 0 a t else fraction (n - 1) (10 * a + (d - 48)) t)
     else (a * 10 ^ n, c # t))"

definition leap_year :: "int \<Rightarrow> bool" where
  "leap_year y \<longleftrightarrow> y mod 4 = 0 \<and> (y mod 100 \<noteq> 0 \<or> y mod 400 = 0)"

definition days_in :: "int \<Rightarrow> int \<Rightarrow> int" where
  "days_in y m = (if m = 2 then (if leap_year y then 29 else 28) else if m \<in> {4, 6, 9, 11} then 30 else 31)"

text \<open>Days from 1970-01-01 in the proleptic Gregorian calendar.\<close>

definition civil_days :: "int \<Rightarrow> int \<Rightarrow> int \<Rightarrow> int" where
  "civil_days y m d = (let y' = (if m \<le> 2 then y - 1 else y); era = y' div 400; yoe = y' mod 400;
     doy = (153 * (if 2 < m then m - 3 else m + 9) + 2) div 5 + d - 1;
     doe = yoe * 365 + yoe div 4 - yoe div 100 + doy in era * 146097 + doe - 719468)"

definition zone_offset :: "string \<Rightarrow> int option" where
  "zone_offset t = (case t of [] \<Rightarrow> None | c # r \<Rightarrow>
     if c = CHR ''Z'' then (if r = [] then Some 0 else None)
     else if c = CHR ''+'' \<or> c = CHR ''-'' then
       Option.bind (digits 2 0 r) (\<lambda>(h, r). Option.bind (lit CHR '':'' r) (\<lambda>r. Option.bind (digits 2 0 r) (\<lambda>(m, r).
         if r = [] \<and> h \<le> 23 \<and> m \<le> 59 then Some ((if c = CHR ''+'' then 1 else - 1) * (h * 3600 + m * 60)) else None)))
     else None)"

definition parse_rfc3339 :: "string \<Rightarrow> time option" where
  "parse_rfc3339 t =
     Option.bind (digits 4 0 t) (\<lambda>(y, t). Option.bind (lit CHR ''-'' t) (\<lambda>t.
     Option.bind (digits 2 0 t) (\<lambda>(mo, t). Option.bind (lit CHR ''-'' t) (\<lambda>t.
     Option.bind (digits 2 0 t) (\<lambda>(d, t). Option.bind (lit CHR ''T'' t) (\<lambda>t.
     Option.bind (digits 2 0 t) (\<lambda>(h, t). Option.bind (lit CHR '':'' t) (\<lambda>t.
     Option.bind (digits 2 0 t) (\<lambda>(mi, t). Option.bind (lit CHR '':'' t) (\<lambda>t.
     Option.bind (digits 2 0 t) (\<lambda>(sec, t).
     Option.bind (case lit CHR ''.'' t of None \<Rightarrow> Some (0, t)
        | Some r \<Rightarrow> (case digits 1 0 r of None \<Rightarrow> None | Some _ \<Rightarrow> Some (fraction 9 0 r))) (\<lambda>(ns, t).
     Option.bind (zone_offset t) (\<lambda>off.
       if 1 \<le> mo \<and> mo \<le> 12 \<and> 1 \<le> d \<and> d \<le> days_in y mo \<and> h \<le> 23 \<and> mi \<le> 59 \<and> sec \<le> 59
       then Some ((civil_days y mo d * 86400 + h * 3600 + mi * 60 + sec - off) * second + ns) else None)))))))))))))"

definition dec_time_ptr :: "json \<Rightarrow> time option \<Rightarrow> err + time option" where
  "dec_time_ptr j a = (case j of JNull \<Rightarrow> Inr None
     | JStr t \<Rightarrow> (case parse_rfc3339 t of None \<Rightarrow> Inl ErrUnmarshal | Some x \<Rightarrow> Inr (Some x)) | _ \<Rightarrow> Inl ErrUnmarshal)"

record quiz_question =
  qq_id :: string
  qq_type :: string
  qq_question :: string
  qq_answers :: "string list"
  qq_correct :: "int option"
  qq_accepted :: "string list"

definition QuizQuestion :: "json \<Rightarrow> err + quiz_question" where
  "QuizQuestion j = (case json_members j of Inl e \<Rightarrow> Inl e | Inr kvs \<Rightarrow>
     (case (dec_field dec_string ''id'' kvs [], dec_field dec_string ''type'' kvs [], dec_field dec_string ''question'' kvs [],
            dec_field (dec_list (\<lambda>j. dec_string j [])) ''answers'' kvs [],
            dec_field dec_int_ptr ''correct_answer_index'' kvs None,
            dec_field (dec_list (\<lambda>j. dec_string j [])) ''accepted_answers'' kvs []) of
        (Inr i, Inr ty, Inr q, Inr as, Inr c, Inr acc) \<Rightarrow>
          Inr \<lparr>qq_id = i, qq_type = ty, qq_question = q, qq_answers = as, qq_correct = c, qq_accepted = acc\<rparr>
      | _ \<Rightarrow> Inl ErrUnmarshal))"

definition QuizBlockContent :: "json \<Rightarrow> err + quiz_question list" where
  "QuizBlockContent j = (case json_members j of Inl e \<Rightarrow> Inl e
     | Inr kvs \<Rightarrow> dec_field (dec_list QuizQuestion) ''questions'' kvs [])"

record assignment_content =
  ac_instructions :: string
  ac_due :: "time option"
  ac_resubmit :: bool

definition AssignmentBlockContent :: "json \<Rightarrow> err + assignment_content" where
  "AssignmentBlockContent j = (case json_members j of Inl e \<Rightarrow> Inl e | Inr kvs \<Rightarrow>
     (case (dec_field dec_string ''instructions'' kvs [], dec_field dec_time_ptr ''due_date'' kvs None,
            dec_field dec_bool ''allow_resubmission'' kvs False) of
        (Inr i, Inr d, Inr r) \<Rightarrow> Inr \<lparr>ac_instructions = i, ac_due = d, ac_resubmit = r\<rparr>
      | _ \<Rightarrow> Inl ErrUnmarshal))"

section \<open>Quizzes\<close>

definition defaultQuizPassingPercent :: rat where "defaultQuizPassingPercent = 70"

definition redactQuizQuestions :: "quiz_question list \<Rightarrow> json" where
  "redactQuizQuestions qs = JArr (map (\<lambda>q. JObj ([(''id'', JStr (qq_id q)), (''type'', JStr (qq_type q)),
     (''question'', JStr (qq_question q))] @ (if qq_answers q = [] then [] else [(''answers'', JArr (map JStr (qq_answers q)))]))) qs)"

text \<open>The two lookups of a block of a lesson, by type and decoder.\<close>

definition block_in_lesson ::
  "block_type \<Rightarrow> (json \<Rightarrow> err + 'a) \<Rightarrow> string \<Rightarrow> uuid \<Rightarrow> lesson \<Rightarrow> (response, ldb, block \<times> 'a) hm" where
  "block_in_lesson ty dec msg i l =
     h_bind (lsql (on_adb (BlockRepo_Get i)) (not_found_or_internal msg)) (\<lambda>b.
     h_bind (h_guard (bk_lesson b = ls_id l \<and> bk_type b = ty) (RespErr 404 msg)) (\<lambda>_.
     case dec (bk_content b) of Inl e \<Rightarrow> h_respond (internal_error e) | Inr x \<Rightarrow> h_return (b, x)))"

definition quizBlockInLesson :: "uuid \<Rightarrow> lesson \<Rightarrow> (response, ldb, block \<times> quiz_question list) hm" where
  "quizBlockInLesson = block_in_lesson QuizBlock QuizBlockContent ''quiz not found''"

definition GetQuiz :: "auth_ctx \<Rightarrow> course \<Rightarrow> uuid \<Rightarrow> uuid \<Rightarrow> ldb handler" where
  "GetQuiz ac c lesson block =
     h_bind (lessonInCourse lesson c) (\<lambda>l.
     h_bind (quizBlockInLesson block l) (\<lambda>(b, qs).
     h_bind (lsql (AttemptRepo_CountByLearnerAndBlock (ac_user ac) (bk_id b)) internal_error) (\<lambda>n.
     h_bind (lsql_attempt (ScoreRepo_GetBestScore (ac_user ac) (bk_id b))) (\<lambda>r.
     h_bind (case r of Inr x \<Rightarrow> h_return (JObj [(''attempt_number'', JInt (qs_number x)), (''percentage'', JDec (qs_percent x)),
               (''passed'', JBool (qs_passed x))])
             | Inl e \<Rightarrow> if e = ErrNotFound then h_return JNull else h_respond (internal_error e)) (\<lambda>best.
       h_return (Resp 200 (JObj [(''block_id'', JInt (int (bk_id b))), (''lesson_id'', JInt (int (ls_id l))),
         (''questions'', redactQuizQuestions qs), (''attempts_made'', JInt n), (''best_score'', best)])))))))"

definition questionIsCorrect :: "quiz_question \<Rightarrow> quiz_answer \<Rightarrow> bool" where
  "questionIsCorrect q a =
     (if qq_type q = ''mcq'' \<or> qq_type q = ''true_false'' then
        (case (qn_index a, qq_correct q) of (Some i, Some j) \<Rightarrow> i = j | _ \<Rightarrow> False)
      else if qq_type q = ''short_answer'' then
        (let given = trim_lower (qn_text a) in
         given \<noteq> [] \<and> (\<exists>t \<in> set (qq_accepted q). given = trim_lower t))
      else False)"

text \<open>The last answer submitted to a question is the one that counts.\<close>

definition score_questions :: "quiz_question list \<Rightarrow> quiz_answer list \<Rightarrow> (string \<times> bool) list" where
  "score_questions qs answers = map (\<lambda>q. (qq_id q, case find (\<lambda>a. qn_question a = qq_id q) (rev answers) of
     None \<Rightarrow> False | Some a \<Rightarrow> questionIsCorrect q a)) qs"

definition correct_count :: "(string \<times> bool) list \<Rightarrow> int" where
  "correct_count rs = int (length (filter snd rs))"

definition SubmitQuiz :: "learn_env \<Rightarrow> auth_ctx \<Rightarrow> course \<Rightarrow> uuid \<Rightarrow> uuid \<Rightarrow> quiz_answer list option \<Rightarrow> ldb handler" where
  "SubmitQuiz env ac c lesson block body = (case body of None \<Rightarrow> h_respond (RespErr 400 ''invalid request'')
     | Some answers \<Rightarrow>
       h_bind (lessonInCourse lesson c) (\<lambda>l.
       h_bind (quizBlockInLesson block l) (\<lambda>(b, qs).
       h_bind (h_guard (qs \<noteq> []) (RespErr 400 ''quiz has no questions'')) (\<lambda>_.
       (let results = score_questions qs answers; n = int (length qs); k = correct_count results;
            percentage = percentOf k n; passed = defaultQuizPassingPercent \<le> percentage in
       h_bind (lsql (AttemptRepo_CountByLearnerAndBlock (ac_user ac) (bk_id b)) internal_error) (\<lambda>count.
       h_bind (lsql (AttemptRepo_Create (c_org c) (ac_user ac) (bk_id b) (count + 1) answers) internal_error) (\<lambda>_.
       h_bind (lsql (ScoreRepo_Create (le_pct env) (c_org c) (ac_user ac) (bk_id b) (count + 1) k n percentage passed)
         internal_error) (\<lambda>x.
       h_bind (if passed then
           h_bind (lsql (ProgressRepo_MarkComplete (c_org c) (ac_user ac) (ls_id l) (c_id c)) internal_error) (\<lambda>_.
             evaluateAndIssueCertificateIfComplete env (c_id c) (ac_user ac))
         else h_return ()) (\<lambda>_.
         h_return (Resp 200 (JObj [(''attempt_number'', JInt (count + 1)), (''correct_count'', JInt k), (''total_questions'', JInt n),
           (''score_earned'', JInt (qs_earned x)), (''score_max'', JInt (qs_max x)), (''percentage'', JDec (qs_percent x)),
           (''passed'', JBool (qs_passed x)),
           (''results'', JArr (map (\<lambda>(i, ok). JObj [(''question_id'', JStr i), (''correct'', JBool ok)]) results))])))))))))))"

section \<open>Assignments\<close>

definition assignmentBlockInLesson :: "uuid \<Rightarrow> lesson \<Rightarrow> (response, ldb, block \<times> assignment_content) hm" where
  "assignmentBlockInLesson = block_in_lesson AssignmentBlock AssignmentBlockContent ''assignment not found''"

definition computeDueDateStatus :: "time \<Rightarrow> time option \<Rightarrow> due_status" where
  "computeDueDateStatus t due = (case due of None \<Rightarrow> DueOnTime | Some d \<Rightarrow> if d < t then DueLate else DueOnTime)"

definition submission_prefix :: "course \<Rightarrow> uuid \<Rightarrow> uuid \<Rightarrow> string" where
  "submission_prefix c learner block = ''org/'' @ show_nat (c_org c) @ ''/courses/'' @ show_nat (c_id c) @ ''/submissions/'' @
     show_nat learner @ ''/'' @ show_nat block @ ''/''"

definition UploadAssignmentSubmission :: "learn_env \<Rightarrow> auth_ctx \<Rightarrow> course \<Rightarrow> uuid \<Rightarrow> uuid \<Rightarrow> string option \<Rightarrow> ldb handler" where
  "UploadAssignmentSubmission env ac c lesson block body = (case body of None \<Rightarrow> h_respond (RespErr 400 ''invalid request'')
     | Some name \<Rightarrow> if name = [] then h_respond (RespErr 400 ''invalid request'') else
       h_bind (lessonInCourse lesson c) (\<lambda>l.
       h_bind (assignmentBlockInLesson block l) (\<lambda>(b, _).
       (let key = submission_prefix c (ac_user ac) (bk_id b) @ name in
       case le_sign_upload env key of
         None \<Rightarrow> h_respond (RespErr 502 ''failed to create upload url'')
       | Some (url, expires) \<Rightarrow> h_return (Resp 201 (JObj [(''storage_key'', JStr key), (''upload_url'', JStr url),
           (''expires_at'', JInt expires)]))))))"

definition submission_status_str :: "submission_status \<Rightarrow> string" where
  "submission_status_str st = (case st of SubSubmitted \<Rightarrow> ''submitted'' | SubGraded \<Rightarrow> ''graded'' | SubResubmitted \<Rightarrow> ''resubmitted'')"

definition assignmentSubmissionResponse :: "submission \<Rightarrow> assignment_grade option \<Rightarrow> json" where
  "assignmentSubmissionResponse a g = JObj [(''id'', JInt (int (sm_id a))), (''org_id'', JInt (int (sm_org a))),
     (''learner_id'', JInt (int (sm_learner a))), (''assignment_block_id'', JInt (int (sm_block a))),
     (''submission_number'', JInt (sm_number a)), (''file_path'', JStr (sm_path a)), (''submitted_at'', JInt (sm_at a)),
     (''submission_status'', JStr (submission_status_str (sm_status a))),
     (''due_date_status'', JStr (case sm_due a of DueOnTime \<Rightarrow> ''on_time'' | DueLate \<Rightarrow> ''late'')),
     (''grade'', j_opt (\<lambda>g. JObj [(''id'', JInt (int (gr_id g))), (''grade_percentage'', JDec (gr_percent g)),
        (''feedback_text'', j_opt JStr (gr_feedback g)), (''graded_by_teacher_id'', JInt (int (gr_by g))),
        (''graded_at'', JInt (gr_at g))]) g)]"

definition SubmitAssignment :: "learn_env \<Rightarrow> auth_ctx \<Rightarrow> course \<Rightarrow> uuid \<Rightarrow> uuid \<Rightarrow> string option \<Rightarrow> ldb handler" where
  "SubmitAssignment env ac c lesson block body = (case body of None \<Rightarrow> h_respond (RespErr 400 ''invalid request'')
     | Some key \<Rightarrow> if key = [] then h_respond (RespErr 400 ''invalid request'') else
       h_bind (lessonInCourse lesson c) (\<lambda>l.
       h_bind (assignmentBlockInLesson block l) (\<lambda>(b, content).
       h_bind (h_guard (take (length (submission_prefix c (ac_user ac) (bk_id b))) key = submission_prefix c (ac_user ac) (bk_id b))
         (RespErr 400 ''storage_key does not match this learner/assignment'')) (\<lambda>_.
       h_bind (lsql (SubmissionRepo_CountByLearnerAndBlock (ac_user ac) (bk_id b)) internal_error) (\<lambda>count.
       h_bind (h_guard (count \<le> 0 \<or> ac_resubmit content) (RespErr 409 ''resubmission is not allowed for this assignment'')) (\<lambda>_.
       h_bind (h_guard (le_head env key \<noteq> None) (RespErr 502 ''failed to verify upload'')) (\<lambda>_.
       h_bind (h_guard (le_head env key = Some True) (RespErr 409 ''object was not found in storage; upload did not complete'')) (\<lambda>_.
       h_bind (lsql (\<lambda>s. SubmissionRepo_Create (c_org c) (ac_user ac) (bk_id b) (count + 1) key
           (if 0 < count then SubResubmitted else SubSubmitted) (computeDueDateStatus (now s) (ac_due content)) s)
         internal_error) (\<lambda>a.
       h_bind (lsql (ProgressRepo_MarkComplete (c_org c) (ac_user ac) (ls_id l) (c_id c)) internal_error) (\<lambda>_.
       h_bind (evaluateAndIssueCertificateIfComplete env (c_id c) (ac_user ac)) (\<lambda>_.
         h_return (Resp 201 (assignmentSubmissionResponse a None)))))))))))))"

definition GetAssignmentSubmissions :: "auth_ctx \<Rightarrow> course \<Rightarrow> uuid \<Rightarrow> uuid \<Rightarrow> ldb handler" where
  "GetAssignmentSubmissions ac c lesson block =
     h_bind (lessonInCourse lesson c) (\<lambda>l.
     h_bind (assignmentBlockInLesson block l) (\<lambda>(b, _).
     h_bind (lsql (GradeRepo_ListSubmissionsWithGrades (ac_user ac) (bk_id b)) internal_error) (\<lambda>xs.
       h_return (Resp 200 (JObj [(''submissions'', JArr (map (\<lambda>(a, g). assignmentSubmissionResponse a g) xs))])))))"

definition ListCourseSubmissions :: "course \<Rightarrow> ldb handler" where
  "ListCourseSubmissions c = h_bind (lsql (SubmissionRepo_ListPendingByCourse (c_id c)) internal_error) (\<lambda>xs.
     h_return (Resp 200 (JObj [(''submissions'', JArr (map (\<lambda>a. assignmentSubmissionResponse a None) xs))])))"

text \<open>\<^verbatim>\<open>binding:"required,min=0,max=100"\<close>: a required number is not zero.\<close>

record gradeSubmissionRequest =
  gq_percent :: rat
  gq_feedback :: string

definition GradeSubmission :: "learn_env \<Rightarrow> auth_ctx \<Rightarrow> course \<Rightarrow> uuid \<Rightarrow> gradeSubmissionRequest option \<Rightarrow> ldb handler" where
  "GradeSubmission env ac c submission body = (case body of None \<Rightarrow> h_respond (RespErr 400 ''invalid request'')
     | Some req \<Rightarrow>
       h_bind (h_guard (gq_percent req \<noteq> 0 \<and> 0 \<le> gq_percent req \<and> gq_percent req \<le> 100) (RespErr 400 ''invalid request'')) (\<lambda>_.
       h_bind (lsql (SubmissionRepo_Get submission) (not_found_or_internal ''submission not found'')) (\<lambda>a.
       h_bind (lsql (on_adb (BlockRepo_Get (sm_block a))) (\<lambda>_. RespErr 404 ''submission not found'')) (\<lambda>b.
       h_bind (h_guard (bk_course b = c_id c) (RespErr 404 ''submission not found'')) (\<lambda>_.
       h_bind (lsql (GradeRepo_Create (le_pct env) (c_org c) (sm_id a) (gq_percent req)
           (if gq_feedback req = [] then None else Some (gq_feedback req)) (ac_user ac)) internal_error) (\<lambda>g.
       h_bind (lsql (SubmissionRepo_SetStatus (sm_id a) SubGraded) internal_error) (\<lambda>a'.
         h_return (Resp 201 (assignmentSubmissionResponse a' (Some g))))))))))"

section \<open>The learner routes\<close>

datatype learner_action =
    LPlayer | LResume uuid | LProgress uuid "lessonProgressRequest option" | LComplete uuid | LCourseProgress
  | LQuiz uuid uuid | LSubmitQuiz uuid uuid "quiz_answer list option"
  | LUpload uuid uuid "string option" | LSubmit uuid uuid "string option" | LSubmissions uuid uuid
  | LCertificate

definition learner_handler :: "learn_env \<Rightarrow> auth_ctx \<Rightarrow> course \<Rightarrow> learner_action \<Rightarrow> ldb handler" where
  "learner_handler env ac c a = (case a of
     LPlayer \<Rightarrow> GetPlayer ac c | LResume l \<Rightarrow> ResumeLesson ac c l | LProgress l b \<Rightarrow> ReportLessonProgress env ac c l b
   | LComplete l \<Rightarrow> CompleteLesson env ac c l | LCourseProgress \<Rightarrow> GetCourseProgress ac c
   | LQuiz l b \<Rightarrow> GetQuiz ac c l b | LSubmitQuiz l b q \<Rightarrow> SubmitQuiz env ac c l b q
   | LUpload l b q \<Rightarrow> UploadAssignmentSubmission env ac c l b q | LSubmit l b q \<Rightarrow> SubmitAssignment env ac c l b q
   | LSubmissions l b \<Rightarrow> GetAssignmentSubmissions ac c l b | LCertificate \<Rightarrow> GetCourseCertificate env ac c)"

text \<open>\<^verbatim>\<open>SetOrgContext\<close> stamps the role on the transaction.\<close>

definition set_role :: "org_ctx \<Rightarrow> (response, ldb, unit) hm" where
  "set_role oc = (\<lambda>s. (Inr (), s\<lparr>ld_role := oc_role oc\<rparr>))"

datatype learn_request =
    LrEnroll uuid | LrLearn uuid learner_action | LrQueue uuid | LrGrade uuid uuid "gradeSubmissionRequest option" | LrCertificates

definition course_request :: "auth_ctx \<Rightarrow> uuid \<Rightarrow> (course \<Rightarrow> org_ctx \<Rightarrow> ldb handler) \<Rightarrow> ldb handler" where
  "course_request ac i f = h_bind (in_adb (ResolveCourseOrg ac i)) (\<lambda>(c, oc). h_bind (set_role oc) (\<lambda>_. f c oc))"

definition learn_request_handler :: "learn_env \<Rightarrow> auth_ctx \<Rightarrow> learn_request \<Rightarrow> ldb handler" where
  "learn_request_handler env ac q = (case q of
     LrEnroll i \<Rightarrow> course_request ac i (\<lambda>c oc. EnrollCourse env ac c)
   | LrLearn i a \<Rightarrow> course_request ac i (\<lambda>c oc. h_bind (RequireEntitlement ac c oc) (\<lambda>_. learner_handler env ac c a))
   | LrQueue i \<Rightarrow> course_request ac i (\<lambda>c oc. h_bind (in_adb (RequireRole {Owner, Teacher} oc)) (\<lambda>_. ListCourseSubmissions c))
   | LrGrade i j b \<Rightarrow> course_request ac i (\<lambda>c oc. h_bind (in_adb (RequireRole {Owner, Teacher} oc)) (\<lambda>_. GradeSubmission env ac c j b))
   | LrCertificates \<Rightarrow> ListCertificates ac)"

end
