(* ===== verification/LearnFacts.thy ===== *)
theory LearnFacts
  imports Assessment
begin

text \<open>
  How learning statements, handlers and requests run, and the contract under which an invariant of
  the learner tables is kept by every request: the locale \<open>learner_laws\<close> lists the statements
  that write, \<open>learning_laws\<close> adds grading, and the lemmas inside them go through every handler
  once.
\<close>

section \<open>Running learning statements\<close>

lemma lsql_attempt_run:
  "lsql_attempt m s = (Inr (Inr x), t) \<longleftrightarrow> \<not> a_aborted (ld_adb s) \<and> m s = Inr (x, t)"
  "lsql_attempt m s = (Inr (Inl e), t) \<longleftrightarrow> (if a_aborted (ld_adb s) then e = ErrStorage else m s = Inl e) \<and> t = abort e s"
  "lsql_attempt m s \<noteq> (Inl r, t)"
  by (auto simp: lsql_attempt_def split: sum.splits)

lemma lattempt_bind_run:
  "h_bind (lsql_attempt m) (\<lambda>r. case r of Inl e \<Rightarrow> g e | Inr x \<Rightarrow> f x) s = (v, t) \<longleftrightarrow>
     (\<exists>x s'. \<not> a_aborted (ld_adb s) \<and> m s = Inr (x, s') \<and> f x s' = (v, t)) \<or>
     (\<exists>e. (if a_aborted (ld_adb s) then e = ErrStorage else m s = Inl e) \<and> g e (abort e s) = (v, t))"
  by (auto simp: h_bind_def lsql_attempt_def split: sum.splits prod.splits)

lemma lsql_run:
  "lsql m f s = (Inr x, t) \<longleftrightarrow> \<not> a_aborted (ld_adb s) \<and> m s = Inr (x, t)"
  "lsql m f s = (Inl r, t) \<longleftrightarrow>
     (\<exists>e. (if a_aborted (ld_adb s) then e = ErrStorage else m s = Inl e) \<and> r = f e \<and> t = abort e s)"
  unfolding lsql_def lattempt_bind_run by auto

lemma lsql_ignore_run:
  "lsql_ignore m s = (Inr u, t) \<longleftrightarrow> (\<not> a_aborted (ld_adb s) \<and> m s = Inr ((), t)) \<or>
     (\<exists>e. (if a_aborted (ld_adb s) then e = ErrStorage else m s = Inl e) \<and> t = abort e s)"
  "lsql_ignore m s \<noteq> (Inl r, t)"
  by (auto simp: lsql_ignore_def h_bind_def lsql_attempt_def h_return_def split: sum.splits prod.splits)

lemmas l_run = h_bind_Inr h_bind_Inl lsql_run lsql_ignore_run

lemma in_adb_run: "in_adb m s = (v, t) \<longleftrightarrow> (\<exists>a. m (ld_adb s) = (v, a) \<and> t = s\<lparr>ld_adb := a\<rparr>)"
  by (auto simp: in_adb_def Let_def split: prod.splits)

lemma on_adb_Inr: "on_adb m s = Inr (x, t) \<longleftrightarrow> (\<exists>a. m (ld_adb s) = Inr (x, a) \<and> t = s\<lparr>ld_adb := a\<rparr>)"
  by (auto simp: on_adb_def split: sum.splits prod.splits)

lemma on_adb_Inl: "on_adb m s = Inl e \<longleftrightarrow> m (ld_adb s) = Inl e"
  by (auto simp: on_adb_def split: sum.splits prod.splits)

lemma on_shop_Inr: "on_shop m s = Inr (x, t) \<longleftrightarrow> (\<exists>a. m (ld_shop s) = Inr (x, a) \<and> t = s\<lparr>ld_shop := a\<rparr>)"
  by (auto simp: on_shop_def split: sum.splits prod.splits)

lemma abort_simps [simp]:
  "ld_shop (abort e s) = ld_shop s" "ld_role (abort e s) = ld_role s" "ld_next (abort e s) = ld_next s"
  "ld_resume (abort e s) = ld_resume s" "ld_progress (abort e s) = ld_progress s"
  "ld_attempts (abort e s) = ld_attempts s" "ld_scores (abort e s) = ld_scores s"
  "ld_submissions (abort e s) = ld_submissions s" "ld_grades (abort e s) = ld_grades s"
  "ld_certs (abort e s) = ld_certs s" "ld_rules (abort e s) = ld_rules s" "ld_prereqs (abort e s) = ld_prereqs s"
  "ld_adb (abort e s) = (ld_adb s)\<lparr>a_aborted := a_aborted (ld_adb s) \<or> aborts e\<rparr>"
  by (simp_all add: abort_def)

section \<open>Requests\<close>

abbreviation open_tx :: "uuid \<Rightarrow> ldb \<Rightarrow> ldb" where
  "open_tx u s \<equiv> s\<lparr>ld_adb := stamp u (ld_adb s), ld_role := None\<rparr>"

abbreviation close_tx :: "ldb \<Rightarrow> ldb" where
  "close_tx s \<equiv> s\<lparr>ld_adb := unstamp (ld_adb s), ld_role := None\<rparr>"

definition resting :: "ldb \<Rightarrow> bool" where
  "resting s \<longleftrightarrow> idle (ld_adb s) \<and> ld_role s = None"

lemma lserve_cases:
  assumes "lserve u m s = (r, s')"
  obtains t where "run_handler m (open_tx u s) = (r, t)" "s' = s" "500 \<le> http_status r \<or> a_aborted (ld_adb t)"
  | t where "run_handler m (open_tx u s) = (r, t)" "http_status r < 500" "\<not> a_aborted (ld_adb t)" "s' = close_tx t"
  using assms unfolding lserve_def by (auto simp: Let_def split: prod.splits if_splits)

text \<open>What an aborted statement and the role stamp leave alone.\<close>

locale quiet_state =
  fixes I :: "ldb \<Rightarrow> bool"
  assumes adb: "I s \<Longrightarrow> same_but_aborted (ld_adb s) a \<Longrightarrow> I (s\<lparr>ld_adb := a\<rparr>)"
    and role: "I s \<Longrightarrow> I (s\<lparr>ld_role := r\<rparr>)"
begin

lemma aborted: "I s \<Longrightarrow> I (abort e s)"
  unfolding abort_def by (rule adb) (auto simp: same_but_aborted_def)

lemma pres_attempt: "tx_pres I m \<Longrightarrow> h_pres I (lsql_attempt m)"
  by (auto simp: h_post_def lsql_attempt_def tx_post_def aborted split: sum.splits)

lemma pres_lsql: "tx_pres I m \<Longrightarrow> h_pres I (lsql m f)"
  unfolding lsql_def by (intro h_pres_bind pres_attempt h_pres_sum h_pres_respond h_pres_return)

lemma pres_ignore: "tx_pres I m \<Longrightarrow> h_pres I (lsql_ignore m)"
  unfolding lsql_ignore_def by (intro h_pres_bind pres_attempt h_pres_return)

lemma pres_reading: "(\<And>a. h_pres (same_but_aborted a) m) \<Longrightarrow> h_pres I (in_adb m)"
proof -
  assume reads: "\<And>a. h_pres (same_but_aborted a) m"
  have "same_but_aborted (ld_adb s) (snd (m (ld_adb s)))" for s
    using h_presD[OF reads] by simp
  then have "I (s\<lparr>ld_adb := snd (m (ld_adb s))\<rparr>)" if "I s" for s using that adb by blast
  then show "h_pres I (in_adb m)" by (simp add: h_post_def in_adb_def Let_def split_beta)
qed

lemma pres_role: "h_pres I (set_role oc)"
  by (simp add: h_post_def set_role_def role)

lemma lserve_keeps:
  assumes "h_pres I m" "I (open_tx u s)"
  obtains "snd (lserve u m s) = s" | t where "I t" "snd (lserve u m s) = close_tx t"
proof -
  obtain r s' where sv: "lserve u m s = (r, s')" by fastforce
  have "I (snd (m (open_tx u s)))" using assms by (simp add: h_post_def)
  then show thesis
    using sv that by (cases rule: lserve_cases[OF sv]) (auto simp: run_handler_cases)
qed

end

section \<open>Statements that read\<close>

lemma adb_reads:
  "tx_pres I m \<Longrightarrow> (\<And>s. J s \<Longrightarrow> I (ld_adb s)) \<Longrightarrow> (\<And>s a. J s \<Longrightarrow> I a \<Longrightarrow> J (s\<lparr>ld_adb := a\<rparr>)) \<Longrightarrow> tx_pres J (on_adb m)"
  by (fastforce simp: tx_post_def on_adb_Inr)

lemma unchanged_read: "(\<And>s x t. m s = Inr (x, t) \<Longrightarrow> t = s) \<Longrightarrow> tx_pres I m"
  by (auto simp: tx_post_def)

lemma load_lessons_reads: "load_lessons cs s = Inr (x, t) \<Longrightarrow> t = s"
  by (induction cs arbitrary: s x) (auto simp: tx_Inr LessonRepo_ListByChapter_def)

lemma adb_read_run:
  "on_adb (LessonRepo_Get i) s = Inr (l, t) \<Longrightarrow> t = s"
  "on_adb (BlockRepo_Get i) s = Inr (b, t) \<Longrightarrow> t = s"
  "on_adb (ACourseRepo_Get i) s = Inr (c, t) \<Longrightarrow> t = s"
  "on_adb (ProfileRepo_GetByID i) s = Inr (p, t) \<Longrightarrow> t = s"
  by (auto simp: on_adb_Inr LessonRepo_Get_def BlockRepo_Get_def a_select_def ProfileRepo_GetByID_def tab_select1_Inr
      dest: get_course_seen)

lemma structure_read: "on_adb (tx_bind (ChapterRepo_ListByCourse c) load_lessons) s = Inr (x, t) \<Longrightarrow> t = s"
  by (auto simp: on_adb_Inr tx_bind_Inr ChapterRepo_ListByCourse_def dest: load_lessons_reads)

lemma learner_reads [tx_rules]:
  "tx_pres I (on_adb (LessonRepo_Get i))" "tx_pres I (on_adb (BlockRepo_Get i))"
  "tx_pres I (on_adb (ACourseRepo_Get i))" "tx_pres I (on_adb (ProfileRepo_GetByID i))"
  "tx_pres I (LAccess_Get l c)" "tx_pres I (ResumeRepo_Get l c)" "tx_pres I (ProgressRepo_ListByCourse l c)"
  "tx_pres I (AttemptRepo_CountByLearnerAndBlock l b)" "tx_pres I (ScoreRepo_GetBestScore l b)"
  "tx_pres I (SubmissionRepo_Get i)" "tx_pres I (SubmissionRepo_CountByLearnerAndBlock l b)"
  "tx_pres I (SubmissionRepo_ListPendingByCourse c)" "tx_pres I (GradeRepo_ListSubmissionsWithGrades l b)"
  "tx_pres I (CertificateRepo_GetByLearnerAndCourse l c)" "tx_pres I (CertificateRepo_ListByLearner l)"
  "tx_pres I (PrerequisiteRepo_ListForCourse c)" "tx_pres I (EvaluateCompletion c l)"
  "tx_pres I (loadCourseStructureWithProgress c l)"
  by (rule unchanged_read;
      auto simp: LAccess_Get_def ResumeRepo_Get_def ProgressRepo_ListByCourse_def AttemptRepo_CountByLearnerAndBlock_def
        ScoreRepo_GetBestScore_def SubmissionRepo_Get_def SubmissionRepo_CountByLearnerAndBlock_def
        SubmissionRepo_ListPendingByCourse_def GradeRepo_ListSubmissionsWithGrades_def
        CertificateRepo_GetByLearnerAndCourse_def CertificateRepo_ListByLearner_def PrerequisiteRepo_ListForCourse_def
        EvaluateCompletion_def RuleRepo_ListForCourse_def countCourseLessons_def countCourseQuizzes_def Let_def
        loadCourseStructureWithProgress_def tab_select1_Inr tx_bind_Inr
        dest!: adb_read_run structure_read split: option.splits)+


section \<open>Early answers\<close>

text \<open>Every early answer of the handler is an error.\<close>

definition errs :: "(response, 's, 'a) hm \<Rightarrow> bool" where
  "errs m \<longleftrightarrow> (\<forall>s r t. m s = (Inl r, t) \<longrightarrow> 400 \<le> http_status r)"

lemma errsD: "errs m \<Longrightarrow> m s = (Inl r, t) \<Longrightarrow> 400 \<le> http_status r"
  by (auto simp: errs_def)

lemma errs_bind: "errs m \<Longrightarrow> (\<And>x. errs (f x)) \<Longrightarrow> errs (h_bind m f)"
  unfolding errs_def h_bind_Inl by blast

lemma errs_cases:
  "errs (h_return y)" "400 \<le> http_status r \<Longrightarrow> errs (h_respond r)" "400 \<le> http_status r \<Longrightarrow> errs (h_guard b r)"
  "errs m \<Longrightarrow> errs n \<Longrightarrow> errs (if b then m else n)"
  "errs m \<Longrightarrow> (\<And>z. errs (g z)) \<Longrightarrow> errs (case v of None \<Rightarrow> m | Some z \<Rightarrow> g z)"
  "(\<And>e. errs (k e)) \<Longrightarrow> (\<And>z. errs (g' z)) \<Longrightarrow> errs (case w of Inl e \<Rightarrow> k e | Inr z \<Rightarrow> g' z)"
  "(\<And>a b. errs (h a b)) \<Longrightarrow> errs (case p of (a, b) \<Rightarrow> h a b)"
  by (auto simp: errs_def split: option.splits sum.splits prod.splits)

lemmas errs_rules = errs_bind errs_cases

lemma errs_sql:
  "(\<And>e. 400 \<le> http_status (f e)) \<Longrightarrow> errs (lsql m f)" "errs (lsql_ignore (n :: (ldb, unit) tx))" "errs (lsql_attempt k)"
  by (auto simp: errs_def lsql_run lsql_ignore_run lsql_attempt_run)

lemma errs_lesson: "errs (lessonInCourse i c)"
  unfolding lessonInCourse_def by (intro errs_rules errs_sql) simp_all

lemma errs_block: "errs (block_in_lesson ty dec msg i l)"
  unfolding block_in_lesson_def by (intro errs_rules errs_sql) simp_all

lemma errs_certify: "errs (evaluateAndIssueCertificateIfComplete env c u)"
  unfolding evaluateAndIssueCertificateIfComplete_def by (intro errs_rules errs_sql) simp_all

lemma errs_gate: "errs (RequireEntitlement ac c oc)"
  unfolding RequireEntitlement_def by (intro errs_rules errs_sql) simp_all

lemma errs_learner: "errs (learner_handler env ac c a)"
proof -
  have "errs (GetPlayer ac c)" "errs (GetCourseProgress ac c)" "errs (GetCourseCertificate env ac c)"
    unfolding GetPlayer_def GetCourseProgress_def GetCourseCertificate_def Let_def
    by (intro errs_rules errs_sql; simp)+
  moreover have "errs (ResumeLesson ac c l)" "errs (CompleteLesson env ac c l)" "errs (ReportLessonProgress env ac c l b)" for l b
    unfolding ResumeLesson_def CompleteLesson_def ReportLessonProgress_def
    by (intro errs_rules errs_sql errs_lesson errs_certify; simp)+
  moreover have "errs (GetQuiz ac c l i)" "errs (SubmitQuiz env ac c l i q)" for l i q
    unfolding GetQuiz_def SubmitQuiz_def quizBlockInLesson_def Let_def
    by (intro errs_rules errs_sql errs_lesson errs_block errs_certify; simp)+
  moreover have "errs (UploadAssignmentSubmission env ac c l i b)" "errs (SubmitAssignment env ac c l i b)"
      "errs (GetAssignmentSubmissions ac c l i)" for l i b
    unfolding UploadAssignmentSubmission_def SubmitAssignment_def GetAssignmentSubmissions_def assignmentBlockInLesson_def Let_def
    by (intro errs_rules errs_sql errs_lesson errs_block errs_certify; simp)+
  ultimately show ?thesis by (cases a) (simp_all add: learner_handler_def)
qed

section \<open>Course routes\<close>

definition same_tables :: "ldb \<Rightarrow> ldb \<Rightarrow> bool" where
  "same_tables s t \<longleftrightarrow> same_but_aborted (ld_adb s) (ld_adb t) \<and> t = s\<lparr>ld_adb := ld_adb t, ld_role := ld_role t\<rparr>"

lemma same_but_aborted_trans: "same_but_aborted a b \<Longrightarrow> same_but_aborted b c \<Longrightarrow> same_but_aborted a c"
  by (auto simp: same_but_aborted_def)

interpretation reading: quiet_state "same_tables s0" for s0
proof (unfold_locales, goal_cases)
  case (1 s a)
  then have "same_but_aborted (ld_adb s0) a" by (auto simp: same_tables_def intro: same_but_aborted_trans)
  then show ?case using 1 by (cases s0; cases s) (simp add: same_tables_def)
next
  case (2 s r)
  then show ?case by (cases s0; cases s) (simp add: same_tables_def)
qed

lemma same_tables_refl [simp]: "same_tables s s"
  by (simp add: same_tables_def)

lemma ResolveCourseOrg_run:
  assumes "ResolveCourseOrg ac i s = (Inr (c, oc), t)"
  shows "t = s \<and> c \<in> set (a_courses s) \<and> c_id c = i \<and> (oc_platform oc \<longleftrightarrow> oc_role oc = None) \<and> (case oc_role oc of
      Some r \<Rightarrow> \<exists>m \<in> set (a_members s). mb_user m = ac_user ac \<and> mb_org m = c_org c \<and> mb_role m = r
    | None \<Rightarrow> \<exists>p \<in> set (a_profiles s). pf_id p = ac_user ac \<and> pf_platform_owner p)"
proof -
  from assms have c: "c \<in> set (a_courses s)" "c_id c = i"
    and st: "stampOrgContext ac (c_org c) ''course not found'' s = (Inr oc, t)"
    unfolding ResolveCourseOrg_def h_bind_Inr sql_run by (auto dest!: get_course_seen)
  from st obtain ro where cr: "caller_role ac (c_org c) s = (Inr ro, s)"
    unfolding stampOrgContext_def h_bind_Inr by (auto dest: caller_role_run)
  show ?thesis
  proof (cases ro)
    case None
    then have "h_bind (sql_attempt (ProfileRepo_GetByID (ac_user ac))) (\<lambda>p. case p of
           Inl e \<Rightarrow> h_respond (RespErr 404 ''course not found'')
         | Inr p \<Rightarrow> if pf_platform_owner p
             then h_return \<lparr>oc_org = c_org c, oc_slug = [], oc_role = None, oc_platform = True\<rparr>
             else h_respond (RespErr 404 ''course not found'')) s = (Inr oc, t)"
      using st by (simp add: stampOrgContext_def h_bind_def[of "caller_role ac (c_org c)"] cr)
    then show ?thesis using c unfolding attempt_bind_run
      by (auto simp: ProfileRepo_GetByID_def tab_select1_Inr split: if_splits dest!: find_SomeD)
  next
    case (Some r)
    then show ?thesis
      using st c caller_role_run[OF cr] by (simp add: stampOrgContext_def h_bind_def[of "caller_role ac (c_org c)"] cr)
  qed
qed

text \<open>A request about a course is turned away without a trace, or reaches its handler.\<close>

lemma course_request_cases:
  assumes "course_request ac i f s = (v, t)"
  obtains (stopped) r where "v = Inl r" "400 \<le> http_status r" "same_but_aborted (ld_adb s) (ld_adb t)" "t = s\<lparr>ld_adb := ld_adb t\<rparr>"
  | (passed) c oc where "ResolveCourseOrg ac i (ld_adb s) = (Inr (c, oc), ld_adb s)" "f c oc (s\<lparr>ld_role := oc_role oc\<rparr>) = (v, t)"
proof (cases "ResolveCourseOrg ac i (ld_adb s)")
  case (Pair y a)
  show thesis
  proof (cases y)
    case (Inl r)
    have "same_but_aborted (ld_adb s) a" using h_presD[OF ResolveCourseOrg_reads[of "ld_adb s" ac i] same_but_aborted_refl] Pair by simp
    then show ?thesis
      using stopped[of r] assms Pair Inl ResolveCourseOrg_error[of ac i "ld_adb s" r a]
      by (auto simp: course_request_def h_bind_def in_adb_def)
  next
    case (Inr x)
    obtain c oc where x: "x = (c, oc)" by fastforce
    with Pair Inr have run: "ResolveCourseOrg ac i (ld_adb s) = (Inr (c, oc), a)" by simp
    then have "a = ld_adb s" using ResolveCourseOrg_run by blast
    then show ?thesis
      using passed[of c oc] assms run by (auto simp: course_request_def h_bind_def in_adb_def set_role_def)
  qed
qed

lemma h_post_step:
  "h_post P m R \<Longrightarrow> (\<And>x. h_post R (f x) Q) \<Longrightarrow> (\<And>s. R s \<Longrightarrow> Q s) \<Longrightarrow> h_post P (h_bind m f) Q"
  by (fastforce simp: h_post_def h_bind_def split: prod.splits sum.splits dest: spec)

lemma h_post_if: "(b \<Longrightarrow> h_post P m Q) \<Longrightarrow> (\<not> b \<Longrightarrow> h_post P n Q) \<Longrightarrow> h_post P (if b then m else n) Q"
  by simp

lemma h_post_sum:
  "(\<And>e. h_post P (g e) Q) \<Longrightarrow> (\<And>x. h_post P (f x) Q) \<Longrightarrow> h_post P (case v of Inl e \<Rightarrow> g e | Inr x \<Rightarrow> f x) Q"
  by (cases v) simp_all

lemma h_post_done: "(\<And>s. P s \<Longrightarrow> Q s) \<Longrightarrow> h_post P (h_return x) Q" "(\<And>s. P s \<Longrightarrow> Q s) \<Longrightarrow> h_post P (h_respond r) Q"
  "(\<And>s. P s \<Longrightarrow> Q s) \<Longrightarrow> h_post P (h_guard b r) Q"
  by (auto simp: h_post_def h_return_def h_respond_def h_guard_def)

lemma h_post_lsql: "tx_post P m (\<lambda>_. Q) \<Longrightarrow> (\<And>s e. P s \<Longrightarrow> Q (abort e s)) \<Longrightarrow> h_post P (lsql m f) Q"
  by (auto simp: h_post_def tx_post_def lsql_def h_bind_def lsql_attempt_def h_return_def h_respond_def split: sum.splits)

lemma h_post_value:
  assumes "tx_post P m R" "\<And>s e. P s \<Longrightarrow> Q (abort e s)" "\<And>x. h_post (R x) (k x) Q"
  shows "h_post P (h_bind (lsql m f) k) Q"
  unfolding h_post_def
proof (intro allI impI)
  fix s assume "P s"
  then show "Q (snd (h_bind (lsql m f) k s))"
    using assms tx_postD[OF assms(1)]
    by (auto simp: h_post_def lsql_def h_bind_def lsql_attempt_def h_return_def h_respond_def split: sum.splits)
qed

lemma h_post_weaken: "h_post P m R \<Longrightarrow> (\<And>s. R s \<Longrightarrow> Q s) \<Longrightarrow> h_post P m Q"
  by (auto simp: h_post_def)

lemma h_pres_triple:
  assumes "h_triple I m (\<lambda>_. I) (\<lambda>_. I)"
  shows "h_pres I m"
  unfolding h_post_def
proof (intro allI impI)
  fix s assume "I s"
  with assms have "case m s of (Inr x, s') \<Rightarrow> I s' | (Inl r, s') \<Rightarrow> I s'" by (simp add: h_triple_def)
  then show "I (snd (m s))" by (cases "m s"; cases "fst (m s)") auto
qed

context quiet_state
begin

lemmas r_rules = h_pres_bind h_pres_guard h_pres_return h_pres_respond h_pres_if h_pres_option h_pres_sum
  pres_attempt pres_lsql learner_reads

lemma keeps_gate: "h_pres I (RequireEntitlement ac c oc)"
  unfolding RequireEntitlement_def by (intro r_rules)

lemma keeps_lesson: "h_pres I (lessonInCourse l c)"
  unfolding lessonInCourse_def by (intro r_rules)

lemma keeps_block: "h_pres I (block_in_lesson ty dec msg i l)"
  unfolding block_in_lesson_def by (intro r_rules)

lemma lsql_triple: "tx_post P m Q \<Longrightarrow> (\<And>s. P s \<Longrightarrow> I s) \<Longrightarrow> h_triple P (lsql m f) Q (\<lambda>_. I)"
  by (fastforce simp: h_triple_def tx_post_def lsql_run split: prod.splits sum.splits intro: aborted)

text \<open>A count, and later a statement that uses it, with steps between that keep both.\<close>

lemma counted_pres:
  assumes count: "tx_post I m (\<lambda>n s. I s \<and> C n s)"
    and use: "\<And>n. h_triple (\<lambda>s. I s \<and> C n s) (k n) (\<lambda>_. I) (\<lambda>_. I)"
  shows "h_pres I (h_bind (lsql m f) k)"
  by (rule h_pres_triple, rule h_triple_bind[OF lsql_triple[OF count]], assumption, rule use)

end

section \<open>The contract of learning\<close>

text \<open>
  What an invariant has to say about a learner's own request, for the learner \<open>u\<close>: first the
  statements of the simple handlers, then the certificate, then quizzes and assignments.
\<close>

locale learner_writes = quiet_state I for I :: "ldb \<Rightarrow> bool" +
  fixes u :: uuid
  assumes resume: "tx_pres I (ResumeRepo_Upsert o' u c l)"
    and watch: "tx_pres I (ProgressRepo_UpsertWatchProgress col o' u l c ms pct)"
    and complete: "tx_pres I (ProgressRepo_MarkComplete o' u l c)"
    and access: "tx_pres I (LAccess_Create o' u c)"
    and event: "tx_pres I (record_event env o' ty u c)"
begin

lemmas l_rules = h_pres_bind h_pres_guard h_pres_return h_pres_respond h_pres_if h_pres_option h_pres_sum
  pres_attempt pres_lsql pres_ignore learner_reads resume watch complete access event

lemma keeps_prerequisites: "h_pres I (incomplete_prerequisites u cs)"
  by (induction cs) (auto intro!: l_rules)

lemma keeps_enroll: "ac_user ac = u \<Longrightarrow> h_pres I (EnrollCourse env ac c)"
  unfolding EnrollCourse_def by (simp only:) (intro l_rules keeps_prerequisites)

lemma keeps_resume: "ac_user ac = u \<Longrightarrow> h_pres I (ResumeLesson ac c l)"
  unfolding ResumeLesson_def by (simp only:) (intro l_rules keeps_lesson)

lemma keeps_readers: "h_pres I (GetPlayer ac c)" "h_pres I (GetCourseProgress ac c)" "h_pres I (ListCertificates ac)"
  "h_pres I (GetCourseCertificate env ac c)" "h_pres I (GetQuiz ac c l b)"
  "h_pres I (UploadAssignmentSubmission env ac c l b q)" "h_pres I (GetAssignmentSubmissions ac c l b)"
  "h_pres I (ListCourseSubmissions c)"
  unfolding GetPlayer_def GetCourseProgress_def ListCertificates_def GetCourseCertificate_def GetQuiz_def quizBlockInLesson_def
    UploadAssignmentSubmission_def GetAssignmentSubmissions_def ListCourseSubmissions_def assignmentBlockInLesson_def Let_def
  by (auto split: prod.splits intro!: l_rules keeps_lesson keeps_block)

lemma keeps_role_guard: "h_pres I (in_adb (RequireRole R oc))"
  by (rule pres_reading) (simp add: RequireRole_def h_pres_guard)

lemma keeps_course_request: "(\<And>c oc. h_pres I (f c oc)) \<Longrightarrow> h_pres I (course_request ac i f)"
  unfolding course_request_def by (auto split: prod.splits intro!: h_pres_bind pres_reading ResolveCourseOrg_reads pres_role)

end

locale learner_steps = learner_writes +
  assumes certificate: "tx_pres I (CertificateRepo_Create o' u c public path)"
begin

lemma keeps_certify: "h_pres I (evaluateAndIssueCertificateIfComplete env c u)"
  unfolding evaluateAndIssueCertificateIfComplete_def by (intro l_rules certificate)

lemma keeps_lesson_handlers:
  assumes "ac_user ac = u"
  shows "h_pres I (ReportLessonProgress env ac c l body)" "h_pres I (CompleteLesson env ac c l)"
  unfolding ReportLessonProgress_def CompleteLesson_def
  by (simp_all only: assms) (intro l_rules keeps_lesson keeps_certify)+

end

text \<open>The two handlers that number their rows.\<close>

locale learner_base = learner_steps +
  assumes quiz: "ac_user ac = u \<Longrightarrow> h_pres I (SubmitQuiz env ac co l b q)"
    and assignment: "ac_user ac = u \<Longrightarrow> h_pres I (SubmitAssignment env ac co l b a)"
begin

lemma keeps_learner: "ac_user ac = u \<Longrightarrow> h_pres I (learner_handler env ac c a)"
  unfolding learner_handler_def by (cases a) (simp_all add: keeps_readers keeps_resume keeps_lesson_handlers quiz assignment)

lemma keeps_learner_request:
  assumes "ac_user ac = u" "\<And>i j b. q \<noteq> LrGrade i j b"
  shows "h_pres I (learn_request_handler env ac q)"
  using assms unfolding learn_request_handler_def
  by (cases q) (auto intro!: keeps_course_request h_pres_bind keeps_gate keeps_learner keeps_enroll keeps_readers
      keeps_role_guard)

end

text \<open>Grading writes a grade and the status of the submission it belongs to.\<close>

locale learning_base = learner_base +
  assumes grade: "tx_pres I (GradeRepo_Create col o' sub pct feedback u)"
    and status: "tx_pres I (SubmissionRepo_SetStatus i st)"
begin

lemma keeps_grading: "ac_user ac = u \<Longrightarrow> h_pres I (GradeSubmission env ac c j b)"
  unfolding GradeSubmission_def by (simp only:) (intro l_rules grade status)

lemma keeps_any: "ac_user ac = u \<Longrightarrow> h_pres I (learn_request_handler env ac q)"
proof (cases "\<exists>i j b. q = LrGrade i j b")
  case True
  moreover assume "ac_user ac = u"
  ultimately show ?thesis
    by (auto simp: learn_request_handler_def intro!: keeps_course_request h_pres_bind keeps_role_guard keeps_grading)
qed (auto intro: keeps_learner_request)

end

text \<open>Where every single statement keeps the invariant, so do these two handlers.\<close>

locale learner_laws = learner_steps +
  assumes attempt: "tx_pres I (AttemptRepo_Create o' u b n answers)"
    and score: "tx_pres I (ScoreRepo_Create col o' u b n earned mx pct passed)"
    and submission: "tx_pres I (SubmissionRepo_Create o' u b n path st due)"
begin

lemma law_quiz:
  assumes "ac_user ac = u"
  shows "h_pres I (SubmitQuiz env ac c l b q)"
  unfolding SubmitQuiz_def quizBlockInLesson_def Let_def
  by (simp only: assms)
    (auto split: prod.splits intro!: l_rules keeps_lesson keeps_block keeps_certify attempt score)

lemma submission_now: "tx_pres I (\<lambda>s. SubmissionRepo_Create o' u b n path st (f s) s)"
  by (rule tx_postI) (rule tx_postD[OF submission])

lemma law_assignment:
  assumes "ac_user ac = u"
  shows "h_pres I (SubmitAssignment env ac c l b q)"
  unfolding SubmitAssignment_def assignmentBlockInLesson_def Let_def
  by (simp only: assms)
    (auto split: prod.splits intro!: l_rules keeps_lesson keeps_block keeps_certify submission_now)

end

sublocale learner_laws \<subseteq> learner_base I u
  by unfold_locales (rule law_quiz law_assignment; assumption)+

end
