(* ===== verification/ModuleBase.thy ===== *)
theory ModuleBase
  imports LearnFacts
begin

text \<open>
  What the optional modules (simulations, SCORM packages, code exercises) have in common: a
  transaction over the tenancy tables and the module's own, a toggle per organization next to the
  platform's, items that owners and teachers write and members read, rows that belong to a learner,
  and routes below \<^verbatim>\<open>/orgs/:org_slug\<close>. Every module extends the record \<open>mdb\<close> by its
  tables, and its items extend the record \<open>item\<close> by their columns. A course or lesson id that is
  no UUID is treated as one that does not exist: PostgreSQL refuses both.
\<close>

record mdb =
  md_adb :: adb
  md_on :: "uuid \<Rightarrow> bool"

section \<open>Statements and requests\<close>

definition on_org :: "(adb, 'a) tx \<Rightarrow> ('m mdb_scheme, 'a) tx" where
  "on_org m = (\<lambda>s. case m (md_adb s) of Inl e \<Rightarrow> Inl e | Inr (x, t) \<Rightarrow> Inr (x, s\<lparr>md_adb := t\<rparr>))"

definition in_org :: "(response, adb, 'a) hm \<Rightarrow> (response, 'm mdb_scheme, 'a) hm" where
  "in_org m = (\<lambda>s. let (r, t) = m (md_adb s) in (r, s\<lparr>md_adb := t\<rparr>))"

definition m_abort :: "err \<Rightarrow> 'm mdb_scheme \<Rightarrow> 'm mdb_scheme" where
  "m_abort e s = s\<lparr>md_adb := (md_adb s)\<lparr>a_aborted := a_aborted (md_adb s) \<or> aborts e\<rparr>\<rparr>"

definition msql_attempt :: "('m mdb_scheme, 'a) tx \<Rightarrow> (response, 'm mdb_scheme, err + 'a) hm" where
  "msql_attempt m = (\<lambda>s. case (if a_aborted (md_adb s) then Inl ErrStorage else m s) of
       Inr (x, s') \<Rightarrow> (Inr (Inr x), s') | Inl e \<Rightarrow> (Inr (Inl e), m_abort e s))"

definition msql :: "('m mdb_scheme, 'a) tx \<Rightarrow> (err \<Rightarrow> response) \<Rightarrow> (response, 'm mdb_scheme, 'a) hm" where
  "msql m f = h_bind (msql_attempt m) (\<lambda>r. case r of Inl e \<Rightarrow> h_respond (f e) | Inr x \<Rightarrow> h_return x)"

definition msql_ignore :: "('m mdb_scheme, 'a) tx \<Rightarrow> (response, 'm mdb_scheme, unit) hm" where
  "msql_ignore m = h_bind (msql_attempt m) (\<lambda>_. h_return ())"

definition mserve :: "uuid \<Rightarrow> 'm mdb_scheme handler \<Rightarrow> 'm mdb_scheme \<Rightarrow> response \<times> 'm mdb_scheme" where
  "mserve u m s = (let (r, s') = run_handler m (s\<lparr>md_adb := stamp u (md_adb s)\<rparr>) in
     if 500 \<le> http_status r \<or> a_aborted (md_adb s') then (r, s) else (r, s'\<lparr>md_adb := unstamp (md_adb s')\<rparr>))"

section \<open>Row-level security\<close>

definition is_org_teacher :: "adb \<Rightarrow> uuid \<Rightarrow> uuid \<Rightarrow> bool" where
  "is_org_teacher s u o' \<longleftrightarrow> (\<exists>m \<in> set (a_members s). mb_user m = u \<and> mb_org m = o' \<and> mb_role m \<in> {Owner, Teacher})"

definition teaches :: "adb \<Rightarrow> uuid \<Rightarrow> bool" where
  "teaches s o' = (case a_session s of None \<Rightarrow> True | Some u \<Rightarrow> is_org_teacher s u o')"

definition reads_org :: "adb \<Rightarrow> uuid \<Rightarrow> bool" where
  "reads_org s o' \<longleftrightarrow> sees s o' \<or> app_is_platform_owner s"

definition row_mine :: "adb \<Rightarrow> uuid \<Rightarrow> bool" where
  "row_mine s learner = (case a_session s of None \<Rightarrow> True | Some u \<Rightarrow> learner = u)"

definition row_visible :: "adb \<Rightarrow> uuid \<Rightarrow> uuid \<Rightarrow> bool" where
  "row_visible s learner o' \<longleftrightarrow> row_mine s learner \<or> teaches s o' \<or> app_is_platform_owner s"

definition row_addable :: "adb \<Rightarrow> uuid \<Rightarrow> uuid \<Rightarrow> bool" where
  "row_addable s learner o' \<longleftrightarrow> row_mine s learner \<and> sees s o'"

section \<open>Items\<close>

record item =
  it_id :: uuid
  it_org :: uuid
  it_course :: "uuid option"
  it_lesson :: "uuid option"
  it_slug :: string
  it_title :: string
  it_description :: string
  it_published :: bool
  it_created_by :: "uuid option"
  it_created :: time
  it_updated :: time

text \<open>Foreign keys are checked without the row-level policies.\<close>

definition refs_exist :: "adb \<Rightarrow> 'x item_scheme \<Rightarrow> bool" where
  "refs_exist s r \<longleftrightarrow> (case it_course r of None \<Rightarrow> True | Some c \<Rightarrow> \<exists>x \<in> set (a_courses s). c_id x = c) \<and>
     (case it_lesson r of None \<Rightarrow> True | Some l \<Rightarrow> \<exists>x \<in> set (a_lessons s). ls_id x = l)"

definition item_get :: "('m mdb_scheme \<Rightarrow> 'x item_scheme list) \<Rightarrow> uuid \<Rightarrow> ('m mdb_scheme, 'x item_scheme) tx" where
  "item_get get i = (\<lambda>s. tab_select1 get (\<lambda>r. reads_org (md_adb s) (it_org r) \<and> it_id r = i) s)"

definition newest :: "('a \<Rightarrow> time) \<Rightarrow> 'a list \<Rightarrow> 'a list" where
  "newest t xs = sort_key (\<lambda>r. - t r) xs"

definition item_list ::
  "('m mdb_scheme \<Rightarrow> 'x item_scheme list) \<Rightarrow> ('x item_scheme \<Rightarrow> bool) \<Rightarrow> ('m mdb_scheme, 'x item_scheme list) tx" where
  "item_list get P = tx_gets (\<lambda>s. newest it_created (filter (\<lambda>r. reads_org (md_adb s) (it_org r) \<and> P r) (get s)))"

definition item_insert :: "('m mdb_scheme \<Rightarrow> 'x item_scheme list) \<Rightarrow> ('x item_scheme list \<Rightarrow> 'm mdb_scheme \<Rightarrow> 'm mdb_scheme) \<Rightarrow>
    (uuid \<Rightarrow> time \<Rightarrow> 'x item_scheme) \<Rightarrow> ('m mdb_scheme, 'x item_scheme) tx" where
  "item_insert get put mk = (\<lambda>s. let a = md_adb s; r = mk (a_next a) (a_clock a) in
     if \<not> teaches a (it_org r) \<or> \<not> refs_exist a r then Inl ErrStorage
     else if \<exists>x \<in> set (get s). it_org x = it_org r \<and> it_slug x = it_slug r then Inl ErrUniqueViolation
     else Inr (r, put (get s @ [r]) (s\<lparr>md_adb := a\<lparr>a_next := Suc (a_next a)\<rparr>\<rparr>)))"

definition item_update :: "('m mdb_scheme \<Rightarrow> 'x item_scheme list) \<Rightarrow> ('x item_scheme list \<Rightarrow> 'm mdb_scheme \<Rightarrow> 'm mdb_scheme) \<Rightarrow>
    uuid \<Rightarrow> (time \<Rightarrow> 'x item_scheme \<Rightarrow> 'x item_scheme) \<Rightarrow> ('m mdb_scheme, 'x item_scheme) tx" where
  "item_update get put i f = (\<lambda>s. let a = md_adb s; P = (\<lambda>r. teaches a (it_org r) \<and> it_id r = i) in
     if \<exists>r \<in> set (get s). P r \<and> \<not> refs_exist a (f (a_clock a) r) then Inl ErrStorage
     else tab_update get put P (f (a_clock a)) s)"

definition item_delete :: "('m mdb_scheme \<Rightarrow> 'x item_scheme list) \<Rightarrow> ('x item_scheme list \<Rightarrow> 'm mdb_scheme \<Rightarrow> 'm mdb_scheme) \<Rightarrow>
    uuid \<Rightarrow> ('m mdb_scheme, unit) tx" where
  "item_delete get put i = (\<lambda>s. let P = (\<lambda>r. teaches (md_adb s) (it_org r) \<and> it_id r = i) in
     if \<exists>r \<in> set (get s). P r then Inr ((), put (filter (\<lambda>r. \<not> P r) (get s)) s) else Inl ErrNotFound)"

definition clampLimit :: "int \<Rightarrow> int" where
  "clampLimit n = (if n \<le> 0 \<or> 500 < n then 100 else n)"

text \<open>A PostgreSQL \<^verbatim>\<open>INTEGER\<close>.\<close>

definition int4 :: "int \<Rightarrow> bool" where "int4 i \<longleftrightarrow> - (2 ^ 31) \<le> i \<and> i < 2 ^ 31"

section \<open>The toggle, the audit trail and the routes\<close>

definition ModuleRepo_GetEnabled :: "uuid \<Rightarrow> ('m mdb_scheme, bool) tx" where
  "ModuleRepo_GetEnabled o' = (\<lambda>s. if \<exists>g \<in> set (a_orgs (md_adb s)). sees_org (md_adb s) g \<and> og_id g = o'
     then Inr (md_on s o', s) else Inl ErrNotFound)"

definition ModuleRepo_SetEnabled :: "uuid \<Rightarrow> bool \<Rightarrow> ('m mdb_scheme, unit) tx" where
  "ModuleRepo_SetEnabled o' b = (\<lambda>s. if \<exists>g \<in> set (a_orgs (md_adb s)). owns (md_adb s) (og_id g) \<and> og_id g = o'
     then Inr ((), s\<lparr>md_on := (md_on s)(o' := b), md_adb := put_orgs (map (\<lambda>g.
         if owns (md_adb s) (og_id g) \<and> og_id g = o' then g\<lparr>og_updated := a_clock (md_adb s)\<rparr> else g) (a_orgs (md_adb s))) (md_adb s)\<rparr>)
     else Inl ErrNotFound)"

definition module_gate :: "bool \<Rightarrow> string \<Rightarrow> org_ctx \<Rightarrow> (response, 'm mdb_scheme, unit) hm" where
  "module_gate platform msg oc =
     h_bind (if platform then msql (ModuleRepo_GetEnabled (oc_org oc)) internal_error else h_return False) (\<lambda>on.
       h_guard on (RespErr 403 msg))"

definition module_audit :: "auth_ctx \<Rightarrow> org_ctx \<Rightarrow> string \<Rightarrow> string \<Rightarrow> uuid \<Rightarrow> (response, 'm mdb_scheme, unit) hm" where
  "module_audit ac oc action resource i =
     msql_ignore (on_org (AAuditRepo_Record (audit_of ac (Some (oc_org oc)) action resource i None)))"

text \<open>An item of the organization the request names.\<close>

definition org_item :: "('m mdb_scheme \<Rightarrow> 'x item_scheme list) \<Rightarrow> string \<Rightarrow> uuid \<Rightarrow> org_ctx \<Rightarrow>
    (response, 'm mdb_scheme, 'x item_scheme) hm" where
  "org_item get msg i oc = h_bind (msql (item_get get i) (not_found_or_internal msg)) (\<lambda>r.
     h_bind (h_guard (it_org r = oc_org oc) (RespErr 404 msg)) (\<lambda>_. h_return r))"

definition module_route :: "auth_ctx \<Rightarrow> string \<Rightarrow> role set \<Rightarrow> (org_ctx \<Rightarrow> 'm mdb_scheme handler) \<Rightarrow> 'm mdb_scheme handler" where
  "module_route ac slug roles f =
     h_bind (in_org (ResolveOrg ac slug)) (\<lambda>oc. h_bind (in_org (RequireRole roles oc)) (\<lambda>_. f oc))"

end
