(* ===== verification/GoText.thy ===== *)
theory GoText
  imports RazorpayJson "HOL-Library.Char_ord" "HOL-Library.List_Lexorder"
begin

text \<open>
  What the modules use of Go's library on text and numbers. Text is ASCII where case and blanks
  matter. A map with string keys is a list in the order of the keys, as \<^verbatim>\<open>json.Marshal\<close>
  writes it. Decimal text becomes a \<^verbatim>\<open>float64\<close>: \<open>round64\<close> rounds an exact value to the nearest float,
  subnormals included, and fails where Go reports a range error; \<open>ParseFloat\<close> is
  \<^verbatim>\<open>strconv.ParseFloat(s, 64)\<close> with its decimal and hexadecimal notations, underscores,
  infinities and NaN; \<open>Atoi\<close> is \<^verbatim>\<open>strconv.Atoi\<close>.
\<close>

section \<open>Text and maps\<close>

definition ToLower :: "string \<Rightarrow> string" where "ToLower = map lower_char"

fun fields_from :: "string \<Rightarrow> string \<Rightarrow> string list" where
  "fields_from w [] = (if w = [] then [] else [w])"
| "fields_from w (c # s) = (if is_space c then (if w = [] then fields_from [] s else w # fields_from [] s) else fields_from (w @ [c]) s)"

definition Fields :: "string \<Rightarrow> string list" where "Fields = fields_from []"

fun Join :: "string list \<Rightarrow> string \<Rightarrow> string" where
  "Join [] sep = []"
| "Join [w] sep = w"
| "Join (w # ws) sep = w @ sep @ Join ws sep"

fun HasPrefix :: "string \<Rightarrow> string \<Rightarrow> bool" where
  "HasPrefix s [] = True"
| "HasPrefix [] (d # p) = False"
| "HasPrefix (c # s) (d # p) = (c = d \<and> HasPrefix s p)"

fun Contains :: "string \<Rightarrow> string \<Rightarrow> bool" where
  "Contains [] p = (p = [])"
| "Contains (c # s) p = (HasPrefix (c # s) p \<or> Contains s p)"

fun Split :: "char \<Rightarrow> string \<Rightarrow> string list" where
  "Split d [] = [[]]"
| "Split d (c # s) = (if c = d then [] # Split d s else (case Split d s of [] \<Rightarrow> [[c]] | w # ws \<Rightarrow> (c # w) # ws))"

fun put_key :: "string \<Rightarrow> 'a \<Rightarrow> (string \<times> 'a) list \<Rightarrow> (string \<times> 'a) list" where
  "put_key k x [] = [(k, x)]"
| "put_key k x ((l, y) # r) = (if k < l then (k, x) # (l, y) # r else if k = l then (k, x) # r else (l, y) # put_key k x r)"

section \<open>Numbers\<close>

definition float_range :: rat where "float_range = 2 ^ 1024"
definition float_normal :: rat where "float_normal = 2 powi (- 1022)"
definition float_step :: rat where "float_step = 2 powi (- 1074)"

definition round64 :: "rat \<Rightarrow> rat option" where
  "round64 x = (let y = (if \<bar>x\<bar> < float_normal then of_int (rne (x / float_step)) * float_step else fl x) in
     if float_range \<le> \<bar>y\<bar> then None else Some y)"

datatype gofloat = Fin rat | Inf bool | NaN

text \<open>Comparisons, false whenever NaN takes part.\<close>

fun float_less :: "gofloat \<Rightarrow> gofloat \<Rightarrow> bool" where
  "float_less NaN _ = False"
| "float_less _ NaN = False"
| "float_less (Fin x) (Fin y) = (x < y)"
| "float_less (Fin x) (Inf neg) = (\<not> neg)"
| "float_less (Inf neg) (Fin y) = neg"
| "float_less (Inf m) (Inf n) = (m \<and> \<not> n)"

definition is_digit :: "char \<Rightarrow> bool" where
  "is_digit c \<longleftrightarrow> (let n = of_char c :: nat in 48 \<le> n \<and> n \<le> 57)"

definition is_hex :: "char \<Rightarrow> bool" where
  "is_hex c \<longleftrightarrow> is_digit c \<or> (let n = of_char (lower_char c) :: nat in 97 \<le> n \<and> n \<le> 102)"

definition digit_value :: "char \<Rightarrow> int" where
  "digit_value c = (if is_digit c then of_char c - 48 else of_char (lower_char c) - 87)"

text \<open>The mantissa: digits, at most one dot, underscores skipped; the value of the digits, how
  many of them follow the dot, whether there was a digit, an underscore.\<close>

fun read_mantissa :: "int \<Rightarrow> (char \<Rightarrow> bool) \<Rightarrow> int \<Rightarrow> nat option \<Rightarrow> bool \<Rightarrow> bool \<Rightarrow> string \<Rightarrow>
    int \<times> nat option \<times> bool \<times> bool \<times> string" where
  "read_mantissa b D m dot saw us [] = (m, dot, saw, us, [])"
| "read_mantissa b D m dot saw us (c # s) =
     (if c = CHR ''_'' then read_mantissa b D m dot saw True s
      else if c = CHR ''.'' then (if dot = None then read_mantissa b D m (Some 0) saw us s else (m, dot, saw, us, c # s))
      else if D c then read_mantissa b D (b * m + digit_value c) (map_option Suc dot) True us s
      else (m, dot, saw, us, c # s))"

text \<open>The digits of an exponent, which stops growing beyond 10000.\<close>

fun read_exponent :: "int \<Rightarrow> bool \<Rightarrow> string \<Rightarrow> int \<times> bool \<times> string" where
  "read_exponent e us [] = (e, us, [])"
| "read_exponent e us (c # s) =
     (if c = CHR ''_'' then read_exponent e True s
      else if is_digit c then read_exponent (if e < 10000 then 10 * e + digit_value c else e) us s
      else (e, us, c # s))"

fun underscores_ok :: "bool \<Rightarrow> char \<Rightarrow> string \<Rightarrow> bool" where
  "underscores_ok hex saw [] = (saw \<noteq> CHR ''_'')"
| "underscores_ok hex saw (c # s) =
     (if is_digit c \<or> hex \<and> is_hex c then underscores_ok hex CHR ''0'' s
      else if c = CHR ''_'' then saw = CHR ''0'' \<and> underscores_ok hex CHR ''_'' s
      else saw \<noteq> CHR ''_'' \<and> underscores_ok hex CHR ''!'' s)"

definition power_of :: "rat \<Rightarrow> int \<Rightarrow> rat" where
  "power_of b e = (if 0 \<le> e then b ^ nat e else 1 / b ^ nat (- e))"

definition strip_sign :: "string \<Rightarrow> bool \<times> string" where
  "strip_sign s = (case s of [] \<Rightarrow> (False, []) | c # r \<Rightarrow>
     if c = CHR ''+'' then (False, r) else if c = CHR ''-'' then (True, r) else (False, s))"

definition hex_prefix :: "string \<Rightarrow> bool" where
  "hex_prefix s \<longleftrightarrow> 2 < length s \<and> s ! 0 = CHR ''0'' \<and> lower_char (s ! 1) = CHR ''x''"

definition underscoreOK :: "string \<Rightarrow> bool" where
  "underscoreOK s = (let r = snd (strip_sign s) in
     if 2 \<le> length r \<and> r ! 0 = CHR ''0'' \<and> lower_char (r ! 1) \<in> {CHR ''b'', CHR ''o'', CHR ''x''}
     then underscores_ok (lower_char (r ! 1) = CHR ''x'') CHR ''0'' (drop 2 r)
     else underscores_ok False CHR ''^'' r)"

text \<open>\<^verbatim>\<open>readFloat\<close>: the exact value, when the whole text is a number.\<close>

definition read_float :: "string \<Rightarrow> rat option" where
  "read_float s = (let (neg, r) = strip_sign s; hex = hex_prefix r;
      (m, dot, saw, us, r1) = (if hex then read_mantissa 16 is_hex 0 None False False (drop 2 r)
                               else read_mantissa 10 is_digit 0 None False False r);
      frac = int (case dot of None \<Rightarrow> 0 | Some n \<Rightarrow> n) in
    if \<not> saw then None else
    (case r1 of
       c # r2 \<Rightarrow> if lower_char c \<noteq> (if hex then CHR ''p'' else CHR ''e'') then None else
         (let (eneg, r3) = strip_sign r2 in
          if r3 = [] \<or> \<not> is_digit (hd r3) then None else
          (let (e0, us', r4) = read_exponent 0 us r3; e = (if eneg then - e0 else e0) in
           if r4 \<noteq> [] \<or> us' \<and> \<not> underscoreOK s then None
           else Some ((if neg then - 1 else 1) * of_int m * (if hex then power_of 2 (e - 4 * frac) else power_of 10 (e - frac)))))
     | [] \<Rightarrow> if hex \<or> us \<and> \<not> underscoreOK s then None
         else Some ((if neg then - 1 else 1) * of_int m * power_of 10 (- frac))))"

definition special_float :: "string \<Rightarrow> gofloat option" where
  "special_float s = (let (neg, r) = strip_sign s; t = map lower_char r in
     if t = ''inf'' \<or> t = ''infinity'' then Some (Inf neg)
     else if map lower_char s = ''nan'' then Some NaN else None)"

definition ParseFloat :: "string \<Rightarrow> gofloat option" where
  "ParseFloat s = (case special_float s of Some x \<Rightarrow> Some x
     | None \<Rightarrow> (case read_float s of None \<Rightarrow> None | Some x \<Rightarrow> map_option Fin (round64 x)))"

text \<open>Conversion to \<^verbatim>\<open>int\<close> truncates; outside the range it gives what amd64 computes.\<close>

definition int_of_float :: "gofloat \<Rightarrow> int" where
  "int_of_float f = (case f of Fin x \<Rightarrow> (let i = (if 0 \<le> x then \<lfloor>x\<rfloor> else \<lceil>x\<rceil>) in
       if - (2 ^ 63) \<le> i \<and> i < 2 ^ 63 then i else - (2 ^ 63)) | _ \<Rightarrow> - (2 ^ 63))"

fun digits_value :: "int \<Rightarrow> string \<Rightarrow> int option" where
  "digits_value n [] = Some n"
| "digits_value n (c # s) = (if is_digit c then digits_value (10 * n + digit_value c) s else None)"

definition Atoi :: "string \<Rightarrow> int option" where
  "Atoi s = (let (neg, r) = strip_sign s in if r = [] then None else
     (case digits_value 0 r of None \<Rightarrow> None | Some n \<Rightarrow> let i = (if neg then - n else n) in
        if - (2 ^ 63) \<le> i \<and> i < 2 ^ 63 then Some i else None))"

section \<open>Facts\<close>

lemma dropWhile_idem: "dropWhile P (dropWhile P xs) = dropWhile P xs"
  by (induction xs) auto

lemma TrimSpace_idem [simp]: "TrimSpace (TrimSpace s) = TrimSpace s"
proof -
  let ?u = "dropWhile is_space s" and ?r = "\<lambda>xs. rev (dropWhile is_space (rev xs))"
  have "dropWhile is_space (?r ?u) = ?r ?u"
  proof (cases "?r ?u")
    case (Cons c cs)
    obtain pre where "?u = ?r ?u @ pre" by (metis append.assoc rev_append rev_rev_ident takeWhile_dropWhile_id)
    then have "?u \<noteq> []" "hd ?u = c" using Cons by (metis append_Cons list.sel(1) list.distinct(1))+
    then have "\<not> is_space c" using hd_dropWhile[of is_space s] by metis
    then show ?thesis using Cons by simp
  qed (simp only: dropWhile.simps)
  then show ?thesis by (simp add: TrimSpace_def dropWhile_idem)
qed

lemma lower_idem [simp]: "lower_char (lower_char c) = lower_char c"
proof -
  have "n + 32 < 256" if "65 \<le> n" "n \<le> 90" for n :: nat using that by simp
  then show ?thesis by (auto simp: lower_char_def Let_def)
qed

lemma space_lower [simp]: "is_space (lower_char c) = is_space c"
  by (auto simp: lower_char_def is_space_def Let_def)

lemma ToLower_idem [simp]: "ToLower (ToLower s) = ToLower s"
  by (simp add: ToLower_def)

lemma TrimSpace_ToLower: "TrimSpace (ToLower s) = ToLower (TrimSpace s)"
  by (simp add: TrimSpace_def ToLower_def dropWhile_map rev_map comp_def)

lemma normal_word [simp]: "ToLower (TrimSpace (ToLower (TrimSpace s))) = ToLower (TrimSpace s)"
  by (simp add: TrimSpace_ToLower)

lemma put_key_keys: "set (put_key k x m) \<subseteq> insert (k, x) (set m)"
  by (induction k x m rule: put_key.induct) auto

lemma put_key_sorted: "sorted_wrt (<) (map fst m) \<Longrightarrow> sorted_wrt (<) (map fst (put_key k x m))"
proof (induction k x m rule: put_key.induct)
  case (2 k x l y r)
  have "fst p = k \<or> fst p \<in> fst ` set r" if "p \<in> set (put_key k x r)" for p
    using that put_key_keys[of k x r] by fastforce
  then show ?case using 2 by (fastforce simp: not_less_iff_gr_or_eq)
qed simp

lemma put_key_last: "\<forall>p \<in> set m. fst p < k \<Longrightarrow> put_key k x m = m @ [(k, x)]"
  by (induction k x m rule: put_key.induct) (auto dest: less_asym)

lemma round64_finite: "round64 x = Some y \<Longrightarrow> \<bar>y\<bar> < float_range"
  unfolding round64_def Let_def by (metis not_le option.distinct(1) option.inject)

lemma float_range_pos [simp]: "0 < float_range" "\<not> float_range \<le> 0"
  by (simp_all add: float_range_def)

lemma round64_0 [simp]: "round64 0 = Some 0"
  using rne_of_int[of 0] by (simp add: round64_def Let_def)

lemma fl_normal: "fl float_normal = float_normal"
  using fl_ident[of 1 "- 1022"] by (simp add: float_normal_def)

lemma fl_abs: "\<bar>fl x\<bar> = fl \<bar>x\<bar>"
  by (simp add: abs_if not_le) (metis fl_nonneg fl_uminus leD less_eq_rat_def linorder_not_less neg_0_le_iff_le)

text \<open>A float is its own rounding.\<close>

lemma round64_idem: "round64 x = Some y \<Longrightarrow> round64 y = Some y"
proof -
  assume r: "round64 x = Some y"
  then have top: "\<not> float_range \<le> \<bar>y\<bar>" by (simp add: round64_finite not_le)
  show ?thesis
  proof (cases "\<bar>x\<bar> < float_normal")
    case True
    then have y: "y = of_int (rne (x / float_step)) * float_step" using r by (auto simp: round64_def Let_def split: if_splits)
    have step: "float_step \<noteq> 0" "0 < float_step" by (simp_all add: float_step_def)
    have "float_normal = 2 ^ 52 * float_step"
      using power_int_add[of "2 :: rat" 52 "- 1074"] by (simp add: float_step_def float_normal_def)
    then have "\<bar>x / float_step\<bar> \<le> of_int (2 ^ 52)"
      using True step by (simp add: abs_divide pos_divide_le_eq)
    then have "\<bar>rne (x / float_step)\<bar> \<le> 2 ^ 52"
      using rne_le_if[of "x / float_step" "2 ^ 52"] rne_ge_if[of "- (2 ^ 52)" "x / float_step"] by linarith
    then have "fl y = y" unfolding y float_step_def by (intro fl_ident) simp
    then show ?thesis using top y step(1) by (simp add: round64_def Let_def)
  next
    case False
    then have y: "y = fl x" using r by (auto simp: round64_def Let_def split: if_splits)
    have "float_normal \<le> \<bar>y\<bar>" using False fl_mono[of float_normal "\<bar>x\<bar>"] by (simp add: y fl_abs fl_normal)
    then show ?thesis using top by (simp add: round64_def Let_def y)
  qed
qed

end
