(* ===== verification/Simulations.thy ===== *)
theory Simulations
  imports ModuleBase GoText
begin

text \<open>
  Interactive simulations and diagrams: parsing and validating an author's specification
  (\<^verbatim>\<open>simulations/simulations.go\<close>), the tables (\<^verbatim>\<open>models/simulation.go\<close>,
  \<^verbatim>\<open>simulation_progress.go\<close>, migration \<^verbatim>\<open>000014\<close>) and the handlers
  (\<^verbatim>\<open>handlers/simulations.go\<close>) with their routes. The environment holds the platform's switch and
  limits and what lies outside: \<open>se_quote\<close> is \<^verbatim>\<open>%q\<close>, \<open>se_num\<close> prints a
  \<^verbatim>\<open>float64\<close> as a JSON number and \<open>se_jsonb\<close> stores a JSON text in a \<^verbatim>\<open>jsonb\<close> column.
\<close>

record sim_env =
  se_enabled :: bool
  se_max_source :: int
  se_max_params :: int
  se_quote :: "string \<Rightarrow> string"
  se_num :: "rat \<Rightarrow> json"
  se_jsonb :: "json \<Rightarrow> json option"

section \<open>Any JSON value\<close>

text \<open>What \<^verbatim>\<open>encoding/json\<close> puts into an \<^verbatim>\<open>interface{}\<close>: numbers become floats, objects
  maps in which the last member of a name counts; a map is written in the order of its keys.\<close>

datatype any = ANil | ABool bool | ANum rat | AStr string | AArr "any list" | AMap "(string \<times> any) list"

definition num_value :: "json \<Rightarrow> rat option" where
  "num_value j = (case j of JInt i \<Rightarrow> Some (of_int i) | JDec r \<Rightarrow> Some r | _ \<Rightarrow> None)"

definition num_any :: "rat \<Rightarrow> err + any" where
  "num_any r = (case round64 r of None \<Rightarrow> Inl ErrUnmarshal | Some x \<Rightarrow> Inr (ANum x))"

fun any_of_json :: "json \<Rightarrow> err + any" and anys_of_json :: "json list \<Rightarrow> err + any list"
  and members_of_json :: "(string \<times> json) list \<Rightarrow> (string \<times> any) list \<Rightarrow> err + (string \<times> any) list" where
  "any_of_json JNull = Inr ANil"
| "any_of_json (JBool b) = Inr (ABool b)"
| "any_of_json (JInt i) = num_any (of_int i)"
| "any_of_json (JDec r) = num_any r"
| "any_of_json (JStr t) = Inr (AStr t)"
| "any_of_json (JArr js) = (case anys_of_json js of Inl e \<Rightarrow> Inl e | Inr xs \<Rightarrow> Inr (AArr xs))"
| "any_of_json (JObj kvs) = (case members_of_json kvs [] of Inl e \<Rightarrow> Inl e | Inr m \<Rightarrow> Inr (AMap m))"
| "anys_of_json [] = Inr []"
| "anys_of_json (j # js) = (case any_of_json j of Inl e \<Rightarrow> Inl e | Inr x \<Rightarrow>
     (case anys_of_json js of Inl e \<Rightarrow> Inl e | Inr xs \<Rightarrow> Inr (x # xs)))"
| "members_of_json [] m = Inr m"
| "members_of_json ((k, j) # kvs) m = (case any_of_json j of Inl e \<Rightarrow> Inl e | Inr x \<Rightarrow> members_of_json kvs (put_key k x m))"

fun json_of_any :: "(rat \<Rightarrow> json) \<Rightarrow> any \<Rightarrow> json" where
  "json_of_any num ANil = JNull"
| "json_of_any num (ABool b) = JBool b"
| "json_of_any num (ANum x) = num x"
| "json_of_any num (AStr t) = JStr t"
| "json_of_any num (AArr xs) = JArr (map (json_of_any num) xs)"
| "json_of_any num (AMap m) = JObj (map (\<lambda>(k, x). (k, json_of_any num x)) m)"

section \<open>Specifications (simulations.go)\<close>

datatype sim_error =
    ErrUnknownKind | ErrDiagramMissing | ErrUnknownFormat string | ErrEmptySource | ErrSourceTooLarge
  | ErrSimMissing | ErrNoParameters | ErrTooManyParams | ErrParamName | ErrDuplicateParam string
  | ErrParamType string | ErrSelectNoOptions string | ErrNumberRange string | ErrOutputName
  | ErrDuplicateOutput string | ErrOutputExpr string | ErrBadSpecJSON | ErrBadConfigJSON | ErrNegativeInteract

record diagram =
  dg_format :: string
  dg_source :: string

record parameter =
  pm_name :: string
  pm_label :: string
  pm_type :: string
  pm_min :: "rat option"
  pm_max :: "rat option"
  pm_step :: "rat option"
  pm_default :: any
  pm_options :: "string list"

record sim_output =
  ou_name :: string
  ou_label :: string
  ou_expr :: string

text \<open>\<^verbatim>\<open>Outputs\<close> is \<open>None\<close> for a nil slice.\<close>

record simulation_body =
  sb_parameters :: "parameter list"
  sb_outputs :: "sim_output list option"

record spec =
  sp_kind :: string
  sp_diagram :: "diagram option"
  sp_simulation :: "simulation_body option"

record config =
  cf_interactions :: int
  cf_passing :: "rat option"

definition dec_float_ptr :: "json \<Rightarrow> rat option \<Rightarrow> err + rat option" where
  "dec_float_ptr j a = (if j = JNull then Inr None else (case num_value j of None \<Rightarrow> Inl ErrUnmarshal
     | Some r \<Rightarrow> (case round64 r of None \<Rightarrow> Inl ErrUnmarshal | Some x \<Rightarrow> Inr (Some x))))"

definition dec_any :: "json \<Rightarrow> any \<Rightarrow> err + any" where
  "dec_any j a = any_of_json j"

definition dec_strings :: "json \<Rightarrow> string list \<Rightarrow> err + string list" where
  "dec_strings = dec_list (\<lambda>j. dec_string j [])"

text \<open>A pointer to a struct: \<^verbatim>\<open>null\<close> clears it, an object is decoded into it.\<close>

definition dec_ptr :: "(json \<Rightarrow> 'a \<Rightarrow> err + 'a) \<Rightarrow> 'a \<Rightarrow> json \<Rightarrow> 'a option \<Rightarrow> err + 'a option" where
  "dec_ptr d zero j a = (if j = JNull then Inr None else (case d j (case a of None \<Rightarrow> zero | Some x \<Rightarrow> x) of
     Inl e \<Rightarrow> Inl e | Inr x \<Rightarrow> Inr (Some x)))"

text \<open>Fields are decoded one after the other; the first failure counts.\<close>

definition e_bind :: "err + 'a \<Rightarrow> ('a \<Rightarrow> err + 'b) \<Rightarrow> err + 'b" where
  "e_bind m f = (case m of Inl e \<Rightarrow> Inl e | Inr x \<Rightarrow> f x)"

lemma e_bind_simps [simp]:
  "e_bind (Inr x) f = f x" "e_bind (Inl e) f = Inl e" "e_bind m f = Inr y \<longleftrightarrow> (\<exists>x. m = Inr x \<and> f x = Inr y)"
  by (auto simp: e_bind_def split: sum.splits)

definition dec_diagram :: "json \<Rightarrow> diagram \<Rightarrow> err + diagram" where
  "dec_diagram j d = e_bind (json_members j) (\<lambda>kvs.
     e_bind (dec_field dec_string ''format'' kvs (dg_format d)) (\<lambda>f.
     e_bind (dec_field dec_string ''source'' kvs (dg_source d)) (\<lambda>s. Inr \<lparr>dg_format = f, dg_source = s\<rparr>)))"

definition dec_parameter :: "json \<Rightarrow> err + parameter" where
  "dec_parameter j = e_bind (json_members j) (\<lambda>kvs.
     e_bind (dec_field dec_string ''name'' kvs []) (\<lambda>n.
     e_bind (dec_field dec_string ''label'' kvs []) (\<lambda>l.
     e_bind (dec_field dec_string ''type'' kvs []) (\<lambda>t.
     e_bind (dec_field dec_float_ptr ''min'' kvs None) (\<lambda>lo.
     e_bind (dec_field dec_float_ptr ''max'' kvs None) (\<lambda>hi.
     e_bind (dec_field dec_float_ptr ''step'' kvs None) (\<lambda>st.
     e_bind (dec_field dec_any ''default'' kvs ANil) (\<lambda>d.
     e_bind (dec_field dec_strings ''options'' kvs []) (\<lambda>os.
       Inr \<lparr>pm_name = n, pm_label = l, pm_type = t, pm_min = lo, pm_max = hi, pm_step = st, pm_default = d,
         pm_options = os\<rparr>)))))))))"

definition dec_output :: "json \<Rightarrow> err + sim_output" where
  "dec_output j = e_bind (json_members j) (\<lambda>kvs.
     e_bind (dec_field dec_string ''name'' kvs []) (\<lambda>n.
     e_bind (dec_field dec_string ''label'' kvs []) (\<lambda>l.
     e_bind (dec_field dec_string ''expr'' kvs []) (\<lambda>x. Inr \<lparr>ou_name = n, ou_label = l, ou_expr = x\<rparr>))))"

definition dec_outputs :: "json \<Rightarrow> sim_output list option \<Rightarrow> err + sim_output list option" where
  "dec_outputs j a = (case j of JNull \<Rightarrow> Inr None | JArr js \<Rightarrow> e_bind (decode_all dec_output js) (\<lambda>xs. Inr (Some xs))
     | _ \<Rightarrow> Inl ErrUnmarshal)"

definition dec_body :: "json \<Rightarrow> simulation_body \<Rightarrow> err + simulation_body" where
  "dec_body j b = e_bind (json_members j) (\<lambda>kvs.
     e_bind (dec_field (dec_list dec_parameter) ''parameters'' kvs (sb_parameters b)) (\<lambda>ps.
     e_bind (dec_field dec_outputs ''outputs'' kvs (sb_outputs b)) (\<lambda>os. Inr \<lparr>sb_parameters = ps, sb_outputs = os\<rparr>)))"

definition dec_spec :: "json \<Rightarrow> err + spec" where
  "dec_spec j = e_bind (json_members j) (\<lambda>kvs.
     e_bind (dec_field dec_string ''kind'' kvs []) (\<lambda>k.
     e_bind (dec_field (dec_ptr dec_diagram \<lparr>dg_format = [], dg_source = []\<rparr>) ''diagram'' kvs None) (\<lambda>d.
     e_bind (dec_field (dec_ptr dec_body \<lparr>sb_parameters = [], sb_outputs = None\<rparr>) ''simulation'' kvs None) (\<lambda>b.
       Inr \<lparr>sp_kind = k, sp_diagram = d, sp_simulation = b\<rparr>))))"

definition dec_config :: "json \<Rightarrow> err + config" where
  "dec_config j = e_bind (json_members j) (\<lambda>kvs.
     e_bind (dec_field dec_int64 ''completion_interactions'' kvs 0) (\<lambda>n.
     e_bind (dec_field dec_float_ptr ''passing_score'' kvs None) (\<lambda>p. Inr \<lparr>cf_interactions = n, cf_passing = p\<rparr>)))"

definition diagramFormats :: "string set" where "diagramFormats = {''mermaid'', ''dot'', ''excalidraw''}"

definition paramTypes :: "string set" where "paramTypes = {''number'', ''boolean'', ''select''}"

definition validateDiagram :: "sim_env \<Rightarrow> diagram option \<Rightarrow> sim_error + diagram" where
  "validateDiagram env d = (case d of None \<Rightarrow> Inl ErrDiagramMissing | Some d \<Rightarrow>
     (let f = ToLower (TrimSpace (dg_format d)); src = TrimSpace (dg_source d) in
      if f \<notin> diagramFormats then Inl (ErrUnknownFormat f)
      else if src = [] then Inl ErrEmptySource
      else if se_max_source env < int (length src) then Inl ErrSourceTooLarge
      else Inr \<lparr>dg_format = f, dg_source = src\<rparr>))"

definition normalizeParam :: "string list \<Rightarrow> parameter \<Rightarrow> sim_error + parameter" where
  "normalizeParam seen p = (let n = TrimSpace (pm_name p); t = ToLower (TrimSpace (pm_type p)) in
     if n = [] then Inl ErrParamName
     else if n \<in> set seen then Inl (ErrDuplicateParam n)
     else if t \<notin> paramTypes then Inl (ErrParamType t)
     else if t = ''select'' \<and> pm_options p = [] then Inl (ErrSelectNoOptions n)
     else if t = ''number'' \<and> (case (pm_min p, pm_max p) of (Some lo, Some hi) \<Rightarrow> hi < lo | _ \<Rightarrow> False) then Inl (ErrNumberRange n)
     else Inr (p\<lparr>pm_name := n, pm_label := (if pm_label p = [] then n else pm_label p), pm_type := t\<rparr>))"

definition normalizeOutput :: "string list \<Rightarrow> sim_output \<Rightarrow> sim_error + sim_output" where
  "normalizeOutput seen x = (let n = TrimSpace (ou_name x); e = TrimSpace (ou_expr x) in
     if n = [] then Inl ErrOutputName
     else if n \<in> set seen then Inl (ErrDuplicateOutput n)
     else if e = [] then Inl (ErrOutputExpr n)
     else Inr \<lparr>ou_name = n, ou_label = (if ou_label x = [] then n else ou_label x), ou_expr = e\<rparr>)"

text \<open>The loop over a list with the names seen so far.\<close>

fun normalize_all :: "(string list \<Rightarrow> 'a \<Rightarrow> sim_error + 'a) \<Rightarrow> ('a \<Rightarrow> string) \<Rightarrow> string list \<Rightarrow> 'a list \<Rightarrow> sim_error + 'a list" where
  "normalize_all f name seen [] = Inr []"
| "normalize_all f name seen (x # xs) = (case f seen x of Inl e \<Rightarrow> Inl e | Inr y \<Rightarrow>
     (case normalize_all f name (name y # seen) xs of Inl e \<Rightarrow> Inl e | Inr ys \<Rightarrow> Inr (y # ys)))"

definition validateSimulation :: "sim_env \<Rightarrow> simulation_body option \<Rightarrow> sim_error + simulation_body" where
  "validateSimulation env b = (case b of None \<Rightarrow> Inl ErrSimMissing | Some b \<Rightarrow>
     if sb_parameters b = [] then Inl ErrNoParameters
     else if se_max_params env < int (length (sb_parameters b)) then Inl ErrTooManyParams
     else (case normalize_all normalizeParam pm_name [] (sb_parameters b) of Inl e \<Rightarrow> Inl e | Inr ps \<Rightarrow>
       (case sb_outputs b of None \<Rightarrow> Inr \<lparr>sb_parameters = ps, sb_outputs = None\<rparr>
        | Some os \<Rightarrow> (case normalize_all normalizeOutput ou_name [] os of Inl e \<Rightarrow> Inl e
            | Inr os' \<Rightarrow> Inr \<lparr>sb_parameters = ps, sb_outputs = Some os'\<rparr>))))"

definition validate :: "sim_env \<Rightarrow> spec \<Rightarrow> sim_error + spec" where
  "validate env sp =
     (if sp_kind sp = ''diagram'' then (case validateDiagram env (sp_diagram sp) of Inl e \<Rightarrow> Inl e
        | Inr d \<Rightarrow> Inr (sp\<lparr>sp_diagram := Some d, sp_simulation := None\<rparr>))
      else if sp_kind sp = ''simulation'' then (case validateSimulation env (sp_simulation sp) of Inl e \<Rightarrow> Inl e
        | Inr b \<Rightarrow> Inr (sp\<lparr>sp_diagram := None, sp_simulation := Some b\<rparr>))
      else Inl ErrUnknownKind)"

definition ParseSpec :: "sim_env \<Rightarrow> string \<Rightarrow> json option \<Rightarrow> sim_error + spec" where
  "ParseSpec env kind raw =
     (case (case raw of None \<Rightarrow> Inr \<lparr>sp_kind = [], sp_diagram = None, sp_simulation = None\<rparr> | Some j \<Rightarrow> dec_spec j) of
        Inl e \<Rightarrow> Inl ErrBadSpecJSON | Inr sp \<Rightarrow> validate env (sp\<lparr>sp_kind := kind\<rparr>))"

definition ParseConfig :: "json option \<Rightarrow> sim_error + config" where
  "ParseConfig raw =
     (case (case raw of None \<Rightarrow> Inr \<lparr>cf_interactions = 0, cf_passing = None\<rparr> | Some j \<Rightarrow> dec_config j) of
        Inl e \<Rightarrow> Inl ErrBadConfigJSON | Inr c \<Rightarrow> if cf_interactions c < 0 then Inl ErrNegativeInteract else Inr c)"

definition NewService :: "int \<Rightarrow> int \<Rightarrow> int \<times> int" where
  "NewService source params = (if source \<le> 0 then 65536 else source, if params \<le> 0 then 50 else params)"

subsection \<open>Writing a specification\<close>

definition omit :: "bool \<Rightarrow> string \<Rightarrow> json \<Rightarrow> (string \<times> json) list" where
  "omit b k j = (if b then [] else [(k, j)])"

definition parameter_json :: "sim_env \<Rightarrow> parameter \<Rightarrow> json" where
  "parameter_json env p = JObj ([(''name'', JStr (pm_name p)), (''label'', JStr (pm_label p)), (''type'', JStr (pm_type p))] @
     omit (pm_min p = None) ''min'' (se_num env (the (pm_min p))) @ omit (pm_max p = None) ''max'' (se_num env (the (pm_max p))) @
     omit (pm_step p = None) ''step'' (se_num env (the (pm_step p))) @
     omit (pm_default p = ANil) ''default'' (json_of_any (se_num env) (pm_default p)) @
     omit (pm_options p = []) ''options'' (JArr (map JStr (pm_options p))))"

definition output_json :: "sim_output \<Rightarrow> json" where
  "output_json x = JObj [(''name'', JStr (ou_name x)), (''label'', JStr (ou_label x)), (''expr'', JStr (ou_expr x))]"

definition diagram_json :: "diagram \<Rightarrow> json" where
  "diagram_json d = JObj [(''format'', JStr (dg_format d)), (''source'', JStr (dg_source d))]"

definition body_json :: "sim_env \<Rightarrow> simulation_body \<Rightarrow> json" where
  "body_json env b = JObj [(''parameters'', JArr (map (parameter_json env) (sb_parameters b))),
     (''outputs'', case sb_outputs b of None \<Rightarrow> JNull | Some os \<Rightarrow> JArr (map output_json os))]"

definition spec_json :: "sim_env \<Rightarrow> spec \<Rightarrow> json" where
  "spec_json env sp = JObj ((''kind'', JStr (sp_kind sp)) #
     (case sp_diagram sp of None \<Rightarrow> [] | Some d \<Rightarrow> [(''diagram'', diagram_json d)]) @
     (case sp_simulation sp of None \<Rightarrow> [] | Some b \<Rightarrow> [(''simulation'', body_json env b)]))"

definition config_json :: "sim_env \<Rightarrow> config \<Rightarrow> json" where
  "config_json env c = JObj (omit (cf_interactions c = 0) ''completion_interactions'' (JInt (cf_interactions c)) @
     omit (cf_passing c = None) ''passing_score'' (se_num env (the (cf_passing c))))"

section \<open>Tables (simulation.go, simulation\_progress.go)\<close>

record simulation = item +
  si_kind :: string
  si_spec :: json
  si_config :: json

record simulation_progress =
  sg_id :: uuid
  sg_org :: uuid
  sg_sim :: uuid
  sg_learner :: uuid
  sg_state :: json
  sg_count :: int
  sg_score :: "rat option"
  sg_complete :: bool
  sg_started :: time
  sg_updated :: time
  sg_completed :: "time option"

record simdb = mdb +
  sd_sims :: "simulation list"
  sd_progress :: "simulation_progress list"

abbreviation put_sims :: "simulation list \<Rightarrow> simdb \<Rightarrow> simdb" where "put_sims xs s \<equiv> s\<lparr>sd_sims := xs\<rparr>"

record simulationRequest =
  sq_course :: "uuid option"
  sq_lesson :: "uuid option"
  sq_slug :: string
  sq_title :: string
  sq_description :: string
  sq_kind :: string
  sq_spec :: "json option"
  sq_config :: "json option"
  sq_published :: bool

definition SimulationRepo_Create :: "sim_env \<Rightarrow> uuid \<Rightarrow> uuid \<Rightarrow> simulationRequest \<Rightarrow> json \<Rightarrow> json \<Rightarrow> (simdb, simulation) tx" where
  "SimulationRepo_Create env o' u q sp cf = (case (se_jsonb env sp, se_jsonb env cf) of
     (Some sp', Some cf') \<Rightarrow> item_insert sd_sims put_sims (\<lambda>i t. \<lparr>it_id = i, it_org = o', it_course = sq_course q, it_lesson = sq_lesson q,
       it_slug = sq_slug q, it_title = sq_title q, it_description = sq_description q, it_published = sq_published q,
       it_created_by = Some u, it_created = t, it_updated = t, si_kind = sq_kind q, si_spec = sp', si_config = cf'\<rparr>)
   | _ \<Rightarrow> tx_throw ErrStorage)"

definition SimulationRepo_Get :: "uuid \<Rightarrow> (simdb, simulation) tx" where
  "SimulationRepo_Get = item_get sd_sims"

definition SimulationRepo_ListByOrg :: "uuid \<Rightarrow> (simdb, simulation list) tx" where
  "SimulationRepo_ListByOrg o' = item_list sd_sims (\<lambda>r. it_org r = o')"

definition SimulationRepo_ListPublished :: "uuid \<Rightarrow> (simdb, simulation list) tx" where
  "SimulationRepo_ListPublished o' = item_list sd_sims (\<lambda>r. it_org r = o' \<and> it_published r)"

definition SimulationRepo_Update :: "sim_env \<Rightarrow> uuid \<Rightarrow> simulationRequest \<Rightarrow> json \<Rightarrow> json \<Rightarrow> (simdb, simulation) tx" where
  "SimulationRepo_Update env i q sp cf = (case (se_jsonb env sp, se_jsonb env cf) of
     (Some sp', Some cf') \<Rightarrow> item_update sd_sims put_sims i (\<lambda>t r. r\<lparr>it_course := sq_course q, it_lesson := sq_lesson q,
       it_title := sq_title q, it_description := sq_description q, it_published := sq_published q, it_updated := t,
       si_kind := sq_kind q, si_spec := sp', si_config := cf'\<rparr>)
   | _ \<Rightarrow> tx_throw ErrStorage)"

definition SimulationRepo_SetPublished :: "uuid \<Rightarrow> bool \<Rightarrow> (simdb, simulation) tx" where
  "SimulationRepo_SetPublished i b = item_update sd_sims put_sims i (\<lambda>t r. r\<lparr>it_published := b, it_updated := t\<rparr>)"

text \<open>The rows of progress go with their simulation.\<close>

definition SimulationRepo_Delete :: "uuid \<Rightarrow> (simdb, unit) tx" where
  "SimulationRepo_Delete i = tx_bind (item_delete sd_sims put_sims i) (\<lambda>_.
     tx_modify (\<lambda>s. s\<lparr>sd_progress := filter (\<lambda>p. sg_sim p \<noteq> i) (sd_progress s)\<rparr>))"

text \<open>The two halves of the upsert: the row that is inserted, and the row of an earlier interaction.\<close>

definition first_progress ::
  "uuid \<Rightarrow> uuid \<Rightarrow> uuid \<Rightarrow> uuid \<Rightarrow> json \<Rightarrow> rat option \<Rightarrow> bool \<Rightarrow> int \<Rightarrow> time \<Rightarrow> simulation_progress" where
  "first_progress i o' sim l st score fin k t = (let c = (fin \<or> 0 < k \<and> 1 \<ge> k) in
     \<lparr>sg_id = i, sg_org = o', sg_sim = sim, sg_learner = l, sg_state = st, sg_count = 1, sg_score = score,
      sg_complete = c, sg_started = t, sg_updated = t, sg_completed = (if c then Some t else None)\<rparr>)"

definition next_progress :: "json \<Rightarrow> rat option \<Rightarrow> bool \<Rightarrow> int \<Rightarrow> time \<Rightarrow> simulation_progress \<Rightarrow> simulation_progress" where
  "next_progress st score fin k t p = (let n = sg_count p + 1; c = (sg_complete p \<or> fin \<or> 0 < k \<and> n \<ge> k) in
     p\<lparr>sg_state := st, sg_count := n, sg_score := (case score of None \<Rightarrow> sg_score p | Some x \<Rightarrow> Some x), sg_complete := c,
       sg_completed := (case sg_completed p of Some d \<Rightarrow> Some d | None \<Rightarrow> if c then Some t else None), sg_updated := t\<rparr>)"

definition SimulationProgressRepo_Record ::
  "sim_env \<Rightarrow> uuid \<Rightarrow> uuid \<Rightarrow> uuid \<Rightarrow> json option \<Rightarrow> rat option \<Rightarrow> bool \<Rightarrow> int \<Rightarrow> (simdb, simulation_progress) tx" where
  "SimulationProgressRepo_Record env o' sim l st score fin k = (\<lambda>s. let a = md_adb s; own = (\<lambda>p. sg_sim p = sim \<and> sg_learner p = l) in
     if \<not> int4 k \<or> \<not> row_addable a l o' then Inl ErrStorage else
     (case se_jsonb env (case st of None \<Rightarrow> JObj [] | Some j \<Rightarrow> j) of None \<Rightarrow> Inl ErrStorage | Some st' \<Rightarrow>
     (case find own (sd_progress s) of
        None \<Rightarrow> if \<forall>r \<in> set (sd_sims s). it_id r \<noteq> sim then Inl ErrStorage else
          let p = first_progress (a_next a) o' sim l st' score fin k (a_clock a) in
          Inr (p, s\<lparr>sd_progress := sd_progress s @ [p], md_adb := a\<lparr>a_next := Suc (a_next a)\<rparr>\<rparr>)
      | Some p \<Rightarrow> if \<not> int4 (sg_count p + 1) then Inl ErrStorage else
          let f = next_progress st' score fin k (a_clock a) in
          Inr (f p, s\<lparr>sd_progress := map (\<lambda>p. if own p then f p else p) (sd_progress s)\<rparr>))))"

definition visible_progress :: "(simulation_progress \<Rightarrow> bool) \<Rightarrow> simdb \<Rightarrow> simulation_progress list" where
  "visible_progress P s = filter (\<lambda>p. row_visible (md_adb s) (sg_learner p) (sg_org p) \<and> P p) (sd_progress s)"

definition SimulationProgressRepo_GetForLearner :: "uuid \<Rightarrow> uuid \<Rightarrow> (simdb, simulation_progress) tx" where
  "SimulationProgressRepo_GetForLearner sim l = tab_select1 (visible_progress (\<lambda>p. sg_sim p = sim \<and> sg_learner p = l)) (\<lambda>_. True)"

definition SimulationProgressRepo_ListForLearner :: "uuid \<Rightarrow> int \<Rightarrow> (simdb, simulation_progress list) tx" where
  "SimulationProgressRepo_ListForLearner l n = tx_gets (\<lambda>s. take (nat (clampLimit n))
     (newest sg_updated (visible_progress (\<lambda>p. sg_learner p = l) s)))"

definition SimulationProgressRepo_ListBySimulation :: "uuid \<Rightarrow> int \<Rightarrow> (simdb, simulation_progress list) tx" where
  "SimulationProgressRepo_ListBySimulation sim n = tx_gets (\<lambda>s. take (nat (clampLimit n))
     (newest sg_updated (visible_progress (\<lambda>p. sg_sim p = sim) s)))"

section \<open>Handlers (handlers/simulations.go)\<close>

definition simGate :: "sim_env \<Rightarrow> org_ctx \<Rightarrow> (response, simdb, unit) hm" where
  "simGate env = module_gate (se_enabled env) ''simulations are not enabled for this organization''"

definition getOrgSimulation :: "uuid \<Rightarrow> org_ctx \<Rightarrow> (response, simdb, simulation) hm" where
  "getOrgSimulation = org_item sd_sims ''simulation not found''"

definition simReason :: "sim_env \<Rightarrow> sim_error \<Rightarrow> string" where
  "simReason env e = (let about = (\<lambda>m n. m @ '': '' @ se_quote env n) in case e of
     ErrUnknownKind \<Rightarrow> ''kind must be 'simulation' or 'diagram'' @ [CHR 0x27]
   | ErrDiagramMissing \<Rightarrow> ''a diagram artifact needs a diagram spec''
   | ErrUnknownFormat f \<Rightarrow> about ''unknown diagram format'' f
   | ErrEmptySource \<Rightarrow> ''diagram source is empty''
   | ErrSourceTooLarge \<Rightarrow> ''diagram source exceeds the size limit ('' @ show_int (se_max_source env) @ '' bytes)''
   | ErrSimMissing \<Rightarrow> ''a simulation artifact needs a simulation spec''
   | ErrNoParameters \<Rightarrow> ''a simulation needs at least one parameter''
   | ErrTooManyParams \<Rightarrow> ''too many parameters (max '' @ show_int (se_max_params env) @ '')''
   | ErrParamName \<Rightarrow> ''every parameter needs a name''
   | ErrDuplicateParam n \<Rightarrow> about ''duplicate parameter name'' n
   | ErrParamType t \<Rightarrow> about (''parameter type must be 'number', 'boolean' or 'select'' @ [CHR 0x27]) t
   | ErrSelectNoOptions n \<Rightarrow> about ''a 'select' parameter needs at least one option'' n
   | ErrNumberRange n \<Rightarrow> about ''parameter min must be <= max'' n
   | ErrOutputName \<Rightarrow> ''every output needs a name''
   | ErrDuplicateOutput n \<Rightarrow> about ''duplicate output name'' n
   | ErrOutputExpr n \<Rightarrow> about ''every output needs an expression'' n
   | ErrBadSpecJSON \<Rightarrow> ''spec is not valid JSON''
   | ErrBadConfigJSON \<Rightarrow> ''config is not valid JSON''
   | ErrNegativeInteract \<Rightarrow> ''completion_interactions must be >= 0'')"

definition validateSimPayload :: "sim_env \<Rightarrow> simulationRequest \<Rightarrow> (response, simdb, json \<times> json) hm" where
  "validateSimPayload env q = (case ParseSpec env (sq_kind q) (sq_spec q) of
     Inl e \<Rightarrow> h_respond (RespErr 400 (simReason env e))
   | Inr sp \<Rightarrow> (case ParseConfig (sq_config q) of
       Inl e \<Rightarrow> h_respond (RespErr 400 (simReason env e))
     | Inr cf \<Rightarrow> h_return (spec_json env sp, config_json env cf)))"

definition simulationResponse :: "simulation \<Rightarrow> (string \<times> json) list" where
  "simulationResponse r = [(''id'', JInt (int (it_id r))), (''slug'', JStr (it_slug r)), (''title'', JStr (it_title r)),
     (''description'', JStr (it_description r)), (''kind'', JStr (si_kind r)), (''course_id'', j_opt (\<lambda>i. JInt (int i)) (it_course r)),
     (''lesson_id'', j_opt (\<lambda>i. JInt (int i)) (it_lesson r)), (''is_published'', JBool (it_published r)),
     (''created_at'', JInt (it_created r)), (''updated_at'', JInt (it_updated r))]"

definition simulationResponseFull :: "simulation \<Rightarrow> json" where
  "simulationResponseFull r = JObj (simulationResponse r @ [(''spec'', si_spec r), (''config'', si_config r)])"

definition simulationList :: "simulation list \<Rightarrow> json" where
  "simulationList rs = JArr (map (\<lambda>r. JObj (simulationResponse r)) rs)"

definition simulationProgressResponse :: "simulation_progress \<Rightarrow> json" where
  "simulationProgressResponse p = JObj [(''id'', JInt (int (sg_id p))), (''simulation_id'', JInt (int (sg_sim p))),
     (''learner_id'', JInt (int (sg_learner p))), (''state'', sg_state p), (''interaction_count'', JInt (sg_count p)),
     (''last_score'', j_opt JDec (sg_score p)), (''is_complete'', JBool (sg_complete p)), (''started_at'', JInt (sg_started p)),
     (''updated_at'', JInt (sg_updated p)), (''completed_at'', j_opt JInt (sg_completed p))]"

definition simulationProgressList :: "simulation_progress list \<Rightarrow> json" where
  "simulationProgressList ps = JArr (map simulationProgressResponse ps)"

definition auditSim :: "auth_ctx \<Rightarrow> org_ctx \<Rightarrow> string \<Rightarrow> string \<Rightarrow> uuid \<Rightarrow> (response, simdb, unit) hm" where
  "auditSim = module_audit"

definition CreateSimulation :: "sim_env \<Rightarrow> auth_ctx \<Rightarrow> org_ctx \<Rightarrow> simulationRequest option \<Rightarrow> simdb handler" where
  "CreateSimulation env ac oc body = (case body of None \<Rightarrow> h_respond (RespErr 400 ''slug, title and kind are required'')
     | Some q \<Rightarrow> if sq_title q = [] \<or> sq_slug q = [] then h_respond (RespErr 400 ''slug, title and kind are required'') else
       h_bind (simGate env oc) (\<lambda>_.
       h_bind (validateSimPayload env q) (\<lambda>(sp, cf).
       h_bind (msql (SimulationRepo_Create env (oc_org oc) (ac_user ac) q sp cf)
         (\<lambda>e. if e = ErrUniqueViolation then RespErr 409 ''a simulation with that slug already exists'' else internal_error e)) (\<lambda>r.
       h_bind (auditSim ac oc ''simulation.created'' ''simulation'' (it_id r)) (\<lambda>_.
         h_return (Resp 201 (JObj (simulationResponse r))))))))"

definition ListSimulations :: "sim_env \<Rightarrow> org_ctx \<Rightarrow> simdb handler" where
  "ListSimulations env oc = h_bind (simGate env oc) (\<lambda>_. h_bind (msql (SimulationRepo_ListByOrg (oc_org oc)) internal_error) (\<lambda>rs.
     h_return (Resp 200 (JObj [(''simulations'', simulationList rs)]))))"

definition GetSimulation :: "sim_env \<Rightarrow> org_ctx \<Rightarrow> uuid \<Rightarrow> simdb handler" where
  "GetSimulation env oc i = h_bind (simGate env oc) (\<lambda>_. h_bind (getOrgSimulation i oc) (\<lambda>r.
     h_return (Resp 200 (simulationResponseFull r))))"

definition UpdateSimulation :: "sim_env \<Rightarrow> auth_ctx \<Rightarrow> org_ctx \<Rightarrow> uuid \<Rightarrow> simulationRequest option \<Rightarrow> simdb handler" where
  "UpdateSimulation env ac oc i body = (case body of None \<Rightarrow> h_respond (RespErr 400 ''title and kind are required'')
     | Some q \<Rightarrow> if sq_title q = [] then h_respond (RespErr 400 ''title and kind are required'') else
       h_bind (simGate env oc) (\<lambda>_.
       h_bind (getOrgSimulation i oc) (\<lambda>x.
       h_bind (validateSimPayload env q) (\<lambda>(sp, cf).
       h_bind (msql (SimulationRepo_Update env (it_id x) q sp cf) internal_error) (\<lambda>r.
       h_bind (auditSim ac oc ''simulation.updated'' ''simulation'' (it_id r)) (\<lambda>_.
         h_return (Resp 200 (simulationResponseFull r))))))))"

definition SetSimulationPublished :: "sim_env \<Rightarrow> auth_ctx \<Rightarrow> org_ctx \<Rightarrow> uuid \<Rightarrow> bool option \<Rightarrow> simdb handler" where
  "SetSimulationPublished env ac oc i body = (case body of None \<Rightarrow> h_respond (RespErr 400 ''invalid request'')
     | Some b \<Rightarrow>
       h_bind (simGate env oc) (\<lambda>_.
       h_bind (getOrgSimulation i oc) (\<lambda>x.
       h_bind (msql (SimulationRepo_SetPublished (it_id x) b) internal_error) (\<lambda>r.
       h_bind (auditSim ac oc (if b then ''simulation.published'' else ''simulation.unpublished'') ''simulation'' (it_id r)) (\<lambda>_.
         h_return (Resp 200 (JObj (simulationResponse r))))))))"

definition DeleteSimulation :: "sim_env \<Rightarrow> auth_ctx \<Rightarrow> org_ctx \<Rightarrow> uuid \<Rightarrow> simdb handler" where
  "DeleteSimulation env ac oc i =
     h_bind (simGate env oc) (\<lambda>_.
     h_bind (getOrgSimulation i oc) (\<lambda>x.
     h_bind (msql (SimulationRepo_Delete (it_id x)) (not_found_or_internal ''simulation not found'')) (\<lambda>_.
     h_bind (auditSim ac oc ''simulation.deleted'' ''simulation'' (it_id x)) (\<lambda>_.
       h_return (Resp 200 (JObj [(''status'', JStr ''deleted'')]))))))"

definition SimulationReport :: "sim_env \<Rightarrow> org_ctx \<Rightarrow> uuid \<Rightarrow> int \<Rightarrow> simdb handler" where
  "SimulationReport env oc i n =
     h_bind (simGate env oc) (\<lambda>_.
     h_bind (getOrgSimulation i oc) (\<lambda>x.
     h_bind (msql (SimulationProgressRepo_ListBySimulation (it_id x) n) internal_error) (\<lambda>ps.
       h_return (Resp 200 (JObj [(''simulation'', JObj (simulationResponse x)), (''progress'', simulationProgressList ps)])))))"

definition ListSimulationCatalog :: "sim_env \<Rightarrow> org_ctx \<Rightarrow> simdb handler" where
  "ListSimulationCatalog env oc = h_bind (simGate env oc) (\<lambda>_.
     h_bind (msql (SimulationRepo_ListPublished (oc_org oc)) internal_error) (\<lambda>rs.
       h_return (Resp 200 (JObj [(''simulations'', simulationList rs)]))))"

record recordProgressRequest =
  rr_state :: "json option"
  rr_score :: "rat option"
  rr_complete :: bool

text \<open>The threshold of the stored configuration, zero when it does not decode.\<close>

definition stored_threshold :: "json \<Rightarrow> int" where
  "stored_threshold j = (case json_members j of Inl _ \<Rightarrow> 0 | Inr kvs \<Rightarrow>
     (case dec_field dec_int64 ''completion_interactions'' kvs 0 of Inl _ \<Rightarrow> 0 | Inr n \<Rightarrow> n))"

definition RecordSimulationProgress :: "sim_env \<Rightarrow> auth_ctx \<Rightarrow> org_ctx \<Rightarrow> uuid \<Rightarrow> recordProgressRequest option \<Rightarrow> simdb handler" where
  "RecordSimulationProgress env ac oc i body = (case body of None \<Rightarrow> h_respond (RespErr 400 ''invalid request'')
     | Some q \<Rightarrow>
       h_bind (simGate env oc) (\<lambda>_.
       h_bind (getOrgSimulation i oc) (\<lambda>x.
       h_bind (h_guard (it_published x) (RespErr 403 ''simulation is not published'')) (\<lambda>_.
       h_bind (msql (SimulationProgressRepo_Record env (oc_org oc) (it_id x) (ac_user ac) (rr_state q) (rr_score q) (rr_complete q)
         (stored_threshold (si_config x))) internal_error) (\<lambda>p.
         h_return (Resp 200 (simulationProgressResponse p)))))))"

definition GetMySimulationProgress :: "sim_env \<Rightarrow> auth_ctx \<Rightarrow> org_ctx \<Rightarrow> uuid \<Rightarrow> simdb handler" where
  "GetMySimulationProgress env ac oc i =
     h_bind (simGate env oc) (\<lambda>_.
     h_bind (getOrgSimulation i oc) (\<lambda>x.
     h_bind (msql_attempt (SimulationProgressRepo_GetForLearner (it_id x) (ac_user ac))) (\<lambda>r. case r of
       Inr p \<Rightarrow> h_return (Resp 200 (JObj [(''progress'', simulationProgressResponse p)]))
     | Inl e \<Rightarrow> if e = ErrNotFound then h_return (Resp 200 (JObj [(''progress'', JNull)])) else h_respond (internal_error e))))"

definition ListMySimulationProgress :: "sim_env \<Rightarrow> auth_ctx \<Rightarrow> org_ctx \<Rightarrow> int \<Rightarrow> simdb handler" where
  "ListMySimulationProgress env ac oc n = h_bind (simGate env oc) (\<lambda>_.
     h_bind (msql (SimulationProgressRepo_ListForLearner (ac_user ac) n) internal_error) (\<lambda>ps.
       h_return (Resp 200 (JObj [(''progress'', simulationProgressList ps)]))))"

definition GetSimulationSettings :: "sim_env \<Rightarrow> org_ctx \<Rightarrow> simdb handler" where
  "GetSimulationSettings env oc = h_bind (msql (ModuleRepo_GetEnabled (oc_org oc)) internal_error) (\<lambda>b.
     h_return (Resp 200 (JObj [(''enabled'', JBool b), (''platform_simulations_enabled'', JBool (se_enabled env))])))"

definition UpdateSimulationSettings :: "auth_ctx \<Rightarrow> org_ctx \<Rightarrow> bool option \<Rightarrow> simdb handler" where
  "UpdateSimulationSettings ac oc body = (case body of None \<Rightarrow> h_respond (RespErr 400 ''invalid request'')
     | Some b \<Rightarrow>
       h_bind (msql (ModuleRepo_SetEnabled (oc_org oc) b) internal_error) (\<lambda>_.
       h_bind (auditSim ac oc ''simulation.settings_updated'' ''organization'' (oc_org oc)) (\<lambda>_.
         h_return (Resp 200 (JObj [(''enabled'', JBool b)])))))"

section \<open>Routes (registerSimulationsRoutes)\<close>

datatype sim_action =
    SimSettings | SimSetEnabled "bool option" | SimCatalog | SimMine int
  | SimCreate "simulationRequest option" | SimList | SimGet uuid | SimUpdate uuid "simulationRequest option"
  | SimPublish uuid "bool option" | SimDelete uuid | SimReport uuid int
  | SimRecord uuid "recordProgressRequest option" | SimProgress uuid

fun sim_roles :: "sim_action \<Rightarrow> role set" where
  "sim_roles SimSettings = {Owner}"
| "sim_roles (SimSetEnabled b) = {Owner}"
| "sim_roles SimCatalog = UNIV"
| "sim_roles (SimMine n) = UNIV"
| "sim_roles (SimRecord i b) = UNIV"
| "sim_roles (SimProgress i) = UNIV"
| "sim_roles a = {Owner, Teacher}"

fun sim_handler :: "sim_env \<Rightarrow> auth_ctx \<Rightarrow> org_ctx \<Rightarrow> sim_action \<Rightarrow> simdb handler" where
  "sim_handler env ac oc SimSettings = GetSimulationSettings env oc"
| "sim_handler env ac oc (SimSetEnabled b) = UpdateSimulationSettings ac oc b"
| "sim_handler env ac oc SimCatalog = ListSimulationCatalog env oc"
| "sim_handler env ac oc (SimMine n) = ListMySimulationProgress env ac oc n"
| "sim_handler env ac oc (SimCreate q) = CreateSimulation env ac oc q"
| "sim_handler env ac oc SimList = ListSimulations env oc"
| "sim_handler env ac oc (SimGet i) = GetSimulation env oc i"
| "sim_handler env ac oc (SimUpdate i q) = UpdateSimulation env ac oc i q"
| "sim_handler env ac oc (SimPublish i b) = SetSimulationPublished env ac oc i b"
| "sim_handler env ac oc (SimDelete i) = DeleteSimulation env ac oc i"
| "sim_handler env ac oc (SimReport i n) = SimulationReport env oc i n"
| "sim_handler env ac oc (SimRecord i b) = RecordSimulationProgress env ac oc i b"
| "sim_handler env ac oc (SimProgress i) = GetMySimulationProgress env ac oc i"

definition sim_request :: "sim_env \<Rightarrow> auth_ctx \<Rightarrow> string \<Rightarrow> sim_action \<Rightarrow> simdb handler" where
  "sim_request env ac slug a = module_route ac slug (sim_roles a) (\<lambda>oc. sim_handler env ac oc a)"

end
