(* ===== verification/ModuleFacts.thy ===== *)
theory ModuleFacts
  imports ModuleBase
begin

text \<open>
  How the statements, handlers and routes of the optional modules run, the locale through which an
  invariant of a module's tables passes them, and the locale of a table of items with what it
  promises: rows appear, change and vanish only at the hands of the owners and teachers of their
  organization.
\<close>

section \<open>Running\<close>

lemma msql_attempt_run:
  "msql_attempt m s = (Inr (Inr x), t) \<longleftrightarrow> \<not> a_aborted (md_adb s) \<and> m s = Inr (x, t)"
  "msql_attempt m s = (Inr (Inl e), t) \<longleftrightarrow> (if a_aborted (md_adb s) then e = ErrStorage else m s = Inl e) \<and> t = m_abort e s"
  "msql_attempt m s \<noteq> (Inl r, t)"
  by (auto simp: msql_attempt_def split: sum.splits)

lemma mattempt_bind_run:
  "h_bind (msql_attempt m) (\<lambda>r. case r of Inl e \<Rightarrow> g e | Inr x \<Rightarrow> f x) s = (v, t) \<longleftrightarrow>
     (\<exists>x s'. \<not> a_aborted (md_adb s) \<and> m s = Inr (x, s') \<and> f x s' = (v, t)) \<or>
     (\<exists>e. (if a_aborted (md_adb s) then e = ErrStorage else m s = Inl e) \<and> g e (m_abort e s) = (v, t))"
  by (auto simp: h_bind_def msql_attempt_def split: sum.splits prod.splits)

lemma msql_run:
  "msql m f s = (Inr x, t) \<longleftrightarrow> \<not> a_aborted (md_adb s) \<and> m s = Inr (x, t)"
  "msql m f s = (Inl r, t) \<longleftrightarrow>
     (\<exists>e. (if a_aborted (md_adb s) then e = ErrStorage else m s = Inl e) \<and> r = f e \<and> t = m_abort e s)"
  unfolding msql_def mattempt_bind_run by auto

lemma msql_ignore_run:
  "msql_ignore m s = (Inr u, t) \<longleftrightarrow> (\<not> a_aborted (md_adb s) \<and> m s = Inr ((), t)) \<or>
     (\<exists>e. (if a_aborted (md_adb s) then e = ErrStorage else m s = Inl e) \<and> t = m_abort e s)"
  "msql_ignore m s \<noteq> (Inl r, t)"
  by (auto simp: msql_ignore_def h_bind_def msql_attempt_def h_return_def split: sum.splits prod.splits)

lemma h_bind_run:
  assumes "h_bind m f s = (v, t)"
  obtains r where "m s = (Inl r, t)" "v = Inl r" | x s1 where "m s = (Inr x, s1)" "f x s1 = (v, t)"
  using assms by (cases "m s"; cases "fst (m s)") (auto simp: h_bind_def)

lemmas m_run = h_bind_Inr h_bind_Inl msql_run msql_ignore_run

lemma on_org_Inr: "on_org m s = Inr (x, t) \<longleftrightarrow> (\<exists>a. m (md_adb s) = Inr (x, a) \<and> t = s\<lparr>md_adb := a\<rparr>)"
  by (auto simp: on_org_def split: sum.splits prod.splits)

lemma errs_msql:
  "(\<And>e. 400 \<le> http_status (f e)) \<Longrightarrow> errs (msql m f)" "errs (msql_ignore (n :: ('m mdb_scheme, unit) tx))" "errs (msql_attempt k)"
  by (auto simp: errs_def msql_run msql_ignore_run msql_attempt_run)

lemma errs_module_gate: "errs (module_gate b msg oc)"
  unfolding module_gate_def by (intro errs_rules errs_msql) simp_all

lemma module_gate_Inr: "module_gate b msg oc s = (Inr u, t) \<Longrightarrow> t = s \<and> b \<and> md_on s (oc_org oc)"
  by (auto simp: module_gate_def m_run ModuleRepo_GetEnabled_def h_guard_def h_return_def h_respond_def split: if_splits)

lemma errs_item: "errs (org_item get msg i oc)"
  unfolding org_item_def by (intro errs_rules errs_msql) simp_all

lemma errs_audit: "errs (module_audit ac oc action resource i)"
  unfolding module_audit_def by (rule errs_msql)

lemmas errs_module = errs_rules errs_msql errs_module_gate errs_item errs_audit

abbreviation open_mtx :: "uuid \<Rightarrow> 'm mdb_scheme \<Rightarrow> 'm mdb_scheme" where
  "open_mtx u s \<equiv> s\<lparr>md_adb := stamp u (md_adb s)\<rparr>"

abbreviation close_mtx :: "'m mdb_scheme \<Rightarrow> 'm mdb_scheme" where
  "close_mtx s \<equiv> s\<lparr>md_adb := unstamp (md_adb s)\<rparr>"

lemma mserve_cases:
  assumes "mserve u m s = (r, s')"
  obtains t where "run_handler m (open_mtx u s) = (r, t)" "s' = s" "500 \<le> http_status r \<or> a_aborted (md_adb t)"
  | t where "run_handler m (open_mtx u s) = (r, t)" "http_status r < 500" "\<not> a_aborted (md_adb t)" "s' = close_mtx t"
  using assms unfolding mserve_def by (auto simp: Let_def split: prod.splits if_splits)

section \<open>Invariants of a module's tables\<close>

text \<open>What the statements outside the module's tables may do to the tenancy tables.\<close>

definition adb_quiet :: "adb \<Rightarrow> adb \<Rightarrow> bool" where
  "adb_quiet a b \<longleftrightarrow> a_session b = a_session a \<and> a_clock b = a_clock a \<and> a_members b = a_members a \<and>
     a_profiles b = a_profiles a \<and> a_courses b = a_courses a \<and> a_lessons b = a_lessons a \<and>
     map og_id (a_orgs b) = map og_id (a_orgs a) \<and> a_next a \<le> a_next b"

lemma adb_quiet_refl [simp]: "adb_quiet a a"
  by (simp add: adb_quiet_def)

lemma adb_quiet_trans: "adb_quiet a b \<Longrightarrow> adb_quiet b c \<Longrightarrow> adb_quiet a c"
  by (simp add: adb_quiet_def)

lemma quiet_aborted [simp]: "adb_quiet a (a\<lparr>a_aborted := b\<rparr>)"
  by (simp add: adb_quiet_def)

lemma quiet_same: "same_but_aborted a b \<Longrightarrow> adb_quiet a b"
  by (auto simp: same_but_aborted_def)

lemma quiet_next [simp]: "adb_quiet a (a\<lparr>a_next := Suc (a_next a)\<rparr>)"
  by (simp add: adb_quiet_def)

text \<open>The policies depend on what stays.\<close>

lemma quiet_policies:
  assumes "adb_quiet a b"
  shows "teaches b o' = teaches a o'" "sees b o' = sees a o'" "row_mine b l = row_mine a l" "owns b o' = owns a o'"
    "app_is_platform_owner b = app_is_platform_owner a"
  using assms unfolding adb_quiet_def teaches_def sees_def row_mine_def owns_def app_is_platform_owner_def is_org_teacher_def
    is_org_member_def is_org_owner_def by (simp_all cong: option.case_cong)

locale module_state =
  fixes I :: "'m mdb_scheme \<Rightarrow> bool"
  assumes quiet: "I s \<Longrightarrow> adb_quiet (md_adb s) a \<Longrightarrow> I (s\<lparr>md_adb := a\<rparr>)"
    and toggle: "I s \<Longrightarrow> I (s\<lparr>md_on := f\<rparr>)"
begin

lemma aborted: "I s \<Longrightarrow> I (m_abort e s)"
  unfolding m_abort_def by (rule quiet) simp_all

lemma pres_attempt: "tx_pres I m \<Longrightarrow> h_pres I (msql_attempt m)"
  by (auto simp: h_post_def msql_attempt_def tx_post_def aborted split: sum.splits)

lemma pres_msql: "tx_pres I m \<Longrightarrow> h_pres I (msql m f)"
  unfolding msql_def by (intro h_pres_bind pres_attempt h_pres_sum h_pres_respond h_pres_return)

lemma pres_ignore: "tx_pres I m \<Longrightarrow> h_pres I (msql_ignore m)"
  unfolding msql_ignore_def by (intro h_pres_bind pres_attempt h_pres_return)

lemma pres_reading: "(\<And>a. h_pres (same_but_aborted a) m) \<Longrightarrow> h_pres I (in_org m)"
proof -
  assume reads: "\<And>a. h_pres (same_but_aborted a) m"
  have "same_but_aborted (md_adb s) (snd (m (md_adb s)))" for s :: "'m mdb_scheme"
    using h_presD[OF reads] by simp
  then have "I (s\<lparr>md_adb := snd (m (md_adb s))\<rparr>)" if "I s" for s using that quiet quiet_same by blast
  then show "h_pres I (in_org m)" by (simp add: h_post_def in_org_def Let_def split_beta)
qed

lemma pres_audit: "h_pres I (module_audit ac oc action resource i)"
  unfolding module_audit_def
  by (rule pres_ignore) (auto simp: tx_post_def on_org_Inr AAuditRepo_Record_def adb_quiet_def intro!: quiet split: if_splits)

lemma pres_enabled: "tx_pres I (ModuleRepo_GetEnabled o')"
  by (auto simp: tx_post_def ModuleRepo_GetEnabled_def split: if_splits)

lemma pres_set_enabled: "tx_pres I (ModuleRepo_SetEnabled o' b)"
proof (rule tx_postI)
  fix s x t assume I: "I s" and "ModuleRepo_SetEnabled o' b s = Inr (x, t)"
  then obtain f where t: "t = s\<lparr>md_on := (md_on s)(o' := b), md_adb := put_orgs (map f (a_orgs (md_adb s))) (md_adb s)\<rparr>"
    and f: "\<And>g. og_id (f g) = og_id g" by (auto simp: ModuleRepo_SetEnabled_def split: if_splits)
  from f have "adb_quiet (md_adb s) (put_orgs (map f (a_orgs (md_adb s))) (md_adb s))" by (simp add: adb_quiet_def)
  from toggle[OF quiet[OF I this], of "(md_on s)(o' := b)"] show "I t" by (cases s) (simp add: t)
qed

lemma pres_gate: "h_pres I (module_gate b msg oc)"
  unfolding module_gate_def by (intro h_pres_bind h_pres_if pres_msql pres_enabled h_pres_return h_pres_guard)

lemma pres_item: "h_pres I (org_item get msg i oc)"
  unfolding org_item_def item_get_def
  by (intro h_pres_bind pres_msql h_pres_guard h_pres_return) (auto simp: tx_post_def tab_select1_Inr)

lemma pres_list: "tx_pres I (item_list get P)"
  unfolding item_list_def by (rule tx_pres_gets)

lemma pres_route: "(\<And>oc. h_pres I (f oc)) \<Longrightarrow> h_pres I (module_route ac slug roles f)"
  unfolding module_route_def
  by (intro h_pres_bind pres_reading ResolveOrg_reads) (simp_all add: RequireRole_def h_pres_guard)

lemmas mod_rules = h_pres_bind h_pres_guard h_pres_return h_pres_respond h_pres_if h_pres_option h_pres_sum
  pres_attempt pres_msql pres_audit pres_enabled pres_set_enabled pres_gate pres_item pres_list tx_pres_gets tx_pres_select1

lemma mserve_keeps:
  assumes "h_pres I m" "I (open_mtx u s)"
  obtains "snd (mserve u m s) = s" | t where "I t" "snd (mserve u m s) = close_mtx t"
proof -
  obtain r s' where sv: "mserve u m s = (r, s')" by fastforce
  have "I (snd (m (open_mtx u s)))" using assms by (simp add: h_post_def)
  then show thesis using sv that by (cases rule: mserve_cases[OF sv]) (auto simp: run_handler_cases)
qed

end

text \<open>A handler that, when it answers early, has left a property alone.\<close>

definition h_early :: "('s \<Rightarrow> bool) \<Rightarrow> ('r, 's, 'a) hm \<Rightarrow> bool" where
  "h_early I m \<longleftrightarrow> (\<forall>s r t. I s \<longrightarrow> m s = (Inl r, t) \<longrightarrow> I t)"

lemma h_earlyD: "h_early I m \<Longrightarrow> m s = (Inl r, t) \<Longrightarrow> I s \<Longrightarrow> I t"
  unfolding h_early_def by blast

lemma h_early_pres: "h_pres I m \<Longrightarrow> h_early I m"
  by (force simp: h_early_def h_post_def)

lemma h_early_bind: "h_pres I m \<Longrightarrow> (\<And>x. h_early I (f x)) \<Longrightarrow> h_early I (h_bind m f)"
  unfolding h_early_def h_post_def h_bind_Inl by (metis snd_conv)

lemma h_early_last: "h_early I m \<Longrightarrow> h_early I (h_bind m (\<lambda>x. h_return (f x)))"
  by (auto simp: h_early_def h_bind_Inl h_return_def)

lemma h_early_option: "h_early I m \<Longrightarrow> (\<And>x. h_early I (f x)) \<Longrightarrow> h_early I (case v of None \<Rightarrow> m | Some x \<Rightarrow> f x)"
  by (cases v) simp_all

context module_state
begin

lemma h_early_msql: "h_early I (msql m f)"
  by (auto simp: h_early_def msql_run aborted)

end

lemma h_pres_known_sum:
  "(\<And>e. v = Inl e \<Longrightarrow> h_pres I (g e)) \<Longrightarrow> (\<And>x. v = Inr x \<Longrightarrow> h_pres I (f x)) \<Longrightarrow> h_pres I (case v of Inl e \<Rightarrow> g e | Inr x \<Rightarrow> f x)"
  by (cases v) simp_all

section \<open>Routes\<close>

text \<open>A request is turned away without a trace, or its handler runs for a member with one of the
  roles, or for a platform owner who is no member.\<close>

lemma module_route_cases:
  assumes "module_route ac slug roles f s = (v, t)"
  obtains (stopped) r where "v = Inl r" "400 \<le> http_status r" "same_but_aborted (md_adb s) (md_adb t)" "t = s\<lparr>md_adb := md_adb t\<rparr>"
  | (passed) oc g where "f oc s = (v, t)" "g \<in> set (a_orgs (md_adb s))" "og_slug g = slug" "og_id g = oc_org oc"
      "(\<exists>m \<in> set (a_members (md_adb s)). mb_user m = ac_user ac \<and> mb_org m = oc_org oc \<and> mb_role m \<in> roles \<and> oc_role oc = Some (mb_role m)) \<or>
       (\<exists>p \<in> set (a_profiles (md_adb s)). pf_id p = ac_user ac \<and> pf_platform_owner p)"
proof (cases "ResolveOrg ac slug (md_adb s)")
  case (Pair y a)
  show thesis
  proof (cases y)
    case (Inl r)
    have "same_but_aborted (md_adb s) a" using h_presD[OF ResolveOrg_reads[of "md_adb s" ac slug] same_but_aborted_refl] Pair by simp
    then show ?thesis
      using stopped[of r] assms Pair Inl ResolveOrg_error[of ac slug "md_adb s" r a]
      by (auto simp: module_route_def h_bind_def in_org_def)
  next
    case (Inr oc)
    with Pair have run: "ResolveOrg ac slug (md_adb s) = (Inr oc, a)" by simp
    from ResolveOrg_run[OF run] obtain p g where r: "a = md_adb s" "p \<in> set (a_profiles (md_adb s))" "pf_id p = ac_user ac"
        "g \<in> set (a_orgs (md_adb s))" "og_slug g = slug" "oc_org oc = og_id g" "oc_platform oc \<longrightarrow> pf_platform_owner p"
        "oc_platform oc \<longleftrightarrow> oc_role oc = None"
        "\<And>r. oc_role oc = Some r \<Longrightarrow> \<exists>m \<in> set (a_members (md_adb s)). mb_user m = ac_user ac \<and> mb_org m = og_id g \<and> mb_role m = r"
      by metis
    have s: "s\<lparr>md_adb := md_adb s\<rparr> = s" by simp
    show ?thesis
    proof (cases "oc_platform oc \<or> (case oc_role oc of None \<Rightarrow> False | Some r \<Rightarrow> r \<in> roles)")
      case True
      then have "f oc s = (v, t)" using assms run r(1)
        by (simp add: module_route_def h_bind_def in_org_def RequireRole_def h_guard_def h_return_def)
      moreover have "(\<exists>m \<in> set (a_members (md_adb s)). mb_user m = ac_user ac \<and> mb_org m = oc_org oc \<and> mb_role m \<in> roles \<and>
          oc_role oc = Some (mb_role m)) \<or> (\<exists>p \<in> set (a_profiles (md_adb s)). pf_id p = ac_user ac \<and> pf_platform_owner p)"
      proof (cases "oc_role oc")
        case None then show ?thesis using r by blast
      next
        case (Some ro)
        then show ?thesis using r(6,8) r(9)[OF Some] True by (auto 0 3)
      qed
      ultimately show ?thesis using passed[of oc g] r by simp
    next
      case False
      then show ?thesis using assms run r(1) stopped
        by (auto simp: module_route_def h_bind_def in_org_def RequireRole_def h_guard_def h_respond_def)
    qed
  qed
qed

section \<open>Tables of items\<close>

lemma filter_key: "distinct (map k xs) \<Longrightarrow> x \<in> set xs \<Longrightarrow> filter (\<lambda>y. k y = k x) xs = [x]"
  by (induction xs) (auto simp: filter_empty_conv image_iff)

lemma filter_map_on: "(\<And>x. P (f x) = P x) \<Longrightarrow> filter P (map (\<lambda>x. if P x then f x else x) xs) = map f (filter P xs)"
  by (induction xs) auto

definition items_of :: "('s \<Rightarrow> 'x item_scheme list) \<Rightarrow> uuid \<Rightarrow> 's \<Rightarrow> 'x item_scheme list" where
  "items_of get o' s = filter (\<lambda>r. it_org r = o') (get s)"

text \<open>The items of an organization where the caller does not teach, compared to a state before.\<close>

definition untaught :: "('m mdb_scheme \<Rightarrow> 'x item_scheme list) \<Rightarrow> uuid \<Rightarrow> 'm mdb_scheme \<Rightarrow> 'm mdb_scheme \<Rightarrow> bool" where
  "untaught get o' s0 s \<longleftrightarrow> adb_quiet (md_adb s0) (md_adb s) \<and> \<not> teaches (md_adb s0) o' \<and> items_of get o' s = items_of get o' s0"

text \<open>Well-formed items: unique ids below the next one, a slug unique in its organization, and every
  item as it should be.\<close>

definition items_ok :: "('x item_scheme \<Rightarrow> bool) \<Rightarrow> uuid \<Rightarrow> 'x item_scheme list \<Rightarrow> bool" where
  "items_ok Q n xs \<longleftrightarrow> distinct (map it_id xs) \<and> distinct (map (\<lambda>r. (it_org r, it_slug r)) xs) \<and> (\<forall>r \<in> set xs. it_id r < n \<and> Q r)"

lemma items_ok_less: "items_ok Q n xs \<Longrightarrow> n \<le> k \<Longrightarrow> items_ok Q k xs"
  by (auto simp: items_ok_def)

locale item_table =
  fixes get :: "'m mdb_scheme \<Rightarrow> 'x item_scheme list" and put :: "'x item_scheme list \<Rightarrow> 'm mdb_scheme \<Rightarrow> 'm mdb_scheme"
  assumes get_put [simp]: "get (put xs s) = xs"
    and get_adb [simp]: "get (s\<lparr>md_adb := a\<rparr>) = get s"
    and get_on [simp]: "get (s\<lparr>md_on := f\<rparr>) = get s"
    and adb_put [simp]: "md_adb (put xs s) = md_adb s"
begin

lemma get_Inr: "item_get get i s = Inr (r, t) \<Longrightarrow> t = s \<and> r \<in> set (get s) \<and> it_id r = i \<and> reads_org (md_adb s) (it_org r)"
  by (auto simp: item_get_def tab_select1_Inr dest!: find_SomeD)

lemma org_item_Inr: "org_item get msg i oc s = (Inr r, t) \<Longrightarrow> t = s \<and> r \<in> set (get s) \<and> it_id r = i \<and> it_org r = oc_org oc"
  unfolding org_item_def m_run by (auto simp: h_guard_def h_return_def h_respond_def dest!: get_Inr split: if_splits)

lemma insert_Inr: "item_insert get put mk s = Inr (r, t) \<longleftrightarrow> r = mk (a_next (md_adb s)) (a_clock (md_adb s)) \<and>
    teaches (md_adb s) (it_org r) \<and> refs_exist (md_adb s) r \<and> (\<forall>x \<in> set (get s). it_org x \<noteq> it_org r \<or> it_slug x \<noteq> it_slug r) \<and>
    t = put (get s @ [r]) (s\<lparr>md_adb := (md_adb s)\<lparr>a_next := Suc (a_next (md_adb s))\<rparr>\<rparr>)"
  by (auto simp: item_insert_def Let_def)

lemma update_Inr: "item_update get put i f s = Inr (r, t) \<Longrightarrow>
    t = put (map (\<lambda>r. if teaches (md_adb s) (it_org r) \<and> it_id r = i then f (a_clock (md_adb s)) r else r) (get s)) s"
  by (auto simp: item_update_def Let_def tab_update_Inr split: if_splits)

lemma delete_Inr: "item_delete get put i s = Inr (r, t) \<Longrightarrow>
    t = put (filter (\<lambda>r. \<not> (teaches (md_adb s) (it_org r) \<and> it_id r = i)) (get s)) s"
  by (auto simp: item_delete_def Let_def split: if_splits)

lemma items_of_simps [simp]:
  "items_of get o' (s\<lparr>md_adb := a\<rparr>) = items_of get o' s" "items_of get o' (s\<lparr>md_on := f\<rparr>) = items_of get o' s"
  by (simp_all add: items_of_def)

lemma insert_untaught: "tx_pres (untaught get o' s0) (item_insert get put mk)"
proof (rule tx_postI)
  fix s x t assume u: "untaught get o' s0 s" and run: "item_insert get put mk s = Inr (x, t)"
  from u have p: "teaches (md_adb s) = teaches (md_adb s0)" by (auto simp: untaught_def fun_eq_iff quiet_policies)
  show "untaught get o' s0 t"
    using u run adb_quiet_trans[OF _ quiet_next, of "md_adb s0" "md_adb s"] by (auto simp: insert_Inr untaught_def items_of_def p)
qed

lemma update_untaught:
  assumes "\<And>t r. it_org (f t r) = it_org r"
  shows "tx_pres (untaught get o' s0) (item_update get put i f)"
proof (rule tx_postI)
  fix s x t assume u: "untaught get o' s0 s" and run: "item_update get put i f s = Inr (x, t)"
  from u have p: "\<not> teaches (md_adb s) o'" by (auto simp: untaught_def quiet_policies)
  have "filter (\<lambda>r. it_org r = o') (map (\<lambda>r. if teaches (md_adb s) (it_org r) \<and> it_id r = i then f c r else r) xs) =
      filter (\<lambda>r. it_org r = o') xs" for xs c
    using p assms by (induction xs) auto
  then show "untaught get o' s0 t" using u update_Inr[OF run] by (simp add: untaught_def items_of_def)
qed

lemma delete_untaught: "tx_pres (untaught get o' s0) (item_delete get put i)"
proof (rule tx_postI)
  fix s x t assume u: "untaught get o' s0 s" and run: "item_delete get put i s = Inr (x, t)"
  from u have "\<not> teaches (md_adb s) o'" by (auto simp: untaught_def quiet_policies)
  then have kept: "filter (\<lambda>r. it_org r = o') (filter (\<lambda>r. \<not> (teaches (md_adb s) (it_org r) \<and> it_id r = i)) xs) =
      filter (\<lambda>r. it_org r = o') xs" for xs
    by (induction xs) auto
  show "untaught get o' s0 t" using u delete_Inr[OF run] kept[of "get s"] by (simp add: untaught_def items_of_def)
qed

lemma insert_ok:
  assumes "item_insert get put mk s = Inr (r, t)" "items_ok Q (a_next (md_adb s)) (get s)"
    and "\<And>i c. it_id (mk i c) = i" "\<And>i c. Q (mk i c)"
  shows "items_ok Q (a_next (md_adb t)) (get t)"
  using assms by (fastforce simp: insert_Inr items_ok_def less_Suc_eq)

lemma update_ok:
  assumes "item_update get put i f s = Inr (r, t)" "items_ok Q (a_next (md_adb s)) (get s)"
    and "\<And>c r. it_id (f c r) = it_id r" "\<And>c r. it_org (f c r) = it_org r" "\<And>c r. it_slug (f c r) = it_slug r"
    and "\<And>c r. Q r \<Longrightarrow> Q (f c r)"
  shows "items_ok Q (a_next (md_adb t)) (get t)"
proof -
  define g where "g = (\<lambda>r. if teaches (md_adb s) (it_org r) \<and> it_id r = i then f (a_clock (md_adb s)) r else r)"
  have t: "t = put (map g (get s)) s" using update_Inr[OF assms(1)] by (simp add: g_def)
  have g: "\<And>r. it_id (g r) = it_id r" "\<And>r. it_org (g r) = it_org r" "\<And>r. it_slug (g r) = it_slug r" "\<And>r. Q r \<Longrightarrow> Q (g r)"
    using assms(3-6) by (simp_all add: g_def)
  show ?thesis using assms(2) g(4) by (auto simp: t items_ok_def g(1-3) comp_def)
qed

lemma update_ids:
  assumes "item_update get put i f s = Inr (r, t)" "\<And>c r. it_id (f c r) = it_id r"
  shows "(\<exists>r \<in> set (get t). it_id r = j) \<longleftrightarrow> (\<exists>r \<in> set (get s). it_id r = j)"
proof -
  have "map it_id (get t) = map it_id (get s)" using update_Inr[OF assms(1)] assms(2) by (auto simp: comp_def intro: map_cong)
  then have "it_id ` set (get t) = it_id ` set (get s)" by (metis list.set_map)
  then show ?thesis by (metis image_iff)
qed

lemma delete_ok:
  "item_delete get put i s = Inr (r, t) \<Longrightarrow> items_ok Q (a_next (md_adb s)) (get s) \<Longrightarrow> items_ok Q (a_next (md_adb t)) (get t)"
  by (auto simp: items_ok_def distinct_map_filter dest!: delete_Inr)

lemma untaught_state: "module_state (untaught get o' s0)"
proof (unfold_locales, goal_cases)
  case (1 s a)
  then show ?case by (auto simp: untaught_def intro: adb_quiet_trans)
qed (simp add: untaught_def)

lemma mserve_untaught:
  assumes "h_pres (untaught get o' (open_mtx u s)) m" "\<not> is_org_teacher (md_adb s) u o'"
  shows "items_of get o' (snd (mserve u m s)) = items_of get o' s"
proof -
  obtain r s' where sv: "mserve u m s = (r, s')" by fastforce
  have "untaught get o' (open_mtx u s) (open_mtx u s)" using assms(2) by (simp add: untaught_def teaches_def is_org_teacher_def)
  from h_presD[OF assms(1) this] show ?thesis
    using sv by (cases rule: mserve_cases[OF sv]) (auto simp: run_handler_cases untaught_def)
qed

end

end
