(* ===== verification/SimSpecs.thy ===== *)
theory SimSpecs
  imports Simulations ModuleFacts
begin

text \<open>
  What validation makes of an author's specification: a stored specification decodes to itself and
  passes validation unchanged.
\<close>

section \<open>Decoding what was written\<close>

lemma lower_letters [simp]:
  "lower_char CHR ''a'' = CHR ''a''" "lower_char CHR ''b'' = CHR ''b''" "lower_char CHR ''c'' = CHR ''c''"
  "lower_char CHR ''d'' = CHR ''d''" "lower_char CHR ''e'' = CHR ''e''" "lower_char CHR ''f'' = CHR ''f''"
  "lower_char CHR ''g'' = CHR ''g''" "lower_char CHR ''i'' = CHR ''i''" "lower_char CHR ''k'' = CHR ''k''"
  "lower_char CHR ''l'' = CHR ''l''" "lower_char CHR ''m'' = CHR ''m''" "lower_char CHR ''n'' = CHR ''n''"
  "lower_char CHR ''o'' = CHR ''o''" "lower_char CHR ''p'' = CHR ''p''" "lower_char CHR ''r'' = CHR ''r''"
  "lower_char CHR ''s'' = CHR ''s''" "lower_char CHR ''t'' = CHR ''t''" "lower_char CHR ''u'' = CHR ''u''"
  "lower_char CHR ''x'' = CHR ''x''" "lower_char CHR ''y'' = CHR ''y''" "lower_char CHR ''_'' = CHR ''_''"
  by code_simp+

lemma dec_field_append: "dec_field d n (xs @ ys) a = (case dec_field d n xs a of Inl e \<Rightarrow> Inl e | Inr b \<Rightarrow> dec_field d n ys b)"
  by (induction d n xs a rule: dec_field.induct) (auto split: sum.split)

lemma dec_field_omit: "dec_field d n (omit b k j) a = (if b \<or> \<not> key_eq k n then Inr a else d j a)"
  by (simp add: omit_def split: sum.split)

text \<open>The printed form of a float reads back as that float.\<close>

definition prints_floats :: "(rat \<Rightarrow> json) \<Rightarrow> bool" where
  "prints_floats num \<longleftrightarrow> (\<forall>x. round64 x = Some x \<longrightarrow> (\<exists>r. num_value (num x) = Some r \<and> round64 r = Some x))"

lemma dec_printed: "prints_floats num \<Longrightarrow> round64 x = Some x \<Longrightarrow> dec_float_ptr (num x) a = Inr (Some x)"
proof -
  assume "prints_floats num" "round64 x = Some x"
  then obtain r where r: "num_value (num x) = Some r" "round64 r = Some x" by (auto simp: prints_floats_def)
  then have "num x \<noteq> JNull" by (auto simp: num_value_def)
  then show ?thesis using r by (simp add: dec_float_ptr_def)
qed

lemma any_printed: "prints_floats num \<Longrightarrow> round64 x = Some x \<Longrightarrow> any_of_json (num x) = Inr (ANum x)"
proof -
  assume "prints_floats num" "round64 x = Some x"
  then obtain r where "num_value (num x) = Some r" "round64 r = Some x" by (auto simp: prints_floats_def)
  then show ?thesis by (cases "num x") (auto simp: num_value_def num_any_def)
qed

subsection \<open>Any value\<close>

fun any_ok :: "any \<Rightarrow> bool" where
  "any_ok (ANum x) = (round64 x = Some x)"
| "any_ok (AArr xs) = (\<forall>x \<in> set xs. any_ok x)"
| "any_ok (AMap m) = (sorted_wrt (<) (map fst m) \<and> (\<forall>p \<in> set m. any_ok (snd p)))"
| "any_ok _ = True"

lemma any_of_json_ok:
  "any_of_json j = Inr a \<Longrightarrow> any_ok a"
  "anys_of_json js = Inr xs \<Longrightarrow> \<forall>x \<in> set xs. any_ok x"
  "members_of_json kvs m = Inr m' \<Longrightarrow> any_ok (AMap m) \<Longrightarrow> any_ok (AMap m')"
proof (induction j and js and kvs m arbitrary: a and xs and m' rule: any_of_json_anys_of_json_members_of_json.induct)
  case (11 k j kvs m)
  then obtain x where x: "any_of_json j = Inr x" "members_of_json kvs (put_key k x m) = Inr m'" by (auto split: sum.splits)
  have "any_ok (AMap (put_key k x m))"
    using 11(1)[OF x(1)] 11(4) put_key_sorted[of m k x] put_key_keys[of k x m] by auto
  then show ?case using 11(2)[OF x(1) x(2)] by simp
qed (auto simp: num_any_def dest: round64_idem split: sum.splits option.splits)

lemma members_printed:
  assumes "\<And>k x. (k, x) \<in> set m \<Longrightarrow> any_of_json (f x) = Inr x"
    and "sorted_wrt (<) (map fst m)" "\<forall>p \<in> set acc. \<forall>q \<in> set m. fst p < fst q"
  shows "members_of_json (map (\<lambda>(k, x). (k, f x)) m) acc = Inr (acc @ m)"
  using assms
proof (induction m arbitrary: acc)
  case (Cons p m)
  obtain k x where p: "p = (k, x)" by fastforce
  have "put_key k x acc = acc @ [(k, x)]" using Cons.prems(3) p by (intro put_key_last) auto
  moreover have "members_of_json (map (\<lambda>(k, x). (k, f x)) m) (acc @ [(k, x)]) = Inr ((acc @ [(k, x)]) @ m)"
    using Cons.prems p by (intro Cons.IH) auto
  moreover have "any_of_json (f x) = Inr x" using Cons.prems(1)[of k x] p by simp
  ultimately show ?case by (simp add: p)
qed simp

lemma any_roundtrip: "prints_floats num \<Longrightarrow> any_ok a \<Longrightarrow> any_of_json (json_of_any num a) = Inr a"
proof (induction num a rule: json_of_any.induct)
  case (5 num xs)
  then have "anys_of_json (map (json_of_any num) ys) = Inr ys" if "set ys \<subseteq> set xs" for ys
    using that by (induction ys) auto
  then show ?case by simp
next
  case (6 num m)
  then have "members_of_json (map (\<lambda>(k, x). (k, json_of_any num x)) m) [] = Inr ([] @ m)"
    by (intro members_printed) auto
  then show ?case by simp
qed (simp_all add: any_printed)

subsection \<open>Structures\<close>

lemmas decoding = dec_field_append dec_field_omit key_eq_def json_members_def dec_string_def

definition opt_float :: "rat option \<Rightarrow> bool" where
  "opt_float v \<longleftrightarrow> (\<forall>x. v = Some x \<longrightarrow> round64 x = Some x)"

lemma dec_opt_printed:
  "prints_floats num \<Longrightarrow> opt_float v \<Longrightarrow> v \<noteq> None \<Longrightarrow> dec_float_ptr (num (the v)) a = Inr v"
  by (auto simp: opt_float_def dec_printed)

lemma dec_strings_written: "dec_strings (JArr (map JStr xs)) a = Inr xs"
proof -
  have "decode_all (\<lambda>j. dec_string j []) (map JStr xs) = Inr xs" by (induction xs) (auto simp: dec_string_def)
  then show ?thesis by (simp add: dec_strings_def dec_list_def)
qed

lemma decode_all_written: "(\<And>x. x \<in> set xs \<Longrightarrow> d (w x) = Inr x) \<Longrightarrow> decode_all d (map w xs) = Inr xs"
  by (induction xs) auto

definition param_ok :: "parameter \<Rightarrow> bool" where
  "param_ok p \<longleftrightarrow> opt_float (pm_min p) \<and> opt_float (pm_max p) \<and> opt_float (pm_step p) \<and> any_ok (pm_default p)"

lemma parameter_written: "prints_floats (se_num env) \<Longrightarrow> param_ok p \<Longrightarrow> dec_parameter (parameter_json env p) = Inr p"
  by (auto simp: dec_parameter_def parameter_json_def decoding dec_opt_printed param_ok_def dec_any_def any_roundtrip
      dec_strings_written)

lemma output_written: "dec_output (output_json x) = Inr x"
  by (simp add: dec_output_def output_json_def decoding)

lemma diagram_written: "dec_diagram (diagram_json d) e = Inr d"
  by (simp add: dec_diagram_def diagram_json_def decoding)

lemma outputs_written: "dec_outputs (case os of None \<Rightarrow> JNull | Some xs \<Rightarrow> JArr (map output_json xs)) a = Inr os"
  by (auto simp: dec_outputs_def decode_all_written output_written split: option.split)

lemma body_written:
  "prints_floats (se_num env) \<Longrightarrow> \<forall>p \<in> set (sb_parameters b). param_ok p \<Longrightarrow> dec_body (body_json env b) c = Inr b"
  by (simp add: dec_body_def body_json_def decoding dec_list_def decode_all_written parameter_written outputs_written)

definition spec_ok :: "spec \<Rightarrow> bool" where
  "spec_ok sp \<longleftrightarrow> (\<forall>b. sp_simulation sp = Some b \<longrightarrow> (\<forall>p \<in> set (sb_parameters b). param_ok p))"

lemma written_objects [simp]: "diagram_json d \<noteq> JNull" "body_json env b \<noteq> JNull"
  by (simp_all add: diagram_json_def body_json_def)

lemma spec_written: "prints_floats (se_num env) \<Longrightarrow> spec_ok sp \<Longrightarrow> dec_spec (spec_json env sp) = Inr sp"
  by (cases "sp_diagram sp"; cases "sp_simulation sp")
    (auto simp: dec_spec_def spec_json_def decoding dec_ptr_def diagram_written body_written spec_ok_def)

subsection \<open>Decoded structures are well-formed\<close>

lemma dec_field_ok:
  "(\<And>j a b. d j a = Inr b \<Longrightarrow> P a \<Longrightarrow> P b) \<Longrightarrow> dec_field d n kvs a = Inr b \<Longrightarrow> P a \<Longrightarrow> P b"
proof (induction d n kvs a rule: dec_field.induct)
  case (2 d n k j r a)
  then show ?case by (cases "key_eq k n") (auto split: sum.splits)
qed simp

lemma dec_float_ok: "dec_float_ptr j a = Inr b \<Longrightarrow> opt_float b"
  by (auto simp: dec_float_ptr_def opt_float_def dest: round64_idem split: if_splits option.splits)

lemma float_field_ok: "dec_field dec_float_ptr n kvs None = Inr b \<Longrightarrow> opt_float b"
proof (erule dec_field_ok[rotated])
  show "opt_float None" by (simp add: opt_float_def)
qed (erule dec_float_ok)

lemma dec_parameter_ok: "dec_parameter j = Inr p \<Longrightarrow> param_ok p"
proof -
  assume "dec_parameter j = Inr p"
  then obtain kvs where "dec_field dec_float_ptr ''min'' kvs None = Inr (pm_min p)" "dec_field dec_float_ptr ''max'' kvs None = Inr (pm_max p)"
      "dec_field dec_float_ptr ''step'' kvs None = Inr (pm_step p)" "dec_field dec_any ''default'' kvs ANil = Inr (pm_default p)"
    by (auto simp: dec_parameter_def split: sum.splits)
  moreover have "any_ok b" if "dec_field dec_any n kvs ANil = Inr b" for n b
    by (rule dec_field_ok[OF _ that]) (auto intro: any_of_json_ok(1) simp: dec_any_def)
  ultimately show ?thesis by (simp add: param_ok_def float_field_ok)
qed

lemma decode_all_ok: "(\<And>j x. d j = Inr x \<Longrightarrow> P x) \<Longrightarrow> decode_all d js = Inr xs \<Longrightarrow> \<forall>x \<in> set xs. P x"
  by (induction js arbitrary: xs) (auto split: sum.splits)

lemma dec_body_ok: "dec_body j b = Inr c \<Longrightarrow> \<forall>p \<in> set (sb_parameters b). param_ok p \<Longrightarrow> \<forall>p \<in> set (sb_parameters c). param_ok p"
proof -
  assume b: "\<forall>p \<in> set (sb_parameters b). param_ok p" and "dec_body j b = Inr c"
  then obtain kvs where kvs: "dec_field (dec_list dec_parameter) ''parameters'' kvs (sb_parameters b) = Inr (sb_parameters c)"
    by (auto simp: dec_body_def split: sum.splits)
  have "\<forall>p \<in> set ys. param_ok p" if "dec_list dec_parameter j xs = Inr ys" for j xs ys
    using that decode_all_ok[of dec_parameter param_ok] dec_parameter_ok by (auto simp: dec_list_def split: json.splits)
  then show ?thesis using dec_field_ok[of "dec_list dec_parameter" "\<lambda>ps. \<forall>p \<in> set ps. param_ok p"] kvs b by blast
qed

lemma dec_spec_ok: "dec_spec j = Inr sp \<Longrightarrow> spec_ok sp"
proof -
  let ?zero = "\<lparr>sb_parameters = [], sb_outputs = None\<rparr>"
  let ?P = "\<lambda>v. \<forall>b. v = Some b \<longrightarrow> (\<forall>p \<in> set (sb_parameters b). param_ok p)"
  assume "dec_spec j = Inr sp"
  then obtain kvs where kvs: "dec_field (dec_ptr dec_body ?zero) ''simulation'' kvs None = Inr (sp_simulation sp)"
    by (auto simp: dec_spec_def split: sum.splits)
  have "?P w" if "dec_ptr dec_body ?zero i v = Inr w" "?P v" for i v w
    using that by (auto simp: dec_ptr_def dest: dec_body_ok split: if_splits sum.splits option.splits)
  then have "?P (sp_simulation sp)" using dec_field_ok[of "dec_ptr dec_body ?zero" ?P] kvs by blast
  then show ?thesis by (simp add: spec_ok_def)
qed

section \<open>Validation\<close>

lemma validateDiagram_idem: "validateDiagram env d = Inr e \<Longrightarrow> validateDiagram env (Some e) = Inr e"
  by (auto simp: validateDiagram_def Let_def split: option.splits if_splits)

lemma normalizeParam_run:
  "normalizeParam seen p = Inr q \<longleftrightarrow> (\<exists>n t. n = TrimSpace (pm_name p) \<and> t = ToLower (TrimSpace (pm_type p)) \<and> n \<noteq> [] \<and>
     n \<notin> set seen \<and> t \<in> paramTypes \<and> \<not> (t = ''select'' \<and> pm_options p = []) \<and>
     \<not> (t = ''number'' \<and> (case (pm_min p, pm_max p) of (Some lo, Some hi) \<Rightarrow> hi < lo | _ \<Rightarrow> False)) \<and>
     q = p\<lparr>pm_name := n, pm_label := (if pm_label p = [] then n else pm_label p), pm_type := t\<rparr>)"
  unfolding normalizeParam_def Let_def by (simp only: if_split_eq1 simp_thms) (auto simp del: split_paired_Ex)

lemma normalizeParam_idem: "normalizeParam seen p = Inr q \<Longrightarrow> normalizeParam seen q = Inr q"
proof -
  assume "normalizeParam seen p = Inr q"
  then obtain n t where r: "TrimSpace n = n" "ToLower (TrimSpace t) = t" "n \<noteq> []" "n \<notin> set seen" "t \<in> paramTypes"
      "\<not> (t = ''select'' \<and> pm_options p = [])"
      "\<not> (t = ''number'' \<and> (case (pm_min p, pm_max p) of (Some lo, Some hi) \<Rightarrow> hi < lo | _ \<Rightarrow> False))"
      "q = p\<lparr>pm_name := n, pm_label := (if pm_label p = [] then n else pm_label p), pm_type := t\<rparr>"
    unfolding normalizeParam_run by (metis TrimSpace_idem normal_word)
  then show ?thesis unfolding normalizeParam_run by (intro exI[of _ n] exI[of _ t]) simp
qed

lemma normalizeParam_ok: "normalizeParam seen p = Inr q \<Longrightarrow> param_ok p \<Longrightarrow> param_ok q"
  by (auto simp: normalizeParam_run param_ok_def)

lemma normalizeOutput_idem: "normalizeOutput seen p = Inr q \<Longrightarrow> normalizeOutput seen q = Inr q"
  by (auto simp: normalizeOutput_def Let_def split: if_splits)

lemma normalize_all_idem:
  "(\<And>seen x y. f seen x = Inr y \<Longrightarrow> f seen y = Inr y) \<Longrightarrow> normalize_all f name seen xs = Inr ys \<Longrightarrow>
    normalize_all f name seen ys = Inr ys \<and> length ys = length xs"
  by (induction xs arbitrary: seen ys) (fastforce split: sum.splits)+

lemma normalize_all_ok:
  "(\<And>seen x y. f seen x = Inr y \<Longrightarrow> P x \<Longrightarrow> P y) \<Longrightarrow> normalize_all f name seen xs = Inr ys \<Longrightarrow> \<forall>x \<in> set xs. P x \<Longrightarrow>
    \<forall>y \<in> set ys. P y"
  by (induction xs arbitrary: seen ys) (fastforce split: sum.splits)+

text \<open>The names are distinct.\<close>

lemma normalize_all_distinct:
  "(\<And>seen x y. f seen x = Inr y \<Longrightarrow> name y \<notin> set seen) \<Longrightarrow> normalize_all f name seen xs = Inr ys \<Longrightarrow>
    distinct (map name ys) \<and> set (map name ys) \<inter> set seen = {}"
proof (induction xs arbitrary: seen ys)
  case (Cons x xs)
  then obtain y zs where "f seen x = Inr y" "normalize_all f name (name y # seen) xs = Inr zs" "ys = y # zs" by (auto split: sum.splits)
  then show ?case using Cons.IH[of "name y # seen" zs] Cons.prems(1) by auto
qed simp

lemma validateSimulation_idem: "validateSimulation env b = Inr c \<Longrightarrow> validateSimulation env (Some c) = Inr c"
proof -
  assume v: "validateSimulation env b = Inr c"
  then obtain b' ps where b: "b = Some b'" "sb_parameters b' \<noteq> []" "\<not> se_max_params env < int (length (sb_parameters b'))"
      "normalize_all normalizeParam pm_name [] (sb_parameters b') = Inr ps" "sb_parameters c = ps"
    by (auto simp: validateSimulation_def split: option.splits if_splits sum.splits)
  note ps = normalize_all_idem[of normalizeParam, OF normalizeParam_idem b(4)]
  show ?thesis
  proof (cases "sb_outputs b'")
    case None
    then show ?thesis using v b ps by (auto simp: validateSimulation_def)
  next
    case (Some os)
    then obtain os' where os: "normalize_all normalizeOutput ou_name [] os = Inr os'" "c = \<lparr>sb_parameters = ps, sb_outputs = Some os'\<rparr>"
      using v b by (auto simp: validateSimulation_def split: sum.splits)
    then show ?thesis
      using b ps normalize_all_idem[of normalizeOutput, OF normalizeOutput_idem os(1)] by (auto simp: validateSimulation_def)
  qed
qed

lemma validate_idem: "validate env sp = Inr q \<Longrightarrow> validate env q = Inr q \<and> sp_kind q = sp_kind sp"
  by (auto simp: validate_def validateDiagram_idem validateSimulation_idem split: if_splits sum.splits)

lemma validate_ok: "validate env sp = Inr q \<Longrightarrow> spec_ok sp \<Longrightarrow> spec_ok q"
proof -
  assume v: "validate env sp = Inr q" and ok: "spec_ok sp"
  have "\<forall>p \<in> set (sb_parameters c). param_ok p" if "validateSimulation env (sp_simulation sp) = Inr c" for c
  proof -
    from that obtain b where b: "sp_simulation sp = Some b" "normalize_all normalizeParam pm_name [] (sb_parameters b) = Inr (sb_parameters c)"
      by (auto simp: validateSimulation_def split: option.splits if_splits sum.splits)
    then show ?thesis using normalize_all_ok[of normalizeParam param_ok, OF normalizeParam_ok b(2)] ok by (simp add: spec_ok_def)
  qed
  then show ?thesis using v by (auto simp: validate_def spec_ok_def split: if_splits sum.splits)
qed

lemma ParseSpec_ok: "ParseSpec env k raw = Inr sp \<Longrightarrow> spec_ok sp \<and> validate env sp = Inr sp \<and> sp_kind sp = k"
proof -
  assume p: "ParseSpec env k raw = Inr sp"
  obtain q where q: "spec_ok q" "validate env (q\<lparr>sp_kind := k\<rparr>) = Inr sp"
  proof (cases raw)
    case None
    then show ?thesis
      using that[of "\<lparr>sp_kind = [], sp_diagram = None, sp_simulation = None\<rparr>"] p by (simp add: ParseSpec_def spec_ok_def)
  next
    case (Some j)
    then obtain q where "dec_spec j = Inr q" "validate env (q\<lparr>sp_kind := k\<rparr>) = Inr sp"
      using p by (auto simp: ParseSpec_def split: sum.splits)
    then show ?thesis using that dec_spec_ok by blast
  qed
  have "spec_ok (q\<lparr>sp_kind := k\<rparr>)" using q(1) by (simp add: spec_ok_def)
  then show ?thesis using validate_ok[OF q(2)] validate_idem[OF q(2)] by simp
qed

text \<open>
  C28: What is stored of a specification passes validation again and means the same: if a
  specification is accepted, its written form decodes to exactly the accepted specification,
  given that a float's printed form reads back as that float.
\<close>

theorem stored_specs_read_back:
  assumes "prints_floats (se_num env)" and "ParseSpec env kind raw = Inr sp"
  shows "ParseSpec env kind (Some (spec_json env sp)) = Inr sp"
proof -
  from ParseSpec_ok[OF assms(2)] have sp: "dec_spec (spec_json env sp) = Inr sp" "validate env sp = Inr sp" "sp_kind sp = kind"
    using spec_written[OF assms(1)] by auto
  then have "validate env (sp\<lparr>sp_kind := kind\<rparr>) = Inr sp" by (metis spec.surjective spec.update_convs(1) spec.select_convs(1))
  then show ?thesis using sp(1) by (simp add: ParseSpec_def)
qed

text \<open>What an accepted specification looks like.\<close>

definition well_formed_spec :: "sim_env \<Rightarrow> spec \<Rightarrow> bool" where
  "well_formed_spec env sp \<longleftrightarrow>
     sp_kind sp = ''diagram'' \<and> sp_simulation sp = None \<and> (\<exists>d. sp_diagram sp = Some d \<and> dg_format d \<in> diagramFormats \<and>
        dg_source d \<noteq> [] \<and> int (length (dg_source d)) \<le> se_max_source env) \<or>
     sp_kind sp = ''simulation'' \<and> sp_diagram sp = None \<and> (\<exists>b. sp_simulation sp = Some b \<and> sb_parameters b \<noteq> [] \<and>
        int (length (sb_parameters b)) \<le> se_max_params env \<and> distinct (map pm_name (sb_parameters b)) \<and>
        (\<forall>p \<in> set (sb_parameters b). pm_name p \<noteq> [] \<and> pm_type p \<in> paramTypes \<and> (pm_type p = ''select'' \<longrightarrow> pm_options p \<noteq> []) \<and>
           (\<forall>lo hi. pm_type p = ''number'' \<and> pm_min p = Some lo \<and> pm_max p = Some hi \<longrightarrow> lo \<le> hi)) \<and>
        (\<forall>os. sb_outputs b = Some os \<longrightarrow> distinct (map ou_name os) \<and> (\<forall>x \<in> set os. ou_name x \<noteq> [] \<and> ou_expr x \<noteq> [])))"

lemma normalize_all_each:
  "normalize_all f name seen xs = Inr ys \<Longrightarrow> (\<And>seen x y. f seen x = Inr y \<Longrightarrow> P y) \<Longrightarrow> \<forall>y \<in> set ys. P y"
  by (induction xs arbitrary: seen ys) (fastforce split: sum.splits)+

lemma accepted_specs: "ParseSpec env kind raw = Inr sp \<Longrightarrow> well_formed_spec env sp"
proof -
  assume "ParseSpec env kind raw = Inr sp"
  then have v: "validate env sp = Inr sp" using ParseSpec_ok by blast
  show ?thesis
  proof (cases "sp_kind sp = ''diagram''")
    case True
    then obtain d where d: "sp_simulation sp = None" "sp_diagram sp = Some d" "validateDiagram env (Some d) = Inr d"
      using v by (cases sp) (auto simp: validate_def split: sum.splits dest: validateDiagram_idem)
    obtain f src where eq: "d = \<lparr>dg_format = f, dg_source = src\<rparr>" by (cases d)
    with d have "dg_format d \<in> diagramFormats" "dg_source d \<noteq> []" "int (length (dg_source d)) \<le> se_max_source env"
      by (auto simp: validateDiagram_def Let_def split: if_splits)
    then show ?thesis using True d by (simp add: well_formed_spec_def)
  next
    case False
    then obtain b where b: "sp_kind sp = ''simulation''" "sp_diagram sp = None" "sp_simulation sp = Some b"
        "validateSimulation env (Some b) = Inr b"
      using v by (cases sp) (auto simp: validate_def split: sum.splits if_splits dest: validateSimulation_idem)
    then have ps: "sb_parameters b \<noteq> []" "int (length (sb_parameters b)) \<le> se_max_params env"
        "normalize_all normalizeParam pm_name [] (sb_parameters b) = Inr (sb_parameters b)"
        "\<And>os. sb_outputs b = Some os \<Longrightarrow> normalize_all normalizeOutput ou_name [] os = Inr os"
      by (cases b; auto simp: validateSimulation_def split: option.splits if_splits sum.splits)+
    have "distinct (map pm_name (sb_parameters b))"
      using normalize_all_distinct[OF _ ps(3)] by (force simp: normalizeParam_run)
    moreover have "\<forall>p \<in> set (sb_parameters b). pm_name p \<noteq> [] \<and> pm_type p \<in> paramTypes \<and> (pm_type p = ''select'' \<longrightarrow> pm_options p \<noteq> []) \<and>
        (\<forall>lo hi. pm_type p = ''number'' \<and> pm_min p = Some lo \<and> pm_max p = Some hi \<longrightarrow> lo \<le> hi)"
      by (rule normalize_all_each[OF ps(3)]) (auto simp: normalizeParam_run)
    moreover have "distinct (map ou_name os) \<and> (\<forall>x \<in> set os. ou_name x \<noteq> [] \<and> ou_expr x \<noteq> [])" if "sb_outputs b = Some os" for os
    proof
      show "distinct (map ou_name os)"
        using normalize_all_distinct[OF _ ps(4)[OF that]] by (force simp: normalizeOutput_def Let_def split: if_splits)
      show "\<forall>x \<in> set os. ou_name x \<noteq> [] \<and> ou_expr x \<noteq> []"
        by (rule normalize_all_each[OF ps(4)[OF that]]) (auto simp: normalizeOutput_def Let_def split: if_splits)
    qed
    ultimately show ?thesis using b ps by (auto simp: well_formed_spec_def)
  qed
qed

lemma dec_config_ok: "dec_config j = Inr c \<Longrightarrow> opt_float (cf_passing c) \<and> - (2 ^ 63) \<le> cf_interactions c \<and> cf_interactions c < 2 ^ 63"
proof -
  assume "dec_config j = Inr c"
  then obtain kvs where c: "dec_field dec_int64 ''completion_interactions'' kvs 0 = Inr (cf_interactions c)"
      "dec_field dec_float_ptr ''passing_score'' kvs None = Inr (cf_passing c)"
    by (auto simp: dec_config_def)
  have "- (2 ^ 63) \<le> cf_interactions c \<and> cf_interactions c < 2 ^ 63"
    by (rule dec_field_ok[OF _ c(1)]) (auto simp: dec_int64_def split: json.splits if_splits)
  then show ?thesis using float_field_ok[OF c(2)] by simp
qed

lemma stored_configs_read_back:
  assumes "prints_floats (se_num env)" and "ParseConfig raw = Inr c"
  shows "ParseConfig (Some (config_json env c)) = Inr c"
proof -
  have "opt_float (cf_passing c) \<and> - (2 ^ 63) \<le> cf_interactions c \<and> cf_interactions c < 2 ^ 63 \<and> 0 \<le> cf_interactions c"
    using assms(2) dec_config_ok by (cases raw) (auto simp: ParseConfig_def opt_float_def split: sum.splits if_splits)
  then have "dec_config (config_json env c) = Inr c" "0 \<le> cf_interactions c"
    by (auto simp: dec_config_def config_json_def decoding dec_int64_def dec_opt_printed[OF assms(1)])
  then show ?thesis by (simp add: ParseConfig_def)
qed

end
