(* ===== verification/SimFacts.thy ===== *)
theory SimFacts
  imports SimSpecs
begin

text \<open>
  What the simulation routes keep: only the owners and teachers of an organization change its
  simulations; every stored specification is one that was accepted; and a learner's progress counts
  the interactions and completes once and for all.
\<close>

section \<open>How an invariant passes the routes\<close>

lemma payload_bind:
  assumes "\<And>sp cf. ParseSpec env (sq_kind q) (sq_spec q) = Inr sp \<Longrightarrow> ParseConfig (sq_config q) = Inr cf \<Longrightarrow>
      h_pres I (f (spec_json env sp, config_json env cf))"
  shows "h_pres I (h_bind (validateSimPayload env q) f)"
proof (cases "ParseSpec env (sq_kind q) (sq_spec q)"; cases "ParseConfig (sq_config q)")
  fix sp cf assume "ParseSpec env (sq_kind q) (sq_spec q) = Inr sp" "ParseConfig (sq_config q) = Inr cf"
  then show ?thesis using assms[of sp cf] by (simp add: validateSimPayload_def h_bind_def h_return_def h_post_def)
qed (simp_all add: validateSimPayload_def h_bind_def h_respond_def h_post_def)

interpretation sims: item_table sd_sims put_sims
  by unfold_locales simp_all

locale sim_laws = module_state I for I :: "simdb \<Rightarrow> bool" +
  fixes env :: sim_env and may_delete :: "uuid \<Rightarrow> bool" and may_record :: "uuid \<Rightarrow> uuid \<Rightarrow> bool"
  assumes create: "sq_title q \<noteq> [] \<Longrightarrow> sq_slug q \<noteq> [] \<Longrightarrow> ParseSpec env (sq_kind q) (sq_spec q) = Inr sp \<Longrightarrow>
      ParseConfig (sq_config q) = Inr cf \<Longrightarrow> tx_pres I (SimulationRepo_Create env o' u q (spec_json env sp) (config_json env cf))"
    and update: "sq_title q \<noteq> [] \<Longrightarrow> ParseSpec env (sq_kind q) (sq_spec q) = Inr sp \<Longrightarrow>
      ParseConfig (sq_config q) = Inr cf \<Longrightarrow> tx_pres I (SimulationRepo_Update env i q (spec_json env sp) (config_json env cf))"
    and publish: "tx_pres I (SimulationRepo_SetPublished i b)"
    and delete: "may_delete i \<Longrightarrow> tx_pres I (SimulationRepo_Delete i)"
    and recording: "may_record i l \<Longrightarrow> tx_pres I (SimulationProgressRepo_Record env o' i l st score fin k)"
begin

lemma pres_simgate: "h_pres I (simGate env oc)"
  unfolding simGate_def by (rule pres_gate)

lemma pres_sim: "h_pres I (getOrgSimulation i oc)"
  unfolding getOrgSimulation_def by (rule pres_item)

lemma pres_auditsim: "h_pres I (auditSim ac oc action resource i)"
  unfolding auditSim_def by (rule pres_audit)

lemma pres_reads:
  "tx_pres I (SimulationRepo_ListByOrg o')" "tx_pres I (SimulationRepo_ListPublished o')"
  "tx_pres I (SimulationProgressRepo_ListForLearner l n)" "tx_pres I (SimulationProgressRepo_ListBySimulation i n)"
  "tx_pres I (SimulationProgressRepo_GetForLearner i l)"
  unfolding SimulationRepo_ListByOrg_def SimulationRepo_ListPublished_def SimulationProgressRepo_ListForLearner_def
    SimulationProgressRepo_ListBySimulation_def SimulationProgressRepo_GetForLearner_def
  by (intro pres_list tx_pres_gets tx_pres_select1)+

lemmas sim_rules = mod_rules pres_simgate pres_sim pres_auditsim pres_reads publish

lemma pres_found: "(\<And>x. it_id x = i \<Longrightarrow> h_pres I (f x)) \<Longrightarrow> h_pres I (h_bind (getOrgSimulation i oc) f)"
proof -
  assume f: "\<And>x. it_id x = i \<Longrightarrow> h_pres I (f x)"
  have "it_id x = i" if "getOrgSimulation i oc s = (Inr x, t)" for s x t
    using that sims.org_item_Inr unfolding getOrgSimulation_def by blast
  moreover have "I (snd (getOrgSimulation i oc s))" if "I s" for s
    using that pres_sim by (rule h_presD[rotated])
  ultimately have "I (snd (h_bind (getOrgSimulation i oc) f s))" if "I s" for s
    using that h_presD[OF f] by (cases "getOrgSimulation i oc s"; cases "fst (getOrgSimulation i oc s)") (fastforce simp: h_bind_def)+
  then show ?thesis by (simp add: h_post_def)
qed

lemma pres_create: "h_pres I (CreateSimulation env ac oc body)"
proof (cases body)
  case (Some q)
  show ?thesis
  proof (cases "sq_title q = [] \<or> sq_slug q = []")
    case False
    then show ?thesis unfolding CreateSimulation_def Some option.case if_not_P[OF False]
      by (intro sim_rules payload_bind) (simp, intro sim_rules create; simp)
  qed (simp add: CreateSimulation_def Some h_pres_respond)
qed (simp add: CreateSimulation_def h_pres_respond)

lemma pres_update: "h_pres I (UpdateSimulation env ac oc i body)"
proof (cases body)
  case (Some q)
  show ?thesis
  proof (cases "sq_title q = []")
    case False
    then show ?thesis unfolding UpdateSimulation_def Some option.case if_not_P[OF False]
      by (intro sim_rules payload_bind) (simp, intro sim_rules update; simp)
  qed (simp add: UpdateSimulation_def Some h_pres_respond)
qed (simp add: UpdateSimulation_def h_pres_respond)

lemma pres_others:
  "h_pres I (GetSimulationSettings env oc)" "h_pres I (UpdateSimulationSettings ac oc b)" "h_pres I (ListSimulationCatalog env oc)"
  "h_pres I (ListMySimulationProgress env ac oc n)" "h_pres I (ListSimulations env oc)" "h_pres I (GetSimulation env oc i)"
  "h_pres I (SetSimulationPublished env ac oc i b)" "h_pres I (SimulationReport env oc i n)" "h_pres I (GetMySimulationProgress env ac oc i)"
  unfolding GetSimulationSettings_def UpdateSimulationSettings_def ListSimulationCatalog_def
    ListMySimulationProgress_def ListSimulations_def GetSimulation_def SetSimulationPublished_def
    SimulationReport_def GetMySimulationProgress_def
  by (intro sim_rules)+

lemma pres_delete: "may_delete i \<Longrightarrow> h_pres I (DeleteSimulation env ac oc i)"
  unfolding DeleteSimulation_def by (rule h_pres_bind[OF pres_simgate], rule pres_found) (intro sim_rules delete; simp)

lemma pres_record: "may_record i (ac_user ac) \<Longrightarrow> h_pres I (RecordSimulationProgress env ac oc i q)"
  unfolding RecordSimulationProgress_def
  by (rule h_pres_option, rule h_pres_respond, rule h_pres_bind[OF pres_simgate], rule pres_found) (intro sim_rules recording; simp)

lemma pres_handler:
  assumes "case a of SimDelete i \<Rightarrow> may_delete i | SimRecord i q \<Rightarrow> may_record i (ac_user ac) | _ \<Rightarrow> True"
  shows "h_pres I (sim_handler env ac oc a)"
  using assms by (cases a) (simp_all add: pres_create pres_update pres_others pres_delete pres_record)

lemma pres_request:
  "(case a of SimDelete i \<Rightarrow> may_delete i | SimRecord i q \<Rightarrow> may_record i (ac_user ac) | _ \<Rightarrow> True) \<Longrightarrow>
    h_pres I (sim_request env ac slug a)"
  unfolding sim_request_def by (rule pres_route) (rule pres_handler)

end

abbreviation anything :: "uuid \<Rightarrow> bool" where "anything \<equiv> \<lambda>_. True"

lemma any_request: "case a of SimDelete i \<Rightarrow> anything i | SimRecord i q \<Rightarrow> anything i | _ \<Rightarrow> True"
  by (cases a) simp_all

section \<open>Who changes simulations\<close>

interpretation taught_sims: sim_laws "untaught sd_sims o' s0" env anything "\<lambda>_. anything" for o' s0 env
proof (rule sim_laws.intro[OF sims.untaught_state], unfold_locales, goal_cases)
  case (1 q sp cf o'' u)
  then show ?case by (simp add: SimulationRepo_Create_def sims.insert_untaught tx_pres_throw split: option.splits)
next
  case (2 q sp cf i)
  then show ?case by (simp add: SimulationRepo_Update_def sims.update_untaught tx_pres_throw split: option.splits)
next
  case (3 i b)
  then show ?case by (simp add: SimulationRepo_SetPublished_def sims.update_untaught)
next
  case (4 i)
  show ?case unfolding SimulationRepo_Delete_def
    by (rule tx_pres_bind[OF sims.delete_untaught]) (auto simp: tx_post_def untaught_def items_of_def)
next
  case (5 i l o'' st score fin k)
  then show ?case
    by (auto simp: tx_post_def SimulationProgressRepo_Record_def Let_def untaught_def items_of_def split: if_splits option.splits
        intro: adb_quiet_trans[OF _ quiet_next])
qed

text \<open>
  A request by somebody who is neither an owner nor a teacher of an organization leaves the
  simulations of that organization as they were: none appears, changes, is published or
  vanishes, whatever organization the request names and whatever role the caller has elsewhere.
\<close>

theorem simulations_are_taught:
  assumes "\<not> is_org_teacher (md_adb s) (ac_user ac) o'"
  shows "items_of sd_sims o' (snd (mserve (ac_user ac) (sim_request env ac slug a) s)) = items_of sd_sims o' s"
  by (rule sims.mserve_untaught[OF taught_sims.pres_request[OF any_request] assms])

section \<open>What is stored\<close>

definition sim_row_ok :: "sim_env \<Rightarrow> simulation \<Rightarrow> bool" where
  "sim_row_ok env r \<longleftrightarrow> it_title r \<noteq> [] \<and> it_slug r \<noteq> [] \<and>
     (\<exists>sp. well_formed_spec env sp \<and> sp_kind sp = si_kind r \<and> se_jsonb env (spec_json env sp) = Some (si_spec r)) \<and>
     (\<exists>cf. 0 \<le> cf_interactions cf \<and> se_jsonb env (config_json env cf) = Some (si_config r))"

definition progress_ok :: "simulation_progress \<Rightarrow> bool" where
  "progress_ok p \<longleftrightarrow> 1 \<le> sg_count p \<and> int4 (sg_count p) \<and> (sg_complete p \<longleftrightarrow> sg_completed p \<noteq> None)"

definition sims_ok :: "sim_env \<Rightarrow> simdb \<Rightarrow> bool" where
  "sims_ok env s \<longleftrightarrow> items_ok (sim_row_ok env) (a_next (md_adb s)) (sd_sims s) \<and>
     distinct (map (\<lambda>p. (sg_sim p, sg_learner p)) (sd_progress s)) \<and>
     (\<forall>p \<in> set (sd_progress s). progress_ok p \<and> (\<exists>r \<in> set (sd_sims s). it_id r = sg_sim p))"

lemma stored_config: "ParseConfig raw = Inr cf \<Longrightarrow> 0 \<le> cf_interactions cf"
  by (auto simp: ParseConfig_def split: option.splits sum.splits if_splits)

interpretation sims_table: module_state "sims_ok env" for env
  by unfold_locales (auto simp: sims_ok_def adb_quiet_def elim: items_ok_less)

lemma sims_create_ok:
  assumes "sq_title q \<noteq> []" "sq_slug q \<noteq> []" "ParseSpec env (sq_kind q) (sq_spec q) = Inr sp" "ParseConfig (sq_config q) = Inr cf"
  shows "tx_pres (sims_ok env) (SimulationRepo_Create env o' u q (spec_json env sp) (config_json env cf))"
proof (rule tx_postI)
  fix s x t assume ok: "sims_ok env s" and "SimulationRepo_Create env o' u q (spec_json env sp) (config_json env cf) s = Inr (x, t)"
  then obtain mk where run: "item_insert sd_sims put_sims mk s = Inr (x, t)" and mk: "\<And>i c. it_id (mk i c) = i" "\<And>i c. sim_row_ok env (mk i c)"
    using assms accepted_specs[OF assms(3)] ParseSpec_ok[OF assms(3)] stored_config[OF assms(4)]
    by (fastforce simp: SimulationRepo_Create_def sim_row_ok_def split: option.splits)
  have "items_ok (sim_row_ok env) (a_next (md_adb t)) (sd_sims t)"
    using ok mk by (intro sims.insert_ok[OF run]) (simp_all add: sims_ok_def)
  moreover have "sd_progress t = sd_progress s" "set (sd_sims s) \<subseteq> set (sd_sims t)" using run by (auto simp: sims.insert_Inr)
  ultimately show "sims_ok env t" using ok unfolding sims_ok_def by (metis subsetD)
qed

lemma updated_ok:
  assumes "item_update sd_sims put_sims i f s = Inr (x, t)" "sims_ok env s"
    and "\<And>c r. it_id (f c r) = it_id r" "\<And>c r. it_org (f c r) = it_org r" "\<And>c r. it_slug (f c r) = it_slug r"
    and "\<And>c r. sim_row_ok env r \<Longrightarrow> sim_row_ok env (f c r)"
  shows "sims_ok env t"
proof -
  have "items_ok (sim_row_ok env) (a_next (md_adb t)) (sd_sims t)"
    using assms(2-6) by (intro sims.update_ok[OF assms(1)]) (simp_all add: sims_ok_def)
  moreover have "sd_progress t = sd_progress s" using sims.update_Inr[OF assms(1)] by simp
  ultimately show ?thesis using assms(2) sims.update_ids[OF assms(1,3)] by (simp add: sims_ok_def)
qed

lemma sims_update_ok:
  assumes "sq_title q \<noteq> []" "ParseSpec env (sq_kind q) (sq_spec q) = Inr sp" "ParseConfig (sq_config q) = Inr cf"
  shows "tx_pres (sims_ok env) (SimulationRepo_Update env i q (spec_json env sp) (config_json env cf))"
proof (rule tx_postI)
  fix s x t assume ok: "sims_ok env s" and "SimulationRepo_Update env i q (spec_json env sp) (config_json env cf) s = Inr (x, t)"
  then obtain f where run: "item_update sd_sims put_sims i f s = Inr (x, t)"
    and f: "\<And>c r. it_id (f c r) = it_id r" "\<And>c r. it_org (f c r) = it_org r" "\<And>c r. it_slug (f c r) = it_slug r"
      "\<And>c r. sim_row_ok env r \<Longrightarrow> sim_row_ok env (f c r)"
    using assms accepted_specs[OF assms(2)] ParseSpec_ok[OF assms(2)] stored_config[OF assms(3)]
    by (fastforce simp: SimulationRepo_Update_def sim_row_ok_def split: option.splits)
  show "sims_ok env t" using f by (intro updated_ok[OF run ok]) simp_all
qed

lemma sims_publish_ok: "tx_pres (sims_ok env) (SimulationRepo_SetPublished i b)"
proof (rule tx_postI)
  fix s x t assume ok: "sims_ok env s" and "SimulationRepo_SetPublished i b s = Inr (x, t)"
  then have run: "item_update sd_sims put_sims i (\<lambda>t r. r\<lparr>it_published := b, it_updated := t\<rparr>) s = Inr (x, t)"
    by (simp add: SimulationRepo_SetPublished_def)
  show "sims_ok env t" by (rule updated_ok[OF run ok]) (simp_all add: sim_row_ok_def)
qed

lemma sims_delete_ok: "tx_pres (sims_ok env) (SimulationRepo_Delete i)"
proof (rule tx_postI)
  fix s x t assume ok: "sims_ok env s" and "SimulationRepo_Delete i s = Inr (x, t)"
  then obtain y t' where run: "item_delete sd_sims put_sims i s = Inr (y, t')"
    and t: "t = t'\<lparr>sd_progress := filter (\<lambda>p. sg_sim p \<noteq> i) (sd_progress t')\<rparr>"
    by (auto simp: SimulationRepo_Delete_def tx_bind_Inr)
  have "items_ok (sim_row_ok env) (a_next (md_adb t')) (sd_sims t')"
    using ok by (intro sims.delete_ok[OF run]) (simp add: sims_ok_def)
  moreover have "sd_progress t' = sd_progress s" "set (sd_sims s) \<inter> {r. it_id r \<noteq> i} \<subseteq> set (sd_sims t')"
    using sims.delete_Inr[OF run] by auto
  ultimately show "sims_ok env t" using ok unfolding sims_ok_def t by (fastforce simp: distinct_map_filter)
qed

text \<open>What recording does to the rows of progress.\<close>

lemma Record_cases:
  assumes "SimulationProgressRepo_Record env o' sim l st score fin k s = Inr (p, t)"
  obtains (first) st' where "\<forall>p \<in> set (sd_progress s). \<not> (sg_sim p = sim \<and> sg_learner p = l)" "\<exists>r \<in> set (sd_sims s). it_id r = sim"
      "t = s\<lparr>sd_progress := sd_progress s @ [p], md_adb := (md_adb s)\<lparr>a_next := Suc (a_next (md_adb s))\<rparr>\<rparr>"
      "p = first_progress (a_next (md_adb s)) o' sim l st' score fin k (a_clock (md_adb s))"
  | (again) p0 st' f where "p0 \<in> set (sd_progress s)" "sg_sim p0 = sim" "sg_learner p0 = l" "p = f p0" "int4 (sg_count p0 + 1)"
      "t = s\<lparr>sd_progress := map (\<lambda>p. if sg_sim p = sim \<and> sg_learner p = l then f p else p) (sd_progress s)\<rparr>"
      "f = next_progress st' score fin k (a_clock (md_adb s))"
proof (cases "find (\<lambda>p. sg_sim p = sim \<and> sg_learner p = l) (sd_progress s)")
  case None
  then obtain st' where "\<exists>r \<in> set (sd_sims s). it_id r = sim"
      "t = s\<lparr>sd_progress := sd_progress s @ [p], md_adb := (md_adb s)\<lparr>a_next := Suc (a_next (md_adb s))\<rparr>\<rparr>"
      "p = first_progress (a_next (md_adb s)) o' sim l st' score fin k (a_clock (md_adb s))"
    using assms unfolding SimulationProgressRepo_Record_def Let_def None option.case by (auto split: if_splits option.splits)
  from first[OF _ this] show ?thesis using None by (simp add: find_None_iff)
next
  case (Some p0)
  obtain st' where r: "int4 (sg_count p0 + 1)" "p = next_progress st' score fin k (a_clock (md_adb s)) p0"
     "t = s\<lparr>sd_progress := map (\<lambda>p. if sg_sim p = sim \<and> sg_learner p = l then next_progress st' score fin k (a_clock (md_adb s)) p else p) (sd_progress s)\<rparr>"
    using assms Some by (auto simp: SimulationProgressRepo_Record_def Let_def split: if_splits option.splits)
  from Some have "p0 \<in> set (sd_progress s)" "sg_sim p0 = sim" "sg_learner p0 = l" by (auto dest!: find_SomeD)
  from again[OF this r(2,1,3) refl] show ?thesis .
qed

lemma next_progress_key [simp]: "sg_sim (next_progress st score fin k c p) = sg_sim p" "sg_learner (next_progress st score fin k c p) = sg_learner p"
  by (simp_all add: next_progress_def Let_def)

lemma first_progress_key [simp]:
  "sg_sim (first_progress i o' sim l st score fin k c) = sim" "sg_learner (first_progress i o' sim l st score fin k c) = l"
  by (simp_all add: first_progress_def Let_def)

lemma first_progress_ok: "progress_ok (first_progress i o' sim l st score fin k c)"
  by (simp add: first_progress_def Let_def progress_ok_def int4_def)

lemma next_progress_ok: "progress_ok p \<Longrightarrow> int4 (sg_count p + 1) \<Longrightarrow> progress_ok (next_progress st score fin k c p)"
  by (simp add: next_progress_def Let_def progress_ok_def split: option.splits)

lemma Record_ok: "tx_pres (sims_ok env) (SimulationProgressRepo_Record env' o' sim l st score fin k)"
proof (rule tx_postI)
  fix s p t assume ok: "sims_ok env s" and run: "SimulationProgressRepo_Record env' o' sim l st score fin k s = Inr (p, t)"
  from run show "sims_ok env t"
  proof (cases rule: Record_cases)
    case (first st')
    then show ?thesis using ok by (auto simp: sims_ok_def first_progress_ok intro: items_ok_less)
  next
    case (again p0 st' f)
    define g where "g = (\<lambda>p. if sg_sim p = sim \<and> sg_learner p = l then f p else p)"
    have key: "sg_sim (g p) = sg_sim p" "sg_learner (g p) = sg_learner p" for p by (simp_all add: g_def again(7))
    have "p1 = p0" if "p1 \<in> set (sd_progress s)" "sg_sim p1 = sim" "sg_learner p1 = l" for p1
      using that again(1-3) ok inj_onD[of "\<lambda>p. (sg_sim p, sg_learner p)" "set (sd_progress s)" p1 p0] by (simp add: sims_ok_def distinct_map)
    then have "progress_ok (g p1)" if "p1 \<in> set (sd_progress s)" for p1
      using that ok again(5) next_progress_ok by (auto simp: g_def again(7) sims_ok_def)
    then show ?thesis using ok key by (auto simp: sims_ok_def again(6) g_def[symmetric] comp_def)
  qed
qed

interpretation kept_sims: sim_laws "sims_ok env" env anything "\<lambda>_. anything" for env
  by (rule sim_laws.intro[OF sims_table.module_state_axioms], unfold_locales)
    (simp_all add: sims_create_ok sims_update_ok sims_publish_ok sims_delete_ok Record_ok)

lemma request_keeps_ok:
  assumes "sims_ok env s"
  shows "sims_ok env (snd (mserve (ac_user ac) (sim_request env ac slug a) s))"
proof -
  have "sims_ok env (open_mtx (ac_user ac) s)" using assms by (simp add: sims_ok_def)
  with kept_sims.pres_request[OF any_request] show ?thesis
  proof (rule sims_table.mserve_keeps)
    fix t assume "sims_ok env t" "snd (mserve (ac_user ac) (sim_request env ac slug a) s) = close_mtx t"
    then show ?thesis by (simp add: sims_ok_def)
  qed (simp add: assms)
qed

text \<open>
  C29: Every request of the simulation routes keeps the tables of simulations well formed: ids
  and slugs stay unique; every simulation has a title and a slug, and its stored specification
  and configuration are the stored form of ones that were accepted (a known format and a source
  within the limit, or parameters with distinct names, known types, options and ordered ranges,
  and outputs with distinct names); there is one row of progress per learner and simulation, of
  a simulation that exists, with a positive count, and it is complete exactly when it has a time
  of completion.
\<close>

theorem simulations_stay_ok:
  assumes "sims_ok env s"
  shows "sims_ok env (snd (mserve (ac_user ac) (sim_request env ac slug a) s))"
  using assms by (rule request_keeps_ok)

section \<open>A learner's progress\<close>

definition progress_of :: "uuid \<Rightarrow> uuid \<Rightarrow> simdb \<Rightarrow> simulation_progress list" where
  "progress_of sim l s = filter (\<lambda>p. sg_sim p = sim \<and> sg_learner p = l) (sd_progress s)"

interpretation still: sim_laws "\<lambda>s. progress_of sim l s = ps" env "\<lambda>i. i \<noteq> sim" "\<lambda>i l'. (i, l') \<noteq> (sim, l)" for sim l ps env
proof (unfold_locales, goal_cases)
  case (6 i)
  then have kept: "filter (\<lambda>p. sg_sim p \<noteq> i \<and> sg_sim p = sim \<and> sg_learner p = l) xs =
      filter (\<lambda>p. sg_sim p = sim \<and> sg_learner p = l) xs" for xs
    by (auto intro: filter_cong)
  show ?case by (auto simp: tx_post_def SimulationRepo_Delete_def tx_bind_Inr progress_of_def kept dest!: sims.delete_Inr)
next
  case (7 i l' o' st score fin k)
  show ?case
  proof (rule tx_postI)
    fix s p t assume I: "progress_of sim l s = ps" and "SimulationProgressRepo_Record env o' i l' st score fin k s = Inr (p, t)"
    from this(2) show "progress_of sim l t = ps"
    proof (cases rule: Record_cases)
      case (first st') then show ?thesis using I 7 by (auto simp: progress_of_def)
    next
      case (again p0 st' f)
      have "filter (\<lambda>p. sg_sim p = sim \<and> sg_learner p = l) (map (\<lambda>p. if sg_sim p = i \<and> sg_learner p = l' then f p else p) xs) =
          filter (\<lambda>p. sg_sim p = sim \<and> sg_learner p = l) xs" for xs
        using 7 by (induction xs) (auto simp: again(7))
      then show ?thesis using I by (simp add: progress_of_def again(6))
    qed
  qed
qed (auto simp: tx_post_def progress_of_def SimulationRepo_Create_def SimulationRepo_Update_def SimulationRepo_SetPublished_def
    sims.insert_Inr split: option.splits dest!: sims.update_Inr)

lemma record_progress:
  assumes "sims_ok env s" "SimulationProgressRepo_Record env o' sim l st score fin k s = Inr (p, t)"
  shows "progress_of sim l t = [p]" "sd_sims t = sd_sims s" "a_aborted (md_adb t) = a_aborted (md_adb s)"
    "\<And>sim' l'. (sim', l') \<noteq> (sim, l) \<Longrightarrow> progress_of sim' l' t = progress_of sim' l' s"
    "(\<exists>st'. progress_of sim l s = [] \<and> p = first_progress (a_next (md_adb s)) o' sim l st' score fin k (a_clock (md_adb s))) \<or>
     (\<exists>p0 st'. progress_of sim l s = [p0] \<and> p = next_progress st' score fin k (a_clock (md_adb s)) p0)"
proof -
  have others: "progress_of sim' l' t = progress_of sim' l' s" if "(sim', l') \<noteq> (sim, l)" for sim' l'
    using tx_postD[OF still.recording[of sim l sim' l' "progress_of sim' l' s"] assms(2)] that by auto
  have all: "progress_of sim l t = [p] \<and> sd_sims t = sd_sims s \<and> a_aborted (md_adb t) = a_aborted (md_adb s) \<and>
    ((\<exists>st'. progress_of sim l s = [] \<and> p = first_progress (a_next (md_adb s)) o' sim l st' score fin k (a_clock (md_adb s))) \<or>
     (\<exists>p0 st'. progress_of sim l s = [p0] \<and> p = next_progress st' score fin k (a_clock (md_adb s)) p0))"
    using assms(2)
  proof (cases rule: Record_cases)
    case (first st')
    then have "progress_of sim l s = []" by (auto simp: progress_of_def filter_empty_conv)
    then show ?thesis using first by (auto simp: progress_of_def)
  next
    case (again p0 st' f)
    let ?P = "\<lambda>p. sg_sim p = sim \<and> sg_learner p = l"
    have one: "filter ?P (sd_progress s) = [p0]"
      using filter_key[of "\<lambda>p. (sg_sim p, sg_learner p)" "sd_progress s" p0] assms(1) again by (simp add: sims_ok_def)
    have "filter ?P (sd_progress t) = map f (filter ?P (sd_progress s))"
      using filter_map_on[of ?P f] by (simp add: again(6,7))
    then show ?thesis using again one by (auto simp: progress_of_def)
  qed
  show "progress_of sim l t = [p]" "sd_sims t = sd_sims s" "a_aborted (md_adb t) = a_aborted (md_adb s)"
    "\<And>sim' l'. (sim', l') \<noteq> (sim, l) \<Longrightarrow> progress_of sim' l' t = progress_of sim' l' s"
    "(\<exists>st'. progress_of sim l s = [] \<and> p = first_progress (a_next (md_adb s)) o' sim l st' score fin k (a_clock (md_adb s))) \<or>
     (\<exists>p0 st'. progress_of sim l s = [p0] \<and> p = next_progress st' score fin k (a_clock (md_adb s)) p0)"
    using all others by blast+
qed

lemma recorded:
  assumes "RecordSimulationProgress env ac oc i body s = (Inr r, t)"
  obtains q x p where "body = Some q" "x \<in> set (sd_sims s)" "it_id x = i" "it_published x" "se_enabled env" "md_on s (oc_org oc)"
    "it_org x = oc_org oc" "\<not> a_aborted (md_adb s)" "r = Resp 200 (simulationProgressResponse p)"
    "SimulationProgressRepo_Record env (oc_org oc) i (ac_user ac) (rr_state q) (rr_score q) (rr_complete q)
       (stored_threshold (si_config x)) s = Inr (p, t)"
proof -
  obtain q where q: "body = Some q" using assms by (cases body) (simp_all add: RecordSimulationProgress_def h_respond_def)
  obtain x s1 s2 s3 p where run: "simGate env oc s = (Inr (), s1)" "getOrgSimulation i oc s1 = (Inr x, s2)"
      "h_guard (it_published x) (RespErr 403 ''simulation is not published'') s2 = (Inr (), s3)"
      "\<not> a_aborted (md_adb s3)" "r = Resp 200 (simulationProgressResponse p)"
      "SimulationProgressRepo_Record env (oc_org oc) (it_id x) (ac_user ac) (rr_state q) (rr_score q) (rr_complete q)
         (stored_threshold (si_config x)) s3 = Inr (p, t)"
    using assms unfolding RecordSimulationProgress_def q option.case m_run by (auto simp: h_return_def)
  moreover have "s1 = s" "se_enabled env" "md_on s (oc_org oc)" using run(1) unfolding simGate_def by (auto dest: module_gate_Inr)
  moreover have "s2 = s1" "x \<in> set (sd_sims s1)" "it_id x = i" "it_org x = oc_org oc"
    using run(2) unfolding getOrgSimulation_def by (auto dest: sims.org_item_Inr)
  moreover have "s3 = s2" "it_published x" using run(3) by (auto simp: h_guard_def h_return_def h_respond_def split: if_splits)
  ultimately show thesis using that q by simp
qed

lemma unrecorded:
  assumes "RecordSimulationProgress env ac oc i body s = (Inl r, t)"
  shows "progress_of sim l t = progress_of sim l s \<and> 400 \<le> http_status r"
proof -
  let ?I = "\<lambda>s'. progress_of sim l s' = progress_of sim l s"
  have early: "h_early ?I (RecordSimulationProgress env ac oc i body)"
    unfolding RecordSimulationProgress_def
    by (intro h_early_option h_early_bind h_early_last h_early_pres[OF h_pres_respond] still.h_early_msql still.pres_simgate
        still.pres_sim h_pres_guard)
  have "errs (RecordSimulationProgress env ac oc i body)"
    unfolding RecordSimulationProgress_def simGate_def getOrgSimulation_def by (intro errs_module) simp_all
  then have "400 \<le> http_status r" using assms by (rule errsD)
  moreover have "?I t" by (rule h_earlyD[OF early assms]) (rule refl)
  ultimately show ?thesis by blast
qed

lemma record_request:
  assumes "run_handler (sim_request env ac slug (SimRecord i body)) s = (r, t)" "http_status r = 200"
  obtains q x p where "body = Some q" "x \<in> set (sd_sims s)" "it_id x = i" "it_published x" "se_enabled env"
    "md_on s (it_org x)" "\<not> a_aborted (md_adb s)" "r = Resp 200 (simulationProgressResponse p)"
    "SimulationProgressRepo_Record env (it_org x) i (ac_user ac) (rr_state q) (rr_score q) (rr_complete q)
       (stored_threshold (si_config x)) s = Inr (p, t)"
proof -
  from assms(1) obtain v where v: "sim_request env ac slug (SimRecord i body) s = (v, t)" "v = Inl r \<or> v = Inr r"
    by (auto simp: run_handler_cases)
  from v(1) show thesis unfolding sim_request_def
  proof (cases rule: module_route_cases)
    case (stopped r') then show ?thesis using v(2) assms(2) by auto
  next
    case (passed oc g)
    then have run: "RecordSimulationProgress env ac oc i body s = (v, t)" by simp
    then have "v = Inr r" using v(2) unrecorded[of env ac oc i body s r t] assms(2) by auto
    with run have "RecordSimulationProgress env ac oc i body s = (Inr r, t)" by simp
    then show ?thesis by (cases rule: recorded) (use that in auto)
  qed
qed

lemma refused_request:
  assumes "run_handler (sim_request env ac slug (SimRecord i body)) s = (r, t)" "http_status r \<noteq> 200"
  shows "progress_of sim l t = progress_of sim l s"
proof -
  from assms(1) obtain v where v: "sim_request env ac slug (SimRecord i body) s = (v, t)" "v = Inl r \<or> v = Inr r"
    by (auto simp: run_handler_cases)
  from v(1) show ?thesis unfolding sim_request_def
  proof (cases rule: module_route_cases)
    case (stopped r')
    from stopped(4) have "sd_progress t = sd_progress (s\<lparr>md_adb := md_adb t\<rparr>)" by (rule arg_cong)
    then show ?thesis by (simp add: progress_of_def)
  next
    case (passed oc g)
    then have run: "RecordSimulationProgress env ac oc i body s = (v, t)" by simp
    have "v \<noteq> Inr r" using run assms(2) by (auto elim!: recorded)
    then show ?thesis using v(2) run unrecorded by blast
  qed
qed

definition interactions :: "uuid \<Rightarrow> uuid \<Rightarrow> simdb \<Rightarrow> int" where
  "interactions sim l s = (case progress_of sim l s of [] \<Rightarrow> 0 | p # _ \<Rightarrow> sg_count p)"

definition completed_at :: "uuid \<Rightarrow> uuid \<Rightarrow> simdb \<Rightarrow> time option" where
  "completed_at sim l s = (case progress_of sim l s of [] \<Rightarrow> None | p # _ \<Rightarrow> sg_completed p)"

lemma interaction_effect:
  assumes "sims_ok env s"
    and "mserve (ac_user ac) (sim_request env ac slug (SimRecord i (Some q))) s = (r, s')" "http_status r = 200"
  shows "\<exists>x \<in> set (sd_sims s). \<exists>p. it_id x = i \<and> it_published x \<and> se_enabled env \<and> md_on s (it_org x) \<and>
     r = Resp 200 (simulationProgressResponse p) \<and> progress_of i (ac_user ac) s' = [p] \<and>
     sg_count p = interactions i (ac_user ac) s + 1 \<and>
     (sg_completed p \<noteq> None \<longleftrightarrow> completed_at i (ac_user ac) s \<noteq> None \<or> rr_complete q \<or>
        0 < stored_threshold (si_config x) \<and> stored_threshold (si_config x) \<le> sg_count p) \<and>
     (completed_at i (ac_user ac) s \<noteq> None \<longrightarrow> sg_completed p = completed_at i (ac_user ac) s) \<and>
     (rr_score q \<noteq> None \<longrightarrow> sg_score p = rr_score q) \<and>
     sd_sims s' = sd_sims s \<and> (\<forall>sim l. (sim, l) \<noteq> (i, ac_user ac) \<longrightarrow> progress_of sim l s' = progress_of sim l s)"
proof -
  let ?s = "open_mtx (ac_user ac) s"
  have ok: "sims_ok env ?s" using assms(1) by (simp add: sims_ok_def)
  obtain t where t: "run_handler (sim_request env ac slug (SimRecord i (Some q))) ?s = (r, t)"
      "s' = s \<and> a_aborted (md_adb t) \<or> s' = close_mtx t"
    using assms(2,3) by (auto elim!: mserve_cases)
  from t(1) assms(3) show ?thesis
  proof (cases rule: record_request)
    case (1 q' x p)
    note rc = record_progress[OF ok 1(9)]
    have s': "s' = close_mtx t" using t(2) rc(3) by simp
    have same: "progress_of j l (s\<lparr>md_adb := a\<rparr>) = progress_of j l s" for j l a and s :: simdb by (simp add: progress_of_def)
    have row: "sg_count p = interactions i (ac_user ac) s + 1 \<and>
        (sg_completed p \<noteq> None \<longleftrightarrow> completed_at i (ac_user ac) s \<noteq> None \<or> rr_complete q \<or>
          0 < stored_threshold (si_config x) \<and> stored_threshold (si_config x) \<le> sg_count p) \<and>
        (completed_at i (ac_user ac) s \<noteq> None \<longrightarrow> sg_completed p = completed_at i (ac_user ac) s) \<and>
        (rr_score q \<noteq> None \<longrightarrow> sg_score p = rr_score q)"
      using rc(5)
    proof (elim disjE exE conjE)
      fix st' assume "progress_of i (ac_user ac) ?s = []" "p = first_progress (a_next (md_adb ?s)) (it_org x) i (ac_user ac) st'
        (rr_score q') (rr_complete q') (stored_threshold (si_config x)) (a_clock (md_adb ?s))"
      then show ?thesis using 1(1) by (simp add: same interactions_def completed_at_def first_progress_def Let_def)
    next
      fix p0 st' assume p0: "progress_of i (ac_user ac) ?s = [p0]" "p = next_progress st' (rr_score q') (rr_complete q')
        (stored_threshold (si_config x)) (a_clock (md_adb ?s)) p0"
      then have "progress_ok p0" using assms(1) by (auto simp: same sims_ok_def progress_of_def filter_eq_Cons_iff)
      then show ?thesis using 1(1) p0
        by (auto simp: same interactions_def completed_at_def next_progress_def progress_ok_def Let_def split: option.splits)
    qed
    moreover have "progress_of i (ac_user ac) s' = [p]" "sd_sims s' = sd_sims s"
        "\<forall>sim l. (sim, l) \<noteq> (i, ac_user ac) \<longrightarrow> progress_of sim l s' = progress_of sim l s"
      using rc(1,2,4) by (auto simp: s' same)
    ultimately show ?thesis using 1(2-6,8) by (intro bexI[of _ x] exI[of _ p]) auto
  qed
qed


text \<open>
  An interaction answered with 200 was recorded for a published simulation of an
  organization whose module is on, and it changes exactly the caller's row of progress for that
  simulation: the count goes up by one; a score replaces the last one and no score keeps it; the
  row is complete if it was before, if the caller says so, or if the count has reached the
  stored threshold; a time of completion, once there, stays. No other row and no simulation
  changes.
\<close>

theorem interaction_recorded:
  assumes "sims_ok env s"
    and "mserve (ac_user ac) (sim_request env ac slug (SimRecord i (Some q))) s = (r, s')" "http_status r = 200"
  shows "\<exists>x \<in> set (sd_sims s). \<exists>p. it_id x = i \<and> it_published x \<and> se_enabled env \<and> md_on s (it_org x) \<and>
     r = Resp 200 (simulationProgressResponse p) \<and> progress_of i (ac_user ac) s' = [p] \<and>
     sg_count p = interactions i (ac_user ac) s + 1 \<and>
     (sg_completed p \<noteq> None \<longleftrightarrow> completed_at i (ac_user ac) s \<noteq> None \<or> rr_complete q \<or>
        0 < stored_threshold (si_config x) \<and> stored_threshold (si_config x) \<le> sg_count p) \<and>
     (completed_at i (ac_user ac) s \<noteq> None \<longrightarrow> sg_completed p = completed_at i (ac_user ac) s) \<and>
     (rr_score q \<noteq> None \<longrightarrow> sg_score p = rr_score q) \<and>
     sd_sims s' = sd_sims s \<and> (\<forall>sim l. (sim, l) \<noteq> (i, ac_user ac) \<longrightarrow> progress_of sim l s' = progress_of sim l s)"
  using assms by (rule interaction_effect)

section \<open>Sequences of requests\<close>

type_synonym sim_call = "auth_ctx \<times> string \<times> sim_action"

fun sim_run :: "sim_env \<Rightarrow> sim_call list \<Rightarrow> simdb \<Rightarrow> response list \<times> simdb" where
  "sim_run env [] s = ([], s)"
| "sim_run env ((ac, slug, a) # qs) s = (let (r, s1) = mserve (ac_user ac) (sim_request env ac slug a) s;
     (rs, s2) = sim_run env qs s1 in (r # rs, s2))"

definition records :: "uuid \<Rightarrow> uuid \<Rightarrow> sim_call \<Rightarrow> response \<Rightarrow> bool" where
  "records sim l c r = (case c of (ac, slug, a) \<Rightarrow> ac_user ac = l \<and> http_status r = 200 \<and>
     (case a of SimRecord i q \<Rightarrow> i = sim | _ \<Rightarrow> False))"

text \<open>What a request does to the row of a learner.\<close>

lemma request_counts:
  assumes "sims_ok env s" "a \<noteq> SimDelete sim" "mserve (ac_user ac) (sim_request env ac slug a) s = (r, s')"
  shows "interactions sim l s' = interactions sim l s + of_bool (records sim l (ac, slug, a) r)"
    "completed_at sim l s \<noteq> None \<Longrightarrow> completed_at sim l s' = completed_at sim l s"
proof -
  have "interactions sim l s' = interactions sim l s + of_bool (records sim l (ac, slug, a) r) \<and>
      (completed_at sim l s \<noteq> None \<longrightarrow> completed_at sim l s' = completed_at sim l s)"
  proof (cases "\<exists>q. a = SimRecord sim q \<and> l = ac_user ac")
    case False
    then have "case a of SimDelete i \<Rightarrow> i \<noteq> sim | SimRecord i q \<Rightarrow> (i, ac_user ac) \<noteq> (sim, l) | _ \<Rightarrow> True"
      using assms(2) by (cases a) auto
    from still.pres_request[OF this]
    have I: "h_pres (\<lambda>s'. progress_of sim l s' = progress_of sim l s) (sim_request env ac slug a)" .
    have same: "progress_of sim l (s\<lparr>md_adb := a\<rparr>) = progress_of sim l s" for a and s :: simdb by (simp add: progress_of_def)
    from I have "progress_of sim l (snd (mserve (ac_user ac) (sim_request env ac slug a) s)) = progress_of sim l s"
      by (rule still.mserve_keeps[where u = "ac_user ac" and s = s]) (simp_all add: same)
    moreover have "\<not> records sim l (ac, slug, a) r" using False by (cases a) (auto simp: records_def)
    ultimately show ?thesis using assms(3) by (simp add: interactions_def completed_at_def)
  next
    case True
    then obtain q where a: "a = SimRecord sim q" "l = ac_user ac" by blast
    show ?thesis
    proof (cases "http_status r = 200")
      case True
      then obtain q' where q: "q = Some q'" using assms(3) unfolding a by (auto elim!: mserve_cases elim: record_request)
      obtain p where "progress_of sim l s' = [p]" "sg_count p = interactions sim l s + 1"
          "completed_at sim l s \<noteq> None \<longrightarrow> sg_completed p = completed_at sim l s"
        using interaction_effect[of env s ac slug sim q' r s'] assms(1,3) True unfolding a q by blast
      then show ?thesis using True a by (simp add: records_def interactions_def completed_at_def)
    next
      case False
      obtain t where "run_handler (sim_request env ac slug (SimRecord sim q)) (open_mtx (ac_user ac) s) = (r, t)" "s' = s \<or> s' = close_mtx t"
        using assms(3) a by (auto elim!: mserve_cases)
      with refused_request[OF this(1) False, of sim l] have "progress_of sim l s' = progress_of sim l s" by (auto simp: progress_of_def)
      then show ?thesis using False by (simp add: records_def interactions_def completed_at_def)
    qed
  qed
  then show "interactions sim l s' = interactions sim l s + of_bool (records sim l (ac, slug, a) r)"
    "completed_at sim l s \<noteq> None \<Longrightarrow> completed_at sim l s' = completed_at sim l s" by blast+
qed


text \<open>
  C30: Whatever requests are served, by whomever, as long as nobody deletes the simulation, the
  interactions counted for a learner are those counted before and the recordings of this learner
  that were answered with 200, and a time of completion never changes once it is there.
\<close>

theorem progress_counts_interactions:
  assumes "sims_ok env s" and "\<forall>(ac, slug, a) \<in> set qs. a \<noteq> SimDelete sim" and "sim_run env qs s = (rs, t)"
  shows "interactions sim l t = interactions sim l s + int (length (filter (\<lambda>(c, r). records sim l c r) (zip qs rs))) \<and>
     (completed_at sim l s \<noteq> None \<longrightarrow> completed_at sim l t = completed_at sim l s)"
  using assms
proof (induction env qs s arbitrary: rs rule: sim_run.induct)
  case (2 env ac slug a qs s)
  obtain r s1 where sv: "mserve (ac_user ac) (sim_request env ac slug a) s = (r, s1)" by fastforce
  obtain rs' where run: "sim_run env qs s1 = (rs', t)" "rs = r # rs'" using 2(4) sv by (auto simp: Let_def split: prod.splits)
  have "a \<noteq> SimDelete sim" using 2(3) by auto
  note one = request_counts[OF 2(2) this sv, of l]
  have "sims_ok env s1" using request_keeps_ok[OF 2(2), of ac slug a] sv by simp
  then have "interactions sim l t = interactions sim l s1 + int (length (filter (\<lambda>(c, r). records sim l c r) (zip qs rs'))) \<and>
      (completed_at sim l s1 \<noteq> None \<longrightarrow> completed_at sim l t = completed_at sim l s1)"
    using 2(1)[OF sv[symmetric] refl _ _ run(1)] 2(3) by auto
  then show ?case using one run(2) by (auto simp: of_bool_def)
qed simp

end
