(* ===== verification/Scorm.thy ===== *)
theory Scorm
  imports GoText
begin

text \<open>
  The SCORM package format without its storage (\<^verbatim>\<open>internal/scorm\<close>): reading an
  \<^verbatim>\<open>imsmanifest.xml\<close> (\<^verbatim>\<open>manifest.go\<close>), which CMI elements a SCO may write and with what values
  (\<^verbatim>\<open>cmi.go\<close>), and summing up a run (\<^verbatim>\<open>service.go\<close>). XML decoding is outside: the functions take
  the decoded manifest. Machine integers are kept at 64 bits where times are computed.
\<close>

datatype Version = Version12 | Version2004

definition version_text :: "Version \<Rightarrow> string" where
  "version_text v = (case v of Version12 \<Rightarrow> ''1.2'' | Version2004 \<Rightarrow> ''2004'')"

datatype scorm_error =
    ErrInvalidManifest string | ErrUnknownVersion "string option" | ErrNoDefaultOrganization | ErrNoLaunchableResource
  | ErrEmptyManifest | ErrUnsupportedCMIElement string | ErrReadOnlyCMIElement string
  | ErrInvalidCMIElementValue string string string

section \<open>The manifest (manifest.go)\<close>

datatype xmlItem = XmlItem (xi_identifier: string) (xi_ref: string) (xi_title: string) (xi_mastery: string) (xi_items: "xmlItem list")

record xmlOrganization =
  xo_identifier :: string
  xo_title :: string
  xo_items :: "xmlItem list"

text \<open>The attributes of a resource other than its identifier, type and href, by local name.\<close>

record xmlResource =
  xr_identifier :: string
  xr_type :: string
  xr_href :: string
  xr_attrs :: "(string \<times> string) list"

record xmlManifest =
  xm_root :: string
  xm_identifier :: string
  xm_schemaversion :: string
  xm_default :: string
  xm_organizations :: "xmlOrganization list"
  xm_resources :: "xmlResource list"

datatype Item = Item (im_identifier: string) (im_title: string) (im_ref: string) (im_launch: string) (im_children: "Item list")

record Package =
  pk_version :: Version
  pk_identifier :: string
  pk_organization :: string
  pk_title :: string
  pk_launch :: string
  pk_mastery :: "gofloat option"
  pk_items :: "Item list"

definition normalizeSpace :: "string \<Rightarrow> string" where
  "normalizeSpace s = Join (Fields s) '' ''"

definition scormType :: "xmlResource \<Rightarrow> string" where
  "scormType r = (case find (\<lambda>(n, v). key_eq n ''scormtype'') (xr_attrs r) of None \<Rightarrow> [] | Some (n, v) \<Rightarrow> ToLower (TrimSpace v))"

definition detectVersion :: "string \<Rightarrow> scorm_error + Version" where
  "detectVersion schema = (let s = ToLower (TrimSpace schema) in
     if s = [] then Inl (ErrUnknownVersion None)
     else if Contains s ''1.2'' then Inr Version12
     else if Contains s ''2004'' \<or> Contains s ''1.3'' then Inr Version2004
     else Inl (ErrUnknownVersion (Some schema)))"

definition defaultOrganization :: "xmlManifest \<Rightarrow> xmlOrganization option" where
  "defaultOrganization m = (case xm_organizations m of [] \<Rightarrow> None | o1 # os \<Rightarrow>
     (let def = TrimSpace (xm_default m) in
      if def = [] then Some o1
      else (case find (\<lambda>x. xo_identifier x = def) (o1 # os) of Some x \<Rightarrow> Some x | None \<Rightarrow> Some o1)))"

text \<open>The hrefs of the resources; the last resource of an identifier counts.\<close>

definition hrefByRef :: "xmlResource list \<Rightarrow> string \<Rightarrow> string" where
  "hrefByRef rs i = (case find (\<lambda>r. xr_identifier r = i \<and> TrimSpace (xr_href r) \<noteq> []) (rev rs) of
     None \<Rightarrow> [] | Some r \<Rightarrow> TrimSpace (xr_href r))"

fun convertItems :: "(string \<Rightarrow> string) \<Rightarrow> xmlItem list \<Rightarrow> Item list" where
  "convertItems href [] = []"
| "convertItems href (XmlItem i ref title mastery items # rest) =
     Item (TrimSpace i) (normalizeSpace title) (TrimSpace ref) (href (TrimSpace ref)) (convertItems href items) # convertItems href rest"

fun firstLaunchHref :: "Item list \<Rightarrow> string" where
  "firstLaunchHref [] = []"
| "firstLaunchHref (Item i title ref launch children # rest) =
     (if launch \<noteq> [] then launch else
      (let h = firstLaunchHref children in if h \<noteq> [] then h else firstLaunchHref rest))"

definition fallbackLaunchHref :: "xmlResource list \<Rightarrow> string" where
  "fallbackLaunchHref rs = (case find (\<lambda>r. scormType r = ''sco'' \<and> TrimSpace (xr_href r) \<noteq> []) rs of
     Some r \<Rightarrow> TrimSpace (xr_href r)
   | None \<Rightarrow> (case find (\<lambda>r. TrimSpace (xr_href r) \<noteq> []) rs of Some r \<Rightarrow> TrimSpace (xr_href r) | None \<Rightarrow> []))"

fun firstMasteryScore :: "xmlItem list \<Rightarrow> gofloat option" where
  "firstMasteryScore [] = None"
| "firstMasteryScore (XmlItem i ref title mastery items # rest) =
     (case (if TrimSpace mastery \<noteq> [] then ParseFloat (TrimSpace mastery) else None) of
        Some v \<Rightarrow> Some v
      | None \<Rightarrow> (case firstMasteryScore items of Some v \<Rightarrow> Some v | None \<Rightarrow> firstMasteryScore rest))"

text \<open>\<open>xml\<close> is \<^verbatim>\<open>xml.Unmarshal\<close>: the text of its error, or the manifest.\<close>

definition ParseManifest :: "(string \<Rightarrow> string + xmlManifest) \<Rightarrow> string \<Rightarrow> scorm_error + Package" where
  "ParseManifest xml data =
     (if TrimSpace data = [] then Inl ErrEmptyManifest
      else (case xml data of Inl e \<Rightarrow> Inl (ErrInvalidManifest e) | Inr m \<Rightarrow>
        if xm_root m \<noteq> ''manifest'' then Inl (ErrInvalidManifest (''root element is <'' @ xm_root m @ ''>, expected <manifest>''))
        else (case detectVersion (xm_schemaversion m) of Inl e \<Rightarrow> Inl e | Inr v \<Rightarrow>
          (case defaultOrganization m of None \<Rightarrow> Inl ErrNoDefaultOrganization | Some org \<Rightarrow>
            (let items = convertItems (hrefByRef (xm_resources m)) (xo_items org);
                 launch = (if firstLaunchHref items \<noteq> [] then firstLaunchHref items else fallbackLaunchHref (xm_resources m)) in
             if launch = [] then Inl ErrNoLaunchableResource
             else Inr \<lparr>pk_version = v, pk_identifier = TrimSpace (xm_identifier m), pk_organization = TrimSpace (xo_identifier org),
               pk_title = normalizeSpace (xo_title org), pk_launch = launch,
               pk_mastery = firstMasteryScore (xo_items org), pk_items = items\<rparr>)))))"

section \<open>CMI elements (cmi.go)\<close>

text \<open>Arithmetic on \<^verbatim>\<open>int\<close>.\<close>

definition wrap64 :: "int \<Rightarrow> int" where
  "wrap64 i = (i + 2 ^ 63) mod 2 ^ 64 - 2 ^ 63"

definition parseTimespan12 :: "string \<Rightarrow> int option" where
  "parseTimespan12 s = (case Split CHR '':'' (TrimSpace s) of
     [a, b, c] \<Rightarrow> (case (Atoi a, Atoi b, ParseFloat c) of
       (Some h, Some m, Some sec) \<Rightarrow>
         if h < 0 \<or> m < 0 \<or> 59 < m \<or> float_less sec (Fin 0) \<or> float_less (Fin 60) sec \<or> sec = Fin 60 then None
         else Some (wrap64 (wrap64 (wrap64 (h * 3600) + m * 60) + int_of_float sec))
     | _ \<Rightarrow> None)
   | _ \<Rightarrow> None)"

fun scan_field :: "(char \<times> int) list \<Rightarrow> int \<Rightarrow> string \<Rightarrow> string \<Rightarrow> int option" where
  "scan_field units acc num [] = (if num \<noteq> [] then None else Some acc)"
| "scan_field units acc num (c # s) =
     (if is_digit c \<or> c = CHR ''.'' then scan_field units acc (num @ [c]) s
      else (case map_of units c of None \<Rightarrow> None | Some mult \<Rightarrow>
        if num = [] then None else
        (case ParseFloat num of None \<Rightarrow> None
         | Some f \<Rightarrow> scan_field units (wrap64 (acc + wrap64 (int_of_float f * mult))) [] s)))"

definition scanDurationField :: "string \<Rightarrow> (char \<times> int) list \<Rightarrow> int option" where
  "scanDurationField s units = scan_field units 0 [] s"

text \<open>\<^verbatim>\<open>strings.Cut\<close>: what is before the first separator, what is after it, and whether there is one.\<close>

definition Cut :: "string \<Rightarrow> char \<Rightarrow> string \<times> string \<times> bool" where
  "Cut s d = (takeWhile (\<lambda>c. c \<noteq> d) s, drop 1 (dropWhile (\<lambda>c. c \<noteq> d) s), d \<in> set s)"

definition date_units :: "(char \<times> int) list" where
  "date_units = [(CHR ''W'', 7 * 86400), (CHR ''D'', 86400)]"

definition time_units :: "(char \<times> int) list" where
  "time_units = [(CHR ''H'', 3600), (CHR ''M'', 60), (CHR ''S'', 1)]"

definition parseDuration2004 :: "string \<Rightarrow> int option" where
  "parseDuration2004 s0 = (let s = TrimSpace s0 in
     if \<not> HasPrefix s ''P'' then None
     else if tl s = [] then None
     else (let (date, tim, hasT) = Cut (tl s) CHR ''T'' in
       (case (if date \<noteq> [] then scanDurationField date date_units else Some 0) of None \<Rightarrow> None | Some days \<Rightarrow>
         if hasT then (if tim = [] then None else
           (case scanDurationField tim time_units of None \<Rightarrow> None | Some t \<Rightarrow> Some (wrap64 (days + t))))
         else if date = [] then None else Some days)))"

text \<open>A validator gives the message of its error.\<close>

type_synonym validator = "string \<Rightarrow> string option"

definition oneOf :: "string list \<Rightarrow> validator" where
  "oneOf vocab v = (if ToLower (TrimSpace v) \<notin> set vocab then Some ''not an allowed value'' else None)"

definition floatIn :: "rat \<Rightarrow> rat \<Rightarrow> validator" where
  "floatIn lo hi v = (case ParseFloat (TrimSpace v) of None \<Rightarrow> Some ''not a number''
     | Some f \<Rightarrow> if float_less f (Fin lo) \<or> float_less (Fin hi) f then Some ''out of range'' else None)"

definition anyFloat :: validator where
  "anyFloat v = (case ParseFloat (TrimSpace v) of None \<Rightarrow> Some ''not a number'' | Some f \<Rightarrow> None)"

definition maxLen :: "nat \<Rightarrow> validator" where
  "maxLen n v = (if n < length v then Some ''too long'' else None)"

definition validTimespan12 :: validator where
  "validTimespan12 v = (case parseTimespan12 v of None \<Rightarrow> Some ''not a CMITimespan (HH:MM:SS.ss)'' | Some _ \<Rightarrow> None)"

definition validDuration2004 :: validator where
  "validDuration2004 v = (case parseDuration2004 v of None \<Rightarrow> Some ''not an ISO 8601 duration'' | Some _ \<Rightarrow> None)"

datatype elementSpec = ReadOnly | Validated validator

definition lessonStatus12 :: "string list" where
  "lessonStatus12 = [''passed'', ''completed'', ''failed'', ''incomplete'', ''browsed'', ''not attempted'']"
definition completionStatus :: "string list" where
  "completionStatus = [''completed'', ''incomplete'', ''not attempted'', ''unknown'']"
definition successStatus :: "string list" where
  "successStatus = [''passed'', ''failed'', ''unknown'']"
definition exit12 :: "string list" where
  "exit12 = [''time-out'', ''suspend'', ''logout'', '''']"
definition exit2004 :: "string list" where
  "exit2004 = [''time-out'', ''suspend'', ''logout'', ''normal'', '''']"

definition elements12 :: "(string \<times> elementSpec) list" where
  "elements12 = [
     (''cmi.core.student_id'', ReadOnly), (''cmi.core.student_name'', ReadOnly),
     (''cmi.core.lesson_location'', Validated (maxLen 255)), (''cmi.core.credit'', ReadOnly),
     (''cmi.core.lesson_status'', Validated (oneOf lessonStatus12)), (''cmi.core.entry'', ReadOnly),
     (''cmi.core.score.raw'', Validated (floatIn 0 100)), (''cmi.core.score.min'', Validated (floatIn 0 100)),
     (''cmi.core.score.max'', Validated (floatIn 0 100)), (''cmi.core.total_time'', ReadOnly),
     (''cmi.core.lesson_mode'', ReadOnly), (''cmi.core.exit'', Validated (oneOf exit12)),
     (''cmi.core.session_time'', Validated validTimespan12), (''cmi.suspend_data'', Validated (maxLen 4096)),
     (''cmi.launch_data'', ReadOnly), (''cmi.comments'', Validated (maxLen 4096)), (''cmi.comments_from_lms'', ReadOnly),
     (''cmi.student_data.mastery_score'', ReadOnly), (''cmi.student_data.max_time_allowed'', ReadOnly),
     (''cmi.student_data.time_limit_action'', ReadOnly)]"

definition elements2004 :: "(string \<times> elementSpec) list" where
  "elements2004 = [
     (''cmi.learner_id'', ReadOnly), (''cmi.learner_name'', ReadOnly), (''cmi.location'', Validated (maxLen 1000)),
     (''cmi.credit'', ReadOnly), (''cmi.completion_status'', Validated (oneOf completionStatus)),
     (''cmi.success_status'', Validated (oneOf successStatus)), (''cmi.entry'', ReadOnly),
     (''cmi.score.raw'', Validated anyFloat), (''cmi.score.min'', Validated anyFloat), (''cmi.score.max'', Validated anyFloat),
     (''cmi.score.scaled'', Validated (floatIn (- 1) 1)), (''cmi.total_time'', ReadOnly), (''cmi.mode'', ReadOnly),
     (''cmi.exit'', Validated (oneOf exit2004)), (''cmi.session_time'', Validated validDuration2004),
     (''cmi.suspend_data'', Validated (maxLen 64000)), (''cmi.launch_data'', ReadOnly),
     (''cmi.progress_measure'', Validated (floatIn 0 1)), (''cmi.completion_threshold'', ReadOnly),
     (''cmi.scaled_passing_score'', ReadOnly), (''cmi.max_time_allowed'', ReadOnly), (''cmi.time_limit_action'', ReadOnly)]"

definition cmi_lookup :: "Version \<Rightarrow> string \<Rightarrow> elementSpec option" where
  "cmi_lookup v k = (case map_of (case v of Version12 \<Rightarrow> elements12 | Version2004 \<Rightarrow> elements2004) k of
     Some sp \<Rightarrow> Some sp
   | None \<Rightarrow> if v = Version2004 \<and> (HasPrefix k ''cmi.interactions.'' \<or> HasPrefix k ''cmi.objectives.'' \<or>
         HasPrefix k ''cmi.comments_from_learner.'') then Some (Validated (maxLen 4096))
     else if v = Version12 \<and> (HasPrefix k ''cmi.interactions.'' \<or> HasPrefix k ''cmi.objectives.'') then Some (Validated (maxLen 4096))
     else None)"

definition ValidateElement :: "Version \<Rightarrow> string \<Rightarrow> string \<Rightarrow> scorm_error option" where
  "ValidateElement v k x = (case cmi_lookup v k of None \<Rightarrow> Some (ErrUnsupportedCMIElement k)
     | Some ReadOnly \<Rightarrow> Some (ErrReadOnlyCMIElement k)
     | Some (Validated f) \<Rightarrow> (case f x of Some e \<Rightarrow> Some (ErrInvalidCMIElementValue k x e) | None \<Rightarrow> None))"

section \<open>Summing up a run (service.go)\<close>

definition normStatus :: "string \<Rightarrow> string" where
  "normStatus v = ToLower (TrimSpace v)"

record RuntimeState =
  rs_lesson :: string
  rs_completion :: string
  rs_success :: string
  rs_raw :: "gofloat option"
  rs_min :: "gofloat option"
  rs_max :: "gofloat option"
  rs_scaled :: "gofloat option"
  rs_seconds :: int
  rs_location :: string
  rs_suspend :: string
  rs_exit :: string
  rs_complete :: bool

definition deriveLessonStatus :: "string \<Rightarrow> string \<Rightarrow> string" where
  "deriveLessonStatus completion success =
     (if success = ''passed'' then ''passed'' else if success = ''failed'' then ''failed''
      else if completion = ''completed'' then ''completed'' else if completion = ''incomplete'' then ''incomplete''
      else if completion = ''not attempted'' then ''not attempted'' else ''incomplete'')"

definition isComplete :: "Version \<Rightarrow> RuntimeState \<Rightarrow> bool" where
  "isComplete v st = (case v of
     Version12 \<Rightarrow> rs_lesson st \<in> {''passed'', ''completed'', ''failed''}
   | Version2004 \<Rightarrow> rs_completion st = ''completed'' \<or> rs_success st \<in> {''passed'', ''failed''})"

definition Summarize :: "Version \<Rightarrow> (string \<times> string) list \<Rightarrow> RuntimeState" where
  "Summarize v m = (let txt = (\<lambda>k. case map_of m k of None \<Rightarrow> [] | Some x \<Rightarrow> x);
       norm = (\<lambda>k. case map_of m k of None \<Rightarrow> [] | Some x \<Rightarrow> normStatus x);
       num = (\<lambda>k. case map_of m k of None \<Rightarrow> None | Some x \<Rightarrow> ParseFloat x);
       secs = (\<lambda>k parse. case map_of m k of None \<Rightarrow> 0 | Some x \<Rightarrow> (case parse x of None \<Rightarrow> 0 | Some n \<Rightarrow> n));
       st = (case v of
         Version12 \<Rightarrow> \<lparr>rs_lesson = norm ''cmi.core.lesson_status'', rs_completion = [], rs_success = [],
           rs_raw = num ''cmi.core.score.raw'', rs_min = num ''cmi.core.score.min'', rs_max = num ''cmi.core.score.max'', rs_scaled = None,
           rs_seconds = secs ''cmi.core.session_time'' parseTimespan12, rs_location = txt ''cmi.core.lesson_location'',
           rs_suspend = txt ''cmi.suspend_data'', rs_exit = txt ''cmi.core.exit'', rs_complete = False\<rparr>
       | Version2004 \<Rightarrow> \<lparr>rs_lesson = deriveLessonStatus (norm ''cmi.completion_status'') (norm ''cmi.success_status''),
           rs_completion = norm ''cmi.completion_status'', rs_success = norm ''cmi.success_status'',
           rs_raw = num ''cmi.score.raw'', rs_min = num ''cmi.score.min'', rs_max = num ''cmi.score.max'', rs_scaled = num ''cmi.score.scaled'',
           rs_seconds = secs ''cmi.session_time'' parseDuration2004, rs_location = txt ''cmi.location'',
           rs_suspend = txt ''cmi.suspend_data'', rs_exit = txt ''cmi.exit'', rs_complete = False\<rparr>) in
     st\<lparr>rs_complete := isComplete v st\<rparr>)"

end
