(* ===== verification/ScormApp.thy ===== *)
theory ScormApp
  imports ModuleFacts Scorm
begin

text \<open>
  SCORM packages and attempts: the tables (\<^verbatim>\<open>models/scorm_package.go\<close>,
  \<^verbatim>\<open>scorm_attempt.go\<close>, migration \<^verbatim>\<open>000013\<close>), the handlers
  (\<^verbatim>\<open>handlers/scorm.go\<close>) and their routes. The environment holds the platform's switch and what
  lies outside: \<open>sc_xml\<close> decodes XML, \<open>sc_quote\<close> is \<^verbatim>\<open>%q\<close>, \<open>sc_num\<close> prints a
  \<^verbatim>\<open>float64\<close> as a JSON number and \<open>sc_jsonb\<close> stores a JSON text in a \<^verbatim>\<open>jsonb\<close> column.
\<close>

record scorm_env =
  sc_enabled :: bool
  sc_xml :: "string \<Rightarrow> string + xmlManifest"
  sc_quote :: "string \<Rightarrow> string"
  sc_num :: "rat \<Rightarrow> json"
  sc_jsonb :: "json \<Rightarrow> json option"

section \<open>Tables\<close>

record scorm_package = item +
  sk_version :: Version
  sk_identifier :: string
  sk_launch :: string
  sk_storage :: string
  sk_mastery :: "rat option"
  sk_manifest :: json

record scorm_attempt =
  sa_id :: uuid
  sa_org :: uuid
  sa_package :: uuid
  sa_learner :: uuid
  sa_number :: int
  sa_lesson :: string
  sa_completion :: string
  sa_success :: string
  sa_raw :: "gofloat option"
  sa_min :: "gofloat option"
  sa_max :: "gofloat option"
  sa_scaled :: "gofloat option"
  sa_total :: int
  sa_session :: int
  sa_location :: string
  sa_suspend :: string
  sa_cmi :: json
  sa_complete :: bool
  sa_started :: time
  sa_updated :: time
  sa_completed :: "time option"

record scormdb = mdb +
  pd_packages :: "scorm_package list"
  pd_attempts :: "scorm_attempt list"

abbreviation put_packages :: "scorm_package list \<Rightarrow> scormdb \<Rightarrow> scormdb" where "put_packages xs s \<equiv> s\<lparr>pd_packages := xs\<rparr>"
abbreviation put_attempts :: "scorm_attempt list \<Rightarrow> scormdb \<Rightarrow> scormdb" where "put_attempts xs s \<equiv> s\<lparr>pd_attempts := xs\<rparr>"

record createScormPackageRequest =
  pq_course :: "uuid option"
  pq_lesson :: "uuid option"
  pq_slug :: string
  pq_title :: string
  pq_description :: string
  pq_storage :: string
  pq_manifest :: string
  pq_published :: bool

record updateScormPackageRequest =
  uq_course :: "uuid option"
  uq_lesson :: "uuid option"
  uq_title :: string
  uq_description :: string
  uq_mastery :: "rat option"
  uq_published :: bool

section \<open>Packages (scorm\_package.go)\<close>

definition ScormPackageRepo_Create :: "scorm_env \<Rightarrow> uuid \<Rightarrow> uuid \<Rightarrow> createScormPackageRequest \<Rightarrow> Package \<Rightarrow> json \<Rightarrow> (scormdb, scorm_package) tx" where
  "ScormPackageRepo_Create env o' u q p manifest = (case sc_jsonb env manifest of None \<Rightarrow> tx_throw ErrStorage | Some m \<Rightarrow>
     item_insert pd_packages put_packages (\<lambda>i t. \<lparr>it_id = i, it_org = o', it_course = pq_course q, it_lesson = pq_lesson q,
       it_slug = pq_slug q, it_title = pq_title q, it_description = pq_description q, it_published = pq_published q,
       it_created_by = Some u, it_created = t, it_updated = t, sk_version = pk_version p, sk_identifier = pk_identifier p,
       sk_launch = pk_launch p, sk_storage = pq_storage q,
       sk_mastery = (case pk_mastery p of Some (Fin x) \<Rightarrow> Some x | _ \<Rightarrow> None), sk_manifest = m\<rparr>))"

definition ScormPackageRepo_Get :: "uuid \<Rightarrow> (scormdb, scorm_package) tx" where
  "ScormPackageRepo_Get = item_get pd_packages"

definition ScormPackageRepo_ListByOrg :: "uuid \<Rightarrow> (scormdb, scorm_package list) tx" where
  "ScormPackageRepo_ListByOrg o' = item_list pd_packages (\<lambda>r. it_org r = o')"

definition ScormPackageRepo_Update :: "uuid \<Rightarrow> updateScormPackageRequest \<Rightarrow> (scormdb, scorm_package) tx" where
  "ScormPackageRepo_Update i q = item_update pd_packages put_packages i (\<lambda>t r. r\<lparr>it_course := uq_course q, it_lesson := uq_lesson q,
     it_title := uq_title q, it_description := uq_description q, sk_mastery := uq_mastery q, it_published := uq_published q,
     it_updated := t\<rparr>)"

definition ScormPackageRepo_SetPublished :: "uuid \<Rightarrow> bool \<Rightarrow> (scormdb, scorm_package) tx" where
  "ScormPackageRepo_SetPublished i b = item_update pd_packages put_packages i (\<lambda>t r. r\<lparr>it_published := b, it_updated := t\<rparr>)"

text \<open>The attempts go with their package.\<close>

definition ScormPackageRepo_Delete :: "uuid \<Rightarrow> (scormdb, unit) tx" where
  "ScormPackageRepo_Delete i = tx_bind (item_delete pd_packages put_packages i) (\<lambda>_.
     tx_modify (\<lambda>s. s\<lparr>pd_attempts := filter (\<lambda>a. sa_package a \<noteq> i) (pd_attempts s)\<rparr>))"

section \<open>Attempts (scorm\_attempt.go)\<close>

definition visible_attempts :: "(scorm_attempt \<Rightarrow> bool) \<Rightarrow> scormdb \<Rightarrow> scorm_attempt list" where
  "visible_attempts P s = filter (\<lambda>a. row_visible (md_adb s) (sa_learner a) (sa_org a) \<and> P a) (pd_attempts s)"

definition ScormAttemptRepo_latest :: "uuid \<Rightarrow> uuid \<Rightarrow> (scormdb, scorm_attempt) tx" where
  "ScormAttemptRepo_latest pkg l = (\<lambda>s. case newest sa_number (visible_attempts (\<lambda>a. sa_package a = pkg \<and> sa_learner a = l) s) of
     [] \<Rightarrow> Inl ErrNotFound | a # _ \<Rightarrow> Inr (a, s))"

definition fresh_attempt :: "uuid \<Rightarrow> uuid \<Rightarrow> uuid \<Rightarrow> uuid \<Rightarrow> int \<Rightarrow> time \<Rightarrow> scorm_attempt" where
  "fresh_attempt i o' pkg l n t = \<lparr>sa_id = i, sa_org = o', sa_package = pkg, sa_learner = l, sa_number = n,
     sa_lesson = ''not attempted'', sa_completion = ''unknown'', sa_success = ''unknown'', sa_raw = None, sa_min = None,
     sa_max = None, sa_scaled = None, sa_total = 0, sa_session = 0, sa_location = [], sa_suspend = [], sa_cmi = JObj [],
     sa_complete = False, sa_started = t, sa_updated = t, sa_completed = None\<rparr>"

definition insert_attempt :: "uuid \<Rightarrow> uuid \<Rightarrow> uuid \<Rightarrow> int \<Rightarrow> (scormdb, scorm_attempt) tx" where
  "insert_attempt o' pkg l n = (\<lambda>s. let db = md_adb s; a = fresh_attempt (a_next db) o' pkg l n (a_clock db) in
     if \<not> int4 n \<or> \<not> row_addable db l o' \<or> (\<forall>r \<in> set (pd_packages s). it_id r \<noteq> pkg) then Inl ErrStorage
     else if \<exists>b \<in> set (pd_attempts s). sa_package b = pkg \<and> sa_learner b = l \<and> sa_number b = n then Inl ErrUniqueViolation
     else Inr (a, s\<lparr>pd_attempts := pd_attempts s @ [a], md_adb := db\<lparr>a_next := Suc (a_next db)\<rparr>\<rparr>))"

definition ScormAttemptRepo_StartOrResume :: "uuid \<Rightarrow> uuid \<Rightarrow> uuid \<Rightarrow> (scormdb, scorm_attempt) tx" where
  "ScormAttemptRepo_StartOrResume o' pkg l = tx_bind (tx_found (ScormAttemptRepo_latest pkg l)) (\<lambda>prev. case prev of
     Some p \<Rightarrow> if \<not> sa_complete p then tx_return p else insert_attempt o' pkg l (sa_number p + 1)
   | None \<Rightarrow> insert_attempt o' pkg l 1)"

definition ScormAttemptRepo_Get :: "uuid \<Rightarrow> (scormdb, scorm_attempt) tx" where
  "ScormAttemptRepo_Get i = tab_select1 (visible_attempts (\<lambda>a. sa_id a = i)) (\<lambda>_. True)"

text \<open>The growth of the reported session time; a smaller reading belongs to a new session.\<close>

definition session_growth :: "int \<Rightarrow> int \<Rightarrow> int" where
  "session_growth reported stored = (if reported \<ge> stored then reported - stored else reported)"

definition committed :: "RuntimeState \<Rightarrow> json \<Rightarrow> bool \<Rightarrow> time \<Rightarrow> scorm_attempt \<Rightarrow> scorm_attempt" where
  "committed u cmi fin t a = a\<lparr>sa_lesson := rs_lesson u, sa_completion := rs_completion u, sa_success := rs_success u,
     sa_raw := rs_raw u, sa_min := rs_min u, sa_max := rs_max u, sa_scaled := rs_scaled u,
     sa_total := sa_total a + session_growth (rs_seconds u) (sa_session a), sa_session := rs_seconds u,
     sa_location := rs_location u, sa_suspend := rs_suspend u, sa_cmi := cmi, sa_complete := sa_complete a \<or> fin,
     sa_completed := (case sa_completed a of Some d \<Rightarrow> Some d | None \<Rightarrow> if fin then Some t else None), sa_updated := t\<rparr>"

definition ScormAttemptRepo_Commit :: "scorm_env \<Rightarrow> uuid \<Rightarrow> RuntimeState \<Rightarrow> json \<Rightarrow> bool \<Rightarrow> (scormdb, scorm_attempt) tx" where
  "ScormAttemptRepo_Commit env i u cmi fin = (\<lambda>s. let P = (\<lambda>a. row_mine (md_adb s) (sa_learner a) \<and> sa_id a = i) in
     if \<not> int4 (rs_seconds u) then Inl ErrStorage else
     (case sc_jsonb env cmi of None \<Rightarrow> Inl ErrStorage | Some j \<Rightarrow>
        if \<exists>a \<in> set (pd_attempts s). P a \<and> \<not> (int4 (session_growth (rs_seconds u) (sa_session a)) \<and>
             int4 (sa_total a + session_growth (rs_seconds u) (sa_session a))) then Inl ErrStorage
        else tab_update pd_attempts put_attempts P (committed u j fin (a_clock (md_adb s))) s))"

definition ScormAttemptRepo_ListForLearner :: "uuid \<Rightarrow> int \<Rightarrow> (scormdb, scorm_attempt list) tx" where
  "ScormAttemptRepo_ListForLearner l n = tx_gets (\<lambda>s. take (nat (clampLimit n))
     (newest sa_updated (visible_attempts (\<lambda>a. sa_learner a = l) s)))"

definition ScormAttemptRepo_ListByPackage :: "uuid \<Rightarrow> int \<Rightarrow> (scormdb, scorm_attempt list) tx" where
  "ScormAttemptRepo_ListByPackage pkg n = tx_gets (\<lambda>s. take (nat (clampLimit n))
     (newest sa_updated (visible_attempts (\<lambda>a. sa_package a = pkg) s)))"

section \<open>Answers\<close>

text \<open>\<^verbatim>\<open>json.Marshal\<close> refuses infinities and NaN. An answer that cannot be written is an empty 200
  with an error on the context, for which \<^verbatim>\<open>WithRequestTx\<close> does not commit: the model marks the
  transaction.\<close>

definition answer :: "int \<Rightarrow> json option \<Rightarrow> scormdb handler" where
  "answer c j = (case j of Some b \<Rightarrow> h_return (Resp c b) | None \<Rightarrow> (\<lambda>s. (Inr (Resp c JNull), m_abort ErrStorage s)))"

definition float_json :: "scorm_env \<Rightarrow> gofloat option \<Rightarrow> json option" where
  "float_json env f = (case f of None \<Rightarrow> Some JNull | Some (Fin x) \<Rightarrow> Some (sc_num env x) | _ \<Rightarrow> None)"

fun items_json :: "Item list \<Rightarrow> json list" where
  "items_json [] = []"
| "items_json (Item i title ref launch children # rest) = JObj ([(''identifier'', JStr i), (''title'', JStr title)] @
     (if ref = [] then [] else [(''identifier_ref'', JStr ref)]) @ (if launch = [] then [] else [(''launch_href'', JStr launch)]) @
     (if children = [] then [] else [(''children'', JArr (items_json children))])) # items_json rest"

definition manifest_json :: "scorm_env \<Rightarrow> Package \<Rightarrow> json option" where
  "manifest_json env p = (case float_json env (pk_mastery p) of None \<Rightarrow> None | Some m \<Rightarrow>
     Some (JObj ([(''version'', JStr (version_text (pk_version p))), (''identifier'', JStr (pk_identifier p)),
       (''organization_id'', JStr (pk_organization p)), (''title'', JStr (pk_title p)), (''launch_href'', JStr (pk_launch p))] @
       (if pk_mastery p = None then [] else [(''mastery_score'', m)]) @
       [(''items'', if pk_items p = [] then JNull else JArr (items_json (pk_items p)))])))"

definition package_json :: "scorm_env \<Rightarrow> scorm_package \<Rightarrow> json" where
  "package_json env r = JObj [(''ID'', JInt (int (it_id r))), (''OrgID'', JInt (int (it_org r))),
     (''CourseID'', j_opt (\<lambda>i. JInt (int i)) (it_course r)), (''LessonID'', j_opt (\<lambda>i. JInt (int i)) (it_lesson r)),
     (''Slug'', JStr (it_slug r)), (''Title'', JStr (it_title r)), (''Description'', JStr (it_description r)),
     (''Version'', JStr (version_text (sk_version r))), (''Identifier'', JStr (sk_identifier r)), (''LaunchHref'', JStr (sk_launch r)),
     (''StoragePath'', JStr (sk_storage r)), (''MasteryScore'', j_opt (sc_num env) (sk_mastery r)), (''Manifest'', sk_manifest r),
     (''IsPublished'', JBool (it_published r)), (''CreatedBy'', j_opt (\<lambda>i. JInt (int i)) (it_created_by r)),
     (''CreatedAt'', JInt (it_created r)), (''UpdatedAt'', JInt (it_updated r))]"

definition attempt_json :: "scorm_env \<Rightarrow> scorm_attempt \<Rightarrow> json option" where
  "attempt_json env a = (case (float_json env (sa_raw a), float_json env (sa_min a), float_json env (sa_max a), float_json env (sa_scaled a)) of
     (Some raw, Some lo, Some hi, Some scaled) \<Rightarrow> Some (JObj [(''ID'', JInt (int (sa_id a))), (''OrgID'', JInt (int (sa_org a))),
       (''PackageID'', JInt (int (sa_package a))), (''LearnerID'', JInt (int (sa_learner a))), (''AttemptNumber'', JInt (sa_number a)),
       (''LessonStatus'', JStr (sa_lesson a)), (''CompletionStatus'', JStr (sa_completion a)), (''SuccessStatus'', JStr (sa_success a)),
       (''ScoreRaw'', raw), (''ScoreMin'', lo), (''ScoreMax'', hi), (''ScoreScaled'', scaled), (''TotalTimeSeconds'', JInt (sa_total a)),
       (''SessionTimeSeconds'', JInt (sa_session a)), (''Location'', JStr (sa_location a)), (''SuspendData'', JStr (sa_suspend a)),
       (''CMIData'', sa_cmi a), (''IsComplete'', JBool (sa_complete a)), (''StartedAt'', JInt (sa_started a)),
       (''UpdatedAt'', JInt (sa_updated a)), (''CompletedAt'', j_opt JInt (sa_completed a))])
   | _ \<Rightarrow> None)"

fun attempts_json :: "scorm_env \<Rightarrow> scorm_attempt list \<Rightarrow> json list option" where
  "attempts_json env [] = Some []"
| "attempts_json env (a # as) = (case (attempt_json env a, attempts_json env as) of (Some j, Some js) \<Rightarrow> Some (j # js) | _ \<Rightarrow> None)"

text \<open>A nil slice is written as \<^verbatim>\<open>null\<close>.\<close>

definition slice_json :: "json list \<Rightarrow> json" where
  "slice_json js = (if js = [] then JNull else JArr js)"

definition scormReason :: "scorm_env \<Rightarrow> scorm_error \<Rightarrow> string" where
  "scormReason env e = (case e of
     ErrInvalidManifest m \<Rightarrow> ''manifest is not valid XML: '' @ m
   | ErrUnknownVersion None \<Rightarrow> ''could not determine SCORM version from manifest''
   | ErrUnknownVersion (Some v) \<Rightarrow> ''could not determine SCORM version from manifest: schemaversion '' @ sc_quote env v
   | ErrNoDefaultOrganization \<Rightarrow> ''manifest has no default organization''
   | ErrNoLaunchableResource \<Rightarrow> ''manifest has no launchable resource''
   | ErrEmptyManifest \<Rightarrow> ''manifest is empty''
   | ErrUnsupportedCMIElement k \<Rightarrow> ''unknown CMI element: '' @ k
   | ErrReadOnlyCMIElement k \<Rightarrow> ''CMI element is read-only: '' @ k
   | ErrInvalidCMIElementValue k v m \<Rightarrow> ''invalid value for CMI element: '' @ k @ ''='' @ sc_quote env v @ '': '' @ m)"

section \<open>Handlers (handlers/scorm.go)\<close>

definition scormGate :: "scorm_env \<Rightarrow> org_ctx \<Rightarrow> (response, scormdb, unit) hm" where
  "scormGate env = module_gate (sc_enabled env) ''SCORM is not enabled for this organization''"

definition getOrgPackage :: "uuid \<Rightarrow> org_ctx \<Rightarrow> (response, scormdb, scorm_package) hm" where
  "getOrgPackage = org_item pd_packages ''package not found''"

definition auditScorm :: "auth_ctx \<Rightarrow> org_ctx \<Rightarrow> string \<Rightarrow> string \<Rightarrow> uuid \<Rightarrow> (response, scormdb, unit) hm" where
  "auditScorm = module_audit"

definition CreateScormPackage :: "scorm_env \<Rightarrow> auth_ctx \<Rightarrow> org_ctx \<Rightarrow> createScormPackageRequest option \<Rightarrow> scormdb handler" where
  "CreateScormPackage env ac oc body = (case body of
     None \<Rightarrow> h_respond (RespErr 400 ''slug, title and manifest_xml are required'')
   | Some q \<Rightarrow> if pq_title q = [] \<or> pq_slug q = [] \<or> pq_manifest q = []
       then h_respond (RespErr 400 ''slug, title and manifest_xml are required'')
       else (case ParseManifest (sc_xml env) (pq_manifest q) of
         Inl e \<Rightarrow> h_respond (RespErr 400 (''invalid SCORM manifest: '' @ scormReason env e))
       | Inr p \<Rightarrow>
           h_bind (scormGate env oc) (\<lambda>_.
           case manifest_json env p of None \<Rightarrow> h_respond (RespErr 500 ''internal error'') | Some m \<Rightarrow>
           h_bind (msql (ScormPackageRepo_Create env (oc_org oc) (ac_user ac) q p m) (\<lambda>_. RespErr 500 ''could not create package'')) (\<lambda>r.
           h_bind (auditScorm ac oc ''scorm.package_created'' ''scorm_package'' (it_id r)) (\<lambda>_.
             h_return (Resp 201 (JObj [(''package'', package_json env r)])))))))"

definition ListScormPackages :: "scorm_env \<Rightarrow> org_ctx \<Rightarrow> scormdb handler" where
  "ListScormPackages env oc = h_bind (scormGate env oc) (\<lambda>_. h_bind (msql (ScormPackageRepo_ListByOrg (oc_org oc)) internal_error) (\<lambda>rs.
     h_return (Resp 200 (JObj [(''packages'', slice_json (map (package_json env) rs))]))))"

definition GetScormPackage :: "scorm_env \<Rightarrow> org_ctx \<Rightarrow> uuid \<Rightarrow> scormdb handler" where
  "GetScormPackage env oc i = h_bind (scormGate env oc) (\<lambda>_. h_bind (getOrgPackage i oc) (\<lambda>r.
     h_return (Resp 200 (JObj [(''package'', package_json env r)]))))"

definition UpdateScormPackage :: "scorm_env \<Rightarrow> auth_ctx \<Rightarrow> org_ctx \<Rightarrow> uuid \<Rightarrow> updateScormPackageRequest option \<Rightarrow> scormdb handler" where
  "UpdateScormPackage env ac oc i body = (case body of None \<Rightarrow> h_respond (RespErr 400 ''title is required'')
     | Some q \<Rightarrow> if uq_title q = [] then h_respond (RespErr 400 ''title is required'') else
       h_bind (scormGate env oc) (\<lambda>_.
       h_bind (getOrgPackage i oc) (\<lambda>x.
       h_bind (msql (ScormPackageRepo_Update (it_id x) q) (\<lambda>_. RespErr 500 ''could not update package'')) (\<lambda>r.
       h_bind (auditScorm ac oc ''scorm.package_updated'' ''scorm_package'' (it_id r)) (\<lambda>_.
         h_return (Resp 200 (JObj [(''package'', package_json env r)])))))))"

definition SetScormPackagePublished :: "scorm_env \<Rightarrow> auth_ctx \<Rightarrow> org_ctx \<Rightarrow> uuid \<Rightarrow> bool option \<Rightarrow> scormdb handler" where
  "SetScormPackagePublished env ac oc i body = (case body of None \<Rightarrow> h_respond (RespErr 400 ''invalid request'')
     | Some b \<Rightarrow>
       h_bind (scormGate env oc) (\<lambda>_.
       h_bind (getOrgPackage i oc) (\<lambda>x.
       h_bind (msql (ScormPackageRepo_SetPublished (it_id x) b) internal_error) (\<lambda>r.
       h_bind (auditScorm ac oc (if b then ''scorm.package_published'' else ''scorm.package_unpublished'') ''scorm_package'' (it_id r)) (\<lambda>_.
         h_return (Resp 200 (JObj [(''package'', package_json env r)])))))))"

definition DeleteScormPackage :: "scorm_env \<Rightarrow> auth_ctx \<Rightarrow> org_ctx \<Rightarrow> uuid \<Rightarrow> scormdb handler" where
  "DeleteScormPackage env ac oc i =
     h_bind (scormGate env oc) (\<lambda>_.
     h_bind (getOrgPackage i oc) (\<lambda>x.
     h_bind (msql (ScormPackageRepo_Delete (it_id x)) internal_error) (\<lambda>_.
     h_bind (auditScorm ac oc ''scorm.package_deleted'' ''scorm_package'' (it_id x)) (\<lambda>_.
       h_return (Resp 204 JNull)))))"

definition ScormPackageReport :: "scorm_env \<Rightarrow> org_ctx \<Rightarrow> uuid \<Rightarrow> scormdb handler" where
  "ScormPackageReport env oc i =
     h_bind (scormGate env oc) (\<lambda>_.
     h_bind (getOrgPackage i oc) (\<lambda>x.
     h_bind (msql (ScormAttemptRepo_ListByPackage (it_id x) 200) internal_error) (\<lambda>as.
       answer 200 (map_option (\<lambda>js. JObj [(''package'', JObj [(''id'', JInt (int (it_id x))), (''title'', JStr (it_title x)),
         (''version'', JStr (version_text (sk_version x)))]), (''attempts'', slice_json js)]) (attempts_json env as)))))"

definition publicPackage :: "scorm_package \<Rightarrow> json" where
  "publicPackage r = JObj [(''id'', JInt (int (it_id r))), (''slug'', JStr (it_slug r)), (''title'', JStr (it_title r)),
     (''description'', JStr (it_description r)), (''version'', JStr (version_text (sk_version r))),
     (''launch_href'', JStr (sk_launch r)), (''manifest'', sk_manifest r)]"

definition ListScormCatalog :: "scorm_env \<Rightarrow> org_ctx \<Rightarrow> scormdb handler" where
  "ListScormCatalog env oc = h_bind (scormGate env oc) (\<lambda>_. h_bind (msql (ScormPackageRepo_ListByOrg (oc_org oc)) internal_error) (\<lambda>rs.
     h_return (Resp 200 (JObj [(''packages'', JArr (map publicPackage (filter it_published rs)))]))))"

definition LaunchScormPackage :: "scorm_env \<Rightarrow> auth_ctx \<Rightarrow> org_ctx \<Rightarrow> uuid \<Rightarrow> scormdb handler" where
  "LaunchScormPackage env ac oc i =
     h_bind (scormGate env oc) (\<lambda>_.
     h_bind (getOrgPackage i oc) (\<lambda>x.
     h_bind (h_guard (it_published x) (RespErr 404 ''package not found'')) (\<lambda>_.
     h_bind (msql (ScormAttemptRepo_StartOrResume (oc_org oc) (it_id x) (ac_user ac)) (\<lambda>_. RespErr 500 ''could not start attempt'')) (\<lambda>a.
       answer 200 (map_option (\<lambda>j. JObj [(''package'', publicPackage x), (''attempt'', j)]) (attempt_json env a))))))"

definition loadOwnAttempt :: "uuid \<Rightarrow> uuid \<Rightarrow> uuid \<Rightarrow> (response, scormdb, scorm_attempt) hm" where
  "loadOwnAttempt i o' u = h_bind (msql (ScormAttemptRepo_Get i) (not_found_or_internal ''attempt not found'')) (\<lambda>a.
     h_bind (h_guard (sa_org a = o' \<and> sa_learner a = u) (RespErr 404 ''attempt not found'')) (\<lambda>_. h_return a))"

definition pkgVersionOf :: "scorm_attempt \<Rightarrow> (response, scormdb, Version option) hm" where
  "pkgVersionOf a = h_bind (msql_attempt (ScormPackageRepo_Get (sa_package a))) (\<lambda>r.
     h_return (case r of Inl e \<Rightarrow> None | Inr p \<Rightarrow> Some (sk_version p)))"

text \<open>The stored elements as \<^verbatim>\<open>json.Unmarshal\<close> reads them into a map; nothing when it fails.\<close>

fun texts_of :: "(string \<times> json) list \<Rightarrow> (string \<times> string) list \<Rightarrow> (string \<times> string) list option" where
  "texts_of [] m = Some m"
| "texts_of ((k, j) # kvs) m = (case j of JStr x \<Rightarrow> texts_of kvs (put_key k x m) | JNull \<Rightarrow> texts_of kvs (put_key k [] m) | _ \<Rightarrow> None)"

definition cmi_elements :: "json \<Rightarrow> (string \<times> string) list" where
  "cmi_elements j = (case j of JObj kvs \<Rightarrow> (case texts_of kvs [] of Some m \<Rightarrow> m | None \<Rightarrow> []) | _ \<Rightarrow> [])"

definition cmi_json :: "(string \<times> string) list \<Rightarrow> json" where
  "cmi_json m = JObj (map (\<lambda>(k, x). (k, JStr x)) m)"

definition merge_elements :: "(string \<times> string) list \<Rightarrow> (string \<times> string) list \<Rightarrow> (string \<times> string) list" where
  "merge_elements els m = fold (\<lambda>(k, x) m. put_key k x m) els m"

text \<open>The first element that is refused, in the order in which Go ranges over the map.\<close>

fun refused_element :: "Version \<Rightarrow> (string \<times> string) list \<Rightarrow> scorm_error option" where
  "refused_element v [] = None"
| "refused_element v ((k, x) # els) = (case ValidateElement v k x of Some e \<Rightarrow> Some e | None \<Rightarrow> refused_element v els)"

definition applyScormCommit :: "scorm_env \<Rightarrow> scorm_attempt \<Rightarrow> (string \<times> string) list \<Rightarrow> bool \<Rightarrow> scormdb handler" where
  "applyScormCommit env a els force = h_bind (pkgVersionOf a) (\<lambda>pv. case pv of
     None \<Rightarrow> h_respond (RespErr 500 ''internal error'')
   | Some v \<Rightarrow> (case refused_element v els of
       Some e \<Rightarrow> h_respond (RespErr 400 (scormReason env e))
     | None \<Rightarrow> (let merged = merge_elements els (cmi_elements (sa_cmi a)); st = Summarize v merged in
         h_bind (msql (ScormAttemptRepo_Commit env (sa_id a) st (cmi_json merged) (rs_complete st \<or> force))
           (\<lambda>_. RespErr 500 ''could not save runtime state'')) (\<lambda>b.
           answer 200 (map_option (\<lambda>j. JObj [(''attempt'', j)]) (attempt_json env b))))))"

definition CommitScormRuntime :: "scorm_env \<Rightarrow> auth_ctx \<Rightarrow> org_ctx \<Rightarrow> uuid \<Rightarrow> (string \<times> string) list option \<Rightarrow> scormdb handler" where
  "CommitScormRuntime env ac oc i body = (case body of None \<Rightarrow> h_respond (RespErr 400 ''elements are required'')
     | Some els \<Rightarrow> if els = [] then h_respond (RespErr 400 ''elements are required'') else
       h_bind (scormGate env oc) (\<lambda>_.
       h_bind (loadOwnAttempt i (oc_org oc) (ac_user ac)) (\<lambda>a.
       h_bind (h_guard (\<not> sa_complete a) (RespErr 409 ''attempt is already complete'')) (\<lambda>_.
         applyScormCommit env a els False))))"

definition FinishScormAttempt :: "scorm_env \<Rightarrow> auth_ctx \<Rightarrow> org_ctx \<Rightarrow> uuid \<Rightarrow> (string \<times> string) list \<Rightarrow> scormdb handler" where
  "FinishScormAttempt env ac oc i els =
     h_bind (scormGate env oc) (\<lambda>_.
     h_bind (loadOwnAttempt i (oc_org oc) (ac_user ac)) (\<lambda>a.
       applyScormCommit env a els True))"

definition ListMyScormAttempts :: "scorm_env \<Rightarrow> auth_ctx \<Rightarrow> org_ctx \<Rightarrow> scormdb handler" where
  "ListMyScormAttempts env ac oc = h_bind (scormGate env oc) (\<lambda>_.
     h_bind (msql (ScormAttemptRepo_ListForLearner (ac_user ac) 100) internal_error) (\<lambda>as.
       answer 200 (map_option (\<lambda>js. JObj [(''attempts'', slice_json js)]) (attempts_json env as))))"

definition GetScormSettings :: "scorm_env \<Rightarrow> org_ctx \<Rightarrow> scormdb handler" where
  "GetScormSettings env oc = h_bind (msql (ModuleRepo_GetEnabled (oc_org oc)) internal_error) (\<lambda>b.
     h_return (Resp 200 (JObj [(''enabled'', JBool b), (''platform_scorm_enabled'', JBool (sc_enabled env))])))"

definition UpdateScormSettings :: "auth_ctx \<Rightarrow> org_ctx \<Rightarrow> bool option \<Rightarrow> scormdb handler" where
  "UpdateScormSettings ac oc body = (case body of None \<Rightarrow> h_respond (RespErr 400 ''invalid request'')
     | Some b \<Rightarrow>
       h_bind (msql (ModuleRepo_SetEnabled (oc_org oc) b) internal_error) (\<lambda>_.
       h_bind (auditScorm ac oc ''scorm.settings_updated'' ''organization'' (oc_org oc)) (\<lambda>_.
         h_return (Resp 200 (JObj [(''enabled'', JBool b)])))))"

section \<open>Routes (registerScormRoutes)\<close>

datatype scorm_action =
    ScormSettings | ScormSetEnabled "bool option" | ScormCreate "createScormPackageRequest option" | ScormList
  | ScormGet uuid | ScormUpdate uuid "updateScormPackageRequest option" | ScormPublish uuid "bool option" | ScormDelete uuid
  | ScormReport uuid | ScormCatalog | ScormLaunch uuid | ScormCommit uuid "(string \<times> string) list option"
  | ScormFinish uuid "(string \<times> string) list" | ScormMine

fun scorm_roles :: "scorm_action \<Rightarrow> role set" where
  "scorm_roles ScormSettings = {Owner}"
| "scorm_roles (ScormSetEnabled b) = {Owner}"
| "scorm_roles ScormCatalog = UNIV"
| "scorm_roles (ScormLaunch i) = UNIV"
| "scorm_roles (ScormCommit i els) = UNIV"
| "scorm_roles (ScormFinish i els) = UNIV"
| "scorm_roles ScormMine = UNIV"
| "scorm_roles a = {Owner, Teacher}"

fun scorm_handler :: "scorm_env \<Rightarrow> auth_ctx \<Rightarrow> org_ctx \<Rightarrow> scorm_action \<Rightarrow> scormdb handler" where
  "scorm_handler env ac oc ScormSettings = GetScormSettings env oc"
| "scorm_handler env ac oc (ScormSetEnabled b) = UpdateScormSettings ac oc b"
| "scorm_handler env ac oc (ScormCreate q) = CreateScormPackage env ac oc q"
| "scorm_handler env ac oc ScormList = ListScormPackages env oc"
| "scorm_handler env ac oc (ScormGet i) = GetScormPackage env oc i"
| "scorm_handler env ac oc (ScormUpdate i q) = UpdateScormPackage env ac oc i q"
| "scorm_handler env ac oc (ScormPublish i b) = SetScormPackagePublished env ac oc i b"
| "scorm_handler env ac oc (ScormDelete i) = DeleteScormPackage env ac oc i"
| "scorm_handler env ac oc (ScormReport i) = ScormPackageReport env oc i"
| "scorm_handler env ac oc ScormCatalog = ListScormCatalog env oc"
| "scorm_handler env ac oc (ScormLaunch i) = LaunchScormPackage env ac oc i"
| "scorm_handler env ac oc (ScormCommit i els) = CommitScormRuntime env ac oc i els"
| "scorm_handler env ac oc (ScormFinish i els) = FinishScormAttempt env ac oc i els"
| "scorm_handler env ac oc ScormMine = ListMyScormAttempts env ac oc"

definition scorm_request :: "scorm_env \<Rightarrow> auth_ctx \<Rightarrow> string \<Rightarrow> scorm_action \<Rightarrow> scormdb handler" where
  "scorm_request env ac slug a = module_route ac slug (scorm_roles a) (\<lambda>oc. scorm_handler env ac oc a)"

end
