(* ===== verification/ScormFacts.thy ===== *)
theory ScormFacts
  imports ScormApp
begin

text \<open>
  Which manifests are accepted, and what the packages made of them launch.
\<close>

section \<open>Manifests\<close>

text \<open>The items of a tree in the order in which a table of contents lists them.\<close>

fun preorder :: "Item list \<Rightarrow> Item list" where
  "preorder [] = []"
| "preorder (Item i title ref launch children # rest) = Item i title ref launch children # preorder children @ preorder rest"

lemma find_append: "find P (xs @ ys) = (case find P xs of None \<Rightarrow> find P ys | Some x \<Rightarrow> Some x)"
  by (induction xs) auto

lemma firstLaunchHref_preorder:
  "firstLaunchHref items = (case find (\<lambda>x. im_launch x \<noteq> []) (preorder items) of None \<Rightarrow> [] | Some x \<Rightarrow> im_launch x)"
  by (induction items rule: firstLaunchHref.induct) (auto simp: Let_def find_append split: option.splits dest!: find_SomeD)

lemma converted_items: "x \<in> set (preorder (convertItems href raw)) \<Longrightarrow> im_launch x = href (im_ref x)"
  by (induction href raw rule: convertItems.induct) auto

lemma hrefByRef_declared: "hrefByRef rs i \<noteq> [] \<Longrightarrow> \<exists>r \<in> set rs. xr_identifier r = i \<and> TrimSpace (xr_href r) = hrefByRef rs i"
  by (auto simp: hrefByRef_def split: option.splits dest!: find_SomeD)

lemma fallback_declared: "fallbackLaunchHref rs \<noteq> [] \<Longrightarrow> \<exists>r \<in> set rs. TrimSpace (xr_href r) = fallbackLaunchHref rs"
  by (auto simp: fallbackLaunchHref_def split: option.splits dest!: find_SomeD)

lemma fallback_empty: "fallbackLaunchHref rs = [] \<longleftrightarrow> (\<forall>r \<in> set rs. TrimSpace (xr_href r) = [])"
  by (auto simp: fallbackLaunchHref_def find_None_iff split: option.splits dest!: find_SomeD)

lemma default_organization: "defaultOrganization m = None \<longleftrightarrow> xm_organizations m = []"
  "defaultOrganization m = Some org \<Longrightarrow> org \<in> set (xm_organizations m)"
  by (auto simp: defaultOrganization_def Let_def split: list.splits option.splits if_splits dest!: find_SomeD)

lemma first_launch_declared:
  assumes "firstLaunchHref (convertItems (hrefByRef rs) raw) \<noteq> []"
  shows "\<exists>r \<in> set rs. TrimSpace (xr_href r) = firstLaunchHref (convertItems (hrefByRef rs) raw)"
proof -
  obtain x where x: "x \<in> set (preorder (convertItems (hrefByRef rs) raw))" "im_launch x \<noteq> []"
      "im_launch x = firstLaunchHref (convertItems (hrefByRef rs) raw)"
    using assms by (auto simp: firstLaunchHref_preorder split: option.splits dest!: find_SomeD)
  then show ?thesis using converted_items[OF x(1)] hrefByRef_declared[of rs "im_ref x"] by auto
qed

definition launchable :: "(string \<Rightarrow> string + xmlManifest) \<Rightarrow> string \<Rightarrow> bool" where
  "launchable xml data \<longleftrightarrow> TrimSpace data \<noteq> [] \<and> (\<exists>m v. xml data = Inr m \<and> xm_root m = ''manifest'' \<and>
     detectVersion (xm_schemaversion m) = Inr v \<and> xm_organizations m \<noteq> [] \<and> (\<exists>r \<in> set (xm_resources m). TrimSpace (xr_href r) \<noteq> []))"

definition launches :: "xmlResource list \<Rightarrow> Package \<Rightarrow> bool" where
  "launches rs p \<longleftrightarrow> pk_launch p \<noteq> [] \<and> (\<exists>r \<in> set rs. TrimSpace (xr_href r) = pk_launch p) \<and>
     (\<forall>x \<in> set (preorder (pk_items p)). im_launch x \<noteq> [] \<longrightarrow>
        (\<exists>r \<in> set rs. xr_identifier r = im_ref x \<and> TrimSpace (xr_href r) = im_launch x)) \<and>
     pk_launch p = (case find (\<lambda>x. im_launch x \<noteq> []) (preorder (pk_items p)) of Some x \<Rightarrow> im_launch x
       | None \<Rightarrow> (case filter (\<lambda>r. scormType r = ''sco'' \<and> TrimSpace (xr_href r) \<noteq> []) rs of
           sco # _ \<Rightarrow> TrimSpace (xr_href sco)
         | [] \<Rightarrow> TrimSpace (xr_href (hd (filter (\<lambda>r. TrimSpace (xr_href r) \<noteq> []) rs)))))"

lemma find_filter_case: "find P xs = (case filter P xs of [] \<Rightarrow> None | x # _ \<Rightarrow> Some x)"
  by (induction xs) auto

lemma fallback_first:
  assumes "fallbackLaunchHref rs \<noteq> []"
  shows "fallbackLaunchHref rs = (case filter (\<lambda>r. scormType r = ''sco'' \<and> TrimSpace (xr_href r) \<noteq> []) rs of
      sco # _ \<Rightarrow> TrimSpace (xr_href sco) | [] \<Rightarrow> TrimSpace (xr_href (hd (filter (\<lambda>r. TrimSpace (xr_href r) \<noteq> []) rs))))"
  using assms unfolding fallbackLaunchHref_def find_filter_case by (auto split: list.splits)

definition launch_of :: "xmlManifest \<Rightarrow> xmlOrganization \<Rightarrow> string" where
  "launch_of m org = (let h = firstLaunchHref (convertItems (hrefByRef (xm_resources m)) (xo_items org)) in
     if h \<noteq> [] then h else fallbackLaunchHref (xm_resources m))"

lemma ParseManifest_Inr: "ParseManifest xml data = Inr p \<longleftrightarrow> TrimSpace data \<noteq> [] \<and> (\<exists>m v org. xml data = Inr m \<and> xm_root m = ''manifest'' \<and>
    detectVersion (xm_schemaversion m) = Inr v \<and> defaultOrganization m = Some org \<and> launch_of m org \<noteq> [] \<and>
    p = \<lparr>pk_version = v, pk_identifier = TrimSpace (xm_identifier m), pk_organization = TrimSpace (xo_identifier org),
      pk_title = normalizeSpace (xo_title org), pk_launch = launch_of m org,
      pk_mastery = firstMasteryScore (xo_items org), pk_items = convertItems (hrefByRef (xm_resources m)) (xo_items org)\<rparr>)"
proof -
  have "ParseManifest xml data = (if TrimSpace data = [] then Inl ErrEmptyManifest
      else (case xml data of Inl e \<Rightarrow> Inl (ErrInvalidManifest e) | Inr m \<Rightarrow>
        if xm_root m \<noteq> ''manifest'' then Inl (ErrInvalidManifest (''root element is <'' @ xm_root m @ ''>, expected <manifest>''))
        else (case detectVersion (xm_schemaversion m) of Inl e \<Rightarrow> Inl e | Inr v \<Rightarrow>
          (case defaultOrganization m of None \<Rightarrow> Inl ErrNoDefaultOrganization | Some org \<Rightarrow>
            if launch_of m org = [] then Inl ErrNoLaunchableResource
            else Inr \<lparr>pk_version = v, pk_identifier = TrimSpace (xm_identifier m), pk_organization = TrimSpace (xo_identifier org),
              pk_title = normalizeSpace (xo_title org), pk_launch = launch_of m org,
              pk_mastery = firstMasteryScore (xo_items org), pk_items = convertItems (hrefByRef (xm_resources m)) (xo_items org)\<rparr>))))"
    unfolding ParseManifest_def launch_of_def Let_def by (rule refl)
  then show ?thesis by (auto split: sum.splits option.splits if_splits)
qed

lemma parsed_launches:
  assumes "ParseManifest xml data = Inr p" "xml data = Inr m"
  shows "launches (xm_resources m) p"
proof -
  let ?rs = "xm_resources m"
  obtain org :: xmlOrganization where p: "pk_items p = convertItems (hrefByRef ?rs) (xo_items org)" "pk_launch p \<noteq> []"
      "pk_launch p = (if firstLaunchHref (pk_items p) \<noteq> [] then firstLaunchHref (pk_items p) else fallbackLaunchHref ?rs)"
  proof -
    obtain org :: xmlOrganization where "pk_items p = convertItems (hrefByRef ?rs) (xo_items org)" "pk_launch p = launch_of m org" "launch_of m org \<noteq> []"
      using assms unfolding ParseManifest_Inr by auto
    then show thesis using that[of org] by (simp add: launch_of_def Let_def)
  qed
  have "\<exists>r \<in> set ?rs. TrimSpace (xr_href r) = pk_launch p"
    using p first_launch_declared[of ?rs "xo_items org"] fallback_declared[of ?rs] by (auto split: if_splits)
  moreover have "\<exists>r \<in> set ?rs. xr_identifier r = im_ref x \<and> TrimSpace (xr_href r) = im_launch x"
    if "x \<in> set (preorder (pk_items p))" "im_launch x \<noteq> []" for x
    using that converted_items[of x "hrefByRef ?rs"] hrefByRef_declared[of ?rs "im_ref x"] p(1) by auto
  moreover have "pk_launch p = (case find (\<lambda>x. im_launch x \<noteq> []) (preorder (pk_items p)) of Some x \<Rightarrow> im_launch x
       | None \<Rightarrow> (case filter (\<lambda>r. scormType r = ''sco'' \<and> TrimSpace (xr_href r) \<noteq> []) ?rs of
           sco # _ \<Rightarrow> TrimSpace (xr_href sco)
         | [] \<Rightarrow> TrimSpace (xr_href (hd (filter (\<lambda>r. TrimSpace (xr_href r) \<noteq> []) ?rs)))))"
  proof (cases "find (\<lambda>x. im_launch x \<noteq> []) (preorder (pk_items p))")
    case None
    then have "pk_launch p = fallbackLaunchHref ?rs" using p(3) by (simp add: firstLaunchHref_preorder)
    then show ?thesis using None p(2) fallback_first[of ?rs] by simp
  next
    case (Some x)
    then show ?thesis using p(3) by (auto simp: firstLaunchHref_preorder dest!: find_SomeD)
  qed
  ultimately show ?thesis using p(2) by (auto simp: launches_def)
qed

lemma accepted_manifests: "(\<exists>p. ParseManifest xml data = Inr p) \<longleftrightarrow> launchable xml data"
proof
  assume "\<exists>p. ParseManifest xml data = Inr p"
  then obtain p m v where p: "ParseManifest xml data = Inr p" "xml data = Inr m" "TrimSpace data \<noteq> []" "xm_root m = ''manifest''"
      "detectVersion (xm_schemaversion m) = Inr v" "defaultOrganization m \<noteq> None"
    unfolding ParseManifest_Inr by auto
  have "\<exists>r \<in> set (xm_resources m). TrimSpace (xr_href r) \<noteq> []" using parsed_launches[OF p(1,2)] unfolding launches_def by metis
  then show "launchable xml data" using p default_organization(1)[of m] by (auto simp: launchable_def)
next
  assume "launchable xml data"
  then obtain m v r where m: "TrimSpace data \<noteq> []" "xml data = Inr m" "xm_root m = ''manifest''" "detectVersion (xm_schemaversion m) = Inr v"
      "xm_organizations m \<noteq> []" "r \<in> set (xm_resources m)" "TrimSpace (xr_href r) \<noteq> []"
    unfolding launchable_def by blast
  moreover obtain org where "defaultOrganization m = Some org" using m(5) default_organization(1) by blast
  moreover have "fallbackLaunchHref (xm_resources m) \<noteq> []" using m(6,7) by (auto simp: fallback_empty)
  ultimately show "\<exists>p. ParseManifest xml data = Inr p" unfolding ParseManifest_Inr by (simp add: launch_of_def Let_def)
qed

text \<open>
  C31: A manifest is accepted exactly when it is XML with a known schema version, an
  organization and a resource that has an href. The accepted package launches an href that a
  resource declares: that of the first item, in the order of the table of contents, that refers
  to a resource with an href, and otherwise that of the first SCO or else the first resource
  with one; and every item that launches something launches the href of the resource it refers
  to.
\<close>

theorem launchable_manifests:
  "((\<exists>p. ParseManifest xml data = Inr p) \<longleftrightarrow> launchable xml data) \<and>
   (\<forall>p m. ParseManifest xml data = Inr p \<and> xml data = Inr m \<longrightarrow> launches (xm_resources m) p)"
  using accepted_manifests parsed_launches by blast

end
