(* ===== verification/ScormRuns.thy ===== *)
theory ScormRuns
  imports ScormFacts
begin

text \<open>
  How an invariant of the SCORM tables passes the handlers and routes, how a commit and a launch run,
  and who changes packages.
\<close>

section \<open>How an invariant passes the routes\<close>

interpretation packages: item_table pd_packages put_packages
  by unfold_locales simp_all

lemma loaded_attempt:
  assumes "loadOwnAttempt i o' u s = (Inr a, t)"
  shows "t = s \<and> a \<in> set (pd_attempts s) \<and> sa_id a = i \<and> sa_learner a = u \<and> sa_org a = o'"
  using assms unfolding loadOwnAttempt_def m_run ScormAttemptRepo_Get_def visible_attempts_def
  by (auto simp: tab_select1_Inr h_guard_def h_return_def h_respond_def split: if_splits dest!: find_SomeD)

locale scorm_laws = module_state I for I :: "scormdb \<Rightarrow> bool" +
  fixes env :: scorm_env and may_delete :: "uuid \<Rightarrow> bool" and may_start :: "uuid \<Rightarrow> uuid \<Rightarrow> bool" and may_commit :: "uuid \<Rightarrow> bool"
  assumes create: "pq_title q \<noteq> [] \<Longrightarrow> pq_slug q \<noteq> [] \<Longrightarrow> ParseManifest (sc_xml env) (pq_manifest q) = Inr p \<Longrightarrow>
      tx_pres I (ScormPackageRepo_Create env o' u q p m)"
    and update: "uq_title w \<noteq> [] \<Longrightarrow> tx_pres I (ScormPackageRepo_Update i w)"
    and publish: "tx_pres I (ScormPackageRepo_SetPublished i b)"
    and delete: "may_delete i \<Longrightarrow> tx_pres I (ScormPackageRepo_Delete i)"
    and starting: "may_start pkg l \<Longrightarrow> tx_pres I (ScormAttemptRepo_StartOrResume o' pkg l)"
    and committing: "may_commit i \<Longrightarrow> I s \<Longrightarrow> a \<in> set (pd_attempts s) \<Longrightarrow> sa_id a = i \<Longrightarrow>
      I (snd (applyScormCommit env a els force s))"
begin

lemma pres_scormgate: "h_pres I (scormGate env oc)"
  unfolding scormGate_def by (rule pres_gate)

lemma pres_package: "h_pres I (getOrgPackage i oc)"
  unfolding getOrgPackage_def by (rule pres_item)

lemma pres_auditscorm: "h_pres I (auditScorm ac oc action resource i)"
  unfolding auditScorm_def by (rule pres_audit)

lemma pres_reads:
  "tx_pres I (ScormPackageRepo_ListByOrg o')" "tx_pres I (ScormAttemptRepo_ListForLearner l n)"
  "tx_pres I (ScormAttemptRepo_ListByPackage i n)" "tx_pres I (ScormAttemptRepo_Get i)"
  unfolding ScormPackageRepo_ListByOrg_def ScormAttemptRepo_ListForLearner_def ScormAttemptRepo_ListByPackage_def ScormAttemptRepo_Get_def
  by (intro pres_list tx_pres_gets tx_pres_select1)+

lemma pres_answer: "h_pres I (answer c j)"
  by (auto simp: answer_def h_post_def h_return_def aborted split: option.splits)

lemmas scorm_rules = mod_rules pres_scormgate pres_package pres_auditscorm pres_reads pres_answer publish

lemma pres_found: "(\<And>x. it_id x = i \<Longrightarrow> h_pres I (f x)) \<Longrightarrow> h_pres I (h_bind (getOrgPackage i oc) f)"
proof -
  assume f: "\<And>x. it_id x = i \<Longrightarrow> h_pres I (f x)"
  have "it_id x = i" if "getOrgPackage i oc s = (Inr x, t)" for s x t
    using that packages.org_item_Inr unfolding getOrgPackage_def by blast
  moreover have "I (snd (getOrgPackage i oc s))" if "I s" for s
    using that pres_package by (rule h_presD[rotated])
  ultimately have "I (snd (h_bind (getOrgPackage i oc) f s))" if "I s" for s
    using that h_presD[OF f] by (cases "getOrgPackage i oc s"; cases "fst (getOrgPackage i oc s)") (fastforce simp: h_bind_def)+
  then show ?thesis by (simp add: h_post_def)
qed

lemma pres_loaded:
  assumes f: "\<And>s a. I s \<Longrightarrow> a \<in> set (pd_attempts s) \<Longrightarrow> sa_id a = i \<Longrightarrow> I (snd (f a s))"
  shows "h_pres I (h_bind (loadOwnAttempt i o' u) f)"
proof -
  have "h_pres I (loadOwnAttempt i o' u)" unfolding loadOwnAttempt_def by (intro scorm_rules)
  then have "I (snd (loadOwnAttempt i o' u s))" if "I s" for s using that by (rule h_presD)
  then have "I (snd (h_bind (loadOwnAttempt i o' u) f s))" if "I s" for s
    using that f loaded_attempt[of i o' u s]
    by (cases "loadOwnAttempt i o' u s"; cases "fst (loadOwnAttempt i o' u s)") (fastforce simp: h_bind_def)+
  then show ?thesis by (simp add: h_post_def)
qed

lemma pres_create: "h_pres I (CreateScormPackage env ac oc body)"
proof (cases body)
  case (Some q)
  show ?thesis
  proof (cases "pq_title q = [] \<or> pq_slug q = [] \<or> pq_manifest q = []")
    case False
    then show ?thesis unfolding CreateScormPackage_def Some option.case if_not_P[OF False]
      by (intro h_pres_known_sum scorm_rules create; simp)
  qed (simp add: CreateScormPackage_def Some h_pres_respond)
qed (simp add: CreateScormPackage_def h_pres_respond)

lemma pres_update: "h_pres I (UpdateScormPackage env ac oc i body)"
proof (cases body)
  case (Some q)
  show ?thesis
  proof (cases "uq_title q = []")
    case False
    then show ?thesis unfolding UpdateScormPackage_def Some option.case if_not_P[OF False] by (intro scorm_rules update; simp)
  qed (simp add: UpdateScormPackage_def Some h_pres_respond)
qed (simp add: UpdateScormPackage_def h_pres_respond)

lemma pres_others:
  "h_pres I (GetScormSettings env oc)" "h_pres I (UpdateScormSettings ac oc b)" "h_pres I (ListScormCatalog env oc)"
  "h_pres I (ListMyScormAttempts env ac oc)" "h_pres I (ListScormPackages env oc)" "h_pres I (GetScormPackage env oc i)"
  "h_pres I (SetScormPackagePublished env ac oc i b)" "h_pres I (ScormPackageReport env oc i)"
  unfolding GetScormSettings_def UpdateScormSettings_def ListScormCatalog_def ListMyScormAttempts_def ListScormPackages_def
    GetScormPackage_def SetScormPackagePublished_def ScormPackageReport_def
  by (intro scorm_rules)+

lemma pres_delete: "may_delete i \<Longrightarrow> h_pres I (DeleteScormPackage env ac oc i)"
  unfolding DeleteScormPackage_def by (rule h_pres_bind[OF pres_scormgate], rule pres_found) (intro scorm_rules delete; simp)

lemma pres_launch: "may_start i (ac_user ac) \<Longrightarrow> h_pres I (LaunchScormPackage env ac oc i)"
  unfolding LaunchScormPackage_def by (rule h_pres_bind[OF pres_scormgate], rule pres_found) (intro scorm_rules starting; simp)

lemma guarded_commit:
  "may_commit i \<Longrightarrow> I s \<Longrightarrow> a \<in> set (pd_attempts s) \<Longrightarrow> sa_id a = i \<Longrightarrow>
    I (snd (h_bind (h_guard b r) (\<lambda>_. applyScormCommit env a els force) s))"
  by (simp add: h_bind_def h_guard_def h_return_def h_respond_def committing)

lemma pres_commit: "may_commit i \<Longrightarrow> h_pres I (CommitScormRuntime env ac oc i body)"
  unfolding CommitScormRuntime_def
  by (intro h_pres_option h_pres_if h_pres_respond h_pres_bind[OF pres_scormgate] pres_loaded guarded_commit)

lemma pres_finish: "may_commit i \<Longrightarrow> h_pres I (FinishScormAttempt env ac oc i els)"
  unfolding FinishScormAttempt_def by (intro h_pres_bind[OF pres_scormgate] pres_loaded committing)

lemma pres_handler:
  assumes "case a of ScormDelete i \<Rightarrow> may_delete i | ScormLaunch i \<Rightarrow> may_start i (ac_user ac)
    | ScormCommit i b \<Rightarrow> may_commit i | ScormFinish i els \<Rightarrow> may_commit i | _ \<Rightarrow> True"
  shows "h_pres I (scorm_handler env ac oc a)"
  using assms by (cases a) (simp_all add: pres_create pres_update pres_others pres_delete pres_launch pres_commit pres_finish)

lemma pres_request:
  "(case a of ScormDelete i \<Rightarrow> may_delete i | ScormLaunch i \<Rightarrow> may_start i (ac_user ac)
    | ScormCommit i b \<Rightarrow> may_commit i | ScormFinish i els \<Rightarrow> may_commit i | _ \<Rightarrow> True) \<Longrightarrow>
    h_pres I (scorm_request env ac slug a)"
  unfolding scorm_request_def by (rule pres_route) (rule pres_handler)

end

section \<open>How a commit runs\<close>

definition summary :: "Version \<Rightarrow> (string \<times> string) list \<Rightarrow> scorm_attempt \<Rightarrow> RuntimeState" where
  "summary v els a = Summarize v (merge_elements els (cmi_elements (sa_cmi a)))"

lemma pkgVersionOf_run:
  assumes "pkgVersionOf a s = (v, t)"
  obtains (found) p where "p \<in> set (pd_packages s)" "it_id p = sa_package a" "v = Inr (Some (sk_version p))" "t = s" "\<not> a_aborted (md_adb s)"
  | (lost) e where "v = Inr None" "t = m_abort e s"
proof (cases "fst (msql_attempt (ScormPackageRepo_Get (sa_package a)) s)")
  case (Inl r)
  then show ?thesis using msql_attempt_run(3) by (metis prod.collapse)
next
  case (Inr r)
  show ?thesis
  proof (cases r)
    case (Inl e)
    then have "msql_attempt (ScormPackageRepo_Get (sa_package a)) s = (Inr (Inl e), m_abort e s)"
      using Inr msql_attempt_run(2)[of "ScormPackageRepo_Get (sa_package a)" s e] by (metis prod.collapse)
    then show ?thesis using assms lost by (auto simp: pkgVersionOf_def h_bind_def h_return_def)
  next
    case (Inr p)
    then obtain t' where run: "msql_attempt (ScormPackageRepo_Get (sa_package a)) s = (Inr (Inr p), t')"
      using \<open>fst _ = Inr r\<close> by (metis prod.collapse)
    then have "\<not> a_aborted (md_adb s)" "item_get pd_packages (sa_package a) s = Inr (p, t')"
      by (simp_all add: msql_attempt_run ScormPackageRepo_Get_def)
    then show ?thesis using assms run packages.get_Inr[of "sa_package a" s p t'] found[of p]
      by (auto simp: pkgVersionOf_def h_bind_def h_return_def)
  qed
qed

lemma apply_run:
  assumes "applyScormCommit env a els force s = (v, t)"
  obtains (early) r where "v = Inl r" "400 \<le> http_status r" "t = s \<or> (\<exists>e. t = m_abort e s)"
  | (stored) p b t' where "p \<in> set (pd_packages s)" "it_id p = sa_package a" "refused_element (sk_version p) els = None"
      "ScormAttemptRepo_Commit env (sa_id a) (summary (sk_version p) els a) (cmi_json (merge_elements els (cmi_elements (sa_cmi a))))
         (rs_complete (summary (sk_version p) els a) \<or> force) s = Inr (b, t')" "\<not> a_aborted (md_adb s)"
      "(v, t) = answer 200 (map_option (\<lambda>j. JObj [(''attempt'', j)]) (attempt_json env b)) t'"
proof (cases "pkgVersionOf a s")
  case (Pair w u)
  then show ?thesis
  proof (cases rule: pkgVersionOf_run)
    case (found p)
    show ?thesis
    proof (cases "refused_element (sk_version p) els")
      case None
      let ?m = "ScormAttemptRepo_Commit env (sa_id a) (summary (sk_version p) els a) (cmi_json (merge_elements els (cmi_elements (sa_cmi a))))
         (rs_complete (summary (sk_version p) els a) \<or> force)"
      from assms Pair found None have run: "h_bind (msql ?m (\<lambda>_. RespErr 500 ''could not save runtime state'')) (\<lambda>b.
           answer 200 (map_option (\<lambda>j. JObj [(''attempt'', j)]) (attempt_json env b))) s = (v, t)"
        unfolding applyScormCommit_def by (simp add: h_bind_def Let_def summary_def)
      show ?thesis
      proof (cases "?m s")
        case (Inl e)
        with run found have "v = Inl (RespErr 500 ''could not save runtime state'')" "t = m_abort e s"
          by (auto simp: h_bind_def msql_def msql_attempt_def h_respond_def)
        then show ?thesis by (intro early[of "RespErr 500 ''could not save runtime state''"]) auto
      next
        case (Inr bt)
        with run found have "(v, t) = answer 200 (map_option (\<lambda>j. JObj [(''attempt'', j)]) (attempt_json env (fst bt))) (snd bt)"
          by (simp add: h_bind_def msql_def msql_attempt_def h_return_def split_beta)
        then show ?thesis using Inr found None stored[of p "fst bt" "snd bt"] by simp
      qed
    next
      case (Some e)
      then show ?thesis using assms Pair found early by (auto simp: applyScormCommit_def h_bind_def h_respond_def)
    qed
  next
    case (lost e)
    then have "v = Inl (RespErr 500 ''internal error'')" "t = m_abort e s"
      using assms Pair by (auto simp: applyScormCommit_def h_bind_def h_respond_def)
    then show ?thesis by (intro early[of "RespErr 500 ''internal error''"]) auto
  qed
qed

lemma answer_state: "(v, t) = answer c j s \<Longrightarrow> t = s \<or> t = m_abort ErrStorage s"
  by (auto simp: answer_def h_return_def split: option.splits)

lemma apply_keeps:
  fixes I :: "scormdb \<Rightarrow> bool"
  assumes "module_state I" "\<And>i u c f. tx_pres I (ScormAttemptRepo_Commit env i u c f)" "I s"
  shows "I (snd (applyScormCommit env a els force s))"
proof (cases "applyScormCommit env a els force s")
  case (Pair v t)
  then have "I t"
  proof (cases rule: apply_run)
    case (early r) then show ?thesis using assms(3) module_state.aborted[OF assms(1)] by blast
  next
    case (stored p b t')
    then have "I t'" using tx_postD[OF assms(2) stored(4) assms(3)] by simp
    then show ?thesis using answer_state[OF stored(6)] module_state.aborted[OF assms(1)] by blast
  qed
  then show ?thesis using Pair by simp
qed

lemma start_run:
  assumes "ScormAttemptRepo_StartOrResume o' pkg l s = Inr (a, t)"
  obtains (resumed) "t = s" "\<not> sa_complete a" "a \<in> set (pd_attempts s)" "sa_package a = pkg" "sa_learner a = l"
  | (started) n where "insert_attempt o' pkg l n s = Inr (a, t)"
      "newest sa_number (visible_attempts (\<lambda>a. sa_package a = pkg \<and> sa_learner a = l) s) = [] \<and> n = 1 \<or>
       (\<exists>p r. newest sa_number (visible_attempts (\<lambda>a. sa_package a = pkg \<and> sa_learner a = l) s) = p # r \<and> sa_complete p \<and> n = sa_number p + 1)"
proof (cases "newest sa_number (visible_attempts (\<lambda>a. sa_package a = pkg \<and> sa_learner a = l) s)")
  case Nil
  then have "tx_found (ScormAttemptRepo_latest pkg l) s = Inr (None, s)"
    by (simp add: tx_found_def ScormAttemptRepo_latest_def)
  with assms have "insert_attempt o' pkg l 1 s = Inr (a, t)" by (simp add: ScormAttemptRepo_StartOrResume_def tx_bind_Inr)
  then show ?thesis using Nil started[of 1] by blast
next
  case (Cons p r)
  then have "p \<in> set (newest sa_number (visible_attempts (\<lambda>a. sa_package a = pkg \<and> sa_learner a = l) s))" by simp
  then have "p \<in> set (pd_attempts s)" "sa_package p = pkg" "sa_learner p = l" by (auto simp: newest_def visible_attempts_def)
  moreover have "tx_found (ScormAttemptRepo_latest pkg l) s = Inr (Some p, s)"
    using Cons by (simp add: tx_found_def ScormAttemptRepo_latest_def)
  with assms have "(if \<not> sa_complete p then tx_return p else insert_attempt o' pkg l (sa_number p + 1)) s = Inr (a, t)"
    by (simp add: ScormAttemptRepo_StartOrResume_def tx_bind_Inr)
  ultimately show ?thesis using Cons started[of "sa_number p + 1"] resumed
    by (cases "sa_complete p") (auto simp: tx_return_def)
qed

lemma insert_attempt_Inr: "insert_attempt o' pkg l n s = Inr (a, t) \<longleftrightarrow>
    a = fresh_attempt (a_next (md_adb s)) o' pkg l n (a_clock (md_adb s)) \<and> int4 n \<and> row_addable (md_adb s) l o' \<and>
    (\<exists>r \<in> set (pd_packages s). it_id r = pkg) \<and>
    (\<forall>b \<in> set (pd_attempts s). \<not> (sa_package b = pkg \<and> sa_learner b = l \<and> sa_number b = n)) \<and>
    t = s\<lparr>pd_attempts := pd_attempts s @ [a], md_adb := (md_adb s)\<lparr>a_next := Suc (a_next (md_adb s))\<rparr>\<rparr>"
  by (auto simp: insert_attempt_def Let_def)

lemma commit_run:
  assumes "ScormAttemptRepo_Commit env i u c fin s = Inr (b, t)"
  obtains j where "sc_jsonb env c = Some j" "int4 (rs_seconds u)"
    "t = s\<lparr>pd_attempts := map (\<lambda>a. if row_mine (md_adb s) (sa_learner a) \<and> sa_id a = i
       then committed u j fin (a_clock (md_adb s)) a else a) (pd_attempts s)\<rparr>"
    "\<exists>a \<in> set (pd_attempts s). row_mine (md_adb s) (sa_learner a) \<and> sa_id a = i \<and> b = committed u j fin (a_clock (md_adb s)) a"
    "\<forall>a \<in> set (pd_attempts s). row_mine (md_adb s) (sa_learner a) \<and> sa_id a = i \<longrightarrow>
       int4 (sa_total a + session_growth (rs_seconds u) (sa_session a))"
  using assms by (auto simp: ScormAttemptRepo_Commit_def Let_def tab_update_Inr split: if_splits option.splits dest!: find_SomeD)

section \<open>Who changes packages\<close>

interpretation taught_packages: scorm_laws "untaught pd_packages o' s0" env "\<lambda>_. True" "\<lambda>_ _. True" "\<lambda>_. True" for o' s0 env
proof (rule scorm_laws.intro[OF packages.untaught_state], unfold_locales, goal_cases)
  case (1 q p o'' u m)
  then show ?case by (simp add: ScormPackageRepo_Create_def packages.insert_untaught tx_pres_throw split: option.splits)
next
  case (2 w i)
  then show ?case by (simp add: ScormPackageRepo_Update_def packages.update_untaught)
next
  case (3 i b)
  then show ?case by (simp add: ScormPackageRepo_SetPublished_def packages.update_untaught)
next
  case (4 i)
  show ?case unfolding ScormPackageRepo_Delete_def
    by (rule tx_pres_bind[OF packages.delete_untaught]) (auto simp: tx_post_def untaught_def items_of_def)
next
  case (5 pkg l o'')
  show ?case
  proof (rule tx_postI)
    fix s a t assume I: "untaught pd_packages o' s0 s" and "ScormAttemptRepo_StartOrResume o'' pkg l s = Inr (a, t)"
    from this(2) show "untaught pd_packages o' s0 t"
      by (cases rule: start_run)
        (use I in \<open>auto simp: insert_attempt_Inr untaught_def items_of_def intro: adb_quiet_trans[OF _ quiet_next]\<close>)
  qed
next
  case (6 i s a els force)
  then show ?case
    by (intro apply_keeps[OF packages.untaught_state]) (auto simp: tx_post_def untaught_def items_of_def elim!: commit_run)
qed

lemma any_scorm_request: "case a of ScormDelete i \<Rightarrow> True | ScormLaunch i \<Rightarrow> True | ScormCommit i b \<Rightarrow> True | ScormFinish i els \<Rightarrow> True | _ \<Rightarrow> True"
  by (cases a) simp_all

theorem packages_are_taught:
  assumes "\<not> is_org_teacher (md_adb s) (ac_user ac) o'"
  shows "items_of pd_packages o' (snd (mserve (ac_user ac) (scorm_request env ac slug a) s)) = items_of pd_packages o' s"
  by (rule packages.mserve_untaught[OF taught_packages.pres_request[OF any_scorm_request] assms])

end
