(* ===== verification/ScormKept.thy ===== *)
theory ScormKept
  imports ScormRuns
begin

text \<open>
  The state the SCORM routes keep: the numbering and completion of attempts, and the elements they
  hold. With it, what a launch gives and what a commit stores.
\<close>

section \<open>Elements\<close>

abbreviation sorted_keys :: "(string \<times> 'a) list \<Rightarrow> bool" where
  "sorted_keys m \<equiv> sorted_wrt (<) (map fst m)"

text \<open>What PostgreSQL documents of \<^verbatim>\<open>jsonb\<close>: an object of strings that it stores reads back with
  the same keys and strings. (It refuses some texts, and it does not keep the order of keys.)\<close>

definition keeps_texts :: "(json \<Rightarrow> json option) \<Rightarrow> bool" where
  "keeps_texts store \<longleftrightarrow> (\<forall>m j. sorted_keys m \<longrightarrow> store (cmi_json m) = Some j \<longrightarrow> cmi_elements j = m)"

lemma texts_of_sorted: "texts_of kvs m = Some m' \<Longrightarrow> sorted_keys m \<Longrightarrow> sorted_keys m'"
  by (induction kvs m rule: texts_of.induct) (auto simp: put_key_sorted split: json.splits)

lemma cmi_elements_sorted: "sorted_keys (cmi_elements j)"
  by (auto simp: cmi_elements_def dest: texts_of_sorted split: json.splits option.splits)

lemma cmi_elements_empty [simp]: "cmi_elements (JObj []) = []"
  by (simp add: cmi_elements_def)

lemma merge_sorted: "sorted_keys m \<Longrightarrow> sorted_keys (merge_elements els m)"
  unfolding merge_elements_def by (induction els arbitrary: m) (auto simp: put_key_sorted)

lemma merge_subset: "set (merge_elements els m) \<subseteq> set els \<union> set m"
proof (induction els arbitrary: m)
  case (Cons e els)
  show ?case using Cons[of "put_key (fst e) (snd e) m"] put_key_keys[of "fst e" "snd e" m]
    by (auto simp: merge_elements_def split_beta)
qed (simp add: merge_elements_def)

lemma texts_of_strings: "sorted_keys (acc @ m) \<Longrightarrow> texts_of (map (\<lambda>(k, x). (k, JStr x)) m) acc = Some (acc @ m)"
proof (induction m arbitrary: acc)
  case (Cons e m)
  then have "put_key (fst e) (snd e) acc = acc @ [e]" by (simp add: put_key_last sorted_wrt_append)
  then show ?case using Cons.IH[of "acc @ [e]"] Cons.prems by (cases e) simp
qed simp

lemma cmi_elements_json: "sorted_keys m \<Longrightarrow> cmi_elements (cmi_json m) = m"
  using texts_of_strings[of "[]" m] by (simp add: cmi_elements_def cmi_json_def)

lemma keeps_texts_Some: "keeps_texts Some"
  by (simp add: keeps_texts_def cmi_elements_json)

lemma map_of_put_key: "sorted_keys m \<Longrightarrow> map_of (put_key k x m) = (map_of m)(k \<mapsto> x)"
  by (induction k x m rule: put_key.induct) (auto simp: fun_upd_twist)

lemma merged_element: "sorted_keys m \<Longrightarrow> map_of (merge_elements els m) k =
    (case map_of (rev els) k of Some x \<Rightarrow> Some x | None \<Rightarrow> map_of m k)"
proof (induction els arbitrary: m)
  case (Cons e els)
  have "merge_elements (e # els) m = merge_elements els (put_key (fst e) (snd e) m)"
    by (simp add: merge_elements_def split_beta)
  then show ?case using Cons.IH[OF put_key_sorted[OF Cons.prems], of "fst e" "snd e"] Cons.prems
    by (cases e) (auto simp: map_of_put_key map_add_def split: option.splits)
qed (simp add: merge_elements_def)

lemma unrefused: "refused_element v els = None \<longleftrightarrow> (\<forall>(k, x) \<in> set els. ValidateElement v k x = None)"
  by (induction v els rule: refused_element.induct) (auto split: option.splits)

section \<open>Attempts\<close>

definition runs_of :: "uuid \<Rightarrow> uuid \<Rightarrow> scormdb \<Rightarrow> scorm_attempt list" where
  "runs_of pkg l s = filter (\<lambda>a. sa_package a = pkg \<and> sa_learner a = l) (pd_attempts s)"

text \<open>Attempts are numbered from one, and all but the last are complete.\<close>

definition in_sequence :: "scorm_attempt list \<Rightarrow> bool" where
  "in_sequence xs \<longleftrightarrow> map sa_number xs = map int [1..<Suc (length xs)] \<and> (\<forall>a \<in> set (butlast xs). sa_complete a)"

text \<open>A row of an attempt: it belongs to a package, whose version allows every element it holds, and is
  complete exactly when it has a time of completion.\<close>

definition attempt_ok :: "scorm_package list \<Rightarrow> scorm_attempt \<Rightarrow> bool" where
  "attempt_ok ps a \<longleftrightarrow> (\<exists>p \<in> set ps. it_id p = sa_package a \<and>
       (\<forall>(k, x) \<in> set (cmi_elements (sa_cmi a)). ValidateElement (sk_version p) k x = None)) \<and>
     (sa_complete a \<longleftrightarrow> sa_completed a \<noteq> None) \<and> int4 (sa_total a)"

definition package_ok :: "scorm_package \<Rightarrow> bool" where
  "package_ok r \<longleftrightarrow> it_title r \<noteq> [] \<and> it_slug r \<noteq> [] \<and> sk_launch r \<noteq> []"

definition scorm_ok :: "scormdb \<Rightarrow> bool" where
  "scorm_ok s \<longleftrightarrow> items_ok package_ok (a_next (md_adb s)) (pd_packages s) \<and>
     distinct (map sa_id (pd_attempts s)) \<and> (\<forall>a \<in> set (pd_attempts s). sa_id a < a_next (md_adb s) \<and> attempt_ok (pd_packages s) a) \<and>
     (\<forall>pkg l. in_sequence (runs_of pkg l s))"

lemma in_sequence_Nil [simp]: "in_sequence []"
  by (simp add: in_sequence_def)

lemma in_sequence_snoc: "in_sequence xs \<Longrightarrow> \<forall>a \<in> set xs. sa_complete a \<Longrightarrow> sa_number a = int (length xs) + 1 \<Longrightarrow> in_sequence (xs @ [a])"
  by (simp add: in_sequence_def)

lemma in_sequence_map:
  "in_sequence xs \<Longrightarrow> (\<And>a. sa_number (f a) = sa_number a) \<Longrightarrow> (\<And>a. sa_complete a \<Longrightarrow> sa_complete (f a)) \<Longrightarrow> in_sequence (map f xs)"
  by (auto simp: in_sequence_def comp_def map_butlast[symmetric])

lemma insort_last: "\<forall>y \<in> set ys. f y < f x \<Longrightarrow> insort_key f x ys = ys @ [x]"
  by (induction ys) auto

lemma newest_rising: "sorted_wrt (<) (map k xs) \<Longrightarrow> newest k xs = rev xs"
  by (induction xs) (auto simp: newest_def insort_last)

lemma newest_attempt: "in_sequence xs \<Longrightarrow> newest sa_number xs = rev xs"
  by (rule newest_rising) (simp add: in_sequence_def sorted_wrt_map del: upt_Suc)

lemma mine_visible: "row_mine (md_adb s) l \<Longrightarrow> visible_attempts (\<lambda>a. sa_package a = pkg \<and> sa_learner a = l) s = runs_of pkg l s"
  unfolding visible_attempts_def runs_of_def row_visible_def by (auto intro: filter_cong)

text \<open>A launch resumes the last attempt, or starts the next one when all are complete.\<close>

lemma start_sequence:
  assumes "ScormAttemptRepo_StartOrResume o' pkg l s = Inr (a, t)" "row_mine (md_adb s) l" "scorm_ok s"
  obtains "t = s" "runs_of pkg l s \<noteq> []" "a = last (runs_of pkg l s)" "\<not> sa_complete a"
  | "insert_attempt o' pkg l (int (length (runs_of pkg l s)) + 1) s = Inr (a, t)" "\<forall>b \<in> set (runs_of pkg l s). sa_complete b"
proof -
  let ?xs = "runs_of pkg l s"
  have seq: "in_sequence ?xs" using assms(3) by (simp add: scorm_ok_def)
  have latest: "newest sa_number (visible_attempts (\<lambda>a. sa_package a = pkg \<and> sa_learner a = l) s) = rev ?xs"
    using newest_attempt[OF seq] mine_visible[OF assms(2)] by simp
  show thesis
  proof (cases ?xs rule: rev_cases)
    case Nil
    with latest have "tx_found (ScormAttemptRepo_latest pkg l) s = Inr (None, s)"
      by (simp add: tx_found_def ScormAttemptRepo_latest_def)
    with assms(1) have "insert_attempt o' pkg l 1 s = Inr (a, t)" by (simp add: ScormAttemptRepo_StartOrResume_def tx_bind_Inr)
    then show thesis using Nil that(2) by simp
  next
    case (snoc ys p)
    with latest have "tx_found (ScormAttemptRepo_latest pkg l) s = Inr (Some p, s)"
      by (simp add: tx_found_def ScormAttemptRepo_latest_def)
    with assms(1) have run: "(if \<not> sa_complete p then tx_return p else insert_attempt o' pkg l (sa_number p + 1)) s = Inr (a, t)"
      by (simp add: ScormAttemptRepo_StartOrResume_def tx_bind_Inr)
    have p: "sa_number p = int (length ?xs)" "\<forall>b \<in> set ys. sa_complete b" using seq snoc by (simp_all add: in_sequence_def)
    show thesis
    proof (cases "sa_complete p")
      case True
      show thesis by (rule that(2)) (use run True p snoc in simp_all)
    next
      case False
      show thesis by (rule that(1)) (use run False snoc in \<open>simp_all add: tx_return_def\<close>)
    qed
  qed
qed

section \<open>The invariant\<close>

definition runs_ok :: "scorm_env \<Rightarrow> uuid \<Rightarrow> scormdb \<Rightarrow> bool" where
  "runs_ok env u s \<longleftrightarrow> keeps_texts (sc_jsonb env) \<and> scorm_ok s \<and> row_mine (md_adb s) u"

lemma runs_of_simps [simp]:
  "runs_of pkg l (s\<lparr>md_adb := a\<rparr>) = runs_of pkg l s" "runs_of pkg l (s\<lparr>md_on := f\<rparr>) = runs_of pkg l s"
  "runs_of pkg l (put_packages xs s) = runs_of pkg l s"
  by (simp_all add: runs_of_def)

lemma attempt_ok_packages:
  "attempt_ok ps a \<Longrightarrow> (\<And>p. p \<in> set ps \<Longrightarrow> it_id p = sa_package a \<Longrightarrow> \<exists>q \<in> set qs. it_id q = it_id p \<and> sk_version q = sk_version p) \<Longrightarrow>
    attempt_ok qs a"
  unfolding attempt_ok_def by metis

lemma runs_state: "module_state (runs_ok env u)"
proof (unfold_locales, goal_cases)
  case (1 s a)
  then show ?case by (auto simp: runs_ok_def scorm_ok_def quiet_policies(3)[OF 1(2)] adb_quiet_def intro: items_ok_less)
next
  case (2 s f)
  then show ?case by (simp add: runs_ok_def scorm_ok_def)
qed

text \<open>Statements that change packages only, and keep the version of each.\<close>

lemma packages_changed:
  assumes "scorm_ok s" "items_ok package_ok (a_next (md_adb t)) (pd_packages t)" "pd_attempts t = pd_attempts s"
    and "a_next (md_adb s) \<le> a_next (md_adb t)"
    and "\<And>p. p \<in> set (pd_packages s) \<Longrightarrow> \<exists>q \<in> set (pd_packages t). it_id q = it_id p \<and> sk_version q = sk_version p"
  shows "scorm_ok t"
proof -
  have "runs_of pkg l t = runs_of pkg l s" for pkg l by (simp add: runs_of_def assms(3))
  moreover have "attempt_ok (pd_packages t) a" if "a \<in> set (pd_attempts s)" for a
    using that assms(1) by (intro attempt_ok_packages[OF _ assms(5)]) (simp_all add: scorm_ok_def)
  ultimately show ?thesis using assms(1-4) by (auto simp: scorm_ok_def intro: less_le_trans)
qed

lemma package_created:
  assumes "pq_title q \<noteq> []" "pq_slug q \<noteq> []" "ParseManifest (sc_xml env) (pq_manifest q) = Inr p"
  shows "tx_pres (runs_ok env' u) (ScormPackageRepo_Create env o' c q p m)"
proof (rule tx_postI)
  fix s r t assume ok: "runs_ok env' u s" and create: "ScormPackageRepo_Create env o' c q p m s = Inr (r, t)"
  obtain mk where run: "item_insert pd_packages put_packages mk s = Inr (r, t)"
      and mk: "\<And>i c. it_id (mk i c) = i" "\<And>i c. it_title (mk i c) = pq_title q" "\<And>i c. it_slug (mk i c) = pq_slug q"
        "\<And>i c. sk_launch (mk i c) = pk_launch p"
  proof (cases "sc_jsonb env m")
    case None then show thesis using create by (simp add: ScormPackageRepo_Create_def tx_throw_def)
  next
    case (Some j)
    show thesis using create unfolding ScormPackageRepo_Create_def Some option.case by (rule that) simp_all
  qed
  from assms(3) have "pk_launch p \<noteq> []" by (auto simp: ParseManifest_Inr)
  then have "items_ok package_ok (a_next (md_adb t)) (pd_packages t)"
    using packages.insert_ok[OF run, of package_ok] ok mk assms(1,2) by (simp add: runs_ok_def scorm_ok_def package_ok_def)
  moreover have t: "t = put_packages (pd_packages s @ [r]) (s\<lparr>md_adb := (md_adb s)\<lparr>a_next := Suc (a_next (md_adb s))\<rparr>\<rparr>)"
    using run by (simp add: packages.insert_Inr)
  ultimately have "scorm_ok t" using ok by (intro packages_changed[of s t]) (auto simp: runs_ok_def)
  then show "runs_ok env' u t" using ok by (simp add: runs_ok_def t row_mine_def)
qed

lemma package_updated:
  assumes "\<And>c r. it_id (f c r) = it_id r" "\<And>c r. it_org (f c r) = it_org r" "\<And>c r. it_slug (f c r) = it_slug r"
    and "\<And>c r. package_ok r \<Longrightarrow> package_ok (f c r)" "\<And>c r. sk_version (f c r) = sk_version r"
  shows "tx_pres (runs_ok env u) (item_update pd_packages put_packages i f)"
proof (rule tx_postI)
  fix s r t assume ok: "runs_ok env u s" and run: "item_update pd_packages put_packages i f s = Inr (r, t)"
  define g where "g = (\<lambda>r. if teaches (md_adb s) (it_org r) \<and> it_id r = i then f (a_clock (md_adb s)) r else r)"
  have g: "it_id (g r) = it_id r" "sk_version (g r) = sk_version r" for r using assms(1,5) by (simp_all add: g_def)
  have t: "t = put_packages (map g (pd_packages s)) s" using packages.update_Inr[OF run] by (simp add: g_def)
  have s: "scorm_ok s" using ok by (simp add: runs_ok_def)
  then have items: "items_ok package_ok (a_next (md_adb t)) (pd_packages t)"
    by (intro packages.update_ok[OF run]) (simp_all add: assms scorm_ok_def)
  have "\<exists>q \<in> set (map g (pd_packages s)). it_id q = it_id p \<and> sk_version q = sk_version p" if "p \<in> set (pd_packages s)" for p
    using that by (intro bexI[of _ "g p"]) (simp_all add: g)
  then have "scorm_ok t" by (intro packages_changed[OF s items]) (simp_all add: t)
  then show "runs_ok env u t" using ok by (simp add: runs_ok_def t)
qed

lemma package_deleted: "tx_pres (runs_ok env u) (ScormPackageRepo_Delete i)"
proof (rule tx_postI)
  fix s r t assume ok: "runs_ok env u s" and "ScormPackageRepo_Delete i s = Inr (r, t)"
  then obtain t' where run: "item_delete pd_packages put_packages i s = Inr ((), t')"
      and t: "t = t'\<lparr>pd_attempts := filter (\<lambda>a. sa_package a \<noteq> i) (pd_attempts t')\<rparr>"
    by (auto simp: ScormPackageRepo_Delete_def tx_bind_Inr tx_modify_def)
  have t': "t' = put_packages (filter (\<lambda>r. \<not> (teaches (md_adb s) (it_org r) \<and> it_id r = i)) (pd_packages s)) s"
    using packages.delete_Inr[OF run] .
  have s: "scorm_ok s" "keeps_texts (sc_jsonb env)" "row_mine (md_adb s) u" using ok by (simp_all add: runs_ok_def)
  have rows: "pd_attempts t = filter (\<lambda>a. sa_package a \<noteq> i) (pd_attempts s)" "md_adb t = md_adb s" by (simp_all add: t t')
  have seq: "in_sequence (runs_of pkg l t)" for pkg l
  proof -
    have "runs_of pkg l t = (if pkg = i then [] else runs_of pkg l s)"
      unfolding runs_of_def rows filter_filter by (auto intro: filter_cong)
    then show ?thesis using s(1) by (simp add: scorm_ok_def)
  qed
  have here: "p \<in> set (pd_packages t)" if "p \<in> set (pd_packages s)" "it_id p \<noteq> i" for p using that by (simp add: t t')
  have valid: "attempt_ok (pd_packages t) a" if a: "a \<in> set (pd_attempts s)" "sa_package a \<noteq> i" for a
  proof (rule attempt_ok_packages)
    show "attempt_ok (pd_packages s) a" using a(1) s(1) by (simp add: scorm_ok_def)
    fix p assume "p \<in> set (pd_packages s)" "it_id p = sa_package a"
    then show "\<exists>q \<in> set (pd_packages t). it_id q = it_id p \<and> sk_version q = sk_version p" using here a(2) by metis
  qed
  have items: "items_ok package_ok (a_next (md_adb t)) (pd_packages t)"
    using packages.delete_ok[OF run] s(1) by (simp add: scorm_ok_def t)
  show "runs_ok env u t"
    unfolding runs_ok_def scorm_ok_def using s items seq valid by (simp add: rows scorm_ok_def distinct_map_filter)
qed

lemma attempt_started: "tx_pres (runs_ok env u) (ScormAttemptRepo_StartOrResume o' pkg u)"
proof (rule tx_postI)
  fix s a t assume ok: "runs_ok env u s" and run: "ScormAttemptRepo_StartOrResume o' pkg u s = Inr (a, t)"
  from ok have s: "scorm_ok s" "row_mine (md_adb s) u" by (simp_all add: runs_ok_def)
  from run s(2,1) show "runs_ok env u t"
  proof (cases rule: start_sequence)
    case 1 then show ?thesis using ok by simp
  next
    case 2
    then have a: "sa_number a = int (length (runs_of pkg u s)) + 1" "sa_id a = a_next (md_adb s)" "sa_package a = pkg"
        "sa_learner a = u" "sa_cmi a = JObj []" "\<not> sa_complete a" "sa_completed a = None" "sa_total a = 0"
      and p: "\<exists>r \<in> set (pd_packages s). it_id r = pkg"
      and t: "t = s\<lparr>pd_attempts := pd_attempts s @ [a], md_adb := (md_adb s)\<lparr>a_next := Suc (a_next (md_adb s))\<rparr>\<rparr>"
      by (simp_all add: insert_attempt_Inr fresh_attempt_def)
    have "runs_of pkg' l t = (if pkg' = pkg \<and> l = u then runs_of pkg' l s @ [a] else runs_of pkg' l s)" for pkg' l
      using a by (auto simp: runs_of_def t)
    then have "in_sequence (runs_of pkg' l t)" for pkg' l
      using s(1) 2(2) a(1) by (auto simp: scorm_ok_def intro!: in_sequence_snoc)
    moreover have "attempt_ok (pd_packages s) a" using a p by (simp add: attempt_ok_def int4_def)
    ultimately show ?thesis using ok a(2) by (fastforce simp: runs_ok_def scorm_ok_def t row_mine_def intro: items_ok_less)
  qed
qed

lemma committed_keeps [simp]:
  "sa_id (committed u j f c a) = sa_id a" "sa_number (committed u j f c a) = sa_number a" "sa_package (committed u j f c a) = sa_package a"
  "sa_learner (committed u j f c a) = sa_learner a" "sa_org (committed u j f c a) = sa_org a" "sa_cmi (committed u j f c a) = j"
  "sa_complete (committed u j f c a) \<longleftrightarrow> sa_complete a \<or> f"
  "sa_completed (committed u j f c a) = (case sa_completed a of Some d \<Rightarrow> Some d | None \<Rightarrow> if f then Some c else None)"
  "sa_total (committed u j f c a) = sa_total a + session_growth (rs_seconds u) (sa_session a)"
  by (simp_all add: committed_def)

lemma attempt_committed:
  assumes "runs_ok env u s" "a \<in> set (pd_attempts s)" "p \<in> set (pd_packages s)" "it_id p = sa_package a"
    and "refused_element (sk_version p) els = None"
    and run: "ScormAttemptRepo_Commit env (sa_id a) w (cmi_json (merge_elements els (cmi_elements (sa_cmi a)))) fin s = Inr (b, t)"
  shows "runs_ok env u t"
proof -
  from assms(1) have s: "keeps_texts (sc_jsonb env)" "scorm_ok s" "row_mine (md_adb s) u" by (simp_all add: runs_ok_def)
  let ?m = "merge_elements els (cmi_elements (sa_cmi a))"
  from run obtain j where j: "sc_jsonb env (cmi_json ?m) = Some j"
    and t: "t = s\<lparr>pd_attempts := map (\<lambda>a'. if row_mine (md_adb s) (sa_learner a') \<and> sa_id a' = sa_id a
       then committed w j fin (a_clock (md_adb s)) a' else a') (pd_attempts s)\<rparr>"
    and bound: "\<forall>a' \<in> set (pd_attempts s). row_mine (md_adb s) (sa_learner a') \<and> sa_id a' = sa_id a \<longrightarrow>
       int4 (sa_total a' + session_growth (rs_seconds w) (sa_session a'))"
    by (rule commit_run)
  define g where "g = (\<lambda>a'. if row_mine (md_adb s) (sa_learner a') \<and> sa_id a' = sa_id a then committed w j fin (a_clock (md_adb s)) a' else a')"
  have t: "t = s\<lparr>pd_attempts := map g (pd_attempts s)\<rparr>" by (simp add: t g_def)
  have g: "sa_id (g x) = sa_id x" "sa_number (g x) = sa_number x" "sa_package (g x) = sa_package x" "sa_learner (g x) = sa_learner x"
    "sa_complete x \<Longrightarrow> sa_complete (g x)" for x by (simp_all add: g_def)
  have "runs_of pkg l t = map g (runs_of pkg l s)" for pkg l by (simp add: runs_of_def t filter_map comp_def g)
  then have seq: "in_sequence (runs_of pkg l t)" for pkg l using s(2) g by (simp add: scorm_ok_def in_sequence_map)
  have stored: "cmi_elements j = ?m" using s(1) j merge_sorted cmi_elements_sorted unfolding keeps_texts_def by blast
  have "attempt_ok (pd_packages s) a" using s(2) assms(2) by (simp add: scorm_ok_def)
  then obtain q where q: "q \<in> set (pd_packages s)" "it_id q = sa_package a"
      "\<forall>(k, x) \<in> set (cmi_elements (sa_cmi a)). ValidateElement (sk_version q) k x = None"
    by (auto simp: attempt_ok_def)
  have "q = p" using q(1,2) assms(3,4) s(2) by (simp add: scorm_ok_def items_ok_def distinct_map inj_on_def)
  then have fine: "\<forall>(k, x) \<in> set (cmi_elements j). ValidateElement (sk_version p) k x = None"
    using q(3) assms(5) merge_subset[of els "cmi_elements (sa_cmi a)"] unfolding stored unrefused by blast
  have valid: "attempt_ok (pd_packages s) (g x)" if x: "x \<in> set (pd_attempts s)" for x
  proof (cases "row_mine (md_adb s) (sa_learner x) \<and> sa_id x = sa_id a")
    case True
    then have "x = a" using x assms(2) s(2) by (simp add: scorm_ok_def distinct_map inj_on_def)
    then show ?thesis using True bound fine assms(2,3,4) \<open>attempt_ok (pd_packages s) a\<close>
      by (auto simp: g_def attempt_ok_def split: option.splits)
  next
    case False
    then show ?thesis using x s(2) by (auto simp: g_def scorm_ok_def)
  qed
  show ?thesis unfolding runs_ok_def scorm_ok_def
    using s seq valid by (simp add: t scorm_ok_def comp_def g)
qed

lemma applied_ok:
  assumes ok: "runs_ok env u s" and a: "a \<in> set (pd_attempts s)"
  shows "runs_ok env u (snd (applyScormCommit env a els force s))"
proof -
  obtain v t where run: "applyScormCommit env a els force s = (v, t)" by fastforce
  have aborted: "runs_ok env u (m_abort e x)" if "runs_ok env u x" for e x by (rule module_state.aborted[OF runs_state that])
  from run have "runs_ok env u t"
  proof (cases rule: apply_run)
    case (early r) then show ?thesis using ok aborted by blast
  next
    case (stored p b t')
    have "runs_ok env u t'" by (rule attempt_committed[OF ok a stored(1-4)])
    then show ?thesis using answer_state[OF stored(6)] aborted by blast
  qed
  then show ?thesis by (simp add: run)
qed

interpretation kept_runs: scorm_laws "runs_ok env u" env "\<lambda>_. True" "\<lambda>_ l. l = u" "\<lambda>_. True" for env u
proof (rule scorm_laws.intro[OF runs_state], unfold_locales, goal_cases)
  case (1 q p o' c m) then show ?case by (rule package_created)
next
  case (2 w i) then show ?case unfolding ScormPackageRepo_Update_def by (intro package_updated) (simp_all add: package_ok_def)
next
  case (3 i b) then show ?case unfolding ScormPackageRepo_SetPublished_def by (intro package_updated) (simp_all add: package_ok_def)
next
  case (4 i) then show ?case by (intro package_deleted)
next
  case (5 pkg l o') then show ?case using attempt_started by simp
next
  case (6 i s a els force) then show ?case by (intro applied_ok)
qed

lemma own_request: "case a of ScormDelete i \<Rightarrow> True | ScormLaunch i \<Rightarrow> u = u | ScormCommit i b \<Rightarrow> True | ScormFinish i els \<Rightarrow> True | _ \<Rightarrow> True"
  by (cases a) simp_all

lemma request_keeps_runs:
  assumes "keeps_texts (sc_jsonb env)" "scorm_ok s"
  shows "scorm_ok (snd (mserve (ac_user ac) (scorm_request env ac slug a) s))"
proof -
  have "runs_ok env (ac_user ac) (open_mtx (ac_user ac) s)" using assms by (simp add: runs_ok_def scorm_ok_def row_mine_def)
  with kept_runs.pres_request[OF own_request] show ?thesis
  proof (rule module_state.mserve_keeps[OF runs_state])
    fix t assume "runs_ok env (ac_user ac) t" "snd (mserve (ac_user ac) (scorm_request env ac slug a) s) = close_mtx t"
    then show ?thesis by (simp add: runs_ok_def scorm_ok_def)
  qed (simp add: assms)
qed

text \<open>
  C32: Every request of the SCORM routes keeps the tables of packages and attempts well formed:
  ids and slugs stay unique and every package has a title, a slug and something to launch; the
  attempts of a learner at a package are numbered from one without gaps, and only the last can
  be open; every attempt belongs to a package, holds only elements that a run of the package's
  version may set, with values in their range, and is complete exactly when it has a time of
  completion.
\<close>

theorem attempts_stay_ok:
  assumes "keeps_texts (sc_jsonb env)" "scorm_ok s"
  shows "scorm_ok (snd (mserve (ac_user ac) (scorm_request env ac slug a) s))"
  by (rule request_keeps_runs[OF assms])

end
