(* ===== verification/ScormCommits.thy ===== *)
theory ScormCommits
  imports ScormKept
begin

text \<open>
  What the two requests of a running package store, and what a launch gives.
\<close>

section \<open>Commits\<close>

fun commits :: "scorm_action \<Rightarrow> (uuid \<times> (string \<times> string) list \<times> bool) option" where
  "commits (ScormCommit i (Some els)) = (if els = [] then None else Some (i, els, False))"
| "commits (ScormFinish i els) = Some (i, els, True)"
| "commits a = None"

definition same_rows :: "scorm_package list \<Rightarrow> scorm_attempt list \<Rightarrow> scormdb \<Rightarrow> bool" where
  "same_rows ps as s \<longleftrightarrow> pd_packages s = ps \<and> pd_attempts s = as"

interpretation rows: module_state "same_rows ps as" for ps as
  by unfold_locales (simp_all add: same_rows_def)

lemma errs_loaded: "errs (loadOwnAttempt i o' u)"
  unfolding loadOwnAttempt_def by (intro errs_module) simp_all

lemma loaded_reads: "h_pres (same_rows ps as) (loadOwnAttempt i o' u)"
  unfolding loadOwnAttempt_def ScormAttemptRepo_Get_def by (intro rows.mod_rules)

text \<open>The guards of both handlers, and then the commit.\<close>

definition own_commit :: "scorm_env \<Rightarrow> auth_ctx \<Rightarrow> org_ctx \<Rightarrow> uuid \<Rightarrow> (string \<times> string) list \<Rightarrow> bool \<Rightarrow> scormdb handler" where
  "own_commit env ac oc i els force = h_bind (scormGate env oc) (\<lambda>_. h_bind (loadOwnAttempt i (oc_org oc) (ac_user ac)) (\<lambda>a.
     if force \<or> \<not> sa_complete a then applyScormCommit env a els force else h_respond (RespErr 409 ''attempt is already complete'')))"

lemma commits_run: "commits act = Some (i, els, force) \<Longrightarrow> scorm_handler env ac oc act = own_commit env ac oc i els force"
proof (induction act rule: commits.induct)
  case (1 j els')
  have "h_bind (h_guard b r) (\<lambda>_. m) = (if b then m else h_respond r)" for b and r :: response and m :: "scormdb handler"
    by (simp add: h_bind_def h_guard_def h_return_def h_respond_def fun_eq_iff)
  moreover have "els' \<noteq> []" "els' = els" "j = i" "force = False" using 1 by (simp_all split: if_splits)
  ultimately show ?case by (simp add: CommitScormRuntime_def own_commit_def)
qed (simp_all add: FinishScormAttempt_def own_commit_def)

lemma own_commit_run:
  assumes "own_commit env ac oc i els force s = (v, t)"
  obtains (early) r where "v = Inl r" "400 \<le> http_status r" "pd_packages t = pd_packages s" "pd_attempts t = pd_attempts s"
  | (applied) a where "a \<in> set (pd_attempts s)" "sa_id a = i" "sa_learner a = ac_user ac" "sa_org a = oc_org oc" "force \<or> \<not> sa_complete a"
      "applyScormCommit env a els force s = (v, t)"
proof -
  note reads = h_presD[where I="same_rows (pd_packages s) (pd_attempts s)" and s=s]
  have here: "same_rows (pd_packages s) (pd_attempts s) s" by (simp add: same_rows_def)
  from assms[unfolded own_commit_def] show thesis
  proof (cases rule: h_bind_run)
    case (1 r)
    have "400 \<le> http_status r" using 1(1) errs_module_gate unfolding scormGate_def errs_def by blast
    moreover have "same_rows (pd_packages s) (pd_attempts s) t" using reads[OF _ here] rows.pres_gate 1(1) unfolding scormGate_def by (metis snd_conv)
    ultimately show thesis using early[of r] 1(2) by (simp add: same_rows_def)
  next
    case (2 x s1)
    then have "s1 = s" using module_gate_Inr unfolding scormGate_def by blast
    with 2(2) show thesis
    proof (cases rule: h_bind_run)
      case (1 r)
      have "400 \<le> http_status r" using 1(1) errs_loaded unfolding errs_def by blast
      moreover have "same_rows (pd_packages s) (pd_attempts s) t" using reads[OF loaded_reads here] 1(1) \<open>s1 = s\<close> by (metis snd_conv)
      ultimately show thesis using early[of r] 1(2) by (simp add: same_rows_def)
    next
      case (2 a s2)
      then have a: "s2 = s" "a \<in> set (pd_attempts s)" "sa_id a = i" "sa_learner a = ac_user ac" "sa_org a = oc_org oc"
        using loaded_attempt \<open>s1 = s\<close> by blast+
      show thesis
      proof (cases "force \<or> \<not> sa_complete a")
        case True then show thesis using applied[of a] a 2(2) by simp
      next
        case False
        then show thesis using early[of "RespErr 409 ''attempt is already complete''"] a(1) 2(2) by (simp add: h_respond_def)
      qed
    qed
  qed
qed

definition stored_as :: "scorm_env \<Rightarrow> uuid \<Rightarrow> scormdb \<Rightarrow> scorm_attempt \<Rightarrow> scorm_package \<Rightarrow> (string \<times> string) list \<Rightarrow> bool \<Rightarrow> json \<Rightarrow>
    scorm_attempt \<Rightarrow> scorm_attempt" where
  "stored_as env u s a p els force j b = (if sa_learner b = u \<and> sa_id b = sa_id a
     then committed (summary (sk_version p) els a) j (rs_complete (summary (sk_version p) els a) \<or> force) (a_clock (md_adb s)) b else b)"

definition commit_applies :: "scorm_env \<Rightarrow> uuid \<Rightarrow> uuid \<Rightarrow> (string \<times> string) list \<Rightarrow> bool \<Rightarrow> scormdb \<Rightarrow> scorm_attempt \<Rightarrow> scorm_package \<Rightarrow>
    json \<Rightarrow> bool" where
  "commit_applies env u i els force s a p j \<longleftrightarrow> a \<in> set (pd_attempts s) \<and> sa_id a = i \<and> sa_learner a = u \<and> (force \<or> \<not> sa_complete a) \<and>
     p \<in> set (pd_packages s) \<and> it_id p = sa_package a \<and> refused_element (sk_version p) els = None \<and>
     sc_jsonb env (cmi_json (merge_elements els (cmi_elements (sa_cmi a)))) = Some j"

text \<open>The state of the rows after a handler of the two requests, and its answer.\<close>

lemma applied_run:
  assumes "applyScormCommit env a els force s = (v, t)" "a \<in> set (pd_attempts s)" "sa_learner a = u" "force \<or> \<not> sa_complete a"
    and "a_session (md_adb s) = Some u" "distinct (map sa_id (pd_attempts s))"
  obtains (early) r where "v = Inl r" "400 \<le> http_status r" "pd_packages t = pd_packages s" "pd_attempts t = pd_attempts s"
  | (written) p j where "commit_applies env u (sa_id a) els force s a p j" "pd_packages t = pd_packages s"
      "pd_attempts t = map (stored_as env u s a p els force j) (pd_attempts s)"
      "case attempt_json env (stored_as env u s a p els force j a) of
         None \<Rightarrow> v = Inr (Resp 200 JNull) \<and> a_aborted (md_adb t)
       | Some body \<Rightarrow> v = Inr (Resp 200 (JObj [(''attempt'', body)])) \<and> md_adb t = md_adb s"
  using assms(1)
proof (cases rule: apply_run)
  case (early r)
  then show ?thesis using that(1)[of r] by (auto simp: m_abort_def)
next
  case (stored p b t')
  let ?u = "summary (sk_version p) els a"
  have mine: "row_mine (md_adb s) l \<longleftrightarrow> l = u" for l using assms(5) by (auto simp: row_mine_def)
  obtain j a' where j: "sc_jsonb env (cmi_json (merge_elements els (cmi_elements (sa_cmi a)))) = Some j"
      and t': "t' = s\<lparr>pd_attempts := map (stored_as env u s a p els force j) (pd_attempts s)\<rparr>"
      and a': "a' \<in> set (pd_attempts s)" "sa_id a' = sa_id a" "sa_learner a' = u"
        "b = committed ?u j (rs_complete ?u \<or> force) (a_clock (md_adb s)) a'"
    using stored(4) unfolding mine stored_as_def by (rule commit_run) (auto simp: mine)
  have "a' = a" using a'(1,2) assms(2,6) by (simp add: distinct_map inj_on_def)
  with a' have b: "b = stored_as env u s a p els force j a" by (simp add: stored_as_def)
  have applies: "commit_applies env u (sa_id a) els force s a p j"
    using assms(2-4) stored(1-3) j by (simp add: commit_applies_def)
  show ?thesis
    using that(2)[OF applies] stored(6) t' by (auto simp: answer_def h_return_def b m_abort_def aborts_def split: option.splits)
qed

lemma commit_request:
  assumes run: "mserve (ac_user ac) (scorm_request env ac slug act) s = (r, s')" and act: "commits act = Some (i, els, force)"
    and ids: "distinct (map sa_id (pd_attempts s))"
  obtains (kept) "pd_packages s' = pd_packages s" "pd_attempts s' = pd_attempts s" "400 \<le> http_status r"
  | (unwritten) a p j where "commit_applies env (ac_user ac) i els force s a p j" "s' = s" "r = Resp 200 JNull"
      "attempt_json env (stored_as env (ac_user ac) s a p els force j a) = None"
  | (written) a p j body where "commit_applies env (ac_user ac) i els force s a p j" "pd_packages s' = pd_packages s"
      "pd_attempts s' = map (stored_as env (ac_user ac) s a p els force j) (pd_attempts s)" "r = Resp 200 (JObj [(''attempt'', body)])"
      "attempt_json env (stored_as env (ac_user ac) s a p els force j a) = Some body"
proof -
  let ?u = "ac_user ac" and ?s = "open_mtx (ac_user ac) s"
  obtain v t where h: "scorm_request env ac slug act ?s = (v, t)" by fastforce
  have served: "(v = Inl q \<or> v = Inr q) \<Longrightarrow> r = q \<and> (s' = s \<or> s' = close_mtx t) \<and> (a_aborted (md_adb t) \<longrightarrow> s' = s) \<and>
      (q = Resp 200 b \<and> \<not> a_aborted (md_adb t) \<longrightarrow> s' = close_mtx t)" for q b
    using h by (cases rule: mserve_cases[OF run]) (auto simp: run_handler_cases)
  have refused: thesis if "v = Inl q" "400 \<le> http_status q" "pd_packages t = pd_packages s" "pd_attempts t = pd_attempts s" for q
  proof -
    have "r = q" "s' = s \<or> s' = close_mtx t" using served[of q JNull] that(1) by simp_all
    then show thesis using that(2-4) by (intro kept) auto
  qed
  from h[unfolded scorm_request_def] show thesis
  proof (cases rule: module_route_cases)
    case (stopped q)
    have "pd_packages t = pd_packages s" "pd_attempts t = pd_attempts s" by (subst stopped(4), simp)+
    then show thesis using refused[of q] stopped(1,2) by simp
  next
    case (passed oc g)
    from passed(1)[unfolded commits_run[OF act]] show thesis
    proof (cases rule: own_commit_run)
      case (early q) then show thesis using refused[of q] by simp
    next
      case (applied a)
      have same: "commit_applies env ?u i els force ?s = commit_applies env ?u i els force s"
        "stored_as env ?u ?s = stored_as env ?u s" by (simp_all add: commit_applies_def stored_as_def fun_eq_iff)
      from applied(6) show thesis
      proof (rule applied_run[where u="?u"])
        fix q assume "v = Inl q" "400 \<le> http_status q" "pd_packages t = pd_packages ?s" "pd_attempts t = pd_attempts ?s"
        then show thesis using refused[of q] by simp
      next
        fix p j
        assume w: "commit_applies env ?u (sa_id a) els force ?s a p j" "pd_packages t = pd_packages ?s"
          "pd_attempts t = map (stored_as env ?u ?s a p els force j) (pd_attempts ?s)"
          "case attempt_json env (stored_as env ?u ?s a p els force j a) of
             None \<Rightarrow> v = Inr (Resp 200 JNull) \<and> a_aborted (md_adb t)
           | Some body \<Rightarrow> v = Inr (Resp 200 (JObj [(''attempt'', body)])) \<and> md_adb t = md_adb ?s"
        show thesis
        proof (cases "attempt_json env (stored_as env ?u s a p els force j a)")
          case None
          then have "v = Inr (Resp 200 JNull)" "a_aborted (md_adb t)" using w(4) same(2) by simp_all
          then show thesis using unwritten[of a p j] w(1) None served[of "Resp 200 JNull"] applied(2) same(1) by simp
        next
          case (Some body)
          then have "v = Inr (Resp 200 (JObj [(''attempt'', body)]))" "\<not> a_aborted (md_adb t)" using w(4) same(2) by simp_all
          then have "r = Resp 200 (JObj [(''attempt'', body)])" "s' = close_mtx t"
            using served[of "Resp 200 (JObj [(''attempt'', body)])"] by simp_all
          then show thesis using written[of a p j body] w(1-3) Some applied(2) same by simp
        qed
      qed (use applied ids in simp_all)
    qed
  qed
qed

lemma unique_attempt: "scorm_ok s \<Longrightarrow> a \<in> set (pd_attempts s) \<Longrightarrow> b \<in> set (pd_attempts s) \<Longrightarrow> sa_id a = sa_id b \<Longrightarrow> a = b"
  by (simp add: scorm_ok_def distinct_map inj_on_def)

lemma unique_package: "scorm_ok s \<Longrightarrow> p \<in> set (pd_packages s) \<Longrightarrow> q \<in> set (pd_packages s) \<Longrightarrow> it_id p = it_id q \<Longrightarrow> p = q"
  by (simp add: scorm_ok_def items_ok_def distinct_map inj_on_def)

text \<open>The row that a commit leaves: its elements are the sent ones over the stored ones, and the rest
  of it sums them up.\<close>

definition run_stored :: "scorm_attempt \<Rightarrow> Version \<Rightarrow> (string \<times> string) list \<Rightarrow> bool \<Rightarrow> time \<Rightarrow> scorm_attempt \<Rightarrow> bool" where
  "run_stored a v els force t b \<longleftrightarrow> (\<forall>k. map_of (cmi_elements (sa_cmi b)) k =
       (case map_of (rev els) k of Some x \<Rightarrow> Some x | None \<Rightarrow> map_of (cmi_elements (sa_cmi a)) k)) \<and>
     b = (let u = Summarize v (cmi_elements (sa_cmi b)) in committed u (sa_cmi b) (rs_complete u \<or> force) t a)"

text \<open>
  C33: A commit or a finish that is answered with the attempt has run on the caller's own
  attempt, which was open unless the request finishes it, with elements that its package's
  version lets a run set. Of all attempts it has changed this one: the stored elements are the
  sent ones over those stored before, status, scores, location, suspend data and session time
  are the summary of the stored elements, the total time has grown by the session's growth, and
  the attempt is complete when it was, when the summary says so or when the request finishes it.
  No package changes.
\<close>

theorem commit_stored:
  assumes run: "mserve (ac_user ac) (scorm_request env ac slug act) s = (Resp 200 body, s')" "body \<noteq> JNull"
    and act: "commits act = Some (i, els, force)" and ok: "scorm_ok s" "keeps_texts (sc_jsonb env)"
  shows "\<exists>a b p. a \<in> set (pd_attempts s) \<and> sa_id a = i \<and> sa_learner a = ac_user ac \<and> (force \<or> \<not> sa_complete a) \<and>
    p \<in> set (pd_packages s) \<and> it_id p = sa_package a \<and> (\<forall>(k, x) \<in> set els. ValidateElement (sk_version p) k x = None) \<and>
    run_stored a (sk_version p) els force (a_clock (md_adb s)) b \<and>
    pd_attempts s' = map (\<lambda>c. if sa_id c = i then b else c) (pd_attempts s) \<and> pd_packages s' = pd_packages s"
proof -
  have ids: "distinct (map sa_id (pd_attempts s))" using ok(1) by (simp add: scorm_ok_def)
  from run(1) act ids show ?thesis
  proof (cases rule: commit_request)
    case (written a p j body')
    let ?v = "sk_version p" and ?m = "merge_elements els (cmi_elements (sa_cmi a))"
    define b where "b = stored_as env (ac_user ac) s a p els force j a"
    from written(1) have a: "a \<in> set (pd_attempts s)" "sa_id a = i" "sa_learner a = ac_user ac" "force \<or> \<not> sa_complete a"
        "p \<in> set (pd_packages s)" "it_id p = sa_package a" "refused_element ?v els = None" "sc_jsonb env (cmi_json ?m) = Some j"
      by (simp_all add: commit_applies_def)
    have j: "cmi_elements j = ?m" using ok(2) a(8) merge_sorted cmi_elements_sorted unfolding keeps_texts_def by blast
    have b: "sa_cmi b = j" "b = (let u = Summarize ?v (cmi_elements j) in committed u j (rs_complete u \<or> force) (a_clock (md_adb s)) a)"
      using a(3) by (simp_all add: b_def stored_as_def summary_def j Let_def)
    have "run_stored a ?v els force (a_clock (md_adb s)) b"
      using b merged_element[OF cmi_elements_sorted] by (simp add: run_stored_def b(1) j)
    moreover have "stored_as env (ac_user ac) s a p els force j c = (if sa_id c = i then b else c)" if "c \<in> set (pd_attempts s)" for c
      using unique_attempt[OF ok(1) that a(1)] a(2,3) by (auto simp: b_def stored_as_def)
    then have "pd_attempts s' = map (\<lambda>c. if sa_id c = i then b else c) (pd_attempts s)" unfolding written(3) by simp
    ultimately show ?thesis using a(1-6) a(7)[unfolded unrefused] written(2) by blast
  qed (use run(2) in simp_all)
qed

definition finite_score :: "gofloat option \<Rightarrow> bool" where
  "finite_score f \<longleftrightarrow> (case f of None \<Rightarrow> True | Some x \<Rightarrow> (\<exists>r. x = Fin r))"

lemma float_json_finite: "float_json env f \<noteq> None \<longleftrightarrow> finite_score f"
  by (auto simp: float_json_def finite_score_def split: option.splits gofloat.splits)

lemma attempt_json_finite: "attempt_json env a \<noteq> None \<longleftrightarrow>
    finite_score (sa_raw a) \<and> finite_score (sa_min a) \<and> finite_score (sa_max a) \<and> finite_score (sa_scaled a)"
  unfolding float_json_finite[of env, symmetric] attempt_json_def by (auto split: option.splits)

definition finite_scores :: "RuntimeState \<Rightarrow> bool" where
  "finite_scores u \<longleftrightarrow> finite_score (rs_raw u) \<and> finite_score (rs_min u) \<and> finite_score (rs_max u) \<and> finite_score (rs_scaled u)"

text \<open>
  C35: Numbers that JSON cannot write are lost. When the sent elements over the stored ones give
  a score that is an infinity or not a number, the request changes no attempt and no package; it
  is then refused, or it is answered 200 without a body.
\<close>

theorem unwritable_scores_are_lost:
  assumes run: "mserve (ac_user ac) (scorm_request env ac slug act) s = (r, s')" and act: "commits act = Some (i, els, force)"
    and ok: "scorm_ok s" and a: "a \<in> set (pd_attempts s)" "sa_id a = i" and p: "p \<in> set (pd_packages s)" "it_id p = sa_package a"
    and score: "\<not> finite_scores (summary (sk_version p) els a)"
  shows "pd_packages s' = pd_packages s \<and> pd_attempts s' = pd_attempts s \<and> (400 \<le> http_status r \<or> r = Resp 200 JNull)"
proof -
  have ids: "distinct (map sa_id (pd_attempts s))" using ok by (simp add: scorm_ok_def)
  from run act ids show ?thesis
  proof (cases rule: commit_request)
    case (written b q j body)
    then have b: "b \<in> set (pd_attempts s)" "sa_id b = i" "sa_learner b = ac_user ac" "q \<in> set (pd_packages s)" "it_id q = sa_package b"
      by (simp_all add: commit_applies_def)
    have same: "b = a" "q = p" using unique_attempt[OF ok b(1) a(1)] unique_package[OF ok b(4) p(1)] a(2) p(2) b(2,5) by simp_all
    have "attempt_json env (stored_as env (ac_user ac) s b q els force j b) \<noteq> None" using written(5) by simp
    then have "finite_scores (summary (sk_version p) els a)"
      unfolding attempt_json_finite using b(3) by (simp add: stored_as_def committed_def finite_scores_def same)
    with score show ?thesis by simp
  qed simp_all
qed

section \<open>Launches\<close>

lemma launch_run:
  assumes "LaunchScormPackage env ac oc i s = (v, t)" "scorm_ok s" "row_mine (md_adb s) (ac_user ac)"
    and v: "v = Inl (Resp 200 body) \<or> v = Inr (Resp 200 body)" "body \<noteq> JNull"
  obtains p a j where "p \<in> set (pd_packages s)" "it_id p = i" "it_published p" "it_org p = oc_org oc" "sc_enabled env" "md_on s (it_org p)"
    "ScormAttemptRepo_StartOrResume (it_org p) i (ac_user ac) s = (Inr (a, t))" "attempt_json env a = Some j"
    "body = JObj [(''package'', publicPackage p), (''attempt'', j)]"
proof -
  have early: False if "v = Inl r" "400 \<le> http_status r" for r using that v(1) by auto
  from assms(1)[unfolded LaunchScormPackage_def] show thesis
  proof (cases rule: h_bind_run)
    case (1 r)
    then show thesis using early[of r] errs_module_gate unfolding scormGate_def errs_def by blast
  next
    case (2 x s1)
    then have g: "s1 = s" "sc_enabled env" "md_on s (oc_org oc)" using module_gate_Inr unfolding scormGate_def by blast+
    from 2(2) show thesis
    proof (cases rule: h_bind_run)
      case (1 r)
      then show thesis using early[of r] errs_item unfolding getOrgPackage_def errs_def by blast
    next
      case (2 p s2)
      then have p: "s2 = s" "p \<in> set (pd_packages s)" "it_id p = i" "it_org p = oc_org oc"
        using packages.org_item_Inr g(1) unfolding getOrgPackage_def by blast+
      show thesis
      proof (cases "it_published p")
        case False
        then have "v = Inl (RespErr 404 ''package not found'')" using 2(2) by (simp add: h_bind_def h_guard_def h_respond_def)
        then show thesis using early[of "RespErr 404 ''package not found''"] by simp
      next
        case True
        with 2(2) p(1) have "h_bind (msql (ScormAttemptRepo_StartOrResume (oc_org oc) (it_id p) (ac_user ac)) (\<lambda>_. RespErr 500 ''could not start attempt''))
            (\<lambda>a. answer 200 (map_option (\<lambda>j. JObj [(''package'', publicPackage p), (''attempt'', j)]) (attempt_json env a))) s = (v, t)"
          by (simp add: h_bind_def h_guard_def h_return_def)
        then show thesis
        proof (cases rule: h_bind_run)
          case (1 r)
          then show thesis using early[of r] by (auto simp: msql_run)
        next
          case (2 a s3)
          then have st: "ScormAttemptRepo_StartOrResume (oc_org oc) (it_id p) (ac_user ac) s = Inr (a, s3)" by (simp add: msql_run)
          show thesis
          proof (cases "attempt_json env a")
            case None
            then show thesis using 2(2) v by (auto simp: answer_def)
          next
            case (Some j)
            then have "t = s3" "body = JObj [(''package'', publicPackage p), (''attempt'', j)]"
              using 2(2) v(1) by (auto simp: answer_def h_return_def)
            then show thesis using that[of p a j] p g True st Some by simp
          qed
        qed
      qed
    qed
  qed
qed

lemma open_last:
  assumes "in_sequence xs" "xs \<noteq> []" "\<not> sa_complete (last xs)"
  shows "map sa_complete xs = replicate (length xs - 1) True @ [False]"
proof -
  obtain ys x where xs: "xs = ys @ [x]" using assms(2) rev_exhaust by blast
  have "map sa_complete ys = replicate (length ys) True"
    using assms(1) by (intro replicate_eqI) (auto simp: xs in_sequence_def)
  then show ?thesis using assms(3) by (simp add: xs)
qed

lemma all_complete: "in_sequence xs \<Longrightarrow> \<forall>b \<in> set xs. sa_complete b \<Longrightarrow> \<not> sa_complete a \<Longrightarrow>
    map sa_complete (xs @ [a]) = replicate (length (xs @ [a]) - 1) True @ [False]"
  using replicate_eqI[of "map sa_complete xs" "length xs" True] by auto

definition next_attempt :: "scormdb \<Rightarrow> scorm_package \<Rightarrow> uuid \<Rightarrow> scorm_attempt" where
  "next_attempt s p u = fresh_attempt (a_next (md_adb s)) (it_org p) (it_id p) u (int (length (runs_of (it_id p) u s)) + 1) (a_clock (md_adb s))"

text \<open>
  C34: A launch that is answered with an attempt is of a published package of an organization
  with the module on. It resumes the caller's open attempt at it, and leaves all attempts as
  they are; when there is none, it adds a fresh attempt with the next number. Either way the
  caller then has exactly one open attempt at the package, the last, and the answer shows it.
\<close>

theorem launch_resumes:
  assumes run: "mserve (ac_user ac) (scorm_request env ac slug (ScormLaunch i)) s = (Resp 200 body, s')" "body \<noteq> JNull"
    and ok: "scorm_ok s"
  shows "\<exists>p j. p \<in> set (pd_packages s) \<and> it_id p = i \<and> it_published p \<and> sc_enabled env \<and> md_on s (it_org p) \<and>
    pd_packages s' = pd_packages s \<and>
    pd_attempts s' = (if list_all sa_complete (runs_of i (ac_user ac) s) then pd_attempts s @ [next_attempt s p (ac_user ac)] else pd_attempts s) \<and>
    map sa_complete (runs_of i (ac_user ac) s') = replicate (length (runs_of i (ac_user ac) s') - 1) True @ [False] \<and>
    attempt_json env (last (runs_of i (ac_user ac) s')) = Some j \<and>
    body = JObj [(''package'', publicPackage p), (''attempt'', j)]"
proof -
  let ?u = "ac_user ac" and ?s = "open_mtx (ac_user ac) s"
  let ?mine = "runs_of i ?u s"
  obtain v t where h: "scorm_request env ac slug (ScormLaunch i) ?s = (v, t)" by fastforce
  have okr: "scorm_ok ?s" "row_mine (md_adb ?s) ?u" using ok by (simp_all add: scorm_ok_def row_mine_def)
  from run(1) have served: "v = Inl (Resp 200 body) \<or> v = Inr (Resp 200 body)" "s' = s \<or> s' = close_mtx t"
      "\<not> a_aborted (md_adb t) \<longrightarrow> s' = close_mtx t"
    using h by (cases rule: mserve_cases[OF run(1)]; auto simp: run_handler_cases)+
  from h[unfolded scorm_request_def] show ?thesis
  proof (cases rule: module_route_cases)
    case (stopped q)
    then show ?thesis using served(1) by auto
  next
    case (passed oc g)
    from passed(1) have "LaunchScormPackage env ac oc i ?s = (v, t)" by simp
    from this okr served(1) run(2) show ?thesis
    proof (rule launch_run)
      fix p a j
      assume p: "p \<in> set (pd_packages ?s)" "it_id p = i" "it_published p" "sc_enabled env" "md_on ?s (it_org p)"
        and st: "ScormAttemptRepo_StartOrResume (it_org p) i ?u ?s = Inr (a, t)"
        and j: "attempt_json env a = Some j" "body = JObj [(''package'', publicPackage p), (''attempt'', j)]"
      have seq: "in_sequence ?mine" using ok by (simp add: scorm_ok_def)
      from st okr(2,1) show ?thesis
      proof (cases rule: start_sequence)
        case 1
        then have a: "?mine \<noteq> []" "a = last ?mine" "\<not> sa_complete a" by simp_all
        then have "\<not> list_all sa_complete ?mine" using last_in_set by (auto simp: list_all_iff)
        moreover have "pd_attempts s' = pd_attempts s" "pd_packages s' = pd_packages s" using served(2) 1(1) by auto
        moreover from this have "runs_of i ?u s' = ?mine" by (simp add: runs_of_def)
        ultimately show ?thesis using p j a open_last[OF seq a(1)] by (intro exI[of _ p] exI[of _ j]) simp
      next
        case 2
        then have a: "a = next_attempt s p ?u" and t: "t = ?s\<lparr>pd_attempts := pd_attempts s @ [a],
            md_adb := (md_adb ?s)\<lparr>a_next := Suc (a_next (md_adb ?s))\<rparr>\<rparr>"
          using p(2) by (simp_all add: insert_attempt_Inr next_attempt_def)
        have s': "s' = close_mtx t" using served(3) by (simp add: t)
        have mine: "sa_package a = i" "sa_learner a = ?u" "\<not> sa_complete a" using p(2) by (simp_all add: a next_attempt_def fresh_attempt_def)
        have "runs_of i ?u s' = ?mine @ [a]" using mine by (simp add: runs_of_def s' t)
        moreover have "list_all sa_complete ?mine" using 2(2) by (simp add: list_all_iff)
        moreover have "pd_attempts s' = pd_attempts s @ [next_attempt s p ?u]" "pd_packages s' = pd_packages s" by (simp_all add: s' t a)
        ultimately show ?thesis using p j all_complete[OF seq _ mine(3)] 2(2) by (intro exI[of _ p] exI[of _ j]) simp
      qed
    qed
  qed
qed

end
