(* ===== verification/CodeExec.thy ===== *)
theory CodeExec
  imports ModuleFacts GoText
begin

text \<open>
  Code exercises: running programs (\<^verbatim>\<open>codeexec/\<close>), the tables
  (\<^verbatim>\<open>models/code_exercise.go\<close>, \<^verbatim>\<open>code_submission.go\<close>, \<^verbatim>\<open>code_exec_usage.go\<close>,
  migration \<^verbatim>\<open>000012\<close>), the handlers (\<^verbatim>\<open>handlers/code_exec.go\<close>) and their routes. A
  \<open>runner\<close> is an implementation of the interface \<^verbatim>\<open>Runner\<close>; the repository has one, the stub.
  Text is a list of bytes. One clock stands for \<^verbatim>\<open>time.Now()\<close> and \<^verbatim>\<open>now()\<close>.
\<close>

section \<open>Running a program (codeexec.go, service.go, stub.go)\<close>

definition supportedLanguages :: "string list" where
  "supportedLanguages = [''python'', ''javascript'', ''go'', ''ruby'', ''bash'', ''c'', ''cpp'', ''java'']"

definition SupportedLanguage :: "string \<Rightarrow> bool" where
  "SupportedLanguage lang \<longleftrightarrow> ToLower (TrimSpace lang) \<in> set supportedLanguages"

record limits =
  lm_cpu :: int
  lm_memory :: int
  lm_wall :: int
  lm_output :: int

record run_request =
  rq_language :: string
  rq_source :: string
  rq_stdin :: string
  rq_limits :: limits

record run_result =
  ru_stdout :: string
  ru_stderr :: string
  ru_exit :: int
  ru_duration :: int
  ru_memory :: int
  ru_status :: string
  ru_err :: string

record runner =
  rn_name :: string
  rn_run :: "run_request \<Rightarrow> string + run_result"

definition truncate_text :: "string \<Rightarrow> int \<Rightarrow> string" where
  "truncate_text s n = (if n \<le> 0 \<or> int (length s) \<le> n then s else if n \<le> 3 then take (nat n) s else take (nat (n - 3)) s @ ''...'')"

definition StubRunner_Run :: "run_request \<Rightarrow> string + run_result" where
  "StubRunner_Run q = (if rq_language q \<notin> set supportedLanguages
     then Inr \<lparr>ru_stdout = [], ru_stderr = [], ru_exit = 0, ru_duration = 0, ru_memory = 0, ru_status = ''error'',
       ru_err = ''unsupported language: '' @ rq_language q\<rparr>
     else Inr \<lparr>ru_stdout = truncate_text (''[stub-codeexec] Code execution is not configured on this platform, '' @
         ''so no code was run. This is a placeholder result.'' @ [CHR 0x0A] @ ''language='' @ rq_language q @
         '' source_bytes='' @ show_int (int (length (rq_source q))) @ [CHR 0x0A] @
         ''Configure LMS_CODE_EXEC_RUNNER and a sandbox runtime to enable real execution.'' @ [CHR 0x0A]) (lm_output (rq_limits q)),
       ru_stderr = [], ru_exit = 0, ru_duration = 0, ru_memory = 0, ru_status = ''succeeded'', ru_err = []\<rparr>)"

definition StubRunner :: runner where
  "StubRunner = \<lparr>rn_name = ''stub-noop'', rn_run = StubRunner_Run\<rparr>"

record service =
  sv_runner :: runner
  sv_defaults :: limits

definition defaultLimits :: limits where
  "defaultLimits = \<lparr>lm_cpu = 5000, lm_memory = 256 * 2 ^ 20, lm_wall = 10000, lm_output = 64 * 2 ^ 10\<rparr>"

definition withFallback :: "limits \<Rightarrow> limits" where
  "withFallback l = \<lparr>lm_cpu = (if lm_cpu l \<le> 0 then lm_cpu defaultLimits else lm_cpu l),
     lm_memory = (if lm_memory l \<le> 0 then lm_memory defaultLimits else lm_memory l),
     lm_wall = (if lm_wall l \<le> 0 then lm_wall defaultLimits else lm_wall l),
     lm_output = (if lm_output l \<le> 0 then lm_output defaultLimits else lm_output l)\<rparr>"

definition NewCodeService :: "runner \<Rightarrow> limits \<Rightarrow> service" where
  "NewCodeService r l = \<lparr>sv_runner = r, sv_defaults = withFallback l\<rparr>"

definition NewServiceFromSettings :: "bool \<Rightarrow> string \<Rightarrow> limits \<Rightarrow> service" where
  "NewServiceFromSettings enabled name l = NewCodeService StubRunner l"

definition clampInt :: "int \<Rightarrow> int \<Rightarrow> int" where
  "clampInt q m = (if q \<le> 0 \<or> m < q then m else q)"

definition clamp :: "service \<Rightarrow> limits \<Rightarrow> limits" where
  "clamp s l = \<lparr>lm_cpu = clampInt (lm_cpu l) (lm_cpu (sv_defaults s)), lm_memory = clampInt (lm_memory l) (lm_memory (sv_defaults s)),
     lm_wall = clampInt (lm_wall l) (lm_wall (sv_defaults s)), lm_output = clampInt (lm_output l) (lm_output (sv_defaults s))\<rparr>"

datatype run_error = ErrUnsupportedLanguage | ErrEmptyCodeSource | RunnerError string

record run_output = run_result +
  ro_runner :: string
  ro_language :: string
  ro_limits :: limits

definition Execute :: "service \<Rightarrow> run_request \<Rightarrow> run_error + run_output" where
  "Execute s q0 = (let q1 = q0\<lparr>rq_language := ToLower (TrimSpace (rq_language q0))\<rparr> in
     if rq_language q1 \<notin> set supportedLanguages then Inl ErrUnsupportedLanguage
     else if TrimSpace (rq_source q1) = [] then Inl ErrEmptyCodeSource
     else (let q = q1\<lparr>rq_limits := clamp s (rq_limits q1)\<rparr> in
       case rn_run (sv_runner s) q of
         Inl e \<Rightarrow> Inl (RunnerError (''codeexec: runner '' @ rn_name (sv_runner s) @ '' run: '' @ e))
       | Inr r \<Rightarrow> Inr \<lparr>ru_stdout = truncate_text (ru_stdout r) (lm_output (rq_limits q)),
           ru_stderr = truncate_text (ru_stderr r) (lm_output (rq_limits q)), ru_exit = ru_exit r, ru_duration = ru_duration r,
           ru_memory = ru_memory r, ru_status = (if ru_status r = [] then ''error'' else ru_status r),
           ru_err = (if ru_status r = [] then ''runner returned empty status'' else ru_err r),
           ro_runner = rn_name (sv_runner s), ro_language = rq_language q, ro_limits = rq_limits q\<rparr>))"

section \<open>Tables\<close>

text \<open>The platform's configuration, and \<open>ce_text\<close>: what PostgreSQL takes as \<^verbatim>\<open>TEXT\<close>.\<close>

record code_env =
  ce_enabled :: bool
  ce_daily :: int
  ce_service :: service
  ce_text :: "string \<Rightarrow> bool"

record code_exercise = item +
  ex_language :: string
  ex_starter :: string
  ex_solution :: string
  ex_stdin :: string
  ex_expected :: string
  ex_cpu :: int
  ex_memory :: int
  ex_wall :: int

record code_submission =
  cs_id :: uuid
  cs_org :: uuid
  cs_exercise :: "uuid option"
  cs_learner :: uuid
  cs_language :: string
  cs_source :: string
  cs_stdin :: string
  cs_stdout :: string
  cs_stderr :: string
  cs_exit :: int
  cs_duration :: int
  cs_memory :: int
  cs_runner :: string
  cs_status :: string
  cs_passed :: bool
  cs_error :: string
  cs_created :: time

record code_usage =
  cu_org :: uuid
  cu_period :: int
  cu_count :: int
  cu_cpu :: int

record codedb = mdb +
  cd_limits :: "uuid \<Rightarrow> int option"
  cd_exercises :: "code_exercise list"
  cd_submissions :: "code_submission list"
  cd_usage :: "code_usage list"

abbreviation put_exercises :: "code_exercise list \<Rightarrow> codedb \<Rightarrow> codedb" where "put_exercises xs s \<equiv> s\<lparr>cd_exercises := xs\<rparr>"

text \<open>A PostgreSQL \<^verbatim>\<open>BIGINT\<close>.\<close>

definition int8 :: "int \<Rightarrow> bool" where "int8 i \<longleftrightarrow> - (2 ^ 63) \<le> i \<and> i < 2 ^ 63"

section \<open>Repositories\<close>

definition OrgRepo_GetCodeExecSettings :: "uuid \<Rightarrow> (codedb, bool \<times> int option) tx" where
  "OrgRepo_GetCodeExecSettings o' = tx_bind (ModuleRepo_GetEnabled o') (\<lambda>on. tx_gets (\<lambda>s. (on, cd_limits s o')))"

definition OrgRepo_SetCodeExecSettings :: "uuid \<Rightarrow> bool \<Rightarrow> int option \<Rightarrow> (codedb, unit) tx" where
  "OrgRepo_SetCodeExecSettings o' b cap = tx_bind (ModuleRepo_SetEnabled o' b) (\<lambda>_.
     tx_modify (\<lambda>s. s\<lparr>cd_limits := (cd_limits s)(o' := cap)\<rparr>))"

record codeExerciseRequest =
  xq_course :: "uuid option"
  xq_lesson :: "uuid option"
  xq_slug :: string
  xq_title :: string
  xq_description :: string
  xq_language :: string
  xq_starter :: string
  xq_solution :: string
  xq_stdin :: string
  xq_expected :: string
  xq_cpu :: int
  xq_memory :: int
  xq_wall :: int
  xq_published :: bool

text \<open>What the columns take: texts and integers.\<close>

definition exercise_storable :: "code_env \<Rightarrow> codeExerciseRequest \<Rightarrow> bool" where
  "exercise_storable env q \<longleftrightarrow> (\<forall>x \<in> set [xq_title q, xq_description q, xq_language q, xq_starter q, xq_solution q,
     xq_stdin q, xq_expected q]. ce_text env x) \<and> int4 (xq_cpu q) \<and> int8 (xq_memory q) \<and> int4 (xq_wall q)"

definition CodeExerciseRepo_Create :: "code_env \<Rightarrow> uuid \<Rightarrow> uuid \<Rightarrow> codeExerciseRequest \<Rightarrow> (codedb, code_exercise) tx" where
  "CodeExerciseRepo_Create env o' u q = (if \<not> ce_text env (xq_slug q) \<or> \<not> exercise_storable env q then tx_throw ErrStorage else
     item_insert cd_exercises put_exercises (\<lambda>i t. \<lparr>it_id = i, it_org = o', it_course = xq_course q, it_lesson = xq_lesson q,
       it_slug = xq_slug q, it_title = xq_title q, it_description = xq_description q, it_published = xq_published q,
       it_created_by = Some u, it_created = t, it_updated = t, ex_language = xq_language q, ex_starter = xq_starter q,
       ex_solution = xq_solution q, ex_stdin = xq_stdin q, ex_expected = xq_expected q, ex_cpu = xq_cpu q,
       ex_memory = xq_memory q, ex_wall = xq_wall q\<rparr>))"

definition CodeExerciseRepo_Get :: "uuid \<Rightarrow> (codedb, code_exercise) tx" where
  "CodeExerciseRepo_Get = item_get cd_exercises"

definition CodeExerciseRepo_ListByOrg :: "uuid \<Rightarrow> (codedb, code_exercise list) tx" where
  "CodeExerciseRepo_ListByOrg o' = item_list cd_exercises (\<lambda>r. it_org r = o')"

definition CodeExerciseRepo_Update :: "code_env \<Rightarrow> uuid \<Rightarrow> codeExerciseRequest \<Rightarrow> (codedb, code_exercise) tx" where
  "CodeExerciseRepo_Update env i q = (if \<not> exercise_storable env q then tx_throw ErrStorage else
     item_update cd_exercises put_exercises i (\<lambda>t r. r\<lparr>it_course := xq_course q, it_lesson := xq_lesson q,
       it_title := xq_title q, it_description := xq_description q, ex_language := xq_language q, ex_starter := xq_starter q,
       ex_solution := xq_solution q, ex_stdin := xq_stdin q, ex_expected := xq_expected q, ex_cpu := xq_cpu q,
       ex_memory := xq_memory q, ex_wall := xq_wall q, it_published := xq_published q, it_updated := t\<rparr>))"

definition CodeExerciseRepo_SetPublished :: "uuid \<Rightarrow> bool \<Rightarrow> (codedb, code_exercise) tx" where
  "CodeExerciseRepo_SetPublished i b = item_update cd_exercises put_exercises i (\<lambda>t r. r\<lparr>it_published := b, it_updated := t\<rparr>)"

text \<open>The submissions of a deleted exercise stay, without the exercise.\<close>

definition CodeExerciseRepo_Delete :: "uuid \<Rightarrow> (codedb, unit) tx" where
  "CodeExerciseRepo_Delete i = tx_bind (item_delete cd_exercises put_exercises i) (\<lambda>_. tx_modify (\<lambda>s. s\<lparr>cd_submissions :=
     map (\<lambda>r. if cs_exercise r = Some i then r\<lparr>cs_exercise := None\<rparr> else r) (cd_submissions s)\<rparr>))"

definition submission_statuses :: "string list" where
  "submission_statuses = [''succeeded'', ''failed'', ''timeout'', ''oom'', ''error'', ''blocked_limit'']"

definition submission_storable :: "code_env \<Rightarrow> code_submission \<Rightarrow> bool" where
  "submission_storable env r \<longleftrightarrow> (\<forall>x \<in> set [cs_language r, cs_source r, cs_stdin r, cs_stdout r, cs_stderr r, cs_runner r, cs_error r].
     ce_text env x) \<and> int4 (cs_exit r) \<and> int4 (cs_duration r) \<and> int4 (cs_memory r) \<and> cs_status r \<in> set submission_statuses"

text \<open>The id and the time of the row are the column defaults.\<close>

definition CodeSubmissionRepo_Log :: "code_env \<Rightarrow> code_submission \<Rightarrow> (codedb, code_submission) tx" where
  "CodeSubmissionRepo_Log env r0 = (\<lambda>s. let a = md_adb s; r = r0\<lparr>cs_id := a_next a, cs_created := a_clock a\<rparr> in
     if \<not> row_addable a (cs_learner r) (cs_org r) \<or> \<not> submission_storable env r \<or>
       (case cs_exercise r of None \<Rightarrow> False | Some i \<Rightarrow> \<forall>x \<in> set (cd_exercises s). it_id x \<noteq> i) then Inl ErrStorage
     else Inr (r, s\<lparr>cd_submissions := cd_submissions s @ [r], md_adb := a\<lparr>a_next := Suc (a_next a)\<rparr>\<rparr>))"

definition submissions_limit :: "int \<Rightarrow> int" where
  "submissions_limit n = (if n \<le> 0 \<or> 200 < n then 50 else n)"

definition CodeSubmissionRepo_ListForLearner :: "uuid \<Rightarrow> uuid option \<Rightarrow> int \<Rightarrow> (codedb, code_submission list) tx" where
  "CodeSubmissionRepo_ListForLearner l ex n = tx_gets (\<lambda>s. take (nat (submissions_limit n)) (newest cs_created
     (filter (\<lambda>r. row_visible (md_adb s) (cs_learner r) (cs_org r) \<and> cs_learner r = l \<and>
        (case ex of None \<Rightarrow> True | Some i \<Rightarrow> cs_exercise r = Some i)) (cd_submissions s))))"

definition CodeSubmissionRepo_RecentByOrg :: "uuid \<Rightarrow> int \<Rightarrow> (codedb, code_submission list) tx" where
  "CodeSubmissionRepo_RecentByOrg o' n = tx_gets (\<lambda>s. take (nat (submissions_limit n)) (newest cs_created
     (filter (\<lambda>r. row_visible (md_adb s) (cs_learner r) (cs_org r) \<and> cs_org r = o') (cd_submissions s))))"

text \<open>A day is its number since the epoch.\<close>

definition DayPeriod :: "time \<Rightarrow> int" where
  "DayPeriod t = t div (86400 * second)"

definition CodeExecUsageRepo_GetForPeriod :: "uuid \<Rightarrow> int \<Rightarrow> (codedb, int \<times> int) tx" where
  "CodeExecUsageRepo_GetForPeriod o' day = tx_gets (\<lambda>s.
     case find (\<lambda>c. reads_org (md_adb s) (cu_org c) \<and> cu_org c = o' \<and> cu_period c = day) (cd_usage s) of
       None \<Rightarrow> (0, 0) | Some c \<Rightarrow> (cu_count c, cu_cpu c))"

definition CodeExecUsageRepo_AddUsage :: "uuid \<Rightarrow> int \<Rightarrow> int \<Rightarrow> (codedb, unit) tx" where
  "CodeExecUsageRepo_AddUsage o' day ms = (\<lambda>s. if \<not> sees (md_adb s) o' then Inl ErrStorage else
     (case find (\<lambda>c. cu_org c = o' \<and> cu_period c = day) (cd_usage s) of
       None \<Rightarrow> if \<not> int8 ms then Inl ErrStorage
         else Inr ((), s\<lparr>cd_usage := cd_usage s @ [\<lparr>cu_org = o', cu_period = day, cu_count = 1, cu_cpu = ms\<rparr>]\<rparr>)
     | Some c \<Rightarrow> if \<not> int8 (cu_count c + 1) \<or> \<not> int8 (cu_cpu c + ms) then Inl ErrStorage
         else Inr ((), s\<lparr>cd_usage := map (\<lambda>d. if cu_org d = o' \<and> cu_period d = day
           then d\<lparr>cu_count := cu_count d + 1, cu_cpu := cu_cpu d + ms\<rparr> else d) (cd_usage s)\<rparr>)))"

end
