(* ===== verification/CodeApp.thy ===== *)
theory CodeApp
  imports CodeExec
begin

text \<open>
  The handlers of code exercises (\<^verbatim>\<open>handlers/code_exec.go\<close>) and their routes
  (\<^verbatim>\<open>registerCodeExecRoutes\<close>).
\<close>

section \<open>Gates and metering\<close>

definition codeExecGate :: "code_env \<Rightarrow> org_ctx \<Rightarrow> (response, codedb, unit) hm" where
  "codeExecGate env = module_gate (ce_enabled env) ''code execution is not enabled for this organization''"

definition codeExecEnabledForOrg :: "code_env \<Rightarrow> org_ctx \<Rightarrow> (response, codedb, bool \<times> int option) hm" where
  "codeExecEnabledForOrg env oc = (if \<not> ce_enabled env then h_return (False, None)
     else msql (OrgRepo_GetCodeExecSettings (oc_org oc)) internal_error)"

definition dailyLimit :: "code_env \<Rightarrow> int option \<Rightarrow> int" where
  "dailyLimit env l = (case l of Some n \<Rightarrow> n | None \<Rightarrow> ce_daily env)"

definition auditCodeExec :: "auth_ctx \<Rightarrow> org_ctx \<Rightarrow> string \<Rightarrow> string \<Rightarrow> uuid \<Rightarrow> (response, codedb, unit) hm" where
  "auditCodeExec = module_audit"

text \<open>A row for the ledger; a run that produced nothing has the zero output.\<close>

definition submission_row :: "auth_ctx \<Rightarrow> org_ctx \<Rightarrow> uuid option \<Rightarrow> run_request \<Rightarrow> run_output \<Rightarrow> string \<Rightarrow> bool \<Rightarrow> string \<Rightarrow>
    code_submission" where
  "submission_row ac oc ex q out st passed msg = \<lparr>cs_id = 0, cs_org = oc_org oc, cs_exercise = ex, cs_learner = ac_user ac,
     cs_language = rq_language q, cs_source = rq_source q, cs_stdin = rq_stdin q, cs_stdout = ru_stdout out, cs_stderr = ru_stderr out,
     cs_exit = ru_exit out, cs_duration = ru_duration out, cs_memory = ru_memory out, cs_runner = ro_runner out,
     cs_status = st, cs_passed = passed, cs_error = msg, cs_created = 0\<rparr>"

definition no_output :: "code_env \<Rightarrow> run_request \<Rightarrow> run_output" where
  "no_output env q = \<lparr>ru_stdout = [], ru_stderr = [], ru_exit = 0, ru_duration = 0, ru_memory = 0, ru_status = [], ru_err = [],
     ro_runner = rn_name (sv_runner (ce_service env)), ro_language = rq_language q,
     ro_limits = \<lparr>lm_cpu = 0, lm_memory = 0, lm_wall = 0, lm_output = 0\<rparr>\<rparr>"

definition logSubmission :: "code_env \<Rightarrow> code_submission \<Rightarrow> (response, codedb, err + code_submission) hm" where
  "logSubmission env r = msql_attempt (CodeSubmissionRepo_Log env
     (if cs_runner r = [] then r\<lparr>cs_runner := rn_name (sv_runner (ce_service env))\<rparr> else r))"

text \<open>Trailing blanks of every line and blanks at the edges do not count.\<close>

fun unix_lines :: "string \<Rightarrow> string" where
  "unix_lines (c # d # s) = (if c = CHR 0x0D \<and> d = CHR 0x0A then CHR 0x0A # unix_lines s else c # unix_lines (d # s))"
| "unix_lines s = s"

definition trim_line :: "string \<Rightarrow> string" where
  "trim_line s = rev (dropWhile (\<lambda>c. c = CHR '' '' \<or> c = CHR 0x09) (rev s))"

definition normalize_stdout :: "string \<Rightarrow> string" where
  "normalize_stdout s = TrimSpace (Join (map trim_line (Split CHR 0x0A (unix_lines s))) [CHR 0x0A])"

definition run_passes :: "code_exercise option \<Rightarrow> run_output \<Rightarrow> bool" where
  "run_passes ex out \<longleftrightarrow> ru_status out = ''succeeded'' \<and> (case ex of None \<Rightarrow> True | Some x \<Rightarrow>
     TrimSpace (ex_expected x) = [] \<or> normalize_stdout (ru_stdout out) = normalize_stdout (ex_expected x))"

definition today :: "codedb \<Rightarrow> int" where
  "today s = DayPeriod (a_clock (md_adb s))"

text \<open>The cap, checked before the run; a blocked attempt is recorded.\<close>

definition daily_cap :: "code_env \<Rightarrow> auth_ctx \<Rightarrow> org_ctx \<Rightarrow> uuid option \<Rightarrow> run_request \<Rightarrow> int \<Rightarrow> (response, codedb, unit) hm" where
  "daily_cap env ac oc ex q limit = (if limit \<le> 0 then h_return () else
     h_bind (msql (\<lambda>s. CodeExecUsageRepo_GetForPeriod (oc_org oc) (today s) s) internal_error) (\<lambda>(count, cpu).
       if count \<ge> limit then
         h_bind (logSubmission env (submission_row ac oc ex q (no_output env q) ''blocked_limit'' False ''daily execution limit reached'')) (\<lambda>_.
           h_respond (RespErr 429 ''daily code execution limit reached''))
       else h_return ()))"

definition record_run :: "code_env \<Rightarrow> auth_ctx \<Rightarrow> org_ctx \<Rightarrow> code_exercise option \<Rightarrow> run_request \<Rightarrow> run_output \<Rightarrow>
    (response, codedb, code_submission) hm" where
  "record_run env ac oc ex q out =
     h_bind (logSubmission env (submission_row ac oc (map_option it_id ex) q out (ru_status out) (run_passes ex out) (ru_err out))) (\<lambda>r.
       case r of Inl e \<Rightarrow> h_respond (RespErr 500 ''internal error'') | Inr sub \<Rightarrow>
       h_bind (msql (\<lambda>s. CodeExecUsageRepo_AddUsage (oc_org oc) (today s) (ru_duration out) s) internal_error) (\<lambda>_. h_return sub))"

text \<open>
  The handler first decides whether to run and then runs and meters. It takes no lock in between:
  requests of one organization that overlap may all decide before any of them has metered.
  \<open>executeGated\<close> is one request on its own.
\<close>

definition admit_run :: "code_env \<Rightarrow> auth_ctx \<Rightarrow> org_ctx \<Rightarrow> code_exercise option \<Rightarrow> run_request \<Rightarrow> (response, codedb, unit) hm" where
  "admit_run env ac oc ex q =
     h_bind (codeExecEnabledForOrg env oc) (\<lambda>(enabled, cap).
     h_bind (h_guard enabled (RespErr 403 ''code execution is not enabled for this organization'')) (\<lambda>_.
       daily_cap env ac oc (map_option it_id ex) q (dailyLimit env cap)))"

definition perform_run :: "code_env \<Rightarrow> auth_ctx \<Rightarrow> org_ctx \<Rightarrow> code_exercise option \<Rightarrow> run_request \<Rightarrow> (response, codedb, code_submission) hm" where
  "perform_run env ac oc ex q = (case Execute (ce_service env) q of
         Inl ErrUnsupportedLanguage \<Rightarrow> h_respond (RespErr 400 ''codeexec: unsupported language'')
       | Inl ErrEmptyCodeSource \<Rightarrow> h_respond (RespErr 400 ''codeexec: empty source'')
       | Inl (RunnerError e) \<Rightarrow>
           h_bind (logSubmission env (submission_row ac oc (map_option it_id ex) q (no_output env q) ''error'' False e)) (\<lambda>_.
             h_respond (RespErr 502 ''code execution failed''))
       | Inr out \<Rightarrow> record_run env ac oc ex q out)"

definition executeGated :: "code_env \<Rightarrow> auth_ctx \<Rightarrow> org_ctx \<Rightarrow> code_exercise option \<Rightarrow> run_request \<Rightarrow> (response, codedb, code_submission) hm" where
  "executeGated env ac oc ex q = h_bind (admit_run env ac oc ex q) (\<lambda>_. perform_run env ac oc ex q)"

section \<open>Answers\<close>

definition exercise_json :: "code_exercise \<Rightarrow> json" where
  "exercise_json x = JObj [(''ID'', JInt (int (it_id x))), (''OrgID'', JInt (int (it_org x))),
     (''CourseID'', j_opt (\<lambda>i. JInt (int i)) (it_course x)), (''LessonID'', j_opt (\<lambda>i. JInt (int i)) (it_lesson x)),
     (''Slug'', JStr (it_slug x)), (''Title'', JStr (it_title x)), (''Description'', JStr (it_description x)),
     (''Language'', JStr (ex_language x)), (''StarterCode'', JStr (ex_starter x)), (''SolutionCode'', JStr (ex_solution x)),
     (''Stdin'', JStr (ex_stdin x)), (''ExpectedOutput'', JStr (ex_expected x)), (''CPUMillisLimit'', JInt (ex_cpu x)),
     (''MemoryBytesLimit'', JInt (ex_memory x)), (''WallTimeMillisLimit'', JInt (ex_wall x)), (''IsPublished'', JBool (it_published x)),
     (''CreatedBy'', j_opt (\<lambda>i. JInt (int i)) (it_created_by x)), (''CreatedAt'', JInt (it_created x)), (''UpdatedAt'', JInt (it_updated x))]"

definition submission_json :: "code_submission \<Rightarrow> json" where
  "submission_json r = JObj [(''ID'', JInt (int (cs_id r))), (''OrgID'', JInt (int (cs_org r))),
     (''ExerciseID'', j_opt (\<lambda>i. JInt (int i)) (cs_exercise r)), (''LearnerID'', JInt (int (cs_learner r))),
     (''Language'', JStr (cs_language r)), (''Source'', JStr (cs_source r)), (''Stdin'', JStr (cs_stdin r)),
     (''Stdout'', JStr (cs_stdout r)), (''Stderr'', JStr (cs_stderr r)), (''ExitCode'', JInt (cs_exit r)),
     (''DurationMillis'', JInt (cs_duration r)), (''MemoryKB'', JInt (cs_memory r)), (''Runner'', JStr (cs_runner r)),
     (''Status'', JStr (cs_status r)), (''Passed'', JBool (cs_passed r)), (''Error'', JStr (cs_error r)), (''CreatedAt'', JInt (cs_created r))]"

definition publicExercise :: "code_exercise \<Rightarrow> json" where
  "publicExercise x = JObj [(''id'', JInt (int (it_id x))), (''slug'', JStr (it_slug x)), (''title'', JStr (it_title x)),
     (''description'', JStr (it_description x)), (''language'', JStr (ex_language x)), (''starter_code'', JStr (ex_starter x)),
     (''stdin'', JStr (ex_stdin x)), (''cpu_millis_limit'', JInt (ex_cpu x)), (''memory_bytes_limit'', JInt (ex_memory x)),
     (''wall_time_millis_limit'', JInt (ex_wall x))]"

definition rows_json :: "('a \<Rightarrow> json) \<Rightarrow> 'a list \<Rightarrow> json" where
  "rows_json f xs = (if xs = [] then JNull else JArr (map f xs))"

text \<open>A date as \<^verbatim>\<open>2006-01-02\<close>.\<close>

definition pad :: "nat \<Rightarrow> int \<Rightarrow> string" where
  "pad n i = (let t = show_int i in replicate (n - length t) (CHR ''0'') @ t)"

definition show_date :: "int \<Rightarrow> string" where
  "show_date day = (let z = day + 719468; era = z div 146097; doe = z mod 146097;
     yoe = (doe - doe div 1460 + doe div 36524 - doe div 146096) div 365;
     doy = doe - (365 * yoe + yoe div 4 - yoe div 100); mp = (5 * doy + 2) div 153; d = doy - (153 * mp + 2) div 5 + 1;
     m = (if mp < 10 then mp + 3 else mp - 9) in
     pad 4 (yoe + era * 400 + (if m \<le> 2 then 1 else 0)) @ ''-'' @ pad 2 m @ ''-'' @ pad 2 d)"

section \<open>Authoring\<close>

definition clampLimit_to :: "int \<Rightarrow> int \<Rightarrow> int" where
  "clampLimit_to q m = (if q \<le> 0 \<or> m < q then m else q)"

definition clampLimit64 :: "int \<Rightarrow> int \<Rightarrow> int" where
  "clampLimit64 q m = (if q \<le> 0 \<or> m < q then m else q)"

definition applyExerciseDefaults :: "code_env \<Rightarrow> codeExerciseRequest \<Rightarrow> codeExerciseRequest" where
  "applyExerciseDefaults env q = (let d = sv_defaults (ce_service env) in
     q\<lparr>xq_cpu := clampLimit_to (xq_cpu q) (lm_cpu d), xq_memory := clampLimit64 (xq_memory q) (lm_memory d),
       xq_wall := clampLimit_to (xq_wall q) (lm_wall d)\<rparr>)"

text \<open>The exercise that a request describes: its language in lower case, its limits within the platform's.\<close>

definition requested_exercise :: "code_env \<Rightarrow> codeExerciseRequest \<Rightarrow> codeExerciseRequest" where
  "requested_exercise env q = applyExerciseDefaults env (q\<lparr>xq_language := ToLower (TrimSpace (xq_language q))\<rparr>)"

definition CreateCodeExercise :: "code_env \<Rightarrow> auth_ctx \<Rightarrow> org_ctx \<Rightarrow> codeExerciseRequest option \<Rightarrow> codedb handler" where
  "CreateCodeExercise env ac oc body = (case body of None \<Rightarrow> h_respond (RespErr 400 ''slug, title and language are required'')
     | Some q \<Rightarrow> if xq_title q = [] \<or> xq_slug q = [] \<or> xq_language q = []
       then h_respond (RespErr 400 ''slug, title and language are required'')
       else if \<not> SupportedLanguage (xq_language q) then h_respond (RespErr 400 ''unsupported language'')
       else h_bind (codeExecGate env oc) (\<lambda>_.
         h_bind (msql (CodeExerciseRepo_Create env (oc_org oc) (ac_user ac) (requested_exercise env q))
           (\<lambda>_. RespErr 500 ''could not create exercise'')) (\<lambda>r.
         h_bind (auditCodeExec ac oc ''code_exec.exercise_created'' ''code_exercise'' (it_id r)) (\<lambda>_.
           h_return (Resp 201 (JObj [(''exercise'', exercise_json r)]))))))"

definition ListCodeExercises :: "code_env \<Rightarrow> org_ctx \<Rightarrow> codedb handler" where
  "ListCodeExercises env oc = h_bind (codeExecGate env oc) (\<lambda>_.
     h_bind (msql (CodeExerciseRepo_ListByOrg (oc_org oc)) internal_error) (\<lambda>rs.
       h_return (Resp 200 (JObj [(''exercises'', rows_json exercise_json rs)]))))"

definition getOrgExercise :: "uuid \<Rightarrow> org_ctx \<Rightarrow> (response, codedb, code_exercise) hm" where
  "getOrgExercise = org_item cd_exercises ''exercise not found''"

definition GetCodeExercise :: "code_env \<Rightarrow> org_ctx \<Rightarrow> uuid \<Rightarrow> codedb handler" where
  "GetCodeExercise env oc i = h_bind (codeExecGate env oc) (\<lambda>_. h_bind (getOrgExercise i oc) (\<lambda>x.
     h_return (Resp 200 (JObj [(''exercise'', exercise_json x)]))))"

definition UpdateCodeExercise :: "code_env \<Rightarrow> auth_ctx \<Rightarrow> org_ctx \<Rightarrow> uuid \<Rightarrow> codeExerciseRequest option \<Rightarrow> codedb handler" where
  "UpdateCodeExercise env ac oc i body = (case body of None \<Rightarrow> h_respond (RespErr 400 ''title and language are required'')
     | Some q \<Rightarrow> if xq_title q = [] \<or> xq_language q = [] then h_respond (RespErr 400 ''title and language are required'')
       else if \<not> SupportedLanguage (xq_language q) then h_respond (RespErr 400 ''unsupported language'')
       else h_bind (codeExecGate env oc) (\<lambda>_.
         h_bind (getOrgExercise i oc) (\<lambda>x.
         h_bind (msql (CodeExerciseRepo_Update env (it_id x) (requested_exercise env q)) (\<lambda>_. RespErr 500 ''could not update exercise'')) (\<lambda>r.
         h_bind (auditCodeExec ac oc ''code_exec.exercise_updated'' ''code_exercise'' (it_id r)) (\<lambda>_.
           h_return (Resp 200 (JObj [(''exercise'', exercise_json r)])))))))"

definition SetCodeExercisePublished :: "code_env \<Rightarrow> auth_ctx \<Rightarrow> org_ctx \<Rightarrow> uuid \<Rightarrow> bool option \<Rightarrow> codedb handler" where
  "SetCodeExercisePublished env ac oc i body = (case body of None \<Rightarrow> h_respond (RespErr 400 ''invalid request'')
     | Some b \<Rightarrow>
       h_bind (codeExecGate env oc) (\<lambda>_.
       h_bind (getOrgExercise i oc) (\<lambda>x.
       h_bind (msql (CodeExerciseRepo_SetPublished (it_id x) b) internal_error) (\<lambda>r.
       h_bind (auditCodeExec ac oc (if b then ''code_exec.exercise_published'' else ''code_exec.exercise_unpublished'') ''code_exercise'' (it_id r)) (\<lambda>_.
         h_return (Resp 200 (JObj [(''exercise'', exercise_json r)])))))))"

definition DeleteCodeExercise :: "code_env \<Rightarrow> auth_ctx \<Rightarrow> org_ctx \<Rightarrow> uuid \<Rightarrow> codedb handler" where
  "DeleteCodeExercise env ac oc i =
     h_bind (codeExecGate env oc) (\<lambda>_.
     h_bind (getOrgExercise i oc) (\<lambda>x.
     h_bind (msql (CodeExerciseRepo_Delete (it_id x)) internal_error) (\<lambda>_.
     h_bind (auditCodeExec ac oc ''code_exec.exercise_deleted'' ''code_exercise'' (it_id x)) (\<lambda>_.
       h_return (Resp 204 JNull)))))"

section \<open>Learners\<close>

definition ListCodeCatalog :: "code_env \<Rightarrow> org_ctx \<Rightarrow> codedb handler" where
  "ListCodeCatalog env oc = h_bind (codeExecGate env oc) (\<lambda>_.
     h_bind (msql (CodeExerciseRepo_ListByOrg (oc_org oc)) internal_error) (\<lambda>rs.
       h_return (Resp 200 (JObj [(''exercises'', JArr (map publicExercise (filter it_published rs)))]))))"

definition GetCodeCatalogExercise :: "code_env \<Rightarrow> org_ctx \<Rightarrow> uuid \<Rightarrow> codedb handler" where
  "GetCodeCatalogExercise env oc i = h_bind (codeExecGate env oc) (\<lambda>_. h_bind (getOrgExercise i oc) (\<lambda>x.
     h_bind (h_guard (it_published x) (RespErr 404 ''exercise not found'')) (\<lambda>_.
       h_return (Resp 200 (JObj [(''exercise'', publicExercise x)])))))"

definition no_limits :: limits where
  "no_limits = \<lparr>lm_cpu = 0, lm_memory = 0, lm_wall = 0, lm_output = 0\<rparr>"

text \<open>A run of its own: language, source and stdin.\<close>

definition RunCode :: "code_env \<Rightarrow> auth_ctx \<Rightarrow> org_ctx \<Rightarrow> (string \<times> string \<times> string) option \<Rightarrow> codedb handler" where
  "RunCode env ac oc body = (case body of None \<Rightarrow> h_respond (RespErr 400 ''language and source are required'')
     | Some (lang, src, stdin) \<Rightarrow> if src = [] \<or> lang = [] then h_respond (RespErr 400 ''language and source are required'') else
       h_bind (executeGated env ac oc None \<lparr>rq_language = lang, rq_source = src, rq_stdin = stdin, rq_limits = no_limits\<rparr>) (\<lambda>sub.
         h_return (Resp 200 (JObj [(''submission'', submission_json sub)]))))"

definition exercise_run :: "code_exercise \<Rightarrow> string \<Rightarrow> run_request" where
  "exercise_run x src = \<lparr>rq_language = ex_language x, rq_source = src, rq_stdin = ex_stdin x,
     rq_limits = no_limits\<lparr>lm_cpu := ex_cpu x, lm_memory := ex_memory x, lm_wall := ex_wall x\<rparr>\<rparr>"

definition SubmitCodeExercise :: "code_env \<Rightarrow> auth_ctx \<Rightarrow> org_ctx \<Rightarrow> uuid \<Rightarrow> string option \<Rightarrow> codedb handler" where
  "SubmitCodeExercise env ac oc i body = (case body of None \<Rightarrow> h_respond (RespErr 400 ''source is required'')
     | Some src \<Rightarrow> if src = [] then h_respond (RespErr 400 ''source is required'') else
       h_bind (codeExecGate env oc) (\<lambda>_.
       h_bind (getOrgExercise i oc) (\<lambda>x.
       h_bind (h_guard (it_published x) (RespErr 404 ''exercise not found'')) (\<lambda>_.
       h_bind (executeGated env ac oc (Some x) (exercise_run x src)) (\<lambda>sub.
         h_return (Resp 200 (JObj [(''submission'', submission_json sub), (''passed'', JBool (cs_passed sub))])))))))"

definition ListMyCodeSubmissions :: "code_env \<Rightarrow> auth_ctx \<Rightarrow> org_ctx \<Rightarrow> uuid option \<Rightarrow> codedb handler" where
  "ListMyCodeSubmissions env ac oc ex = h_bind (codeExecGate env oc) (\<lambda>_.
     h_bind (msql (CodeSubmissionRepo_ListForLearner (ac_user ac) ex 50) internal_error) (\<lambda>rs.
       h_return (Resp 200 (JObj [(''submissions'', rows_json submission_json rs)]))))"

section \<open>Settings and usage\<close>

definition GetCodeExecSettings :: "code_env \<Rightarrow> org_ctx \<Rightarrow> codedb handler" where
  "GetCodeExecSettings env oc = h_bind (msql (OrgRepo_GetCodeExecSettings (oc_org oc)) internal_error) (\<lambda>(on, cap).
     h_return (Resp 200 (JObj [(''enabled'', JBool on), (''daily_limit'', j_opt JInt cap),
       (''platform_code_exec_enabled'', JBool (ce_enabled env)), (''platform_default_daily'', JInt (ce_daily env)),
       (''runner'', JStr (rn_name (sv_runner (ce_service env))))])))"

definition UpdateCodeExecSettings :: "auth_ctx \<Rightarrow> org_ctx \<Rightarrow> (bool \<times> int option) option \<Rightarrow> codedb handler" where
  "UpdateCodeExecSettings ac oc body = (case body of None \<Rightarrow> h_respond (RespErr 400 ''invalid request'')
     | Some (b, cap) \<Rightarrow> if (case cap of None \<Rightarrow> False | Some n \<Rightarrow> n < 0) then h_respond (RespErr 400 ''daily_limit must not be negative'')
       else h_bind (msql (OrgRepo_SetCodeExecSettings (oc_org oc) b cap) internal_error) (\<lambda>_.
         h_bind (auditCodeExec ac oc ''code_exec.settings_updated'' ''organization'' (oc_org oc)) (\<lambda>_.
           h_return (Resp 200 (JObj [(''enabled'', JBool b), (''daily_limit'', j_opt JInt cap)])))))"

definition CodeExecUsageDashboard :: "code_env \<Rightarrow> org_ctx \<Rightarrow> codedb handler" where
  "CodeExecUsageDashboard env oc =
     h_bind (msql (OrgRepo_GetCodeExecSettings (oc_org oc)) internal_error) (\<lambda>(on, cap).
     h_bind (msql (\<lambda>s. tx_bind (CodeExecUsageRepo_GetForPeriod (oc_org oc) (today s)) (\<lambda>c. tx_return (today s, c)) s) internal_error) (\<lambda>(day, count, cpu).
     h_bind (msql (CodeSubmissionRepo_RecentByOrg (oc_org oc) 50) internal_error) (\<lambda>rs.
       h_return (Resp 200 (JObj [(''period'', JStr (show_date day)), (''daily_limit'', JInt (dailyLimit env cap)),
         (''runner'', JStr (rn_name (sv_runner (ce_service env)))),
         (''usage'', JObj [(''execution_count'', JInt count), (''cpu_millis'', JInt cpu)]),
         (''recent_submissions'', rows_json submission_json rs)])))))"

section \<open>Routes\<close>

datatype code_action =
    CodeSettings | CodeSetSettings "(bool \<times> int option) option" | CodeUsage | CodeCreate "codeExerciseRequest option" | CodeList
  | CodeGet uuid | CodeUpdate uuid "codeExerciseRequest option" | CodePublish uuid "bool option" | CodeDelete uuid
  | CodeCatalog | CodeCatalogGet uuid | CodeRun "(string \<times> string \<times> string) option" | CodeSubmit uuid "string option" | CodeMine "uuid option"

fun code_roles :: "code_action \<Rightarrow> role set" where
  "code_roles CodeSettings = {Owner}"
| "code_roles (CodeSetSettings b) = {Owner}"
| "code_roles CodeCatalog = UNIV"
| "code_roles (CodeCatalogGet i) = UNIV"
| "code_roles (CodeRun b) = UNIV"
| "code_roles (CodeSubmit i b) = UNIV"
| "code_roles (CodeMine ex) = UNIV"
| "code_roles a = {Owner, Teacher}"

fun code_handler :: "code_env \<Rightarrow> auth_ctx \<Rightarrow> org_ctx \<Rightarrow> code_action \<Rightarrow> codedb handler" where
  "code_handler env ac oc CodeSettings = GetCodeExecSettings env oc"
| "code_handler env ac oc (CodeSetSettings b) = UpdateCodeExecSettings ac oc b"
| "code_handler env ac oc CodeUsage = CodeExecUsageDashboard env oc"
| "code_handler env ac oc (CodeCreate q) = CreateCodeExercise env ac oc q"
| "code_handler env ac oc CodeList = ListCodeExercises env oc"
| "code_handler env ac oc (CodeGet i) = GetCodeExercise env oc i"
| "code_handler env ac oc (CodeUpdate i q) = UpdateCodeExercise env ac oc i q"
| "code_handler env ac oc (CodePublish i b) = SetCodeExercisePublished env ac oc i b"
| "code_handler env ac oc (CodeDelete i) = DeleteCodeExercise env ac oc i"
| "code_handler env ac oc CodeCatalog = ListCodeCatalog env oc"
| "code_handler env ac oc (CodeCatalogGet i) = GetCodeCatalogExercise env oc i"
| "code_handler env ac oc (CodeRun b) = RunCode env ac oc b"
| "code_handler env ac oc (CodeSubmit i b) = SubmitCodeExercise env ac oc i b"
| "code_handler env ac oc (CodeMine ex) = ListMyCodeSubmissions env ac oc ex"

definition code_request :: "code_env \<Rightarrow> auth_ctx \<Rightarrow> string \<Rightarrow> code_action \<Rightarrow> codedb handler" where
  "code_request env ac slug a = module_route ac slug (code_roles a) (\<lambda>oc. code_handler env ac oc a)"

end
