(* ===== verification/CodeFacts.thy ===== *)
theory CodeFacts
  imports CodeApp
begin

text \<open>
  How a run of a program goes through its gates, the ledger and the meter, and the locale through
  which an invariant passes the other requests of code exercises.
\<close>

section \<open>Limits and results\<close>

definition limited_by :: "limits \<Rightarrow> limits \<Rightarrow> bool" where
  "limited_by l m \<longleftrightarrow> 0 < lm_cpu l \<and> lm_cpu l \<le> lm_cpu m \<and> 0 < lm_memory l \<and> lm_memory l \<le> lm_memory m \<and>
     0 < lm_wall l \<and> lm_wall l \<le> lm_wall m \<and> 0 < lm_output l \<and> lm_output l \<le> lm_output m"

lemma service_limits: "limited_by (sv_defaults (NewCodeService r l)) (sv_defaults (NewCodeService r l))"
  by (simp add: limited_by_def NewCodeService_def withFallback_def defaultLimits_def)

lemma clamp_limited: "limited_by (sv_defaults s) (sv_defaults s) \<Longrightarrow> limited_by (clamp s l) (sv_defaults s)"
  by (simp add: limited_by_def clamp_def clampInt_def)

lemma truncate_length: "0 < n \<Longrightarrow> int (length (truncate_text s n)) \<le> n"
  by (simp add: truncate_text_def)

text \<open>What \<open>Execute\<close> hands to the runner, and what it makes of the answer.\<close>

definition prepared :: "service \<Rightarrow> run_request \<Rightarrow> run_request" where
  "prepared s q = q\<lparr>rq_language := ToLower (TrimSpace (rq_language q)), rq_limits := clamp s (rq_limits q)\<rparr>"

definition output_of :: "service \<Rightarrow> run_request \<Rightarrow> run_result \<Rightarrow> run_output" where
  "output_of s q r = \<lparr>ru_stdout = truncate_text (ru_stdout r) (lm_output (rq_limits q)),
     ru_stderr = truncate_text (ru_stderr r) (lm_output (rq_limits q)), ru_exit = ru_exit r, ru_duration = ru_duration r,
     ru_memory = ru_memory r, ru_status = (if ru_status r = [] then ''error'' else ru_status r),
     ru_err = (if ru_status r = [] then ''runner returned empty status'' else ru_err r),
     ro_runner = rn_name (sv_runner s), ro_language = rq_language q, ro_limits = rq_limits q\<rparr>"

lemma Execute_Inr: "Execute s q = Inr out \<longleftrightarrow> SupportedLanguage (rq_language q) \<and> TrimSpace (rq_source q) \<noteq> [] \<and>
    (\<exists>r. rn_run (sv_runner s) (prepared s q) = Inr r \<and> out = output_of s (prepared s q) r)"
  by (auto simp: Execute_def SupportedLanguage_def prepared_def output_of_def Let_def split: sum.splits)

section \<open>A run through its gates\<close>

definition same_code :: "codedb \<Rightarrow> codedb \<Rightarrow> bool" where
  "same_code s t \<longleftrightarrow> cd_exercises t = cd_exercises s \<and> cd_submissions t = cd_submissions s \<and> cd_usage t = cd_usage s \<and>
     cd_limits t = cd_limits s \<and> a_next (md_adb s) \<le> a_next (md_adb t)"

interpretation code_rows: module_state "same_code s0" for s0
  by unfold_locales (auto simp: same_code_def adb_quiet_def)

lemma same_code_refl [simp]: "same_code s s"
  by (simp add: same_code_def)

text \<open>The meter of an organization and a day.\<close>

definition metered :: "uuid \<Rightarrow> int \<Rightarrow> codedb \<Rightarrow> int \<times> int" where
  "metered o' day s = (case find (\<lambda>c. cu_org c = o' \<and> cu_period c = day) (cd_usage s) of
     None \<Rightarrow> (0, 0) | Some c \<Rightarrow> (cu_count c, cu_cpu c))"

lemma GetForPeriod_run: "CodeExecUsageRepo_GetForPeriod o' day s = Inr (x, t) \<Longrightarrow>
    t = s \<and> (sees (md_adb s) o' \<longrightarrow> x = metered o' day s)"
proof -
  have "find (\<lambda>c. reads_org (md_adb s) (cu_org c) \<and> cu_org c = o' \<and> cu_period c = day) xs =
      find (\<lambda>c. cu_org c = o' \<and> cu_period c = day) xs" if "sees (md_adb s) o'" for xs :: "code_usage list"
    using that by (induction xs) (auto simp: reads_org_def)
  then show "CodeExecUsageRepo_GetForPeriod o' day s = Inr (x, t) \<Longrightarrow> t = s \<and> (sees (md_adb s) o' \<longrightarrow> x = metered o' day s)"
    by (auto simp: CodeExecUsageRepo_GetForPeriod_def tx_gets_def metered_def)
qed

definition limit_of :: "code_env \<Rightarrow> uuid \<Rightarrow> codedb \<Rightarrow> int" where
  "limit_of env o' s = dailyLimit env (cd_limits s o')"

lemma Log_Inr: "CodeSubmissionRepo_Log env r0 s = Inr (r, t) \<longleftrightarrow>
    r = r0\<lparr>cs_id := a_next (md_adb s), cs_created := a_clock (md_adb s)\<rparr> \<and> row_addable (md_adb s) (cs_learner r0) (cs_org r0) \<and>
    submission_storable env r \<and> (\<forall>i. cs_exercise r0 = Some i \<longrightarrow> (\<exists>x \<in> set (cd_exercises s). it_id x = i)) \<and>
    t = s\<lparr>cd_submissions := cd_submissions s @ [r], md_adb := (md_adb s)\<lparr>a_next := Suc (a_next (md_adb s))\<rparr>\<rparr>"
  by (auto simp: CodeSubmissionRepo_Log_def Let_def split: option.splits)

text \<open>A ledger row as it is written.\<close>

definition ledger_row :: "code_env \<Rightarrow> codedb \<Rightarrow> code_submission \<Rightarrow> code_submission" where
  "ledger_row env s r = r\<lparr>cs_runner := (if cs_runner r = [] then rn_name (sv_runner (ce_service env)) else cs_runner r),
     cs_id := a_next (md_adb s), cs_created := a_clock (md_adb s)\<rparr>"

lemma log_run:
  assumes "logSubmission env r s = (v, t)"
  obtains (stored) "v = Inr (Inr (ledger_row env s r))" "t = s\<lparr>cd_submissions := cd_submissions s @ [ledger_row env s r],
      md_adb := (md_adb s)\<lparr>a_next := Suc (a_next (md_adb s))\<rparr>\<rparr>" "\<not> a_aborted (md_adb s)" "sees (md_adb s) (cs_org r)"
      "submission_storable env (ledger_row env s r)"
  | (lost) e where "v = Inr (Inl e)" "same_code s t" "a_aborted (md_adb t)"
proof -
  let ?r = "if cs_runner r = [] then r\<lparr>cs_runner := rn_name (sv_runner (ce_service env))\<rparr> else r"
  have row: "?r\<lparr>cs_id := a_next (md_adb s), cs_created := a_clock (md_adb s)\<rparr> = ledger_row env s r" by (simp add: ledger_row_def)
  show thesis
  proof (cases "\<not> a_aborted (md_adb s) \<and> (\<exists>x. CodeSubmissionRepo_Log env ?r s = Inr x)")
    case True
    then obtain x t' where run: "CodeSubmissionRepo_Log env ?r s = Inr (x, t')" by auto
    then have "x = ledger_row env s r" using row by (simp add: Log_Inr)
    then show thesis using stored assms run True
      by (auto simp: logSubmission_def msql_attempt_def Log_Inr row_addable_def split: if_splits)
  next
    case False
    have "\<exists>e. v = Inr (Inl e) \<and> t = m_abort e s \<and> (a_aborted (md_adb s) \<or> e = ErrStorage)"
      using False assms by (auto simp: logSubmission_def msql_attempt_def CodeSubmissionRepo_Log_def Let_def split: if_splits option.splits)
    then show thesis using lost by (auto simp: same_code_def m_abort_def aborts_def)
  qed
qed

lemma add_usage_Inr: "CodeExecUsageRepo_AddUsage o' day ms s = Inr (u, t) \<Longrightarrow>
    sees (md_adb s) o' \<and> cd_exercises t = cd_exercises s \<and> cd_submissions t = cd_submissions s \<and> cd_limits t = cd_limits s \<and>
    md_adb t = md_adb s \<and> md_on t = md_on s"
  by (auto simp: CodeExecUsageRepo_AddUsage_def split: if_splits option.splits)

text \<open>The state of the rows that a run may leave.\<close>

definition ran :: "code_env \<Rightarrow> auth_ctx \<Rightarrow> org_ctx \<Rightarrow> code_exercise option \<Rightarrow> run_request \<Rightarrow> run_output \<Rightarrow> codedb \<Rightarrow> codedb \<Rightarrow> bool" where
  "ran env ac oc ex q out s t \<longleftrightarrow> (let r = ledger_row env s (submission_row ac oc (map_option it_id ex) q out (ru_status out) (run_passes ex out) (ru_err out)) in
     sees (md_adb s) (oc_org oc) \<and> submission_storable env r \<and>
     CodeExecUsageRepo_AddUsage (oc_org oc) (today s) (ru_duration out) (s\<lparr>cd_submissions := cd_submissions s @ [r],
       md_adb := (md_adb s)\<lparr>a_next := Suc (a_next (md_adb s))\<rparr>\<rparr>) = Inr ((), t))"

definition blocked :: "code_env \<Rightarrow> auth_ctx \<Rightarrow> org_ctx \<Rightarrow> code_exercise option \<Rightarrow> run_request \<Rightarrow> codedb \<Rightarrow> codedb \<Rightarrow> bool" where
  "blocked env ac oc ex q s t \<longleftrightarrow> (let r = ledger_row env s (submission_row ac oc (map_option it_id ex) q (no_output env q) ''blocked_limit'' False
       ''daily execution limit reached'') in
     0 < limit_of env (oc_org oc) s \<and> limit_of env (oc_org oc) s \<le> fst (metered (oc_org oc) (today s) s) \<and> submission_storable env r \<and>
     t = s\<lparr>cd_submissions := cd_submissions s @ [r], md_adb := (md_adb s)\<lparr>a_next := Suc (a_next (md_adb s))\<rparr>\<rparr>)"

lemma submission_row_org [simp]: "cs_org (submission_row ac oc ex q out st b m) = oc_org oc"
  by (simp add: submission_row_def)

lemma record_run_cases:
  assumes "record_run env ac oc ex q out s = (v, t)"
  obtains (gone) r where "v = Inl r" "500 \<le> http_status r"
  | (logged) sub where "v = Inr sub" "ran env ac oc ex q out s t" "md_adb t = (md_adb s)\<lparr>a_next := Suc (a_next (md_adb s))\<rparr>"
      "cd_submissions t = cd_submissions s @ [sub]"
      "sub = ledger_row env s (submission_row ac oc (map_option it_id ex) q out (ru_status out) (run_passes ex out) (ru_err out))"
proof -
  let ?r = "submission_row ac oc (map_option it_id ex) q out (ru_status out) (run_passes ex out) (ru_err out)"
  from assms[unfolded record_run_def] show thesis
  proof (cases rule: h_bind_run)
    case (1 r)
    then show thesis using msql_attempt_run(3) unfolding logSubmission_def by blast
  next
    case (2 x s1)
    from 2(1) show thesis
    proof (cases rule: log_run)
      case stored
      let ?s1 = "s\<lparr>cd_submissions := cd_submissions s @ [ledger_row env s ?r], md_adb := (md_adb s)\<lparr>a_next := Suc (a_next (md_adb s))\<rparr>\<rparr>"
      have day: "today ?s1 = today s" by (simp add: today_def)
      from 2(2) stored have "h_bind (msql (\<lambda>s. CodeExecUsageRepo_AddUsage (oc_org oc) (today s) (ru_duration out) s) internal_error)
          (\<lambda>_. h_return (ledger_row env s ?r)) ?s1 = (v, t)" by simp
      then show thesis
      proof (cases rule: h_bind_run)
        case (1 r)
        then show thesis using gone[of r] by (auto simp: msql_run)
      next
        case (2 u s2)
        then have add: "CodeExecUsageRepo_AddUsage (oc_org oc) (today s) (ru_duration out) ?s1 = Inr ((), t)"
          by (auto simp: msql_run h_return_def day)
        have v: "v = Inr (ledger_row env s ?r)" using 2(2) by (simp add: h_return_def)
        show thesis using logged[OF v] add add_usage_Inr[OF add] stored(4,5) by (simp add: ran_def)
      qed
    next
      case (lost e)
      then show thesis using gone[of "RespErr 500 ''internal error''"] 2(2) by (simp add: h_respond_def)
    qed
  qed
qed

lemma enabled_run:
  assumes "codeExecEnabledForOrg env oc s = (v, t)"
  obtains (failed) r where "v = Inl r" "http_status r = 500"
  | (answered) on cap where "v = Inr (on, cap)" "t = s" "on \<longrightarrow> ce_enabled env \<and> md_on s (oc_org oc) \<and> cap = cd_limits s (oc_org oc)"
proof (cases "ce_enabled env")
  case True
  then show thesis using assms that
    by (cases v) (auto simp: codeExecEnabledForOrg_def msql_run OrgRepo_GetCodeExecSettings_def tx_bind_Inr ModuleRepo_GetEnabled_def
      tx_gets_def split: if_splits)
next
  case False
  then show thesis using assms that by (auto simp: codeExecEnabledForOrg_def h_return_def)
qed

lemma daily_cap_run:
  assumes "daily_cap env ac oc (map_option it_id ex) q (limit_of env (oc_org oc) s) s = (v, t)"
  obtains (failed) r where "v = Inl r" "500 \<le> http_status r"
  | (lost) r where "v = Inl r" "http_status r = 429" "same_code s t"
  | (blocked) r where "v = Inl r" "http_status r = 429" "blocked env ac oc ex q s t"
  | (free) "v = Inr ()" "t = s" "sees (md_adb s) (oc_org oc) \<longrightarrow>
      limit_of env (oc_org oc) s \<le> 0 \<or> fst (metered (oc_org oc) (today s) s) < limit_of env (oc_org oc) s"
proof (cases "limit_of env (oc_org oc) s \<le> 0")
  case True
  then show thesis using assms free by (simp add: daily_cap_def h_return_def)
next
  case False
  let ?r = "submission_row ac oc (map_option it_id ex) q (no_output env q) ''blocked_limit'' False ''daily execution limit reached''"
  from assms False have "h_bind (msql (\<lambda>s. CodeExecUsageRepo_GetForPeriod (oc_org oc) (today s) s) internal_error) (\<lambda>(count, cpu).
       if count \<ge> limit_of env (oc_org oc) s then
         h_bind (logSubmission env ?r) (\<lambda>_. h_respond (RespErr 429 ''daily code execution limit reached''))
       else h_return ()) s = (v, t)" by (simp add: daily_cap_def)
  then show thesis
  proof (cases rule: h_bind_run)
    case (1 r)
    then show thesis using failed[of r] by (auto simp: msql_run)
  next
    case (2 x s1)
    then have x: "s1 = s" "sees (md_adb s) (oc_org oc) \<longrightarrow> x = metered (oc_org oc) (today s) s"
      using GetForPeriod_run[of "oc_org oc" "today s" s x s1] by (auto simp: msql_run)
    show thesis
    proof (cases "fst x \<ge> limit_of env (oc_org oc) s")
      case True
      with 2(2) x(1) have "h_bind (logSubmission env ?r) (\<lambda>_. h_respond (RespErr 429 ''daily code execution limit reached'')) s = (v, t)"
        by (simp add: split_beta)
      then show thesis
      proof (cases rule: h_bind_run)
        case (1 r) then show thesis using msql_attempt_run(3) unfolding logSubmission_def by blast
      next
        case (2 y s2)
        then have v: "v = Inl (RespErr 429 ''daily code execution limit reached'')" "t = s2" by (simp_all add: h_respond_def)
        from 2(1) show thesis
        proof (cases rule: log_run)
          case stored
          then have "blocked env ac oc ex q s t" using v(2) x(2) True False by (simp add: blocked_def)
          then show thesis using blocked[OF v(1)] by simp
        next
          case (lost e) then show thesis using \<open>\<And>r. v = Inl r \<Longrightarrow> http_status r = 429 \<Longrightarrow> same_code s t \<Longrightarrow> thesis\<close> v by simp
        qed
      qed
    next
      case False
      then show thesis using free 2(2) x by (auto simp: split_beta h_return_def)
    qed
  qed
qed

lemma guard_True: "h_bind (h_guard True r) f = f ()"
  by (simp add: h_bind_def h_guard_def h_return_def fun_eq_iff)

lemma executeGated_unfold:
  "executeGated env ac oc ex q =
     h_bind (codeExecEnabledForOrg env oc) (\<lambda>(enabled, cap).
     h_bind (h_guard enabled (RespErr 403 ''code execution is not enabled for this organization'')) (\<lambda>_.
     h_bind (daily_cap env ac oc (map_option it_id ex) q (dailyLimit env cap)) (\<lambda>_. perform_run env ac oc ex q)))"
  by (simp add: executeGated_def admit_run_def h_bind_def fun_eq_iff split: sum.split prod.split)

lemma executeGated_run:
  assumes "executeGated env ac oc ex q s = (v, t)"
  obtains (failed) r where "v = Inl r" "500 \<le> http_status r"
  | (refused) r where "v = Inl r" "400 \<le> http_status r" "same_code s t"
  | (blocked) r where "v = Inl r" "http_status r = 429" "blocked env ac oc ex q s t"
  | (recorded) sub out where "v = Inr sub" "ce_enabled env" "md_on s (oc_org oc)" "Execute (ce_service env) q = Inr out"
      "limit_of env (oc_org oc) s \<le> 0 \<or> fst (metered (oc_org oc) (today s) s) < limit_of env (oc_org oc) s"
      "ran env ac oc ex q out s t" "md_adb t = (md_adb s)\<lparr>a_next := Suc (a_next (md_adb s))\<rparr>" "cd_submissions t = cd_submissions s @ [sub]"
      "sub = ledger_row env s (submission_row ac oc (map_option it_id ex) q out (ru_status out) (run_passes ex out) (ru_err out))"
  using assms unfolding executeGated_unfold perform_run_def
proof (cases rule: h_bind_run)
  case (1 r)
  from 1(1) show thesis by (cases rule: enabled_run) (use 1(2) failed in simp_all)
next
  case (2 x s1)
  obtain on cap where x: "x = (on, cap)" by fastforce
  have en: "s1 = s" "on \<longrightarrow> ce_enabled env \<and> md_on s (oc_org oc) \<and> cap = cd_limits s (oc_org oc)"
    using 2(1) unfolding x by (cases rule: enabled_run; simp)+
  show thesis
  proof (cases on)
    case False
    then show thesis using 2(2) x en(1) refused[of "RespErr 403 ''code execution is not enabled for this organization''"]
      by (simp add: h_bind_def h_guard_def h_respond_def)
  next
    case True
    let ?limit = "limit_of env (oc_org oc) s"
    have "h_bind (daily_cap env ac oc (map_option it_id ex) q ?limit) (\<lambda>_. case Execute (ce_service env) q of
         Inl ErrUnsupportedLanguage \<Rightarrow> h_respond (RespErr 400 ''codeexec: unsupported language'')
       | Inl ErrEmptyCodeSource \<Rightarrow> h_respond (RespErr 400 ''codeexec: empty source'')
       | Inl (RunnerError e) \<Rightarrow>
           h_bind (logSubmission env (submission_row ac oc (map_option it_id ex) q (no_output env q) ''error'' False e)) (\<lambda>_.
             h_respond (RespErr 502 ''code execution failed''))
       | Inr out \<Rightarrow> record_run env ac oc ex q out) s = (v, t)"
    proof -
      have cap: "dailyLimit env cap = ?limit" using en(2) True by (simp add: limit_of_def)
      have on: "on = True" using True by simp
      show ?thesis using 2(2) unfolding x prod.case en(1) on guard_True cap .
    qed
    then show thesis
    proof (cases rule: h_bind_run)
      case (1 r)
      from 1(1) show thesis
        by (cases rule: daily_cap_run) (use 1(2) failed refused blocked in auto)
    next
      case (2 u s2)
      from 2(1) have free: "s2 = s" "sees (md_adb s) (oc_org oc) \<longrightarrow> ?limit \<le> 0 \<or> fst (metered (oc_org oc) (today s) s) < ?limit"
        by (cases rule: daily_cap_run; simp)+
      show thesis
      proof (cases "Execute (ce_service env) q")
        case (Inl e)
        show thesis
        proof (cases e)
          case (RunnerError m)
          have "h_bind (logSubmission env w) (\<lambda>_. h_respond r) s = (v, t) \<Longrightarrow> v = Inl r" for w and r :: response
            using msql_attempt_run(3) by (auto simp: logSubmission_def h_respond_def elim!: h_bind_run)
          then show thesis using 2(2) Inl RunnerError free(1) failed[of "RespErr 502 ''code execution failed''"] by simp
        qed (use 2(2) Inl free(1) refused in \<open>auto simp: h_respond_def\<close>)
      next
        case (Inr out)
        with 2(2) free(1) have "record_run env ac oc ex q out s = (v, t)" by simp
        then show thesis
        proof (cases rule: record_run_cases)
          case (gone r) then show thesis using failed by simp
        next
          case (logged sub)
          have "sees (md_adb s) (oc_org oc)" using logged(2) by (simp add: ran_def Let_def)
          then show thesis using recorded[of sub out] logged Inr en(2) True free(2) by simp
        qed
      qed
    qed
  qed
qed

section \<open>Requests that run a program\<close>

fun is_run :: "code_action \<Rightarrow> bool" where
  "is_run (CodeRun b) = True"
| "is_run (CodeSubmit i b) = True"
| "is_run a = False"

text \<open>What a request runs: a program of its own, or an answer to a published exercise.\<close>

definition runs_as :: "codedb \<Rightarrow> org_ctx \<Rightarrow> code_action \<Rightarrow> code_exercise option \<Rightarrow> run_request \<Rightarrow> bool" where
  "runs_as s oc act ex q \<longleftrightarrow>
     (\<exists>lang src stdin. act = CodeRun (Some (lang, src, stdin)) \<and> ex = None \<and>
        q = \<lparr>rq_language = lang, rq_source = src, rq_stdin = stdin, rq_limits = no_limits\<rparr>) \<or>
     (\<exists>i src x. act = CodeSubmit i (Some src) \<and> x \<in> set (cd_exercises s) \<and> it_id x = i \<and> it_org x = oc_org oc \<and> it_published x \<and>
        ex = Some x \<and> q = exercise_run x src)"

definition run_answer :: "code_exercise option \<Rightarrow> code_submission \<Rightarrow> response" where
  "run_answer ex sub = Resp 200 (JObj ((''submission'', submission_json sub) #
     (case ex of None \<Rightarrow> [] | Some x \<Rightarrow> [(''passed'', JBool (cs_passed sub))])))"

interpretation exercises: item_table cd_exercises put_exercises
  by unfold_locales simp_all

lemma errs_code_gate: "errs (codeExecGate env oc)" "errs (getOrgExercise i oc)"
  unfolding codeExecGate_def getOrgExercise_def by (rule errs_module_gate errs_item)+

lemma code_gate_reads: "h_pres (same_code s0) (codeExecGate env oc)" "h_pres (same_code s0) (getOrgExercise i oc)"
  unfolding codeExecGate_def getOrgExercise_def by (rule code_rows.pres_gate code_rows.pres_item)+

lemma submit_run:
  assumes "SubmitCodeExercise env ac oc i (Some src) s = (v, t)"
  obtains (refused) r where "v = Inl r" "400 \<le> http_status r" "same_code s t"
  | (executed) x w where "x \<in> set (cd_exercises s)" "it_id x = i" "it_org x = oc_org oc" "it_published x"
      "executeGated env ac oc (Some x) (exercise_run x src) s = (w, t)"
      "case w of Inl r \<Rightarrow> v = Inl r | Inr sub \<Rightarrow> v = Inr (run_answer (Some x) sub)"
proof (cases "src = []")
  case True
  then show thesis using assms refused[of "RespErr 400 ''source is required''"] by (simp add: SubmitCodeExercise_def h_respond_def)
next
  case False
  note reads = h_presD[where I="same_code s" and s=s]
  from False assms have "h_bind (codeExecGate env oc) (\<lambda>_. h_bind (getOrgExercise i oc) (\<lambda>x.
       h_bind (h_guard (it_published x) (RespErr 404 ''exercise not found'')) (\<lambda>_.
       h_bind (executeGated env ac oc (Some x) (exercise_run x src)) (\<lambda>sub.
         h_return (Resp 200 (JObj [(''submission'', submission_json sub), (''passed'', JBool (cs_passed sub))])))))) s = (v, t)"
    by (simp add: SubmitCodeExercise_def)
  then show thesis
  proof (cases rule: h_bind_run)
    case (1 r)
    then show thesis using refused[of r] errsD[OF errs_code_gate(1)] reads[OF code_gate_reads(1)] by (metis same_code_refl snd_conv)
  next
    case (2 u s1)
    then have s1: "s1 = s" using module_gate_Inr unfolding codeExecGate_def by blast
    from 2(2) show thesis
    proof (cases rule: h_bind_run)
      case (1 r)
      then show thesis using refused[of r] errsD[OF errs_code_gate(2)] reads[OF code_gate_reads(2)] s1 by (metis same_code_refl snd_conv)
    next
      case (2 x s2)
      then have x: "s2 = s" "x \<in> set (cd_exercises s)" "it_id x = i" "it_org x = oc_org oc"
        using exercises.org_item_Inr s1 unfolding getOrgExercise_def by blast+
      show thesis
      proof (cases "it_published x")
        case False
        then show thesis using 2(2) x(1) refused[of "RespErr 404 ''exercise not found''"]
          by (simp add: h_bind_def h_guard_def h_respond_def)
      next
        case True
        then have pub: "it_published x = True" by simp
        from 2(2)[unfolded pub guard_True x(1)] show thesis
        proof (cases rule: h_bind_run)
          case (1 r) then show thesis using executed[of x "Inl r"] x True by simp
        next
          case (2 sub s3)
          then show thesis using executed[of x "Inr sub"] x True by (simp add: h_return_def run_answer_def)
        qed
      qed
    qed
  qed
qed

lemma ad_hoc_run:
  assumes "RunCode env ac oc (Some (lang, src, stdin)) s = (v, t)"
  obtains (refused) r where "v = Inl r" "400 \<le> http_status r" "same_code s t"
  | (executed) w where
      "executeGated env ac oc None \<lparr>rq_language = lang, rq_source = src, rq_stdin = stdin, rq_limits = no_limits\<rparr> s = (w, t)"
      "case w of Inl r \<Rightarrow> v = Inl r | Inr sub \<Rightarrow> v = Inr (run_answer None sub)"
proof (cases "src = [] \<or> lang = []")
  case True
  then show thesis using assms refused[of "RespErr 400 ''language and source are required''"] by (auto simp: RunCode_def h_respond_def)
next
  case False
  from assms[unfolded RunCode_def option.case prod.case if_not_P[OF False]] show thesis
  proof (cases rule: h_bind_run)
    case (1 r) then show thesis using executed[of "Inl r"] by simp
  next
    case (2 sub s1) then show thesis using executed[of "Inr sub"] by (simp add: h_return_def run_answer_def)
  qed
qed

lemma run_handler_run:
  assumes "code_handler env ac oc act s = (v, t)" "is_run act"
  obtains (refused) r where "v = Inl r" "400 \<le> http_status r" "same_code s t"
  | (executed) ex q w where "runs_as s oc act ex q" "executeGated env ac oc ex q s = (w, t)"
      "case w of Inl r \<Rightarrow> v = Inl r | Inr sub \<Rightarrow> v = Inr (run_answer ex sub)"
proof (cases act rule: is_run.cases)
  case (1 b)
  show thesis
  proof (cases b)
    case None
    then show thesis using assms(1) 1 refused[of "RespErr 400 ''language and source are required''"] by (simp add: RunCode_def h_respond_def)
  next
    case (Some p)
    obtain lang src stdin where p: "p = (lang, src, stdin)" by (cases p) auto
    have "RunCode env ac oc (Some (lang, src, stdin)) s = (v, t)" using assms(1) 1 Some p by simp
    then show thesis by (cases rule: ad_hoc_run) (use refused executed[of None] 1 Some p in \<open>auto simp: runs_as_def\<close>)
  qed
next
  case (2 i b)
  show thesis
  proof (cases b)
    case None
    then show thesis using assms(1) 2 refused[of "RespErr 400 ''source is required''"] by (simp add: SubmitCodeExercise_def h_respond_def)
  next
    case (Some src)
    have "SubmitCodeExercise env ac oc i (Some src) s = (v, t)" using assms(1) 2 Some by simp
    then show thesis
    proof (cases rule: submit_run)
      case (refused r) then show thesis by (rule that(1))
    next
      case (executed x w)
      have "runs_as s oc act (Some x) (exercise_run x src)" using executed(1-4) 2 Some by (auto simp: runs_as_def)
      then show thesis using that(2) executed(5,6) by blast
    qed
  qed
qed (use assms(2) in simp_all)

text \<open>A whole request: nothing is recorded, or an attempt that the cap has blocked, or a run.\<close>

lemma runs_as_open: "runs_as (open_mtx u s) = runs_as s"
  by (simp add: runs_as_def fun_eq_iff)

lemma same_code_served: "same_code (open_mtx u s) t \<Longrightarrow> s' = s \<or> s' = close_mtx t \<Longrightarrow> same_code s s'"
  by (auto simp: same_code_def)

lemma run_request_cases:
  assumes run: "mserve (ac_user ac) (code_request env ac slug act) s = (r, s')" and act: "is_run act"
  obtains (kept) "same_code s s'" "400 \<le> http_status r" "500 \<le> http_status r \<longrightarrow> s' = s"
  | (blocked) oc ex q t where "http_status r = 429" "runs_as s oc act ex q" "s' = close_mtx t" "blocked env ac oc ex q (open_mtx (ac_user ac) s) t"
  | (recorded) oc ex q out sub t where "runs_as s oc act ex q" "r = run_answer ex sub" "s' = close_mtx t"
      "ce_enabled env" "md_on s (oc_org oc)" "Execute (ce_service env) q = Inr out"
      "limit_of env (oc_org oc) s \<le> 0 \<or> fst (metered (oc_org oc) (today s) s) < limit_of env (oc_org oc) s"
      "ran env ac oc ex q out (open_mtx (ac_user ac) s) t" "cd_submissions t = cd_submissions s @ [sub]"
      "sub = ledger_row env s (submission_row ac oc (map_option it_id ex) q out (ru_status out) (run_passes ex out) (ru_err out))"
proof -
  let ?s = "open_mtx (ac_user ac) s"
  obtain v t where h: "code_request env ac slug act ?s = (v, t)" by fastforce
  have served: "(v = Inl p \<or> v = Inr p) \<Longrightarrow> r = p \<and> (s' = s \<or> s' = close_mtx t) \<and> (500 \<le> http_status p \<longrightarrow> s' = s) \<and>
      (http_status p < 500 \<and> \<not> a_aborted (md_adb t) \<longrightarrow> s' = close_mtx t)" for p
    using h by (cases rule: mserve_cases[OF run]) (auto simp: run_handler_cases)
  have refused: thesis if "v = Inl p" "400 \<le> http_status p" "same_code ?s t" for p
    using served[of p] that same_code_served[of "ac_user ac" s t s'] kept by auto
  have failed: thesis if "v = Inl p" "500 \<le> http_status p" for p
    using served[of p] that kept by simp
  from h[unfolded code_request_def] show thesis
  proof (cases rule: module_route_cases)
    case (stopped p)
    have "same_code ?s t" using quiet_same[OF stopped(3)] by (subst stopped(4)) (simp add: same_code_def adb_quiet_def)
    then show thesis using refused stopped(1,2) by simp
  next
    case (passed oc g)
    from passed(1) act show thesis
    proof (cases rule: run_handler_run)
      case (refused p) then show thesis using \<open>\<And>p. v = Inl p \<Longrightarrow> 400 \<le> http_status p \<Longrightarrow> same_code ?s t \<Longrightarrow> thesis\<close> by simp
    next
      case (executed ex q w)
      have as: "runs_as s oc act ex q" using executed(1) by (simp add: runs_as_open)
      from executed(2) show thesis
      proof (cases rule: executeGated_run)
        case (failed p) then show thesis using \<open>\<And>p. v = Inl p \<Longrightarrow> 500 \<le> http_status p \<Longrightarrow> thesis\<close> executed(3) by simp
      next
        case (refused p)
        then show thesis using \<open>\<And>p. v = Inl p \<Longrightarrow> 400 \<le> http_status p \<Longrightarrow> same_code ?s t \<Longrightarrow> thesis\<close> executed(3) by simp
      next
        case (blocked p)
        have "\<not> a_aborted (md_adb t)" using blocked(3) by (simp add: blocked_def Let_def)
        then have "r = p" "s' = close_mtx t" using served[of p] blocked(1,2) executed(3) by simp_all
        then show thesis using that(2)[OF _ as _ blocked(3)] blocked(2) by simp
      next
        case (recorded sub out)
        have "r = run_answer ex sub" "s' = close_mtx t"
          using served[of "run_answer ex sub"] executed(3) recorded(1,7) by (simp_all add: run_answer_def)
        then show thesis
          using that(3)[OF as, of sub t out] recorded by (simp add: limit_of_def metered_def today_def ledger_row_def)
      qed
    qed
  qed
qed

section \<open>The other requests\<close>

locale code_laws = module_state I for I :: "codedb \<Rightarrow> bool" +
  fixes env :: code_env and may_set :: bool
  assumes create: "xq_title q \<noteq> [] \<Longrightarrow> xq_slug q \<noteq> [] \<Longrightarrow> SupportedLanguage (xq_language q) \<Longrightarrow>
      tx_pres I (CodeExerciseRepo_Create env o' u (requested_exercise env q))"
    and update: "xq_title q \<noteq> [] \<Longrightarrow> SupportedLanguage (xq_language q) \<Longrightarrow> tx_pres I (CodeExerciseRepo_Update env i (requested_exercise env q))"
    and publish: "tx_pres I (CodeExerciseRepo_SetPublished i b)"
    and delete: "tx_pres I (CodeExerciseRepo_Delete i)"
    and settings: "may_set \<Longrightarrow> tx_pres I (OrgRepo_SetCodeExecSettings o' b cap)"
begin

lemma pres_codegate: "h_pres I (codeExecGate env oc)"
  unfolding codeExecGate_def by (rule pres_gate)

lemma pres_exercise: "h_pres I (getOrgExercise i oc)"
  unfolding getOrgExercise_def by (rule pres_item)

lemma pres_auditcode: "h_pres I (auditCodeExec ac oc action resource i)"
  unfolding auditCodeExec_def by (rule pres_audit)

lemma pres_code_reads:
  "tx_pres I (CodeExerciseRepo_ListByOrg o')" "tx_pres I (CodeSubmissionRepo_ListForLearner l ex n)"
  "tx_pres I (CodeSubmissionRepo_RecentByOrg o' n)" "tx_pres I (OrgRepo_GetCodeExecSettings o')"
  "tx_pres I (\<lambda>s. tx_bind (CodeExecUsageRepo_GetForPeriod o' (today s)) (\<lambda>c. tx_return (today s, c)) s)"
  unfolding CodeExerciseRepo_ListByOrg_def CodeSubmissionRepo_ListForLearner_def CodeSubmissionRepo_RecentByOrg_def
    OrgRepo_GetCodeExecSettings_def CodeExecUsageRepo_GetForPeriod_def
  by (intro pres_list tx_pres_gets tx_pres_bind[OF pres_enabled] | simp add: tx_post_def tx_bind_Inr tx_gets_def tx_return_def)+

lemmas code_rules = mod_rules pres_codegate pres_exercise pres_auditcode pres_code_reads publish delete

lemma pres_create: "h_pres I (CreateCodeExercise env ac oc body)"
  unfolding CreateCodeExercise_def by (cases body) (auto intro!: code_rules create)

lemma pres_update: "h_pres I (UpdateCodeExercise env ac oc i body)"
  unfolding UpdateCodeExercise_def by (cases body) (auto intro!: code_rules update)

lemma pres_others:
  "h_pres I (GetCodeExecSettings env oc)" "h_pres I (CodeExecUsageDashboard env oc)"
  "h_pres I (ListCodeExercises env oc)" "h_pres I (GetCodeExercise env oc i)" "h_pres I (SetCodeExercisePublished env ac oc i p)"
  "h_pres I (DeleteCodeExercise env ac oc i)" "h_pres I (ListCodeCatalog env oc)" "h_pres I (GetCodeCatalogExercise env oc i)"
  "h_pres I (ListMyCodeSubmissions env ac oc ex)"
  unfolding GetCodeExecSettings_def CodeExecUsageDashboard_def ListCodeExercises_def GetCodeExercise_def
    SetCodeExercisePublished_def DeleteCodeExercise_def ListCodeCatalog_def GetCodeCatalogExercise_def ListMyCodeSubmissions_def
  by (intro code_rules | simp only: split_beta)+

lemma pres_settings: "may_set \<Longrightarrow> h_pres I (UpdateCodeExecSettings ac oc b)"
  unfolding UpdateCodeExecSettings_def by (intro code_rules settings | simp only: split_beta)+

lemma pres_request: "\<not> is_run act \<Longrightarrow> may_set \<or> (\<forall>b. act \<noteq> CodeSetSettings b) \<Longrightarrow> h_pres I (code_request env ac slug act)"
  unfolding code_request_def by (rule pres_route) (cases act; simp add: pres_create pres_update pres_others pres_settings)

end

end
