(* ===== verification/CodeKept.thy ===== *)
theory CodeKept
  imports CodeFacts
begin

text \<open>
  What the requests of code exercises keep: the tables, and the meter that counts the ledger. With it,
  the daily cap, how an answer is graded, what becomes of a run that the runner fails, and what a
  learner cannot see.
\<close>

section \<open>The tables\<close>

text \<open>What the documentation of \<^verbatim>\<open>Status\<close> says of a runner: that the cap has blocked a run is no
  verdict of it.\<close>

definition honest :: "runner \<Rightarrow> bool" where
  "honest R \<longleftrightarrow> (\<forall>q r. rn_run R q = Inr r \<longrightarrow> ru_status r \<noteq> ''blocked_limit'')"

lemma stub_honest: "honest StubRunner"
  by (simp add: honest_def StubRunner_def StubRunner_Run_def)

definition configured :: "code_env \<Rightarrow> bool" where
  "configured env \<longleftrightarrow> (\<exists>R l. ce_service env = NewCodeService R l \<and> honest R)"

lemma configured_limits: "configured env \<Longrightarrow> limited_by (sv_defaults (ce_service env)) (sv_defaults (ce_service env))"
  by (auto simp: configured_def service_limits)

lemma configured_status: "configured env \<Longrightarrow> Execute (ce_service env) q = Inr out \<Longrightarrow> ru_status out \<noteq> ''blocked_limit''"
proof -
  assume "configured env" "Execute (ce_service env) q = Inr out"
  then obtain r where "rn_run (sv_runner (ce_service env)) (prepared (ce_service env) q) = Inr r" "honest (sv_runner (ce_service env))"
      "out = output_of (ce_service env) (prepared (ce_service env) q) r"
    by (auto simp: configured_def Execute_Inr NewCodeService_def)
  then show "ru_status out \<noteq> ''blocked_limit''" unfolding honest_def by (auto simp: output_of_def)
qed

text \<open>The rows of the ledger that a day's meter counts, those that were not blocked.\<close>

definition ledger :: "uuid \<Rightarrow> int \<Rightarrow> codedb \<Rightarrow> code_submission list" where
  "ledger o' day s = filter (\<lambda>r. cs_org r = o' \<and> DayPeriod (cs_created r) = day \<and> cs_status r \<noteq> ''blocked_limit'') (cd_submissions s)"

definition exercise_ok :: "code_env \<Rightarrow> code_exercise \<Rightarrow> bool" where
  "exercise_ok env x \<longleftrightarrow> (let d = sv_defaults (ce_service env) in it_title x \<noteq> [] \<and> it_slug x \<noteq> [] \<and> ex_language x \<in> set supportedLanguages \<and>
     0 < ex_cpu x \<and> ex_cpu x \<le> lm_cpu d \<and> 0 < ex_memory x \<and> ex_memory x \<le> lm_memory d \<and> 0 < ex_wall x \<and> ex_wall x \<le> lm_wall d)"

definition submission_ok :: "uuid set \<Rightarrow> code_submission \<Rightarrow> bool" where
  "submission_ok ids r \<longleftrightarrow> cs_status r \<in> set submission_statuses \<and> (cs_passed r \<longrightarrow> cs_status r = ''succeeded'') \<and>
     (\<forall>i. cs_exercise r = Some i \<longrightarrow> i \<in> ids)"

definition code_ok :: "code_env \<Rightarrow> codedb \<Rightarrow> bool" where
  "code_ok env s \<longleftrightarrow> items_ok (exercise_ok env) (a_next (md_adb s)) (cd_exercises s) \<and>
     distinct (map cs_id (cd_submissions s)) \<and> (\<forall>r \<in> set (cd_submissions s). cs_id r < a_next (md_adb s) \<and> submission_ok (it_id ` set (cd_exercises s)) r) \<and>
     distinct (map (\<lambda>c. (cu_org c, cu_period c)) (cd_usage s)) \<and>
     (\<forall>o' day. metered o' day s = (int (length (ledger o' day s)), sum_list (map cs_duration (ledger o' day s))))"

definition codes_ok :: "code_env \<Rightarrow> codedb \<Rightarrow> bool" where
  "codes_ok env s \<longleftrightarrow> configured env \<and> code_ok env s"

lemma meter_simps [simp]:
  "metered o' day (s\<lparr>md_adb := a\<rparr>) = metered o' day s" "metered o' day (s\<lparr>md_on := f\<rparr>) = metered o' day s"
  "metered o' day (put_exercises xs s) = metered o' day s" "metered o' day (s\<lparr>cd_limits := l\<rparr>) = metered o' day s"
  "metered o' day (s\<lparr>cd_submissions := rs\<rparr>) = metered o' day s"
  "ledger o' day (s\<lparr>md_adb := a\<rparr>) = ledger o' day s" "ledger o' day (s\<lparr>md_on := f\<rparr>) = ledger o' day s"
  "ledger o' day (put_exercises xs s) = ledger o' day s" "ledger o' day (s\<lparr>cd_limits := l\<rparr>) = ledger o' day s"
  by (simp_all add: metered_def ledger_def)

lemma codes_state: "module_state (codes_ok env)"
proof (unfold_locales, goal_cases)
  case (1 s a)
  then show ?case by (auto simp: codes_ok_def code_ok_def adb_quiet_def intro: items_ok_less)
qed (simp add: codes_ok_def code_ok_def)

text \<open>Statements that change exercises only, and keep their ids.\<close>

lemma exercises_changed:
  assumes "codes_ok env s" "items_ok (exercise_ok env) (a_next (md_adb t)) (cd_exercises t)" "a_next (md_adb s) \<le> a_next (md_adb t)"
    and "cd_submissions t = cd_submissions s" "cd_usage t = cd_usage s" "it_id ` set (cd_exercises s) \<subseteq> it_id ` set (cd_exercises t)"
  shows "codes_ok env t"
proof -
  have "metered o' day t = metered o' day s" "ledger o' day t = ledger o' day s" for o' day
    by (simp_all add: metered_def ledger_def assms(4,5))
  moreover have "submission_ok (it_id ` set (cd_exercises t)) r" if "submission_ok (it_id ` set (cd_exercises s)) r" for r
    using that assms(6) by (auto simp: submission_ok_def)
  ultimately show ?thesis using assms(1-5) by (auto simp: codes_ok_def code_ok_def intro: less_le_trans)
qed

lemma requested_ok:
  assumes "configured env" "SupportedLanguage (xq_language q)"
  shows "let d = sv_defaults (ce_service env); w = requested_exercise env q in xq_language w \<in> set supportedLanguages \<and>
    0 < xq_cpu w \<and> xq_cpu w \<le> lm_cpu d \<and> 0 < xq_memory w \<and> xq_memory w \<le> lm_memory d \<and> 0 < xq_wall w \<and> xq_wall w \<le> lm_wall d"
  using configured_limits[OF assms(1)] assms(2)
  by (simp add: requested_exercise_def applyExerciseDefaults_def SupportedLanguage_def clampLimit_to_def clampLimit64_def limited_by_def Let_def)

lemma requested_simps [simp]:
  "xq_title (requested_exercise env q) = xq_title q" "xq_slug (requested_exercise env q) = xq_slug q"
  by (simp_all add: requested_exercise_def applyExerciseDefaults_def Let_def)

lemma exercise_created:
  assumes "xq_title q \<noteq> []" "xq_slug q \<noteq> []" "SupportedLanguage (xq_language q)"
  shows "tx_pres (codes_ok env) (CodeExerciseRepo_Create env o' u (requested_exercise env q))"
proof (rule tx_postI)
  let ?w = "requested_exercise env q"
  fix s r t assume ok: "codes_ok env s" and create: "CodeExerciseRepo_Create env o' u ?w s = Inr (r, t)"
  obtain mk where run: "item_insert cd_exercises put_exercises mk s = Inr (r, t)"
      and mk: "\<And>i c. it_id (mk i c) = i" "\<And>i c. it_title (mk i c) = xq_title ?w" "\<And>i c. it_slug (mk i c) = xq_slug ?w"
        "\<And>i c. ex_language (mk i c) = xq_language ?w" "\<And>i c. ex_cpu (mk i c) = xq_cpu ?w" "\<And>i c. ex_memory (mk i c) = xq_memory ?w"
        "\<And>i c. ex_wall (mk i c) = xq_wall ?w"
  proof (cases "\<not> ce_text env (xq_slug ?w) \<or> \<not> exercise_storable env ?w")
    case True then show thesis using create by (simp add: CodeExerciseRepo_Create_def tx_throw_def)
  next
    case False
    show thesis using create unfolding CodeExerciseRepo_Create_def if_not_P[OF False] by (rule that) simp_all
  qed
  have "exercise_ok env (mk i c)" for i c
    using assms mk requested_ok[of env q] ok by (simp add: exercise_ok_def codes_ok_def Let_def)
  then have items: "items_ok (exercise_ok env) (a_next (md_adb t)) (cd_exercises t)"
    using exercises.insert_ok[OF run, of "exercise_ok env"] ok mk(1) by (simp add: codes_ok_def code_ok_def)
  have t: "t = put_exercises (cd_exercises s @ [r]) (s\<lparr>md_adb := (md_adb s)\<lparr>a_next := Suc (a_next (md_adb s))\<rparr>\<rparr>)"
    using run by (simp add: exercises.insert_Inr)
  show "codes_ok env t" by (rule exercises_changed[OF ok items]) (auto simp: t)
qed

lemma exercise_updated:
  assumes "\<And>c r. it_id (f c r) = it_id r" "\<And>c r. it_org (f c r) = it_org r" "\<And>c r. it_slug (f c r) = it_slug r"
    and "\<And>s c r. codes_ok env s \<Longrightarrow> exercise_ok env r \<Longrightarrow> exercise_ok env (f c r)"
  shows "tx_pres (codes_ok env) (item_update cd_exercises put_exercises i f)"
proof (rule tx_postI)
  fix s r t assume ok: "codes_ok env s" and run: "item_update cd_exercises put_exercises i f s = Inr (r, t)"
  have "items_ok (exercise_ok env) (a_next (md_adb s)) (cd_exercises s)" using ok by (simp add: codes_ok_def code_ok_def)
  then have items: "items_ok (exercise_ok env) (a_next (md_adb t)) (cd_exercises t)"
    by (rule exercises.update_ok[where i=i and f=f, OF run]) (simp_all add: assms(1-3) assms(4)[OF ok])
  have ids: "it_id ` set (cd_exercises t) = it_id ` set (cd_exercises s)"
    using exercises.update_ids[OF run assms(1)] by (auto simp: image_iff) metis+
  obtain ys where t: "t = put_exercises ys s" using exercises.update_Inr[OF run] by blast
  show "codes_ok env t" by (rule exercises_changed[OF ok items]) (simp_all only: ids, simp_all add: t)
qed

lemma exercise_deleted: "tx_pres (codes_ok env) (CodeExerciseRepo_Delete i)"
proof (rule tx_postI)
  fix s r t assume ok: "codes_ok env s" and "CodeExerciseRepo_Delete i s = Inr (r, t)"
  then obtain t' where run: "item_delete cd_exercises put_exercises i s = Inr ((), t')"
      and t: "t = t'\<lparr>cd_submissions := map (\<lambda>r. if cs_exercise r = Some i then r\<lparr>cs_exercise := None\<rparr> else r) (cd_submissions t')\<rparr>"
    by (auto simp: CodeExerciseRepo_Delete_def tx_bind_Inr tx_modify_def)
  define g where "g = (\<lambda>r :: code_submission. if cs_exercise r = Some i then r\<lparr>cs_exercise := None\<rparr> else r)"
  have g: "cs_id (g r) = cs_id r" "cs_org (g r) = cs_org r" "cs_created (g r) = cs_created r" "cs_status (g r) = cs_status r"
    "cs_duration (g r) = cs_duration r" "cs_passed (g r) = cs_passed r" "cs_exercise (g r) \<noteq> Some i"
    "cs_exercise (g r) = Some j \<Longrightarrow> cs_exercise r = Some j" for r j
    by (simp_all add: g_def split: if_splits)
  have t': "t' = put_exercises (filter (\<lambda>r. \<not> (teaches (md_adb s) (it_org r) \<and> it_id r = i)) (cd_exercises s)) s"
    using exercises.delete_Inr[OF run] .
  have t: "t = t'\<lparr>cd_submissions := map g (cd_submissions s)\<rparr>" by (simp add: t t' g_def)
  have led: "ledger o' day t = map g (ledger o' day s)" for o' day by (simp add: ledger_def t t' filter_map comp_def g)
  have met: "metered o' day t = metered o' day s" for o' day by (simp add: t t')
  have s: "configured env" "code_ok env s" using ok by (simp_all add: codes_ok_def)
  have items: "items_ok (exercise_ok env) (a_next (md_adb t)) (cd_exercises t)"
    using exercises.delete_ok[OF run] s(2) by (simp add: code_ok_def t)
  have rows: "submission_ok (it_id ` set (cd_exercises t)) (g r)" if "submission_ok (it_id ` set (cd_exercises s)) r" for r
  proof -
    have "j \<in> it_id ` set (cd_exercises t)" if "j \<in> it_id ` set (cd_exercises s)" "j \<noteq> i" for j using that by (auto simp: t t')
    then show ?thesis using that g(7)[of r] g(8)[of r] by (auto simp: submission_ok_def g(4,6))
  qed
  have eqs: "md_adb t = md_adb s" "cd_usage t = cd_usage s" "cd_submissions t = map g (cd_submissions s)" by (simp_all add: t t')
  have subs: "distinct (map cs_id (map g (cd_submissions s)))"
      "\<forall>r \<in> set (map g (cd_submissions s)). cs_id r < a_next (md_adb s) \<and> submission_ok (it_id ` set (cd_exercises t)) r"
    using s(2) rows by (auto simp: code_ok_def comp_def g(1))
  have meter: "metered o' day t = (int (length (ledger o' day t)), sum_list (map cs_duration (ledger o' day t)))" for o' day
    using s(2) by (simp add: code_ok_def led met comp_def g(5))
  show "codes_ok env t"
    unfolding codes_ok_def code_ok_def eqs using s subs items[unfolded eqs] meter by (simp add: code_ok_def del: list.set_map)
qed

interpretation kept_code: code_laws "codes_ok env" env True for env
proof (rule code_laws.intro[OF codes_state], unfold_locales, goal_cases)
  case (1 q o' u) then show ?case by (rule exercise_created)
next
  case (2 q i)
  show ?case
  proof (cases "exercise_storable env (requested_exercise env q)")
    case True
    note q = 2
    have "tx_pres (codes_ok env) (item_update cd_exercises put_exercises i (\<lambda>t r. r\<lparr>it_course := xq_course w, it_lesson := xq_lesson w,
       it_title := xq_title w, it_description := xq_description w, ex_language := xq_language w, ex_starter := xq_starter w,
       ex_solution := xq_solution w, ex_stdin := xq_stdin w, ex_expected := xq_expected w, ex_cpu := xq_cpu w,
       ex_memory := xq_memory w, ex_wall := xq_wall w, it_published := xq_published w, it_updated := t\<rparr>))"
      if w: "w = requested_exercise env q" for w
    proof (intro exercise_updated, goal_cases)
      case (4 s c r)
      then show ?case using q requested_ok[of env q] by (simp add: w exercise_ok_def codes_ok_def Let_def)
    qed simp_all
    then show ?thesis using True by (simp add: CodeExerciseRepo_Update_def)
  qed (simp add: CodeExerciseRepo_Update_def tx_pres_throw)
next
  case (3 i b) then show ?case unfolding CodeExerciseRepo_SetPublished_def by (intro exercise_updated) (simp_all add: exercise_ok_def)
next
  case (4 i) then show ?case by (rule exercise_deleted)
next
  case (5 o' b cap)
  show ?case unfolding OrgRepo_SetCodeExecSettings_def
    by (rule tx_pres_bind[OF module_state.pres_set_enabled[OF codes_state]]) (simp add: tx_post_def tx_modify_def codes_ok_def code_ok_def)
qed

section \<open>Runs\<close>

lemma find_map_key: "(\<And>c. P (f c) = P c) \<Longrightarrow> find P (map f xs) = map_option f (find P xs)"
  by (induction xs) auto

lemma find_append_one: "find P (xs @ [y]) = (case find P xs of None \<Rightarrow> if P y then Some y else None | Some x \<Rightarrow> Some x)"
  by (induction xs) auto

lemma add_usage_meter:
  assumes "CodeExecUsageRepo_AddUsage o' day ms s = Inr (u, t)"
  shows "metered p d t = (if p = o' \<and> d = day then (fst (metered o' day s) + 1, snd (metered o' day s) + ms) else metered p d s)"
    and "distinct (map (\<lambda>c. (cu_org c, cu_period c)) (cd_usage s)) \<Longrightarrow> distinct (map (\<lambda>c. (cu_org c, cu_period c)) (cd_usage t))"
proof -
  define f where "f = (\<lambda>c :: code_usage. if cu_org c = o' \<and> cu_period c = day then c\<lparr>cu_count := cu_count c + 1, cu_cpu := cu_cpu c + ms\<rparr> else c)"
  have key: "cu_org (f c) = cu_org c" "cu_period (f c) = cu_period c" for c by (simp_all add: f_def)
  consider (first) "find (\<lambda>c. cu_org c = o' \<and> cu_period c = day) (cd_usage s) = None"
      "cd_usage t = cd_usage s @ [\<lparr>cu_org = o', cu_period = day, cu_count = 1, cu_cpu = ms\<rparr>]"
    | (again) c where "find (\<lambda>c. cu_org c = o' \<and> cu_period c = day) (cd_usage s) = Some c" "cd_usage t = map f (cd_usage s)"
    using assms by (auto simp: CodeExecUsageRepo_AddUsage_def f_def split: if_splits option.splits)
  note ways = this
  show "metered p d t = (if p = o' \<and> d = day then (fst (metered o' day s) + 1, snd (metered o' day s) + ms) else metered p d s)"
    using ways
  proof cases
    case first
    then show ?thesis by (auto simp: metered_def find_append_one split: option.splits)
  next
    case (again c)
    then have "cu_org c = o'" "cu_period c = day" by (auto dest: find_SomeD)
    moreover have "f x = x" if "find (\<lambda>c. cu_org c = p \<and> cu_period c = d) (cd_usage s) = Some x" "\<not> (p = o' \<and> d = day)" for x
      using find_SomeD[OF that(1)] that(2) by (auto simp: f_def)
    ultimately show ?thesis using again by (auto simp: metered_def find_map_key key f_def split: option.splits)
  qed
  show "distinct (map (\<lambda>c. (cu_org c, cu_period c)) (cd_usage s)) \<Longrightarrow> distinct (map (\<lambda>c. (cu_org c, cu_period c)) (cd_usage t))"
    using ways by cases (auto simp: find_None_iff comp_def key)
qed

lemma ledger_snoc: "ledger o' day (s\<lparr>cd_submissions := cd_submissions s @ [r]\<rparr>) =
    ledger o' day s @ (if cs_org r = o' \<and> DayPeriod (cs_created r) = day \<and> cs_status r \<noteq> ''blocked_limit'' then [r] else [])"
  by (simp add: ledger_def)

lemma ledger_row_simps [simp]:
  "cs_id (ledger_row env s r) = a_next (md_adb s)" "cs_org (ledger_row env s r) = cs_org r" "cs_created (ledger_row env s r) = a_clock (md_adb s)"
  "cs_status (ledger_row env s r) = cs_status r" "cs_passed (ledger_row env s r) = cs_passed r" "cs_exercise (ledger_row env s r) = cs_exercise r"
  "cs_duration (ledger_row env s r) = cs_duration r" "cs_learner (ledger_row env s r) = cs_learner r" "cs_source (ledger_row env s r) = cs_source r"
  "cs_stdout (ledger_row env s r) = cs_stdout r" "cs_stdin (ledger_row env s r) = cs_stdin r"
  by (simp_all add: ledger_row_def)

lemma submission_row_simps [simp]:
  "cs_status (submission_row ac oc ex q out st b m) = st" "cs_passed (submission_row ac oc ex q out st b m) = b"
  "cs_exercise (submission_row ac oc ex q out st b m) = ex" "cs_duration (submission_row ac oc ex q out st b m) = ru_duration out"
  "cs_learner (submission_row ac oc ex q out st b m) = ac_user ac" "cs_source (submission_row ac oc ex q out st b m) = rq_source q"
  "cs_stdout (submission_row ac oc ex q out st b m) = ru_stdout out" "cs_stdin (submission_row ac oc ex q out st b m) = rq_stdin q"
  by (simp_all add: submission_row_def)

lemma run_exercise: "runs_as s oc act ex q \<Longrightarrow> map_option it_id ex = Some i \<Longrightarrow> i \<in> it_id ` set (cd_exercises s)"
  by (auto simp: runs_as_def)

lemma status_storable: "submission_storable env r \<Longrightarrow> cs_status r \<in> set submission_statuses"
  by (simp add: submission_storable_def)

text \<open>A row at the end of the ledger keeps the tables, when the meter follows.\<close>

lemma row_added:
  assumes ok: "codes_ok env s" and r: "cs_id r = a_next (md_adb s)" "submission_ok (it_id ` set (cd_exercises s)) r"
    and t: "cd_exercises t = cd_exercises s" "cd_submissions t = cd_submissions s @ [r]" "a_next (md_adb t) = Suc (a_next (md_adb s))"
      "distinct (map (\<lambda>c. (cu_org c, cu_period c)) (cd_usage t))"
      "\<And>p d. metered p d t = (if cs_org r = p \<and> DayPeriod (cs_created r) = d \<and> cs_status r \<noteq> ''blocked_limit''
         then (fst (metered p d s) + 1, snd (metered p d s) + cs_duration r) else metered p d s)"
  shows "codes_ok env t"
proof -
  have s: "configured env" "code_ok env s" using ok by (simp_all add: codes_ok_def)
  have led: "ledger p d t = ledger p d s @ (if cs_org r = p \<and> DayPeriod (cs_created r) = d \<and> cs_status r \<noteq> ''blocked_limit'' then [r] else [])" for p d
    by (simp add: ledger_def t(2))
  have meter: "metered p d t = (int (length (ledger p d t)), sum_list (map cs_duration (ledger p d t)))" for p d
    using s(2) by (auto simp: code_ok_def led t(5))
  have "items_ok (exercise_ok env) (Suc (a_next (md_adb s))) (cd_exercises s)" using s(2) by (auto simp: code_ok_def intro: items_ok_less)
  moreover have "distinct (map cs_id (cd_submissions s @ [r]))" using s(2) r(1) by (auto simp: code_ok_def)
  moreover have "\<forall>x \<in> set (cd_submissions s @ [r]). cs_id x < Suc (a_next (md_adb s)) \<and> submission_ok (it_id ` set (cd_exercises s)) x"
    using s(2) r by (auto simp: code_ok_def)
  ultimately show ?thesis using s(1) meter t(4) unfolding codes_ok_def code_ok_def t(1-3) by blast
qed

lemma runs_keep:
  assumes ok: "codes_ok env s" and run: "mserve (ac_user ac) (code_request env ac slug act) s = (r, s')" and act: "is_run act"
  shows "codes_ok env s'"
  using run act
proof (cases rule: run_request_cases)
  case kept
  then show ?thesis using ok by (intro exercises_changed[OF ok]) (auto simp: same_code_def codes_ok_def code_ok_def intro: items_ok_less)
next
  case (blocked oc ex q t)
  let ?r = "ledger_row env (open_mtx (ac_user ac) s) (submission_row ac oc (map_option it_id ex) q (no_output env q) ''blocked_limit'' False
       ''daily execution limit reached'')"
  have t: "t = (open_mtx (ac_user ac) s)\<lparr>cd_submissions := cd_submissions s @ [?r], md_adb := (md_adb (open_mtx (ac_user ac) s))\<lparr>a_next := Suc (a_next (md_adb s))\<rparr>\<rparr>"
    using blocked(4) by (simp add: blocked_def Let_def)
  have "submission_ok (it_id ` set (cd_exercises s)) ?r"
    using run_exercise[OF blocked(2)] by (auto simp: submission_ok_def submission_statuses_def)
  then show ?thesis by (rule row_added[OF ok, rotated]) (use ok in \<open>auto simp: blocked(3) t codes_ok_def code_ok_def\<close>)
next
  case (recorded oc ex q out sub t)
  have conf: "configured env" using ok by (simp add: codes_ok_def)
  let ?s = "open_mtx (ac_user ac) s"
  let ?s1 = "?s\<lparr>cd_submissions := cd_submissions s @ [sub], md_adb := (md_adb ?s)\<lparr>a_next := Suc (a_next (md_adb s))\<rparr>\<rparr>"
  have sub: "ledger_row env ?s (submission_row ac oc (map_option it_id ex) q out (ru_status out) (run_passes ex out) (ru_err out)) = sub"
    by (simp add: recorded(10) ledger_row_def)
  have add: "CodeExecUsageRepo_AddUsage (oc_org oc) (today s) (ru_duration out) ?s1 = Inr ((), t)" and st: "submission_storable env sub"
    using recorded(8) unfolding ran_def Let_def sub by (simp_all add: today_def)
  have fields: "cs_org sub = oc_org oc" "DayPeriod (cs_created sub) = today s" "cs_status sub = ru_status out" "cs_duration sub = ru_duration out"
    "cs_id sub = a_next (md_adb s)" by (simp_all add: recorded(10) today_def)
  have "submission_ok (it_id ` set (cd_exercises s)) sub"
    using run_exercise[OF recorded(1)] status_storable[OF st] by (auto simp: submission_ok_def recorded(10) run_passes_def)
  moreover have "distinct (map (\<lambda>c. (cu_org c, cu_period c)) (cd_usage t))" using ok by (intro add_usage_meter(2)[OF add]) (simp add: codes_ok_def code_ok_def)
  ultimately show ?thesis
    using fields configured_status[OF conf recorded(6)] add_usage_Inr[OF add] add_usage_meter(1)[OF add]
    by (intro row_added[OF ok]) (auto simp: recorded(3))
qed

end
