(* ===== verification/CodeProps.thy ===== *)
theory CodeProps
  imports CodeKept
begin

text \<open>
  The properties of code exercises: the tables and their meter, the daily cap over any sequence of
  requests, grading, runs that the runner fails, and what learners do not see.
\<close>

section \<open>The tables and the meter\<close>

lemma code_request_keeps:
  assumes "codes_ok env s"
  shows "codes_ok env (snd (mserve (ac_user ac) (code_request env ac slug act) s))"
proof (cases "is_run act")
  case True
  then show ?thesis using runs_keep[OF assms prod.collapse[symmetric]] by simp
next
  case False
  have "codes_ok env (open_mtx (ac_user ac) s)" using assms by (simp add: codes_ok_def code_ok_def)
  with kept_code.pres_request[OF False disjI1[OF TrueI]] show ?thesis
  proof (rule module_state.mserve_keeps[OF codes_state])
    fix t assume "codes_ok env t" "snd (mserve (ac_user ac) (code_request env ac slug act) s) = close_mtx t"
    then show ?thesis by (simp add: codes_ok_def code_ok_def)
  qed (simp add: assms)
qed

text \<open>
  C37: Every request of the code routes keeps the tables well formed, for a runner that does not
  answer with the verdict of the cap: ids and slugs are unique; every exercise has a title, a
  slug, a supported language and limits above zero that do not exceed the platform's; a
  submission passes only when its program succeeded; and for every organization and day the
  usage counter and its CPU time are the number and the total duration of the submissions of
  that day that were not blocked.
\<close>

theorem code_stays_ok:
  assumes "configured env" "code_ok env s"
  shows "code_ok env (snd (mserve (ac_user ac) (code_request env ac slug act) s))"
  using code_request_keeps[of env s ac slug act] assms by (simp add: codes_ok_def)

section \<open>The daily cap\<close>

interpretation meters: code_laws "\<lambda>s. cd_usage s = us" env True for us env
  by unfold_locales
    (auto simp: tx_post_def CodeExerciseRepo_Create_def CodeExerciseRepo_Update_def CodeExerciseRepo_SetPublished_def CodeExerciseRepo_Delete_def
      OrgRepo_SetCodeExecSettings_def tx_bind_Inr tx_modify_def tx_throw_def exercises.insert_Inr ModuleRepo_SetEnabled_def
      dest!: exercises.update_Inr exercises.delete_Inr split: if_splits)

interpretation caps: code_laws "\<lambda>s. cd_limits s = ls" env False for ls env
  by unfold_locales
    (auto simp: tx_post_def CodeExerciseRepo_Create_def CodeExerciseRepo_Update_def CodeExerciseRepo_SetPublished_def CodeExerciseRepo_Delete_def
      tx_bind_Inr tx_modify_def tx_throw_def exercises.insert_Inr
      dest!: exercises.update_Inr exercises.delete_Inr split: if_splits)

lemma served_keeps:
  assumes "module_state I" "h_pres I m" "I s" "\<And>s a. I (s\<lparr>md_adb := a\<rparr>) = I s"
  shows "I (snd (mserve u m s))"
proof -
  have "I (open_mtx u s)" using assms(3,4) by simp
  with assms(2) show ?thesis by (rule module_state.mserve_keeps[OF assms(1)]) (use assms(3,4) in auto)
qed

text \<open>What one request does to a meter and to the caps.\<close>

lemma request_meters:
  assumes run: "mserve (ac_user ac) (code_request env ac slug act) s = (r, s')"
  shows "metered o' d s' = metered o' d s \<or>
    (limit_of env o' s \<le> 0 \<or> fst (metered o' d s) < limit_of env o' s) \<and> fst (metered o' d s') = fst (metered o' d s) + 1"
proof (cases "is_run act")
  case True
  from run True show ?thesis
  proof (cases rule: run_request_cases)
    case (recorded oc ex q out sub t)
    then obtain s1 where add: "CodeExecUsageRepo_AddUsage (oc_org oc) (today s) (ru_duration out) s1 = Inr ((), t)"
        "metered o' d s1 = metered o' d s"
      by (auto simp: ran_def Let_def today_def metered_def)
    show ?thesis using add_usage_meter(1)[OF add(1), of o' d] add(2) recorded(3,7) by auto
  qed (auto simp: same_code_def metered_def blocked_def Let_def)
next
  case False
  have "cd_usage (snd (mserve (ac_user ac) (code_request env ac slug act) s)) = cd_usage s"
    using served_keeps[OF meters.module_state_axioms meters.pres_request[OF False], where s=s] by simp
  then have "cd_usage s' = cd_usage s" using run by simp
  then show ?thesis by (simp add: metered_def)
qed

lemma request_caps:
  assumes run: "mserve (ac_user ac) (code_request env ac slug act) s = (r, s')" and "\<forall>b. act \<noteq> CodeSetSettings b"
  shows "limit_of env o' s' = limit_of env o' s"
proof -
  have "cd_limits s' = cd_limits s"
  proof (cases "is_run act")
    case True
    from run True show ?thesis
    proof (cases rule: run_request_cases)
      case (recorded oc ex q out sub t)
      then show ?thesis by (auto simp: ran_def Let_def dest!: add_usage_Inr)
    qed (auto simp: same_code_def blocked_def Let_def)
  next
    case False
    then have "cd_limits (snd (mserve (ac_user ac) (code_request env ac slug act) s)) = cd_limits s"
      using served_keeps[OF caps.module_state_axioms caps.pres_request[OF False disjI2[OF assms(2)]], where s=s] by simp
    then show ?thesis using run by simp
  qed
  then show ?thesis by (simp add: limit_of_def)
qed

text \<open>A sequence of requests, each at a time of its own.\<close>

type_synonym code_call = "time \<times> auth_ctx \<times> string \<times> code_action"

fun code_run :: "code_env \<Rightarrow> code_call list \<Rightarrow> codedb \<Rightarrow> response list \<times> codedb" where
  "code_run env [] s = ([], s)"
| "code_run env ((now', ac, slug, a) # qs) s = (let (r, s1) = mserve (ac_user ac) (code_request env ac slug a)
       (s\<lparr>md_adb := (md_adb s)\<lparr>a_clock := now'\<rparr>\<rparr>);
     (rs, s2) = code_run env qs s1 in (r # rs, s2))"

lemma cap_over_runs:
  assumes "codes_ok env s" "\<forall>(now', ac, slug, a) \<in> set qs. \<forall>b. a \<noteq> CodeSetSettings b" "0 < limit_of env o' s"
    and "fst (metered o' d s) \<le> limit_of env o' s"
  shows "codes_ok env (snd (code_run env qs s)) \<and> fst (metered o' d (snd (code_run env qs s))) \<le> limit_of env o' s"
  using assms
proof (induction env qs s rule: code_run.induct)
  case (2 env now' ac slug a qs s)
  let ?s = "s\<lparr>md_adb := (md_adb s)\<lparr>a_clock := now'\<rparr>\<rparr>"
  obtain r s1 where run: "mserve (ac_user ac) (code_request env ac slug a) ?s = (r, s1)" by fastforce
  have set: "\<forall>b. a \<noteq> CodeSetSettings b" "\<forall>(now', ac, slug, a) \<in> set qs. \<forall>b. a \<noteq> CodeSetSettings b" using "2.prems"(2) by auto
  have "codes_ok env ?s" using "2.prems"(1) by (simp add: codes_ok_def code_ok_def)
  then have ok: "codes_ok env s1" using code_request_keeps[of env ?s ac slug a] run by simp
  have cap: "limit_of env o' s1 = limit_of env o' s" using request_caps[OF run set(1), of o'] by (simp add: limit_of_def)
  have "fst (metered o' d s1) \<le> limit_of env o' s"
    using request_meters[OF run, of o' d] "2.prems"(3,4) by (auto simp: limit_of_def)
  then have "codes_ok env (snd (code_run env qs s1)) \<and> fst (metered o' d (snd (code_run env qs s1))) \<le> limit_of env o' s1"
    using "2.IH"[OF run[symmetric] refl ok set(2)] "2.prems"(3) cap by simp
  moreover have "snd (code_run env ((now', ac, slug, a) # qs) s) = snd (code_run env qs s1)" by (simp add: run split_beta)
  ultimately show ?case using cap by simp
qed simp

text \<open>
  C36: An organization's daily cap holds over every sequence of requests served one after the
  other, of any callers and at any times, as long as nobody changes the settings: on no day do
  more programs run, as the ledger records them, than the cap allows, if that was so before.
  Requests that overlap in time are another matter: the code checks and meters without a lock.
\<close>

theorem daily_cap_holds:
  assumes "configured env" "code_ok env s" "\<forall>(now', ac, slug, a) \<in> set qs. \<forall>b. a \<noteq> CodeSetSettings b"
    and "0 < limit_of env o' s" "int (length (ledger o' d s)) \<le> limit_of env o' s"
  shows "int (length (ledger o' d (snd (code_run env qs s)))) \<le> limit_of env o' s"
proof -
  have count: "fst (metered o' d t) = int (length (ledger o' d t))" if "codes_ok env t" for t
    using that by (simp add: codes_ok_def code_ok_def)
  have "codes_ok env s" using assms(1,2) by (simp add: codes_ok_def)
  with cap_over_runs[OF this assms(3,4), of d] count assms(5) show ?thesis by auto
qed

section \<open>Grading\<close>

lemma output_within:
  assumes "configured env" "Execute (ce_service env) q = Inr out"
  shows "limited_by (ro_limits out) (sv_defaults (ce_service env))"
    and "0 < lm_cpu (rq_limits q) \<longrightarrow> lm_cpu (ro_limits out) \<le> lm_cpu (rq_limits q)"
    and "0 < lm_memory (rq_limits q) \<longrightarrow> lm_memory (ro_limits out) \<le> lm_memory (rq_limits q)"
    and "0 < lm_wall (rq_limits q) \<longrightarrow> lm_wall (ro_limits out) \<le> lm_wall (rq_limits q)"
    and "int (length (ru_stdout out)) \<le> lm_output (ro_limits out)"
proof -
  obtain r where out: "out = output_of (ce_service env) (prepared (ce_service env) q) r" using assms(2) by (auto simp: Execute_Inr)
  have ro: "ro_limits out = clamp (ce_service env) (rq_limits q)" by (simp add: out output_of_def prepared_def)
  show "limited_by (ro_limits out) (sv_defaults (ce_service env))"
    unfolding ro by (rule clamp_limited[OF configured_limits[OF assms(1)]])
  then show "int (length (ru_stdout out)) \<le> lm_output (ro_limits out)"
    using truncate_length unfolding ro by (simp add: out output_of_def prepared_def limited_by_def)
qed (use assms(2) in \<open>auto simp: Execute_Inr output_of_def prepared_def clamp_def clampInt_def\<close>)

text \<open>
  C38: On a service built by NewService over a runner that never reports the ledger's own status
  blocked_limit, an answer to an exercise that is accepted has been run: in the exercise's
  language and with its standard input, under positive limits that do not exceed the platform's
  and, for CPU time, memory and wall time, do not exceed what the exercise sets, its output cut
  at the platform's output limit. One submission is added, the caller's, with the source, the
  output and the status of the run; it passes exactly when the program succeeded and, if the
  exercise states an expected output that is not blank, the output equals it up to line ends and
  blanks at the ends of lines and of the whole. The answer says so.
\<close>

theorem submissions_are_graded:
  assumes run: "mserve (ac_user ac) (code_request env ac slug (CodeSubmit i (Some src))) s = (Resp 200 body, s')" and "configured env"
  shows "\<exists>x out sub. x \<in> set (cd_exercises s) \<and> it_id x = i \<and> it_published x \<and>
    Execute (ce_service env) (exercise_run x src) = Inr out \<and> limited_by (ro_limits out) (sv_defaults (ce_service env)) \<and>
    (0 < ex_cpu x \<longrightarrow> lm_cpu (ro_limits out) \<le> ex_cpu x) \<and> (0 < ex_memory x \<longrightarrow> lm_memory (ro_limits out) \<le> ex_memory x) \<and>
    (0 < ex_wall x \<longrightarrow> lm_wall (ro_limits out) \<le> ex_wall x) \<and> int (length (cs_stdout sub)) \<le> lm_output (ro_limits out) \<and>
    cd_submissions s' = cd_submissions s @ [sub] \<and> cs_learner sub = ac_user ac \<and> cs_exercise sub = Some i \<and>
    cs_source sub = src \<and> cs_stdout sub = ru_stdout out \<and> cs_status sub = ru_status out \<and>
    (cs_passed sub \<longleftrightarrow> ru_status out = ''succeeded'' \<and>
       (TrimSpace (ex_expected x) = [] \<or> normalize_stdout (ru_stdout out) = normalize_stdout (ex_expected x))) \<and>
    body = JObj [(''submission'', submission_json sub), (''passed'', JBool (cs_passed sub))]"
  using run is_run.simps(2)[THEN iffD2, OF TrueI]
proof (cases rule: run_request_cases)
  case (recorded oc ex q out sub t)
  then obtain x where x: "x \<in> set (cd_exercises s)" "it_id x = i" "it_published x" "ex = Some x" "q = exercise_run x src"
    by (auto simp: runs_as_def)
  have "limited_by (ro_limits out) (sv_defaults (ce_service env))" "0 < ex_cpu x \<longrightarrow> lm_cpu (ro_limits out) \<le> ex_cpu x"
      "0 < ex_memory x \<longrightarrow> lm_memory (ro_limits out) \<le> ex_memory x" "0 < ex_wall x \<longrightarrow> lm_wall (ro_limits out) \<le> ex_wall x"
      "int (length (ru_stdout out)) \<le> lm_output (ro_limits out)"
    using output_within[OF assms(2) recorded(6)] by (simp_all add: x(5) exercise_run_def)
  then show ?thesis
    using x recorded(2,3,6,9) by (intro exI[of _ x] exI[of _ out] exI[of _ sub])
      (simp add: recorded(10) run_answer_def run_passes_def exercise_run_def)
qed simp_all

section \<open>A runner that fails\<close>

text \<open>
  C40: When the runner fails, the attempt leaves no trace, although the ledger is to record
  every one: the row is written in the transaction that the answer 502 rolls back. Only attempts
  that the cap has blocked are added, and nothing is metered.
\<close>

theorem failed_runs_leave_no_trace:
  assumes run: "mserve (ac_user ac) (code_request env ac slug act) s = (r, s')" and act: "is_run act"
    and fails: "\<And>q. \<exists>e. rn_run (sv_runner (ce_service env)) q = Inl e"
  shows "filter (\<lambda>x. cs_status x \<noteq> ''blocked_limit'') (cd_submissions s') = filter (\<lambda>x. cs_status x \<noteq> ''blocked_limit'') (cd_submissions s) \<and>
    cd_usage s' = cd_usage s \<and> (http_status r = 502 \<longrightarrow> s' = s)"
  using run act
proof (cases rule: run_request_cases)
  case (recorded oc ex q out sub t)
  then show ?thesis using fails[of "prepared (ce_service env) q"] by (auto simp: Execute_Inr)
qed (auto simp: same_code_def blocked_def Let_def)

section \<open>What learners do not see\<close>

definition conceal :: "(code_exercise \<Rightarrow> code_exercise) \<Rightarrow> codedb \<Rightarrow> codedb" where
  "conceal f s = s\<lparr>cd_exercises := map f (cd_exercises s)\<rparr>"

text \<open>Two handlers that go the same way when exercises are concealed.\<close>

definition veiled :: "(code_exercise \<Rightarrow> code_exercise) \<Rightarrow> (response, codedb, 'a) hm \<Rightarrow> (response, codedb, 'a) hm \<Rightarrow> bool" where
  "veiled f m m' \<longleftrightarrow> (\<forall>s. m' (conceal f s) = (fst (m s), conceal f (snd (m s))))"

lemma veiledD: "veiled f m m' \<Longrightarrow> m' (conceal f s) = (fst (m s), conceal f (snd (m s)))"
  by (simp add: veiled_def)

lemma veiled_bind: "veiled f m m' \<Longrightarrow> (\<And>x. veiled f (g x) (g' x)) \<Longrightarrow> veiled f (h_bind m g) (h_bind m' g')"
  unfolding veiled_def h_bind_def by (auto split: prod.splits sum.splits)

lemma veiled_same: "veiled f (h_return x) (h_return x)" "veiled f (h_respond r) (h_respond r)" "veiled f (h_guard b r) (h_guard b r)"
  by (simp_all add: veiled_def h_return_def h_respond_def h_guard_def)

lemma veiled_if: "veiled f m m' \<Longrightarrow> veiled f n n' \<Longrightarrow> veiled f (if b then m else n) (if b then m' else n')"
  by simp

lemma veiled_in_org: "veiled f (in_org m) (in_org m)"
  by (auto simp: veiled_def in_org_def conceal_def split: prod.splits)

lemma conceal_simps [simp]:
  "md_adb (conceal f s) = md_adb s" "md_on (conceal f s) = md_on s" "cd_limits (conceal f s) = cd_limits s"
  "cd_submissions (conceal f s) = cd_submissions s" "cd_usage (conceal f s) = cd_usage s" "cd_exercises (conceal f s) = map f (cd_exercises s)"
  by (simp_all add: conceal_def)

lemma conceal_abort: "m_abort e (conceal f s) = conceal f (m_abort e s)"
  by (simp add: m_abort_def conceal_def)

lemma veiled_msql:
  assumes "\<And>s. m (conceal f s) = (case m s of Inl e \<Rightarrow> Inl e | Inr (x, t) \<Rightarrow> Inr (x, conceal f t))"
  shows "veiled f (msql_attempt m) (msql_attempt m)" "veiled f (msql m g) (msql m g)"
proof -
  show "veiled f (msql_attempt m) (msql_attempt m)"
    using assms by (auto simp: veiled_def msql_attempt_def conceal_abort split: sum.splits)
  then show "veiled f (msql m g) (msql m g)"
    unfolding msql_def by (intro veiled_bind) (auto intro: veiled_same split: sum.splits)
qed

lemma veiled_enabled: "veiled f (msql (ModuleRepo_GetEnabled o') g) (msql (ModuleRepo_GetEnabled o') g)"
  by (rule veiled_msql(2)) (simp add: ModuleRepo_GetEnabled_def)

lemma veiled_gate: "veiled f (codeExecGate env oc) (codeExecGate env oc)"
  unfolding codeExecGate_def module_gate_def by (intro veiled_bind veiled_if veiled_enabled veiled_same)

text \<open>What is concealed: fields of an exercise that neither place nor publish it.\<close>

definition places :: "(code_exercise \<Rightarrow> code_exercise) \<Rightarrow> bool" where
  "places f \<longleftrightarrow> (\<forall>x. it_id (f x) = it_id x \<and> it_org (f x) = it_org x \<and> it_published (f x) = it_published x \<and> it_created (f x) = it_created x)"

lemma places_simps: "places f \<Longrightarrow> it_id (f x) = it_id x" "places f \<Longrightarrow> it_org (f x) = it_org x"
  "places f \<Longrightarrow> it_published (f x) = it_published x" "places f \<Longrightarrow> it_created (f x) = it_created x"
  by (simp_all add: places_def)

lemma newest_map: "(\<And>x. k (f x) = k x) \<Longrightarrow> newest k (map f xs) = map f (newest k xs)"
proof -
  assume k: "\<And>x. k (f x) = k x"
  have "insort_key (\<lambda>r. - k r) (f x) (map f ys) = map f (insort_key (\<lambda>r. - k r) x ys)" for x ys
    by (induction ys) (auto simp: k)
  then show ?thesis unfolding newest_def by (induction xs) auto
qed

lemma conceal_get:
  assumes "places f"
  shows "getOrgExercise i oc (conceal f s) = (case getOrgExercise i oc s of (v, t) \<Rightarrow> (map_sum id f v, conceal f t))"
proof -
  have "find (\<lambda>r. reads_org a (it_org r) \<and> it_id r = i) (map f xs) = map_option f (find (\<lambda>r. reads_org a (it_org r) \<and> it_id r = i) xs)" for a xs
    by (rule find_map_key) (simp add: places_simps[OF assms])
  then have get: "item_get cd_exercises i (conceal f s) = (case item_get cd_exercises i s of Inl e \<Rightarrow> Inl e | Inr (x, t) \<Rightarrow> Inr (f x, conceal f t))"
    by (simp add: item_get_def tab_select1_def split: option.splits)
  show ?thesis
    by (auto simp: getOrgExercise_def org_item_def h_bind_def msql_def msql_attempt_def get conceal_abort h_return_def h_respond_def
      h_guard_def places_simps[OF assms] split: sum.splits prod.splits if_splits)
qed

lemma veiled_read:
  assumes "\<And>s. m (conceal f s) = (case m s of (v, t) \<Rightarrow> (map_sum id h v, conceal f t))" "\<And>x. veiled f (g x) (g' (h x))"
  shows "veiled f (h_bind m g) (h_bind m g')"
  unfolding veiled_def
proof
  fix s
  obtain v t where run: "m s = (v, t)" by fastforce
  show "h_bind m g' (conceal f s) = (fst (h_bind m g s), conceal f (snd (h_bind m g s)))"
    using veiledD[OF assms(2)] by (cases v) (simp_all add: h_bind_def assms(1) run)
qed

lemma veiled_get:
  "places f \<Longrightarrow> (\<And>x. veiled f (g x) (g' (f x))) \<Longrightarrow> veiled f (h_bind (getOrgExercise i oc) g) (h_bind (getOrgExercise i oc) g')"
  by (rule veiled_read[where m="getOrgExercise i oc" and f=f and h=f]) (simp_all add: conceal_get)

lemma conceal_list:
  assumes "places f"
  shows "msql (CodeExerciseRepo_ListByOrg o') e (conceal f s) =
    (case msql (CodeExerciseRepo_ListByOrg o') e s of (v, t) \<Rightarrow> (map_sum id (map f) v, conceal f t))"
  by (simp add: msql_def h_bind_def msql_attempt_def CodeExerciseRepo_ListByOrg_def item_list_def tx_gets_def h_return_def h_respond_def
    conceal_abort filter_map comp_def places_simps[OF assms] newest_map[of it_created f])

lemma veiled_list:
  "places f \<Longrightarrow> (\<And>xs. veiled f (g xs) (g' (map f xs))) \<Longrightarrow>
    veiled f (h_bind (msql (CodeExerciseRepo_ListByOrg o') e) g) (h_bind (msql (CodeExerciseRepo_ListByOrg o') e) g')"
  by (rule veiled_read[where m="msql (CodeExerciseRepo_ListByOrg o') e" and f=f and h="map f"]) (simp_all add: conceal_list)

section \<open>A run sees no more of an exercise than its place and what it runs\<close>

lemma veiled_log:
  assumes "places f"
  shows "veiled f (logSubmission env r) (logSubmission env r)"
proof -
  have "CodeSubmissionRepo_Log env r0 (conceal f s) = (case CodeSubmissionRepo_Log env r0 s of Inl e \<Rightarrow> Inl e | Inr (x, t) \<Rightarrow> Inr (x, conceal f t))"
    for r0 s by (auto simp: CodeSubmissionRepo_Log_def Let_def places_simps[OF assms] conceal_def split: option.splits)
  then show ?thesis unfolding logSubmission_def by (rule veiled_msql(1))
qed

lemma today_conceal [simp]: "today (conceal f s) = today s"
  by (simp add: today_def)

lemma veiled_execute:
  assumes "places f"
  shows "veiled f (executeGated env ac oc ex q) (executeGated env ac oc ex q)"
proof -
  have en: "veiled f (codeExecEnabledForOrg env oc) (codeExecEnabledForOrg env oc)"
    unfolding codeExecEnabledForOrg_def
    by (intro veiled_if veiled_same veiled_msql(2)) (auto simp: OrgRepo_GetCodeExecSettings_def tx_bind_def ModuleRepo_GetEnabled_def tx_gets_def)
  have get: "veiled f (msql (\<lambda>s. CodeExecUsageRepo_GetForPeriod o' (today s) s) e) (msql (\<lambda>s. CodeExecUsageRepo_GetForPeriod o' (today s) s) e)" for o' e
    by (rule veiled_msql(2)) (simp add: CodeExecUsageRepo_GetForPeriod_def tx_gets_def)
  have add: "veiled f (msql (\<lambda>s. CodeExecUsageRepo_AddUsage o' (today s) n s) e) (msql (\<lambda>s. CodeExecUsageRepo_AddUsage o' (today s) n s) e)" for o' n e
    by (rule veiled_msql(2)) (simp add: CodeExecUsageRepo_AddUsage_def conceal_def today_def split: option.splits)
  have cap: "veiled f (daily_cap env ac oc j q n) (daily_cap env ac oc j q n)" for j n
    unfolding daily_cap_def by (intro veiled_if veiled_same veiled_bind get) (simp add: split_beta, intro conjI impI veiled_bind veiled_same veiled_log[OF assms])
  have rec: "veiled f (record_run env ac oc ex q out) (record_run env ac oc ex q out)" for out
    unfolding record_run_def by (intro veiled_bind veiled_log[OF assms]) (auto split: sum.splits intro!: veiled_bind veiled_same add)
  show ?thesis unfolding executeGated_unfold perform_run_def
    by (intro veiled_bind en, simp add: split_beta, intro veiled_bind veiled_same cap)
      (auto split: sum.splits run_error.splits intro!: veiled_bind veiled_same rec veiled_log[OF assms])
qed

lemma execute_same:
  assumes "it_id y = it_id x" "ex_expected y = ex_expected x"
  shows "executeGated env ac oc (Some y) q = executeGated env ac oc (Some x) q"
proof -
  have "map_option it_id (Some y) = map_option it_id (Some x)" using assms(1) by simp
  moreover have "record_run env ac oc (Some y) q = record_run env ac oc (Some x) q"
    by (simp only: fun_eq_iff record_run_def run_passes_def option.map option.case assms simp_thms)
  ultimately show ?thesis unfolding executeGated_unfold perform_run_def by (simp only:)
qed

definition shows_same :: "(code_exercise \<Rightarrow> code_exercise) \<Rightarrow> bool" where
  "shows_same f \<longleftrightarrow> places f \<and> (\<forall>x. publicExercise (f x) = publicExercise x)"

lemma learner_actions: "code_roles a = UNIV \<longleftrightarrow> (case a of CodeCatalog \<Rightarrow> True | CodeCatalogGet i \<Rightarrow> True | CodeRun b \<Rightarrow> True
    | CodeSubmit i b \<Rightarrow> True | CodeMine ex \<Rightarrow> True | _ \<Rightarrow> False)"
proof -
  have "Learner \<notin> {Owner, Teacher}" "Learner \<notin> {Owner}" by simp_all
  then have "{Owner, Teacher} \<noteq> UNIV" "{Owner} \<noteq> UNIV" by (metis UNIV_I)+
  then show ?thesis by (cases a) simp_all
qed

lemma veiled_reads:
  assumes "shows_same f"
  shows "veiled f (ListCodeCatalog env oc) (ListCodeCatalog env oc)" "veiled f (GetCodeCatalogExercise env oc i) (GetCodeCatalogExercise env oc i)"
    "veiled f (ListMyCodeSubmissions env ac oc ex) (ListMyCodeSubmissions env ac oc ex)" "veiled f (RunCode env ac oc b) (RunCode env ac oc b)"
proof -
  have f: "places f" "\<And>x. publicExercise (f x) = publicExercise x" using assms by (simp_all add: shows_same_def)
  have "map publicExercise (filter it_published (map f xs)) = map publicExercise (filter it_published xs)" for xs
    by (simp add: filter_map comp_def places_simps[OF f(1)] f(2))
  then show "veiled f (ListCodeCatalog env oc) (ListCodeCatalog env oc)"
    unfolding ListCodeCatalog_def by (intro veiled_bind[OF veiled_gate] veiled_list[OF f(1)]) (simp add: veiled_same)
  show "veiled f (GetCodeCatalogExercise env oc i) (GetCodeCatalogExercise env oc i)"
    unfolding GetCodeCatalogExercise_def
    by (intro veiled_bind[OF veiled_gate] veiled_get[OF f(1)]) (simp add: places_simps[OF f(1)] f(2), intro veiled_bind veiled_same)
  show "veiled f (ListMyCodeSubmissions env ac oc ex) (ListMyCodeSubmissions env ac oc ex)"
    unfolding ListMyCodeSubmissions_def
    by (intro veiled_bind[OF veiled_gate] veiled_bind veiled_msql(2) veiled_same) (simp add: CodeSubmissionRepo_ListForLearner_def tx_gets_def)
  show "veiled f (RunCode env ac oc b) (RunCode env ac oc b)"
    unfolding RunCode_def by (auto split: option.splits intro!: veiled_bind veiled_same veiled_execute[OF f(1)])
qed

lemma veiled_submit:
  assumes "places f" "\<And>x. ex_expected (f x) = ex_expected x" "\<And>x src. exercise_run (f x) src = exercise_run x src"
  shows "veiled f (SubmitCodeExercise env ac oc i b) (SubmitCodeExercise env ac oc i b)"
proof (cases b)
  case (Some src)
  have "executeGated env ac oc (Some (f x)) (exercise_run (f x) src) = executeGated env ac oc (Some x) (exercise_run x src)" for x
    using execute_same[OF places_simps(1)[OF assms(1)] assms(2)] assms(3) by simp
  then show ?thesis unfolding SubmitCodeExercise_def Some option.case
    by (intro veiled_if veiled_same veiled_bind[OF veiled_gate] veiled_get[OF assms(1)])
      (simp add: places_simps[OF assms(1)], intro veiled_bind veiled_same veiled_execute[OF assms(1)])
qed (simp add: SubmitCodeExercise_def veiled_same)

lemma veiled_route:
  "(\<And>oc. veiled f (code_handler env ac oc a) (code_handler env ac oc a)) \<Longrightarrow> veiled f (code_request env ac slug a) (code_request env ac slug a)"
  unfolding code_request_def module_route_def by (intro veiled_bind veiled_in_org)

lemma veiled_mserve:
  assumes "veiled f m m"
  shows "fst (mserve u m (conceal f s)) = fst (mserve u m s)"
proof -
  have open': "(conceal f s)\<lparr>md_adb := stamp u (md_adb s)\<rparr> = conceal f (open_mtx u s)" by (simp add: conceal_def)
  have run: "run_handler m (conceal f (open_mtx u s)) = (fst (run_handler m (open_mtx u s)), conceal f (snd (run_handler m (open_mtx u s))))"
    unfolding run_handler_def veiledD[OF assms] by (cases "m (open_mtx u s)"; cases "fst (m (open_mtx u s))") auto
  show ?thesis unfolding mserve_def conceal_simps(1) open' run by (simp add: Let_def split_beta)
qed

text \<open>
  C39: No request that every member may make reveals the solution of an exercise: its answer
  would be the same if the solutions were any other texts. The catalogue, the runs of one's own
  programs and the list of one's submissions do not depend on the expected outputs either; only
  whether a submitted answer passes does.
\<close>

theorem solutions_stay_hidden:
  "(code_roles a = UNIV \<longrightarrow>
     fst (mserve u (code_request env ac slug a) (conceal (\<lambda>x. x\<lparr>ex_solution := f x\<rparr>) s)) = fst (mserve u (code_request env ac slug a) s)) \<and>
   (code_roles a = UNIV \<and> (\<forall>i b. a \<noteq> CodeSubmit i b) \<longrightarrow>
     fst (mserve u (code_request env ac slug a) (conceal (\<lambda>x. x\<lparr>ex_solution := f x, ex_expected := g x\<rparr>) s)) =
       fst (mserve u (code_request env ac slug a) s))"
proof (intro conjI impI; rule veiled_mserve; rule veiled_route)
  fix oc
  have hid: "shows_same (\<lambda>x. x\<lparr>ex_solution := f x\<rparr>)" "shows_same (\<lambda>x. x\<lparr>ex_solution := f x, ex_expected := g x\<rparr>)"
    by (simp_all add: shows_same_def places_def publicExercise_def)
  show "veiled (\<lambda>x. x\<lparr>ex_solution := f x\<rparr>) (code_handler env ac oc a) (code_handler env ac oc a)" if "code_roles a = UNIV"
    using that[unfolded learner_actions] veiled_reads[OF hid(1)] hid(1)
    by (cases a) (auto simp: shows_same_def exercise_run_def intro!: veiled_submit)
  show "veiled (\<lambda>x. x\<lparr>ex_solution := f x, ex_expected := g x\<rparr>) (code_handler env ac oc a) (code_handler env ac oc a)"
    if "code_roles a = UNIV \<and> (\<forall>i b. a \<noteq> CodeSubmit i b)"
    using that[unfolded learner_actions] veiled_reads[OF hid(2)] by (cases a) auto
qed

end
