(* ===== verification/LearnProps.thy ===== *)
theory LearnProps
  imports LearnFacts
begin

text \<open>
  What learning requests do to the learner tables: a learner writes own rows only, what was
  achieved stays achieved, and the tables stay well formed with consecutive numbers.
\<close>

section \<open>The writing statements\<close>

lemmas write_defs = ResumeRepo_Upsert_def ProgressRepo_UpsertWatchProgress_def ProgressRepo_MarkComplete_def
  upsert_progress_def AttemptRepo_Create_def ScoreRepo_Create_def SubmissionRepo_Create_def CertificateRepo_Create_def
  LAccess_Create_def LearnerCourseAccessRepo_Create_def record_event_def AnalyticsEventRepo_Record_def
  GradeRepo_Create_def SubmissionRepo_SetStatus_def on_shop_Inr tab_update_Inr tab_insert_Inr Let_def

lemma filter_others [simp]: "(\<And>r. k (f r) = k r) \<Longrightarrow>
    filter (\<lambda>r. k r \<noteq> u) (map (\<lambda>r. if k r = u \<and> P r then f r else r) xs) = filter (\<lambda>r. k r \<noteq> u) xs"
  by (induction xs) auto

section \<open>A learner writes own rows\<close>

definition others_kept :: "uuid \<Rightarrow> ldb \<Rightarrow> ldb \<Rightarrow> bool" where
  "others_kept u s t \<longleftrightarrow>
     filter (\<lambda>r. rp_learner r \<noteq> u) (ld_resume t) = filter (\<lambda>r. rp_learner r \<noteq> u) (ld_resume s) \<and>
     filter (\<lambda>r. lp_learner r \<noteq> u) (ld_progress t) = filter (\<lambda>r. lp_learner r \<noteq> u) (ld_progress s) \<and>
     filter (\<lambda>r. qa_learner r \<noteq> u) (ld_attempts t) = filter (\<lambda>r. qa_learner r \<noteq> u) (ld_attempts s) \<and>
     filter (\<lambda>r. qs_learner r \<noteq> u) (ld_scores t) = filter (\<lambda>r. qs_learner r \<noteq> u) (ld_scores s) \<and>
     filter (\<lambda>r. sm_learner r \<noteq> u) (ld_submissions t) = filter (\<lambda>r. sm_learner r \<noteq> u) (ld_submissions s) \<and>
     filter (\<lambda>r. ct_learner r \<noteq> u) (ld_certs t) = filter (\<lambda>r. ct_learner r \<noteq> u) (ld_certs s) \<and>
     filter (\<lambda>r. acc_learner r \<noteq> u) (accesses (ld_shop t)) = filter (\<lambda>r. acc_learner r \<noteq> u) (accesses (ld_shop s)) \<and>
     ld_grades t = ld_grades s \<and> ld_rules t = ld_rules s \<and> ld_prereqs t = ld_prereqs s \<and>
     orders (ld_shop t) = orders (ld_shop s) \<and> payments (ld_shop t) = payments (ld_shop s) \<and>
     entitlements (ld_shop t) = entitlements (ld_shop s)"

interpretation own: learner_laws
    "\<lambda>s. same_but_aborted (stamp u (ld_adb s0)) (ld_adb s) \<and> others_kept u s0 s" u for u s0
proof (unfold_locales, goal_cases)
  case (1 s a)
  then show ?case by (auto simp: others_kept_def intro: same_but_aborted_trans)
qed (auto simp: tx_post_def others_kept_def write_defs filter_others split: if_split_asm option.splits)

lemma others_kept_refl: "others_kept u s (open_tx u s)"
  by (simp add: others_kept_def)

text \<open>
  C24: A request of a learner, any but grading, leaves the rows of every other learner (resume
  positions, progress, attempts, scores, submissions, certificates and access) and all grades,
  rules, orders, payments, entitlements and course content exactly as they were.
\<close>

theorem learners_write_own_rows:
  assumes "lserve (ac_user ac) (learn_request_handler env ac q) s = (r, s')" and "idle (ld_adb s)"
    and "\<And>i j b. q \<noteq> LrGrade i j b"
  shows "ld_adb s' = ld_adb s \<and> others_kept (ac_user ac) s s'"
proof (rule own.lserve_keeps[OF own.keeps_learner_request[where env = env, OF refl assms(3)]])
  show "same_but_aborted (stamp (ac_user ac) (ld_adb s)) (ld_adb (open_tx (ac_user ac) s)) \<and>
      others_kept (ac_user ac) s (open_tx (ac_user ac) s)"
    by (simp add: others_kept_refl)
qed (use assms in \<open>auto simp: others_kept_def idle_stamp\<close>)

section \<open>What was achieved stays achieved\<close>

definition same_submission :: "submission \<Rightarrow> submission \<Rightarrow> bool" where
  "same_submission a b \<longleftrightarrow> b\<lparr>sm_status := sm_status a\<rparr> = a"

definition achievements_kept :: "ldb \<Rightarrow> ldb \<Rightarrow> bool" where
  "achievements_kept s t \<longleftrightarrow>
     (\<forall>p \<in> set (ld_progress s). \<forall>d. lp_completed p = Some d \<longrightarrow> (\<exists>p' \<in> set (ld_progress t).
        lp_learner p' = lp_learner p \<and> lp_lesson p' = lp_lesson p \<and> lp_course p' = lp_course p \<and> lp_completed p' = Some d)) \<and>
     set (ld_attempts s) \<subseteq> set (ld_attempts t) \<and> set (ld_scores s) \<subseteq> set (ld_scores t) \<and>
     set (ld_grades s) \<subseteq> set (ld_grades t) \<and> set (ld_certs s) \<subseteq> set (ld_certs t) \<and>
     (\<forall>a \<in> set (ld_submissions s). \<exists>b \<in> set (ld_submissions t). same_submission a b)"

lemma completed_upsert:
  assumes "upsert_progress l lesson fresh f s = Inr (x, t)"
    and "\<And>p d. lp_completed p = Some d \<Longrightarrow> lp_completed (f (now s) p) = Some d"
    and "\<And>p. lp_learner (f (now s) p) = lp_learner p \<and> lp_lesson (f (now s) p) = lp_lesson p \<and> lp_course (f (now s) p) = lp_course p"
    and "achievements_kept s0 s"
  shows "achievements_kept s0 t"
proof -
  let ?g = "\<lambda>p. if lp_learner p = l \<and> lp_lesson p = lesson then f (now s) p else p"
  have "\<exists>p' \<in> set (ld_progress t). lp_learner p' = lp_learner p \<and> lp_lesson p' = lp_lesson p \<and> lp_course p' = lp_course p \<and>
      lp_completed p' = Some d" if "p \<in> set (ld_progress s)" "lp_completed p = Some d" for p d
  proof (cases "find (\<lambda>p. lp_learner p = l \<and> lp_lesson p = lesson) (ld_progress s)")
    case None
    then show ?thesis using assms(1) that by (auto simp: upsert_progress_def split: if_splits)
  next
    case (Some r)
    then have "?g p \<in> set (ld_progress t)" using assms(1) that by (auto simp: upsert_progress_def split: if_splits)
    then show ?thesis using assms(2,3) that by (auto intro!: bexI[of _ "?g p"])
  qed
  moreover have "ld_attempts t = ld_attempts s" "ld_scores t = ld_scores s" "ld_grades t = ld_grades s" "ld_certs t = ld_certs s"
      "ld_submissions t = ld_submissions s"
    using assms(1) by (auto simp: upsert_progress_def split: if_splits option.splits)
  ultimately show ?thesis using assms(4) unfolding achievements_kept_def by (metis (no_types, lifting))
qed

interpretation achieved: learner_laws "achievements_kept s0" u for s0 u
proof (unfold_locales, goal_cases)
  case (4 col o' c l ms pct)
  show ?case
    by (auto simp: tx_post_def ProgressRepo_UpsertWatchProgress_def split: option.splits intro: completed_upsert)
next
  case (5 o' l c)
  show ?case
    by (rule tx_postI, unfold ProgressRepo_MarkComplete_def, erule completed_upsert) auto
qed (auto simp: tx_post_def achievements_kept_def write_defs split: if_split_asm option.splits)

lemma same_submission_refl [simp]: "same_submission a a"
  by (simp add: same_submission_def)

lemma achieved_status:
  assumes "achievements_kept s0 s"
  shows "achievements_kept s0 (s\<lparr>ld_submissions := map (\<lambda>a. if P a then a\<lparr>sm_status := st\<rparr> else a) (ld_submissions s)\<rparr>)"
proof -
  let ?g = "\<lambda>a. if P a then a\<lparr>sm_status := st\<rparr> else a"
  have g: "same_submission a (?g b)" if "same_submission a b" for a b
    using that by (auto simp: same_submission_def)
  have "\<exists>b \<in> set (map ?g (ld_submissions s)). same_submission a b" if "a \<in> set (ld_submissions s0)" for a
    using assms that g unfolding achievements_kept_def set_map by blast
  then show ?thesis using assms by (simp add: achievements_kept_def del: set_map)
qed

interpretation achieved: learning_base "achievements_kept s0" u for s0 u
proof (unfold_locales, goal_cases)
  case (2 i st)
  show ?case by (auto simp: tx_post_def SubmissionRepo_SetStatus_def tab_update_Inr intro: achieved_status)
qed (auto simp: tx_post_def achievements_kept_def write_defs split: if_split_asm option.splits)

text \<open>
  C26: Whatever a learning request does, a lesson completed before it stays completed, with the
  same time; no quiz attempt, score, grade or certificate disappears or changes; and a
  submission keeps everything but its status.
\<close>

theorem achievements_are_permanent:
  "achievements_kept s (snd (lserve (ac_user ac) (learn_request_handler env ac q) s))"
proof (rule achieved.lserve_keeps[OF achieved.keeps_any[where env = env and q = q and ac = ac, OF refl]])
  show "achievements_kept s (open_tx (ac_user ac) s)" by (auto simp: achievements_kept_def intro: bexI same_submission_refl)
qed (auto simp: achievements_kept_def intro: bexI same_submission_refl)

section \<open>Well-formed learner tables\<close>

text \<open>The rows of a key are numbered from 1 in the order in which they were made.\<close>

definition numbered :: "('a \<Rightarrow> bool) \<Rightarrow> ('a \<Rightarrow> int) \<Rightarrow> 'a list \<Rightarrow> bool" where
  "numbered P num xs \<longleftrightarrow> map num (filter P xs) = [1..int (length (filter P xs))]"

definition learning_ok :: "ldb \<Rightarrow> bool" where
  "learning_ok s \<longleftrightarrow>
     distinct (map (\<lambda>r. (rp_learner r, rp_course r)) (ld_resume s)) \<and>
     distinct (map (\<lambda>p. (lp_learner p, lp_lesson p)) (ld_progress s)) \<and>
     (\<forall>l b. numbered (\<lambda>a. qa_learner a = l \<and> qa_block a = b) qa_number (ld_attempts s)) \<and>
     distinct (map (\<lambda>x. (qs_learner x, qs_block x, qs_number x)) (ld_scores s)) \<and>
     (\<forall>x \<in> set (ld_scores s). 0 \<le> qs_earned x \<and> qs_earned x \<le> qs_max x) \<and>
     (\<forall>l b. numbered (\<lambda>a. sm_learner a = l \<and> sm_block a = b) sm_number (ld_submissions s)) \<and>
     distinct (map gr_submission (ld_grades s)) \<and>
     distinct (map (\<lambda>x. (ct_learner x, ct_course x)) (ld_certs s)) \<and> distinct (map ct_public (ld_certs s))"

lemma numbered_snoc: "numbered P num xs \<Longrightarrow> P r \<longrightarrow> num r = int (length (filter P xs)) + 1 \<Longrightarrow> numbered P num (xs @ [r])"
  by (auto simp: numbered_def upto_rec2)

lemma numbered_map: "(\<And>r. P (f r) = P r \<and> num (f r) = num r) \<Longrightarrow> numbered P num (map f xs) = numbered P num xs"
  by (simp add: numbered_def filter_map comp_def)

lemma upsert_keys:
  assumes "upsert_progress l lesson fresh f s = Inr (x, t)"
    and "\<And>p. (lp_learner (f (now s) p), lp_lesson (f (now s) p)) = (lp_learner p, lp_lesson p)"
    and "(lp_learner (fresh (now s)), lp_lesson (fresh (now s))) = (l, lesson)"
    and "distinct (map (\<lambda>p. (lp_learner p, lp_lesson p)) (ld_progress s))"
  shows "distinct (map (\<lambda>p. (lp_learner p, lp_lesson p)) (ld_progress t))" and "\<exists>ps. t = s\<lparr>ld_progress := ps\<rparr>"
proof -
  show "distinct (map (\<lambda>p. (lp_learner p, lp_lesson p)) (ld_progress t))"
  proof (cases "find (\<lambda>p. lp_learner p = l \<and> lp_lesson p = lesson) (ld_progress s)")
    case None
    then have "ld_progress t = ld_progress s @ [fresh (now s)]"
      using assms(1) by (auto simp: upsert_progress_def split: if_splits)
    then show ?thesis using None assms(3,4) by (auto simp: find_None_iff)
  next
    case (Some r)
    then have "ld_progress t = map (\<lambda>p. if lp_learner p = l \<and> lp_lesson p = lesson then f (now s) p else p) (ld_progress s)"
      using assms(1) by (auto simp: upsert_progress_def split: if_splits)
    then show ?thesis using assms(2,4) by (simp del: map_map)
  qed
  show "\<exists>ps. t = s\<lparr>ld_progress := ps\<rparr>"
    using assms(1) by (auto simp: upsert_progress_def split: if_splits option.splits)
qed

lemma learning_ok_progress:
  "learning_ok s \<Longrightarrow> distinct (map (\<lambda>p. (lp_learner p, lp_lesson p)) ps) \<Longrightarrow> learning_ok (s\<lparr>ld_progress := ps\<rparr>)"
  by (simp add: learning_ok_def)

lemma resume_keys:
  assumes "ResumeRepo_Upsert o' u c l s = Inr (x, t)" and "distinct (map (\<lambda>r. (rp_learner r, rp_course r)) (ld_resume s))"
  shows "distinct (map (\<lambda>r. (rp_learner r, rp_course r)) (ld_resume t))" and "\<exists>rs. t = s\<lparr>ld_resume := rs\<rparr>"
proof -
  show "distinct (map (\<lambda>r. (rp_learner r, rp_course r)) (ld_resume t))"
  proof (cases "find (\<lambda>r. rp_learner r = u \<and> rp_course r = c) (ld_resume s)")
    case None
    then obtain r where "ld_resume t = ld_resume s @ [r]" "rp_learner r = u" "rp_course r = c"
      using assms(1) by (auto simp: ResumeRepo_Upsert_def Let_def split: if_splits)
    then show ?thesis using None assms(2) by (auto simp: find_None_iff)
  next
    case (Some r)
    then have "ld_resume t = map (\<lambda>r. if rp_learner r = u \<and> rp_course r = c then r\<lparr>rp_lesson := l, rp_at := now s\<rparr> else r) (ld_resume s)"
      using assms(1) by (auto simp: ResumeRepo_Upsert_def split: if_splits)
    then show ?thesis using assms(2) by (simp del: map_map)
  qed
  show "\<exists>rs. t = s\<lparr>ld_resume := rs\<rparr>"
    using assms(1) by (auto simp: ResumeRepo_Upsert_def Let_def split: if_splits option.splits)
qed

abbreviation learning_of :: "uuid \<Rightarrow> ldb \<Rightarrow> bool" where
  "learning_of u s \<equiv> a_session (ld_adb s) = Some u \<and> learning_ok s"

lemma upsert_ok:
  assumes "upsert_progress l lesson fresh f s = Inr (x, t)" and "learning_of u s"
    and "\<And>p. (lp_learner (f (now s) p), lp_lesson (f (now s) p)) = (lp_learner p, lp_lesson p)"
    and "(lp_learner (fresh (now s)), lp_lesson (fresh (now s))) = (l, lesson)"
  shows "learning_of u t"
proof -
  have k: "distinct (map (\<lambda>p. (lp_learner p, lp_lesson p)) (ld_progress s))" using assms(2) by (simp add: learning_ok_def)
  obtain ps where "t = s\<lparr>ld_progress := ps\<rparr>" using upsert_keys(2)[OF assms(1,3,4) k] by blast
  then show ?thesis using upsert_keys(1)[OF assms(1,3,4) k] assms(2) by (simp add: learning_ok_progress)
qed

interpretation tables: learner_steps "learning_of u" u for u
proof (unfold_locales, goal_cases)
  case (1 s a)
  then show ?case by (auto simp: same_but_aborted_def learning_ok_def)
next
  case (2 s r)
  then show ?case by (simp add: learning_ok_def)
next
  case (3 o' c l)
  show ?case
  proof (rule tx_postI)
    fix s x t assume I: "learning_of u s" and run: "ResumeRepo_Upsert o' u c l s = Inr (x, t)"
    then obtain rs where "t = s\<lparr>ld_resume := rs\<rparr>" using resume_keys(2)[OF run] by (auto simp: learning_ok_def)
    then show "learning_of u t" using I resume_keys(1)[OF run] by (simp add: learning_ok_def)
  qed
next
  case (4 col o' l c ms pct)
  show ?case
    by (auto simp: tx_post_def ProgressRepo_UpsertWatchProgress_def split: option.splits elim!: upsert_ok
        dest: upsert_ok[of _ _ _ _ _ _ _ u])
next
  case (5 o' l c)
  show ?case by (rule tx_postI, unfold ProgressRepo_MarkComplete_def, erule upsert_ok) auto
qed (auto simp: tx_post_def learning_ok_def write_defs split: if_split_asm option.splits)

subsection \<open>Numbering attempts and submissions\<close>

definition attempts_of :: "uuid \<Rightarrow> uuid \<Rightarrow> ldb \<Rightarrow> int" where
  "attempts_of u b s = int (length (filter (\<lambda>a. qa_learner a = u \<and> qa_block a = b) (ld_attempts s)))"

definition submissions_of :: "uuid \<Rightarrow> uuid \<Rightarrow> ldb \<Rightarrow> int" where
  "submissions_of u b s = int (length (filter (\<lambda>a. sm_learner a = u \<and> sm_block a = b) (ld_submissions s)))"

lemma own_rows_seen: "a_session (ld_adb s) = Some u \<Longrightarrow> own_or_staff s u o'"
  by (simp add: own_or_staff_def)

lemma count_attempts:
  "tx_post (learning_of u) (AttemptRepo_CountByLearnerAndBlock u b) (\<lambda>n s. learning_of u s \<and> n = attempts_of u b s)"
proof (rule tx_postI)
  fix s n t assume I: "learning_of u s" and run: "AttemptRepo_CountByLearnerAndBlock u b s = Inr (n, t)"
  then have "filter (\<lambda>a. own_or_staff s (qa_learner a) (qa_org a) \<and> qa_learner a = u \<and> qa_block a = b) (ld_attempts s) =
      filter (\<lambda>a. qa_learner a = u \<and> qa_block a = b) (ld_attempts s)"
    by (intro filter_cong) (auto simp: own_rows_seen)
  then show "learning_of u t \<and> n = attempts_of u b t"
    using I run by (auto simp: AttemptRepo_CountByLearnerAndBlock_def attempts_of_def)
qed

lemma count_submissions:
  "tx_post (learning_of u) (SubmissionRepo_CountByLearnerAndBlock u b) (\<lambda>n s. learning_of u s \<and> n = submissions_of u b s)"
proof (rule tx_postI)
  fix s n t assume I: "learning_of u s" and run: "SubmissionRepo_CountByLearnerAndBlock u b s = Inr (n, t)"
  then have "filter (\<lambda>a. own_or_staff s (sm_learner a) (sm_org a) \<and> sm_learner a = u \<and> sm_block a = b) (ld_submissions s) =
      filter (\<lambda>a. sm_learner a = u \<and> sm_block a = b) (ld_submissions s)"
    by (intro filter_cong) (auto simp: own_rows_seen)
  then show "learning_of u t \<and> n = submissions_of u b t"
    using I run by (auto simp: SubmissionRepo_CountByLearnerAndBlock_def submissions_of_def)
qed

lemma next_attempt:
  "tx_post (\<lambda>s. learning_of u s \<and> n = attempts_of u b s) (AttemptRepo_Create o' u b (n + 1) answers) (\<lambda>_. learning_of u)"
  by (auto simp: tx_post_def AttemptRepo_Create_def Let_def learning_ok_def attempts_of_def split: if_splits intro!: numbered_snoc)

lemma next_submission:
  "tx_post (\<lambda>s. learning_of u s \<and> n = submissions_of u b s)
     (\<lambda>s. SubmissionRepo_Create o' u b (n + 1) path st (f s) s) (\<lambda>_. learning_of u)"
  by (auto simp: tx_post_def SubmissionRepo_Create_def Let_def learning_ok_def submissions_of_def split: if_splits
      intro!: numbered_snoc)

lemma correct_count_bounds: "0 \<le> correct_count rs" "correct_count (score_questions qs answers) \<le> int (length qs)"
  by (auto simp: correct_count_def score_questions_def intro: order_trans[OF length_filter_le])

lemma score_stored:
  "0 \<le> k \<Longrightarrow> k \<le> m \<Longrightarrow> tx_pres (learning_of u) (ScoreRepo_Create col o' u b n k m pct passed)"
  by (auto simp: tx_post_def ScoreRepo_Create_def Let_def learning_ok_def split: if_splits option.splits)

lemma tables_quiz:
  assumes "ac_user ac = u"
  shows "h_pres (learning_of u) (SubmitQuiz env ac c l b q)"
proof -
  have tail: "h_pres (learning_of u) (h_bind (lsql (AttemptRepo_CountByLearnerAndBlock u bl) internal_error) (\<lambda>n.
      h_bind (lsql (AttemptRepo_Create o' u bl (n + 1) answers) internal_error) (k n)))"
    if k: "\<And>n x. h_pres (learning_of u) (k n x)" for bl o' answers and k :: "int \<Rightarrow> quiz_attempt \<Rightarrow> ldb handler"
    by (rule tables.counted_pres[OF count_attempts], rule h_triple_bind[OF tables.lsql_triple[OF next_attempt]])
      (blast intro: h_triple_pres k)+
  show ?thesis
    unfolding SubmitQuiz_def quizBlockInLesson_def Let_def
    apply (simp only: assms)
    apply (rule h_pres_option[OF h_pres_respond])
    apply (rule h_pres_bind[OF tables.keeps_lesson])
    apply (rule h_pres_bind[OF tables.keeps_block])
    apply (simp only: split: prod.split, intro allI impI)
    apply (rule h_pres_bind[OF h_pres_guard])
    apply (rule tail)
    apply (intro h_pres_bind tables.pres_lsql score_stored correct_count_bounds h_pres_if h_pres_return tables.complete
        tables.keeps_certify)
    done
qed

lemma tables_assignment:
  assumes "ac_user ac = u"
  shows "h_pres (learning_of u) (SubmitAssignment env ac c l b q)"
proof -
  have guard: "h_triple P (h_bind (h_guard g r) k) (\<lambda>_. learning_of u) (\<lambda>_. learning_of u)"
    if "h_triple P (k ()) (\<lambda>_. learning_of u) (\<lambda>_. learning_of u)" "\<And>s. P s \<Longrightarrow> learning_of u s" for P g r and k :: "unit \<Rightarrow> ldb handler"
    using that by (auto simp: h_guard_def h_triple_def h_bind_def h_return_def h_respond_def)
  show ?thesis
    unfolding SubmitAssignment_def assignmentBlockInLesson_def Let_def
    apply (simp only: assms)
    apply (rule h_pres_option[OF h_pres_respond])
    apply (rule h_pres_if[OF h_pres_respond])
    apply (rule h_pres_bind[OF tables.keeps_lesson])
    apply (rule h_pres_bind[OF tables.keeps_block])
    apply (simp only: split: prod.split, intro allI impI)
    apply (rule h_pres_bind[OF h_pres_guard])
    apply (rule tables.counted_pres[OF count_submissions])
    apply (intro guard)
    apply (rule h_triple_bind[OF tables.lsql_triple[OF next_submission]])
        apply blast
       apply (rule h_triple_pres)
       apply (intro h_pres_bind tables.pres_lsql tables.complete tables.keeps_certify h_pres_return)
      apply blast+
    done
qed

interpretation tables: learning_base "learning_of u" u for u
proof (unfold_locales, goal_cases)
  case 1
  then show ?case by (rule tables_quiz)
next
  case 2
  then show ?case by (rule tables_assignment)
next
  case (4 i st)
  show ?case
    by (auto simp: tx_post_def SubmissionRepo_SetStatus_def tab_update_Inr learning_ok_def intro!: numbered_map[THEN iffD2])
qed (auto simp: tx_post_def learning_ok_def write_defs split: if_split_asm option.splits)

text \<open>
  Every learning request keeps the learner tables well formed: one resume position per
  learner and course, one progress row per lesson, one certificate per course with a public id
  of its own, one grade per submission, no score above its maximum, and the quiz attempts and
  the submissions of a learner for a block numbered 1, 2, 3 and so on.
\<close>

theorem learning_tables_stay_ok:
  assumes "learning_ok s"
  shows "learning_ok (snd (lserve (ac_user ac) (learn_request_handler env ac q) s))"
proof (rule tables.lserve_keeps[OF tables.keeps_any[where env = env and q = q and ac = ac, OF refl]])
  show "learning_of (ac_user ac) (open_tx (ac_user ac) s)" using assms by (simp add: learning_ok_def)
qed (use assms in \<open>auto simp: learning_ok_def\<close>)

end
