(* ===== verification/LearnRules.thy ===== *)
theory LearnRules
  imports LearnProps
begin

text \<open>
  What learning decides: when a quiz is passed and a rule satisfied, who gets a certificate, who
  may learn, what enrolling does, and what a quiz does not reveal.
\<close>

section \<open>Percentages\<close>

lemma percentOf_bounds:
  assumes "0 \<le> k" "k \<le> n" "n \<le> 2 ^ 40"
  shows "0 \<le> percentOf k n \<and> percentOf k n \<le> 100"
proof (cases "n = 0")
  case False
  then have x: "0 \<le> (of_int k / of_int n :: rat)" "(of_int k / of_int n :: rat) \<le> 1" using assms by auto
  then have "fl (of_int k / of_int n) \<le> 1" using fl_mono[OF x(2)] fl_of_int[of 1] by simp
  then have "fl (of_int k / of_int n) * 100 \<le> 100" by simp
  then have "fl (fl (of_int k / of_int n) * 100) \<le> fl 100" by (rule fl_mono)
  moreover have "fl 100 = 100" using fl_of_int[of 100] by simp
  ultimately show ?thesis using x False by (simp add: percentOf_def)
qed (simp add: percentOf_def)

lemma rounded_up:
  fixes y z a :: rat
  assumes "0 \<le> y" "\<bar>z - y\<bar> \<le> \<bar>y\<bar> / 2 ^ 53" "y \<le> 101" "y \<le> a + 100 / 2 ^ 53"
  shows "z \<le> a + 201 / 2 ^ 53"
proof -
  have "z \<le> y + y / 2 ^ 53" using assms(2) abs_ge_self[of "z - y"] unfolding abs_of_nonneg[OF assms(1)] by linarith
  moreover have "y / 2 ^ 53 \<le> 101 / 2 ^ 53" using assms(3) by (rule divide_right_mono) simp
  ultimately show ?thesis using assms(4) by (simp add: add_divide_distrib)
qed

text \<open>Rounding never lets a share reach a threshold it has not reached.\<close>

lemma percentOf_sound:
  assumes "0 \<le> k" "k \<le> n" "0 < n" "n \<le> 2 ^ 40" "t \<le> 100" and "of_int t \<le> percentOf k n"
  shows "t * n \<le> 100 * k"
proof (rule ccontr)
  assume "\<not> t * n \<le> 100 * k"
  then have lt: "100 * k + 1 \<le> t * n" by simp
  let ?x = "of_int k / of_int n :: rat"
  have n: "(0 :: rat) < of_int n" "1 / (2 ^ 40 :: rat) \<le> 1 / of_int n"
  proof -
    have "(of_int n :: rat) \<le> of_int (2 ^ 40)" using assms(4) of_int_le_iff by blast
    then show "1 / (2 ^ 40 :: rat) \<le> 1 / of_int n" using assms(3) by (simp add: field_simps)
  qed (use assms in simp)
  have "of_int (100 * k + 1) \<le> (of_int (t * n) :: rat)" using lt of_int_le_iff by blast
  then have gap: "100 * ?x \<le> of_int t - 1 / of_int n" using n(1) by (simp add: field_simps)
  have x: "0 \<le> ?x" "?x \<le> 1" using assms by auto
  have "\<bar>fl ?x - ?x\<bar> \<le> \<bar>?x\<bar> / 2 ^ 53" by (rule fl_error)
  then have y: "fl ?x * 100 \<le> of_int t - 1 / of_int n + 100 / 2 ^ 53" using x gap by (simp add: field_simps)
  have "fl ?x * 100 \<le> 101"
  proof -
    have "(of_int t :: rat) \<le> of_int 100" using assms(5) of_int_le_iff by blast
    moreover have "(0 :: rat) < 1 / of_int n" using n(1) by simp
    moreover have "(100 :: rat) / 2 ^ 53 \<le> 1" by simp
    ultimately show ?thesis using y by (simp only: of_int_numeral)
  qed
  then have "fl (fl ?x * 100) \<le> of_int t - 1 / of_int n + 201 / 2 ^ 53"
    by (intro rounded_up[OF _ fl_error] y) (use x in simp)
  then have "percentOf k n \<le> of_int t - 1 / of_int n + 201 / 2 ^ 53" using assms(3) by (simp only: percentOf_def) simp
  moreover have "(201 / 2 ^ 53 :: rat) < 1 / 2 ^ 40" by simp
  ultimately show False using assms(6) n(2) by linarith
qed

lemma percentOf_seventy:
  assumes "0 \<le> k" "k \<le> n" "0 < n" "n \<le> 2 ^ 40"
  shows "70 \<le> percentOf k n \<longleftrightarrow> 7 * n \<le> 10 * k"
proof
  assume "70 \<le> percentOf k n"
  then show "7 * n \<le> 10 * k" using percentOf_sound[OF assms, of 70] by simp
next
  assume "7 * n \<le> 10 * k"
  then have "of_int (7 * n) \<le> (of_int (10 * k) :: rat)" using of_int_le_iff by blast
  then have "7 / 10 \<le> (of_int k / of_int n :: rat)" using assms by (simp add: field_simps)
  then have "fl (7 / 10) * 100 \<le> fl (of_int k / of_int n) * 100" by (simp add: fl_mono)
  then have "fl (fl (7 / 10) * 100) \<le> percentOf k n" using assms by (simp add: percentOf_def fl_mono)
  moreover have "fl (fl (7 / 10) * 100) = 70" by code_simp
  ultimately show "70 \<le> percentOf k n" by simp
qed

text \<open>A share that is a whole percentage can miss its own threshold.\<close>

lemma percent_rule_misses: "\<not> rule_satisfied (PercentLessons, 29) (100, 29) qz"
proof -
  have "percentOf 29 100 < 29" by code_simp
  then show ?thesis by (simp add: rule_satisfied_def split: prod.split)
qed

section \<open>Certificates\<close>

text \<open>The course of a learner is complete, as the code evaluates it in the learner's transaction.\<close>

definition completed :: "uuid \<Rightarrow> uuid \<Rightarrow> ldb \<Rightarrow> bool" where
  "completed c u s = (case EvaluateCompletion c u s of Inr (b, _) \<Rightarrow> b | Inl _ \<Rightarrow> False)"

lemma EvaluateCompletion_run: "EvaluateCompletion c u s = Inr (b, t) \<longleftrightarrow> t = s \<and> b = completed c u s"
  by (auto simp: completed_def EvaluateCompletion_def RuleRepo_ListForCourse_def countCourseLessons_def
      countCourseQuizzes_def tx_bind_def tx_gets_def tx_return_def)

lemma a_rows_same: "a_session t = a_session s \<Longrightarrow> a_members t = a_members s \<Longrightarrow> g t = g s \<Longrightarrow> a_rows g org_of P t = a_rows g org_of P s"
  by (simp add: a_rows_def sees_def is_org_member_def cong: option.case_cong)

lemma completed_frame:
  assumes "a_session (ld_adb s) = Some u" "a_session (ld_adb t) = Some u" "a_members (ld_adb t) = a_members (ld_adb s)"
    and "a_lessons (ld_adb t) = a_lessons (ld_adb s)" "a_blocks (ld_adb t) = a_blocks (ld_adb s)"
    and "ld_rules t = ld_rules s" "ld_progress t = ld_progress s" "ld_scores t = ld_scores s"
  shows "completed c u t = completed c u s"
proof -
  have rows: "a_rows a_lessons ls_org P (ld_adb t) = a_rows a_lessons ls_org P (ld_adb s)"
      "a_rows a_blocks bk_org Q (ld_adb t) = a_rows a_blocks bk_org Q (ld_adb s)" for P Q
    using assms by (simp_all add: a_rows_same)
  have own: "filter (\<lambda>p. own_or_staff v (lp_learner p) (lp_org p) \<and> lp_course p = c \<and> lp_learner p = u \<and> lp_completed p \<noteq> None) ps =
      filter (\<lambda>p. lp_course p = c \<and> lp_learner p = u \<and> lp_completed p \<noteq> None) ps"
    "own_or_staff v (qs_learner x) (qs_org x) \<and> qs_block x = b \<and> qs_learner x = u \<and> qs_passed x \<longleftrightarrow>
      qs_block x = b \<and> qs_learner x = u \<and> qs_passed x"
    if "a_session (ld_adb v) = Some u" for v ps x b
    using that by (auto simp: own_or_staff_def intro!: filter_cong)
  have "sees (ld_adb t) o' = sees (ld_adb s) o'" for o'
    using assms by (simp add: sees_def is_org_member_def)
  then show ?thesis
    unfolding completed_def EvaluateCompletion_def RuleRepo_ListForCourse_def countCourseLessons_def countCourseQuizzes_def
      tx_bind_def tx_gets_def tx_return_def
    by (simp add: rows own[OF assms(1)] own[OF assms(2)] assms Let_def del: not_None_eq)
qed

abbreviation uncertified :: "certificate list \<Rightarrow> uuid \<Rightarrow> ldb \<Rightarrow> bool" where
  "uncertified cs u s \<equiv> a_session (ld_adb s) = Some u \<and> ld_certs s = cs"

definition earned :: "certificate list \<Rightarrow> uuid \<Rightarrow> ldb \<Rightarrow> bool" where
  "earned cs u s \<longleftrightarrow> a_session (ld_adb s) = Some u \<and>
     (\<forall>x \<in> set (ld_certs s). x \<in> set cs \<or> ct_learner x = u \<and> completed (ct_course x) u s)"

lemma uncertified_earned: "uncertified cs u s \<Longrightarrow> earned cs u s"
  by (simp add: earned_def)

interpretation before: learner_writes "uncertified cs u" u for cs u
proof (unfold_locales, goal_cases)
  case (1 s a)
  then show ?case by (auto simp: same_but_aborted_def)
qed (auto simp: tx_post_def ResumeRepo_Upsert_def ProgressRepo_UpsertWatchProgress_def ProgressRepo_MarkComplete_def
    upsert_progress_def LAccess_Create_def record_event_def on_shop_Inr Let_def split: if_split_asm option.splits)

lemma before_rows:
  "tx_pres (uncertified cs u) (AttemptRepo_Create o' l b n answers)"
  "tx_pres (uncertified cs u) (ScoreRepo_Create col o' l b n e m pct passed)"
  "tx_pres (uncertified cs u) (\<lambda>s. SubmissionRepo_Create o' l b n path st (f s) s)"
  by (auto simp: tx_post_def AttemptRepo_Create_def ScoreRepo_Create_def SubmissionRepo_Create_def Let_def
      split: if_split_asm option.splits)

interpretation after: quiet_state "earned cs u" for cs u
proof (unfold_locales, goal_cases)
  case (1 s a)
  then have "completed c u (s\<lparr>ld_adb := a\<rparr>) = completed c u s" for c
    by (intro completed_frame) (auto simp: same_but_aborted_def earned_def)
  then show ?case using 1 by (auto simp: earned_def same_but_aborted_def)
next
  case (2 s r)
  then have "completed c u (s\<lparr>ld_role := r\<rparr>) = completed c u s" for c
    by (intro completed_frame) (auto simp: earned_def)
  then show ?case using 2 by (simp add: earned_def)
qed

lemma event_after: "tx_pres (earned cs u) (record_event env o' ty l c)"
proof (rule tx_postI)
  fix s x t assume e: "earned cs u s" and run: "record_event env o' ty l c s = Inr (x, t)"
  then obtain sh where t: "t = s\<lparr>ld_shop := sh\<rparr>" by (auto simp: record_event_def on_shop_Inr split: if_splits)
  have "completed c' u t = completed c' u s" for c'
    unfolding t by (rule completed_frame) (use e in \<open>auto simp: earned_def\<close>)
  then show "earned cs u t" using e by (simp add: earned_def t)
qed

lemma certificate_after:
  "tx_post (\<lambda>s. uncertified cs u s \<and> completed c u s) (CertificateRepo_Create o' u c public path) (\<lambda>_. earned cs u)"
proof (rule tx_postI)
  fix s x t assume P: "uncertified cs u s \<and> completed c u s" and run: "CertificateRepo_Create o' u c public path s = Inr (x, t)"
  then have t: "t = s\<lparr>ld_certs := cs @ [x], ld_next := Suc (ld_next s)\<rparr>" "ct_learner x = u" "ct_course x = c"
    by (auto simp: CertificateRepo_Create_def Let_def split: if_splits)
  have "completed c' u t = completed c' u s" for c'
    unfolding t(1) by (rule completed_frame) (use P in auto)
  then show "earned cs u t" using P t(2,3) by (simp add: earned_def) (simp add: t(1))
qed

text \<open>The step that issues the certificate.\<close>

interpretation due: quiet_state "\<lambda>s. uncertified cs u s \<and> completed c u s" for cs u c
proof (unfold_locales, goal_cases)
  case (1 s a)
  moreover have "completed c u (s\<lparr>ld_adb := a\<rparr>) = completed c u s"
    by (rule completed_frame) (use 1 in \<open>auto simp: same_but_aborted_def\<close>)
  ultimately show ?case by (auto simp: same_but_aborted_def)
next
  case (2 s r)
  moreover have "completed c u (s\<lparr>ld_role := r\<rparr>) = completed c u s"
    by (rule completed_frame) (use 2 in auto)
  ultimately show ?case by simp
qed

lemma evaluated: "tx_post P (EvaluateCompletion c u) (\<lambda>b s. P s \<and> b = completed c u s)"
  by (simp add: tx_post_def EvaluateCompletion_run)

lemma uncertified_abort: "uncertified cs u s \<Longrightarrow> earned cs u (abort e s)"
  by (intro after.aborted uncertified_earned)

lemma certify_earned: "h_post (uncertified cs u) (evaluateAndIssueCertificateIfComplete env c u) (earned cs u)"
proof -
  let ?P = "uncertified cs u"
  have issue: "h_post (\<lambda>s. ?P s \<and> completed c u s)
      (h_bind (lsql (on_adb (ACourseRepo_Get c)) internal_error) (\<lambda>co.
       h_bind (lsql (on_adb (ProfileRepo_GetByID u)) internal_error) (\<lambda>p.
       h_bind (h_guard (le_upload env) (internal_error ErrStorage)) (\<lambda>_.
       h_bind (lsql (CertificateRepo_Create (c_org co) u c (le_public env) (certificate_path co (le_public env))) internal_error) (\<lambda>_.
         lsql_ignore (record_event env (c_org co) ''certificate_issued'' u (c_id co))))))) (earned cs u)"
    by (intro h_post_step[OF due.pres_lsql[OF learner_reads(3)]] h_post_step[OF due.pres_lsql[OF learner_reads(4)]]
        h_post_step[OF h_pres_guard] h_post_step[OF h_post_lsql[OF certificate_after uncertified_abort]]
        after.pres_ignore event_after) (auto intro: uncertified_earned)
  show ?thesis
    unfolding evaluateAndIssueCertificateIfComplete_def
    by (intro h_post_step[OF before.pres_attempt[OF learner_reads(14)]] h_post_sum h_post_if h_post_done
        h_post_value[OF evaluated] uncertified_earned uncertified_abort)
      (use issue in \<open>auto intro: uncertified_earned\<close>)
qed

lemmas before_step = h_post_step[OF before.keeps_lesson] h_post_step[OF before.keeps_block]
  h_post_step[OF before.pres_lsql[OF before.complete]] h_post_step[OF before.pres_lsql[OF before.watch]]
  h_post_step[OF before.pres_lsql[OF before_rows(1)]] h_post_step[OF before.pres_lsql[OF before_rows(2)]]
  h_post_step[OF before.pres_lsql[OF before_rows(3)]] h_post_step[OF before.pres_lsql[OF learner_reads(8)]]
  h_post_step[OF before.pres_lsql[OF learner_reads(11)]] h_post_step[OF h_pres_guard] h_post_step[OF certify_earned]

lemmas after_step = h_pres_bind after.pres_ignore event_after h_pres_return

lemma h_post_option:
  "h_post P m Q \<Longrightarrow> (\<And>x. h_post P (f x) Q) \<Longrightarrow> h_post P (case v of None \<Rightarrow> m | Some x \<Rightarrow> f x) Q"
  by (cases v) simp_all

lemma h_post_prod: "(\<And>x y. h_post P (f x y) Q) \<Longrightarrow> h_post P (case v of (x, y) \<Rightarrow> f x y) Q"
  by (cases v) simp_all

lemma earned_if: "h_post P (if b then m else n) (earned cs u) \<Longrightarrow> (\<And>x. h_pres (earned cs u) (f x)) \<Longrightarrow>
    h_post P (h_bind (if b then m else n) f) (earned cs u)"
  by (rule h_post_step)

lemma handlers_earned:
  assumes "ac_user ac = u"
  shows "h_post (uncertified cs u) (ReportLessonProgress env ac c l body) (earned cs u)"
    "h_post (uncertified cs u) (CompleteLesson env ac c l) (earned cs u)"
    "h_post (uncertified cs u) (SubmitQuiz env ac c l b q) (earned cs u)"
    "h_post (uncertified cs u) (SubmitAssignment env ac c l b a) (earned cs u)"
proof -
  note steps = h_post_option earned_if h_post_if h_post_prod h_post_done certify_earned before_step after_step
  show "h_post (uncertified cs u) (ReportLessonProgress env ac c l body) (earned cs u)"
    unfolding ReportLessonProgress_def assms by (intro steps) (auto intro: uncertified_earned)
  show "h_post (uncertified cs u) (CompleteLesson env ac c l) (earned cs u)"
    unfolding CompleteLesson_def assms by (intro steps) (auto intro: uncertified_earned)
  show "h_post (uncertified cs u) (SubmitQuiz env ac c l b q) (earned cs u)"
    unfolding SubmitQuiz_def quizBlockInLesson_def Let_def assms
    by (intro steps) (auto intro: uncertified_earned)
  show "h_post (uncertified cs u) (SubmitAssignment env ac c l b a) (earned cs u)"
    unfolding SubmitAssignment_def assignmentBlockInLesson_def assms
    by (intro steps) (auto intro: uncertified_earned)
qed

lemma learner_earned:
  assumes "ac_user ac = u"
  shows "h_post (uncertified cs u) (learner_handler env ac c a) (earned cs u)"
  unfolding learner_handler_def
  by (cases a) (auto intro: handlers_earned[OF assms] h_post_weaken[OF before.keeps_readers(1)] h_post_weaken[OF before.keeps_readers(2)]
      h_post_weaken[OF before.keeps_readers(4)] h_post_weaken[OF before.keeps_readers(5)] h_post_weaken[OF before.keeps_readers(6)]
      h_post_weaken[OF before.keeps_readers(7)] h_post_weaken[OF before.keeps_resume[OF assms]] uncertified_earned)

lemma grading_before: "h_pres (uncertified cs u) (GradeSubmission env ac c j b)"
proof -
  have "tx_pres (uncertified cs u) (GradeRepo_Create col o' sub pct fb t)" "tx_pres (uncertified cs u) (SubmissionRepo_SetStatus i st)"
    for col o' sub pct fb t i st
    by (auto simp: tx_post_def GradeRepo_Create_def SubmissionRepo_SetStatus_def tab_update_Inr Let_def
        split: if_split_asm option.splits)
  then show ?thesis unfolding GradeSubmission_def by (intro before.l_rules)
qed

lemma request_earned:
  assumes "ac_user ac = u"
  shows "h_post (uncertified cs u) (learn_request_handler env ac q) (earned cs u)"
proof -
  have quiet: "h_post (uncertified cs u) m (earned cs u)" if "h_pres (uncertified cs u) m" for m :: "ldb handler"
    using that by (rule h_post_weaken) (rule uncertified_earned)
  show ?thesis
  proof (cases q)
    case (LrLearn i a)
    have "h_post (uncertified cs u) (course_request ac i (\<lambda>c oc. h_bind (RequireEntitlement ac c oc) (\<lambda>_. learner_handler env ac c a)))
        (earned cs u)"
      unfolding course_request_def
      by (intro h_post_step[OF before.pres_reading[OF ResolveCourseOrg_reads]] h_post_prod h_post_step[OF before.pres_role]
          h_post_step[OF before.keeps_gate] learner_earned[OF assms]) (auto intro: uncertified_earned)
    then show ?thesis by (simp add: learn_request_handler_def LrLearn)
  next
    case (LrEnroll i)
    then show ?thesis
      by (auto simp: learn_request_handler_def intro!: quiet before.keeps_course_request before.keeps_enroll assms)
  next
    case (LrQueue i)
    then show ?thesis
      by (auto simp: learn_request_handler_def intro!: quiet before.keeps_course_request h_pres_bind before.keeps_role_guard before.keeps_readers)
  next
    case (LrGrade i j b)
    then show ?thesis
      by (auto simp: learn_request_handler_def intro!: quiet before.keeps_course_request h_pres_bind before.keeps_role_guard grading_before)
  next
    case LrCertificates
    then show ?thesis by (simp add: learn_request_handler_def quiet before.keeps_readers)
  qed
qed

text \<open>
  C21: A certificate that was not there before a request is the caller's own, for a course whose
  completion rules the caller satisfies in the state the request leaves.
\<close>

theorem certificates_only_on_completion:
  assumes "lserve (ac_user ac) (learn_request_handler env ac q) s = (r, s')"
    and "x \<in> set (ld_certs s')" and "x \<notin> set (ld_certs s)"
  shows "ct_learner x = ac_user ac \<and> completed (ct_course x) (ac_user ac) (open_tx (ac_user ac) s')"
proof -
  let ?u = "ac_user ac"
  have "earned (ld_certs s) ?u (snd (learn_request_handler env ac q (open_tx ?u s)))"
    using request_earned[where ac = ac and cs = "ld_certs s" and env = env and q = q, OF refl] by (simp add: h_post_def)
  then obtain t where t: "s' = close_tx t" "earned (ld_certs s) ?u t"
    using assms by (cases rule: lserve_cases[OF assms(1)]) (auto simp: run_handler_cases)
  have "completed c ?u (open_tx ?u s') = completed c ?u t" for c
    by (rule completed_frame) (use t in \<open>auto simp: earned_def\<close>)
  then show ?thesis using t assms by (auto simp: earned_def)
qed

subsection \<open>What the steps of a learning request leave behind\<close>

abbreviation work_is :: "quiz_attempt list \<times> quiz_score list \<times> lesson_progress list \<times> submission list \<Rightarrow> ldb \<Rightarrow> bool" where
  "work_is w s \<equiv> (ld_attempts s, ld_scores s, ld_progress s, ld_submissions s) = w"

interpretation work: quiet_state "work_is w" for w
  by unfold_locales auto

lemma certify_keeps_work:
  assumes "evaluateAndIssueCertificateIfComplete env c u s = (v, t)"
  shows "ld_attempts t = ld_attempts s \<and> ld_scores t = ld_scores s \<and> ld_progress t = ld_progress s \<and> ld_submissions t = ld_submissions s"
proof -
  have "tx_pres (work_is w) (CertificateRepo_Create o' l c public path)" "tx_pres (work_is w) (record_event env o' ty l c)"
    for w o' l c public path ty
    by (auto simp: tx_post_def CertificateRepo_Create_def record_event_def on_shop_Inr Let_def split: if_splits)
  then have "h_pres (work_is w) (evaluateAndIssueCertificateIfComplete env c u)" for w
    unfolding evaluateAndIssueCertificateIfComplete_def by (intro work.r_rules work.pres_ignore)
  from h_presD[OF this[of "(ld_attempts s, ld_scores s, ld_progress s, ld_submissions s)"] refl]
  show ?thesis unfolding assms by simp
qed

lemma block_run:
  assumes "block_in_lesson ty dec msg i l s = (Inr (b, x), t)"
  shows "t = s \<and> b \<in> set (a_blocks (ld_adb s)) \<and> bk_id b = i \<and> bk_type b = ty \<and> bk_lesson b = ls_id l \<and> dec (bk_content b) = Inr x"
proof -
  from assms obtain b' where b': "on_adb (BlockRepo_Get i) s = Inr (b', s)" "bk_lesson b' = ls_id l" "bk_type b' = ty"
    and d: "(case dec (bk_content b') of Inl e \<Rightarrow> h_respond (internal_error e) | Inr x \<Rightarrow> h_return (b', x)) s = (Inr (b, x), t)"
    unfolding block_in_lesson_def h_bind_Inr lsql_run(1) by (auto dest: adb_read_run(2))
  have "b' \<in> set (a_blocks (ld_adb s))" "bk_id b' = i"
    using b'(1) by (auto simp: on_adb_Inr BlockRepo_Get_def dest!: block_rows.select_seen)
  then show ?thesis using b' d by (cases "dec (bk_content b')") auto
qed

lemma lesson_run:
  "lessonInCourse i c s = (Inr l, t) \<Longrightarrow> t = s \<and> l \<in> set (a_lessons (ld_adb s)) \<and> ls_id l = i \<and> ls_course l = c_id c"
  unfolding lessonInCourse_def
  by (auto simp: l_run on_adb_Inr LessonRepo_Get_def dest!: lesson_rows.select_seen)

lemma marked_complete:
  assumes "ProgressRepo_MarkComplete o' u l c s = Inr (p, t)"
  shows "\<exists>ps. t = s\<lparr>ld_progress := ps\<rparr> \<and> (\<exists>p \<in> set ps. lp_learner p = u \<and> lp_lesson p = l \<and> lp_completed p \<noteq> None)"
proof (cases "find (\<lambda>p. lp_learner p = u \<and> lp_lesson p = l) (ld_progress s)")
  case None
  then show ?thesis using assms by (auto simp: ProgressRepo_MarkComplete_def upsert_progress_def split: if_splits)
next
  case (Some r)
  let ?f = "\<lambda>p. p\<lparr>lp_completed := (case lp_completed p of None \<Rightarrow> Some (now s) | Some d \<Rightarrow> Some d)\<rparr>"
  let ?ps = "map (\<lambda>p. if lp_learner p = u \<and> lp_lesson p = l then ?f p else p) (ld_progress s)"
  have r: "r \<in> set (ld_progress s)" "lp_learner r = u" "lp_lesson r = l" using Some by (auto dest!: find_SomeD)
  then have "?f r \<in> set ?ps" by (force simp del: lesson_progress.update_convs)
  moreover have "t = s\<lparr>ld_progress := ?ps\<rparr>"
    using assms Some by (auto simp: ProgressRepo_MarkComplete_def upsert_progress_def split: if_splits)
  moreover have "lp_learner (?f r) = u" "lp_lesson (?f r) = l" "lp_completed (?f r) \<noteq> None" using r by (auto split: option.splits)
  ultimately show ?thesis by blast
qed

subsection \<open>Finishing a course certifies it\<close>

definition certified :: "uuid \<Rightarrow> uuid \<Rightarrow> ldb \<Rightarrow> bool" where
  "certified c u s \<longleftrightarrow> (\<exists>x \<in> set (ld_certs s). ct_learner x = u \<and> ct_course x = c)"

lemma abort_harmless: "\<not> aborts e \<Longrightarrow> abort e s = s"
  by (simp add: abort_def)

lemma event_recorded:
  "lsql_ignore (record_event env o' ty u c) s = (Inr x, t) \<Longrightarrow> le_event env \<Longrightarrow> sees (ld_adb s) o' \<Longrightarrow> \<not> a_aborted (ld_adb s) \<Longrightarrow>
    \<exists>sh. t = s\<lparr>ld_shop := sh\<rparr>"
  by (auto simp: lsql_ignore_run record_event_def on_shop_Inr AnalyticsEventRepo_Record_def on_shop_def tx_modify_def)

lemma event_refused:
  "lsql_ignore (record_event env o' ty u c) s = (Inr x, t) \<Longrightarrow> \<not> le_event env \<Longrightarrow> a_aborted (ld_adb t)"
  by (auto simp: lsql_ignore_run record_event_def on_shop_def AnalyticsEventRepo_Record_def tx_throw_def abort_def aborts_def
      split: if_splits)

lemma member_sees: "own_member s u o' \<Longrightarrow> a_session (ld_adb s) = Some u \<Longrightarrow> sees (ld_adb s) o'"
  by (simp add: own_member_def sees_def)

lemma certify_run:
  assumes run: "evaluateAndIssueCertificateIfComplete env c u s = (Inr x, t)"
    and "a_session (ld_adb s) = Some u"
  shows "(ld_adb t = ld_adb s \<and> \<not> a_aborted (ld_adb t) \<and> (completed c u t \<longrightarrow> certified c u t)) \<or>
    (\<not> le_event env \<and> a_aborted (ld_adb t) \<and> completed c u s \<and> \<not> certified c u s)"
proof -
  from run consider y where "\<not> a_aborted (ld_adb s)" "CertificateRepo_GetByLearnerAndCourse u c s = Inr (y, t)"
    | "\<not> a_aborted (ld_adb s)" "t = s" "\<not> completed c u s"
    | co p y s2 where "co \<in> (UNIV :: course set)" "\<not> a_aborted (ld_adb s)" "completed c u s"
        "CertificateRepo_GetByLearnerAndCourse u c s = Inl ErrNotFound"
        "CertificateRepo_Create (c_org co) u c (le_public env) p s = Inr (y, s2)"
        "lsql_ignore (record_event env (c_org co) ''certificate_issued'' u (c_id co)) s2 = (Inr (), t)"
    unfolding evaluateAndIssueCertificateIfComplete_def lattempt_bind_run
    by (auto simp: l_run(1,2,3,4) EvaluateCompletion_run abort_harmless aborts_def split: if_split_asm dest!: adb_read_run(3,4))
  then show ?thesis
  proof cases
    case (1 y)
    then show ?thesis
      by (auto simp: CertificateRepo_GetByLearnerAndCourse_def tab_select1_Inr certified_def dest!: find_SomeD)
  next
    case 2
    then show ?thesis by simp
  next
    case (3 co p y s2)
    note 3 = 3(2-)
    then have s2: "s2 = s\<lparr>ld_certs := ld_certs s @ [y], ld_next := Suc (ld_next s)\<rparr>" "ct_learner y = u" "ct_course y = c"
      and own: "own_member s u (c_org co)"
      by (auto simp: CertificateRepo_Create_def Let_def split: if_splits)
    show ?thesis
    proof (cases "le_event env")
      case True
      have "sees (ld_adb s2) (c_org co)" using member_sees[OF own assms(2)] by (simp add: s2)
      then obtain sh where "t = s2\<lparr>ld_shop := sh\<rparr>" using event_recorded[OF 3(5) True] 3(1) by (auto simp: s2)
      then show ?thesis using 3(1) s2 by (simp add: certified_def)
    next
      case False
      have "\<not> certified c u s"
        using 3(3) assms(2)
        by (auto simp: CertificateRepo_GetByLearnerAndCourse_def tab_select1_def certified_def find_None_iff own_or_staff_def
            split: option.splits)
      then show ?thesis using event_refused[OF 3(5) False] False 3(2) by simp
    qed
  qed
qed

lemma upsert_run: "upsert_progress l lesson fresh f s = Inr (p, t) \<Longrightarrow>
    \<exists>ps. t = s\<lparr>ld_progress := ps\<rparr> \<and> own_member s l (lp_org (fresh (now s)))"
  by (auto simp: upsert_progress_def split: if_splits option.splits)

lemma complete_lesson_run:
  assumes "CompleteLesson env ac c l s = (Inr r, t)" "a_session (ld_adb s) = Some (ac_user ac)"
  shows "(le_event env \<longrightarrow> ld_adb t = ld_adb s \<and> \<not> a_aborted (ld_adb t) \<and>
      (completed (c_id c) (ac_user ac) t \<longrightarrow> certified (c_id c) (ac_user ac) t) \<and>
      (\<exists>p \<in> set (ld_progress t). lp_learner p = ac_user ac \<and> lp_lesson p = l \<and> lp_completed p \<noteq> None)) \<and>
    (\<not> le_event env \<longrightarrow> a_aborted (ld_adb t))"
proof -
  let ?u = "ac_user ac"
  obtain l' s1 p s2 s3 where s: "lessonInCourse l c s = (Inr l', s1)" "\<not> a_aborted (ld_adb s1)"
      "ProgressRepo_MarkComplete (c_org c) ?u (ls_id l') (c_id c) s1 = Inr (p, s2)"
      "evaluateAndIssueCertificateIfComplete env (c_id c) ?u s2 = (Inr (), s3)"
      "lsql_ignore (record_event env (c_org c) ''lesson_completion'' ?u (c_id c)) s3 = (Inr (), t)"
    using assms(1) unfolding CompleteLesson_def h_bind_Inr lsql_run(1) by auto
  show ?thesis
  proof (cases "le_event env")
    case False
    then show ?thesis using event_refused[OF s(5)] by blast
  next
    case True
    have s1: "s1 = s" "ls_id l' = l" using lesson_run[OF s(1)] by auto
    obtain ps where s2: "s2 = s\<lparr>ld_progress := ps\<rparr>" "own_member s ?u (c_org c)"
      using upsert_run[OF s(3)[unfolded ProgressRepo_MarkComplete_def]] by (auto simp: s1)
    have done': "\<exists>p \<in> set (ld_progress s2). lp_learner p = ?u \<and> lp_lesson p = l \<and> lp_completed p \<noteq> None"
      using marked_complete[OF s(3)] by (auto simp: s1)
    have s3: "ld_adb s3 = ld_adb s" "\<not> a_aborted (ld_adb s3)" "completed (c_id c) ?u s3 \<longrightarrow> certified (c_id c) ?u s3"
      using certify_run[OF s(4)] assms(2) True by (auto simp: s2)
    then have "sees (ld_adb s3) (c_org c)" using member_sees[OF s2(2) assms(2)] by simp
    then obtain sh where t: "t = s3\<lparr>ld_shop := sh\<rparr>" using event_recorded[OF s(5) True] s3(2) by blast
    have "completed (c_id c) ?u t = completed (c_id c) ?u s3" unfolding t by (rule completed_frame) (use s3(1) assms(2) in auto)
    then show ?thesis using s3 done' certify_keeps_work[OF s(4)] True by (simp add: t certified_def)
  qed
qed

lemma gate_run:
  "RequireEntitlement ac c oc s = (Inr x, t) \<Longrightarrow> t = s \<and> (oc_platform oc \<or> oc_role oc = Some Owner \<or> oc_role oc = Some Teacher \<or>
    c_status c = CPublished \<and> (\<exists>a \<in> set (accesses (ld_shop s)). acc_learner a = ac_user ac \<and> acc_course a = c_id c \<and>
       acc_status a = AccActive))"
  unfolding RequireEntitlement_def
  by (auto simp: l_run LAccess_Get_def split: if_split_asm option.splits dest!: find_SomeD)

lemma gated_request_cases:
  assumes "learn_request_handler env ac (LrLearn i a) s = (v, t)"
  obtains (stopped) r where "v = Inl r" "400 \<le> http_status r" "same_but_aborted (ld_adb s) (ld_adb t)"
      "t = s\<lparr>ld_adb := ld_adb t, ld_role := ld_role t\<rparr>"
  | (passed) c oc where "ResolveCourseOrg ac i (ld_adb s) = (Inr (c, oc), ld_adb s)"
      "RequireEntitlement ac c oc (s\<lparr>ld_role := oc_role oc\<rparr>) = (Inr (), s\<lparr>ld_role := oc_role oc\<rparr>)"
      "learner_handler env ac c a (s\<lparr>ld_role := oc_role oc\<rparr>) = (v, t)"
proof -
  from assms have "course_request ac i (\<lambda>c oc. h_bind (RequireEntitlement ac c oc) (\<lambda>_. learner_handler env ac c a)) s = (v, t)"
    by (simp add: learn_request_handler_def)
  then show thesis
  proof (cases rule: course_request_cases)
    case (stopped r)
    then show ?thesis using that(1)[of r] by simp
  next
    case (passed c oc)
    let ?s = "s\<lparr>ld_role := oc_role oc\<rparr>"
    obtain y w where g: "RequireEntitlement ac c oc ?s = (y, w)" by fastforce
    show ?thesis
    proof (cases y)
      case (Inl r)
      have "same_tables ?s w" using h_presD[OF reading.keeps_gate[of ?s ac c oc] same_tables_refl] g by simp
      then show ?thesis using that(1)[of r] passed(2) g Inl errsD[OF errs_gate, of ac c oc ?s r w]
        by (auto simp: h_bind_def same_tables_def)
    next
      case (Inr x)
      then show ?thesis using that(2)[of c oc] passed g gate_run[of ac c oc ?s x w] by (simp add: h_bind_def)
    qed
  qed
qed

lemma learner_request_run:
  assumes "lserve (ac_user ac) (learn_request_handler env ac (LrLearn i a)) s = (r, s')" and "http_status r < 400"
  obtains c oc t where "ResolveCourseOrg ac i (stamp (ac_user ac) (ld_adb s)) = (Inr (c, oc), stamp (ac_user ac) (ld_adb s))" "c_id c = i"
    "learner_handler env ac c a (open_tx (ac_user ac) s\<lparr>ld_role := oc_role oc\<rparr>) = (Inr r, t)"
    "s' = (if a_aborted (ld_adb t) then s else close_tx t)"
proof -
  let ?u = "ac_user ac"
  obtain v t where run: "learn_request_handler env ac (LrLearn i a) (open_tx ?u s) = (v, t)" by fastforce
  have v: "v = Inl r \<or> v = Inr r" and s': "s' = (if a_aborted (ld_adb t) then s else close_tx t)"
    using run assms(2) by (cases rule: lserve_cases[OF assms(1)]; auto simp: run_handler_cases)+
  from run show thesis
  proof (cases rule: gated_request_cases)
    case (stopped r')
    then show ?thesis using v assms(2) by auto
  next
    case (passed c oc)
    have "learner_handler env ac c a (open_tx ?u s\<lparr>ld_role := oc_role oc\<rparr>) = (Inr r, t)"
      using passed(3) v assms(2) errsD[OF errs_learner] by fastforce
    then show ?thesis using that passed(1) s' ResolveCourseOrg_run[OF passed(1)] by simp
  qed
qed


section \<open>Who may learn\<close>

text \<open>
  C20: A request to one of the learner routes of a course that are behind the entitlement gate
  (the player, resuming, progress, completion, quizzes, assignments and the certificate; not
  enrolling, which needs no access) that answers without an error or changes anything was made
  by an owner or teacher of its organization, by a platform owner, or by a member with active
  access to the course, which is published.
\<close>

theorem learner_route_authorised:
  assumes "lserve (ac_user ac) (learn_request_handler env ac (LrLearn i a)) s = (r, s')"
    and "http_status r < 400 \<or> s' \<noteq> s" and "resting s"
  shows "\<exists>c \<in> set (a_courses (ld_adb s)). c_id c = i \<and>
     ((\<exists>p \<in> set (a_profiles (ld_adb s)). pf_id p = ac_user ac \<and> pf_platform_owner p) \<or>
      (\<exists>m \<in> set (a_members (ld_adb s)). mb_user m = ac_user ac \<and> mb_org m = c_org c \<and> (mb_role m \<in> {Owner, Teacher} \<or>
        c_status c = CPublished \<and> (\<exists>g \<in> set (accesses (ld_shop s)). acc_learner g = ac_user ac \<and> acc_course g = i \<and>
          acc_status g = AccActive))))"
proof -
  let ?u = "ac_user ac"
  obtain v t where run: "learn_request_handler env ac (LrLearn i a) (open_tx ?u s) = (v, t)" by fastforce
  have v: "v = Inl r \<or> v = Inr r" and s': "s' = s \<or> s' = close_tx t" using run
    by (cases rule: lserve_cases[OF assms(1)]; auto simp: run_handler_cases)+
  from run show ?thesis
  proof (cases rule: gated_request_cases)
    case (stopped r')
    then have "ld_adb (close_tx t) = ld_adb s" using assms(3) by (auto simp: resting_def idle_stamp)
    then have "close_tx t = s" using stopped(4) assms(3) by (cases s; cases t) (auto simp: resting_def)
    then show ?thesis using v s' stopped(1,2) assms(2) by auto
  next
    case (passed c oc)
    from ResolveCourseOrg_run[OF passed(1)] gate_run[OF passed(2)]
    show ?thesis by (fastforce split: option.splits)
  qed
qed

section \<open>Quizzes\<close>

lemma count_run:
  "AttemptRepo_CountByLearnerAndBlock u b s = Inr (n, t) \<Longrightarrow> a_session (ld_adb s) = Some u \<Longrightarrow> t = s \<and> n = attempts_of u b s"
  "SubmissionRepo_CountByLearnerAndBlock u b s = Inr (m, t) \<Longrightarrow> a_session (ld_adb s) = Some u \<Longrightarrow> t = s \<and> m = submissions_of u b s"
  by (auto simp: AttemptRepo_CountByLearnerAndBlock_def attempts_of_def SubmissionRepo_CountByLearnerAndBlock_def
      submissions_of_def own_or_staff_def intro!: arg_cong[of _ _ length] filter_cong)

text \<open>What the quiz leaves behind.\<close>

definition quiz_recorded :: "uuid \<Rightarrow> uuid \<Rightarrow> uuid \<Rightarrow> quiz_question list \<Rightarrow> quiz_answer list \<Rightarrow> ldb \<Rightarrow> ldb \<Rightarrow> bool" where
  "quiz_recorded u l b qs answers s t \<longleftrightarrow>
     (let n = int (length qs); k = correct_count (score_questions qs answers); passed = (70 \<le> percentOf k n) in
       (\<exists>a. ld_attempts t = ld_attempts s @ [a] \<and> qa_learner a = u \<and> qa_block a = b \<and> qa_answers a = answers \<and>
          qa_number a = attempts_of u b s + 1) \<and>
       (\<exists>x. ld_scores t = ld_scores s @ [x] \<and> qs_learner x = u \<and> qs_block x = b \<and> qs_earned x = k \<and> qs_max x = n \<and>
          qs_number x = attempts_of u b s + 1 \<and> qs_passed x = passed) \<and>
       (passed \<longrightarrow> (\<exists>p \<in> set (ld_progress t). lp_learner p = u \<and> lp_lesson p = l \<and> lp_completed p \<noteq> None)) \<and>
       (\<not> passed \<longrightarrow> ld_progress t = ld_progress s))"

definition quiz_passed :: "quiz_question list \<Rightarrow> quiz_answer list \<Rightarrow> bool" where
  "quiz_passed qs answers \<longleftrightarrow> 70 \<le> percentOf (correct_count (score_questions qs answers)) (int (length qs))"

lemma submit_quiz_run:
  assumes "SubmitQuiz env ac c l b (Some answers) s = (Inr r, t)" "a_session (ld_adb s) = Some (ac_user ac)"
  shows "\<exists>blk qs. blk \<in> set (a_blocks (ld_adb s)) \<and> bk_id blk = b \<and> bk_type blk = QuizBlock \<and>
    bk_lesson blk = l \<and> QuizBlockContent (bk_content blk) = Inr qs \<and> qs \<noteq> [] \<and>
    (\<not> a_aborted (ld_adb t) \<and> quiz_recorded (ac_user ac) l b qs answers s t \<or>
     a_aborted (ld_adb t) \<and> \<not> le_event env \<and> \<not> certified (c_id c) (ac_user ac) s \<and>
       (\<exists>w. ld_adb w = ld_adb s \<and> quiz_recorded (ac_user ac) l b qs answers s w \<and> quiz_passed qs answers \<and>
          completed (c_id c) (ac_user ac) w))"
proof -
  let ?u = "ac_user ac"
  obtain l' :: lesson and blk :: block and qs n a s1 x s2 where
      l: "ls_id l' = l" and blk: "blk \<in> set (a_blocks (ld_adb s))" "bk_id blk = b" "bk_type blk = QuizBlock" "bk_lesson blk = l"
        "QuizBlockContent (bk_content blk) = Inr qs" "qs \<noteq> []"
    and n: "n = attempts_of ?u b s" and ab: "\<not> a_aborted (ld_adb s)"
    and a: "AttemptRepo_Create (c_org c) ?u b (n + 1) answers s = Inr (a, s1)"
    and x: "ScoreRepo_Create (le_pct env) (c_org c) ?u b (n + 1) (correct_count (score_questions qs answers)) (int (length qs))
        (percentOf (correct_count (score_questions qs answers)) (int (length qs)))
        (70 \<le> percentOf (correct_count (score_questions qs answers)) (int (length qs))) s1 = Inr (x, s2)"
    and rest: "(if 70 \<le> percentOf (correct_count (score_questions qs answers)) (int (length qs)) then
        h_bind (lsql (ProgressRepo_MarkComplete (c_org c) ?u (ls_id l') (c_id c)) internal_error)
          (\<lambda>_. evaluateAndIssueCertificateIfComplete env (c_id c) ?u) else h_return ()) s2 = (Inr (), t)"
    using assms(1) unfolding SubmitQuiz_def quizBlockInLesson_def option.case
    by (auto simp: h_bind_Inr lsql_run(1) Let_def defaultQuizPassingPercent_def split: prod.splits
        dest!: lesson_run block_run count_run(1)[OF _ assms(2)] intro!: that)
  let ?pass = "70 \<le> percentOf (correct_count (score_questions qs answers)) (int (length qs))"
  have s2: "ld_adb s2 = ld_adb s" "ld_progress s2 = ld_progress s" "ld_attempts s2 = ld_attempts s @ [a]"
      "ld_scores s2 = ld_scores s @ [x]" "ld_certs s2 = ld_certs s"
    using a x by (auto simp: AttemptRepo_Create_def ScoreRepo_Create_def Let_def split: if_splits option.splits)
  have ax: "qa_learner a = ?u" "qa_block a = b" "qa_answers a = answers" "qa_number a = attempts_of ?u b s + 1"
      "qs_learner x = ?u" "qs_block x = b" "qs_earned x = correct_count (score_questions qs answers)" "qs_max x = int (length qs)"
      "qs_number x = attempts_of ?u b s + 1" "qs_passed x = ?pass"
    using a x by (auto simp: AttemptRepo_Create_def ScoreRepo_Create_def Let_def n split: if_splits option.splits)
  show ?thesis
  proof (cases ?pass)
    case False
    then have "t = s2" using rest by simp
    then have "\<not> a_aborted (ld_adb t) \<and> quiz_recorded ?u l b qs answers s t"
      unfolding quiz_recorded_def Let_def using s2 ax ab False by auto
    then show ?thesis using blk by blast
  next
    case pass: True
    from rest pass obtain p s3 where 1: "ProgressRepo_MarkComplete (c_org c) ?u (ls_id l') (c_id c) s2 = Inr (p, s3)"
        "evaluateAndIssueCertificateIfComplete env (c_id c) ?u s3 = (Inr (), t)"
      by (auto simp: h_bind_Inr lsql_run(1))
    have rec: "quiz_recorded ?u l b qs answers s w"
      if "ld_attempts w = ld_attempts s3" "ld_scores w = ld_scores s3" "ld_progress w = ld_progress s3" for w
      unfolding quiz_recorded_def Let_def using s2 ax pass marked_complete[OF 1(1)] l that by auto
    have s3: "ld_adb s3 = ld_adb s" "certified (c_id c) ?u s3 = certified (c_id c) ?u s"
      using marked_complete[OF 1(1)] s2 by (auto simp: certified_def)
    have "quiz_passed qs answers" using pass by (simp add: quiz_passed_def)
    then show ?thesis
      using certify_run[OF 1(2)] certify_keeps_work[OF 1(2)] rec[of t] rec[of s3] s3 assms(2) blk by fastforce
  qed
qed

text \<open>
  C23: A quiz answered with 200 adds exactly one attempt, with the submitted answers and the
  next number, and one score with the same number, which counts the questions whose last answer
  is correct; the lesson is completed when the quiz is passed, and progress is untouched
  otherwise. The one exception is a passed quiz that completes the course of a learner who has
  no certificate of it yet: the analytics event of the certificate, which PostgreSQL refuses,
  then takes the whole request with it, and nothing is stored, not even the attempt.
\<close>

theorem quiz_scored_exactly:
  assumes "lserve (ac_user ac) (learn_request_handler env ac (LrLearn i (LSubmitQuiz l b (Some answers)))) s = (r, s')"
    and "http_status r = 200"
  shows "\<exists>blk \<in> set (a_blocks (ld_adb s)). \<exists>qs. bk_id blk = b \<and> bk_type blk = QuizBlock \<and> bk_lesson blk = l \<and>
    QuizBlockContent (bk_content blk) = Inr qs \<and>
    (quiz_recorded (ac_user ac) l b qs answers s s' \<or>
     (\<not> le_event env \<and> s' = s \<and> quiz_passed qs answers \<and>
       \<not> (\<exists>x \<in> set (ld_certs s). ct_learner x = ac_user ac \<and> ct_course x = i) \<and>
       (\<exists>w. quiz_recorded (ac_user ac) l b qs answers s w \<and> completed i (ac_user ac) (open_tx (ac_user ac) w))))"
proof -
  let ?u = "ac_user ac"
  let ?s = "\<lambda>oc. open_tx ?u s\<lparr>ld_role := oc_role oc\<rparr>"
  obtain c and oc :: org_ctx and t where c: "c_id c = i"
      and h: "SubmitQuiz env ac c l b (Some answers) (?s oc) = (Inr r, t)"
      and s': "s' = (if a_aborted (ld_adb t) then s else close_tx t)"
    by (rule learner_request_run[OF assms(1)]) (auto simp: learner_handler_def assms(2))
  have same: "quiz_recorded ?u l b qs answers s (close_tx w)" if "quiz_recorded ?u l b qs answers (?s oc) w" for qs w
    using that by (simp add: quiz_recorded_def attempts_of_def Let_def)
  have compl: "completed i ?u (open_tx ?u (close_tx w)) = completed i ?u w" if "ld_adb w = ld_adb (?s oc)" for w
    by (rule completed_frame) (use that in auto)
  from submit_quiz_run[OF h] obtain blk qs where blk: "blk \<in> set (a_blocks (ld_adb s))" "bk_id blk = b" "bk_type blk = QuizBlock"
      "bk_lesson blk = l" "QuizBlockContent (bk_content blk) = Inr qs"
    and or: "\<not> a_aborted (ld_adb t) \<and> quiz_recorded ?u l b qs answers (?s oc) t \<or>
     a_aborted (ld_adb t) \<and> \<not> le_event env \<and> \<not> certified (c_id c) ?u (?s oc) \<and>
       (\<exists>w. ld_adb w = ld_adb (?s oc) \<and> quiz_recorded ?u l b qs answers (?s oc) w \<and> quiz_passed qs answers \<and>
          completed (c_id c) ?u w)"
    by auto
  from or show ?thesis
  proof (elim disjE conjE exE, goal_cases)
    case 1
    then show ?case using same s' blk by (intro bexI[of _ blk] exI[of _ qs]) auto
  next
    case (2 w)
    then have "quiz_recorded ?u l b qs answers s (close_tx w) \<and> completed i ?u (open_tx ?u (close_tx w))"
      using same[OF 2(5)] compl[OF 2(4)] 2(7) c by blast
    then have "\<exists>w. quiz_recorded ?u l b qs answers s w \<and> completed i ?u (open_tx ?u w)" by blast
    moreover have "\<not> (\<exists>x \<in> set (ld_certs s). ct_learner x = ?u \<and> ct_course x = i)"
      using 2(3) c by (simp add: certified_def)
    moreover have "s' = s" using 2(1) s' by simp
    ultimately show ?case using 2(2) \<open>quiz_passed qs answers\<close> blk by blast
  qed
qed

text \<open>
  A quiz is passed exactly when at least seventy percent of its questions are answered
  correctly, although the share is computed in floating point.
\<close>

theorem passing_is_seventy_percent:
  assumes "qs \<noteq> []" and "int (length qs) \<le> 2 ^ 40"
  shows "defaultQuizPassingPercent \<le> percentOf (correct_count (score_questions qs answers)) (int (length qs)) \<longleftrightarrow>
    7 * int (length qs) \<le> 10 * correct_count (score_questions qs answers)"
  using percentOf_seventy[OF correct_count_bounds] assms by (simp add: defaultQuizPassingPercent_def)

end
