(* ===== verification/Enrolment.thy ===== *)
theory Enrolment
  imports LearnRules
begin

text \<open>
  Handing in assignments, enrolling, what the player shows, and what a quiz does not reveal.
\<close>

section \<open>Handing in an assignment\<close>

definition handed_in :: "uuid \<Rightarrow> uuid \<Rightarrow> uuid \<Rightarrow> string \<Rightarrow> assignment_content \<Rightarrow> time \<Rightarrow> ldb \<Rightarrow> ldb \<Rightarrow> bool" where
  "handed_in u l b key content t0 s t \<longleftrightarrow>
     (let n = submissions_of u b s in
       (n = 0 \<or> ac_resubmit content) \<and>
       (\<exists>a. ld_submissions t = ld_submissions s @ [a] \<and> sm_learner a = u \<and> sm_block a = b \<and> sm_path a = key \<and> sm_number a = n + 1 \<and>
          sm_status a = (if n = 0 then SubSubmitted else SubResubmitted) \<and>
          (sm_due a = DueLate \<longleftrightarrow> (\<exists>d. ac_due content = Some d \<and> d < t0))) \<and>
       (\<exists>p \<in> set (ld_progress t). lp_learner p = u \<and> lp_lesson p = l \<and> lp_completed p \<noteq> None))"

lemma submit_assignment_run:
  assumes "SubmitAssignment env ac c l b (Some key) s = (Inr r, t)" "a_session (ld_adb s) = Some (ac_user ac)" "le_event env"
  shows "\<not> a_aborted (ld_adb t) \<and> (\<exists>blk content. blk \<in> set (a_blocks (ld_adb s)) \<and> bk_id blk = b \<and> bk_type blk = AssignmentBlock \<and>
    bk_lesson blk = l \<and> AssignmentBlockContent (bk_content blk) = Inr content \<and>
    le_head env key = Some True \<and> handed_in (ac_user ac) l b key content (now s) s t)"
proof -
  let ?u = "ac_user ac"
  have key: "key \<noteq> []" using assms(1) by (auto simp: SubmitAssignment_def)
  obtain l' :: lesson and blk :: block and content :: assignment_content and n a s1 p s2 where
      l: "ls_id l' = l" and blk: "blk \<in> set (a_blocks (ld_adb s))" "bk_id blk = b" "bk_type blk = AssignmentBlock" "bk_lesson blk = l"
        "AssignmentBlockContent (bk_content blk) = Inr content"
    and n: "n = submissions_of ?u b s" "n \<le> 0 \<or> ac_resubmit content" "le_head env key = Some True"
    and a: "SubmissionRepo_Create (c_org c) ?u b (n + 1) key (if 0 < n then SubResubmitted else SubSubmitted)
        (computeDueDateStatus (now s) (ac_due content)) s = Inr (a, s1)"
    and p: "ProgressRepo_MarkComplete (c_org c) ?u (ls_id l') (c_id c) s1 = Inr (p, s2)"
    and e: "evaluateAndIssueCertificateIfComplete env (c_id c) ?u s2 = (Inr (), t)"
    using assms(1) unfolding SubmitAssignment_def assignmentBlockInLesson_def option.case
    by (auto simp: key h_bind_Inr lsql_run(1) Let_def split: prod.splits
        dest!: lesson_run block_run count_run(2)[OF _ assms(2)] intro!: that)
  have n0: "0 \<le> n" by (simp add: n submissions_of_def)
  have s1: "ld_adb s1 = ld_adb s" "ld_submissions s1 = ld_submissions s @ [a]"
      and ax: "sm_learner a = ?u" "sm_block a = b" "sm_path a = key" "sm_number a = n + 1"
        "sm_status a = (if 0 < n then SubResubmitted else SubSubmitted)" "sm_due a = computeDueDateStatus (now s) (ac_due content)"
    using a by (auto simp: SubmissionRepo_Create_def Let_def split: if_splits)
  obtain ps where s2: "s2 = s1\<lparr>ld_progress := ps\<rparr>"
    and done': "\<exists>p \<in> set ps. lp_learner p = ?u \<and> lp_lesson p = l \<and> lp_completed p \<noteq> None"
    using marked_complete[OF p] l by blast
  have t: "\<not> a_aborted (ld_adb t)" using certify_run[OF e] assms(2,3) s1 by (auto simp: s2)
  have "ld_submissions t = ld_submissions s @ [a]" "ld_progress t = ps"
    using certify_keeps_work[OF e] s1 by (simp_all add: s2)
  then have "handed_in ?u l b key content (now s) s t"
    unfolding handed_in_def Let_def using ax done' n n0 by (auto simp: computeDueDateStatus_def split: option.splits)
  then show ?thesis using t blk n by blast
qed

text \<open>
  An assignment answered with 201 adds exactly one submission, of an object that is in
  storage, with the next number and late only if the due date is past; a second one only where
  resubmission is allowed; and it completes the lesson.
\<close>

theorem assignment_handed_in:
  assumes "lserve (ac_user ac) (learn_request_handler env ac (LrLearn i (LSubmit l b (Some key)))) s = (r, s')"
    and "http_status r = 201" and "le_event env"
  shows "\<exists>blk \<in> set (a_blocks (ld_adb s)). \<exists>content. bk_id blk = b \<and> bk_type blk = AssignmentBlock \<and> bk_lesson blk = l \<and>
    AssignmentBlockContent (bk_content blk) = Inr content \<and> le_head env key = Some True \<and>
    handed_in (ac_user ac) l b key content (now s) s s'"
proof -
  let ?u = "ac_user ac"
  obtain c and oc :: org_ctx and t where h: "SubmitAssignment env ac c l b (Some key) (open_tx ?u s\<lparr>ld_role := oc_role oc\<rparr>) = (Inr r, t)"
      and s': "s' = (if a_aborted (ld_adb t) then s else close_tx t)"
    by (rule learner_request_run[OF assms(1)]) (auto simp: learner_handler_def assms(2))
  have "handed_in ?u l b key content (now s) s (close_tx t)"
    if "handed_in ?u l b key content (now s) (open_tx ?u s\<lparr>ld_role := oc_role oc\<rparr>) t" for content
    using that by (simp add: handed_in_def submissions_of_def)
  then show ?thesis using submit_assignment_run[OF h _ assms(3)] s' by fastforce
qed

section \<open>Enrolling\<close>

definition prerequisites_of :: "uuid \<Rightarrow> uuid \<Rightarrow> ldb \<Rightarrow> uuid list" where
  "prerequisites_of o' c s = map pq_needs (filter (\<lambda>q. pq_course q = c) (ld_prereqs s))"

lemma own_certificate:
  "a_session (ld_adb s) = Some u \<Longrightarrow> CertificateRepo_GetByLearnerAndCourse u c s =
     (case find (\<lambda>x. ct_learner x = u \<and> ct_course x = c) (ld_certs s) of None \<Rightarrow> Inl ErrNotFound | Some x \<Rightarrow> Inr (x, s))"
proof -
  assume "a_session (ld_adb s) = Some u"
  then have "(\<lambda>x. own_or_staff s (ct_learner x) (ct_org x) \<and> ct_learner x = u \<and> ct_course x = c) = (\<lambda>x. ct_learner x = u \<and> ct_course x = c)"
    by (auto simp: own_or_staff_def)
  then show ?thesis unfolding CertificateRepo_GetByLearnerAndCourse_def tab_select1_def by (rule ssubst) (rule refl)
qed

lemma not_certified: "find (\<lambda>x. ct_learner x = u \<and> ct_course x = c) (ld_certs s) = None \<longleftrightarrow> \<not> certified c u s"
  by (auto simp: find_None_iff certified_def)

lemma prerequisites_run:
  assumes "a_session (ld_adb s) = Some u" "\<not> a_aborted (ld_adb s)"
  shows "incomplete_prerequisites u cs s = (Inr (filter (\<lambda>c. \<not> certified c u s) cs), s)"
proof (induction cs)
  case (Cons c cs)
  then show ?case
    using assms not_certified[of u c s]
    by (auto simp: h_bind_def lsql_attempt_def own_certificate h_return_def abort_harmless aborts_def split: option.splits)
qed (simp add: h_return_def)

text \<open>A member may enrol in a published course that nothing stands before.\<close>

definition may_enrol :: "uuid \<Rightarrow> course \<Rightarrow> ldb \<Rightarrow> bool" where
  "may_enrol u c s \<longleftrightarrow> c \<in> set (a_courses (ld_adb s)) \<and> (\<forall>d \<in> set (a_courses (ld_adb s)). c_id d = c_id c \<longrightarrow> d = c) \<and>
     is_org_member (ld_adb s) u (c_org c) \<and> c_status c = CPublished \<and>
     (\<forall>a \<in> set (accesses (ld_shop s)). \<not> (acc_learner a = u \<and> acc_course a = c_id c)) \<and>
     (\<forall>q \<in> set (ld_prereqs s). pq_course q = c_id c \<longrightarrow> certified (pq_needs q) u s)"

lemma member_resolves:
  assumes "c \<in> set (a_courses s)" "\<forall>d \<in> set (a_courses s). c_id d = c_id c \<longrightarrow> d = c" "is_org_member s (ac_user ac) (c_org c)"
    and "a_session s = Some (ac_user ac)" "\<not> a_aborted s"
  obtains oc where "ResolveCourseOrg ac (c_id c) s = (Inr (c, oc), s)"
proof -
  have "sees_course s c" using assms by (simp add: sees_course_def sees_def)
  then have "find (\<lambda>d. sees_course s d \<and> c_id d = c_id c) (a_courses s) = Some c"
  proof -
    assume "sees_course s c"
    then obtain d where d: "find (\<lambda>d. sees_course s d \<and> c_id d = c_id c) (a_courses s) = Some d"
      using assms(1) by (metis (mono_tags, lifting) find_None_iff not_None_eq)
    then have "d = c" using assms(2) by (auto dest!: find_SomeD)
    then show ?thesis using d by simp
  qed
  then have get: "ACourseRepo_Get (c_id c) s = Inr (c, s)" by (simp add: ACourseRepo_Get_def tab_select1_def)
  obtain role where "MembershipRepo_GetRole (ac_user ac) (c_org c) s = Inr (role, s)"
  proof (cases "find (\<lambda>m. sees_membership s m \<and> mb_user m = ac_user ac \<and> mb_org m = c_org c) (a_members s)")
    case None
    then show ?thesis using assms(3,4) by (fastforce simp: find_None_iff is_org_member_def sees_membership_def sees_def)
  qed (use that in \<open>simp add: MembershipRepo_GetRole_def\<close>)
  then have "caller_role ac (c_org c) s = (Inr (Some role), s)"
    using assms(5) by (simp add: caller_role_def h_bind_def sql_attempt_def h_return_def)
  then have "ResolveCourseOrg ac (c_id c) s = (Inr (c, \<lparr>oc_org = c_org c, oc_slug = [], oc_role = Some role, oc_platform = False\<rparr>), s)"
    using get assms(5) by (simp add: ResolveCourseOrg_def stampOrgContext_def h_bind_def sql_def sql_attempt_def h_return_def)
  then show ?thesis by (rule that)
qed

lemma enrol_run:
  assumes "may_enrol (ac_user ac) c s" "a_session (ld_adb s) = Some (ac_user ac)" "\<not> a_aborted (ld_adb s)"
  obtains a t where "EnrollCourse env ac c s = (Inr (Resp 201 (learnerCourseAccessResponse a)), t)"
    "accesses (ld_shop t) = accesses (ld_shop s) @ [a]" "acc_learner a = ac_user ac" "acc_course a = c_id c" "acc_org a = c_org c"
    "acc_status a = AccActive" "acc_entitlement a = None" "acc_id a = next_id (ld_shop s)" "acc_enrolled a = clock (ld_shop s)"
    "a_aborted (ld_adb t) \<longleftrightarrow> \<not> le_event env"
proof -
  let ?u = "ac_user ac"
  have none: "LAccess_Get ?u (c_id c) s = Inl ErrNotFound"
  proof -
    have "find (\<lambda>a. (own_or_staff s (acc_learner a) (acc_org a) \<or> app_is_platform_owner (ld_adb s)) \<and> acc_learner a = ?u \<and>
        acc_course a = c_id c) (accesses (ld_shop s)) = None"
      using assms(1) by (auto simp: find_None_iff may_enrol_def)
    then show ?thesis by (simp add: LAccess_Get_def)
  qed
  let ?ids = "map pq_needs (filter (\<lambda>q. sees (ld_adb s) (pq_org q) \<and> pq_course q = c_id c) (ld_prereqs s))"
  have list: "PrerequisiteRepo_ListForCourse (c_id c) s = Inr (?ids, s)" by (simp add: PrerequisiteRepo_ListForCourse_def)
  have "filter (\<lambda>c. \<not> certified c ?u s) ?ids = []" using assms(1) by (auto simp: filter_empty_conv may_enrol_def)
  then have pre: "incomplete_prerequisites ?u ?ids s = (Inr [], s)" using prerequisites_run[OF assms(2,3)] by simp
  let ?a = "\<lparr>acc_id = next_id (ld_shop s), acc_org = c_org c, acc_learner = ?u, acc_course = c_id c, acc_entitlement = None,
     acc_enrolled = clock (ld_shop s), acc_status = AccActive\<rparr>"
  let ?s = "s\<lparr>ld_shop := (ld_shop s)\<lparr>accesses := accesses (ld_shop s) @ [?a], next_id := Suc (next_id (ld_shop s))\<rparr>\<rparr>"
  have new: "LAccess_Create (c_org c) ?u (c_id c) s = Inr (?a, ?s)"
    using assms by (auto simp: LAccess_Create_def own_member_def may_enrol_def on_shop_def LearnerCourseAccessRepo_Create_def
        tab_insert_def Let_def)
  obtain t where ev: "lsql_ignore (record_event env (c_org c) ''enrollment'' ?u (c_id c)) ?s = (Inr (), t)"
    and t: "accesses (ld_shop t) = accesses (ld_shop ?s)" "a_aborted (ld_adb t) \<longleftrightarrow> \<not> le_event env"
  proof -
    have "sees (ld_adb ?s) (c_org c)" using assms(1,2) by (simp add: sees_def may_enrol_def)
    then show ?thesis
      using assms(3)
      by (intro that[of "snd (lsql_ignore (record_event env (c_org c) ''enrollment'' ?u (c_id c)) ?s)"]; cases "le_event env")
        (simp_all add: lsql_ignore_def h_bind_def lsql_attempt_def record_event_def on_shop_def AnalyticsEventRepo_Record_def
          h_return_def aborts_def tx_throw_def tx_modify_def)
  qed
  have "EnrollCourse env ac c s = (Inr (Resp 201 (learnerCourseAccessResponse ?a)), t)"
    using assms(1,3) none list pre new ev
    by (simp add: EnrollCourse_def may_enrol_def h_bind_def lsql_attempt_def lsql_def h_return_def h_guard_def abort_harmless aborts_def)
  then show thesis by (rule that) (simp_all add: t)
qed

lemma enrol_request:
  assumes "may_enrol (ac_user ac) c s" "lserve (ac_user ac) (learn_request_handler env ac (LrEnroll (c_id c))) s = (r, s')"
  obtains a t where "r = Resp 201 (learnerCourseAccessResponse a)" "s' = (if le_event env then close_tx t else s)"
    "accesses (ld_shop t) = accesses (ld_shop s) @ [a]" "acc_learner a = ac_user ac" "acc_course a = c_id c"
    "acc_status a = AccActive" "acc_entitlement a = None" "acc_id a = next_id (ld_shop s)" "acc_enrolled a = clock (ld_shop s)"
    "acc_org a = c_org c"
proof -
  let ?u = "ac_user ac"
  have "c \<in> set (a_courses (stamp ?u (ld_adb s)))" "\<forall>d \<in> set (a_courses (stamp ?u (ld_adb s))). c_id d = c_id c \<longrightarrow> d = c"
      "is_org_member (stamp ?u (ld_adb s)) ?u (c_org c)"
    using assms(1) by (auto simp: may_enrol_def is_org_member_def)
  then obtain oc where res: "ResolveCourseOrg ac (c_id c) (stamp ?u (ld_adb s)) = (Inr (c, oc), stamp ?u (ld_adb s))"
    by (rule member_resolves) simp_all
  let ?s = "open_tx ?u s\<lparr>ld_role := oc_role oc\<rparr>"
  have "may_enrol ?u c ?s" using assms(1) by (simp add: may_enrol_def is_org_member_def certified_def)
  then obtain a t where run: "EnrollCourse env ac c ?s = (Inr (Resp 201 (learnerCourseAccessResponse a)), t)"
    and t: "accesses (ld_shop t) = accesses (ld_shop s) @ [a]" "acc_learner a = ?u" "acc_course a = c_id c"
      "acc_status a = AccActive" "acc_entitlement a = None" "acc_id a = next_id (ld_shop s)" "acc_enrolled a = clock (ld_shop s)"
      "acc_org a = c_org c" "a_aborted (ld_adb t) \<longleftrightarrow> \<not> le_event env"
    by (rule enrol_run[where env = env]) simp_all
  have "run_handler (learn_request_handler env ac (LrEnroll (c_id c))) (open_tx ?u s) = (Resp 201 (learnerCourseAccessResponse a), t)"
    using res run by (simp add: learn_request_handler_def course_request_def h_bind_def in_adb_def set_role_def run_handler_def)
  then have "r = Resp 201 (learnerCourseAccessResponse a)" "s' = (if le_event env then close_tx t else s)"
    using assms(2) t(9) by (auto simp: lserve_def)
  then show thesis using t by (intro that)
qed

text \<open>
  A member who may enrol and whose analytics event is stored gets 201 and exactly one new
  access row, active and with no entitlement behind it; no order, payment or entitlement is
  needed or made, whatever offers the course has.
\<close>

theorem enrolling_is_free:
  assumes "may_enrol (ac_user ac) c s" and "le_event env"
    and "lserve (ac_user ac) (learn_request_handler env ac (LrEnroll (c_id c))) s = (r, s')"
  shows "http_status r = 201 \<and> (\<exists>a. accesses (ld_shop s') = accesses (ld_shop s) @ [a] \<and> acc_learner a = ac_user ac \<and>
    acc_course a = c_id c \<and> acc_status a = AccActive \<and> acc_entitlement a = None)"
  using assms(2) by (rule_tac enrol_request[OF assms(1,3)]) auto

text \<open>
  C27: As the column types of the analytics table make PostgreSQL refuse the event, the request
  of a member who may enrol answers 201 with the row of an active access to the course, under
  the id the insert had drawn, and stores nothing.
\<close>

theorem enrolment_is_lost:
  assumes "may_enrol (ac_user ac) c s" and "\<not> le_event env"
    and "lserve (ac_user ac) (learn_request_handler env ac (LrEnroll (c_id c))) s = (r, s')"
  shows "r = Resp 201 (JObj [(''id'', JInt (int (next_id (ld_shop s)))), (''org_id'', JInt (int (c_org c))),
      (''learner_id'', JInt (int (ac_user ac))), (''course_id'', JInt (int (c_id c))), (''entitlement_id'', JNull),
      (''enrolled_at'', JInt (clock (ld_shop s))), (''access_status'', JStr ''active'')]) \<and> s' = s"
  by (rule enrol_request[OF assms(1,3)]) (simp add: assms(2) learnerCourseAccessResponse_def j_opt_def)

section \<open>What a quiz does not reveal\<close>

text \<open>A computation is blind to a change \<open>v\<close> of the state when it answers the same and lets the
  change stand.\<close>

definition tx_blind :: "('s \<Rightarrow> 's) \<Rightarrow> ('s, 'a) tx \<Rightarrow> bool" where
  "tx_blind v m \<longleftrightarrow> (\<forall>s. m (v s) = (case m s of Inl e \<Rightarrow> Inl e | Inr (x, t) \<Rightarrow> Inr (x, v t)))"

definition h_blind :: "('s \<Rightarrow> 's) \<Rightarrow> ('r, 's, 'a) hm \<Rightarrow> bool" where
  "h_blind v m \<longleftrightarrow> (\<forall>s. m (v s) = (fst (m s), v (snd (m s))))"

lemma h_blindD: "h_blind v m \<Longrightarrow> m s = (y, t) \<Longrightarrow> m (v s) = (y, v t)"
  by (simp add: h_blind_def)

lemma blind_bind: "h_blind v m \<Longrightarrow> (\<And>x. h_blind v (f x)) \<Longrightarrow> h_blind v (h_bind m f)"
  by (auto simp: h_blind_def h_bind_def split: prod.splits sum.splits)

lemma blind_cases:
  "h_blind v (h_return x)" "h_blind v (h_respond r)" "h_blind v (h_guard b r)"
  "h_blind v m \<Longrightarrow> h_blind v n \<Longrightarrow> h_blind v (if c then m else n)"
  "h_blind v m \<Longrightarrow> (\<And>z. h_blind v (g z)) \<Longrightarrow> h_blind v (case o' of None \<Rightarrow> m | Some z \<Rightarrow> g z)"
  "(\<And>e. h_blind v (k e)) \<Longrightarrow> (\<And>z. h_blind v (g' z)) \<Longrightarrow> h_blind v (case w of Inl e \<Rightarrow> k e | Inr z \<Rightarrow> g' z)"
  "(\<And>a b. h_blind v (h a b)) \<Longrightarrow> h_blind v (case p of (a, b) \<Rightarrow> h a b)"
  by (auto simp: h_blind_def h_return_def h_respond_def h_guard_def split: option.splits sum.splits prod.splits)

text \<open>New contents for the blocks.\<close>

definition recontent :: "(block \<Rightarrow> json) \<Rightarrow> adb \<Rightarrow> adb" where
  "recontent f s = s\<lparr>a_blocks := map (\<lambda>b. b\<lparr>bk_content := f b\<rparr>) (a_blocks s)\<rparr>"

definition with_contents :: "(block \<Rightarrow> json) \<Rightarrow> ldb \<Rightarrow> ldb" where
  "with_contents f s = s\<lparr>ld_adb := recontent f (ld_adb s)\<rparr>"

lemma recontent_simps [simp]:
  "a_session (recontent f s) = a_session s" "a_aborted (recontent f s) = a_aborted s" "a_members (recontent f s) = a_members s"
  "a_courses (recontent f s) = a_courses s" "a_profiles (recontent f s) = a_profiles s" "a_lessons (recontent f s) = a_lessons s"
  "recontent f s\<lparr>a_aborted := x\<rparr> = recontent f (s\<lparr>a_aborted := x\<rparr>)"
  "sees (recontent f s) o' = sees s o'" "app_is_platform_owner (recontent f s) = app_is_platform_owner s"
  "is_org_member (recontent f s) u o' = is_org_member s u o'"
  by (simp_all add: recontent_def sees_def is_org_member_def app_is_platform_owner_def cong: option.case_cong)

lemma with_contents_simps [simp]:
  "ld_adb (with_contents f s) = recontent f (ld_adb s)" "ld_role (with_contents f s) = ld_role s" "ld_attempts (with_contents f s) = ld_attempts s"
  "ld_scores (with_contents f s) = ld_scores s" "ld_shop (with_contents f s) = ld_shop s"
  "own_or_staff (with_contents f s) l o' = own_or_staff s l o'" "abort e (with_contents f s) = with_contents f (abort e s)"
  by (simp_all add: with_contents_def own_or_staff_def abort_def cong: option.case_cong)

lemma blind_sql: "tx_blind (recontent f) m \<Longrightarrow> h_blind (recontent f) (sql_attempt m)" "tx_blind (recontent f) m \<Longrightarrow> h_blind (recontent f) (sql m g)"
  by (auto simp: tx_blind_def h_blind_def sql_attempt_def sql_eq split: sum.splits prod.splits)

lemma blind_lsql:
  "tx_blind (with_contents f) m \<Longrightarrow> h_blind (with_contents f) (lsql_attempt m)"
  "tx_blind (with_contents f) m \<Longrightarrow> h_blind (with_contents f) (lsql m g)"
proof -
  show "tx_blind (with_contents f) m \<Longrightarrow> h_blind (with_contents f) (lsql_attempt m)"
    by (auto simp: tx_blind_def h_blind_def lsql_attempt_def split: sum.splits prod.splits)
  then show "tx_blind (with_contents f) m \<Longrightarrow> h_blind (with_contents f) (lsql m g)"
    unfolding lsql_def by (intro blind_bind blind_cases)
qed

lemma blind_in_adb: "h_blind (recontent f) m \<Longrightarrow> h_blind (with_contents f) (in_adb m)"
  by (auto simp: h_blind_def in_adb_def Let_def with_contents_def split: prod.splits)

lemma blind_reads:
  "tx_blind (recontent f) (ACourseRepo_Get i)" "tx_blind (recontent f) (MembershipRepo_GetRole u o')"
  "tx_blind (recontent f) (ProfileRepo_GetByID i)" "tx_blind (recontent f) (LessonRepo_Get i)"
  by (auto simp: tx_blind_def ACourseRepo_Get_def MembershipRepo_GetRole_def ProfileRepo_GetByID_def LessonRepo_Get_def
      a_select_def a_rows_def tab_select1_def sees_course_def sees_membership_def sees_profile_def
      cong: option.case_cong split: option.splits)

lemma blind_resolve: "h_blind (recontent f) (ResolveCourseOrg ac i)"
  unfolding ResolveCourseOrg_def stampOrgContext_def caller_role_def
  by (intro blind_bind blind_cases blind_sql blind_reads)

lemma blind_on_adb: "tx_blind (recontent f) m \<Longrightarrow> tx_blind (with_contents f) (on_adb m)"
  by (auto simp: tx_blind_def on_adb_def with_contents_def split: sum.splits prod.splits)

lemma blind_learner_reads:
  "tx_blind (with_contents f) (LAccess_Get l c)" "tx_blind (with_contents f) (AttemptRepo_CountByLearnerAndBlock l b)"
  "tx_blind (with_contents f) (ScoreRepo_GetBestScore l b)"
  by (auto simp: tx_blind_def LAccess_Get_def AttemptRepo_CountByLearnerAndBlock_def ScoreRepo_GetBestScore_def split: option.splits)

lemma blind_role: "h_blind (with_contents f) (set_role oc)"
  by (simp add: h_blind_def set_role_def with_contents_def)

lemma blind_gate: "h_blind (with_contents f) (RequireEntitlement ac c oc)"
  unfolding RequireEntitlement_def by (intro blind_bind blind_cases blind_lsql blind_learner_reads)

lemma blind_lesson: "h_blind (with_contents f) (lessonInCourse l c)"
  unfolding lessonInCourse_def by (intro blind_bind blind_cases blind_lsql blind_on_adb blind_reads)

text \<open>What a learner may see of a question.\<close>

definition public_question :: "quiz_question \<Rightarrow> string \<times> string \<times> string \<times> string list" where
  "public_question q = (qq_id q, qq_type q, qq_question q, qq_answers q)"

definition same_public :: "json \<Rightarrow> json \<Rightarrow> bool" where
  "same_public a b = (case (QuizBlockContent a, QuizBlockContent b) of
       (Inr qs, Inr qs') \<Rightarrow> map public_question qs = map public_question qs' | (Inl _, Inl _) \<Rightarrow> True | _ \<Rightarrow> False)"

lemma redacted_public: "map public_question qs = map public_question qs' \<Longrightarrow> redactQuizQuestions qs = redactQuizQuestions qs'"
proof (induction qs arbitrary: qs')
  case (Cons q qs)
  then obtain q' qr where "qs' = q' # qr" by (cases qs') auto
  then show ?case using Cons by (auto simp: redactQuizQuestions_def public_question_def)
qed (simp add: redactQuizQuestions_def)

lemma block_of_recontent:
  "BlockRepo_Get i (recontent f s) = (case BlockRepo_Get i s of Inl e \<Rightarrow> Inl e | Inr (b, t) \<Rightarrow> Inr (b\<lparr>bk_content := f b\<rparr>, recontent f t))"
proof -
  have "find (\<lambda>_. True) (filter (\<lambda>r. sees s (bk_org r) \<and> bk_id r = i) (map (\<lambda>b. b\<lparr>bk_content := f b\<rparr>) bs)) =
      map_option (\<lambda>b. b\<lparr>bk_content := f b\<rparr>) (find (\<lambda>_. True) (filter (\<lambda>r. sees s (bk_org r) \<and> bk_id r = i) bs))" for bs
    by (induction bs) auto
  then show ?thesis
    by (simp add: BlockRepo_Get_def a_select_def tab_select1_def a_rows_def split: option.split) (simp add: recontent_def)
qed

lemma get_block_recontent:
  "lsql (on_adb (BlockRepo_Get i)) e (with_contents f s) = (case lsql (on_adb (BlockRepo_Get i)) e s of
     (Inl r, t) \<Rightarrow> (Inl r, with_contents f t) | (Inr b, t) \<Rightarrow> (Inr (b\<lparr>bk_content := f b\<rparr>), with_contents f t))"
  by (auto simp: lsql_def h_bind_def lsql_attempt_def on_adb_def block_of_recontent h_return_def h_respond_def with_contents_def
      split: sum.splits prod.splits)

lemma blind_quiz_block:
  assumes f: "\<And>b. same_public (bk_content b) (f b)"
    and k: "\<And>b qs qs'. map public_question qs = map public_question qs' \<Longrightarrow> k (b\<lparr>bk_content := f b\<rparr>, qs') = k (b, qs)"
    and blind: "\<And>x. h_blind (with_contents f) (k x)"
  shows "h_blind (with_contents f) (h_bind (quizBlockInLesson i l) k)"
  unfolding h_blind_def
proof
  fix s
  let ?W = "with_contents f"
  obtain y t where g: "lsql (on_adb (BlockRepo_Get i)) (not_found_or_internal ''quiz not found'') s = (y, t)" by fastforce
  show "h_bind (quizBlockInLesson i l) k (?W s) = (fst (h_bind (quizBlockInLesson i l) k s), ?W (snd (h_bind (quizBlockInLesson i l) k s)))"
  proof (cases y)
    case (Inl r)
    then show ?thesis using g by (simp add: quizBlockInLesson_def block_in_lesson_def h_bind_def get_block_recontent)
  next
    case (Inr b)
    show ?thesis
    proof (cases "QuizBlockContent (bk_content b)")
      case (Inl e)
      then obtain e' where "QuizBlockContent (f b) = Inl e'" using f[of b] by (auto simp: same_public_def split: sum.splits)
      then show ?thesis using g Inr Inl
        by (simp add: quizBlockInLesson_def block_in_lesson_def h_bind_def get_block_recontent h_guard_def h_return_def h_respond_def
            internal_error_def)
    next
      case qs: (Inr qs)
      then obtain qs' where "QuizBlockContent (f b) = Inr qs'" and same: "map public_question qs = map public_question qs'"
        using f[of b] by (auto simp: same_public_def split: sum.splits)
      moreover have "k (b, qs) (?W t) = (fst (k (b, qs) t), ?W (snd (k (b, qs) t)))" using blind by (simp add: h_blind_def)
      ultimately show ?thesis using g Inr qs k[OF same]
        by (simp add: quizBlockInLesson_def block_in_lesson_def h_bind_def get_block_recontent h_guard_def h_return_def h_respond_def)
    qed
  qed
qed

lemma blind_quiz:
  assumes "\<And>b. same_public (bk_content b) (f b)"
  shows "h_blind (with_contents f) (GetQuiz ac c l b)"
  unfolding GetQuiz_def
proof (rule blind_bind[OF blind_lesson], rule blind_quiz_block[OF assms], goal_cases)
  case (1 u b qs qs')
  then show ?case by (simp add: redacted_public[OF 1])
next
  case (2 u x)
  then show ?case by (intro blind_bind blind_cases blind_lsql blind_learner_reads)
qed

text \<open>
  C25: What a learner is shown of a quiz does not depend on its answer key: when the contents of
  blocks are changed so that the questions keep their ids, types, texts and options, and only
  correct and accepted answers differ, the request for the quiz gets the same answer.
\<close>

theorem quiz_hides_answers:
  assumes "\<And>b. same_public (bk_content b) (f b)"
  shows "fst (lserve (ac_user ac) (learn_request_handler env ac (LrLearn i (LQuiz l b))) (with_contents f s)) =
    fst (lserve (ac_user ac) (learn_request_handler env ac (LrLearn i (LQuiz l b))) s)"
proof -
  let ?m = "learn_request_handler env ac (LrLearn i (LQuiz l b))" and ?W = "with_contents f"
  have "h_blind ?W ?m"
    unfolding learn_request_handler_def learn_request.case course_request_def learner_handler_def learner_action.case
    by (intro blind_bind blind_cases blind_in_adb blind_resolve blind_role blind_gate blind_quiz assms)
  moreover have "?W (open_tx u s) = open_tx u (?W s)" for u by (simp add: with_contents_def recontent_def)
  ultimately have "?m (open_tx (ac_user ac) (?W s)) = (fst (?m (open_tx (ac_user ac) s)), ?W (snd (?m (open_tx (ac_user ac) s))))"
    unfolding h_blind_def by metis
  then show ?thesis by (simp add: lserve_def run_handler_def Let_def split: prod.split sum.split)
qed

end
