(* ===== verification/TenancyInv.thy ===== *)
theory TenancyInv
  imports TenancyFacts
begin

text \<open>
  What every request of the tenancy domain keeps: nobody becomes an owner except through an owner
  or by founding an organization, memberships and slugs stay unique, invitations never offer
  ownership, and no content is touched except by deleting an organization or by the platform
  owner's takedown.
\<close>

lemma guarded_pres: "(b \<Longrightarrow> h_pres I m) \<Longrightarrow> h_pres I (h_bind (h_guard b r) (\<lambda>_. m))"
  by (cases b) (auto simp: h_post_def h_guard_def h_bind_def h_return_def h_respond_def)

definition leaves_content :: "tenancy_request \<Rightarrow> bool" where
  "leaves_content q = (case q of TrOrg slug ODelete \<Rightarrow> False | TrAdmin (AdTakedown i r) \<Rightarrow> False
     | TrAdmin (AdRestore i r) \<Rightarrow> False | _ \<Rightarrow> True)"

section \<open>Lifting over the handlers\<close>

text \<open>A property that the statements of the tenancy handlers keep is kept by the handlers.\<close>

locale tenancy_invariant = abort_safe I for I :: "adb \<Rightarrow> bool" +
  assumes keeps_audit: "tx_pres I (AAuditRepo_Record e)"
    and keeps_create: "tx_pres I (OrgRepo_Create name slug)"
    and keeps_org_update: "tx_pres I (OrgRepo_Update i name)"
    and keeps_role: "tx_pres I (MembershipRepo_UpdateRole u o' r)"
    and keeps_remove: "tx_pres I (MembershipRepo_Remove u o')"
    and keeps_invite: "r \<noteq> Owner \<Longrightarrow> tx_pres I (\<lambda>s. InvitationRepo_Create o' email r by token (a_clock s + invitationTTL) s)"
    and keeps_revoke: "tx_pres I (InvitationRepo_Revoke i)"
    and keeps_accept: "tx_pres I (InvitationRepo_Accept token)"
    and keeps_decline: "tx_pres I (InvitationRepo_Decline token)"
    and keeps_suspend: "tx_pres I (AdminOpsRepo_SetUserSuspended i b reason)"
    and keeps_active: "tx_pres I (AdminOpsRepo_SetOrgActive i b reason)"
begin

lemma keeps_reading: "(\<And>s0. h_pres (same_but_aborted s0) m) \<Longrightarrow> h_pres I m"
proof -
  assume r: "\<And>s0. h_pres (same_but_aborted s0) m"
  have "same_but_aborted s (snd (m s))" for s using h_presD[OF r same_but_aborted_refl] .
  then show ?thesis unfolding h_post_def same_but_aborted_def by (metis aborted)
qed

lemma keeps_gets: "tx_pres I (tx_gets f)"
  by (simp add: tx_post_def)

lemma keeps_quota: "tx_pres I (quota_load o')"
proof -
  have plan: "tx_pres I (PlanRepo_ResolveForOrg o')"
    by (auto simp: tx_post_def PlanRepo_ResolveForOrg_def PlanRepo_GetDefault_def tab_select1_Inr split: option.splits)
  show ?thesis
    unfolding quota_load_def QuotaRepo_CurrentUsage_def AIUsageRepo_GetForPeriod_def
    by (rule tx_pres_bind[OF plan]) (auto simp: tx_post_def tx_bind_Inr)
qed

lemma keeps_enforceQuota: "h_pres I (enforceQuota o' d)"
proof -
  have "tx_pres I (quota_check o' d n)" for n
    unfolding quota_check_def Let_def by (rule tx_pres_bind[OF keeps_quota]) (auto simp: tx_post_def)
  then show ?thesis
    unfolding enforceQuota_def by (intro h_pres_bind pres_sql) (auto simp: h_pres_guard)
qed

lemma keeps_report: "tx_pres I (quota_report o')"
  unfolding quota_report_def by (rule tx_pres_bind[OF keeps_quota]) (auto simp: tx_post_def)

lemmas keeps_calls = pres_sql pres_sql_ignore keeps_audit keeps_create keeps_org_update keeps_role keeps_remove
  keeps_invite keeps_revoke keeps_accept keeps_decline keeps_suspend keeps_active keeps_enforceQuota keeps_report
  select_reads keeps_gets h_pres_bind h_pres_guard h_pres_return h_pres_respond

lemma keeps_CreateOrg: "h_pres I (CreateOrg ac body)"
  unfolding CreateOrg_def Let_def by (cases body) (auto intro!: keeps_calls)

lemma keeps_org_handler: "a \<noteq> ODelete \<Longrightarrow> h_pres I (org_handler base ac oc a)"
proof (cases a)
  case (OInvite token body)
  have create: "h_pres I (CreateInvitation base ac oc token (Some req))" for req
    unfolding CreateInvitation_def Let_def
    by (cases "parse_role (ci_role req)")
      (simp_all only: option.case, intro keeps_calls, rule guarded_pres, intro keeps_calls)
  have "h_pres I (CreateInvitation base ac oc token body)"
    by (cases body) (simp add: CreateInvitation_def h_pres_respond, simp add: create)
  then show ?thesis by (simp add: OInvite org_handler_def)
qed (auto simp: org_handler_def GetOrg_def UpdateOrg_def ListMembers_def ChangeMemberRole_def RemoveMember_def
      ListInvitations_def RevokeInvitation_def OrgQuotaDashboard_def MembershipRepo_ListByOrg_def
      InvitationRepo_ListPendingByOrg_def intro!: keeps_calls split: option.split)

lemma keeps_org_route: "a \<noteq> ODelete \<Longrightarrow> h_pres I (org_route base ac slug a)"
  unfolding org_route_def RequireRole_def
  by (intro h_pres_bind keeps_reading ResolveOrg_reads h_pres_guard keeps_org_handler)

lemma keeps_answers: "h_pres I (AcceptInvitation ac token)" "h_pres I (DeclineInvitation ac token)"
  unfolding AcceptInvitation_def DeclineInvitation_def by (intro keeps_calls)+

lemma keeps_platform_guard: "h_pres I (RequirePlatformOwner ac)"
proof (rule keeps_reading)
  show "h_pres (same_but_aborted s0) (RequirePlatformOwner ac)" for s0
    unfolding RequirePlatformOwner_def
    by (intro h_pres_bind reads.pres_attempt select_reads h_pres_sum h_pres_respond h_pres_guard)
qed

lemma keeps_admin:
  "h_pres I (setUserSuspended ac b act u rs)" "h_pres I (setOrgActive ac b act slug rs)" "h_pres I (PlatformOrgQuota slug)"
  unfolding setUserSuspended_def setOrgActive_def PlatformOrgQuota_def by (intro keeps_calls)+

lemma keeps_quiet: "leaves_content q \<Longrightarrow> h_pres I (tenancy_handler base ac q)"
proof (cases q)
  case (TrOrg slug a)
  moreover assume "leaves_content q"
  ultimately show ?thesis by (auto simp: leaves_content_def tenancy_handler_def intro!: keeps_org_route split: org_action.splits)
next
  case (TrAdmin a)
  moreover assume "leaves_content q"
  ultimately have "h_pres I (admin_handler ac a)"
    by (cases a) (simp_all add: leaves_content_def admin_handler_def keeps_admin)
  then show ?thesis by (auto simp: TrAdmin tenancy_handler_def admin_route_def intro!: h_pres_bind keeps_platform_guard)
qed (simp_all add: tenancy_handler_def keeps_CreateOrg keeps_answers)

end

locale full_tenancy_invariant = tenancy_invariant I for I :: "adb \<Rightarrow> bool" +
  assumes keeps_delete: "tx_pres I (OrgRepo_Delete i)"
    and keeps_status: "tx_pres I (AdminOpsRepo_SetCourseStatus i st)"
begin

lemma keeps_all: "h_pres I (tenancy_handler base ac q)"
proof (cases "leaves_content q")
  case False
  have del: "h_pres I (DeleteOrg ac oc)" for oc
    unfolding DeleteOrg_def by (intro keeps_calls keeps_delete)
  have st: "h_pres I (setCourseStatus ac st act i rs)" for st act i rs
    unfolding setCourseStatus_def by (intro keeps_calls keeps_status)
  have "h_pres I (org_route base ac slug ODelete)" for slug
    unfolding org_route_def RequireRole_def org_handler_def
    by (simp, intro h_pres_bind keeps_reading ResolveOrg_reads h_pres_guard del)
  moreover have "h_pres I (admin_route ac a)" if "a = AdTakedown i r \<or> a = AdRestore i r" for a i r
    using that unfolding admin_route_def admin_handler_def
    by (auto intro!: h_pres_bind keeps_platform_guard st)
  ultimately show ?thesis using False
    by (auto simp: leaves_content_def tenancy_handler_def split: tenancy_request.splits org_action.splits admin_action.splits)
qed (rule keeps_quiet)

end

section \<open>Who becomes an owner\<close>

definition grants_only :: "uuid \<Rightarrow> adb \<Rightarrow> adb \<Rightarrow> bool" where
  "grants_only u s t \<longleftrightarrow> a_session t = Some u \<and> a_next s \<le> a_next t \<and>
     (\<forall>v o'. is_org_owner t v o' \<longrightarrow> is_org_owner s v o' \<or> is_org_owner s u o' \<or> a_next s \<le> o') \<and>
     (\<forall>v \<in> set (a_invites t). iv_role v \<noteq> Owner)"

text \<open>What a statement may do to memberships and invitations.\<close>

lemma grants_onlyI:
  assumes "grants_only u s t" "a_session t' = a_session t" "a_next t \<le> a_next t'"
    and "\<And>v o'. is_org_owner t' v o' \<Longrightarrow> is_org_owner t v o' \<or> is_org_owner t u o' \<or> a_next t \<le> o'"
    and "\<And>v. v \<in> set (a_invites t') \<Longrightarrow> iv_role v = Owner \<Longrightarrow> \<exists>w \<in> set (a_invites t). iv_role w = Owner"
  shows "grants_only u s t'"
  using assms unfolding grants_only_def by (metis order_trans)

lemma grants_only_frame:
  "grants_only u s t \<Longrightarrow> a_session t' = a_session t \<Longrightarrow> a_next t' = a_next t \<Longrightarrow> a_members t' = a_members t \<Longrightarrow>
    a_invites t' = a_invites t \<Longrightarrow> grants_only u s t'"
  by (auto simp: grants_only_def is_org_owner_def)

lemma owner_update:
  "is_org_owner (put_members (map (\<lambda>m. if owns t (mb_org m) \<and> Q m then m\<lparr>mb_role := r\<rparr> else m) (a_members t)) t) v o' \<Longrightarrow>
    a_session t = Some u \<Longrightarrow> is_org_owner t v o' \<or> is_org_owner t u o'"
  by (fastforce simp: is_org_owner_def owns_def split: if_splits)

lemma put_membership_run:
  assumes "put_membership u o' r s = (m, t)"
  shows "a_session t = a_session s" "a_next s \<le> a_next t" "a_invites t = a_invites s"
    "mb_user m = u" "mb_org m = o'" "mb_role m = r"
    "r \<noteq> Owner \<Longrightarrow> is_org_owner t v g \<Longrightarrow> is_org_owner s v g"
  using assms by (auto simp: put_membership_def Let_def is_org_owner_def split: option.splits if_splits dest!: find_SomeD)

lemma usable_invitation_Inr: "usable_invitation token s = Inr (u, v) \<longleftrightarrow> a_session s = Some u \<and>
    find (\<lambda>v. iv_token v = token \<and> iv_status v = InvPending \<and> a_clock s < iv_expires v) (a_invites s) = Some v \<and>
    (\<exists>p. find (\<lambda>p. pf_id p = u) (a_profiles s) = Some p \<and> map lower_char (iv_email v) = map lower_char (pf_email p))"
  by (auto simp: usable_invitation_def split: option.splits if_splits)

interpretation grants: full_tenancy_invariant "grants_only u0 s0" for u0 s0
proof
  fix s b assume "grants_only u0 s0 s"
  then show "grants_only u0 s0 (s\<lparr>a_aborted := b\<rparr>)" by (rule grants_only_frame) simp_all
next
  fix e show "tx_pres (grants_only u0 s0) (AAuditRepo_Record e)"
    by (auto simp: tx_post_def AAuditRepo_Record_def elim!: grants_only_frame split: if_splits)
next
  fix name slug show "tx_pres (grants_only u0 s0) (OrgRepo_Create name slug)"
    by (rule tx_postI, erule grants_onlyI)
      (auto simp: OrgRepo_Create_def Let_def is_org_owner_def grants_only_def split: option.splits if_splits)
next
  fix i name show "tx_pres (grants_only u0 s0) (OrgRepo_Update i name)"
    by (auto simp: tx_post_def OrgRepo_Update_def tab_update_Inr elim!: grants_only_frame)
next
  fix u o' r show "tx_pres (grants_only u0 s0) (MembershipRepo_UpdateRole u o' r)"
  proof (rule tx_postI)
    fix s x s' assume g: "grants_only u0 s0 s" and "MembershipRepo_UpdateRole u o' r s = Inr (x, s')"
    then have s': "s' = put_members (map (\<lambda>m. if owns s (mb_org m) \<and> mb_user m = u \<and> mb_org m = o' then m\<lparr>mb_role := r\<rparr> else m)
        (a_members s)) s"
      by (auto simp: MembershipRepo_UpdateRole_def tx_bind_Inr tab_update_Inr)
    from g have "a_session s = Some u0" by (simp add: grants_only_def)
    then have "is_org_owner s v g \<or> is_org_owner s u0 g" if "is_org_owner s' v g" for v g
      using owner_update[of s "\<lambda>m. mb_user m = u \<and> mb_org m = o'" r v g u0] that s' by simp
    then show "grants_only u0 s0 s'" using g
      by (intro grants_onlyI[OF g]) (auto simp: s' grants_only_def)
  qed
next
  fix u o' show "tx_pres (grants_only u0 s0) (MembershipRepo_Remove u o')"
    by (rule tx_postI, erule grants_onlyI)
      (auto simp: MembershipRepo_Remove_def Let_def is_org_owner_def grants_only_def split: if_splits)
next
  fix r :: role and o' :: uuid and email :: string and who :: uuid and token :: string assume "r \<noteq> Owner"
  then show "tx_pres (grants_only u0 s0) (\<lambda>s. InvitationRepo_Create o' email r who token (a_clock s + invitationTTL) s)"
    by (intro tx_postI, elim grants_onlyI)
      (auto simp: InvitationRepo_Create_def Let_def is_org_owner_def grants_only_def split: if_splits)
next
  fix i show "tx_pres (grants_only u0 s0) (InvitationRepo_Revoke i)"
    by (rule tx_postI, erule grants_onlyI)
      (auto simp: InvitationRepo_Revoke_def Let_def is_org_owner_def grants_only_def split: if_splits)
next
  fix token show "tx_pres (grants_only u0 s0) (InvitationRepo_Accept token)"
  proof (rule tx_postI)
    fix s x s' assume g: "grants_only u0 s0 s" and "InvitationRepo_Accept token s = Inr (x, s')"
    then obtain u v m t where v: "usable_invitation token s = Inr (u, v)"
      and p: "put_membership u (iv_org v) (iv_role v) s = (m, t)" and s': "s' = set_invitation (iv_id v) InvAccepted t"
      by (auto simp: InvitationRepo_Accept_def split: sum.splits prod.splits)
    have "iv_role v \<noteq> Owner" using v g by (auto simp: usable_invitation_Inr grants_only_def dest!: find_SomeD)
    then show "grants_only u0 s0 s'"
      using put_membership_run[OF p] g
      by (intro grants_onlyI[OF g]) (auto simp: s' set_invitation_def is_org_owner_def grants_only_def)
  qed
next
  fix token show "tx_pres (grants_only u0 s0) (InvitationRepo_Decline token)"
    by (rule tx_postI, erule grants_onlyI)
      (fastforce simp: InvitationRepo_Decline_def set_invitation_def is_org_owner_def split: sum.splits)+
next
  fix i b reason show "tx_pres (grants_only u0 s0) (AdminOpsRepo_SetUserSuspended i b reason)"
    by (auto simp: tx_post_def AdminOpsRepo_SetUserSuspended_def tx_bind_Inr tab_update_Inr elim!: grants_only_frame split: if_splits)
next
  fix i b reason show "tx_pres (grants_only u0 s0) (AdminOpsRepo_SetOrgActive i b reason)"
    by (auto simp: tx_post_def AdminOpsRepo_SetOrgActive_def tx_bind_Inr tab_update_Inr elim!: grants_only_frame split: if_splits)
next
  fix i show "tx_pres (grants_only u0 s0) (OrgRepo_Delete i)"
    by (rule tx_postI, erule grants_onlyI)
      (auto simp: OrgRepo_Delete_def drop_org_def drop_courses_def drop_chapters_def drop_lessons_def drop_blocks_def Let_def
        is_org_owner_def grants_only_def split: if_splits)
next
  fix i st show "tx_pres (grants_only u0 s0) (AdminOpsRepo_SetCourseStatus i st)"
    by (auto simp: tx_post_def AdminOpsRepo_SetCourseStatus_def tx_bind_Inr tab_update_Inr elim!: grants_only_frame split: if_splits)
qed

text \<open>
  C13: Whatever request of the organization, invitation and platform routes is served, somebody
  becomes owner of an existing organization only when the caller of that request was an owner of
  it before. No stored invitation offers the owner role, and the id of an organization made by
  the request is new.
\<close>

theorem owners_made_by_owners:
  assumes "serve u (tenancy_handler base ac q) s = (r, s')"
    and "\<forall>v \<in> set (a_invites s). iv_role v \<noteq> Owner"
    and "is_org_owner s' v g" "\<not> is_org_owner s v g"
  shows "is_org_owner s u g \<or> a_next s \<le> g"
proof -
  have "grants_only u s (stamp u s)" using assms(2) by (auto simp: grants_only_def is_org_owner_def)
  then show ?thesis
  proof (rule grants.serve_keeps[OF grants.keeps_all[of _ _ base ac q]])
    assume "snd (serve u (tenancy_handler base ac q) s) = s"
    then show ?thesis using assms by simp
  next
    fix t assume "grants_only u s t" "snd (serve u (tenancy_handler base ac q) s) = unstamp t"
    moreover have "is_org_owner s' v g = is_org_owner t v g"
      using assms(1) calculation(2) by (simp add: is_org_owner_def)
    ultimately show ?thesis using assms(3,4) unfolding grants_only_def by blast
  qed
qed

section \<open>The tables of the tenancy\<close>

definition tenancy_ok :: "adb \<Rightarrow> bool" where
  "tenancy_ok s \<longleftrightarrow> distinct (map (\<lambda>m. (mb_user m, mb_org m)) (a_members s)) \<and>
     distinct (map og_slug (a_orgs s)) \<and> distinct (map og_id (a_orgs s)) \<and>
     (\<forall>i \<in> og_id ` set (a_orgs s). i < a_next s) \<and>
     (\<forall>m \<in> set (a_members s). mb_org m \<in> og_id ` set (a_orgs s)) \<and>
     distinct (map iv_token (a_invites s)) \<and>
     (\<forall>v \<in> set (a_invites s). iv_role v \<noteq> Owner \<and> iv_org v \<in> og_id ` set (a_orgs s))"

lemma tenancy_ok_frame:
  assumes "tenancy_ok s" "a_members t = a_members s" "map og_slug (a_orgs t) = map og_slug (a_orgs s)"
    "map og_id (a_orgs t) = map og_id (a_orgs s)" "a_next s \<le> a_next t"
    "map iv_token (a_invites t) = map iv_token (a_invites s)" "map iv_role (a_invites t) = map iv_role (a_invites s)"
    "map iv_org (a_invites t) = map iv_org (a_invites s)"
  shows "tenancy_ok t"
proof -
  have ids: "og_id ` set (a_orgs t) = og_id ` set (a_orgs s)" using assms(4) by (metis set_map)
  have roles: "iv_role ` set (a_invites t) = iv_role ` set (a_invites s)" using assms(7) by (metis set_map)
  have orgs: "iv_org ` set (a_invites t) = iv_org ` set (a_invites s)" using assms(8) by (metis set_map)
  have role: "iv_role v \<noteq> Owner" if "v \<in> set (a_invites t)" for v
  proof -
    have "iv_role v \<in> iv_role ` set (a_invites s)" using that roles by auto
    then show ?thesis using assms(1) by (auto simp: tenancy_ok_def)
  qed
  have org: "iv_org v \<in> og_id ` set (a_orgs s)" if "v \<in> set (a_invites t)" for v
  proof -
    have "iv_org v \<in> iv_org ` set (a_invites s)" using that orgs by auto
    then show ?thesis using assms(1) by (auto simp: tenancy_ok_def)
  qed
  have next': "\<forall>i \<in> og_id ` set (a_orgs s). i < a_next t"
    using assms(1,5) unfolding tenancy_ok_def by (meson order_less_le_trans)
  show ?thesis
    unfolding tenancy_ok_def ids assms(2,3,4,6) using assms(1) role org next' by (simp add: tenancy_ok_def)
qed

lemma map_same_key: "(\<And>r. k (f r) = k r) \<Longrightarrow> map k (map (\<lambda>r. if P r then f r else r) xs) = map k xs"
  by (induction xs) auto

lemma tenancy_ok_same:
  "tenancy_ok s \<Longrightarrow> a_members t = a_members s \<Longrightarrow> a_orgs t = a_orgs s \<Longrightarrow> a_next s \<le> a_next t \<Longrightarrow>
    a_invites t = a_invites s \<Longrightarrow> tenancy_ok t"
  by (erule tenancy_ok_frame) simp_all

lemma tenancy_ok_roles:
  "tenancy_ok s \<Longrightarrow> tenancy_ok (put_members (map (\<lambda>m. if P m then m\<lparr>mb_role := r\<rparr> else m) (a_members s)) s)"
proof -
  assume ok: "tenancy_ok s"
  let ?ms = "map (\<lambda>m. if P m then m\<lparr>mb_role := r\<rparr> else m) (a_members s)"
  have keys: "map (\<lambda>m. (mb_user m, mb_org m)) ?ms = map (\<lambda>m. (mb_user m, mb_org m)) (a_members s)"
    by (rule map_same_key) simp
  have "\<forall>m \<in> set ?ms. mb_org m \<in> og_id ` set (a_orgs s)"
    using ok by (auto simp: tenancy_ok_def)
  then show ?thesis using ok unfolding tenancy_ok_def by (simp add: keys del: map_map)
qed

lemma tenancy_ok_put_membership:
  assumes ok: "tenancy_ok s" and p: "put_membership u o' r s = (m, t)" and o': "o' \<in> og_id ` set (a_orgs s)"
  shows "tenancy_ok t"
proof (cases "find (\<lambda>m. mb_user m = u \<and> mb_org m = o') (a_members s)")
  case None
  then have new: "(u, o') \<notin> (\<lambda>m. (mb_user m, mb_org m)) ` set (a_members s)" by (auto simp: find_None_iff)
  let ?m = "\<lparr>mb_id = a_next s, mb_user = u, mb_org = o', mb_role = r, mb_joined = a_clock s\<rparr>"
  have t: "t = s\<lparr>a_next := Suc (a_next s), a_members := a_members s @ [?m]\<rparr>"
    using None p by (auto simp: put_membership_def Let_def)
  have "\<forall>i \<in> og_id ` set (a_orgs s). i < Suc (a_next s)" using ok by (auto simp: tenancy_ok_def less_Suc_eq)
  then show ?thesis using ok o' new unfolding tenancy_ok_def t by simp
next
  case (Some m')
  then show ?thesis using p tenancy_ok_roles[OF ok, of "\<lambda>m. mb_user m = u \<and> mb_org m = o'" r]
    by (simp add: put_membership_def)
qed

lemma drop_tenancy [simp]:
  "a_members (drop_courses Q s) = a_members s" "a_orgs (drop_courses Q s) = a_orgs s"
  "a_invites (drop_courses Q s) = a_invites s" "a_next (drop_courses Q s) = a_next s"
  "a_members (drop_chapters Q2 s) = a_members s" "a_orgs (drop_chapters Q2 s) = a_orgs s"
  "a_invites (drop_chapters Q2 s) = a_invites s" "a_next (drop_chapters Q2 s) = a_next s"
  "a_members (drop_lessons Q3 s) = a_members s" "a_orgs (drop_lessons Q3 s) = a_orgs s"
  "a_invites (drop_lessons Q3 s) = a_invites s" "a_next (drop_lessons Q3 s) = a_next s"
  "a_members (drop_blocks Q4 s) = a_members s" "a_orgs (drop_blocks Q4 s) = a_orgs s"
  "a_invites (drop_blocks Q4 s) = a_invites s" "a_next (drop_blocks Q4 s) = a_next s"
  by (simp_all add: drop_courses_def drop_chapters_def drop_lessons_def drop_blocks_def Let_def)

interpretation tenancy: full_tenancy_invariant tenancy_ok
proof
  fix s b assume "tenancy_ok s"
  then show "tenancy_ok (s\<lparr>a_aborted := b\<rparr>)" by (rule tenancy_ok_same) simp_all
next
  fix e show "tx_pres tenancy_ok (AAuditRepo_Record e)"
    by (auto simp: tx_post_def AAuditRepo_Record_def elim!: tenancy_ok_same split: if_splits)
next
  fix name slug show "tx_pres tenancy_ok (OrgRepo_Create name slug)"
    by (rule tx_postI)
      (fastforce simp: OrgRepo_Create_def Let_def tenancy_ok_def image_iff split: option.splits if_splits)
next
  fix i name show "tx_pres tenancy_ok (OrgRepo_Update i name)"
    by (auto simp: tx_post_def OrgRepo_Update_def tab_update_Inr map_same_key elim!: tenancy_ok_frame)
next
  fix u o' r show "tx_pres tenancy_ok (MembershipRepo_UpdateRole u o' r)"
    by (auto simp: tx_post_def MembershipRepo_UpdateRole_def tx_bind_Inr tab_update_Inr tenancy_ok_roles)
next
  fix u o' show "tx_pres tenancy_ok (MembershipRepo_Remove u o')"
    by (rule tx_postI) (auto simp: MembershipRepo_Remove_def Let_def tenancy_ok_def distinct_map_filter split: if_splits)
next
  fix r :: role and o' :: uuid and email :: string and who :: uuid and token :: string assume "r \<noteq> Owner"
  then show "tx_pres tenancy_ok (\<lambda>s. InvitationRepo_Create o' email r who token (a_clock s + invitationTTL) s)"
    by (intro tx_postI) (fastforce simp: InvitationRepo_Create_def Let_def tenancy_ok_def find_None_iff less_Suc_eq image_iff split: if_splits)
next
  fix i show "tx_pres tenancy_ok (InvitationRepo_Revoke i)"
    by (rule tx_postI) (auto simp: InvitationRepo_Revoke_def Let_def tenancy_ok_def distinct_map_filter split: if_splits)
next
  fix token show "tx_pres tenancy_ok (InvitationRepo_Decline token)"
    by (auto simp: tx_post_def InvitationRepo_Decline_def set_invitation_def map_same_key elim!: tenancy_ok_frame split: sum.splits)
next
  fix i b reason show "tx_pres tenancy_ok (AdminOpsRepo_SetUserSuspended i b reason)"
    by (auto simp: tx_post_def AdminOpsRepo_SetUserSuspended_def tx_bind_Inr tab_update_Inr elim!: tenancy_ok_same split: if_splits)
next
  fix i b reason show "tx_pres tenancy_ok (AdminOpsRepo_SetOrgActive i b reason)"
    by (auto simp: tx_post_def AdminOpsRepo_SetOrgActive_def tx_bind_Inr tab_update_Inr map_same_key elim!: tenancy_ok_frame split: if_splits)
next
  fix i st show "tx_pres tenancy_ok (AdminOpsRepo_SetCourseStatus i st)"
    by (auto simp: tx_post_def AdminOpsRepo_SetCourseStatus_def tx_bind_Inr tab_update_Inr elim!: tenancy_ok_same split: if_splits)
next
  fix i show "tx_pres tenancy_ok (OrgRepo_Delete i)"
  proof (rule tx_postI)
    fix s x s' assume ok: "tenancy_ok s" and "OrgRepo_Delete i s = Inr (x, s')"
    then have s': "s' = drop_org i s" by (auto simp: OrgRepo_Delete_def split: if_splits)
    have orgs: "og_id ` {g \<in> set (a_orgs s). og_id g \<noteq> i} = og_id ` set (a_orgs s) - {i}" by auto
    show "tenancy_ok s'" using ok
      unfolding s' drop_org_def Let_def tenancy_ok_def by (simp add: distinct_map_filter orgs) blast
  qed
next
  fix token show "tx_pres tenancy_ok (InvitationRepo_Accept token)"
  proof (rule tx_postI)
    fix s x s' assume ok: "tenancy_ok s" and "InvitationRepo_Accept token s = Inr (x, s')"
    then obtain u v m t where v: "usable_invitation token s = Inr (u, v)"
      and p: "put_membership u (iv_org v) (iv_role v) s = (m, t)" and s': "s' = set_invitation (iv_id v) InvAccepted t"
      by (auto simp: InvitationRepo_Accept_def split: sum.splits prod.splits)
    have "iv_org v \<in> og_id ` set (a_orgs s)" using v ok by (auto simp: usable_invitation_Inr tenancy_ok_def dest!: find_SomeD)
    from tenancy_ok_put_membership[OF ok p this] show "tenancy_ok s'"
      by (rule tenancy_ok_frame) (simp_all add: s' set_invitation_def map_same_key del: map_map)
  qed
qed

section \<open>Content\<close>

definition same_content :: "adb \<Rightarrow> adb \<Rightarrow> bool" where
  "same_content s t \<longleftrightarrow> a_courses t = a_courses s \<and> a_chapters t = a_chapters s \<and> a_lessons t = a_lessons s \<and>
     a_blocks t = a_blocks s \<and> a_assets t = a_assets s \<and> a_versions t = a_versions s \<and> a_next s \<le> a_next t"

lemma put_membership_content: "put_membership u o' r s = (m, t) \<Longrightarrow> same_content s t"
  by (auto simp: put_membership_def Let_def same_content_def split: option.splits)

lemma same_content_trans: "same_content s t \<Longrightarrow> same_content t v \<Longrightarrow> same_content s v"
  by (auto simp: same_content_def)

interpretation content: tenancy_invariant "same_content s0" for s0
proof
  fix token show "tx_pres (same_content s0) (InvitationRepo_Accept token)"
    by (auto simp: tx_post_def InvitationRepo_Accept_def set_invitation_def same_content_def
        dest: put_membership_content split: sum.splits prod.splits)
qed (auto simp: same_content_def tx_post_def AAuditRepo_Record_def OrgRepo_Create_def OrgRepo_Update_def Let_def
      MembershipRepo_UpdateRole_def MembershipRepo_Remove_def InvitationRepo_Create_def InvitationRepo_Revoke_def
      InvitationRepo_Decline_def set_invitation_def AdminOpsRepo_SetUserSuspended_def AdminOpsRepo_SetOrgActive_def
      tx_bind_Inr tab_update_Inr split: if_splits option.splits sum.splits)

lemma quiet_requests_leave_content:
  assumes "leaves_content q"
  shows "same_content s (snd (serve u (tenancy_handler base ac q) s))"
proof (rule content.serve_keeps[OF content.keeps_quiet[OF assms, of s base ac], of u])
  show "same_content s (stamp u s)" by (simp add: same_content_def)
qed (auto simp: same_content_def)

end
