(* ===== verification/ContentInv.thy ===== *)
theory ContentInv
  imports Content TenancyInv
begin

text \<open>
  Invariants of the authoring requests: a property that each statement of the course handlers
  keeps is kept by every course request. The instances are the identity of the tables' keys, the
  isolation of an organization from callers who are no members of it, the life cycle of a course,
  and the permanence of versions.
\<close>

lemma enforceQuota_reads: "h_pres (same_but_aborted s0) (enforceQuota o' d)"
proof -
  have "tx_pres (same_but_aborted s0) (quota_load o')"
  proof -
    have plan: "tx_pres (same_but_aborted s0) (PlanRepo_ResolveForOrg o')"
      by (auto simp: tx_post_def PlanRepo_ResolveForOrg_def PlanRepo_GetDefault_def tab_select1_Inr split: option.splits)
    show ?thesis
      unfolding quota_load_def QuotaRepo_CurrentUsage_def AIUsageRepo_GetForPeriod_def
      by (rule tx_pres_bind[OF plan]) (auto simp: tx_post_def tx_bind_Inr)
  qed
  then have "tx_pres (same_but_aborted s0) (quota_check o' d n)" for n
    unfolding quota_check_def Let_def by (rule tx_pres_bind) (auto simp: tx_post_def)
  then show ?thesis
    unfolding enforceQuota_def by (intro h_pres_bind reads.pres_sql) (auto simp: h_pres_guard)
qed

section \<open>Lifting over the handlers\<close>

text \<open>\<open>ok i st\<close> is what the caller of a statement that moves course \<open>i\<close> to status \<open>st\<close>
  has to establish.\<close>

locale content_invariant = abort_safe I for I :: "adb \<Rightarrow> bool" +
  fixes ok :: "uuid \<Rightarrow> course_status \<Rightarrow> bool"
  assumes keeps_new_course: "(\<And>i t. c_id (mk i t) = i \<and> c_status (mk i t) = CDraft) \<Longrightarrow>
      tx_pres I (a_insert a_courses put_acourses c_org mk)"
    and keeps_course: "(\<And>t r. c_id (f t r) = c_id r \<and> c_org (f t r) = c_org r \<and>
        (c_status (f t r) = c_status r \<or> ok i (c_status (f t r)))) \<Longrightarrow>
      tx_pres I (a_update a_courses put_acourses c_org (\<lambda>r. c_id r = i) f)"
    and keeps_new_chapter: "tx_pres I (ChapterRepo_Create course o' u title v)"
    and keeps_chapter: "(\<And>t r. ch_id (fch t r) = ch_id r \<and> ch_org (fch t r) = ch_org r \<and> ch_course (fch t r) = ch_course r) \<Longrightarrow>
      tx_pres I (a_update a_chapters put_chapters ch_org (\<lambda>r. ch_id r = i) fch)"
    and keeps_new_lesson: "tx_pres I (LessonRepo_Create chp course o' u title v)"
    and keeps_lesson: "(\<And>t r. ls_id (fls t r) = ls_id r \<and> ls_org (fls t r) = ls_org r \<and> ls_chapter (fls t r) = ls_chapter r \<and>
        ls_course (fls t r) = ls_course r) \<Longrightarrow>
      tx_pres I (a_update a_lessons put_lessons ls_org (\<lambda>r. ls_id r = i) fls)"
    and keeps_new_block: "tx_pres I (BlockRepo_Create lsn course o' u ty j v)"
    and keeps_block: "(\<And>t r. bk_id (fbk t r) = bk_id r \<and> bk_org (fbk t r) = bk_org r \<and> bk_lesson (fbk t r) = bk_lesson r \<and>
        bk_course (fbk t r) = bk_course r) \<Longrightarrow>
      tx_pres I (a_update a_blocks put_blocks bk_org (\<lambda>r. bk_id r = i) fbk)"
    and keeps_drop_chapters: "tx_pres I (tx_modify (\<lambda>s. drop_chapters (\<lambda>r. sees s (ch_org r) \<and> P r) s))"
    and keeps_drop_lessons: "tx_pres I (tx_modify (\<lambda>s. drop_lessons (\<lambda>r. sees s (ls_org r) \<and> Q r) s))"
    and keeps_drop_blocks: "tx_pres I (tx_modify (\<lambda>s. drop_blocks (\<lambda>r. sees s (bk_org r) \<and> R r) s))"
    and keeps_revoke_urls: "tx_pres I (AssetRepo_RevokeSignedURLsForCourse course)"
    and keeps_snapshot: "tx_pres I (CourseVersionRepo_Snapshot course o' u)"
begin

lemma keeps_reads: "(\<And>s0. h_pres (same_but_aborted s0) m) \<Longrightarrow> h_pres I m"
proof -
  assume r: "\<And>s0. h_pres (same_but_aborted s0) m"
  have "same_but_aborted s (snd (m s))" for s using h_presD[OF r same_but_aborted_refl] .
  then show ?thesis unfolding h_post_def same_but_aborted_def by (metis aborted)
qed

lemma keeps_get [tx_rules]: "tx_pres I (tx_gets f)" "tx_pres I (a_select g org_of P)" "tx_pres I (\<lambda>s. tab_select1 g' (Q s) s)"
  by (simp_all add: tx_post_def a_select_def tab_select1_Inr)

lemma keeps_deleting:
  "tx_pres I (a_delete a_chapters ch_org drop_chapters P)"
  "tx_pres I (a_delete a_lessons ls_org drop_lessons Q)"
  "tx_pres I (a_delete a_blocks bk_org drop_blocks R)"
  using keeps_drop_chapters[of P] keeps_drop_lessons[of Q] keeps_drop_blocks[of R]
  by (auto simp: tx_post_def a_delete_def split: if_splits)

lemma keeps_guarded: "tx_pres I m \<Longrightarrow> tx_pres I (\<lambda>s. if b s then Inl (e s) else m s)"
  by (auto simp: tx_post_def)

lemma keeps_delete_rows:
  "tx_pres I (ChapterRepo_Delete i)" "tx_pres I (LessonRepo_Delete i)" "tx_pres I (BlockRepo_Delete i)"
  unfolding ChapterRepo_Delete_def LessonRepo_Delete_def BlockRepo_Delete_def Let_def
  by (rule keeps_guarded, rule keeps_deleting)+ (rule keeps_deleting)

lemma keeps_discard: "tx_pres I m \<Longrightarrow> tx_pres I (tx_bind m (\<lambda>_. tx_return ()))"
  by (auto simp: tx_post_def tx_bind_Inr)

lemma keeps_chapter_updates:
  "tx_pres I (ChapterRepo_Update i title v)" "tx_pres I (ChapterRepo_SetSortOrder i w)"
  unfolding ChapterRepo_Update_def ChapterRepo_SetSortOrder_def
  by (rule keeps_chapter, simp, rule keeps_discard, rule keeps_chapter, simp)

lemma keeps_lesson_updates:
  "tx_pres I (LessonRepo_Update i title v)" "tx_pres I (LessonRepo_SetSortOrder i w)"
  unfolding LessonRepo_Update_def LessonRepo_SetSortOrder_def
  by (rule keeps_lesson, simp, rule keeps_discard, rule keeps_lesson, simp)

lemma keeps_block_updates:
  "tx_pres I (BlockRepo_Update i j v)" "tx_pres I (BlockRepo_Autosave i j)" "tx_pres I (BlockRepo_SetSortOrder i w)"
  unfolding BlockRepo_Update_def BlockRepo_Autosave_def BlockRepo_SetSortOrder_def
  by (rule keeps_block, simp, rule keeps_block, simp, rule keeps_discard, rule keeps_block, simp)

lemma keeps_metadata: "tx_pres I (CourseRepo_UpdateMetadata i title desc cat cover)"
  unfolding CourseRepo_UpdateMetadata_def by (rule keeps_course) simp

lemmas keeps_updates = keeps_chapter_updates keeps_lesson_updates keeps_block_updates keeps_metadata

lemma keeps_status_changes:
  "ok i st \<Longrightarrow> tx_pres I (CourseRepo_SetStatus i st)" "ok i CScheduled \<Longrightarrow> tx_pres I (CourseRepo_SetScheduled i d)"
  "ok i CPublished \<Longrightarrow> tx_pres I (CourseRepo_Publish i)" "ok i CArchived \<Longrightarrow> tx_pres I (CourseRepo_Archive i)"
  unfolding CourseRepo_SetStatus_def CourseRepo_SetScheduled_def CourseRepo_Publish_def CourseRepo_Archive_def
  by (intro keeps_course conjI; simp)+

lemma keeps_lists [tx_rules]:
  "tx_pres I (ChapterRepo_ListByCourse i)" "tx_pres I (LessonRepo_ListByChapter i)" "tx_pres I (BlockRepo_ListByLesson i)"
  "tx_pres I (BlockRepo_ListVideoBlocksByCourse i)" "tx_pres I (CourseVersionRepo_List i)" "tx_pres I (CourseVersionRepo_Get i)"
  "tx_pres I (BlockRepo_Get i)" "tx_pres I (ACourseRepo_Get i)" "tx_pres I (CourseRepo_List i)"
  unfolding ChapterRepo_ListByCourse_def LessonRepo_ListByChapter_def BlockRepo_ListByLesson_def
    BlockRepo_ListVideoBlocksByCourse_def CourseVersionRepo_List_def CourseVersionRepo_Get_def BlockRepo_Get_def
    ACourseRepo_Get_def CourseRepo_List_def
  by (intro keeps_get)+

lemma keeps_insert_chapter: "tx_pres I (insert_chapter course o' u c)"
  unfolding insert_chapter_def insert_lesson_def
  by (intro tx_pres_bind tx_pres_for keeps_new_chapter keeps_new_lesson keeps_new_block tx_pres_return)

lemma keeps_restore: "tx_pres I (CourseVersionRepo_Restore course i u)"
  unfolding CourseVersionRepo_Restore_def
  by (intro tx_pres_bind tx_post_if tx_pres_throw tx_pres_for keeps_lists keeps_drop_chapters keeps_insert_chapter
      keeps_snapshot keeps_course) simp

lemma keeps_copy_lesson: "tx_pres I (copy_lesson course o' u i l)"
  unfolding copy_lesson_def
proof (rule tx_pres_bind[OF keeps_new_lesson])
  fix row
  have "tx_pres I (tx_for bs (\<lambda>b. tx_bind (BlockRepo_Create (ls_id row) course o' u (bk_type b) (bk_content b) (bk_sort b))
      (\<lambda>_. tx_return ())))" for bs
    by (intro tx_pres_for tx_pres_bind keeps_new_block tx_pres_return)
  then show "tx_pres I (\<lambda>s. tx_for (a_rows a_blocks bk_org (\<lambda>b. bk_lesson b = ls_id l) s)
      (\<lambda>b. tx_bind (BlockRepo_Create (ls_id row) course o' u (bk_type b) (bk_content b) (bk_sort b)) (\<lambda>_. tx_return ())) s)"
    unfolding tx_post_def by blast
qed

lemma keeps_duplicate: "tx_pres I (CourseRepo_Duplicate i u)"
  unfolding CourseRepo_Duplicate_def copy_chapter_def
  by (intro tx_pres_bind tx_pres_for keeps_lists keeps_new_course keeps_new_chapter keeps_copy_lesson tx_pres_return) simp

lemma keeps_create: "tx_pres I (CourseRepo_Create o' u title desc cat)"
  unfolding CourseRepo_Create_def by (rule keeps_new_course) simp

lemma keeps_stored:
  "(\<And>w. tx_pres I (f w)) \<Longrightarrow> tx_pres I (stored_at col v f)"
  "(\<And>w. tx_pres I (g w)) \<Longrightarrow> tx_pres I (stored_opt col p g)"
  "(\<And>w. tx_pres I (h w)) \<Longrightarrow> tx_pres I (stored_json env j h)"
  unfolding stored_at_def stored_opt_def stored_json_def by (auto split: option.split intro: tx_pres_throw)

lemma keeps_renormalize:
  "tx_pres I rows \<Longrightarrow> (\<And>i v. tx_pres I (upd i v)) \<Longrightarrow> tx_pres I (renormalize_rows col rows srt key upd)"
  unfolding renormalize_rows_def by (auto intro!: tx_pres_bind tx_post_if tx_pres_for tx_pres_return keeps_stored)

lemma keeps_reorder:
  "(\<And>i v. tx_pres I (upd i v)) \<Longrightarrow> tx_pres I renorm \<Longrightarrow> h_pres I (reorder_rows col upd renorm body)"
  unfolding reorder_rows_def
  by (auto intro!: h_pres_bind h_pres_respond h_pres_return pres_sql tx_pres_for keeps_stored split: option.split)

lemmas keeps_rules = pres_sql pres_sql_ignore pres_attempt h_pres_bind h_pres_guard h_pres_return h_pres_respond h_pres_if
  keeps_stored keeps_updates keeps_lists keeps_delete_rows keeps_new_chapter keeps_new_lesson keeps_new_block
  keeps_restore keeps_duplicate keeps_create keeps_snapshot keeps_revoke_urls tx_pres_throw tx_post_if

lemma keeps_chapter_handlers:
  "h_pres I (CreateChapter env ac c b)" "h_pres I (ListChapters c)" "h_pres I (UpdateChapter env i ub)"
  "h_pres I (DeleteChapter i)" "h_pres I (ReorderChapters env course rb)"
  unfolding CreateChapter_def ListChapters_def UpdateChapter_def DeleteChapter_def ReorderChapters_def renormalizeChaptersIfNeeded_def
  by (auto intro!: keeps_rules keeps_reorder keeps_renormalize split: option.split)

lemma keeps_lesson_handlers:
  "h_pres I (CreateLesson env ac c chp b)" "h_pres I (ListLessons chp)" "h_pres I (UpdateLesson env i ub)"
  "h_pres I (DeleteLesson i)" "h_pres I (ReorderLessons env chp rb)"
  unfolding CreateLesson_def ListLessons_def UpdateLesson_def DeleteLesson_def ReorderLessons_def renormalizeLessonsIfNeeded_def
  by (auto intro!: keeps_rules keeps_reorder keeps_renormalize split: option.split)

lemma keeps_block_handlers:
  "h_pres I (CreateBlock env ac c lsn b)" "h_pres I (ListBlocks lsn)" "h_pres I (UpdateBlock env i ub)"
  "h_pres I (AutosaveBlock env i ab)" "h_pres I (DeleteBlock i)" "h_pres I (ReorderBlocks env lsn rb)"
  unfolding CreateBlock_def ListBlocks_def UpdateBlock_def AutosaveBlock_def DeleteBlock_def ReorderBlocks_def renormalizeBlocksIfNeeded_def
  by (auto intro!: keeps_rules keeps_reorder keeps_renormalize split: option.split sum.split)

lemma keeps_collect: "h_pres I (collect_not_ready bs)"
proof (induction bs)
  case (Cons b bs)
  have "tx_pres I (AssetRepo_Get t)" for t
    by (auto simp: AssetRepo_Get_def intro!: keeps_get tx_pres_throw split: option.split)
  then show ?case using Cons by (auto intro!: h_pres_bind pres_attempt h_pres_return)
qed (simp add: h_pres_return)

lemma keeps_publish:
  assumes "c_status c \<in> {CReview, CScheduled, CUnpublished} \<Longrightarrow> ok (c_id c) CPublished"
  shows "h_pres I (PublishCourse ac c)"
  unfolding PublishCourse_def
  by (rule guarded_pres) (intro keeps_rules keeps_collect keeps_status_changes assms)

lemma keeps_unpublish:
  assumes "c_status c = CPublished \<Longrightarrow> ok (c_id c) CUnpublished"
  shows "h_pres I (UnpublishCourse c)"
  unfolding UnpublishCourse_def by (rule guarded_pres) (intro keeps_rules keeps_status_changes assms)

lemma keeps_transition:
  assumes "\<And>st. st \<in> set (validTransitions (c_status c)) \<Longrightarrow> st \<noteq> CPublished \<Longrightarrow> ok (c_id c) st"
  shows "h_pres I (TransitionCourse c b)"
proof (cases b)
  case (Some q)
  show ?thesis
  proof (cases "parse_course_status (tq_status q)")
    case st: (Some st)
    have "h_pres I (if st = CArchived then sql (CourseRepo_Archive (c_id c)) internal_error
        else if st = CScheduled then (case tq_date q of None \<Rightarrow> h_respond (RespErr 400 ''publish_date is required to schedule a course'')
             | Some d \<Rightarrow> sql (CourseRepo_SetScheduled (c_id c) d) internal_error)
        else sql (CourseRepo_SetStatus (c_id c) st) internal_error)"
      if "st \<in> set (validTransitions (c_status c))" "st \<noteq> CPublished"
      using assms[OF that] by (auto intro!: pres_sql keeps_status_changes h_pres_respond split: option.split)
    then show ?thesis
      by (auto simp: TransitionCourse_def Some st intro!: h_pres_respond guarded_pres h_pres_bind h_pres_return)
  qed (simp add: TransitionCourse_def Some h_pres_respond)
qed (simp add: TransitionCourse_def h_pres_respond)

lemma keeps_course_handler:
  assumes "a \<noteq> CDelete"
    and "\<And>st. st \<in> set (validTransitions (c_status c)) \<Longrightarrow> ok (c_id c) st"
    and "c_status c = CUnpublished \<Longrightarrow> ok (c_id c) CPublished"
  shows "h_pres I (course_handler env ac c a)"
proof -
  have pub: "c_status c \<in> {CReview, CScheduled, CUnpublished} \<Longrightarrow> ok (c_id c) CPublished"
    using assms(2)[of CPublished] assms(3) by auto
  have unpub: "c_status c = CPublished \<Longrightarrow> ok (c_id c) CUnpublished" using assms(2)[of CUnpublished] by simp
  have simple: "h_pres I (UpdateCourse env c b)" "h_pres I (DuplicateCourse ac c)" "h_pres I (ListCourseVersions c)"
    "h_pres I (GetCourseVersion i)" "h_pres I (RestoreCourseVersion ac c i)" for b i
    unfolding UpdateCourse_def DuplicateCourse_def ListCourseVersions_def GetCourseVersion_def RestoreCourseVersion_def
    by (auto intro!: keeps_rules split: option.split)
  have life: "h_pres I (PublishCourse ac c)" "h_pres I (UnpublishCourse c)" "h_pres I (TransitionCourse c b)" for b
    by (rule keeps_publish, rule pub, assumption) (rule keeps_unpublish, rule unpub, assumption,
        rule keeps_transition, rule assms(2), assumption)
  show ?thesis
    using assms(1) unfolding course_handler_def
    by (cases a) (simp_all add: simple keeps_chapter_handlers keeps_lesson_handlers keeps_block_handlers h_pres_return life)
qed

lemma keeps_collection_requests: "h_pres I (CreateCourse env ac b)" "h_pres I (ListCourses ac slug)"
proof -
  have resolve: "h_pres I (resolveOrgBySlugForCourseCreation ac sl)" for sl
    unfolding resolveOrgBySlugForCourseCreation_def by (intro keeps_rules select_reads)
  have quota: "h_pres I (enforceQuota o' d)" for o' d by (rule keeps_reads[OF enforceQuota_reads])
  show "h_pres I (CreateCourse env ac b)" "h_pres I (ListCourses ac slug)"
    unfolding CreateCourse_def ListCourses_def
    by (auto intro!: keeps_rules resolve quota select_reads split: option.split)
qed

text \<open>The routes: the course a handler works on is a row of the state it starts in.\<close>

lemma route_keeps:
  assumes "\<And>c. c \<in> set (a_courses s) \<Longrightarrow> c_id c = i \<Longrightarrow> h_pres I (course_handler env ac c a)" "I s"
  shows "I (snd (course_route env ac i a s))"
proof -
  have "I (snd (ResolveCourseOrg ac i s))" using h_presD[OF keeps_reads[OF ResolveCourseOrg_reads] assms(2)] .
  moreover have "h_pres I (h_bind (RequireRole R oc) (\<lambda>_. course_handler env ac c a))"
    if "ResolveCourseOrg ac i s = (Inr (c, oc), t)" for c oc t R
  proof -
    have "c \<in> set (a_courses s)" "c_id c = i"
      using that unfolding ResolveCourseOrg_def h_bind_Inr sql_run
      by (auto dest!: get_course_seen)
    then show ?thesis unfolding RequireRole_def by (intro h_pres_bind h_pres_guard assms(1))
  qed
  ultimately show ?thesis unfolding course_route_def
    by (cases "ResolveCourseOrg ac i s") (auto simp: h_bind_def[of "ResolveCourseOrg ac i"] intro: h_presD split: sum.split)
qed

lemma keeps_request:
  assumes "I s" "\<And>i. q \<noteq> CrCourse i CDelete"
    and "\<And>c st. c \<in> set (a_courses s) \<Longrightarrow> st \<in> set (validTransitions (c_status c)) \<Longrightarrow> ok (c_id c) st"
    and "\<And>c. c \<in> set (a_courses s) \<Longrightarrow> c_status c = CUnpublished \<Longrightarrow> ok (c_id c) CPublished"
  shows "I (snd (course_request_handler env ac q s))"
proof (cases q)
  case (CrCourse i a)
  then have "a \<noteq> CDelete" using assms(2) by blast
  then have "I (snd (course_route env ac i a s))"
    by (intro route_keeps keeps_course_handler assms)
  then show ?thesis by (simp add: CrCourse course_request_handler_def)
qed (use assms(1) h_presD[OF keeps_collection_requests(1)] h_presD[OF keeps_collection_requests(2)]
    in \<open>simp_all add: course_request_handler_def\<close>)

end

locale full_content_invariant = content_invariant I ok for I :: "adb \<Rightarrow> bool" and ok :: "uuid \<Rightarrow> course_status \<Rightarrow> bool" +
  assumes keeps_drop_courses: "tx_pres I (tx_modify (\<lambda>s. drop_courses (\<lambda>r. sees s (c_org r) \<and> P r) s))"
begin

lemma keeps_DeleteCourse: "h_pres I (DeleteCourse c)"
proof -
  have "tx_pres I (CourseRepo_Delete i)" for i
    using keeps_drop_courses[of "\<lambda>r. c_id r = i"] by (auto simp: tx_post_def CourseRepo_Delete_def a_delete_def split: if_splits)
  then show ?thesis unfolding DeleteCourse_def by (intro keeps_rules)
qed

lemma keeps_any_request:
  assumes "I s"
    and "\<And>c st. c \<in> set (a_courses s) \<Longrightarrow> st \<in> set (validTransitions (c_status c)) \<Longrightarrow> ok (c_id c) st"
    and "\<And>c. c \<in> set (a_courses s) \<Longrightarrow> c_status c = CUnpublished \<Longrightarrow> ok (c_id c) CPublished"
  shows "I (snd (course_request_handler env ac q s))"
proof (cases "\<exists>i. q = CrCourse i CDelete")
  case True
  then obtain i where q: "q = CrCourse i CDelete" ..
  have "I (snd (course_route env ac i CDelete s))"
    by (rule route_keeps[OF _ assms(1)]) (simp add: course_handler_def keeps_DeleteCourse)
  then show ?thesis by (simp add: q course_request_handler_def)
qed (intro keeps_request assms; blast)

lemma serve_any_request:
  assumes "I (stamp u s)" "\<And>t. I t \<Longrightarrow> J (unstamp t)" "J s"
    and "\<And>c st. c \<in> set (a_courses s) \<Longrightarrow> st \<in> set (validTransitions (c_status c)) \<Longrightarrow> ok (c_id c) st"
    and "\<And>c. c \<in> set (a_courses s) \<Longrightarrow> c_status c = CUnpublished \<Longrightarrow> ok (c_id c) CPublished"
  shows "J (snd (serve u (course_request_handler env ac q) s))"
proof -
  have "I (snd (course_request_handler env ac q (stamp u s)))"
    by (rule keeps_any_request) (use assms in simp_all)
  then show ?thesis
    using assms(2,3) by (auto simp: serve_def Let_def run_handler_def split: prod.splits sum.splits)
qed

end

section \<open>Keys\<close>

text \<open>What a snapshot of live content looks like: ordered by position at every level.\<close>

definition ordered_content :: "snapshot_chapter list \<Rightarrow> bool" where
  "ordered_content cs \<longleftrightarrow> sorted (map sc_sort cs) \<and> (\<forall>c \<in> set cs. sorted (map sl_sort (sc_lessons c)) \<and>
     (\<forall>l \<in> set (sc_lessons c). sorted (map sb_sort (sl_blocks l))))"

lemma sorted_map_sort_key: "(\<And>x. f (g x) = k x) \<Longrightarrow> sorted (map f (map g (sort_key k xs)))"
  using sorted_sort_key[of k xs] by (simp add: comp_def)

lemma live_content_ordered: "ordered_content (live_content s i)"
  unfolding ordered_content_def live_content_def
  by (auto simp: snap_chapter_def snap_lesson_def intro!: sorted_map_sort_key simp del: map_map)

definition authoring_ok :: "adb \<Rightarrow> bool" where
  "authoring_ok s \<longleftrightarrow> distinct (map c_id (a_courses s)) \<and> distinct (map ch_id (a_chapters s)) \<and>
     distinct (map ls_id (a_lessons s)) \<and> distinct (map bk_id (a_blocks s)) \<and> distinct (map cv_id (a_versions s)) \<and>
     distinct (map (\<lambda>v. (cv_course v, cv_number v)) (a_versions s)) \<and>
     (\<forall>i \<in> set (map c_id (a_courses s)). i < a_next s) \<and>
     (\<forall>(i, p) \<in> set (map (\<lambda>c. (ch_id c, ch_course c)) (a_chapters s)). i < a_next s \<and> p < a_next s) \<and>
     (\<forall>(i, p) \<in> set (map (\<lambda>l. (ls_id l, ls_chapter l)) (a_lessons s)). i < a_next s \<and> p < a_next s) \<and>
     (\<forall>(i, p) \<in> set (map (\<lambda>b. (bk_id b, bk_lesson b)) (a_blocks s)). i < a_next s \<and> p < a_next s) \<and>
     (\<forall>(i, p, n) \<in> set (map (\<lambda>v. (cv_id v, cv_course v, cv_number v)) (a_versions s)). i < a_next s \<and> p < a_next s \<and> 1 \<le> n) \<and>
     (\<forall>v \<in> set (a_versions s). ordered_content (cs_chapters (cv_snapshot v)))"

lemma authoring_ok_frame:
  "authoring_ok s \<Longrightarrow> a_next t = a_next s \<Longrightarrow> map c_id (a_courses t) = map c_id (a_courses s) \<Longrightarrow>
    map (\<lambda>c. (ch_id c, ch_course c)) (a_chapters t) = map (\<lambda>c. (ch_id c, ch_course c)) (a_chapters s) \<Longrightarrow>
    map (\<lambda>l. (ls_id l, ls_chapter l)) (a_lessons t) = map (\<lambda>l. (ls_id l, ls_chapter l)) (a_lessons s) \<Longrightarrow>
    map (\<lambda>b. (bk_id b, bk_lesson b)) (a_blocks t) = map (\<lambda>b. (bk_id b, bk_lesson b)) (a_blocks s) \<Longrightarrow>
    a_versions t = a_versions s \<Longrightarrow> authoring_ok t"
proof -
  assume h: "authoring_ok s" "a_next t = a_next s" "map c_id (a_courses t) = map c_id (a_courses s)"
    "map (\<lambda>c. (ch_id c, ch_course c)) (a_chapters t) = map (\<lambda>c. (ch_id c, ch_course c)) (a_chapters s)"
    "map (\<lambda>l. (ls_id l, ls_chapter l)) (a_lessons t) = map (\<lambda>l. (ls_id l, ls_chapter l)) (a_lessons s)"
    "map (\<lambda>b. (bk_id b, bk_lesson b)) (a_blocks t) = map (\<lambda>b. (bk_id b, bk_lesson b)) (a_blocks s)"
    "a_versions t = a_versions s"
  have keys: "map ch_id (a_chapters t) = map ch_id (a_chapters s)" "map ls_id (a_lessons t) = map ls_id (a_lessons s)"
    "map bk_id (a_blocks t) = map bk_id (a_blocks s)"
    using h(4-6)[THEN arg_cong[where f = "map fst"]] by (simp_all add: comp_def)
  from h(1) show ?thesis unfolding authoring_ok_def keys h(2-7) .
qed

lemma drop_authoring:
  assumes "authoring_ok s"
  shows "authoring_ok (drop_blocks R s)" "authoring_ok (drop_lessons Q s)" "authoring_ok (drop_chapters P s)"
    "authoring_ok (drop_courses C s)"
  using assms by (auto simp: authoring_ok_def drop_blocks_def drop_lessons_def drop_chapters_def drop_courses_def Let_def
      intro: distinct_map_filter)

end
