(* ===== verification/TenancyProps.thy ===== *)
theory TenancyProps
  imports TenancyInv
begin

text \<open>
  Properties of organizations, invitations, limits and the audit log over whole requests.
\<close>

section \<open>Requests\<close>

text \<open>
  Every request of the organization, invitation and platform routes keeps the tables well
  formed: one membership per user and organization, unique slugs, ids and tokens, members and
  invitations of existing organizations only, and no invitation for an owner.
\<close>

theorem tenancy_tables_stay_ok:
  assumes "tenancy_ok s"
  shows "tenancy_ok (snd (serve u (tenancy_handler base ac q) s))"
proof (rule tenancy.serve_keeps[OF tenancy.keeps_all[of base ac q], of u s])
  show "tenancy_ok (stamp u s)" using assms by (rule tenancy_ok_same) simp_all
next
  assume "snd (serve u (tenancy_handler base ac q) s) = s"
  then show ?thesis using assms by simp
next
  fix t assume t: "tenancy_ok t" "snd (serve u (tenancy_handler base ac q) s) = unstamp t"
  from t(1) show ?thesis unfolding t(2) by (rule tenancy_ok_same) simp_all
qed

lemma serve_eq:
  "run_handler m (stamp u s) = (r, t) \<Longrightarrow>
    serve u m s = (if 500 \<le> http_status r \<or> a_aborted t then (r, s) else (r, unstamp t))"
  by (auto simp: serve_def)

lemma serve_aborted: "run_handler m (stamp u s) = (r, t) \<Longrightarrow> a_aborted t \<Longrightarrow> serve u m s = (r, s)"
  by (simp add: serve_eq)

lemma serve_committed:
  "run_handler m (stamp u s) = (r, t) \<Longrightarrow> \<not> a_aborted t \<Longrightarrow> http_status r < 500 \<Longrightarrow> serve u m s = (r, unstamp t)"
  by (simp add: serve_eq)

section \<open>Invitations\<close>

definition invitation_for :: "adb \<Rightarrow> uuid \<Rightarrow> string \<Rightarrow> invitation option" where
  "invitation_for s u token = (case usable_invitation token (stamp u s) of Inl e \<Rightarrow> None | Inr (_, v) \<Rightarrow> Some v)"

lemma invitation_for_Some: "invitation_for s u token = Some v \<longleftrightarrow> usable_invitation token (stamp u s) = Inr (u, v)"
proof -
  have "w = u" if "usable_invitation token (stamp u s) = Inr (w, v)" for w
    using that by (simp add: usable_invitation_Inr)
  then show ?thesis by (auto simp: invitation_for_def split: sum.splits)
qed

lemma refused_invitation:
  assumes "idle s" "invitation_for s u token = None"
  shows "serve u (AcceptInvitation ac token) s = (RespErr 400 ''invitation not found, expired, or already resolved'', s)"
    "serve u (DeclineInvitation ac token) s = (RespErr 400 ''invitation not found, expired, or already resolved'', s)"
proof -
  obtain e where e: "usable_invitation token (stamp u s) = Inl e"
    using assms(2) by (auto simp: invitation_for_def split: sum.splits)
  have "e = ErrStorage" using e by (auto simp: usable_invitation_def split: option.splits if_splits)
  then show "serve u (AcceptInvitation ac token) s = (RespErr 400 ''invitation not found, expired, or already resolved'', s)"
    "serve u (DeclineInvitation ac token) s = (RespErr 400 ''invitation not found, expired, or already resolved'', s)"
    using e by (auto intro!: serve_aborted simp: run_handler_def AcceptInvitation_def DeclineInvitation_def h_bind_def
        sql_eq InvitationRepo_Accept_def InvitationRepo_Decline_def aborts_def)
qed

lemma put_membership_member:
  "put_membership u o' r s = (m, t) \<Longrightarrow> \<exists>m \<in> set (a_members t). mb_user m = u \<and> mb_org m = o' \<and> mb_role m = r"
proof (cases "find (\<lambda>m. mb_user m = u \<and> mb_org m = o') (a_members s)")
  case (Some x)
  assume "put_membership u o' r s = (m, t)"
  then show ?thesis using Some find_SomeD[OF Some] by (auto simp: put_membership_def intro!: bexI[of _ "x\<lparr>mb_role := r\<rparr>"])
qed (auto simp: put_membership_def Let_def)

lemma put_membership_rest:
  "put_membership u o' r s = (m, t) \<Longrightarrow> a_session t = a_session s \<and> a_aborted t = a_aborted s \<and> a_invites t = a_invites s \<and>
     a_profiles t = a_profiles s \<and> a_clock t = a_clock s"
  by (auto simp: put_membership_def Let_def split: option.splits)

text \<open>
  A caller with a usable invitation (pending, not expired, for the e-mail of the caller's
  profile) who accepts it gets 200 and exactly the invited role in the inviting organization; no
  membership of anybody else, and none of the caller elsewhere, is new; and whoever presents the
  token afterwards is refused with 400.
\<close>

theorem accepting_is_exact:
  assumes "idle s" and v: "invitation_for s u token = Some v" and "distinct (map iv_token (a_invites s))"
  shows "let (r, s') = serve u (AcceptInvitation ac token) s in
    http_status r = 200 \<and>
    (\<exists>m \<in> set (a_members s'). mb_user m = u \<and> mb_org m = iv_org v \<and> mb_role m = iv_role v) \<and>
    (\<forall>m \<in> set (a_members s'). mb_user m \<noteq> u \<or> mb_org m \<noteq> iv_org v \<longrightarrow> m \<in> set (a_members s)) \<and>
    (\<forall>u' ac'. http_status (fst (serve u' (AcceptInvitation ac' token) s')) = 400)"
proof -
  obtain m t where p: "put_membership u (iv_org v) (iv_role v) (stamp u s) = (m, t)" by fastforce
  let ?t = "set_invitation (iv_id v) InvAccepted t"
  have acc: "InvitationRepo_Accept token (stamp u s) = Inr (m, ?t)"
    using v p by (simp add: InvitationRepo_Accept_def invitation_for_Some)
  have org: "mb_org m = iv_org v" using put_membership_run(5)[OF p] .
  have sees: "sees ?t (mb_org m)"
    using put_membership_member[OF p] put_membership_rest[OF p] org
    by (auto simp: sees_def is_org_member_def set_invitation_def)
  let ?r = "Resp 200 (JObj [(''org_id'', JInt (int (mb_org m))), (''role'', JStr (role_str (mb_role m)))])"
  obtain t' where run: "run_handler (AcceptInvitation ac token) (stamp u s) = (?r, t')"
    and t': "\<not> a_aborted t'" "a_members t' = a_members t" "a_invites t' = a_invites ?t" "a_profiles t' = a_profiles s"
      "a_clock t' = a_clock s"
  proof
    let ?e = "audit_of ac (Some (mb_org m)) ''invitation.accepted'' ''membership'' (mb_id m) None"
    show "run_handler (AcceptInvitation ac token) (stamp u s) = (?r, ?t\<lparr>a_audit := a_audit ?t @ [?e]\<rparr>)"
      using acc sees put_membership_rest[OF p]
      by (simp add: run_handler_def AcceptInvitation_def h_bind_def sql_eq sql_ignore_eq AAuditRepo_Record_def
          audit_of_def h_return_def set_invitation_def)
  qed (use put_membership_rest[OF p] in \<open>simp_all add: set_invitation_def\<close>)
  have sv: "serve u (AcceptInvitation ac token) s = (?r, unstamp t')"
    by (rule serve_committed[OF run]) (use t' in simp_all)
  have members: "\<forall>x \<in> set (a_members t'). mb_user x \<noteq> u \<or> mb_org x \<noteq> iv_org v \<longrightarrow> x \<in> set (a_members s)"
    using p by (auto simp: t' put_membership_def Let_def split: option.splits if_splits)
  have used: "invitation_for (unstamp t') u' token = None" for u'
  proof -
    have vin: "v \<in> set (a_invites s)" "iv_token v = token"
      using v by (auto simp: invitation_for_Some usable_invitation_Inr dest!: find_SomeD)
    have "\<not> (iv_token w = token \<and> iv_status w = InvPending)" if "w \<in> set (a_invites t')" for w
    proof
      assume w: "iv_token w = token \<and> iv_status w = InvPending"
      from that obtain x where x: "x \<in> set (a_invites s)" "w = (if iv_id x = iv_id v then x\<lparr>iv_status := InvAccepted\<rparr> else x)"
        using put_membership_rest[OF p] by (auto simp: t' set_invitation_def)
      with w have "iv_token x = token" "iv_id x \<noteq> iv_id v" by (auto split: if_splits)
      then show False using assms(3) vin x(1) by (metis inj_on_eq_iff distinct_map)
    qed
    then show ?thesis
      by (auto simp: invitation_for_def usable_invitation_Inr split: sum.splits dest!: find_SomeD)
  qed
  show ?thesis
    using put_membership_member[OF p] members used
    by (simp add: sv t' refused_invitation(1) idle_unstamp)
qed

section \<open>Changes that are lost\<close>

text \<open>The audit row of an organization the caller does not belong to violates its policy; the
  handler ignores the error, but the transaction is aborted and its commit rolls back.\<close>

lemma audit_denied:
  "\<not> sees s o' \<Longrightarrow> sql_ignore (AAuditRepo_Record (audit_of ac (Some o') act res i d)) s = (Inr (), s\<lparr>a_aborted := True\<rparr>)"
  by (simp add: sql_ignore_eq AAuditRepo_Record_def audit_of_def aborts_def)

lemma set_invitation_sees: "sees (set_invitation i st s) o' = sees s o'" "a_aborted (set_invitation i st s) = a_aborted s"
  by (simp_all add: set_invitation_def sees_def is_org_member_def split: option.split)

lemma stamp_sees: "sees (stamp u s) o' = is_org_member s u o'"
  by (simp add: sees_def is_org_member_def)

text \<open>
  Declining an invitation answers 204 and stores nothing when the invited person is not a
  member of the organization yet: the audit row that the handler writes last is refused by the
  row-level policy, which aborts the transaction, and the commit rolls back. The invitation
  stays usable.
\<close>

theorem declining_is_lost:
  assumes "invitation_for s u token = Some v" "\<not> is_org_member s u (iv_org v)"
  shows "serve u (DeclineInvitation ac token) s = (Resp 204 JNull, s)"
proof (rule serve_aborted)
  show "run_handler (DeclineInvitation ac token) (stamp u s) =
      (Resp 204 JNull, (set_invitation (iv_id v) InvDeclined (stamp u s))\<lparr>a_aborted := True\<rparr>)"
    using assms by (simp add: run_handler_def DeclineInvitation_def h_bind_def sql_eq invitation_for_Some
        InvitationRepo_Decline_def audit_denied set_invitation_sees stamp_sees h_return_def)
qed simp

lemma deactivation_is_lost:
  assumes "app_is_platform_owner (stamp u s)" "\<not> is_org_member s u (og_id g)"
    and "OrgRepo_GetBySlug slug (stamp u s) = Inr (g, stamp u s)"
  shows "serve u (setOrgActive ac b act slug reason) s = (Resp 200 (JObj [(''org_slug'', JStr (og_slug g)), (''active'', JBool b)]), s)"
proof -
  obtain t where t: "AdminOpsRepo_SetOrgActive (og_id g) b reason (stamp u s) = Inr ((), t)"
      "a_session t = Some u" "a_members t = a_members s" "\<not> a_aborted t"
  proof -
    have "g \<in> set (a_orgs (stamp u s))" using assms(3) by (auto simp: OrgRepo_GetBySlug_def tab_select1_Inr dest!: find_SomeD)
    then obtain g' where "find (\<lambda>x. og_id x = og_id g) (a_orgs (stamp u s)) = Some g'"
      by (metis (mono_tags) find_None_iff option.exhaust)
    then have "\<exists>t. AdminOpsRepo_SetOrgActive (og_id g) b reason (stamp u s) = Inr ((), t)"
      using assms(1) by (simp add: AdminOpsRepo_SetOrgActive_def tab_update_def tx_bind_def tx_return_def)
    then obtain t where t: "AdminOpsRepo_SetOrgActive (og_id g) b reason (stamp u s) = Inr ((), t)" ..
    then have "a_session t = Some u" "a_members t = a_members s" "\<not> a_aborted t"
      by (auto simp: AdminOpsRepo_SetOrgActive_def tx_bind_Inr tab_update_Inr split: if_splits)
    with t show ?thesis by (rule that)
  qed
  have "\<not> sees t (og_id g)" using t assms(2) by (simp add: sees_def is_org_member_def)
  then show ?thesis using assms(3) t
    by (intro serve_aborted) (auto simp: run_handler_def setOrgActive_def h_bind_def sql_eq audit_denied h_return_def)
qed

lemma leaving_is_lost:
  assumes own: "is_org_owner s u (oc_org oc)" and uniq: "distinct (map (\<lambda>m. (mb_user m, mb_org m)) (a_members s))"
  shows "serve u (RemoveMember ac oc u) s = (Resp 204 JNull, s)"
proof -
  define gone where "gone = (\<lambda>m :: membership. owns (stamp u s) (mb_org m) \<and> mb_user m = u \<and> mb_org m = oc_org oc)"
  obtain m where m: "m \<in> set (a_members s)" "mb_user m = u" "mb_org m = oc_org oc"
    using own by (auto simp: is_org_owner_def)
  have own': "owns (stamp u s) (oc_org oc)" using own by (simp add: owns_def is_org_owner_def)
  have "find gone (a_members s) \<noteq> None" using m own' by (auto simp: find_None_iff gone_def)
  then have rm: "MembershipRepo_Remove u (oc_org oc) (stamp u s) =
      Inr ((), put_members (filter (\<lambda>m. \<not> gone m) (a_members s)) (stamp u s))" (is "_ = Inr ((), ?t)")
    by (auto simp: MembershipRepo_Remove_def gone_def Let_def)
  have "\<not> sees ?t (oc_org oc)" using own' by (auto simp: sees_def is_org_member_def gone_def)
  then show ?thesis using rm
    by (intro serve_aborted) (auto simp: run_handler_def RemoveMember_def h_bind_def sql_eq audit_denied h_return_def)
qed

section \<open>The member list\<close>

text \<open>
  The list of members of an organization that a caller who is no platform owner reads
  contains the caller only: the profiles that the query joins are visible to their owner alone.
\<close>

theorem member_list_shows_only_the_caller:
  assumes "\<not> app_is_platform_owner (stamp u s)" "MembershipRepo_ListByOrg o' (stamp u s) = Inr (ms, t)" "(m, p) \<in> set ms"
  shows "mb_user m = u"
  using assms by (auto simp: MembershipRepo_ListByOrg_def sees_profile_def)

section \<open>Plan limits\<close>

text \<open>The limit that counts for an organization: none without a positive one.\<close>

definition effective_limit :: "adb \<Rightarrow> uuid \<Rightarrow> dimension \<Rightarrow> int option" where
  "effective_limit s o' d = (case PlanRepo_ResolveForOrg o' s of Inl e \<Rightarrow> None
     | Inr (p, _) \<Rightarrow> (case limitFor p d of None \<Rightarrow> None | Some m \<Rightarrow> if m \<le> 0 then None else Some m))"

lemma quota_load_Inr: "quota_load o' s = Inr ((p, u), t) \<longleftrightarrow> PlanRepo_ResolveForOrg o' s = Inr (p, s) \<and> t = s \<and>
   (\<exists>c0 c. QuotaRepo_CurrentUsage o' s = Inr (c0, s) \<and>
      AIUsageRepo_GetForPeriod o' (MonthPeriod (a_clock s)) s = Inr (c, s) \<and> u = c0\<lparr>us_tokens := TotalTokens c\<rparr>)"
proof -
  have plan: "t = s" if "PlanRepo_ResolveForOrg o' s = Inr (p, t)" for p t
    using that by (auto simp: PlanRepo_ResolveForOrg_def PlanRepo_GetDefault_def tab_select1_Inr split: option.splits)
  show ?thesis
    unfolding quota_load_def tx_bind_Inr QuotaRepo_CurrentUsage_def AIUsageRepo_GetForPeriod_def
    by (auto dest: plan)
qed

lemma enforceQuota_run: "enforceQuota o' d s = (Inr x, t) \<Longrightarrow> t = s \<and> \<not> a_aborted s \<and>
    (\<exists>p u. quota_load o' s = Inr ((p, u), s) \<and>
      (case effective_limit s o' d of None \<Rightarrow> True | Some m \<Rightarrow> int64 (usageFor u d + 1) \<le> m))"
  unfolding enforceQuota_def quota_check_def h_bind_Inr sql_run tx_bind_Inr
  by (auto simp: Let_def quota_load_Inr effective_limit_def split: option.splits if_splits)

lemma enforceQuota_refuses:
  assumes "quota_load o' s = Inr ((p, u), s)" "\<not> a_aborted s" "effective_limit s o' d = Some m" "m < int64 (usageFor u d + 1)"
  shows "\<exists>b. enforceQuota o' d s = (Inl (Resp 402 b), s)"
proof -
  have lim: "limitFor p d = Some m" "0 < m"
    using assms(1,3) by (auto simp: quota_load_Inr effective_limit_def split: option.splits if_splits)
  then show ?thesis
    using assms by (simp add: enforceQuota_def quota_check_def h_bind_def sql_eq tx_bind_def Let_def h_guard_def h_respond_def tx_return_def)
qed

end
