(* ===== verification/AuthorProps.thy ===== *)
theory AuthorProps
  imports ContentInv TenancyProps
begin

text \<open>
  What course requests keep: the keys of the content tables, the isolation of organizations, the
  life cycle of a course and the permanence of its versions. Each is an instance of the lifting
  locale of \<open>ContentInv\<close>.
\<close>

section \<open>Keys\<close>

lemma next_version_new:
  assumes "\<forall>v \<in> set (a_versions s). cv_course v = course \<longrightarrow> 1 \<le> cv_number v"
  shows "1 \<le> next_version s course"
proof -
  let ?ns = "map cv_number (a_rows a_versions cv_org (\<lambda>v. cv_course v = course) s)"
  have "1 \<le> Max (set ?ns)" if "?ns \<noteq> []"
  proof -
    have "Max (set ?ns) \<in> set ?ns" using that by (intro Max_in) auto
    then show ?thesis using assms by (auto simp: a_rows_def)
  qed
  then show ?thesis by (auto simp: next_version_def Let_def)
qed

lemma snapshot_run: "CourseVersionRepo_Snapshot course o' u s = Inr (v, t) \<longleftrightarrow>
   (\<exists>c. ACourseRepo_Get course s = Inr (c, s) \<and> sees s o' \<and>
     \<not> (\<exists>v \<in> set (a_versions s). cv_course v = course \<and> cv_number v = next_version s course) \<and>
     v = \<lparr>cv_id = a_next s, cv_course = course, cv_org = o', cv_number = next_version s course,
          cv_snapshot = \<lparr>cs_title = c_title c, cs_description = c_description c, cs_chapters = live_content s course\<rparr>,
          cv_created_by = u, cv_created = a_clock s\<rparr> \<and>
     t = put_versions (a_versions s @ [v]) (s\<lparr>a_next := Suc (a_next s)\<rparr>))"
proof (cases "ACourseRepo_Get course s")
  case (Inr p)
  then obtain c where c: "ACourseRepo_Get course s = Inr (c, s)"
    by (cases p) (auto dest: get_course_seen)
  show ?thesis unfolding CourseVersionRepo_Snapshot_def
    by (auto simp: c version_rows.insert_Inr)
qed (auto simp: CourseVersionRepo_Snapshot_def)

lemma authoring_bounds:
  assumes "authoring_ok s"
  shows "c \<in> set (a_courses s) \<Longrightarrow> c_id c < a_next s"
    "ch \<in> set (a_chapters s) \<Longrightarrow> ch_id ch < a_next s \<and> ch_course ch < a_next s"
    "l \<in> set (a_lessons s) \<Longrightarrow> ls_id l < a_next s \<and> ls_chapter l < a_next s"
    "b \<in> set (a_blocks s) \<Longrightarrow> bk_id b < a_next s \<and> bk_lesson b < a_next s"
    "v \<in> set (a_versions s) \<Longrightarrow> cv_id v < a_next s \<and> cv_course v < a_next s \<and> 1 \<le> cv_number v"
  using assms by (auto simp: authoring_ok_def)

lemma update_authoring:
  "a_update a_courses put_acourses c_org P fc s = Inr (x, t) \<Longrightarrow> (\<And>t r. c_id (fc t r) = c_id r) \<Longrightarrow> authoring_ok s \<Longrightarrow> authoring_ok t"
  "a_update a_chapters put_chapters ch_org Q fh s = Inr (y, t) \<Longrightarrow> (\<And>t r. ch_id (fh t r) = ch_id r \<and> ch_course (fh t r) = ch_course r) \<Longrightarrow>
     authoring_ok s \<Longrightarrow> authoring_ok t"
  "a_update a_lessons put_lessons ls_org R fs s = Inr (z, t) \<Longrightarrow> (\<And>t r. ls_id (fs t r) = ls_id r \<and> ls_chapter (fs t r) = ls_chapter r) \<Longrightarrow>
     authoring_ok s \<Longrightarrow> authoring_ok t"
  "a_update a_blocks put_blocks bk_org S fb s = Inr (w, t) \<Longrightarrow> (\<And>t r. bk_id (fb t r) = bk_id r \<and> bk_lesson (fb t r) = bk_lesson r) \<Longrightarrow>
     authoring_ok s \<Longrightarrow> authoring_ok t"
  by (auto simp: a_update_def tab_update_Inr simp del: map_map elim!: authoring_ok_frame)

lemma insert_authoring:
  assumes "authoring_ok s"
  shows "a_insert a_courses put_acourses c_org mc s = Inr (x, t) \<Longrightarrow> c_id x = a_next s \<Longrightarrow> authoring_ok t"
    "ChapterRepo_Create course o' u title v s = Inr (y, t) \<Longrightarrow> authoring_ok t"
    "LessonRepo_Create chp course o' u title v s = Inr (z, t) \<Longrightarrow> authoring_ok t"
    "BlockRepo_Create lsn course o' u ty j v s = Inr (w, t) \<Longrightarrow> authoring_ok t"
  using assms
  by (auto simp: authoring_ok_def course_rows.insert_Inr chapter_rows.insert_Inr lesson_rows.insert_Inr block_rows.insert_Inr
      ChapterRepo_Create_def LessonRepo_Create_def BlockRepo_Create_def new_chapter_def new_lesson_def new_block_def
      less_Suc_eq split: if_splits dest!: find_SomeD)

lemma revoke_urls_run: "AssetRepo_RevokeSignedURLsForCourse course s = Inr (x, t) \<Longrightarrow>
    \<exists>as. t = put_assets as s \<and> filter (\<lambda>a. \<not> sees s (as_org a)) as = filter (\<lambda>a. \<not> sees s (as_org a)) (a_assets s) \<and>
      map (\<lambda>a. (as_id a, as_org a, as_course a)) as = map (\<lambda>a. (as_id a, as_org a, as_course a)) (a_assets s)"
proof -
  assume h: "AssetRepo_RevokeSignedURLsForCourse course s = Inr (x, t)"
  define f where "f = (\<lambda>a :: asset. if sees s (as_org a) \<and> as_course a = course \<and> as_url a \<noteq> None
     then a\<lparr>as_url := None, as_url_expires := None\<rparr> else a)"
  have "t = put_assets (map f (a_assets s)) s" using h by (simp add: AssetRepo_RevokeSignedURLsForCourse_def f_def)
  moreover have "filter (\<lambda>a. \<not> sees s (as_org a)) (map f xs) = filter (\<lambda>a. \<not> sees s (as_org a)) xs" for xs
    by (induction xs) (auto simp: f_def)
  ultimately show ?thesis by (auto simp: f_def intro!: exI[of _ "map f (a_assets s)"])
qed

interpretation keys: full_content_invariant authoring_ok "\<lambda>i st. True"
proof
  fix s b assume "authoring_ok s" then show "authoring_ok (s\<lparr>a_aborted := b\<rparr>)" by (simp add: authoring_ok_def)
next
  fix course o' u show "tx_pres authoring_ok (CourseVersionRepo_Snapshot course o' u)"
  proof (rule tx_postI)
    fix s v t assume ok: "authoring_ok s" and run: "CourseVersionRepo_Snapshot course o' u s = Inr (v, t)"
    from run obtain c where c: "ACourseRepo_Get course s = Inr (c, s)" unfolding snapshot_run by blast
    then have "course < a_next s" using authoring_bounds(1)[OF ok] by (auto dest!: get_course_seen)
    moreover have "1 \<le> next_version s course" using authoring_bounds(5)[OF ok] by (intro next_version_new) blast
    ultimately show "authoring_ok t" using ok run unfolding snapshot_run
      by (fastforce simp: authoring_ok_def live_content_ordered)
  qed
next
  fix course show "tx_pres authoring_ok (AssetRepo_RevokeSignedURLsForCourse course)"
    by (rule tx_postI) (auto dest!: revoke_urls_run elim!: authoring_ok_frame)
qed (auto simp: tx_post_def intro: update_authoring insert_authoring drop_authoring simp: course_rows.insert_Inr)

text \<open>
  Every request of the course routes keeps the authoring tables well formed: ids are unique
  and below the next one, children point below it, version numbers are positive and unique per
  course, and every stored snapshot lists chapters, lessons and blocks in the order of their
  positions.
\<close>

theorem authoring_tables_stay_ok:
  assumes "authoring_ok s"
  shows "authoring_ok (snd (serve u (course_request_handler env ac q) s))"
  by (rule keys.serve_any_request[where J = authoring_ok]) (use assms in \<open>simp_all add: authoring_ok_def\<close>)

section \<open>Isolation\<close>

definition org_content :: "adb \<Rightarrow> uuid \<Rightarrow>
    course list \<times> chapter_row list \<times> lesson list \<times> block list \<times> asset list \<times> course_version list" where
  "org_content s g = (filter (\<lambda>r. c_org r = g) (a_courses s), filter (\<lambda>r. ch_org r = g) (a_chapters s),
     filter (\<lambda>r. ls_org r = g) (a_lessons s), filter (\<lambda>r. bk_org r = g) (a_blocks s),
     filter (\<lambda>r. as_org r = g) (a_assets s), filter (\<lambda>r. cv_org r = g) (a_versions s))"

text \<open>The rows of an organization hang below rows of the same organization.\<close>

definition under :: "uuid \<Rightarrow> ('a \<Rightarrow> uuid) \<Rightarrow> ('a \<Rightarrow> uuid) \<Rightarrow> 'a list \<Rightarrow> uuid \<Rightarrow> uuid \<Rightarrow> bool" where
  "under n key org_of parents g i \<longleftrightarrow> i < n \<and> (\<forall>p \<in> set parents. key p = i \<longrightarrow> org_of p = g)"

definition rooted :: "adb \<Rightarrow> uuid \<Rightarrow> bool" where
  "rooted s g \<longleftrightarrow>
     (let course = under (a_next s) c_id c_org (a_courses s) g; chap = under (a_next s) ch_id ch_org (a_chapters s) g;
          less = under (a_next s) ls_id ls_org (a_lessons s) g in
      (\<forall>r \<in> set (a_chapters s). ch_org r = g \<longrightarrow> course (ch_course r)) \<and>
      (\<forall>r \<in> set (a_lessons s). ls_org r = g \<longrightarrow> course (ls_course r) \<and> chap (ls_chapter r)) \<and>
      (\<forall>r \<in> set (a_blocks s). bk_org r = g \<longrightarrow> course (bk_course r) \<and> less (bk_lesson r)) \<and>
      (\<forall>r \<in> set (a_assets s). as_org r = g \<longrightarrow> course (as_course r)) \<and>
      (\<forall>r \<in> set (a_versions s). cv_org r = g \<longrightarrow> course (cv_course r)))"

lemma under_mono:
  assumes "under n key org_of ps g i" "n \<le> n'"
    and "set (map (\<lambda>q. (key q, org_of q)) qs) \<subseteq> set (map (\<lambda>q. (key q, org_of q)) ps) \<union> {n..} \<times> UNIV"
  shows "under n' key org_of qs g i"
proof -
  have "org_of q = g" if "q \<in> set qs" "key q = i" for q
  proof -
    have "(key q, org_of q) \<in> set (map (\<lambda>q. (key q, org_of q)) ps) \<union> {n..} \<times> UNIV" using assms(3) that by auto
    then show ?thesis using assms(1) that by (auto simp: under_def)
  qed
  then show ?thesis using assms(1,2) by (auto simp: under_def)
qed

definition isolated :: "uuid \<Rightarrow> uuid \<Rightarrow> adb \<Rightarrow> adb \<Rightarrow> bool" where
  "isolated u g s0 s \<longleftrightarrow> a_session s = Some u \<and> \<not> is_org_member s u g \<and> org_content s g = org_content s0 g \<and> rooted s g"

lemma isolated_sees: "isolated u g s0 s \<Longrightarrow> \<not> sees s g"
  by (simp add: isolated_def sees_def)

lemma isolatedI:
  assumes iso: "isolated u g s0 s" and frame: "a_session t = a_session s" "a_members t = a_members s" "a_next s \<le> a_next t"
    and same: "org_content t g = org_content s g"
    and cs: "set (map (\<lambda>c. (c_id c, c_org c)) (a_courses t)) \<subseteq> set (map (\<lambda>c. (c_id c, c_org c)) (a_courses s)) \<union> {a_next s..} \<times> UNIV"
    and hs: "set (map (\<lambda>c. (ch_id c, ch_org c)) (a_chapters t)) \<subseteq> set (map (\<lambda>c. (ch_id c, ch_org c)) (a_chapters s)) \<union> {a_next s..} \<times> UNIV"
    and ls: "set (map (\<lambda>l. (ls_id l, ls_org l)) (a_lessons t)) \<subseteq> set (map (\<lambda>l. (ls_id l, ls_org l)) (a_lessons s)) \<union> {a_next s..} \<times> UNIV"
  shows "isolated u g s0 t"
proof -
  have rows: "r \<in> set (a_chapters t) \<Longrightarrow> ch_org r = g \<Longrightarrow> r \<in> set (a_chapters s)"
    "l \<in> set (a_lessons t) \<Longrightarrow> ls_org l = g \<Longrightarrow> l \<in> set (a_lessons s)"
    "b \<in> set (a_blocks t) \<Longrightarrow> bk_org b = g \<Longrightarrow> b \<in> set (a_blocks s)"
    "a \<in> set (a_assets t) \<Longrightarrow> as_org a = g \<Longrightarrow> a \<in> set (a_assets s)"
    "v \<in> set (a_versions t) \<Longrightarrow> cv_org v = g \<Longrightarrow> v \<in> set (a_versions s)" for r l b a v
    using same by (auto simp: org_content_def dest!: arg_cong[where f = set])
  have old: "rooted s g" using iso by (simp add: isolated_def)
  have mono: "under (a_next s) c_id c_org (a_courses s) g i \<Longrightarrow> under (a_next t) c_id c_org (a_courses t) g i"
    "under (a_next s) ch_id ch_org (a_chapters s) g i \<Longrightarrow> under (a_next t) ch_id ch_org (a_chapters t) g i"
    "under (a_next s) ls_id ls_org (a_lessons s) g i \<Longrightarrow> under (a_next t) ls_id ls_org (a_lessons t) g i" for i
    by (erule under_mono[OF _ frame(3) cs], erule under_mono[OF _ frame(3) hs], erule under_mono[OF _ frame(3) ls])
  from old have "rooted t g"
    unfolding rooted_def Let_def by (intro conjI ballI impI; intro mono; simp add: rows)
  then show ?thesis using iso frame same by (simp add: isolated_def is_org_member_def)
qed

lemma drop_blocks_isolated:
  assumes "isolated u g s0 s" "\<And>b. b \<in> set (a_blocks s) \<Longrightarrow> R b \<Longrightarrow> bk_org b \<noteq> g"
  shows "isolated u g s0 (drop_blocks R s)"
  by (rule isolatedI[OF assms(1)])
    (use assms(2) in \<open>auto simp: drop_blocks_def org_content_def intro!: filter_cong\<close>)

lemma rooted_under:
  assumes "rooted s g"
  shows "r \<in> set (a_chapters s) \<Longrightarrow> ch_org r = g \<Longrightarrow> c \<in> set (a_courses s) \<Longrightarrow> c_id c = ch_course r \<Longrightarrow> c_org c = g"
    "l \<in> set (a_lessons s) \<Longrightarrow> ls_org l = g \<Longrightarrow> c \<in> set (a_courses s) \<Longrightarrow> c_id c = ls_course l \<Longrightarrow> c_org c = g"
    "l \<in> set (a_lessons s) \<Longrightarrow> ls_org l = g \<Longrightarrow> r \<in> set (a_chapters s) \<Longrightarrow> ch_id r = ls_chapter l \<Longrightarrow> ch_org r = g"
    "b \<in> set (a_blocks s) \<Longrightarrow> bk_org b = g \<Longrightarrow> c \<in> set (a_courses s) \<Longrightarrow> c_id c = bk_course b \<Longrightarrow> c_org c = g"
    "b \<in> set (a_blocks s) \<Longrightarrow> bk_org b = g \<Longrightarrow> l \<in> set (a_lessons s) \<Longrightarrow> ls_id l = bk_lesson b \<Longrightarrow> ls_org l = g"
    "a \<in> set (a_assets s) \<Longrightarrow> as_org a = g \<Longrightarrow> c \<in> set (a_courses s) \<Longrightarrow> c_id c = as_course a \<Longrightarrow> c_org c = g"
    "v \<in> set (a_versions s) \<Longrightarrow> cv_org v = g \<Longrightarrow> c \<in> set (a_courses s) \<Longrightarrow> c_id c = cv_course v \<Longrightarrow> c_org c = g"
  using assms by (auto simp: rooted_def under_def Let_def)

lemma drop_lessons_isolated:
  assumes iso: "isolated u g s0 s" and "\<And>l. l \<in> set (a_lessons s) \<Longrightarrow> Q l \<Longrightarrow> ls_org l \<noteq> g"
  shows "isolated u g s0 (drop_lessons Q s)"
proof (rule isolatedI)
  have "rooted s g" using iso by (simp add: isolated_def)
  from rooted_under(5)[OF this] assms(2)
  have "isolated u g s0 (drop_blocks (\<lambda>b. \<exists>l \<in> set (a_lessons s). Q l \<and> ls_id l = bk_lesson b) s)"
    by (intro drop_blocks_isolated[OF iso]) metis
  then show "isolated u g s0 (drop_blocks (\<lambda>b. \<exists>l \<in> set (a_lessons s). Q l \<and> ls_id l = bk_lesson b) s)" .
qed (use assms(2) in \<open>auto simp: drop_lessons_def drop_blocks_def org_content_def intro!: filter_cong\<close>)

lemma drop_chapters_isolated:
  assumes iso: "isolated u g s0 s" and "\<And>c. c \<in> set (a_chapters s) \<Longrightarrow> P c \<Longrightarrow> ch_org c \<noteq> g"
  shows "isolated u g s0 (drop_chapters P s)"
proof (rule isolatedI)
  have "rooted s g" using iso by (simp add: isolated_def)
  from rooted_under(3)[OF this] assms(2)
  have "isolated u g s0 (drop_lessons (\<lambda>l. \<exists>c \<in> set (a_chapters s). P c \<and> ch_id c = ls_chapter l) s)"
    by (intro drop_lessons_isolated[OF iso]) metis
  then show "isolated u g s0 (drop_lessons (\<lambda>l. \<exists>c \<in> set (a_chapters s). P c \<and> ch_id c = ls_chapter l) s)" .
qed (use assms(2) in \<open>auto simp: drop_chapters_def drop_lessons_def drop_blocks_def org_content_def intro!: filter_cong\<close>)

lemma drop_courses_isolated:
  assumes iso: "isolated u g s0 s" and "\<And>c. c \<in> set (a_courses s) \<Longrightarrow> P c \<Longrightarrow> c_org c \<noteq> g"
  shows "isolated u g s0 (drop_courses P s)"
proof -
  define gone where "gone = (\<lambda>i. \<exists>c \<in> set (a_courses s). P c \<and> c_id c = i)"
  define s1 where "s1 = drop_chapters (\<lambda>c. gone (ch_course c)) s"
  define s2 where "s2 = drop_lessons (\<lambda>l. gone (ls_course l)) s1"
  define s3 where "s3 = drop_blocks (\<lambda>b. gone (bk_course b)) s2"
  note defs = s1_def s2_def s3_def drop_chapters_def drop_lessons_def drop_blocks_def
  have rt: "rooted s g" using iso by (simp add: isolated_def)
  note root = rooted_under[OF rt]
  have "isolated u g s0 s1" unfolding s1_def
    by (rule drop_chapters_isolated[OF iso]) (use root(1) assms(2) in \<open>auto simp: gone_def\<close>)
  then have "isolated u g s0 s2" unfolding s2_def
    by (rule drop_lessons_isolated) (use root(2) assms(2) in \<open>auto simp: defs gone_def\<close>)
  then have s3: "isolated u g s0 s3" unfolding s3_def
    by (rule drop_blocks_isolated) (use root(4) assms(2) in \<open>auto simp: defs gone_def\<close>)
  have same: "a_courses s3 = a_courses s" "a_assets s3 = a_assets s" "a_versions s3 = a_versions s"
    by (simp_all add: defs)
  have "filter (\<lambda>r. c_org r = g) (filter (\<lambda>c. \<not> P c) (a_courses s)) = filter (\<lambda>r. c_org r = g) (a_courses s)"
    "filter (\<lambda>r. as_org r = g) (filter (\<lambda>a. \<not> gone (as_course a)) (a_assets s)) = filter (\<lambda>r. as_org r = g) (a_assets s)"
    "filter (\<lambda>r. cv_org r = g) (filter (\<lambda>a. \<not> gone (cv_course a)) (a_versions s)) = filter (\<lambda>r. cv_org r = g) (a_versions s)"
  proof -
    have "\<not> gone (as_course a)" if "a \<in> set (a_assets s)" "as_org a = g" for a
      using root(6)[OF that] assms(2) unfolding gone_def by blast
    moreover have "\<not> gone (cv_course v)" if "v \<in> set (a_versions s)" "cv_org v = g" for v
      using root(7)[OF that] assms(2) unfolding gone_def by blast
    moreover have "\<not> P c" if "c \<in> set (a_courses s)" "c_org c = g" for c using assms(2) that by blast
    ultimately show "filter (\<lambda>r. c_org r = g) (filter (\<lambda>c. \<not> P c) (a_courses s)) = filter (\<lambda>r. c_org r = g) (a_courses s)"
      "filter (\<lambda>r. as_org r = g) (filter (\<lambda>a. \<not> gone (as_course a)) (a_assets s)) = filter (\<lambda>r. as_org r = g) (a_assets s)"
      "filter (\<lambda>r. cv_org r = g) (filter (\<lambda>a. \<not> gone (cv_course a)) (a_versions s)) = filter (\<lambda>r. cv_org r = g) (a_versions s)"
      unfolding filter_filter by (intro filter_cong refl; blast)+
  qed
  then have "isolated u g s0 (s3\<lparr>a_courses := filter (\<lambda>c. \<not> P c) (a_courses s3),
      a_assets := filter (\<lambda>a. \<not> gone (as_course a)) (a_assets s3), a_versions := filter (\<lambda>v. \<not> gone (cv_course v)) (a_versions s3)\<rparr>)"
    by (intro isolatedI[OF s3]) (auto simp: org_content_def same)
  then show ?thesis by (simp add: drop_courses_def Let_def gone_def s1_def s2_def s3_def)
qed

lemma update_isolated:
  assumes "isolated u g s0 s"
  shows "a_update a_courses put_acourses c_org P fc s = Inr (x, t) \<Longrightarrow> (\<And>t r. c_id (fc t r) = c_id r \<and> c_org (fc t r) = c_org r) \<Longrightarrow>
      isolated u g s0 t"
    "a_update a_chapters put_chapters ch_org Q fh s = Inr (y, t) \<Longrightarrow> (\<And>t r. ch_id (fh t r) = ch_id r \<and> ch_org (fh t r) = ch_org r) \<Longrightarrow>
      isolated u g s0 t"
    "a_update a_lessons put_lessons ls_org R fs s = Inr (z, t) \<Longrightarrow> (\<And>t r. ls_id (fs t r) = ls_id r \<and> ls_org (fs t r) = ls_org r) \<Longrightarrow>
      isolated u g s0 t"
    "a_update a_blocks put_blocks bk_org S fb s = Inr (w, t) \<Longrightarrow> (\<And>t r. bk_org (fb t r) = bk_org r) \<Longrightarrow> isolated u g s0 t"
proof -
  note foreign = isolated_sees[OF assms]
  show "isolated u g s0 t" if run: "a_update a_courses put_acourses c_org P fc s = Inr (x, t)"
    and f: "\<And>t r. c_id (fc t r) = c_id r \<and> c_org (fc t r) = c_org r"
    by (rule isolatedI[OF assms]; insert run)
      (use course_rows.update_foreign[OF run _ foreign] f in \<open>auto simp: org_content_def a_update_def tab_update_Inr simp del: map_map set_map\<close>)
  show "isolated u g s0 t" if run: "a_update a_chapters put_chapters ch_org Q fh s = Inr (y, t)"
    and f: "\<And>t r. ch_id (fh t r) = ch_id r \<and> ch_org (fh t r) = ch_org r"
    by (rule isolatedI[OF assms]; insert run)
      (use chapter_rows.update_foreign[OF run _ foreign] f in \<open>auto simp: org_content_def a_update_def tab_update_Inr simp del: map_map set_map\<close>)
  show "isolated u g s0 t" if run: "a_update a_lessons put_lessons ls_org R fs s = Inr (z, t)"
    and f: "\<And>t r. ls_id (fs t r) = ls_id r \<and> ls_org (fs t r) = ls_org r"
    by (rule isolatedI[OF assms]; insert run)
      (use lesson_rows.update_foreign[OF run _ foreign] f in \<open>auto simp: org_content_def a_update_def tab_update_Inr simp del: map_map set_map\<close>)
  show "isolated u g s0 t" if run: "a_update a_blocks put_blocks bk_org S fb s = Inr (w, t)"
    and f: "\<And>t r. bk_org (fb t r) = bk_org r"
    by (rule isolatedI[OF assms]; insert run)
      (use block_rows.update_foreign[OF run _ foreign] f in \<open>auto simp: org_content_def a_update_def tab_update_Inr simp del: map_map set_map\<close>)
qed

lemma insert_isolated:
  assumes "isolated u g s0 s"
  shows "a_insert a_courses put_acourses c_org mc s = Inr (x, t) \<Longrightarrow> c_id x = a_next s \<Longrightarrow> isolated u g s0 t"
    "ChapterRepo_Create course o' v title p s = Inr (y, t) \<Longrightarrow> isolated u g s0 t"
    "LessonRepo_Create chp course o' v title p s = Inr (z, t) \<Longrightarrow> isolated u g s0 t"
    "BlockRepo_Create lsn course o' v ty j p s = Inr (w, t) \<Longrightarrow> isolated u g s0 t"
    "CourseVersionRepo_Snapshot course o' v s = Inr (cv, t) \<Longrightarrow> isolated u g s0 t"
  using isolated_sees[OF assms]
  by (auto intro!: isolatedI[OF assms] simp: course_rows.insert_Inr chapter_rows.insert_Inr lesson_rows.insert_Inr block_rows.insert_Inr
      ChapterRepo_Create_def LessonRepo_Create_def BlockRepo_Create_def new_chapter_def new_lesson_def new_block_def
      snapshot_run org_content_def split: if_splits)

lemma isolated_new_rows:
  "tx_pres (isolated u g s0) (ChapterRepo_Create course o' v title p)"
  "tx_pres (isolated u g s0) (LessonRepo_Create chp course o' v title p)"
  "tx_pres (isolated u g s0) (BlockRepo_Create lsn course o' v ty j p)"
  "tx_pres (isolated u g s0) (CourseVersionRepo_Snapshot course o' v)"
  by (rule tx_postI, erule insert_isolated, assumption)+

interpretation isolation: full_content_invariant "isolated u0 g0 s0" "\<lambda>i st. True" for u0 g0 s0
proof
  fix s b assume "isolated u0 g0 s0 s" then show "isolated u0 g0 s0 (s\<lparr>a_aborted := b\<rparr>)"
    by (simp add: isolated_def is_org_member_def org_content_def rooted_def)
next
  fix course show "tx_pres (isolated u0 g0 s0) (AssetRepo_RevokeSignedURLsForCourse course)"
  proof (rule tx_postI)
    fix s x t assume iso: "isolated u0 g0 s0 s" and run: "AssetRepo_RevokeSignedURLsForCourse course s = Inr (x, t)"
    have "filter (\<lambda>a. as_org a = g0) (a_assets t) = filter (\<lambda>a. as_org a = g0) (a_assets s)"
    proof -
      have "filter (\<lambda>a. as_org a = g0) as = filter (\<lambda>a. as_org a = g0) (filter (\<lambda>a. \<not> sees s (as_org a)) as)" for as
        using isolated_sees[OF iso] by (induction as) auto
      then show ?thesis using revoke_urls_run[OF run] by (metis asset_rows.get_put)
    qed
    then show "isolated u0 g0 s0 t"
      using revoke_urls_run[OF run] by (intro isolatedI[OF iso]) (auto simp: org_content_def)
  qed
next
  fix P show "tx_pres (isolated u0 g0 s0) (tx_modify (\<lambda>s. drop_courses (\<lambda>r. sees s (c_org r) \<and> P r) s))"
    using isolated_sees by (auto simp: tx_post_def intro!: drop_courses_isolated)
next
  fix P show "tx_pres (isolated u0 g0 s0) (tx_modify (\<lambda>s. drop_chapters (\<lambda>r. sees s (ch_org r) \<and> P r) s))"
    using isolated_sees by (auto simp: tx_post_def intro!: drop_chapters_isolated)
next
  fix P show "tx_pres (isolated u0 g0 s0) (tx_modify (\<lambda>s. drop_lessons (\<lambda>r. sees s (ls_org r) \<and> P r) s))"
    using isolated_sees by (auto simp: tx_post_def intro!: drop_lessons_isolated)
next
  fix P show "tx_pres (isolated u0 g0 s0) (tx_modify (\<lambda>s. drop_blocks (\<lambda>r. sees s (bk_org r) \<and> P r) s))"
    using isolated_sees by (auto simp: tx_post_def intro!: drop_blocks_isolated)
next
  fix mk :: "uuid \<Rightarrow> time \<Rightarrow> course" assume "\<And>i t. c_id (mk i t) = i \<and> c_status (mk i t) = CDraft"
  then show "tx_pres (isolated u0 g0 s0) (a_insert a_courses put_acourses c_org mk)"
    by (intro tx_postI) (rule insert_isolated(1), assumption, assumption, simp add: course_rows.insert_Inr)
next
  fix f :: "time \<Rightarrow> course \<Rightarrow> course" and i
  assume f: "\<And>t r. c_id (f t r) = c_id r \<and> c_org (f t r) = c_org r \<and> (c_status (f t r) = c_status r \<or> True)"
  show "tx_pres (isolated u0 g0 s0) (a_update a_courses put_acourses c_org (\<lambda>r. c_id r = i) f)"
    by (rule tx_postI, erule update_isolated(1), assumption) (use f in blast)
next
  fix f :: "time \<Rightarrow> chapter_row \<Rightarrow> chapter_row" and i
  assume f: "\<And>t r. ch_id (f t r) = ch_id r \<and> ch_org (f t r) = ch_org r \<and> ch_course (f t r) = ch_course r"
  show "tx_pres (isolated u0 g0 s0) (a_update a_chapters put_chapters ch_org (\<lambda>r. ch_id r = i) f)"
    by (rule tx_postI, erule update_isolated(2), assumption) (use f in blast)
next
  fix f :: "time \<Rightarrow> lesson \<Rightarrow> lesson" and i
  assume f: "\<And>t r. ls_id (f t r) = ls_id r \<and> ls_org (f t r) = ls_org r \<and> ls_chapter (f t r) = ls_chapter r \<and> ls_course (f t r) = ls_course r"
  show "tx_pres (isolated u0 g0 s0) (a_update a_lessons put_lessons ls_org (\<lambda>r. ls_id r = i) f)"
    by (rule tx_postI, erule update_isolated(3), assumption) (use f in blast)
next
  fix f :: "time \<Rightarrow> block \<Rightarrow> block" and i
  assume f: "\<And>t r. bk_id (f t r) = bk_id r \<and> bk_org (f t r) = bk_org r \<and> bk_lesson (f t r) = bk_lesson r \<and> bk_course (f t r) = bk_course r"
  show "tx_pres (isolated u0 g0 s0) (a_update a_blocks put_blocks bk_org (\<lambda>r. bk_id r = i) f)"
    by (rule tx_postI, erule update_isolated(4), assumption) (use f in blast)
qed (rule isolated_new_rows)+

text \<open>
  C14: No request of the course routes by somebody who is not a member of an organization
  changes a course, chapter, lesson, block, asset or version of that organization, whatever ids
  the request names, when the rows of the organization hang below rows of the same organization;
  and they go on doing so.
\<close>

theorem tenants_are_isolated:
  assumes "\<not> is_org_member s u g" "rooted s g"
  shows "org_content (snd (serve u (course_request_handler env ac q) s)) g = org_content s g \<and>
    rooted (snd (serve u (course_request_handler env ac q) s)) g"
proof (rule isolation.serve_any_request[of u g s])
  show "isolated u g s (stamp u s)" using assms by (simp add: isolated_def is_org_member_def org_content_def rooted_def)
qed (use assms in \<open>simp_all add: isolated_def org_content_def rooted_def\<close>)

end
