(* ===== verification/AuthorLife.thy ===== *)
theory AuthorLife
  imports AuthorProps
begin

text \<open>
  The life of a course: who may author it, which statuses follow which, what publishing
  guarantees, and what the scheduled sweep does.
\<close>

section \<open>Who may author\<close>

text \<open>
  A request to the routes of a course that answers without an error, or that changes
  anything, was made by an owner or teacher of the organization of the course, or by a platform
  owner.
\<close>

theorem course_route_authorised:
  assumes "serve (ac_user ac) (course_route env ac i a) s = (r, s')"
    and "http_status r < 400 \<or> s' \<noteq> s" and "idle s"
  shows "\<exists>c \<in> set (a_courses s). c_id c = i \<and>
     ((\<exists>m \<in> set (a_members s). mb_user m = ac_user ac \<and> mb_org m = c_org c \<and> mb_role m \<in> {Owner, Teacher}) \<or>
      (\<exists>p \<in> set (a_profiles s). pf_id p = ac_user ac \<and> pf_platform_owner p))"
proof -
  let ?s = "stamp (ac_user ac) s"
  let ?guard = "h_bind (ResolveCourseOrg ac i) (\<lambda>(c, oc). h_bind (RequireRole {Owner, Teacher} oc) (\<lambda>_. h_return (c, oc)))"
  have route: "course_route env ac i a = h_bind ?guard (\<lambda>(c, oc). course_handler env ac c a)"
    unfolding course_route_def by (rule ext) (auto simp: h_bind_def h_return_def split: prod.splits sum.splits)
  obtain x t where g: "?guard ?s = (Inr x, t)"
  proof (rule guarded_request[OF assms(1)[unfolded route] assms(2,3)])
    show "h_pres (same_but_aborted ?s) ?guard"
      by (intro h_pres_bind ResolveCourseOrg_reads)
        (auto simp: RequireRole_def split: prod.splits intro!: h_pres_bind h_pres_guard h_pres_return)
    show "400 \<le> http_status r'" if "?guard ?s = (Inl r', t')" for r' t'
      using that unfolding h_bind_Inl h_bind_Inr
      by (auto simp: RequireRole_def h_bind_Inl split: prod.splits dest: ResolveCourseOrg_error)
  qed
  from g obtain c oc where res: "ResolveCourseOrg ac i ?s = (Inr (c, oc), t)"
    and role: "oc_platform oc \<or> (\<exists>r. oc_role oc = Some r \<and> r \<in> {Owner, Teacher})"
    unfolding h_bind_Inr by (auto simp: RequireRole_run h_bind_Inr split: prod.splits)
  from res have c: "c \<in> set (a_courses s)" "c_id c = i"
    and st: "stampOrgContext ac (c_org c) ''course not found'' ?s = (Inr oc, t)"
    unfolding ResolveCourseOrg_def h_bind_Inr sql_run by (auto dest!: get_course_seen)
  from st obtain ro where cr: "caller_role ac (c_org c) ?s = (Inr ro, ?s)"
    unfolding stampOrgContext_def h_bind_Inr by (auto dest: caller_role_run)
  show ?thesis
  proof (cases ro)
    case None
    then have "h_bind (sql_attempt (ProfileRepo_GetByID (ac_user ac))) (\<lambda>p. case p of
           Inl e \<Rightarrow> h_respond (RespErr 404 ''course not found'')
         | Inr p \<Rightarrow> if pf_platform_owner p
             then h_return \<lparr>oc_org = c_org c, oc_slug = [], oc_role = None, oc_platform = True\<rparr>
             else h_respond (RespErr 404 ''course not found'')) ?s = (Inr oc, t)"
      using st by (simp add: stampOrgContext_def h_bind_def[of "caller_role ac (c_org c)"] cr)
    then have "\<exists>p s2. ProfileRepo_GetByID (ac_user ac) ?s = Inr (p, s2) \<and> pf_platform_owner p"
      unfolding attempt_bind_run by (auto split: if_splits)
    then show ?thesis using c by (auto simp: ProfileRepo_GetByID_def tab_select1_Inr dest!: find_SomeD)
  next
    case (Some rr)
    then have "oc_role oc = Some rr" "\<not> oc_platform oc"
      using st cr unfolding stampOrgContext_def h_bind_Inr by auto
    then show ?thesis using role caller_role_run[OF cr] Some c by fastforce
  qed
qed

section \<open>Which status follows which\<close>

definition course_edge :: "course_status \<Rightarrow> course_status \<Rightarrow> bool" where
  "course_edge a b \<longleftrightarrow> b \<in> set (validTransitions a) \<or> a = CUnpublished \<and> b = CPublished"

text \<open>Every course has kept its organization and gone at most along one edge, or is new.\<close>

definition follows :: "adb \<Rightarrow> course \<Rightarrow> bool" where
  "follows s0 c \<longleftrightarrow> a_next s0 \<le> c_id c \<and> c_status c = CDraft \<or>
     (\<exists>c0 \<in> set (a_courses s0). c_id c0 = c_id c \<and> c_org c0 = c_org c \<and>
        (c_status c = c_status c0 \<or> course_edge (c_status c0) (c_status c)))"

definition edges_from :: "adb \<Rightarrow> adb \<Rightarrow> bool" where
  "edges_from s0 s \<longleftrightarrow> a_next s0 \<le> a_next s \<and> (\<forall>c \<in> set (a_courses s). follows s0 c)"

definition may_become :: "adb \<Rightarrow> uuid \<Rightarrow> course_status \<Rightarrow> bool" where
  "may_become s0 i st \<longleftrightarrow> i < a_next s0 \<and> (\<forall>c \<in> set (a_courses s0). c_id c = i \<longrightarrow> course_edge (c_status c) st)"

lemma edges_from_frame: "edges_from s0 s \<Longrightarrow> a_next s \<le> a_next t \<Longrightarrow> set (a_courses t) \<subseteq> set (a_courses s) \<Longrightarrow> edges_from s0 t"
  by (fastforce simp: edges_from_def)

lemma edges_update:
  assumes "edges_from s0 s" "a_update a_courses put_acourses c_org (\<lambda>r. c_id r = i) f s = Inr (x, t)"
    and "\<And>t r. c_id (f t r) = c_id r \<and> c_org (f t r) = c_org r \<and> (c_status (f t r) = c_status r \<or> may_become s0 i (c_status (f t r)))"
  shows "edges_from s0 t"
proof -
  have step: "follows s0 (f k r)" if "r \<in> set (a_courses s)" "c_id r = i" for r k
  proof -
    have "follows s0 r" using assms(1) that by (simp add: edges_from_def)
    then show ?thesis using that assms(3)[of k r] by (fastforce simp: follows_def may_become_def)
  qed
  obtain r0 where t: "t = put_acourses (map (\<lambda>r. if sees s (c_org r) \<and> c_id r = i then f (a_clock s) r else r) (a_courses s)) s"
    using assms(2) by (auto simp: a_update_def tab_update_Inr)
  have "follows s0 c" if "c \<in> set (a_courses t)" for c
    using that step assms(1) unfolding t by (auto simp: edges_from_def split: if_splits)
  then show ?thesis using assms(1) by (simp add: edges_from_def t)
qed

interpretation life: full_content_invariant "edges_from s0" "may_become s0" for s0
proof
  fix f :: "time \<Rightarrow> course \<Rightarrow> course" and i
  assume f: "\<And>t r. c_id (f t r) = c_id r \<and> c_org (f t r) = c_org r \<and> (c_status (f t r) = c_status r \<or> may_become s0 i (c_status (f t r)))"
  show "tx_pres (edges_from s0) (a_update a_courses put_acourses c_org (\<lambda>r. c_id r = i) f)"
    by (rule tx_postI, erule edges_update, assumption, rule f)
next
  fix course show "tx_pres (edges_from s0) (AssetRepo_RevokeSignedURLsForCourse course)"
    by (rule tx_postI, erule edges_from_frame) (auto dest: revoke_urls_run)
next
  fix course o' u show "tx_pres (edges_from s0) (CourseVersionRepo_Snapshot course o' u)"
    by (rule tx_postI, erule edges_from_frame) (auto simp: snapshot_run)
next
  fix mk :: "uuid \<Rightarrow> time \<Rightarrow> course" assume "\<And>i t. c_id (mk i t) = i \<and> c_status (mk i t) = CDraft"
  then show "tx_pres (edges_from s0) (a_insert a_courses put_acourses c_org mk)"
    by (auto simp: tx_post_def course_rows.insert_Inr edges_from_def follows_def)
next
  fix P show "tx_pres (edges_from s0) (tx_modify (\<lambda>s. drop_courses (\<lambda>r. sees s (c_org r) \<and> P r) s))"
    by (rule tx_postI, erule edges_from_frame)
      (auto simp: drop_courses_def drop_chapters_def drop_lessons_def drop_blocks_def Let_def)
qed (auto simp: tx_post_def a_update_def tab_update_Inr drop_chapters_def drop_lessons_def drop_blocks_def
      chapter_rows.insert_Inr lesson_rows.insert_Inr block_rows.insert_Inr ChapterRepo_Create_def LessonRepo_Create_def
      BlockRepo_Create_def edges_from_def split: if_splits)

text \<open>
  C19: Whatever request of the course routes is served, each course afterwards is a new draft,
  or was there before in the same organization and has kept its status or gone along one edge of
  the transition table (publishing an unpublished course again included).
\<close>

theorem course_life_cycle:
  assumes "authoring_ok s" "c' \<in> set (a_courses (snd (serve u (course_request_handler env ac q) s)))"
  shows "(a_next s \<le> c_id c' \<and> c_status c' = CDraft) \<or>
    (\<exists>c \<in> set (a_courses s). c_id c = c_id c' \<and> c_org c = c_org c' \<and>
       (c_status c' = c_status c \<or> course_edge (c_status c) (c_status c')))"
proof -
  have same: "c = d" if "c \<in> set (a_courses s)" "d \<in> set (a_courses s)" "c_id c = c_id d" for c d
    using assms(1) that by (auto simp: authoring_ok_def dest: inj_onD simp: distinct_map)
  have "edges_from s (snd (serve u (course_request_handler env ac q) s))"
    by (rule life.serve_any_request[of s])
      (use same authoring_bounds(1)[OF assms(1)] in \<open>auto simp: edges_from_def follows_def may_become_def course_edge_def dest: same\<close>)
  then show ?thesis using assms(2) unfolding edges_from_def follows_def by blast
qed

section \<open>Versions\<close>

definition extends_versions :: "adb \<Rightarrow> adb \<Rightarrow> bool" where
  "extends_versions s0 s \<longleftrightarrow> (\<exists>vs. a_versions s = a_versions s0 @ vs)"

lemma extends_versions_frame: "extends_versions s0 s \<Longrightarrow> a_versions t = a_versions s \<Longrightarrow> extends_versions s0 t"
  by (simp add: extends_versions_def)

interpretation history: content_invariant "extends_versions s0" "\<lambda>i st. True" for s0
proof
  fix course o' u show "tx_pres (extends_versions s0) (CourseVersionRepo_Snapshot course o' u)"
    by (rule tx_postI) (auto simp: snapshot_run extends_versions_def)
next
  fix course show "tx_pres (extends_versions s0) (AssetRepo_RevokeSignedURLsForCourse course)"
    by (rule tx_postI, erule extends_versions_frame) (auto dest: revoke_urls_run)
qed (auto simp: tx_post_def a_update_def tab_update_Inr drop_chapters_def drop_lessons_def drop_blocks_def course_rows.insert_Inr
      chapter_rows.insert_Inr lesson_rows.insert_Inr block_rows.insert_Inr ChapterRepo_Create_def LessonRepo_Create_def
      BlockRepo_Create_def elim!: extends_versions_frame split: if_splits)

text \<open>
  No request of the course routes other than the deletion of a course changes or removes a
  recorded version, and the number of a version stays unique within its course.
\<close>

theorem versions_are_permanent:
  assumes "authoring_ok s" "\<forall>i. q \<noteq> CrCourse i CDelete" "v \<in> set (a_versions s)"
  shows "let s' = snd (serve u (course_request_handler env ac q) s) in v \<in> set (a_versions s') \<and>
    (\<forall>w \<in> set (a_versions s'). cv_course w = cv_course v \<longrightarrow> cv_number w = cv_number v \<longrightarrow> w = v)"
proof -
  let ?s' = "snd (serve u (course_request_handler env ac q) s)"
  have "extends_versions s (snd (course_request_handler env ac q (stamp u s)))"
    by (rule history.keeps_request) (use assms(2) in \<open>simp_all add: extends_versions_def\<close>)
  then have "extends_versions s ?s'"
    by (auto simp: serve_def Let_def run_handler_def extends_versions_def split: prod.splits sum.splits)
  then have v: "v \<in> set (a_versions ?s')" using assms(3) by (auto simp: extends_versions_def)
  have "distinct (map (\<lambda>v. (cv_course v, cv_number v)) (a_versions ?s'))"
  proof -
    have "authoring_ok ?s'"
      by (rule keys.serve_any_request[where J = authoring_ok]) (use assms(1) in \<open>simp_all add: authoring_ok_def\<close>)
    then show ?thesis by (simp add: authoring_ok_def)
  qed
  then show ?thesis using v by (auto simp: Let_def distinct_map dest: inj_onD)
qed

section \<open>Publishing\<close>

lemma a_rows_frame: "a_session t = a_session s \<Longrightarrow> a_members t = a_members s \<Longrightarrow> g t = g s \<Longrightarrow> a_rows g o_of P t = a_rows g o_of P s"
  by (simp add: a_rows_def sees_def is_org_member_def cong: option.case_cong)

lemma live_content_frame:
  assumes "a_session t = a_session s" "a_members t = a_members s"
    "a_chapters t = a_chapters s" "a_lessons t = a_lessons s" "a_blocks t = a_blocks s"
  shows "live_content t i = live_content s i"
proof -
  have "snap_lesson t = snap_lesson s"
    by (rule ext) (simp add: snap_lesson_def a_rows_frame[OF assms(1,2,5)])
  then have "snap_chapter t = snap_chapter s"
    by (intro ext) (simp add: snap_chapter_def a_rows_frame[OF assms(1,2,4)])
  then show ?thesis by (simp add: live_content_def a_rows_frame[OF assms(1,2,3)])
qed

lemma course_update_run:
  assumes "a_update a_courses put_acourses c_org P f s = Inr (c', t)"
  shows "t = put_acourses (a_courses t) s" "c' \<in> set (a_courses t)"
    "\<exists>r \<in> set (a_courses s). P r \<and> sees s (c_org r) \<and> c' = f (a_clock s) r"
  using assms by (force simp: a_update_def tab_update_Inr dest!: find_SomeD)+

lemma collect_not_ready_run:
  "collect_not_ready bs s = (Inr [], t) \<Longrightarrow> t = s \<and>
    (\<forall>b \<in> set bs. \<exists>a. AssetRepo_Get (video_asset (bk_content b)) s = Inr (a, s) \<and> as_status a = ProcReady)"
proof (induction bs)
  case (Cons b bs)
  have get: "AssetRepo_Get i s = Inr (a, s') \<Longrightarrow> s' = s" for i a s'
    by (auto simp: AssetRepo_Get_def split: option.splits dest: asset_rows.select_seen)
  from Cons.prems obtain r s1 rest where h: "sql_attempt (AssetRepo_Get (video_asset (bk_content b))) s = (Inr r, s1)"
      "collect_not_ready bs s1 = (Inr rest, t)"
      "[] = (case r of Inl _ \<Rightarrow> bk_id b # rest | Inr a \<Rightarrow> if as_status a = ProcReady then rest else bk_id b # rest)"
    by (auto simp: h_bind_Inr)
  then obtain a where a: "r = Inr a" "as_status a = ProcReady" "rest = []" by (auto split: sum.splits if_splits)
  then have g: "AssetRepo_Get (video_asset (bk_content b)) s = Inr (a, s1)" using h(1) by (simp add: sql_attempt_run)
  then have "s1 = s" by (rule get)
  then show ?case using Cons.IH h(2) a g by auto
qed simp

lemma collect_not_ready_answers: "collect_not_ready bs s \<noteq> (Inl r, t)"
  by (induction bs arbitrary: s) (auto simp: h_bind_Inl sql_attempt_run)

text \<open>A video block may go live when the asset it names is processed.\<close>

definition video_ready :: "adb \<Rightarrow> block \<Rightarrow> bool" where
  "video_ready s b \<longleftrightarrow> (case parse_uuid (video_asset (bk_content b)) of None \<Rightarrow> False
     | Some i \<Rightarrow> \<exists>a \<in> set (a_assets s). as_id a = i \<and> as_status a = ProcReady)"

lemma asset_ready: "AssetRepo_Get (video_asset (bk_content b)) s = Inr (a, t) \<Longrightarrow> as_status a = ProcReady \<Longrightarrow> video_ready s b"
  by (auto simp: AssetRepo_Get_def video_ready_def split: option.splits dest!: asset_rows.select_seen)

text \<open>
  C15: When publishing answers 200, the course was in review, scheduled or unpublished, every
  video block of the course refers to an asset that is ready, exactly one version was recorded,
  with the content as it stands in the order of positions, and the course is published.
\<close>

theorem publishing_is_safe:
  assumes "serve u (PublishCourse ac c) s = (r, s')" "http_status r = 200" "is_org_member s u (c_org c)"
  shows "c_status c \<in> {CReview, CScheduled, CUnpublished} \<and>
    (\<forall>b \<in> set (a_blocks s). bk_course b = c_id c \<longrightarrow> bk_type b = VideoBlock \<longrightarrow> bk_org b = c_org c \<longrightarrow> video_ready s b) \<and>
    (\<exists>v. a_versions s' = a_versions s @ [v] \<and> cv_course v = c_id c \<and>
       cs_chapters (cv_snapshot v) = live_content (stamp u s) (c_id c)) \<and>
    (\<exists>c' \<in> set (a_courses s'). c_id c' = c_id c \<and> c_status c' = CPublished)"
proof -
  let ?s = "stamp u s"
  obtain t where rh: "run_handler (PublishCourse ac c) ?s = (r, t)"
    using assms(1) by (cases "run_handler (PublishCourse ac c) ?s") (auto simp: serve_def split: if_splits)
  then have "PublishCourse ac c ?s = (Inr r, t)"
    using assms(2) unfolding run_handler_cases PublishCourse_def cannot_def h_run
    by (auto simp: internal_error_def collect_not_ready_answers)
  then obtain vs s1 c' s2 v where ok: "c_status c \<in> {CReview, CScheduled, CUnpublished}"
    and vs: "BlockRepo_ListVideoBlocksByCourse (c_id c) ?s = Inr (vs, ?s)"
    and col: "collect_not_ready vs ?s = (Inr [], s1)"
    and pub: "CourseRepo_Publish (c_id c) s1 = Inr (c', s2)"
    and snap: "CourseVersionRepo_Snapshot (c_id c) (c_org c) (ac_user ac) s2 = Inr (v, t)"
    unfolding PublishCourse_def h_run by (auto simp: BlockRepo_ListVideoBlocksByCourse_def)
  from collect_not_ready_run[OF col] have s1: "s1 = ?s"
    and ready: "\<And>b. b \<in> set vs \<Longrightarrow> \<exists>a. AssetRepo_Get (video_asset (bk_content b)) ?s = Inr (a, ?s) \<and> as_status a = ProcReady"
    by auto
  from pub s1 have s2: "s2 = put_acourses (a_courses s2) ?s" "\<exists>c' \<in> set (a_courses s2). c_id c' = c_id c \<and> c_status c' = CPublished"
    using course_update_run[OF pub[unfolded CourseRepo_Publish_def]] by (auto intro!: bexI[of _ c'])
  have content: "live_content s2 i = live_content ?s i" for i
    by (rule live_content_frame) (subst s2(1), simp)+
  from snap have t: "t = put_versions (a_versions s2 @ [v]) (s2\<lparr>a_next := Suc (a_next s2)\<rparr>)"
    "cv_course v = c_id c" "cs_chapters (cv_snapshot v) = live_content s2 (c_id c)"
    by (auto simp: snapshot_run)
  have "\<not> a_aborted t" unfolding t(1) by (subst s2(1)) simp
  then have s': "s' = unstamp t" using assms(1,2) rh by (auto simp: serve_eq)
  have "video_ready s b" if b: "b \<in> set (a_blocks s)" "bk_course b = c_id c" "bk_type b = VideoBlock" "bk_org b = c_org c" for b
  proof -
    have "b \<in> set vs" using vs b assms(3)
      by (auto simp: BlockRepo_ListVideoBlocksByCourse_def a_rows_def sees_def is_org_member_def)
    then obtain a where "AssetRepo_Get (video_asset (bk_content b)) ?s = Inr (a, ?s)" "as_status a = ProcReady"
      using ready by blast
    then have "video_ready ?s b" by (rule asset_ready)
    then show ?thesis by (simp add: video_ready_def split: option.splits)
  qed
  moreover have "a_versions s' = a_versions s @ [v]" "a_courses s' = a_courses s2" unfolding s' t(1) by (subst s2(1), simp)+
  ultimately show ?thesis using ok t(2,3) s2(2) content by auto
qed

end
