(* ===== verification/AuthorOutline.thy ===== *)
theory AuthorOutline
  imports AuthorLife
begin

text \<open>
  The outline of a course, its chapters, lessons and blocks in the order readers see them
  (\<open>live_content\<close>), as the abstraction of the content tables: restoring a version brings back
  the outline it recorded, duplicating copies it, and adding or deleting a chapter is the
  operation on lists.
\<close>

section \<open>Rows and outlines\<close>

abbreviation snap_block :: "block \<Rightarrow> snapshot_block" where
  "snap_block b \<equiv> \<lparr>sb_type = bk_type b, sb_content = bk_content b, sb_sort = bk_sort b\<rparr>"

definition raw_lesson :: "block list \<Rightarrow> lesson \<Rightarrow> snapshot_lesson" where
  "raw_lesson bs l = \<lparr>sl_title = ls_title l, sl_sort = ls_sort l,
     sl_blocks = map snap_block (filter (\<lambda>b. bk_lesson b = ls_id l) bs)\<rparr>"

definition raw_chapter :: "lesson list \<Rightarrow> block list \<Rightarrow> chapter_row \<Rightarrow> snapshot_chapter" where
  "raw_chapter ls bs c = \<lparr>sc_title = ch_title c, sc_sort = ch_sort c,
     sc_lessons = map (raw_lesson bs) (filter (\<lambda>l. ls_chapter l = ch_id c) ls)\<rparr>"

text \<open>Reading rows orders them by position.\<close>

definition settle_lesson :: "snapshot_lesson \<Rightarrow> snapshot_lesson" where
  "settle_lesson l = l\<lparr>sl_blocks := sort_key sb_sort (sl_blocks l)\<rparr>"

definition settle_chapter :: "snapshot_chapter \<Rightarrow> snapshot_chapter" where
  "settle_chapter c = c\<lparr>sc_lessons := map settle_lesson (sort_key sl_sort (sc_lessons c))\<rparr>"

definition settle :: "snapshot_chapter list \<Rightarrow> snapshot_chapter list" where
  "settle cs = map settle_chapter (sort_key sc_sort cs)"

lemma settle_ordered: "ordered_content cs \<Longrightarrow> settle cs = cs"
proof -
  assume o: "ordered_content cs"
  have "settle_chapter c = c" if "c \<in> set cs" for c
  proof -
    have "settle_lesson l = l" if "l \<in> set (sc_lessons c)" for l
      using o \<open>c \<in> set cs\<close> that by (simp add: ordered_content_def settle_lesson_def sort_key_id_if_sorted)
    then have "map settle_lesson (sc_lessons c) = sc_lessons c" by (simp add: map_idI)
    then show ?thesis using o that by (simp add: ordered_content_def settle_chapter_def sort_key_id_if_sorted)
  qed
  then show ?thesis using o by (simp add: settle_def ordered_content_def sort_key_id_if_sorted map_idI)
qed

section \<open>Inserting content\<close>

lemma insert_block_run:
  assumes "tx_bind (BlockRepo_Create i course o' u (sb_type b) (sb_content b) (sb_sort b)) (\<lambda>_. tx_return ()) s = Inr (x, t)"
  shows "\<exists>r. t = s\<lparr>a_next := Suc (a_next s), a_blocks := a_blocks s @ [r]\<rparr> \<and> snap_block r = b \<and> bk_lesson r = i \<and> bk_org r = o'"
  using assms by (auto simp: tx_bind_Inr BlockRepo_Create_def block_rows.insert_Inr new_block_def split: if_splits)

lemma insert_rows_run:
  assumes "\<And>b s t. f b s = Inr ((), t) \<Longrightarrow>
    \<exists>r. t = s\<lparr>a_next := Suc (a_next s), a_blocks := a_blocks s @ [r]\<rparr> \<and> snap_block r = b \<and> bk_lesson r = i \<and> bk_org r = o'"
  shows "tx_for bl f s = Inr ((), t) \<Longrightarrow>
   \<exists>bs. t = s\<lparr>a_next := a_next t, a_blocks := a_blocks s @ bs\<rparr> \<and> a_next s \<le> a_next t \<and> map snap_block bs = bl \<and>
     (\<forall>b \<in> set bs. bk_lesson b = i \<and> bk_org b = o')"
proof (induction bl arbitrary: s)
  case (Cons b bl)
  from Cons.prems obtain s1 where one: "f b s = Inr ((), s1)" and rest: "tx_for bl f s1 = Inr ((), t)"
    by (auto simp: tx_bind_Inr)
  from assms[OF one] obtain r where s1: "s1 = s\<lparr>a_next := Suc (a_next s), a_blocks := a_blocks s @ [r]\<rparr>" "snap_block r = b"
      "bk_lesson r = i" "bk_org r = o'" by auto
  from Cons.IH[OF rest] obtain bs where t: "t = s1\<lparr>a_next := a_next t, a_blocks := a_blocks s1 @ bs\<rparr>" "a_next s1 \<le> a_next t"
      "map snap_block bs = bl" "\<forall>b \<in> set bs. bk_lesson b = i \<and> bk_org b = o'" by auto
  have "t = s\<lparr>a_next := a_next t, a_blocks := a_blocks s @ (r # bs)\<rparr>" by (subst t(1)) (simp add: s1(1))
  then show ?case using t s1 by (intro exI[of _ "r # bs"]) auto
qed (auto intro!: exI[of _ "[]"])

lemma insert_blocks_run:
  "tx_for bl (\<lambda>b. tx_bind (BlockRepo_Create i course o' u (sb_type b) (sb_content b) (sb_sort b)) (\<lambda>_. tx_return ())) s = Inr ((), t) \<Longrightarrow>
   \<exists>bs. t = s\<lparr>a_next := a_next t, a_blocks := a_blocks s @ bs\<rparr> \<and> a_next s \<le> a_next t \<and> map snap_block bs = bl \<and>
     (\<forall>b \<in> set bs. bk_lesson b = i \<and> bk_org b = o')"
  by (erule insert_rows_run[rotated]) (rule insert_block_run)

lemma insert_lesson_run:
  assumes "insert_lesson course o' u chp l s = Inr ((), t)"
  shows "\<exists>r bs. t = s\<lparr>a_next := a_next t, a_lessons := a_lessons s @ [r], a_blocks := a_blocks s @ bs\<rparr> \<and>
     a_next s < a_next t \<and> ls_id r = a_next s \<and> ls_chapter r = chp \<and> ls_org r = o' \<and> raw_lesson bs r = l \<and>
     (\<forall>b \<in> set bs. bk_lesson b = a_next s \<and> bk_org b = o')"
proof -
  from assms obtain r s1 where r: "LessonRepo_Create chp course o' u (sl_title l) (sl_sort l) s = Inr (r, s1)"
    and rest: "tx_for (sl_blocks l) (\<lambda>b. tx_bind (BlockRepo_Create (ls_id r) course o' u (sb_type b) (sb_content b) (sb_sort b))
        (\<lambda>_. tx_return ())) s1 = Inr ((), t)"
    unfolding insert_lesson_def by (subst (asm) tx_bind_Inr) auto
  from r have s1: "s1 = s\<lparr>a_next := Suc (a_next s), a_lessons := a_lessons s @ [r]\<rparr>" "ls_id r = a_next s" "ls_chapter r = chp"
      "ls_org r = o'" "ls_title r = sl_title l" "ls_sort r = sl_sort l"
    by (auto simp: LessonRepo_Create_def lesson_rows.insert_Inr new_lesson_def split: if_splits)
  from insert_blocks_run[OF rest] obtain bs where t: "t = s1\<lparr>a_next := a_next t, a_blocks := a_blocks s1 @ bs\<rparr>"
      "a_next s1 \<le> a_next t" "map snap_block bs = sl_blocks l" "\<forall>b \<in> set bs. bk_lesson b = ls_id r \<and> bk_org b = o'" by auto
  have "t = s\<lparr>a_next := a_next t, a_lessons := a_lessons s @ [r], a_blocks := a_blocks s @ bs\<rparr>" by (subst t(1)) (simp add: s1(1))
  moreover have "filter (\<lambda>b. bk_lesson b = ls_id r) bs = bs" using t(4) by (simp add: filter_True)
  ultimately show ?thesis using t s1 by (intro exI[of _ r] exI[of _ bs]) (simp add: raw_lesson_def)
qed

lemma insert_lessons_run:
  "tx_for lsn (insert_lesson course o' u chp) s = Inr ((), t) \<Longrightarrow>
   \<exists>ls bs. t = s\<lparr>a_next := a_next t, a_lessons := a_lessons s @ ls, a_blocks := a_blocks s @ bs\<rparr> \<and> a_next s \<le> a_next t \<and>
     map (raw_lesson bs) ls = lsn \<and> (\<forall>l \<in> set ls. ls_chapter l = chp \<and> ls_org l = o' \<and> a_next s \<le> ls_id l \<and> ls_id l < a_next t) \<and>
     (\<forall>b \<in> set bs. a_next s \<le> bk_lesson b \<and> bk_lesson b < a_next t \<and> bk_org b = o')"
proof (induction lsn arbitrary: s)
  case (Cons l lsn)
  from Cons.prems obtain s1 where one: "insert_lesson course o' u chp l s = Inr ((), s1)"
    and rest: "tx_for lsn (insert_lesson course o' u chp) s1 = Inr ((), t)"
    by (auto simp: tx_bind_Inr)
  from insert_lesson_run[OF one] obtain r bs1 where s1: "s1 = s\<lparr>a_next := a_next s1, a_lessons := a_lessons s @ [r], a_blocks := a_blocks s @ bs1\<rparr>"
     "a_next s < a_next s1" "ls_id r = a_next s" "ls_chapter r = chp" "ls_org r = o'" "raw_lesson bs1 r = l"
     "\<forall>b \<in> set bs1. bk_lesson b = a_next s \<and> bk_org b = o'" by auto
  from Cons.IH[OF rest] obtain ls bs where t: "t = s1\<lparr>a_next := a_next t, a_lessons := a_lessons s1 @ ls, a_blocks := a_blocks s1 @ bs\<rparr>"
     "a_next s1 \<le> a_next t" "map (raw_lesson bs) ls = lsn" "\<forall>l \<in> set ls. ls_chapter l = chp \<and> ls_org l = o' \<and> a_next s1 \<le> ls_id l \<and> ls_id l < a_next t"
     "\<forall>b \<in> set bs. a_next s1 \<le> bk_lesson b \<and> bk_lesson b < a_next t \<and> bk_org b = o'" by auto
  have "t = s\<lparr>a_next := a_next t, a_lessons := a_lessons s @ (r # ls), a_blocks := a_blocks s @ (bs1 @ bs)\<rparr>"
    by (subst t(1), subst (2) s1(1), subst (3) s1(1)) (subst s1(1), simp)
  moreover have "raw_lesson (bs1 @ bs) r = l"
  proof -
    have "filter (\<lambda>b. bk_lesson b = ls_id r) bs = []" using t(5) s1(2,3) by (auto simp: filter_empty_conv)
    then show ?thesis using s1(6) by (simp add: raw_lesson_def)
  qed
  moreover have "raw_lesson (bs1 @ bs) l' = raw_lesson bs l'" if "l' \<in> set ls" for l'
  proof -
    have "filter (\<lambda>b. bk_lesson b = ls_id l') bs1 = []" using that t(4) s1(2,7) by (auto simp: filter_empty_conv)
    then show ?thesis by (simp add: raw_lesson_def)
  qed
  ultimately show ?case
    using t s1 by (intro exI[of _ "r # ls"] exI[of _ "bs1 @ bs"]) auto
qed (auto intro!: exI[of _ "[]"])

lemma insert_chapter_run:
  assumes "insert_chapter course o' u c s = Inr ((), t)"
  shows "\<exists>r ls bs. t = s\<lparr>a_next := a_next t, a_chapters := a_chapters s @ [r], a_lessons := a_lessons s @ ls, a_blocks := a_blocks s @ bs\<rparr> \<and>
     a_next s < a_next t \<and> ch_id r = a_next s \<and> ch_course r = course \<and> ch_org r = o' \<and> raw_chapter ls bs r = c \<and>
     (\<forall>l \<in> set ls. ls_chapter l = a_next s \<and> ls_org l = o' \<and> a_next s < ls_id l \<and> ls_id l < a_next t) \<and>
     (\<forall>b \<in> set bs. a_next s < bk_lesson b \<and> bk_lesson b < a_next t \<and> bk_org b = o')"
proof -
  from assms obtain r s1 where r: "ChapterRepo_Create course o' u (sc_title c) (sc_sort c) s = Inr (r, s1)"
    and rest: "tx_for (sc_lessons c) (insert_lesson course o' u (ch_id r)) s1 = Inr ((), t)"
    unfolding insert_chapter_def by (subst (asm) tx_bind_Inr) auto
  from r have s1: "s1 = s\<lparr>a_next := Suc (a_next s), a_chapters := a_chapters s @ [r]\<rparr>" "ch_id r = a_next s" "ch_course r = course"
      "ch_org r = o'" "ch_title r = sc_title c" "ch_sort r = sc_sort c"
    by (auto simp: ChapterRepo_Create_def chapter_rows.insert_Inr new_chapter_def split: if_splits)
  from insert_lessons_run[OF rest] obtain ls bs where t: "t = s1\<lparr>a_next := a_next t, a_lessons := a_lessons s1 @ ls, a_blocks := a_blocks s1 @ bs\<rparr>"
      "a_next s1 \<le> a_next t" "map (raw_lesson bs) ls = sc_lessons c" "\<forall>l \<in> set ls. ls_chapter l = ch_id r \<and> ls_org l = o' \<and> a_next s1 \<le> ls_id l \<and> ls_id l < a_next t"
      "\<forall>b \<in> set bs. a_next s1 \<le> bk_lesson b \<and> bk_lesson b < a_next t \<and> bk_org b = o'" by auto
  have "t = s\<lparr>a_next := a_next t, a_chapters := a_chapters s @ [r], a_lessons := a_lessons s @ ls, a_blocks := a_blocks s @ bs\<rparr>"
    by (subst t(1)) (simp add: s1(1))
  moreover have "filter (\<lambda>l. ls_chapter l = ch_id r) ls = ls" using t(4) by (simp add: filter_True)
  ultimately show ?thesis using t s1 by (intro exI[of _ r] exI[of _ ls] exI[of _ bs]) (simp add: raw_chapter_def Suc_le_eq)
qed

lemma raw_lesson_append:
  "\<forall>b \<in> set bs. bk_lesson b \<noteq> ls_id l \<Longrightarrow> raw_lesson (bs @ bs') l = raw_lesson bs' l"
  "\<forall>b \<in> set bs'. bk_lesson b \<noteq> ls_id l \<Longrightarrow> raw_lesson (bs @ bs') l = raw_lesson bs l"
  by (simp_all add: raw_lesson_def filter_False)

lemma raw_chapter_append:
  "\<forall>l \<in> set ls. ls_chapter l \<noteq> ch_id c \<Longrightarrow> \<forall>b \<in> set bs. \<forall>l \<in> set ls'. bk_lesson b \<noteq> ls_id l \<Longrightarrow>
    raw_chapter (ls @ ls') (bs @ bs') c = raw_chapter ls' bs' c"
  "\<forall>l \<in> set ls'. ls_chapter l \<noteq> ch_id c \<Longrightarrow> \<forall>b \<in> set bs'. \<forall>l \<in> set ls. bk_lesson b \<noteq> ls_id l \<Longrightarrow>
    raw_chapter (ls @ ls') (bs @ bs') c = raw_chapter ls bs c"
  by (auto simp: raw_chapter_def filter_False raw_lesson_append)

lemma insert_chapters_run:
  "tx_for cs (insert_chapter course o' u) s = Inr ((), t) \<Longrightarrow>
   \<exists>rs ls bs. t = s\<lparr>a_next := a_next t, a_chapters := a_chapters s @ rs, a_lessons := a_lessons s @ ls, a_blocks := a_blocks s @ bs\<rparr> \<and>
     a_next s \<le> a_next t \<and> map (raw_chapter ls bs) rs = cs \<and>
     (\<forall>r \<in> set rs. ch_course r = course \<and> ch_org r = o' \<and> a_next s \<le> ch_id r) \<and>
     (\<forall>l \<in> set ls. a_next s \<le> ls_chapter l \<and> ls_org l = o' \<and> a_next s \<le> ls_id l \<and> ls_id l < a_next t) \<and>
     (\<forall>b \<in> set bs. a_next s \<le> bk_lesson b \<and> bk_lesson b < a_next t \<and> bk_org b = o')"
proof (induction cs arbitrary: s)
  case (Cons c cs)
  from Cons.prems obtain s1 where one: "insert_chapter course o' u c s = Inr ((), s1)"
    and rest: "tx_for cs (insert_chapter course o' u) s1 = Inr ((), t)" by (auto simp: tx_bind_Inr)
  from insert_chapter_run[OF one] obtain r ls1 bs1 where
     s1: "s1 = s\<lparr>a_next := a_next s1, a_chapters := a_chapters s @ [r], a_lessons := a_lessons s @ ls1, a_blocks := a_blocks s @ bs1\<rparr>"
     "a_next s < a_next s1" "ch_id r = a_next s" "ch_course r = course" "ch_org r = o'" "raw_chapter ls1 bs1 r = c"
     "\<forall>l \<in> set ls1. ls_chapter l = a_next s \<and> ls_org l = o' \<and> a_next s < ls_id l \<and> ls_id l < a_next s1" "\<forall>b \<in> set bs1. a_next s < bk_lesson b \<and> bk_lesson b < a_next s1 \<and> bk_org b = o'"
    by auto
  from Cons.IH[OF rest] obtain rs ls bs where
     t: "t = s1\<lparr>a_next := a_next t, a_chapters := a_chapters s1 @ rs, a_lessons := a_lessons s1 @ ls, a_blocks := a_blocks s1 @ bs\<rparr>"
     "a_next s1 \<le> a_next t" "map (raw_chapter ls bs) rs = cs" "\<forall>r \<in> set rs. ch_course r = course \<and> ch_org r = o' \<and> a_next s1 \<le> ch_id r"
     "\<forall>l \<in> set ls. a_next s1 \<le> ls_chapter l \<and> ls_org l = o' \<and> a_next s1 \<le> ls_id l \<and> ls_id l < a_next t" "\<forall>b \<in> set bs. a_next s1 \<le> bk_lesson b \<and> bk_lesson b < a_next t \<and> bk_org b = o'"
    by auto
  have "t = s\<lparr>a_next := a_next t, a_chapters := a_chapters s @ (r # rs), a_lessons := a_lessons s @ (ls1 @ ls), a_blocks := a_blocks s @ (bs1 @ bs)\<rparr>"
  proof -
    have "a_chapters s1 = a_chapters s @ [r]" "a_lessons s1 = a_lessons s @ ls1" "a_blocks s1 = a_blocks s @ bs1"
      by (subst s1(1), simp)+
    then show ?thesis by (subst t(1)) (subst (4) s1(1), simp)
  qed
  moreover have "raw_chapter (ls1 @ ls) (bs1 @ bs) r = c"
    by (subst raw_chapter_append(2)) (use t(5,6) s1 in \<open>force+\<close>)
  moreover have "raw_chapter (ls1 @ ls) (bs1 @ bs) x = raw_chapter ls bs x" if "x \<in> set rs" for x
    by (rule raw_chapter_append(1)) (use t(4-6) s1 that in \<open>force+\<close>)
  ultimately show ?case
    using t s1 by (intro exI[of _ "r # rs"] exI[of _ "ls1 @ ls"] exI[of _ "bs1 @ bs"]) auto
qed (auto intro!: exI[of _ "[]"])

section \<open>The outline after an insertion\<close>

lemma insort_key_map: "insort_key f (g x) (map g xs) = map g (insort_key (\<lambda>y. f (g y)) x xs)"
  by (induction xs) auto

lemma sort_key_map: "sort_key f (map g xs) = map g (sort_key (\<lambda>y. f (g y)) xs)"
  by (induction xs) (auto simp: insort_key_map)

definition adds :: "uuid \<Rightarrow> adb \<Rightarrow> adb \<Rightarrow> chapter_row list \<Rightarrow> lesson list \<Rightarrow> block list \<Rightarrow> bool" where
  "adds o' s t rs ls bs \<longleftrightarrow>
     t = s\<lparr>a_next := a_next t, a_chapters := a_chapters s @ rs, a_lessons := a_lessons s @ ls, a_blocks := a_blocks s @ bs\<rparr> \<and>
     (\<forall>r \<in> set rs. ch_org r = o' \<and> a_next s \<le> ch_id r) \<and>
     (\<forall>l \<in> set ls. a_next s \<le> ls_chapter l \<and> ls_org l = o' \<and> a_next s \<le> ls_id l) \<and>
     (\<forall>b \<in> set bs. a_next s \<le> bk_lesson b \<and> bk_org b = o')"

lemma adds_frame:
  assumes "adds o' s t rs ls bs"
  shows "a_session t = a_session s" "a_members t = a_members s" "a_courses t = a_courses s" "a_versions t = a_versions s"
    "a_chapters t = a_chapters s @ rs" "a_lessons t = a_lessons s @ ls" "a_blocks t = a_blocks s @ bs"
    "sees t g = sees s g" "a_clock t = a_clock s" "a_aborted t = a_aborted s"
proof -
  have t: "t = s\<lparr>a_next := a_next t, a_chapters := a_chapters s @ rs, a_lessons := a_lessons s @ ls, a_blocks := a_blocks s @ bs\<rparr>"
    using assms unfolding adds_def by blast
  show "a_session t = a_session s" "a_members t = a_members s" "a_courses t = a_courses s" "a_versions t = a_versions s"
    "a_chapters t = a_chapters s @ rs" "a_lessons t = a_lessons s @ ls" "a_blocks t = a_blocks s @ bs"
    "a_clock t = a_clock s" "a_aborted t = a_aborted s"
    by (subst t, simp)+
  then show "sees t g = sees s g" by (simp add: sees_def is_org_member_def cong: option.case_cong)
qed

lemma a_rows_added:
  assumes "g t = g s @ new" "\<And>o'. sees t o' = sees s o'"
  shows "(\<And>r. r \<in> set (g s) \<Longrightarrow> \<not> P r) \<Longrightarrow> (\<And>r. r \<in> set new \<Longrightarrow> sees s (org_of r)) \<Longrightarrow> a_rows g org_of P t = filter P new"
    "(\<And>r. r \<in> set new \<Longrightarrow> \<not> P r) \<Longrightarrow> a_rows g org_of P t = a_rows g org_of P s"
  using assms by (auto simp: a_rows_def filter_empty_conv intro: filter_cong)

lemma added_outline:
  assumes add: "adds o' s t rs ls bs" and ok: "authoring_ok s" and see: "sees s o'"
  shows "r \<in> set rs \<Longrightarrow> snap_chapter t r = settle_chapter (raw_chapter ls bs r)"
    "c \<in> set (a_chapters s) \<Longrightarrow> snap_chapter t c = snap_chapter s c"
proof -
  note fr = adds_frame[OF add]
  have new: "\<And>r. r \<in> set rs \<Longrightarrow> ch_org r = o' \<and> a_next s \<le> ch_id r"
    "\<And>l. l \<in> set ls \<Longrightarrow> a_next s \<le> ls_chapter l \<and> ls_org l = o' \<and> a_next s \<le> ls_id l"
    "\<And>b. b \<in> set bs \<Longrightarrow> a_next s \<le> bk_lesson b \<and> bk_org b = o'" using add unfolding adds_def by blast+
  note old = authoring_bounds[OF ok]
  have new_lesson: "snap_lesson t l = settle_lesson (raw_lesson bs l)" if "a_next s \<le> ls_id l" for l
  proof -
    have "a_rows a_blocks bk_org (\<lambda>b. bk_lesson b = ls_id l) t = filter (\<lambda>b. bk_lesson b = ls_id l) bs"
      using that see new(3) old(4) by (intro a_rows_added(1)[OF fr(7,8)]) force+
    then show ?thesis by (simp add: snap_lesson_def settle_lesson_def raw_lesson_def sort_key_map)
  qed
  have old_lesson: "snap_lesson t l = snap_lesson s l" if "ls_id l < a_next s" for l
  proof -
    have "a_rows a_blocks bk_org (\<lambda>b. bk_lesson b = ls_id l) t = a_rows a_blocks bk_org (\<lambda>b. bk_lesson b = ls_id l) s"
      using that new(3) by (intro a_rows_added(2)[OF fr(7,8)]) force
    then show ?thesis by (simp add: snap_lesson_def)
  qed
  show "snap_chapter t r = settle_chapter (raw_chapter ls bs r)" if "r \<in> set rs"
  proof -
    have rows: "a_rows a_lessons ls_org (\<lambda>l. ls_chapter l = ch_id r) t = filter (\<lambda>l. ls_chapter l = ch_id r) ls"
      using new(1)[OF that] see new(2) old(3) by (intro a_rows_added(1)[OF fr(6,8)]) force+
    have "map (snap_lesson t) (sort_key ls_sort (filter (\<lambda>l. ls_chapter l = ch_id r) ls)) =
        map (\<lambda>l. settle_lesson (raw_lesson bs l)) (sort_key ls_sort (filter (\<lambda>l. ls_chapter l = ch_id r) ls))"
      using new(2) by (intro map_cong refl new_lesson) auto
    then show ?thesis
      by (simp add: snap_chapter_def settle_chapter_def raw_chapter_def rows sort_key_map comp_def raw_lesson_def)
  qed
  show "snap_chapter t c = snap_chapter s c" if c: "c \<in> set (a_chapters s)"
  proof -
    have rows: "a_rows a_lessons ls_org (\<lambda>l. ls_chapter l = ch_id c) t = a_rows a_lessons ls_org (\<lambda>l. ls_chapter l = ch_id c) s"
      using old(2)[OF c] new(2) by (intro a_rows_added(2)[OF fr(6,8)]) force
    have "map (snap_lesson t) (sort_key ls_sort (a_rows a_lessons ls_org (\<lambda>l. ls_chapter l = ch_id c) s)) =
        map (snap_lesson s) (sort_key ls_sort (a_rows a_lessons ls_org (\<lambda>l. ls_chapter l = ch_id c) s))"
      using old(3) by (intro map_cong refl old_lesson) (auto simp: a_rows_def)
    then show ?thesis by (simp add: snap_chapter_def rows)
  qed
qed

lemma inserted_content:
  assumes run: "tx_for cs (insert_chapter course o' u) s = Inr ((), t)" and ok: "authoring_ok s" and see: "sees s o'"
  shows "a_rows a_chapters ch_org (\<lambda>c. ch_course c = course) s = [] \<Longrightarrow> live_content t course = settle cs"
    "i \<noteq> course \<Longrightarrow> live_content t i = live_content s i"
    "\<exists>rs ls bs. adds o' s t rs ls bs"
proof -
  from insert_chapters_run[OF run] obtain rs ls bs where
    t: "t = s\<lparr>a_next := a_next t, a_chapters := a_chapters s @ rs, a_lessons := a_lessons s @ ls, a_blocks := a_blocks s @ bs\<rparr>"
     "map (raw_chapter ls bs) rs = cs" "\<forall>r \<in> set rs. ch_course r = course \<and> ch_org r = o' \<and> a_next s \<le> ch_id r"
     "\<forall>l \<in> set ls. a_next s \<le> ls_chapter l \<and> ls_org l = o' \<and> a_next s \<le> ls_id l"
     "\<forall>b \<in> set bs. a_next s \<le> bk_lesson b \<and> bk_org b = o'" by auto
  then have add: "adds o' s t rs ls bs" unfolding adds_def by blast
  then show "\<exists>rs ls bs. adds o' s t rs ls bs" by blast
  note fr = adds_frame[OF add] and out = added_outline[OF add ok see]
  show "live_content t course = settle cs" if none: "a_rows a_chapters ch_org (\<lambda>c. ch_course c = course) s = []"
  proof -
    have "a_rows a_chapters ch_org (\<lambda>c. ch_course c = course) t = rs"
      using none t(3) see by (auto simp: a_rows_def fr filter_True)
    then have "live_content t course = map (\<lambda>r. settle_chapter (raw_chapter ls bs r)) (sort_key ch_sort rs)"
      unfolding live_content_def by (auto intro!: map_cong out(1))
    then show ?thesis by (simp add: settle_def t(2)[symmetric] sort_key_map raw_chapter_def)
  qed
  show "live_content t i = live_content s i" if "i \<noteq> course"
  proof -
    have "a_rows a_chapters ch_org (\<lambda>c. ch_course c = i) t = a_rows a_chapters ch_org (\<lambda>c. ch_course c = i) s"
      using that t(3) by (auto simp: a_rows_def fr filter_empty_conv)
    then show ?thesis unfolding live_content_def by (auto simp: a_rows_def intro!: map_cong out(2))
  qed
qed

section \<open>Restoring a version\<close>

lemma drop_chapters_snap:
  assumes ok: "authoring_ok s"
  shows "c \<in> set (a_chapters s) \<Longrightarrow> \<not> P c \<Longrightarrow> snap_chapter (drop_chapters P s) c = snap_chapter s c"
    "a_rows a_chapters ch_org Q (drop_chapters P s) = filter (\<lambda>c. \<not> P c) (a_rows a_chapters ch_org Q s)"
proof -
  let ?t = "drop_chapters P s"
  have sees: "sees ?t o' = sees s o'" for o'
    by (simp add: drop_chapters_def drop_lessons_def drop_blocks_def sees_def is_org_member_def cong: option.case_cong)
  define gone where "gone = (\<lambda>l :: lesson. \<exists>c \<in> set (a_chapters s). P c \<and> ch_id c = ls_chapter l)"
  have tabs: "a_chapters ?t = filter (\<lambda>c. \<not> P c) (a_chapters s)" "a_lessons ?t = filter (\<lambda>l. \<not> gone l) (a_lessons s)"
    "a_blocks ?t = filter (\<lambda>b. \<not> (\<exists>l \<in> set (a_lessons s). gone l \<and> ls_id l = bk_lesson b)) (a_blocks s)"
    by (simp_all add: drop_chapters_def drop_lessons_def drop_blocks_def gone_def)
  have ids: "c = d" if "c \<in> set (a_chapters s)" "d \<in> set (a_chapters s)" "ch_id c = ch_id d" for c d
    using ok that by (auto simp: authoring_ok_def distinct_map dest: inj_onD)
  have lids: "l = m" if "l \<in> set (a_lessons s)" "m \<in> set (a_lessons s)" "ls_id l = ls_id m" for l m
    using ok that by (auto simp: authoring_ok_def distinct_map dest: inj_onD)
  have lesson: "snap_lesson ?t l = snap_lesson s l" if "l \<in> set (a_lessons s)" "\<not> gone l" for l
  proof -
    have "a_rows a_blocks bk_org (\<lambda>b. bk_lesson b = ls_id l) ?t = a_rows a_blocks bk_org (\<lambda>b. bk_lesson b = ls_id l) s"
      using that by (auto simp: a_rows_def tabs sees filter_filter intro!: filter_cong dest: lids)
    then show ?thesis by (simp add: snap_lesson_def)
  qed
  show "snap_chapter ?t c = snap_chapter s c" if c: "c \<in> set (a_chapters s)" "\<not> P c"
  proof -
    have kept: "\<not> gone l" if "ls_chapter l = ch_id c" for l
      using ids[OF _ c(1)] c(2) that by (auto simp: gone_def)
    then have rows: "a_rows a_lessons ls_org (\<lambda>l. ls_chapter l = ch_id c) ?t = a_rows a_lessons ls_org (\<lambda>l. ls_chapter l = ch_id c) s"
      by (auto simp: a_rows_def tabs sees filter_filter intro!: filter_cong)
    then show ?thesis unfolding snap_chapter_def rows
      using kept by (auto simp: a_rows_def intro!: lesson)
  qed
  show "a_rows a_chapters ch_org Q ?t = filter (\<lambda>c. \<not> P c) (a_rows a_chapters ch_org Q s)"
    by (auto simp: a_rows_def tabs sees filter_filter intro!: filter_cong)
qed

lemma drop_chapters_content:
  assumes ok: "authoring_ok s"
  shows "live_content (drop_chapters P s) j =
    map (snap_chapter s) (filter (\<lambda>c. \<not> P c) (sort_key ch_sort (a_rows a_chapters ch_org (\<lambda>c. ch_course c = j) s)))"
proof -
  have "snap_chapter (drop_chapters P s) c = snap_chapter s c"
    if "c \<in> set (filter (\<lambda>c. \<not> P c) (sort_key ch_sort (a_rows a_chapters ch_org (\<lambda>c. ch_course c = j) s)))" for c
    using that by (intro drop_chapters_snap(1)[OF ok]) (auto simp: a_rows_def)
  then show ?thesis
    unfolding live_content_def drop_chapters_snap(2)[OF ok] filter_sort[symmetric] by (intro map_cong refl)
qed

lemma drop_chapters_other:
  assumes ok: "authoring_ok s" and P: "\<And>c. P c \<Longrightarrow> ch_course c = course" and "j \<noteq> course"
  shows "live_content (drop_chapters P s) j = live_content s j"
proof -
  have "\<not> P c" if "c \<in> set (sort_key ch_sort (a_rows a_chapters ch_org (\<lambda>c. ch_course c = j) s))" for c
    using that P assms(3) by (auto simp: a_rows_def)
  then show ?thesis unfolding drop_chapters_content[OF ok] by (simp add: live_content_def filter_True)
qed

lemma tx_bindE:
  assumes "tx_bind m f s = Inr r" obtains x s' where "m s = Inr (x, s')" "f x s' = Inr r"
  using assms by (auto simp: tx_bind_Inr)

lemma get_course_bindE:
  assumes "tx_bind (ACourseRepo_Get i) f s = Inr r" obtains c where "ACourseRepo_Get i s = Inr (c, s)" "f c s = Inr r"
  using assms by (elim tx_bindE) (auto dest: get_course_seen)

lemma get_version_bindE:
  assumes "tx_bind (CourseVersionRepo_Get i) f s = Inr r" obtains v where "CourseVersionRepo_Get i s = Inr (v, s)" "f v s = Inr r"
  using assms by (elim tx_bindE) (auto simp: CourseVersionRepo_Get_def dest: version_rows.select_seen)

lemma if_bindE:
  assumes "(if b then tx_throw e else m) s = Inr r" obtains "\<not> b" "m s = Inr r"
  using assms by (auto split: if_splits)

lemma insert_chapter_seen: "insert_chapter course o' u c s = Inr r \<Longrightarrow> sees s o'"
  unfolding insert_chapter_def by (elim tx_bindE) (auto simp: ChapterRepo_Create_def chapter_rows.insert_Inr new_chapter_def split: if_splits)

lemma drop_chapters_courses [simp]: "a_courses (drop_chapters P s) = a_courses s"
  by (simp add: drop_chapters_def drop_lessons_def drop_blocks_def)

lemma restore_run:
  assumes ok: "authoring_ok s" and run: "CourseVersionRepo_Restore course i u s = Inr (w, t)"
  shows "\<exists>v \<in> set (a_versions s). cv_id v = i \<and> cv_course v = course \<and> live_content t course = cs_chapters (cv_snapshot v) \<and>
    (\<forall>j. j \<noteq> course \<longrightarrow> live_content t j = live_content s j) \<and> a_aborted t = a_aborted s \<and> a_session t = a_session s \<and>
    a_versions t = a_versions s @ [w] \<and> cv_course w = course \<and> cv_number w = next_version s course \<and> cv_snapshot w = cv_snapshot v"
proof -
  define P where "P = (\<lambda>r :: chapter_row. sees s (ch_org r) \<and> ch_course r = course)"
  from run obtain v c s2 c3 s3 where v: "CourseVersionRepo_Get i s = Inr (v, s)" "cv_course v = course"
    and c: "ACourseRepo_Get course s = Inr (c, s)"
    and ins: "tx_for (cs_chapters (cv_snapshot v)) (insert_chapter course (c_org c) u) (drop_chapters (\<lambda>r. sees s (ch_org r) \<and> ch_course r = course) s) = Inr ((), s2)"
    and upd: "a_update a_courses put_acourses c_org (\<lambda>r. c_id r = course)
         (\<lambda>t r. r\<lparr>c_title := cs_title (cv_snapshot v), c_description := cs_description (cv_snapshot v), c_updated := t\<rparr>) s2 = Inr (c3, s3)"
    and snap: "CourseVersionRepo_Snapshot course (c_org c) u s3 = Inr (w, t)"
    using run unfolding CourseVersionRepo_Restore_def
    by - (rule get_version_bindE, assumption, rule if_bindE, assumption, erule get_course_bindE, erule tx_bindE, erule tx_bindE,
        erule tx_bindE, simp)
  note ins = ins[folded P_def]
  let ?s1 = "drop_chapters P s"
  have same1: "a_session ?s1 = a_session s" "a_members ?s1 = a_members s" "a_versions ?s1 = a_versions s" "a_aborted ?s1 = a_aborted s"
    by (simp_all add: drop_chapters_def drop_lessons_def drop_blocks_def)
  have see1: "sees ?s1 o' = sees s o'" for o' by (simp add: sees_def is_org_member_def same1 cong: option.case_cong)
  have the_course: "r = c" if "r \<in> set (a_courses s)" "c_id r = course" for r
    using that c ok by (auto simp: authoring_ok_def distinct_map dest!: get_course_seen dest: inj_onD)
  have see: "sees ?s1 (c_org c)"
  proof (cases "cs_chapters (cv_snapshot v)")
    case Nil
    then have "s2 = ?s1" using ins by simp
    then obtain r where "r \<in> set (a_courses s)" "c_id r = course" "sees ?s1 (c_org r)"
      using upd by (auto simp: a_update_def tab_update_Inr drop_chapters_courses dest!: find_SomeD)
    then show ?thesis using the_course by blast
  next
    case (Cons x xs)
    then show ?thesis using ins by (auto elim!: tx_bindE dest: insert_chapter_seen)
  qed
  have none: "a_rows a_chapters ch_org (\<lambda>c. ch_course c = course) ?s1 = []"
  proof -
    have "a_chapters ?s1 = filter (\<lambda>c. \<not> P c) (a_chapters s)" by (simp add: drop_chapters_def drop_lessons_def)
    then show ?thesis unfolding a_rows_def see1 by (auto simp: P_def filter_empty_conv)
  qed
  note ins' = inserted_content[OF ins drop_authoring(3)[OF ok] see]
  from ins'(3) obtain rs ls bs where add: "adds (c_org c) ?s1 s2 rs ls bs" by blast
  note fr = adds_frame[OF add]
  have vin: "v \<in> set (a_versions s)" "cv_id v = i" using v by (auto simp: CourseVersionRepo_Get_def dest!: version_rows.select_seen)
  then have ord: "ordered_content (cs_chapters (cv_snapshot v))" using ok by (simp add: authoring_ok_def)
  have s3: "s3 = put_acourses (a_courses s3) s2" using course_update_run(1)[OF upd] .
  have same3: "a_session s3 = a_session s" "a_members s3 = a_members s" "a_versions s3 = a_versions s" "a_aborted s3 = a_aborted s"
    by (subst s3, simp add: fr same1)+
  have lc3: "live_content s3 j = live_content s2 j" for j by (rule live_content_frame; subst s3; simp)
  from snap obtain cw where cw: "ACourseRepo_Get course s3 = Inr (cw, s3)"
    and w: "w = \<lparr>cv_id = a_next s3, cv_course = course, cv_org = c_org c, cv_number = next_version s3 course,
          cv_snapshot = \<lparr>cs_title = c_title cw, cs_description = c_description cw, cs_chapters = live_content s3 course\<rparr>,
          cv_created_by = u, cv_created = a_clock s3\<rparr>"
    and t: "t = put_versions (a_versions s3 @ [w]) (s3\<lparr>a_next := Suc (a_next s3)\<rparr>)" by (auto simp: snapshot_run)
  have title: "c_title cw = cs_title (cv_snapshot v) \<and> c_description cw = cs_description (cv_snapshot v)"
  proof -
    have upd': "\<exists>r \<in> set (a_courses s). sees s2 (c_org r) \<and> c_id r = course"
      using upd by (auto simp: a_update_def tab_update_Inr fr dest!: find_SomeD)
    have rows: "a_courses s3 = map (\<lambda>r. if sees s2 (c_org r) \<and> c_id r = course then r\<lparr>c_title := cs_title (cv_snapshot v),
        c_description := cs_description (cv_snapshot v), c_updated := a_clock s2\<rparr> else r) (a_courses s)"
      using upd unfolding a_update_def tab_update_Inr by (auto simp: fr)
    have "cw \<in> set (a_courses s3)" "c_id cw = course" using cw by (auto dest!: get_course_seen)
    then obtain r where r: "r \<in> set (a_courses s)" "c_id r = course" "cw = (if sees s2 (c_org r) \<and> c_id r = course
        then r\<lparr>c_title := cs_title (cv_snapshot v), c_description := cs_description (cv_snapshot v), c_updated := a_clock s2\<rparr> else r)"
      unfolding rows set_map by (elim imageE) (rule that, assumption, simp split: if_split_asm, assumption)
    moreover have "sees s2 (c_org r)" using upd' the_course r(1,2) by metis
    ultimately show ?thesis by simp
  qed
  have lct: "live_content t j = live_content s3 j" for j by (rule live_content_frame) (simp_all add: t)
  have main: "live_content t course = cs_chapters (cv_snapshot v)"
    by (simp add: lct lc3 ins'(1)[OF none] settle_ordered[OF ord])
  have num: "next_version s3 course = next_version s course"
    by (simp add: next_version_def a_rows_frame[OF same3(1,2), of a_versions, OF same3(3)])
  have "live_content t j = live_content s j" if "j \<noteq> course" for j
    using drop_chapters_other[OF ok, of P course, OF _ that]
    by (simp add: lct lc3 ins'(2)[OF that]) (simp add: P_def)
  moreover have "cv_snapshot w = cv_snapshot v" using title main by (simp add: w lct[symmetric])
  ultimately show ?thesis using vin v(2) main num
    by (intro bexI[of _ v]) (simp_all add: t same3, simp_all add: w)
qed

text \<open>
  C16: Restoring a version of a course is the inverse of recording it: afterwards the live
  content is the content of the snapshot, in its order, with every title, type, content and
  position, the content of every other course is untouched, and one new version was appended
  that carries the same snapshot under the next number.
\<close>

theorem restoring_brings_back:
  assumes "authoring_ok s" "serve u (RestoreCourseVersion ac c i) s = (r, s')" "http_status r = 201"
  shows "\<exists>v \<in> set (a_versions s). cv_id v = i \<and> cv_course v = c_id c \<and>
    live_content (stamp u s') (c_id c) = cs_chapters (cv_snapshot v) \<and>
    (\<forall>j. j \<noteq> c_id c \<longrightarrow> live_content (stamp u s') j = live_content (stamp u s) j) \<and>
    (\<exists>w. a_versions s' = a_versions s @ [w] \<and> cv_course w = c_id c \<and>
       cv_number w = next_version (stamp u s) (c_id c) \<and> cv_snapshot w = cv_snapshot v)"
proof -
  let ?s = "stamp u s"
  obtain t where rh: "run_handler (RestoreCourseVersion ac c i) ?s = (r, t)"
    using assms(2) by (cases "run_handler (RestoreCourseVersion ac c i) ?s") (auto simp: serve_def split: if_splits)
  then obtain w where w: "CourseVersionRepo_Restore (c_id c) i (ac_user ac) ?s = Inr (w, t)"
    using assms(3) unfolding run_handler_cases RestoreCourseVersion_def h_run
    by (auto simp: not_found_or_internal_def internal_error_def split: if_splits)
  have "authoring_ok ?s" using assms(1) by (simp add: authoring_ok_def)
  from restore_run[OF this w] obtain v where v: "v \<in> set (a_versions s)" "cv_id v = i" "cv_course v = c_id c"
      "live_content t (c_id c) = cs_chapters (cv_snapshot v)" "\<And>j. j \<noteq> c_id c \<Longrightarrow> live_content t j = live_content ?s j"
      "\<not> a_aborted t" "a_session t = Some u" "a_versions t = a_versions s @ [w]" "cv_course w = c_id c"
      "cv_number w = next_version ?s (c_id c)" "cv_snapshot w = cv_snapshot v" by auto
  have s': "s' = unstamp t" using assms(2,3) rh v(6) by (simp add: serve_eq)
  have "live_content (stamp u s') j = live_content t j" for j
    by (rule live_content_frame) (simp_all add: s' v(7))
  then show ?thesis using v by (intro bexI[of _ v]) (auto simp: s')
qed

section \<open>Duplicating a course\<close>

definition src_lesson :: "adb \<Rightarrow> lesson \<Rightarrow> snapshot_lesson" where
  "src_lesson s l = \<lparr>sl_title = ls_title l, sl_sort = ls_sort l,
     sl_blocks = map snap_block (a_rows a_blocks bk_org (\<lambda>b. bk_lesson b = ls_id l) s)\<rparr>"

definition src_chapter :: "adb \<Rightarrow> chapter_row \<Rightarrow> snapshot_chapter" where
  "src_chapter s c = \<lparr>sc_title = ch_title c, sc_sort = ch_sort c,
     sc_lessons = map (src_lesson s) (sort_key ls_sort (a_rows a_lessons ls_org (\<lambda>l. ls_chapter l = ch_id c) s))\<rparr>"

lemma sort_key_idem: "sort_key f (sort_key f xs) = sort_key f xs"
  by (rule sort_key_id_if_sorted) (simp add: sorted_sort_key)

lemma settle_src: "settle (map (src_chapter s) (sort_key ch_sort (a_rows a_chapters ch_org (\<lambda>c. ch_course c = i) s))) = live_content s i"
proof -
  have "settle_lesson (src_lesson s l) = snap_lesson s l" for l
    by (simp add: settle_lesson_def src_lesson_def snap_lesson_def sort_key_map)
  then have "settle_chapter (src_chapter s c) = snap_chapter s c" for c
    by (simp add: settle_chapter_def src_chapter_def snap_chapter_def sort_key_map sort_key_idem src_lesson_def[of s, abs_def] comp_def)
  then show ?thesis
    by (simp add: settle_def live_content_def sort_key_map sort_key_idem comp_def src_chapter_def[of s, abs_def])
qed

lemma src_lesson_frame:
  assumes "a_blocks t = a_blocks s @ bs" "\<And>g. sees t g = sees s g" "\<And>b. b \<in> set bs \<Longrightarrow> bk_lesson b \<noteq> ls_id l"
  shows "src_lesson t l = src_lesson s l"
proof -
  have "a_rows a_blocks bk_org (\<lambda>b. bk_lesson b = ls_id l) t = a_rows a_blocks bk_org (\<lambda>b. bk_lesson b = ls_id l) s"
    by (rule a_rows_added(2)[of a_blocks, OF assms(1,2)]) (use assms(3) in auto)
  then show ?thesis by (simp add: src_lesson_def)
qed

lemma tx_for_map: "tx_for (map g xs) f = tx_for xs (\<lambda>x. f (g x))"
  by (induction xs) auto

lemma create_same:
  "LessonRepo_Create chp course o' u title v s = Inr (r, t) \<Longrightarrow> t = s\<lparr>a_next := Suc (a_next s), a_lessons := a_lessons s @ [r]\<rparr> \<and> ls_id r = a_next s \<and> ls_chapter r = chp"
  "ChapterRepo_Create course o' u title v s = Inr (c, t) \<Longrightarrow> t = s\<lparr>a_next := Suc (a_next s), a_chapters := a_chapters s @ [c]\<rparr> \<and> ch_id c = a_next s"
  by (auto simp: LessonRepo_Create_def ChapterRepo_Create_def lesson_rows.insert_Inr chapter_rows.insert_Inr new_lesson_def new_chapter_def
      split: if_splits)

lemma copy_lesson_eq: "copy_lesson course o' u chp l s = insert_lesson course o' u chp (src_lesson s l) s"
proof (cases "LessonRepo_Create chp course o' u (ls_title l) (ls_sort l) s")
  case (Inr p)
  then obtain r t where rt: "LessonRepo_Create chp course o' u (ls_title l) (ls_sort l) s = Inr (r, t)" by (cases p) auto
  have "a_rows a_blocks bk_org (\<lambda>b. bk_lesson b = ls_id l) t = a_rows a_blocks bk_org (\<lambda>b. bk_lesson b = ls_id l) s"
    using create_same(1)[OF rt] by (intro a_rows_frame) simp_all
  then show ?thesis by (simp add: copy_lesson_def insert_lesson_def src_lesson_def rt tx_for_map)
qed (simp add: copy_lesson_def insert_lesson_def src_lesson_def)

lemma copy_lessons_eq:
  "\<forall>l \<in> set ls. ls_id l < a_next s \<Longrightarrow> tx_for ls (copy_lesson course o' u chp) s = tx_for (map (src_lesson s) ls) (insert_lesson course o' u chp) s"
proof (induction ls arbitrary: s)
  case (Cons l ls)
  show ?case
  proof (cases "insert_lesson course o' u chp (src_lesson s l) s")
    case (Inr p)
    then obtain t where t: "insert_lesson course o' u chp (src_lesson s l) s = Inr ((), t)" by (cases p) auto
    from insert_lesson_run[OF t] obtain r bs where eq: "t = s\<lparr>a_next := a_next t, a_lessons := a_lessons s @ [r], a_blocks := a_blocks s @ bs\<rparr>"
      "a_next s < a_next t" "\<forall>b \<in> set bs. bk_lesson b = a_next s \<and> bk_org b = o'" by auto
    have blocks: "a_blocks t = a_blocks s @ bs" and see: "\<And>g. sees t g = sees s g"
      by (subst eq(1), simp)+ (subst eq(1), simp add: sees_def is_org_member_def cong: option.case_cong)
    have "src_lesson t m = src_lesson s m" if "m \<in> set ls" for m
      by (rule src_lesson_frame[OF blocks see]) (use Cons.prems that eq(3) in auto)
    then have srcs: "map (src_lesson t) ls = map (src_lesson s) ls" by simp
    have "\<forall>l \<in> set ls. ls_id l < a_next t" using Cons.prems eq(2) by auto
    note rest = Cons.IH[OF this, unfolded srcs]
    show ?thesis by (simp add: copy_lesson_eq[of course o' u chp l s] t rest)
  qed (simp add: copy_lesson_eq[of course o' u chp l s])
qed simp

lemma copy_chapter_eq:
  assumes "authoring_ok s"
  shows "copy_chapter course o' u c s = insert_chapter course o' u (src_chapter s c) s"
proof (cases "ChapterRepo_Create course o' u (ch_title c) (ch_sort c) s")
  case (Inr p)
  then obtain r t where rt: "ChapterRepo_Create course o' u (ch_title c) (ch_sort c) s = Inr (r, t)" by (cases p) auto
  note t = conjunct1[OF create_same(2)[OF rt]]
  have "src_lesson t l = src_lesson s l" for l
    by (rule src_lesson_frame[of _ _ "[]"]) (simp_all add: t sees_def is_org_member_def cong: option.case_cong)
  then have src: "src_lesson t = src_lesson s" by (rule ext)
  let ?ls = "sort_key ls_sort (a_rows a_lessons ls_org (\<lambda>l. ls_chapter l = ch_id c) s)"
  have list: "LessonRepo_ListByChapter (ch_id c) t = Inr (?ls, t)"
  proof -
    have "a_rows a_lessons ls_org (\<lambda>l. ls_chapter l = ch_id c) t = a_rows a_lessons ls_org (\<lambda>l. ls_chapter l = ch_id c) s"
      by (rule a_rows_frame) (simp_all add: t)
    then show ?thesis by (simp add: LessonRepo_ListByChapter_def)
  qed
  have "\<forall>l \<in> set ?ls. ls_id l < a_next t" using authoring_bounds(3)[OF assms] by (fastforce simp: a_rows_def t less_Suc_eq)
  then show ?thesis by (simp add: copy_chapter_def insert_chapter_def src_chapter_def rt list copy_lessons_eq src)
qed (simp add: copy_chapter_def insert_chapter_def src_chapter_def)

lemma copy_chapters_eq:
  "authoring_ok s \<Longrightarrow> sees s o' \<Longrightarrow> \<forall>c \<in> set cs. c \<in> set (a_chapters s) \<Longrightarrow>
    tx_for cs (copy_chapter course o' u) s = tx_for (map (src_chapter s) cs) (insert_chapter course o' u) s"
proof (induction cs arbitrary: s)
  case (Cons c cs)
  show ?case
  proof (cases "insert_chapter course o' u (src_chapter s c) s")
    case (Inr p)
    then obtain t where t: "insert_chapter course o' u (src_chapter s c) s = Inr ((), t)" by (cases p) auto
    then have "tx_for [src_chapter s c] (insert_chapter course o' u) s = Inr ((), t)" by simp
    from inserted_content(3)[OF this Cons.prems(1,2)] obtain rs ls bs where add: "adds o' s t rs ls bs" by blast
    note fr = adds_frame[OF add]
    have ok: "authoring_ok t" using tx_postD[OF keys.keeps_insert_chapter t Cons.prems(1)] .
    have new: "\<And>l. l \<in> set ls \<Longrightarrow> a_next s \<le> ls_chapter l" "\<And>b. b \<in> set bs \<Longrightarrow> a_next s \<le> bk_lesson b"
      using add unfolding adds_def by blast+
    have lesson: "src_lesson t l = src_lesson s l" if "ls_id l < a_next s" for l
      by (rule src_lesson_frame[OF fr(7,8)]) (use new(2) that in force)
    have "src_chapter t d = src_chapter s d" if d: "d \<in> set cs" for d
    proof -
      have "d \<in> set (a_chapters s)" using d Cons.prems(3) by auto
      then have "ch_id d < a_next s" using authoring_bounds(2)[OF Cons.prems(1)] by blast
      then have rows: "a_rows a_lessons ls_org (\<lambda>l. ls_chapter l = ch_id d) t = a_rows a_lessons ls_org (\<lambda>l. ls_chapter l = ch_id d) s"
        using new(1) by (intro a_rows_added(2)[of a_lessons, OF fr(6,8)]) force
      show ?thesis unfolding src_chapter_def rows
        using authoring_bounds(3)[OF Cons.prems(1)] by (auto simp: a_rows_def intro!: lesson)
    qed
    then have srcs: "map (src_chapter t) cs = map (src_chapter s) cs" by simp
    have rest: "tx_for cs (copy_chapter course o' u) t = tx_for (map (src_chapter t) cs) (insert_chapter course o' u) t"
      using Cons.prems fr by (intro Cons.IH ok) auto
    show ?thesis using Cons.prems rest[unfolded srcs] by (simp add: copy_chapter_eq t)
  qed (use Cons.prems in \<open>simp add: copy_chapter_eq\<close>)
qed simp

text \<open>
  Duplicating a course appends one new draft with the title suffixed by (copy), whose live
  content equals that of the source; the content of every other course is untouched.
\<close>

theorem duplicating_copies:
  assumes "authoring_ok s" "serve u (DuplicateCourse ac c) s = (r, s')" "http_status r = 201"
  shows "\<exists>src \<in> set (a_courses s). \<exists>new. c_id src = c_id c \<and> a_courses s' = a_courses s @ [new] \<and> c_id new = a_next s \<and>
    c_org new = c_org src \<and> c_title new = c_title src @ '' (copy)'' \<and> c_status new = CDraft \<and>
    live_content (stamp u s') (c_id new) = live_content (stamp u s) (c_id c) \<and>
    (\<forall>j. j \<noteq> c_id new \<longrightarrow> live_content (stamp u s') j = live_content (stamp u s) j)"
proof -
  let ?s = "stamp u s"
  have ok: "authoring_ok ?s" using assms(1) by (simp add: authoring_ok_def)
  obtain t where rh: "run_handler (DuplicateCourse ac c) ?s = (r, t)"
    using assms(2) by (cases "run_handler (DuplicateCourse ac c) ?s") (auto simp: serve_def split: if_splits)
  then obtain n where n: "CourseRepo_Duplicate (c_id c) (ac_user ac) ?s = Inr (n, t)"
    using assms(3) unfolding run_handler_cases DuplicateCourse_def h_run
    by (auto simp: not_found_or_internal_def internal_error_def split: if_splits)
  then obtain src new s1 chs s2 where src: "ACourseRepo_Get (c_id c) ?s = Inr (src, ?s)"
    and ins: "a_insert a_courses put_acourses c_org (\<lambda>i t.
       \<lparr>c_id = i, c_org = c_org src, c_title = c_title src @ '' (copy)'', c_description = c_description src,
        c_cover = c_cover src, c_category = c_category src, c_status = CDraft, c_publish_date = None,
        c_created_by = ac_user ac, c_created = t, c_updated = t, c_published_at = None, c_archived_at = None\<rparr>) ?s = Inr (new, s1)"
    and chs: "ChapterRepo_ListByCourse (c_id c) s1 = Inr (chs, s2)"
    and copy: "tx_for chs (copy_chapter (c_id new) (c_org new) (ac_user ac)) s2 = Inr ((), t)"
    unfolding CourseRepo_Duplicate_def
    by - (erule get_course_bindE, erule tx_bindE, erule tx_bindE, erule tx_bindE, simp)
  from src have src': "src \<in> set (a_courses s)" "c_id src = c_id c" "sees ?s (c_org src)"
    using ins unfolding course_rows.insert_Inr by (auto dest!: get_course_seen)
  from ins have new: "c_id new = a_next s" "c_org new = c_org src" "c_title new = c_title src @ '' (copy)''" "c_status new = CDraft"
    and s1: "s1 = put_acourses (a_courses s @ [new]) (?s\<lparr>a_next := Suc (a_next s)\<rparr>)"
    unfolding course_rows.insert_Inr by auto
  have ok1: "authoring_ok s1" by (rule insert_authoring(1)[OF ok ins]) (simp add: new)
  have see: "sees s1 g = sees ?s g" for g by (simp add: s1 sees_def is_org_member_def)
  have lc1: "live_content s1 j = live_content ?s j" for j by (rule live_content_frame) (simp_all add: s1)
  from chs have s2: "s2 = s1" and chs': "chs = sort_key ch_sort (a_rows a_chapters ch_org (\<lambda>c'. ch_course c' = c_id c) s1)"
    by (auto simp: ChapterRepo_ListByCourse_def)
  have "\<forall>x \<in> set chs. x \<in> set (a_chapters s1)" by (auto simp: chs' a_rows_def)
  with copy have run: "tx_for (map (src_chapter s1) chs) (insert_chapter (c_id new) (c_org new) (ac_user ac)) s1 = Inr ((), t)"
    using copy_chapters_eq[OF ok1] src'(3) by (simp add: s2 see new)
  have see1: "sees s1 (c_org new)" by (simp add: see new src')
  note content = inserted_content[OF run ok1 see1]
  from content(3) obtain rs ls bs where add: "adds (c_org new) s1 t rs ls bs" by blast
  note fr = adds_frame[OF add]
  have none: "a_rows a_chapters ch_org (\<lambda>x. ch_course x = c_id new) s1 = []"
    using authoring_bounds(2)[OF assms(1)] by (fastforce simp: a_rows_def s1 new filter_empty_conv)
  have s': "s' = unstamp t" using assms(2,3) rh fr(10) by (simp add: serve_eq s1)
  have view: "live_content (stamp u s') j = live_content t j" for j
    by (rule live_content_frame) (simp_all add: s' fr s1)
  have "live_content t (c_id new) = live_content s1 (c_id c)"
    using content(1)[OF none] by (simp add: chs' settle_src)
  moreover have "live_content t j = live_content s1 j" if "j \<noteq> c_id new" for j using content(2)[OF that] .
  ultimately show ?thesis
    using src' new by (intro bexI[of _ src] exI[of _ new]) (simp_all add: view lc1, simp add: s' fr s1)
qed

section \<open>Adding and deleting a chapter\<close>

text \<open>What the code relies on from the position column: stored positions are floats, and storing
  a value does not move it below a stored position it was above.\<close>

definition numeric_column :: "sort_column \<Rightarrow> adb \<Rightarrow> bool" where
  "numeric_column col s \<longleftrightarrow> (\<forall>c \<in> set (a_chapters s). fl (ch_sort c) = ch_sort c \<and>
     (\<forall>v w. col v = Some w \<longrightarrow> ch_sort c \<le> v \<longrightarrow> ch_sort c \<le> w))"

lemma insort_key_snoc: "f a \<le> f x \<Longrightarrow> insort_key f a (ys @ [x]) = insort_key f a ys @ [x]"
  by (induction ys) auto

lemma sort_key_snoc_max: "(\<And>y. y \<in> set xs \<Longrightarrow> f y \<le> f x) \<Longrightarrow> sort_key f (xs @ [x]) = sort_key f xs @ [x]"
  by (induction xs) (simp_all add: insort_key_snoc)

lemma next_position_last:
  assumes "p \<in> set ps" "sorted ps" "\<And>p. p \<in> set ps \<Longrightarrow> fl p = p"
  shows "p \<le> NextSortOrder ps"
proof -
  have ne: "ps \<noteq> []" using assms(1) by auto
  then obtain qs q where ps: "ps = qs @ [q]" by (metis rev_exhaust)
  have "p \<le> q" using assms(1,2) by (auto simp: ps sorted_append)
  also have "q = fl q" using assms(3) by (simp add: ps)
  also have "\<dots> \<le> fl (q + 1)" by (rule fl_mono) simp
  finally show ?thesis by (simp add: NextSortOrder_def ps)
qed

text \<open>
  C18: Seen through the outline that readers get (the chapters in the order of their positions
  with what is below them), creating a chapter is appending an empty chapter at the end of the
  course: the computed position comes last, rounding included. The database's NUMERIC column is
  an argument; its documented behaviour used here is that stored positions read back as the
  floats they are and that it keeps the order.
\<close>

theorem adding_a_chapter_appends:
  assumes ok: "authoring_ok s" and col: "numeric_column (ce_col env) s"
    and srv: "serve u (CreateChapter env ac c body) s = (r, s')" "http_status r = 201" and own: "is_org_member s u (c_org c)"
  shows "\<exists>title pos. body = Some title \<and>
    live_content (stamp u s') (c_id c) =
      live_content (stamp u s) (c_id c) @ [\<lparr>sc_title = title, sc_sort = pos, sc_lessons = []\<rparr>] \<and>
    (\<forall>j. j \<noteq> c_id c \<longrightarrow> live_content (stamp u s') j = live_content (stamp u s) j)"
proof -
  let ?s = "stamp u s"
  have oks: "authoring_ok ?s" using ok by (simp add: authoring_ok_def)
  let ?rows = "a_rows a_chapters ch_org (\<lambda>x. ch_course x = c_id c) ?s"
  obtain t where rh: "run_handler (CreateChapter env ac c body) ?s = (r, t)"
    using srv(1) by (cases "run_handler (CreateChapter env ac c body) ?s") (auto simp: serve_def split: if_splits)
  then obtain title ch where b: "body = Some title" and
    cr: "stored_at (ce_col env) (NextSortOrder (map ch_sort (sort_key ch_sort ?rows)))
           (ChapterRepo_Create (c_id c) (c_org c) (ac_user ac) title) ?s = Inr (ch, t)"
    using srv(2) unfolding run_handler_cases CreateChapter_def
    by (cases body) (auto simp: h_run internal_error_def ChapterRepo_ListByCourse_def)
  from cr obtain pos where pos: "ce_col env (NextSortOrder (map ch_sort (sort_key ch_sort ?rows))) = Some pos"
    and mk: "ChapterRepo_Create (c_id c) (c_org c) (ac_user ac) title pos ?s = Inr (ch, t)"
    by (auto simp: stored_at_def split: option.splits)
  from mk have ch: "ch_id ch = a_next s" "ch_course ch = c_id c" "ch_org ch = c_org c" "ch_title ch = title" "ch_sort ch = pos"
    and t: "t = put_chapters (a_chapters s @ [ch]) (?s\<lparr>a_next := Suc (a_next s)\<rparr>)"
    by (auto simp: ChapterRepo_Create_def chapter_rows.insert_Inr new_chapter_def split: if_splits)
  have add: "adds (c_org c) ?s t [ch] [] []" by (simp add: adds_def t ch)
  have see: "sees ?s (c_org c)" using own by (simp add: stamp_sees)
  note out = added_outline[OF add oks see] and fr = adds_frame[OF add]
  have max: "ch_sort x \<le> ch_sort ch" if "x \<in> set ?rows" for x
  proof -
    have x: "x \<in> set (a_chapters s)" using that by (simp add: a_rows_def)
    have "ch_sort x \<le> NextSortOrder (map ch_sort (sort_key ch_sort ?rows))"
      using that col by (intro next_position_last) (auto simp: sorted_sort_key numeric_column_def a_rows_def)
    then show ?thesis using col x pos by (auto simp: numeric_column_def ch)
  qed
  have rows: "a_rows a_chapters ch_org (\<lambda>x. ch_course x = c_id c) t = ?rows @ [ch]"
    using see by (simp add: a_rows_def fr ch)
  have here: "live_content t (c_id c) = live_content ?s (c_id c) @ [\<lparr>sc_title = title, sc_sort = pos, sc_lessons = []\<rparr>]"
  proof -
    have "snap_chapter t ch = \<lparr>sc_title = title, sc_sort = pos, sc_lessons = []\<rparr>"
      using out(1)[of ch] by (simp add: settle_chapter_def raw_chapter_def ch)
    moreover have "map (snap_chapter t) (sort_key ch_sort ?rows) = map (snap_chapter ?s) (sort_key ch_sort ?rows)"
      by (intro map_cong refl out(2)) (auto simp: a_rows_def)
    ultimately show ?thesis by (simp add: live_content_def rows sort_key_snoc_max[of ?rows ch_sort ch, OF max])
  qed
  have "live_content t j = live_content ?s j" if "j \<noteq> c_id c" for j
  proof -
    have "a_rows a_chapters ch_org (\<lambda>x. ch_course x = j) t = a_rows a_chapters ch_org (\<lambda>x. ch_course x = j) ?s"
      using that by (simp add: a_rows_def fr ch)
    then show ?thesis unfolding live_content_def by (auto simp: a_rows_def intro!: map_cong out(2))
  qed
  moreover have s': "s' = unstamp t" using srv rh by (simp add: serve_eq t)
  have "live_content (stamp u s') j = live_content t j" for j
    by (rule live_content_frame) (simp_all add: s' t)
  ultimately show ?thesis using b here by simp
qed

lemma filter_one:
  "distinct (map k xs) \<Longrightarrow> x \<in> set xs \<Longrightarrow> \<exists>pre post. xs = pre @ x # post \<and> filter (\<lambda>y. k y \<noteq> k x) xs = pre @ post"
proof -
  assume d: "distinct (map k xs)" and "x \<in> set xs"
  then obtain pre post where xs: "xs = pre @ x # post" by (meson split_list)
  then have "k x \<notin> k ` set pre" "k x \<notin> k ` set post" using d by auto
  then have "filter (\<lambda>y. k y \<noteq> k x) pre = pre" "filter (\<lambda>y. k y \<noteq> k x) post = post" by (metis (mono_tags, lifting) filter_True image_eqI)+
  then show ?thesis using xs by (intro exI[of _ pre] exI[of _ post]) simp
qed

text \<open>
  Seen through the outline that readers get, deleting a chapter succeeds only for a chapter
  without lessons and takes exactly this chapter out of the outline of its course; every other
  outline is untouched.
\<close>

theorem deleting_a_chapter_removes_it:
  assumes ok: "authoring_ok s" and srv: "serve u (DeleteChapter i) s = (r, s')" "http_status r = 204"
  shows "\<exists>ch \<in> set (a_chapters s). \<exists>x pre post. ch_id ch = i \<and> sc_title x = ch_title ch \<and> sc_lessons x = [] \<and>
    live_content (stamp u s) (ch_course ch) = pre @ x # post \<and> live_content (stamp u s') (ch_course ch) = pre @ post \<and>
    (\<forall>j. j \<noteq> ch_course ch \<longrightarrow> live_content (stamp u s') j = live_content (stamp u s) j)"
proof -
  let ?s = "stamp u s"
  have oks: "authoring_ok ?s" using ok by (simp add: authoring_ok_def)
  obtain t where rh: "run_handler (DeleteChapter i) ?s = (r, t)"
    using srv(1) by (cases "run_handler (DeleteChapter i) ?s") (auto simp: serve_def split: if_splits)
  then have del: "ChapterRepo_Delete i ?s = Inr ((), t)"
  proof (cases "ChapterRepo_Delete i ?s")
    case (Inl e)
    then have "r = has_children ''chapter still has lessons'' ''lesson_count'' ''chapter not found'' e"
      using rh by (auto simp: run_handler_def DeleteChapter_def h_bind_def sql_eq)
    then show ?thesis using srv(2)
      by (cases e) (simp_all add: has_children_def not_found_or_internal_def internal_error_def)
  next
    case (Inr p)
    then show ?thesis using rh by (cases p) (auto simp: run_handler_def DeleteChapter_def h_bind_def sql_eq h_return_def)
  qed
  define P where "P = (\<lambda>c :: chapter_row. sees ?s (ch_org c) \<and> ch_id c = i)"
  from del have "(if 0 < length (a_rows a_lessons ls_org (\<lambda>r. ls_chapter r = i) ?s)
      then Inl (ErrHasChildren (length (a_rows a_lessons ls_org (\<lambda>r. ls_chapter r = i) ?s)))
      else if a_rows a_chapters ch_org (\<lambda>r. ch_id r = i) ?s = [] then Inl ErrNotFound else Inr ((), drop_chapters P ?s)) = Inr ((), t)"
    unfolding ChapterRepo_Delete_def a_delete_def Let_def P_def .
  then have empty: "a_rows a_lessons ls_org (\<lambda>l. ls_chapter l = i) ?s = []" and t: "t = drop_chapters P ?s"
    and some: "a_rows a_chapters ch_org (\<lambda>c. ch_id c = i) ?s \<noteq> []"
    by (simp_all split: if_splits)
  from some obtain ch where ch: "ch \<in> set (a_chapters s)" "ch_id ch = i" "sees ?s (ch_org ch)"
    unfolding a_rows_def filter_empty_conv by auto
  have ids: "c = ch" if "c \<in> set (a_chapters s)" "ch_id c = i" for c
    using ok that ch by (auto simp: authoring_ok_def distinct_map dest: inj_onD)
  let ?rows = "\<lambda>j. sort_key ch_sort (a_rows a_chapters ch_org (\<lambda>c. ch_course c = j) ?s)"
  have dist: "distinct (map ch_id (?rows j))" for j
    using ok by (auto simp: authoring_ok_def a_rows_def distinct_map intro: inj_on_subset)
  have "ch \<in> set (?rows (ch_course ch))" using ch by (simp add: a_rows_def)
  from filter_one[OF dist this] obtain pre post where pp: "?rows (ch_course ch) = pre @ ch # post"
    "filter (\<lambda>y. ch_id y \<noteq> ch_id ch) (?rows (ch_course ch)) = pre @ post" by blast
  have "filter (\<lambda>c. \<not> P c) (?rows j) = filter (\<lambda>y. ch_id y \<noteq> ch_id ch) (?rows j)" for j
    using ch by (intro filter_cong) (auto simp: P_def a_rows_def)
  then have after: "live_content t j = map (snap_chapter ?s) (filter (\<lambda>y. ch_id y \<noteq> ch_id ch) (?rows j))" for j
    unfolding t drop_chapters_content[OF oks] by simp
  have other: "live_content t j = live_content ?s j" if "j \<noteq> ch_course ch" for j
  proof -
    have "filter (\<lambda>y. ch_id y \<noteq> ch_id ch) (?rows j) = ?rows j"
      using that ids ch(2) by (intro filter_True) (auto simp: a_rows_def)
    then have "live_content t j = map (snap_chapter ?s) (?rows j)" by (simp only: after)
    then show ?thesis by (simp only: live_content_def[of ?s])
  qed
  have fr: "a_members t = a_members s" "a_session t = Some u" "\<not> a_aborted t"
    by (simp_all add: t drop_chapters_def drop_lessons_def drop_blocks_def)
  have s': "s' = unstamp t" using srv rh fr by (simp add: serve_eq)
  have "live_content (stamp u s') j = live_content t j" for j
    by (rule live_content_frame) (simp_all add: s' fr)
  moreover have "sc_lessons (snap_chapter ?s ch) = []" "sc_title (snap_chapter ?s ch) = ch_title ch"
    using empty ch(2) by (simp_all add: snap_chapter_def)
  moreover have "live_content ?s (ch_course ch) = map (snap_chapter ?s) pre @ snap_chapter ?s ch # map (snap_chapter ?s) post"
    "live_content t (ch_course ch) = map (snap_chapter ?s) pre @ map (snap_chapter ?s) post"
    using after[of "ch_course ch", unfolded pp(2)] by (simp_all add: live_content_def[of ?s] pp(1))
  ultimately show ?thesis
    using ch other by (intro bexI[of _ ch] exI[of _ "snap_chapter ?s ch"] exI[of _ "map (snap_chapter ?s) pre"]
        exI[of _ "map (snap_chapter ?s) post"]) simp_all
qed

end
