(* ===== verification/AuthorSweep.thy ===== *)
theory AuthorSweep
  imports AuthorOutline
begin

text \<open>
  The scheduled-publish sweep over the whole database, the renumbering of positions, and the
  limit on the number of courses.
\<close>

section \<open>The sweep publishes what is due\<close>

definition due :: "adb \<Rightarrow> course \<Rightarrow> bool" where
  "due s c \<longleftrightarrow> c_status c = CScheduled \<and> (case c_publish_date c of None \<Rightarrow> False | Some d \<Rightarrow> d \<le> a_clock s)"

definition videos_of :: "adb \<Rightarrow> uuid \<Rightarrow> block list" where
  "videos_of s i = sort_key bk_sort (a_rows a_blocks bk_org (\<lambda>b. bk_course b = i \<and> bk_type b = VideoBlock) s)"

definition go_live :: "time \<Rightarrow> course \<Rightarrow> course" where
  "go_live t c = c\<lparr>c_status := CPublished, c_published_at := Some t, c_publish_date := None, c_updated := t\<rparr>"

definition recorded :: "adb \<Rightarrow> course \<Rightarrow> course_version \<Rightarrow> bool" where
  "recorded s c v \<longleftrightarrow> cv_course v = c_id c \<and> cv_org v = c_org c \<and> cv_number v = next_version s (c_id c) \<and>
     cv_snapshot v = \<lparr>cs_title = c_title c, cs_description = c_description c, cs_chapters = live_content s (c_id c)\<rparr>"

lemma due_courses_ids: "due_courses s = map c_id (filter (due s) (a_courses s))"
  by (simp add: due_courses_def due_def[abs_def])

lemma worker_rows: "a_session s = None \<Longrightarrow> a_rows g o_of P s = filter P (g s)"
  by (simp add: a_rows_def sees_def)

lemma find_filter: "find (\<lambda>_. True) (filter P xs) = find P xs"
  by (induction xs) auto

lemma worker_asset: "a_session s = None \<Longrightarrow> AssetRepo_Get x s = (case parse_uuid x of None \<Rightarrow> Inl ErrStorage
     | Some i \<Rightarrow> (case find (\<lambda>a. as_id a = i) (a_assets s) of None \<Rightarrow> Inl ErrNotFound | Some a \<Rightarrow> Inr (a, s)))"
  by (simp add: AssetRepo_Get_def a_select_def tab_select1_def worker_rows find_filter split: option.split)

lemma ready_frame:
  assumes "a_session t = None" "a_session s = None" "a_assets t = a_assets s"
  shows "sweep_videos_ready t bs = sweep_videos_ready s bs"
  by (induction bs) (simp_all add: worker_asset assms split: sum.split option.split)

lemma next_version_free:
  assumes "a_session s = None" "v \<in> set (a_versions s)" "cv_course v = i"
  shows "cv_number v < next_version s i"
proof -
  have "cv_number v \<in> set (map cv_number (filter (\<lambda>v. cv_course v = i) (a_versions s)))" using assms by auto
  then have "cv_number v \<le> Max (set (map cv_number (filter (\<lambda>v. cv_course v = i) (a_versions s))))" by (intro Max_ge) auto
  moreover have "map cv_number (filter (\<lambda>v. cv_course v = i) (a_versions s)) \<noteq> []" using assms by (auto simp: filter_empty_conv)
  ultimately show ?thesis using assms(1) unfolding next_version_def worker_rows[OF assms(1)] Let_def by simp
qed

lemma find_unique: "distinct (map k xs) \<Longrightarrow> x \<in> set xs \<Longrightarrow> find (\<lambda>y. k y = k x) xs = Some x"
  by (induction xs) auto

lemma publish_one_run:
  assumes ok: "authoring_ok s" and w: "a_session s = None" and c: "c \<in> set (a_courses s)"
  shows "c_status c \<noteq> CScheduled \<or> \<not> sweep_videos_ready s (videos_of s (c_id c)) \<Longrightarrow>
      run_tx (publishOneScheduledCourse (c_id c)) s = (Inr (), s)"
    "c_status c = CScheduled \<Longrightarrow> sweep_videos_ready s (videos_of s (c_id c)) \<Longrightarrow>
      \<exists>v. recorded s c v \<and> run_tx (publishOneScheduledCourse (c_id c)) s =
        (Inr (), s\<lparr>a_courses := map (\<lambda>x. if c_id x = c_id c then go_live (a_clock s) x else x) (a_courses s),
           a_next := Suc (a_next s), a_versions := a_versions s @ [v]\<rparr>)"
proof -
  have dist: "distinct (map c_id (a_courses s))" using ok by (simp add: authoring_ok_def)
  have get: "ACourseRepo_Get (c_id c) s = Inr (c, s)"
    using find_unique[OF dist c] by (simp add: ACourseRepo_Get_def tab_select1_def sees_course_def sees_def w)
  have vids: "BlockRepo_ListVideoBlocksByCourse (c_id c) s = Inr (videos_of s (c_id c), s)"
    by (simp add: BlockRepo_ListVideoBlocksByCourse_def videos_of_def)
  show "run_tx (publishOneScheduledCourse (c_id c)) s = (Inr (), s)"
    if "c_status c \<noteq> CScheduled \<or> \<not> sweep_videos_ready s (videos_of s (c_id c))"
    using that by (auto simp: publishOneScheduledCourse_def get vids run_tx_def)
  assume st: "c_status c = CScheduled" and rdy: "sweep_videos_ready s (videos_of s (c_id c))"
  let ?t = "put_acourses (map (\<lambda>x. if c_id x = c_id c then go_live (a_clock s) x else x) (a_courses s)) s"
  have pub: "CourseRepo_Publish (c_id c) s = Inr (go_live (a_clock s) c, ?t)"
    using find_unique[OF dist c]
    by (simp add: CourseRepo_Publish_def a_update_def tab_update_def sees_def w go_live_def cong: if_cong)
  have get': "ACourseRepo_Get (c_id c) ?t = Inr (go_live (a_clock s) c, ?t)"
  proof -
    have "find (\<lambda>y. c_id y = c_id c) (a_courses ?t) = Some (go_live (a_clock s) c)"
      using find_unique[OF dist c] find_map_upd[of "\<lambda>x. c_id x = c_id c" "\<lambda>y. c_id y = c_id c" "go_live (a_clock s)" "a_courses s"]
      by (simp add: go_live_def)
    then show ?thesis
      by (simp add: ACourseRepo_Get_def tab_select1_def sees_course_def sees_def w)
  qed
  have nv: "next_version ?t i = next_version s i" for i
    by (simp add: next_version_def a_rows_frame[of ?t s a_versions])
  have lc: "live_content ?t i = live_content s i" for i by (rule live_content_frame) simp_all
  have free: "\<not> (\<exists>v \<in> set (a_versions ?t). cv_course v = c_id c \<and> cv_number v = next_version ?t (c_id c))"
    unfolding nv using next_version_free[OF w] by fastforce
  obtain v where v: "CourseVersionRepo_Snapshot (c_id c) (c_org c) (c_created_by c) ?t =
      Inr (v, put_versions (a_versions s @ [v]) (?t\<lparr>a_next := Suc (a_next s)\<rparr>))" "recorded s c v"
  proof
    let ?v = "\<lparr>cv_id = a_next s, cv_course = c_id c, cv_org = c_org c, cv_number = next_version s (c_id c),
      cv_snapshot = \<lparr>cs_title = c_title c, cs_description = c_description c, cs_chapters = live_content s (c_id c)\<rparr>,
      cv_created_by = c_created_by c, cv_created = a_clock s\<rparr>"
    show "CourseVersionRepo_Snapshot (c_id c) (c_org c) (c_created_by c) ?t =
        Inr (?v, put_versions (a_versions s @ [?v]) (?t\<lparr>a_next := Suc (a_next s)\<rparr>))"
      using free get' by (simp add: snapshot_run nv lc sees_def w go_live_def)
    show "recorded s c ?v" by (simp add: recorded_def)
  qed
  then show "\<exists>v. recorded s c v \<and> run_tx (publishOneScheduledCourse (c_id c)) s =
        (Inr (), s\<lparr>a_courses := map (\<lambda>x. if c_id x = c_id c then go_live (a_clock s) x else x) (a_courses s),
           a_next := Suc (a_next s), a_versions := a_versions s @ [v]\<rparr>)"
    using st rdy by (intro exI[of _ v]) (simp add: publishOneScheduledCourse_def get vids pub run_tx_def)
qed

text \<open>The state after the courses \<open>D\<close> had their turn.\<close>

definition goes_live :: "adb \<Rightarrow> course \<Rightarrow> bool" where
  "goes_live s c \<longleftrightarrow> due s c \<and> sweep_videos_ready s (videos_of s (c_id c))"

definition swept :: "adb \<Rightarrow> uuid set \<Rightarrow> adb \<Rightarrow> bool" where
  "swept s D t \<longleftrightarrow> (\<exists>vs. t = s\<lparr>a_courses := map (\<lambda>c. if c_id c \<in> D \<and> goes_live s c then go_live (a_clock s) c else c) (a_courses s),
       a_next := a_next t, a_versions := a_versions s @ vs\<rparr> \<and>
     (\<forall>v \<in> set vs. cv_course v \<in> D) \<and>
     (\<forall>c \<in> set (a_courses s). c_id c \<in> D \<longrightarrow> goes_live s c \<longrightarrow> (\<exists>v \<in> set vs. recorded s c v))) \<and> authoring_ok t"

lemma publish_one_keeps: "tx_pres authoring_ok (publishOneScheduledCourse i)"
proof -
  have "tx_pres authoring_ok (tx_bind (CourseRepo_Publish i) (\<lambda>_.
      tx_bind (CourseVersionRepo_Snapshot i o' u) (\<lambda>_. tx_return ())))" for o' u
    by (intro tx_pres_bind keys.keeps_status_changes keys.keeps_snapshot tx_pres_return) simp_all
  then have "tx_pres authoring_ok (\<lambda>s. if \<not> sweep_videos_ready s vs then Inr ((), s)
      else tx_bind (CourseRepo_Publish i) (\<lambda>_. tx_bind (CourseVersionRepo_Snapshot i o' u) (\<lambda>_. tx_return ())) s)" for vs o' u
    by (auto simp: tx_post_def)
  then show ?thesis
    unfolding publishOneScheduledCourse_def
    by (intro tx_pres_bind tx_post_if tx_pres_return keys.keeps_lists)
qed

lemma swept_step:
  assumes sw: "swept s D t" and w: "a_session s = None" and c: "c \<in> set (a_courses s)" "due s c" "c_id c \<notin> D" and ok: "authoring_ok s"
  shows "swept s (insert (c_id c) D) (snd (run_tx (publishOneScheduledCourse (c_id c)) t))"
proof -
  let ?mark = "\<lambda>D c. if c_id c \<in> D \<and> goes_live s c then go_live (a_clock s) c else c"
  from sw obtain vs where t: "t = s\<lparr>a_courses := map (?mark D) (a_courses s), a_next := a_next t, a_versions := a_versions s @ vs\<rparr>"
    and vs: "\<forall>v \<in> set vs. cv_course v \<in> D"
    and rec: "\<forall>c \<in> set (a_courses s). c_id c \<in> D \<longrightarrow> goes_live s c \<longrightarrow> (\<exists>v \<in> set vs. recorded s c v)"
    and okt: "authoring_ok t" unfolding swept_def by blast
  have fr: "a_session t = None" "a_clock t = a_clock s" "a_assets t = a_assets s" "a_versions t = a_versions s @ vs"
    "a_courses t = map (?mark D) (a_courses s)" "a_blocks t = a_blocks s" "a_chapters t = a_chapters s" "a_lessons t = a_lessons s"
    "a_members t = a_members s"
    by (subst t, simp add: w)+
  have ct: "c \<in> set (a_courses t)" using c by (auto simp: fr intro!: image_eqI[of _ _ c])
  have rdy: "sweep_videos_ready t (videos_of t (c_id c)) = sweep_videos_ready s (videos_of s (c_id c))"
    by (simp add: ready_frame[OF fr(1) w fr(3)] videos_of_def worker_rows w fr)
  have st: "c_status c = CScheduled" using c(2) by (simp add: due_def)
  have ids: "x = c" if "x \<in> set (a_courses s)" "c_id x = c_id c" for x
    using ok that c(1) by (auto simp: authoring_ok_def distinct_map dest: inj_onD)
  show ?thesis
  proof (cases "sweep_videos_ready s (videos_of s (c_id c))")
    case False
    then have "\<not> goes_live s c" by (simp add: goes_live_def)
    then have eq: "map (?mark (insert (c_id c) D)) (a_courses s) = map (?mark D) (a_courses s)" using ids by auto
    have "swept s (insert (c_id c) D) t" unfolding swept_def eq
    proof (intro conjI exI[of _ vs])
      show "\<forall>x \<in> set (a_courses s). c_id x \<in> insert (c_id c) D \<longrightarrow> goes_live s x \<longrightarrow> (\<exists>v \<in> set vs. recorded s x v)"
        using rec ids \<open>\<not> goes_live s c\<close> by auto
    qed (use vs in auto, rule t, rule okt)
    then show ?thesis using publish_one_run(1)[OF okt fr(1) ct] rdy False by simp
  next
    case True
    then have live: "goes_live s c" using c by (simp add: goes_live_def)
    from publish_one_run(2)[OF okt fr(1) ct st] True rdy obtain v where v: "recorded t c v"
      and run: "run_tx (publishOneScheduledCourse (c_id c)) t =
        (Inr (), t\<lparr>a_courses := map (\<lambda>x. if c_id x = c_id c then go_live (a_clock t) x else x) (a_courses t),
           a_next := Suc (a_next t), a_versions := a_versions t @ [v]\<rparr>)" (is "_ = (_, ?u)") by auto
    have marks: "map (\<lambda>x. if c_id x = c_id c then go_live (a_clock t) x else x) (a_courses t) = map (?mark (insert (c_id c) D)) (a_courses s)"
      using ids live c(3) by (auto simp: fr go_live_def)
    have "next_version t (c_id c) = next_version s (c_id c)"
    proof -
      have "filter (\<lambda>v. cv_course v = c_id c) vs = []" using vs c(3) by (auto simp: filter_empty_conv)
      then show ?thesis by (simp add: next_version_def worker_rows w fr)
    qed
    then have rv: "recorded s c v" using v live_content_frame[of t s] by (simp add: recorded_def fr w)
    have "authoring_ok ?u" using run_tx_pres[OF publish_one_keeps okt, of "c_id c"] by (simp add: run)
    moreover have "?u = s\<lparr>a_courses := map (?mark (insert (c_id c) D)) (a_courses s), a_next := a_next ?u, a_versions := a_versions s @ (vs @ [v])\<rparr>"
      unfolding marks by (subst (1) t) (simp add: fr)
    moreover have "cv_course v = c_id c" using rv by (simp add: recorded_def)
    moreover have "\<forall>x \<in> set (a_courses s). c_id x \<in> insert (c_id c) D \<longrightarrow> goes_live s x \<longrightarrow> (\<exists>w \<in> set (vs @ [v]). recorded s x w)"
      using rec ids rv by auto
    moreover have "\<forall>w \<in> set (vs @ [v]). cv_course w \<in> insert (c_id c) D" using vs \<open>cv_course v = c_id c\<close> by auto
    ultimately have "swept s (insert (c_id c) D) ?u" unfolding swept_def by (intro conjI exI[of _ "vs @ [v]"])
    then show ?thesis by (simp add: run)
  qed
qed

text \<open>
  The rule of PublishCourse: every video block refers to an asset that is ready. The sweep's own
  check agrees with it on blocks whose content decodes.
\<close>

definition ready_to_publish :: "adb \<Rightarrow> course \<Rightarrow> bool" where
  "ready_to_publish s c \<longleftrightarrow> due s c \<and>
     (\<forall>b \<in> set (a_blocks s). bk_course b = c_id c \<longrightarrow> bk_type b = VideoBlock \<longrightarrow> video_ready s b)"

lemma decoded_string: "dec_field dec_string n kvs a = Inr x \<Longrightarrow> last_string n kvs a = x"
  by (induction kvs arbitrary: a) (auto simp: dec_string_def split: if_splits sum.splits json.splits)

lemma decoded_asset: "videoBlockContent j = Inr x \<Longrightarrow> video_asset j = x"
  by (auto simp: videoBlockContent_def json_members_def video_asset_def decoded_string split: json.splits sum.splits)

lemma sweep_ready_iff:
  assumes "a_session s = None" "distinct (map as_id (a_assets s))"
    and "\<And>b. b \<in> set bs \<Longrightarrow> \<exists>i. videoBlockContent (bk_content b) = Inr i"
  shows "sweep_videos_ready s bs \<longleftrightarrow> (\<forall>b \<in> set bs. video_ready s b)"
  using assms(3)
proof (induction bs)
  case (Cons b bs)
  obtain i where i: "videoBlockContent (bk_content b) = Inr i" using Cons.prems by auto
  have "(case AssetRepo_Get i s of Inl _ \<Rightarrow> False | Inr (a, _) \<Rightarrow> as_status a = ProcReady) = video_ready s b"
  proof (cases "parse_uuid i")
    case None
    then show ?thesis by (simp add: worker_asset[OF assms(1)] video_ready_def decoded_asset[OF i])
  next
    case (Some k)
    show ?thesis
    proof (cases "find (\<lambda>a. as_id a = k) (a_assets s)")
      case n: None
      have "\<forall>a \<in> set (a_assets s). as_id a \<noteq> k" using n by (auto simp: find_None_iff)
      then show ?thesis using Some n
        by (auto simp: worker_asset[OF assms(1)] video_ready_def decoded_asset[OF i])
    next
      case a: (Some a)
      then have "x = a" if "x \<in> set (a_assets s)" "as_id x = k" for x
        using find_unique[OF assms(2) that(1)] that(2) by simp
      then show ?thesis using Some a find_SomeD[OF a]
        by (auto simp: worker_asset[OF assms(1)] video_ready_def decoded_asset[OF i])
    qed
  qed
  then show ?case using Cons i by (auto split: sum.splits prod.splits)
qed simp

lemma goes_live_iff:
  assumes "a_session s = None" "distinct (map as_id (a_assets s))" "c \<in> set (a_courses s)"
    and "\<And>c b. c \<in> set (a_courses s) \<Longrightarrow> due s c \<Longrightarrow> b \<in> set (a_blocks s) \<Longrightarrow> bk_course b = c_id c \<Longrightarrow>
      bk_type b = VideoBlock \<Longrightarrow> \<exists>i. videoBlockContent (bk_content b) = Inr i"
  shows "goes_live s c \<longleftrightarrow> ready_to_publish s c"
proof (cases "due s c")
  case True
  have "sweep_videos_ready s (videos_of s (c_id c)) \<longleftrightarrow> (\<forall>b \<in> set (videos_of s (c_id c)). video_ready s b)"
    by (rule sweep_ready_iff[OF assms(1,2)]) (use assms(3,4) True in \<open>auto simp: videos_of_def worker_rows[OF assms(1)]\<close>)
  then show ?thesis using True by (auto simp: goes_live_def ready_to_publish_def videos_of_def worker_rows[OF assms(1)])
qed (simp add: goes_live_def ready_to_publish_def)

text \<open>
  Where the content of a video block does not decode, the two differ: the sweep passes over the
  block, while PublishCourse goes on with the asset id it could decode, in the example none.
\<close>

lemma undecodable_video:
  "videoBlockContent (bk_content b) = Inl e \<Longrightarrow> sweep_videos_ready s (b # bs) = sweep_videos_ready s bs"
  "bk_content b = JArr [] \<Longrightarrow> videoBlockContent (bk_content b) = Inl ErrUnmarshal \<and> \<not> video_ready s b"
proof -
  have "parse_uuid [] = None" by code_simp
  then show "bk_content b = JArr [] \<Longrightarrow> videoBlockContent (bk_content b) = Inl ErrUnmarshal \<and> \<not> video_ready s b"
    by (simp add: videoBlockContent_def json_members_def video_ready_def video_asset_def)
qed simp

lemma sweep_run:
  assumes ok: "authoring_ok s" and w: "a_session s = None"
  shows "a_courses (sweepScheduledPublishes s) = map (\<lambda>c. if goes_live s c then go_live (a_clock s) c else c) (a_courses s) \<and>
    (\<forall>c \<in> set (a_courses s). goes_live s c \<longrightarrow> (\<exists>v \<in> set (a_versions (sweepScheduledPublishes s)). recorded s c v)) \<and>
    authoring_ok (sweepScheduledPublishes s)"
proof -
  have "swept s (set is) (foldl (\<lambda>t i. snd (run_tx (publishOneScheduledCourse i) t)) s is)"
    if "set is \<subseteq> c_id ` {c \<in> set (a_courses s). due s c}" "distinct is" for "is"
    using that
  proof (induction "is" rule: rev_induct)
    case Nil
    show ?case using ok by (simp add: swept_def)
  next
    case (snoc i "is")
    then obtain c where "c \<in> set (a_courses s)" "due s c" "c_id c = i" by auto
    then show ?case using swept_step[OF snoc.IH w _ _ _ ok] snoc.prems by fastforce
  qed
  moreover have "set (due_courses s) = c_id ` {c \<in> set (a_courses s). due s c}" "distinct (due_courses s)"
    using ok by (auto simp: due_courses_ids authoring_ok_def distinct_map_filter)
  ultimately have sw: "swept s (c_id ` {c \<in> set (a_courses s). due s c}) (sweepScheduledPublishes s)"
    by (metis order_refl sweepScheduledPublishes_def)
  have ids: "c_id c \<in> c_id ` {c \<in> set (a_courses s). due s c} \<and> goes_live s c \<longleftrightarrow> goes_live s c" if "c \<in> set (a_courses s)" for c
    using that by (auto simp: goes_live_def)
  from sw obtain vs where t: "sweepScheduledPublishes s = s\<lparr>a_courses := map (\<lambda>c. if c_id c \<in> c_id ` {c \<in> set (a_courses s). due s c} \<and>
        goes_live s c then go_live (a_clock s) c else c) (a_courses s),
      a_next := a_next (sweepScheduledPublishes s), a_versions := a_versions s @ vs\<rparr>"
    and rec: "\<forall>c \<in> set (a_courses s). c_id c \<in> c_id ` {c \<in> set (a_courses s). due s c} \<longrightarrow> goes_live s c \<longrightarrow> (\<exists>v \<in> set vs. recorded s c v)"
    and okt: "authoring_ok (sweepScheduledPublishes s)" unfolding swept_def by blast
  have "a_courses (sweepScheduledPublishes s) = map (\<lambda>c. if goes_live s c then go_live (a_clock s) c else c) (a_courses s)"
    by (subst t) (simp add: ids cong: map_cong)
  moreover have "set vs \<subseteq> set (a_versions (sweepScheduledPublishes s))" by (subst t) simp
  ultimately show ?thesis using rec ids okt by blast
qed

text \<open>
  C17: Where the content of the video blocks of the due courses decodes, one run of the
  scheduled-publish sweep publishes every scheduled course whose date has come and whose video
  blocks all refer to a ready asset (the rule of PublishCourse), records a version of each with
  its content, and leaves all other courses alone; one course's turn does not disturb another's.
\<close>

theorem sweep_publishes_exactly_what_is_due:
  assumes ok: "authoring_ok s" and w: "a_session s = None" and keys: "distinct (map as_id (a_assets s))"
    and decodes: "\<And>c b. c \<in> set (a_courses s) \<Longrightarrow> due s c \<Longrightarrow> b \<in> set (a_blocks s) \<Longrightarrow> bk_course b = c_id c \<Longrightarrow>
      bk_type b = VideoBlock \<Longrightarrow> \<exists>i. videoBlockContent (bk_content b) = Inr i"
  shows "a_courses (sweepScheduledPublishes s) =
      map (\<lambda>c. if ready_to_publish s c then go_live (a_clock s) c else c) (a_courses s) \<and>
    (\<forall>c \<in> set (a_courses s). ready_to_publish s c \<longrightarrow>
       (\<exists>v \<in> set (a_versions (sweepScheduledPublishes s)). recorded s c v)) \<and>
    authoring_ok (sweepScheduledPublishes s)"
proof -
  have live: "goes_live s c = ready_to_publish s c" if "c \<in> set (a_courses s)" for c
    by (rule goes_live_iff[OF w keys that]) (rule decodes)
  then have "map (\<lambda>c. if goes_live s c then go_live (a_clock s) c else c) (a_courses s) =
      map (\<lambda>c. if ready_to_publish s c then go_live (a_clock s) c else c) (a_courses s)" by simp
  then show ?thesis using sweep_run[OF ok w] live by simp
qed
section \<open>The limit on courses\<close>

lemma get_by_slug_Inr: "OrgRepo_GetBySlug slug s = Inr (g, t) \<longleftrightarrow>
    t = s \<and> find (\<lambda>o'. sees_org s o' \<and> og_slug o' = slug) (a_orgs s) = Some g"
  by (auto simp: OrgRepo_GetBySlug_def tab_select1_def split: option.splits)

lemma get_role_Inr: "MembershipRepo_GetRole u o' s = Inr (role, t) \<longleftrightarrow>
    t = s \<and> (\<exists>m. find (\<lambda>m. sees_membership s m \<and> mb_user m = u \<and> mb_org m = o') (a_members s) = Some m \<and> role = mb_role m)"
  by (auto simp: MembershipRepo_GetRole_def split: option.splits)

lemma resolve_run:
  assumes "resolveOrgBySlugForCourseCreation ac slug s = (Inr o', t)"
  obtains g m where "t = s" "g \<in> set (a_orgs s)" "og_slug g = slug" "o' = og_id g"
    "m \<in> set (a_members s)" "mb_user m = ac_user ac" "mb_org m = og_id g" "mb_role m \<in> {Owner, Teacher}"
proof -
  from assms obtain g s1 role where h: "OrgRepo_GetBySlug slug s = Inr (g, s1)"
      "MembershipRepo_GetRole (ac_user ac) (og_id g) s1 = Inr (role, t)" "role = Owner \<or> role = Teacher" "o' = og_id g"
    unfolding resolveOrgBySlugForCourseCreation_def h_run by auto
  have "t = s" "g \<in> set (a_orgs s)" "og_slug g = slug" using h(1,2) by (auto simp: get_by_slug_Inr get_role_Inr dest!: find_SomeD)
  moreover obtain m where "m \<in> set (a_members s)" "mb_user m = ac_user ac" "mb_org m = og_id g" "mb_role m = role"
    using h(1,2) by (auto simp: get_by_slug_Inr get_role_Inr dest!: find_SomeD)
  ultimately show thesis using that h(3,4) by blast
qed

lemma course_usage:
  "quota_load o' s = Inr ((p, us), t) \<Longrightarrow> usageFor us DimCourses = int (length (seen_courses (\<lambda>c. c_org c = o') s))"
  by (auto simp: quota_load_Inr QuotaRepo_CurrentUsage_def)

definition courses_of :: "adb \<Rightarrow> uuid \<Rightarrow> int" where
  "courses_of s o' = int (length (filter (\<lambda>c. c_org c = o') (a_courses s)))"

lemma courses_of_small: "int (length (a_courses s)) < 2 ^ 63 - 1 \<Longrightarrow> int64 (courses_of s o' + 1) = courses_of s o' + 1"
  using length_filter_le[of "\<lambda>c. c_org c = o'" "a_courses s"] unfolding courses_of_def
  by (intro int64_id) (auto simp del: length_filter_le)

lemma member_sees_courses: "is_org_member s u o' \<Longrightarrow> int (length (seen_courses (\<lambda>c. c_org c = o') (stamp u s))) = courses_of s o'"
proof -
  assume "is_org_member s u o'"
  then have e: "(\<lambda>c. sees_course (stamp u s) c \<and> c_org c = o') = (\<lambda>c. c_org c = o')" by (auto simp: stamp_sees sees_course_def)
  show ?thesis unfolding seen_courses_def courses_of_def e by simp
qed

text \<open>
  When creating a course answers 201, the caller is an owner or teacher of the organization
  that the slug names, one draft of this organization was appended, and the organization has
  afterwards at most as many courses as its plan allows.
\<close>

theorem course_limit_enforced:
  assumes srv: "serve (ac_user ac) (CreateCourse env ac body) s = (r, s')" "http_status r = 201"
    and small: "int (length (a_courses s)) < 2 ^ 63 - 1"
  shows "\<exists>g \<in> set (a_orgs s). \<exists>m \<in> set (a_members s). \<exists>c.
    mb_user m = ac_user ac \<and> mb_org m = og_id g \<and> mb_role m \<in> {Owner, Teacher} \<and>
    a_courses s' = a_courses s @ [c] \<and> c_org c = og_id g \<and> c_status c = CDraft \<and>
    (\<forall>k. effective_limit (stamp (ac_user ac) s) (og_id g) DimCourses = Some k \<longrightarrow> courses_of s' (og_id g) \<le> k)"
proof -
  let ?s = "stamp (ac_user ac) s"
  obtain t where rh: "run_handler (CreateCourse env ac body) ?s = (r, t)"
    using srv(1) by (cases "run_handler (CreateCourse env ac body) ?s") (auto simp: serve_def split: if_splits)
  have res4: "400 \<le> http_status r'" if "resolveOrgBySlugForCourseCreation ac sl x = (Inl r', t')" for sl x r' t'
    using that unfolding resolveOrgBySlugForCourseCreation_def h_run by auto
  have quota4: "400 \<le> http_status r'" if "enforceQuota o' d x = (Inl r', t')" for o' d x r' t'
    using that unfolding enforceQuota_def h_run by (auto split: prod.splits)
  have "CreateCourse env ac body ?s = (Inr r, t)"
  proof (rule ccontr)
    assume "CreateCourse env ac body ?s \<noteq> (Inr r, t)"
    then have "CreateCourse env ac body ?s = (Inl r, t)" using rh by (auto simp: run_handler_cases)
    then have "400 \<le> http_status r"
      unfolding CreateCourse_def by (cases body) (auto simp: h_run dest: res4 quota4)
    then show False using srv(2) by simp
  qed
  then obtain req o' x s2 c where b: "body = Some req"
    and res: "resolveOrgBySlugForCourseCreation ac (cc_slug req) ?s = (Inr o', x)"
    and q: "enforceQuota o' DimCourses x = (Inr (), s2)"
    and cr: "(if known_category env (cc_category req)
           then CourseRepo_Create o' (ac_user ac) (cc_title req) (cc_description req) (cc_category req)
           else tx_throw ErrStorage) s2 = Inr (c, t)"
    unfolding CreateCourse_def by (cases body) (auto simp: h_run)
  obtain g m where g: "x = ?s" "g \<in> set (a_orgs s)" "o' = og_id g"
    and m: "m \<in> set (a_members s)" "mb_user m = ac_user ac" "mb_org m = og_id g" "mb_role m \<in> {Owner, Teacher}"
    by (rule resolve_run[OF res]) simp
  from enforceQuota_run[OF q[unfolded g(1)]] obtain p us where s2: "s2 = ?s" and load: "quota_load o' ?s = Inr ((p, us), ?s)"
    and lim: "case effective_limit ?s o' DimCourses of None \<Rightarrow> True | Some k \<Rightarrow> int64 (usageFor us DimCourses + 1) \<le> k" by blast
  from cr have c: "c_org c = og_id g" "c_status c = CDraft" and t: "t = put_acourses (a_courses s @ [c]) (?s\<lparr>a_next := Suc (a_next s)\<rparr>)"
    by (auto simp: s2 CourseRepo_Create_def course_rows.insert_Inr g(3) split: if_splits)
  have s': "s' = unstamp t" using srv rh by (simp add: serve_eq t)
  have mem: "is_org_member s (ac_user ac) (og_id g)" using m by (auto simp: is_org_member_def)
  have use: "usageFor us DimCourses = courses_of s (og_id g)"
    using course_usage[OF load] member_sees_courses[OF mem] unfolding g(3) by (rule trans)
  have "int64 (courses_of s (og_id g) + 1) = courses_of s (og_id g) + 1" by (rule courses_of_small[OF small])
  moreover have "courses_of s' (og_id g) = courses_of s (og_id g) + 1" by (simp add: courses_of_def s' t c)
  ultimately have "courses_of s' (og_id g) \<le> k" if "effective_limit ?s (og_id g) DimCourses = Some k" for k
    using lim[unfolded use g(3) that] by simp
  then show ?thesis using g m c by (intro bexI[of _ g] bexI[of _ m] exI[of _ c]) (auto simp: s' t)
qed

text \<open>
  An owner or teacher whose organization already has the number of courses its plan allows
  is answered 402 by a valid request for another course, and nothing changes.
\<close>

theorem course_limit_refuses:
  assumes "OrgRepo_GetBySlug slug (stamp (ac_user ac) s) = Inr (g, stamp (ac_user ac) s)"
    and "MembershipRepo_GetRole (ac_user ac) (og_id g) (stamp (ac_user ac) s) = Inr (role, stamp (ac_user ac) s)" "role \<in> {Owner, Teacher}"
    and "cc_slug req = slug" "slug \<noteq> []" "size_between 1 300 (cc_title req)"
    and "effective_limit (stamp (ac_user ac) s) (og_id g) DimCourses = Some k" "k \<le> courses_of s (og_id g)"
    and "int (length (a_courses s)) < 2 ^ 63 - 1" "idle s"
  shows "\<exists>b. serve (ac_user ac) (CreateCourse env ac (Some req)) s = (Resp 402 b, s)"
proof -
  let ?s = "stamp (ac_user ac) s"
  have mem: "is_org_member s (ac_user ac) (og_id g)"
    using assms(2) by (auto simp: MembershipRepo_GetRole_def is_org_member_def split: option.splits dest!: find_SomeD)
  from assms(7) obtain p where p: "PlanRepo_ResolveForOrg (og_id g) ?s = Inr (p, ?s)"
    by (auto simp: effective_limit_def PlanRepo_ResolveForOrg_def PlanRepo_GetDefault_def tab_select1_def split: sum.splits option.splits)
  then obtain us where load: "quota_load (og_id g) ?s = Inr ((p, us), ?s)"
    by (simp add: quota_load_def tx_bind_def QuotaRepo_CurrentUsage_def AIUsageRepo_GetForPeriod_def tx_gets_def tx_return_def)
  have use: "usageFor us DimCourses = courses_of s (og_id g)"
    using course_usage[OF load] member_sees_courses[OF mem] by (rule trans)
  have "int64 (courses_of s (og_id g) + 1) = courses_of s (og_id g) + 1" by (rule courses_of_small[OF assms(9)])
  then obtain b where q: "enforceQuota (og_id g) DimCourses ?s = (Inl (Resp 402 b), ?s)"
    using enforceQuota_refuses[OF load _ assms(7)] use assms(8) by auto
  have res: "resolveOrgBySlugForCourseCreation ac slug ?s = (Inr (og_id g), ?s)"
    using assms(1-3,5) by (auto simp: resolveOrgBySlugForCourseCreation_def h_bind_def sql_eq h_guard_def h_return_def)
  have "run_handler (CreateCourse env ac (Some req)) ?s = (Resp 402 b, ?s)"
    using assms(4-6) q res by (simp add: run_handler_def CreateCourse_def h_bind_def h_guard_def h_return_def)
  then have "serve (ac_user ac) (CreateCourse env ac (Some req)) s = (Resp 402 b, s)"
    using assms(10) by (simp add: serve_eq idle_def)
  then show ?thesis by blast
qed

end
