(* ===== verification/AuthorDemo.thy ===== *)
theory AuthorDemo
  imports AuthorSweep
begin

text \<open>
  Concrete inputs for the tenancy and authoring properties: a school with an owner, a learner, an
  open invitation and a plan of three courses; a course in review with a chapter, a lesson and a
  ready video; a course whose scheduled date has passed. Each theorem here applies a property at
  these inputs, where its hypotheses hold.
\<close>

section \<open>A school\<close>

definition school_course :: "uuid \<Rightarrow> course_status \<Rightarrow> time option \<Rightarrow> course" where
  "school_course i st d = \<lparr>c_id = i, c_org = 1, c_title = ''Go'', c_description = ''Intro'', c_cover = None, c_category = None,
     c_status = st, c_publish_date = d, c_created_by = 10, c_created = 0, c_updated = 0,
     c_published_at = None, c_archived_at = None\<rparr>"

definition school_video :: json where
  "school_video = JObj [(''asset_id'', JStr ''60''), (''duration'', JInt 90), (''thumbnail_url'', JStr [])]"

definition school :: adb where
  "school = \<lparr>a_session = None, a_aborted = False, a_next = 100, a_clock = 5000,
     a_orgs = [\<lparr>og_id = 1, og_slug = ''acme'', og_name = ''Acme'', og_created_by = 10, og_deactivated = None,
       og_reason = None, og_plan = Some 5, og_created = 0, og_updated = 0\<rparr>],
     a_members = [\<lparr>mb_id = 90, mb_user = 10, mb_org = 1, mb_role = Owner, mb_joined = 0\<rparr>,
       \<lparr>mb_id = 91, mb_user = 11, mb_org = 1, mb_role = Learner, mb_joined = 0\<rparr>],
     a_profiles = [\<lparr>pf_id = 10, pf_email = ''o@x'', pf_name = None, pf_platform_owner = False, pf_suspended = None,
         pf_reason = None, pf_updated = 0\<rparr>,
       \<lparr>pf_id = 11, pf_email = ''l@x'', pf_name = None, pf_platform_owner = False, pf_suspended = None,
         pf_reason = None, pf_updated = 0\<rparr>,
       \<lparr>pf_id = 12, pf_email = ''T@x'', pf_name = None, pf_platform_owner = False, pf_suspended = None,
         pf_reason = None, pf_updated = 0\<rparr>],
     a_invites = [\<lparr>iv_id = 80, iv_org = 1, iv_email = ''t@x'', iv_role = Teacher, iv_by = 10, iv_status = InvPending,
       iv_token = ''tok'', iv_created = 0, iv_expires = 9000\<rparr>],
     a_plans = [\<lparr>pl_id = 5, pl_code = ''free'', pl_name = ''Free'', pl_max_courses = Some 3, pl_max_published = None,
       pl_max_members = None, pl_max_storage = None, pl_max_tokens = None, pl_default = True\<rparr>],
     a_usage = [],
     a_courses = [school_course 20 CReview None, school_course 21 CScheduled (Some 4000)],
     a_chapters = [\<lparr>ch_id = 30, ch_course = 20, ch_org = 1, ch_title = ''One'', ch_sort = 1, ch_created_by = 10, ch_updated = 0\<rparr>,
       \<lparr>ch_id = 31, ch_course = 20, ch_org = 1, ch_title = ''Two'', ch_sort = 2, ch_created_by = 10, ch_updated = 0\<rparr>],
     a_lessons = [\<lparr>ls_id = 40, ls_chapter = 30, ls_course = 20, ls_org = 1, ls_title = ''Start'', ls_sort = 1,
       ls_created_by = 10, ls_updated = 0, ls_watch = None\<rparr>],
     a_blocks = [\<lparr>bk_id = 50, bk_lesson = 40, bk_course = 20, bk_org = 1, bk_type = VideoBlock, bk_content = school_video,
       bk_sort = 1, bk_created_by = 10, bk_updated = 0\<rparr>],
     a_assets = [\<lparr>as_id = 60, as_org = 1, as_course = 20, as_size = Some 9, as_status = ProcReady, as_url = None, as_url_expires = None\<rparr>],
     a_versions = [\<lparr>cv_id = 70, cv_course = 20, cv_org = 1, cv_number = 1, cv_snapshot = \<lparr>cs_title = ''Go'', cs_description = [],
         cs_chapters = [\<lparr>sc_title = ''Old'', sc_sort = 1, sc_lessons = [\<lparr>sl_title = ''First'', sl_sort = 1, sl_blocks = []\<rparr>]\<rparr>]\<rparr>,
       cv_created_by = 10, cv_created = 0\<rparr>],
     a_audit = []\<rparr>"

definition school_env :: content_env where
  "school_env = \<lparr>ce_col = Some, ce_jsonb = Some, ce_html = id, ce_category = (\<lambda>_. False)\<rparr>"

definition owner_ac :: auth_ctx where
  "owner_ac = \<lparr>ac_user = 10, ac_email = ''o@x'', ac_ip = [], ac_agent = []\<rparr>"

lemma school_idle: "idle school"
  by (simp add: idle_def school_def)

lemma school_tenancy: "tenancy_ok school"
  by (simp add: tenancy_ok_def school_def)

lemma school_authoring: "authoring_ok school"
  by (simp add: authoring_ok_def school_def school_course_def ordered_content_def)

lemma school_worker: "a_session school = None"
  by (simp add: school_def)

lemma school_status:
  "http_status (fst (serve 10 (org_route [] owner_ac ''acme'' OGet) school)) = 200"
  "http_status (fst (serve 10 (course_route school_env owner_ac 20 CPublish) school)) = 200"
  "http_status (fst (serve 10 (PublishCourse owner_ac (school_course 20 CReview None)) school)) = 200"
  "http_status (fst (serve 10 (RestoreCourseVersion owner_ac (school_course 20 CReview None) 70) school)) = 201"
  "http_status (fst (serve 10 (DuplicateCourse owner_ac (school_course 20 CReview None)) school)) = 201"
  "http_status (fst (serve 10 (CreateChapter school_env owner_ac (school_course 20 CReview None) (Some ''Three'')) school)) = 201"
  "http_status (fst (serve 10 (DeleteChapter 31) school)) = 204"
  by code_simp+

section \<open>Organizations\<close>

theorem org_route_authorised_witness:
  "\<exists>p \<in> set (a_profiles school). pf_id p = 10 \<and> pf_suspended p = None"
  using org_route_authorised[of owner_ac "[]" "''acme''" OGet school, OF _ _ school_idle, OF prod.collapse[symmetric]] school_status(1)
  by (auto simp: owner_ac_def)

definition promote :: adb where
  "promote = snd (serve 10 (tenancy_handler [] owner_ac (TrOrg ''acme'' (OChangeRole 11 (Some ''owner'')))) school)"

theorem owners_made_by_owners_witness: "is_org_owner promote 11 1 \<and> is_org_owner school 10 1"
proof -
  have p: "is_org_owner promote 11 1" "\<not> is_org_owner school 11 1" unfolding promote_def by code_simp+
  have "is_org_owner school 10 1 \<or> a_next school \<le> 1"
    by (rule owners_made_by_owners[OF prod.collapse[symmetric] _ p[unfolded promote_def]]) (simp add: school_def)
  then show ?thesis using p by (simp add: school_def)
qed

theorem tenancy_tables_stay_ok_witness: "tenancy_ok promote"
  using tenancy_tables_stay_ok[OF school_tenancy] by (simp add: promote_def)

definition invited :: invitation where
  "invited = hd (a_invites school)"

lemma school_invited: "invitation_for school 12 ''tok'' = Some invited"
  by code_simp

theorem accepting_is_exact_witness:
  "http_status (fst (serve 12 (AcceptInvitation owner_ac ''tok'') school)) = 200"
  using accepting_is_exact[OF school_idle school_invited, of owner_ac] by (simp add: school_def split_beta)

theorem declining_is_lost_witness: "serve 12 (DeclineInvitation owner_ac ''tok'') school = (Resp 204 JNull, school)"
  by (rule declining_is_lost[OF school_invited]) code_simp

theorem member_list_shows_only_the_caller_witness:
  "\<exists>ms. MembershipRepo_ListByOrg 1 (stamp 10 school) = Inr (ms, stamp 10 school) \<and> length ms = 1 \<and> mb_user (fst (hd ms)) = 10"
proof -
  let ?ms = "fst (projr (MembershipRepo_ListByOrg 1 (stamp 10 school)))"
  have run: "MembershipRepo_ListByOrg 1 (stamp 10 school) = Inr (?ms, stamp 10 school)"
    by (simp add: MembershipRepo_ListByOrg_def tx_gets_def)
  have one: "length ?ms = 1" "\<not> app_is_platform_owner (stamp 10 school)" by code_simp+
  then have "hd ?ms \<in> set ?ms" by (intro hd_in_set) auto
  then have "mb_user (fst (hd ?ms)) = 10"
    using member_list_shows_only_the_caller[OF one(2) run, of "fst (hd ?ms)" "snd (hd ?ms)"] by simp
  then show ?thesis using run one(1) by (intro exI[of _ ?ms]) simp
qed

theorem course_limit_enforced_witness:
  "courses_of (snd (serve 10 (CreateCourse school_env owner_ac (Some \<lparr>cc_slug = ''acme'', cc_title = ''New'',
     cc_description = [], cc_category = None\<rparr>)) school)) 1 \<le> 3"
proof -
  let ?q = "Some \<lparr>cc_slug = ''acme'', cc_title = ''New'', cc_description = [], cc_category = None\<rparr>"
  have st: "http_status (fst (serve (ac_user owner_ac) (CreateCourse school_env owner_ac ?q) school)) = 201" by code_simp
  have lim: "effective_limit (stamp (ac_user owner_ac) school) 1 DimCourses = Some 3" by code_simp
  have "\<forall>g \<in> set (a_orgs school). og_id g = 1" by (simp add: school_def)
  then show ?thesis
    using course_limit_enforced[OF prod.collapse[symmetric] st] lim
    by (auto simp: school_def[THEN arg_cong, of "\<lambda>s. length (a_courses s)"] owner_ac_def[THEN arg_cong, of ac_user])
qed

definition full_school :: adb where
  "full_school = school\<lparr>a_courses := school_course 22 CDraft None # a_courses school\<rparr>"

theorem course_limit_refuses_witness:
  "\<exists>b. serve 10 (CreateCourse school_env owner_ac (Some \<lparr>cc_slug = ''acme'', cc_title = ''New'',
     cc_description = [], cc_category = None\<rparr>)) full_school = (Resp 402 b, full_school)"
proof -
  let ?s = "stamp (ac_user owner_ac) full_school"
  have h: "OrgRepo_GetBySlug ''acme'' ?s = Inr (hd (a_orgs school), ?s)"
    "MembershipRepo_GetRole (ac_user owner_ac) (og_id (hd (a_orgs school))) ?s = Inr (Owner, ?s)"
    "effective_limit ?s (og_id (hd (a_orgs school))) DimCourses = Some 3"
    "courses_of full_school (og_id (hd (a_orgs school))) = 3"
    by code_simp+
  have "\<exists>b. serve (ac_user owner_ac) (CreateCourse school_env owner_ac (Some \<lparr>cc_slug = ''acme'', cc_title = ''New'',
     cc_description = [], cc_category = None\<rparr>)) full_school = (Resp 402 b, full_school)"
    by (rule course_limit_refuses[OF h(1,2) _ _ _ _ h(3)]) (simp_all add: h(4), simp_all add: full_school_def school_def size_between_def idle_def)
  then show ?thesis by (simp add: owner_ac_def)
qed

section \<open>Courses\<close>

abbreviation review_course :: course where
  "review_course \<equiv> school_course 20 CReview None"

theorem course_route_authorised_witness:
  "\<exists>c \<in> set (a_courses school). \<exists>m \<in> set (a_members school). c_id c = 20 \<and> mb_user m = 10 \<and> mb_org m = c_org c"
proof -
  have "\<forall>p \<in> set (a_profiles school). \<not> pf_platform_owner p" by (simp add: school_def)
  then show ?thesis
    using course_route_authorised[of owner_ac school_env 20 CPublish school, OF _ _ school_idle, OF prod.collapse[symmetric]] school_status(2)
    by (auto simp: owner_ac_def)
qed

theorem authoring_tables_stay_ok_witness:
  "authoring_ok (snd (serve 10 (course_request_handler school_env owner_ac (CrCourse 20 CPublish)) school))"
  by (rule authoring_tables_stay_ok[OF school_authoring])

theorem tenants_are_isolated_witness:
  "org_content (snd (serve 12 (course_request_handler school_env owner_ac (CrCourse 20 CDelete)) school)) 1 = org_content school 1"
  using tenants_are_isolated[of school 12 1 school_env owner_ac "CrCourse 20 CDelete"]
  by (simp add: is_org_member_def rooted_def under_def school_def school_course_def)

definition school_published :: adb where
  "school_published = snd (serve 10 (course_request_handler school_env owner_ac (CrCourse 20 CPublish)) school)"

theorem course_life_cycle_witness:
  "c_status (hd (a_courses school_published)) = CPublished \<and> course_edge CReview CPublished"
proof -
  have h: "hd (a_courses school_published) \<in> set (a_courses school_published)" "c_id (hd (a_courses school_published)) = 20"
    "c_status (hd (a_courses school_published)) = CPublished"
    unfolding school_published_def by code_simp+
  have "a_next school = 100" "\<forall>c \<in> set (a_courses school). c_id c = 20 \<longrightarrow> c_status c = CReview"
    by (simp_all add: school_def school_course_def)
  then show ?thesis
    using course_life_cycle[OF school_authoring h(1)[unfolded school_published_def]] h(2,3)
    by (fold school_published_def) fastforce
qed

theorem versions_are_permanent_witness:
  "hd (a_versions school) \<in> set (a_versions school_published)"
  using versions_are_permanent[OF school_authoring, of "CrCourse 20 CPublish" "hd (a_versions school)" 10 school_env owner_ac]
  by (simp add: school_published_def school_def Let_def)

theorem publishing_is_safe_witness:
  "\<exists>v. a_versions (snd (serve 10 (PublishCourse owner_ac review_course) school)) = a_versions school @ [v]"
  using publishing_is_safe[OF prod.collapse[symmetric] school_status(3)]
  by (auto simp: school_def is_org_member_def school_course_def)

theorem restoring_brings_back_witness:
  "live_content (stamp 10 (snd (serve 10 (RestoreCourseVersion owner_ac review_course 70) school))) 20 =
     cs_chapters (cv_snapshot (hd (a_versions school)))"
  using restoring_brings_back[OF school_authoring prod.collapse[symmetric] school_status(4)]
  by (auto simp: school_def school_course_def)

theorem duplicating_copies_witness:
  "live_content (stamp 10 (snd (serve 10 (DuplicateCourse owner_ac review_course) school))) 100 = live_content (stamp 10 school) 20"
  using duplicating_copies[OF school_authoring prod.collapse[symmetric] school_status(5)]
  by (auto simp: school_def school_course_def)

lemma school_column: "numeric_column (ce_col school_env) school"
proof -
  have "\<forall>c \<in> set (a_chapters school). fl (ch_sort c) = ch_sort c" by code_simp
  then show ?thesis by (simp add: numeric_column_def school_env_def)
qed

theorem adding_a_chapter_appends_witness:
  "\<exists>pos. live_content (stamp 10 (snd (serve 10 (CreateChapter school_env owner_ac review_course (Some ''Three'')) school))) 20 =
     live_content (stamp 10 school) 20 @ [\<lparr>sc_title = ''Three'', sc_sort = pos, sc_lessons = []\<rparr>]"
  using adding_a_chapter_appends[OF school_authoring school_column prod.collapse[symmetric] school_status(6)]
  by (auto simp: is_org_member_def school_def school_course_def)

theorem deleting_a_chapter_removes_it_witness:
  "\<exists>x pre post. live_content (stamp 10 school) 20 = pre @ x # post \<and>
     live_content (stamp 10 (snd (serve 10 (DeleteChapter 31) school))) 20 = pre @ post"
  using deleting_a_chapter_removes_it[OF school_authoring prod.collapse[symmetric] school_status(7)]
  by (fastforce simp: school_def)

theorem sweep_publishes_exactly_what_is_due_witness:
  "map c_status (a_courses (sweepScheduledPublishes school)) = [CReview, CPublished]"
proof -
  have "ready_to_publish school (school_course 21 CScheduled (Some 4000))" "\<not> ready_to_publish school review_course"
      "distinct (map as_id (a_assets school))" "\<forall>b \<in> set (a_blocks school). \<not> isl (videoBlockContent (bk_content b))"
    by code_simp+
  then have "a_courses (sweepScheduledPublishes school) =
      map (\<lambda>c. if ready_to_publish school c then go_live (a_clock school) c else c) (a_courses school)"
    using sweep_publishes_exactly_what_is_due[OF school_authoring school_worker] by (auto simp: isl_def) (metis obj_sumE)
  moreover have "a_courses school = [review_course, school_course 21 CScheduled (Some 4000)]" by (simp add: school_def)
  ultimately show ?thesis
    using \<open>ready_to_publish school (school_course 21 CScheduled (Some 4000))\<close> \<open>\<not> ready_to_publish school review_course\<close>
    by (simp add: go_live_def school_course_def)
qed

end
