(* ===== verification/LearnDemo.thy ===== *)
theory LearnDemo
  imports Enrolment AuthorDemo
begin

text \<open>
  Concrete inputs for the properties of the learner journey: a published course of one lesson that
  holds a quiz and an assignment, a learner with access to it and a second course that is open to
  every member. Each theorem here applies a property at these inputs, where its hypotheses hold.
\<close>

definition campus_block :: "uuid \<Rightarrow> block_type \<Rightarrow> json \<Rightarrow> block" where
  "campus_block i ty content = \<lparr>bk_id = i, bk_lesson = 40, bk_course = 20, bk_org = 1, bk_type = ty, bk_content = content,
     bk_sort = of_nat i, bk_created_by = 10, bk_updated = 0\<rparr>"

text \<open>The quiz, with the index of the right answer.\<close>

definition campus_quiz :: "int \<Rightarrow> json" where
  "campus_quiz n = JObj [(''questions'', JArr [JObj [(''id'', JStr ''q''), (''type'', JStr ''mcq''), (''question'', JStr ''1+1?''),
     (''answers'', JArr [JStr ''2'', JStr ''3'']), (''correct_answer_index'', JInt n)]])]"

definition campus_adb :: adb where
  "campus_adb = school\<lparr>a_courses := [school_course 20 CPublished None, school_course 21 CPublished None],
     a_blocks := [campus_block 51 QuizBlock (campus_quiz 0),
       campus_block 52 AssignmentBlock (JObj [(''instructions'', JStr ''Write''), (''due_date'', JStr ''1970-01-01T00:00:00Z''),
         (''allow_resubmission'', JBool True)])]\<rparr>"

definition campus_shop :: db where
  "campus_shop = \<lparr>next_id = 500, clock = 5000, courses = [], offers = [], discount_codes = [], invite_tokens = [], orders = [],
     payments = [], refunds = [], chargebacks = [], entitlements = [],
     accesses = [\<lparr>acc_id = 7, acc_org = 1, acc_learner = 11, acc_course = 20, acc_entitlement = None, acc_enrolled = 0,
       acc_status = AccActive\<rparr>],
     webhook_events = [], audit_trail = [], audit_log = [], analytics = [], commission_percent = None, receipts = []\<rparr>"

definition campus :: ldb where
  "campus = \<lparr>ld_adb = campus_adb, ld_shop = campus_shop, ld_role = None, ld_next = 600, ld_resume = [], ld_progress = [],
     ld_attempts = [], ld_scores = [], ld_submissions = [], ld_grades = [], ld_certs = [], ld_rules = [], ld_prereqs = []\<rparr>"

definition campus_env :: learn_env where
  "campus_env = \<lparr>le_pct = Some, le_upload = True, le_public = ''CERT'', le_event = True, le_head = (\<lambda>_. Some True),
     le_sign = Some, le_sign_upload = (\<lambda>k. Some (k, 9000))\<rparr>"

definition learner_ac :: auth_ctx where
  "learner_ac = \<lparr>ac_user = 11, ac_email = ''l@x'', ac_ip = [], ac_agent = []\<rparr>"

abbreviation ask :: "learn_request \<Rightarrow> response \<times> ldb" where
  "ask q \<equiv> lserve (ac_user learner_ac) (learn_request_handler campus_env learner_ac q) campus"

definition campus_key :: string where
  "campus_key = ''org/1/courses/20/submissions/11/52/essay.pdf''"

definition right_answers :: "quiz_answer list" where
  "right_answers = [\<lparr>qn_question = ''q'', qn_index = Some 0, qn_text = []\<rparr>]"

lemma campus_resting: "resting campus"
  by (simp add: resting_def campus_def campus_adb_def idle_def school_def)

lemma campus_ok: "learning_ok campus"
  by (simp add: learning_ok_def campus_def numbered_def)

lemma campus_answers:
  "http_status (fst (ask (LrLearn 20 LPlayer))) = 200"
  "http_status (fst (ask (LrLearn 20 (LComplete 40)))) = 200"
  "http_status (fst (ask (LrLearn 20 (LSubmitQuiz 40 51 (Some right_answers))))) = 200"
  "http_status (fst (ask (LrLearn 20 (LSubmit 40 52 (Some campus_key))))) = 201"
  by code_simp+

definition finished :: ldb where
  "finished = snd (ask (LrLearn 20 (LComplete 40)))"

lemma finished_completed: "completed 20 11 (open_tx 11 finished)"
  unfolding finished_def by code_simp

theorem learners_write_own_rows_witness: "ld_adb finished = ld_adb campus \<and> others_kept 11 campus finished"
  using learners_write_own_rows[OF prod.collapse[symmetric], where ac = learner_ac and env = campus_env and q = "LrLearn 20 (LComplete 40)" and s = campus] campus_resting
  by (simp add: finished_def resting_def learner_ac_def[THEN arg_cong, of ac_user])

theorem learning_tables_stay_ok_witness: "learning_ok finished"
  unfolding finished_def by (rule learning_tables_stay_ok[OF campus_ok])

theorem certificates_only_on_completion_witness:
  "ld_certs finished \<noteq> [] \<and> ct_learner (hd (ld_certs finished)) = 11 \<and> completed 20 11 (open_tx 11 finished)"
proof -
  have c: "ld_certs finished \<noteq> []" "ld_certs campus = []" "ct_course (hd (ld_certs finished)) = 20"
    unfolding finished_def by code_simp+
  then show ?thesis
    using certificates_only_on_completion[OF prod.collapse[symmetric], of "hd (ld_certs finished)" learner_ac campus_env
      "LrLearn 20 (LComplete 40)" campus]
    by (simp add: finished_def learner_ac_def[THEN arg_cong, of ac_user])
qed

abbreviation ask_postgres :: "learn_request \<Rightarrow> response \<times> ldb" where
  "ask_postgres q \<equiv> lserve (ac_user learner_ac) (learn_request_handler (campus_env\<lparr>le_event := False\<rparr>) learner_ac q) campus"

lemma postgres_answers:
  "http_status (fst (ask_postgres (LrLearn 20 (LComplete 40)))) = 200"
  "http_status (fst (ask_postgres (LrLearn 20 (LSubmitQuiz 40 51 (Some right_answers))))) = 200"
  by code_simp+


theorem learner_route_authorised_witness:
  "\<exists>c \<in> set (a_courses campus_adb). c_id c = 20 \<and> http_status (fst (ask (LrLearn 20 LPlayer))) = 200"
  using learner_route_authorised[OF prod.collapse[symmetric] _ campus_resting, of learner_ac campus_env 20 LPlayer]
    campus_answers(1) by (auto simp: campus_def[THEN arg_cong, of ld_adb])

theorem quiz_scored_exactly_witness:
  "(\<exists>qs. quiz_recorded 11 40 51 qs right_answers campus (snd (ask (LrLearn 20 (LSubmitQuiz 40 51 (Some right_answers)))))) \<and>
   (\<exists>qs. QuizBlockContent (campus_quiz 0) = Inr qs \<and> quiz_passed qs right_answers)"
proof
  show "\<exists>qs. quiz_recorded 11 40 51 qs right_answers campus (snd (ask (LrLearn 20 (LSubmitQuiz 40 51 (Some right_answers)))))"
    using quiz_scored_exactly[OF prod.collapse[symmetric] campus_answers(3)]
    by (auto simp: campus_env_def[THEN arg_cong, of le_event] learner_ac_def[THEN arg_cong, of ac_user])
  have "QuizBlockContent (campus_quiz 0) = Inr (projr (QuizBlockContent (campus_quiz 0)))"
      "quiz_passed (projr (QuizBlockContent (campus_quiz 0))) right_answers" by code_simp+
  then show "\<exists>qs. QuizBlockContent (campus_quiz 0) = Inr qs \<and> quiz_passed qs right_answers" by blast
qed

theorem passing_is_seventy_percent_witness:
  "\<exists>qs. length qs = 1 \<and> defaultQuizPassingPercent \<le> percentOf (correct_count (score_questions qs right_answers)) 1"
proof -
  let ?qs = "projr (QuizBlockContent (campus_quiz 0))"
  have "?qs \<noteq> []" "length ?qs = 1" "correct_count (score_questions ?qs right_answers) = 1" by code_simp+
  then show ?thesis using passing_is_seventy_percent[of ?qs right_answers] by (intro exI[of _ ?qs]) simp
qed

theorem assignment_handed_in_witness:
  "\<exists>content. handed_in 11 40 52 campus_key content 5000 campus (snd (ask (LrLearn 20 (LSubmit 40 52 (Some campus_key)))))"
  using assignment_handed_in[OF prod.collapse[symmetric] campus_answers(4)]
  by (auto simp: campus_env_def[THEN arg_cong, of le_event] learner_ac_def[THEN arg_cong, of ac_user]
      campus_def[THEN arg_cong, of ld_adb] campus_adb_def school_def)

lemma campus_may_enrol: "may_enrol (ac_user learner_ac) (school_course 21 CPublished None) campus"
  by (simp add: may_enrol_def campus_def campus_adb_def campus_shop_def school_course_def school_def learner_ac_def is_org_member_def)

theorem enrolling_is_free_witness: "http_status (fst (ask (LrEnroll 21))) = 201"
  using enrolling_is_free[OF campus_may_enrol _ prod.collapse[symmetric], of campus_env]
  by (simp add: school_course_def campus_env_def[THEN arg_cong, of le_event])

theorem enrolment_is_lost_witness:
  "http_status (fst (ask_postgres (LrEnroll 21))) = 201 \<and> snd (ask_postgres (LrEnroll 21)) = campus"
  using enrolment_is_lost[OF campus_may_enrol _ prod.collapse[symmetric], of "campus_env\<lparr>le_event := False\<rparr>"]
  by (simp add: school_course_def)

text \<open>The other answer marked as the right one.\<close>

definition other_key :: "block \<Rightarrow> json" where
  "other_key b = (if bk_content b = campus_quiz 0 then campus_quiz 1 else bk_content b)"

theorem quiz_hides_answers_witness:
  "fst (lserve 11 (learn_request_handler campus_env learner_ac (LrLearn 20 (LQuiz 40 51))) (with_contents other_key campus)) =
    fst (ask (LrLearn 20 (LQuiz 40 51)))"
proof -
  have "same_public (campus_quiz 0) (campus_quiz 1)" by code_simp
  moreover have "same_public j j" for j by (simp add: same_public_def split: sum.split)
  ultimately have "same_public (bk_content b) (other_key b)" for b by (simp add: other_key_def)
  then show ?thesis
    using quiz_hides_answers[of other_key learner_ac campus_env 20 40 51 campus] by (simp add: learner_ac_def[THEN arg_cong, of ac_user])
qed

end
