(* ===== verification/ModuleDemo.thy ===== *)
theory ModuleDemo
  imports SimFacts ScormCommits CodeProps LearnDemo
begin

text \<open>
  Concrete inputs for the properties of the optional modules: the school of the authoring examples
  with a published diagram, with a published
  SCORM package that the learner is running, and with a published code exercise. Each theorem here applies a property at these inputs, where its
  hypotheses hold.
\<close>

section \<open>Simulations\<close>

definition lab_env :: sim_env where
  "lab_env = \<lparr>se_enabled = True, se_max_source = 65536, se_max_params = 50, se_quote = id, se_num = JDec, se_jsonb = Some\<rparr>"

definition lab_spec :: spec where
  "lab_spec = \<lparr>sp_kind = ''diagram'', sp_diagram = Some \<lparr>dg_format = ''mermaid'', dg_source = ''graph''\<rparr>, sp_simulation = None\<rparr>"

definition lab_config :: config where
  "lab_config = \<lparr>cf_interactions = 2, cf_passing = None\<rparr>"

definition lab_sim :: simulation where
  "lab_sim = \<lparr>it_id = 80, it_org = 1, it_course = None, it_lesson = None, it_slug = ''tree'', it_title = ''Tree'', it_description = [],
     it_published = True, it_created_by = Some 10, it_created = 0, it_updated = 0, si_kind = ''diagram'',
     si_spec = spec_json lab_env lab_spec, si_config = config_json lab_env lab_config\<rparr>"

definition lab :: simdb where
  "lab = \<lparr>md_adb = school, md_on = (\<lambda>_. True), sd_sims = [lab_sim], sd_progress = []\<rparr>"

definition lab_record :: sim_call where
  "lab_record = (learner_ac, ''acme'', SimRecord 80 (Some \<lparr>rr_state = None, rr_score = Some 1, rr_complete = False\<rparr>))"

abbreviation lab_once :: "response \<times> simdb" where
  "lab_once \<equiv> mserve (ac_user learner_ac) (sim_request lab_env learner_ac ''acme''
     (SimRecord 80 (Some \<lparr>rr_state = None, rr_score = Some 1, rr_complete = False\<rparr>))) lab"

lemma lab_ok: "sims_ok lab_env lab"
proof -
  have "well_formed_spec lab_env lab_spec"
    by (simp add: well_formed_spec_def lab_spec_def lab_env_def diagramFormats_def)
  then have "\<exists>sp. well_formed_spec lab_env sp \<and> sp_kind sp = si_kind lab_sim \<and> se_jsonb lab_env (spec_json lab_env sp) = Some (si_spec lab_sim)"
    by (intro exI[of _ lab_spec]) (simp add: lab_sim_def lab_spec_def lab_env_def)
  moreover have "\<exists>cf. 0 \<le> cf_interactions cf \<and> se_jsonb lab_env (config_json lab_env cf) = Some (si_config lab_sim)"
    by (intro exI[of _ lab_config]) (simp add: lab_sim_def lab_config_def lab_env_def)
  ultimately have "sim_row_ok lab_env lab_sim" by (simp add: sim_row_ok_def lab_sim_def)
  moreover have "it_id lab_sim = 80" by (simp add: lab_sim_def)
  ultimately show ?thesis by (simp add: sims_ok_def items_ok_def lab_def school_def)
qed

lemma lab_answers:
  "http_status (fst lab_once) = 200" "map http_status (fst (sim_run lab_env [lab_record, lab_record] lab)) = [200, 200]"
  by code_simp+

theorem stored_specs_read_back_witness:
  "ParseSpec lab_env ''diagram'' (Some (spec_json lab_env lab_spec)) = Inr lab_spec"
proof -
  have "prints_floats (se_num lab_env)" by (simp add: prints_floats_def lab_env_def num_value_def)
  moreover have "ParseSpec lab_env ''diagram'' (Some (JObj [(''diagram'', JObj [(''source'', JStr ''graph''), (''format'', JStr '' Mermaid '')])])) =
      Inr lab_spec"
    by code_simp
  ultimately show ?thesis by (rule stored_specs_read_back)
qed

theorem simulations_are_taught_witness: "items_of sd_sims 1 (snd lab_once) = items_of sd_sims 1 lab"
  by (rule simulations_are_taught) (simp add: is_org_teacher_def lab_def school_def learner_ac_def)

theorem simulations_stay_ok_witness: "sims_ok lab_env (snd lab_once)"
  by (rule simulations_stay_ok[OF lab_ok])

theorem interaction_recorded_witness: "\<exists>p. progress_of 80 11 (snd lab_once) = [p] \<and> sg_count p = 1 \<and> sg_score p = Some 1"
proof -
  have "interactions 80 11 lab = 0" by (simp add: interactions_def progress_of_def lab_def)
  then show ?thesis
    using interaction_recorded[OF lab_ok prod.collapse[symmetric] lab_answers(1)]
    by (auto simp: learner_ac_def[THEN arg_cong, of ac_user])
qed

theorem progress_counts_interactions_witness: "interactions 80 11 (snd (sim_run lab_env [lab_record, lab_record] lab)) = 2"
proof -
  let ?run = "sim_run lab_env [lab_record, lab_record] lab"
  have "length (filter (\<lambda>(c, r). records 80 11 c r) (zip [lab_record, lab_record] (fst ?run))) = 2" by code_simp
  moreover have "interactions 80 11 lab = 0" by (simp add: interactions_def progress_of_def lab_def)
  ultimately show ?thesis
    using progress_counts_interactions[OF lab_ok _ prod.collapse[symmetric], of "[lab_record, lab_record]" 80 11]
    by (simp add: lab_record_def)
qed

section \<open>SCORM\<close>

definition deck_manifest :: xmlManifest where
  "deck_manifest = \<lparr>xm_root = ''manifest'', xm_identifier = ''deck'', xm_schemaversion = ''1.2'', xm_default = [],
     xm_organizations = [\<lparr>xo_identifier = ''o'', xo_title = ''Deck'', xo_items = [XmlItem ''i'' ''r'' ''One'' [] []]\<rparr>],
     xm_resources = [\<lparr>xr_identifier = ''r'', xr_type = ''webcontent'', xr_href = ''index.html'', xr_attrs = []\<rparr>]\<rparr>"

definition deck_env :: scorm_env where
  "deck_env = \<lparr>sc_enabled = True, sc_xml = (\<lambda>_. Inr deck_manifest), sc_quote = id, sc_num = JDec, sc_jsonb = Some\<rparr>"

definition deck_package :: scorm_package where
  "deck_package = \<lparr>it_id = 90, it_org = 1, it_course = None, it_lesson = None, it_slug = ''deck'', it_title = ''Deck'', it_description = [],
     it_published = True, it_created_by = Some 10, it_created = 0, it_updated = 0, sk_version = Version12, sk_identifier = ''deck'',
     sk_launch = ''index.html'', sk_storage = [], sk_mastery = None, sk_manifest = JNull\<rparr>"

definition deck_attempt :: scorm_attempt where
  "deck_attempt = fresh_attempt 91 1 90 11 1 4000"

definition deck :: scormdb where
  "deck = \<lparr>md_adb = school, md_on = (\<lambda>_. True), pd_packages = [deck_package], pd_attempts = [deck_attempt]\<rparr>"

definition deck_elements :: "(string \<times> string) list" where
  "deck_elements = [(''cmi.core.lesson_status'', ''completed''), (''cmi.core.lesson_location'', ''3'')]"

definition deck_nan :: "(string \<times> string) list" where
  "deck_nan = [(''cmi.core.score.raw'', ''NaN'')]"

abbreviation deck_run :: "scorm_action \<Rightarrow> response \<times> scormdb" where
  "deck_run a \<equiv> mserve (ac_user learner_ac) (scorm_request deck_env learner_ac ''acme'' a) deck"

lemma deck_texts: "keeps_texts (sc_jsonb deck_env)"
  using keeps_texts_Some by (simp add: deck_env_def)

lemma deck_ok: "scorm_ok deck"
proof -
  have "in_sequence (runs_of pkg l deck)" for pkg l
    by (simp add: runs_of_def deck_def deck_attempt_def fresh_attempt_def in_sequence_def)
  then show ?thesis
    by (simp add: scorm_ok_def items_ok_def package_ok_def attempt_ok_def int4_def deck_def deck_package_def deck_attempt_def
      fresh_attempt_def school_def)
qed

lemma deck_answers:
  "http_status (fst (deck_run (ScormLaunch 90))) = 200" "fst (deck_run (ScormLaunch 90)) \<noteq> Resp 200 JNull"
  "http_status (fst (deck_run (ScormCommit 91 (Some deck_elements)))) = 200"
  "fst (deck_run (ScormCommit 91 (Some deck_elements))) \<noteq> Resp 200 JNull"
  "fst (deck_run (ScormFinish 91 deck_nan)) = Resp 200 JNull"
  subgoal by code_simp
  subgoal by code_simp
  subgoal by code_simp
  subgoal by code_simp
  subgoal by code_simp
  done

lemma answered: "http_status r = 200 \<Longrightarrow> \<exists>body. r = Resp 200 body"
  by (cases r) auto

lemma deck_answered:
  assumes "http_status r = 200" "r \<noteq> Resp 200 JNull"
  shows "\<exists>body. r = Resp 200 body \<and> body \<noteq> JNull"
  using assms by (cases r) auto

theorem launchable_manifests_witness:
  "\<exists>p. ParseManifest (sc_xml deck_env) ''<manifest/>'' = Inr p \<and> launches (xm_resources deck_manifest) p"
proof -
  have "detectVersion (xm_schemaversion deck_manifest) = Inr Version12" "TrimSpace ''<manifest/>'' \<noteq> []"
      "TrimSpace ''index.html'' \<noteq> []" "xm_root deck_manifest = ''manifest''"
    by code_simp+
  then have "launchable (sc_xml deck_env) ''<manifest/>''" by (simp add: launchable_def deck_env_def) (simp add: deck_manifest_def)
  moreover have "sc_xml deck_env ''<manifest/>'' = Inr deck_manifest" by (simp add: deck_env_def)
  ultimately show ?thesis using launchable_manifests[of "sc_xml deck_env" "''<manifest/>''"] by blast
qed

theorem attempts_stay_ok_witness: "scorm_ok (snd (deck_run (ScormFinish 91 deck_elements)))"
  by (rule attempts_stay_ok[OF deck_texts deck_ok])

theorem commit_stored_witness:
  "\<exists>b. pd_attempts (snd (deck_run (ScormCommit 91 (Some deck_elements)))) = [b] \<and>
     map_of (cmi_elements (sa_cmi b)) ''cmi.core.lesson_status'' = Some ''completed''"
proof -
  obtain body where run: "deck_run (ScormCommit 91 (Some deck_elements)) = (Resp 200 body, snd (deck_run (ScormCommit 91 (Some deck_elements))))"
      "body \<noteq> JNull"
    using deck_answered[OF deck_answers(3,4)] by (metis prod.collapse)
  have "commits (ScormCommit 91 (Some deck_elements)) = Some (91, deck_elements, False)" by (simp add: deck_elements_def)
  from commit_stored[OF run this deck_ok deck_texts] obtain a b :: scorm_attempt and p :: scorm_package where b: "sa_id a = 91" "run_stored a (sk_version p) deck_elements False (a_clock (md_adb deck)) b"
      "pd_attempts (snd (deck_run (ScormCommit 91 (Some deck_elements)))) = map (\<lambda>c. if sa_id c = 91 then b else c) (pd_attempts deck)"
    by blast
  have "pd_attempts deck = [deck_attempt]" "sa_id deck_attempt = 91" by (simp_all add: deck_def deck_attempt_def fresh_attempt_def)
  then show ?thesis using b by (simp add: run_stored_def deck_elements_def)
qed

theorem unwritable_scores_are_lost_witness: "pd_attempts (snd (deck_run (ScormFinish 91 deck_nan))) = [deck_attempt]"
proof -
  have "rs_raw (summary (sk_version deck_package) deck_nan deck_attempt) = Some NaN" by code_simp
  then have "\<not> finite_scores (summary (sk_version deck_package) deck_nan deck_attempt)" by (simp add: finite_scores_def finite_score_def)
  then have "pd_attempts (snd (deck_run (ScormFinish 91 deck_nan))) = pd_attempts deck"
    using unwritable_scores_are_lost[OF prod.collapse[symmetric] _ deck_ok, where ac=learner_ac and env=deck_env and slug="''acme''"
      and act="ScormFinish 91 deck_nan" and a=deck_attempt and p=deck_package]
    by (simp add: deck_def deck_attempt_def deck_package_def fresh_attempt_def)
  then show ?thesis by (simp add: deck_def)
qed

theorem launch_resumes_witness: "pd_attempts (snd (deck_run (ScormLaunch 90))) = [deck_attempt]"
proof -
  obtain body where "deck_run (ScormLaunch 90) = (Resp 200 body, snd (deck_run (ScormLaunch 90)))" "body \<noteq> JNull"
    using deck_answered[OF deck_answers(1,2)] by (metis prod.collapse)
  from launch_resumes[OF this deck_ok] show ?thesis
    by (auto simp: runs_of_def deck_def deck_attempt_def fresh_attempt_def learner_ac_def)
qed

section \<open>Code exercises\<close>

definition gym_env :: code_env where
  "gym_env = \<lparr>ce_enabled = True, ce_daily = 1, ce_service = NewServiceFromSettings True [] no_limits, ce_text = (\<lambda>_. True)\<rparr>"

definition down_env :: code_env where
  "down_env = gym_env\<lparr>ce_service := NewCodeService \<lparr>rn_name = ''down'', rn_run = (\<lambda>_. Inl ''down'')\<rparr> no_limits\<rparr>"

definition gym_exercise :: code_exercise where
  "gym_exercise = \<lparr>it_id = 95, it_org = 1, it_course = None, it_lesson = None, it_slug = ''sum'', it_title = ''Sum'', it_description = [],
     it_published = True, it_created_by = Some 10, it_created = 0, it_updated = 0, ex_language = ''python'', ex_starter = [],
     ex_solution = ''print(2)'', ex_stdin = [], ex_expected = ''2'', ex_cpu = 1000, ex_memory = 1000000, ex_wall = 1000\<rparr>"

definition gym :: codedb where
  "gym = \<lparr>md_adb = school, md_on = (\<lambda>_. True), cd_limits = (\<lambda>_. None), cd_exercises = [gym_exercise], cd_submissions = [], cd_usage = []\<rparr>"

definition gym_program :: code_action where
  "gym_program = CodeRun (Some (''python'', ''print(1)'', []))"

abbreviation gym_ask :: "code_env \<Rightarrow> code_action \<Rightarrow> response \<times> codedb" where
  "gym_ask env a \<equiv> mserve (ac_user learner_ac) (code_request env learner_ac ''acme'' a) gym"

lemma gym_configured: "configured gym_env"
  unfolding configured_def gym_env_def NewServiceFromSettings_def using stub_honest by auto

lemma gym_ok: "code_ok gym_env gym"
  by (simp add: code_ok_def items_ok_def exercise_ok_def metered_def ledger_def gym_def gym_exercise_def school_def gym_env_def
    NewServiceFromSettings_def NewCodeService_def withFallback_def no_limits_def defaultLimits_def supportedLanguages_def)

lemma gym_answers:
  "http_status (fst (gym_ask gym_env (CodeSubmit 95 (Some ''print(2)'')))) = 200"
  "map http_status (fst (code_run gym_env [(5000, learner_ac, ''acme'', gym_program), (5001, learner_ac, ''acme'', gym_program)] gym)) = [200, 429]"
  "http_status (fst (gym_ask down_env gym_program)) = 502"
  by code_simp+

text \<open>
  Two runs of one day that overlap: with a cap of one, both are admitted in the state where
  nothing has run yet, and both then run.
\<close>

lemma overlapping_runs:
  "let s = gym\<lparr>md_adb := stamp 11 (md_adb gym)\<rparr>; oc = \<lparr>oc_org = 1, oc_slug = ''acme'', oc_role = Some Learner, oc_platform = False\<rparr>;
       q = \<lparr>rq_language = ''python'', rq_source = ''print(1)'', rq_stdin = [], rq_limits = no_limits\<rparr> in
   limit_of gym_env 1 gym = 1 \<and> fst (admit_run gym_env learner_ac oc None q s) = Inr () \<and>
   length (ledger 1 0 (snd (perform_run gym_env learner_ac oc None q (snd (perform_run gym_env learner_ac oc None q s))))) = 2"
  by code_simp

theorem code_stays_ok_witness: "code_ok gym_env (snd (gym_ask gym_env gym_program))"
  by (rule code_stays_ok[OF gym_configured gym_ok])

theorem daily_cap_holds_witness:
  "length (ledger 1 0 (snd (code_run gym_env [(5000, learner_ac, ''acme'', gym_program), (5001, learner_ac, ''acme'', gym_program)] gym))) \<le> 1"
proof -
  have "limit_of gym_env 1 gym = 1" by (simp add: limit_of_def dailyLimit_def gym_env_def gym_def)
  moreover have "ledger 1 0 gym = []" by (simp add: ledger_def gym_def)
  ultimately show ?thesis
    using daily_cap_holds[OF gym_configured gym_ok, of "[(5000, learner_ac, ''acme'', gym_program), (5001, learner_ac, ''acme'', gym_program)]" 1 0]
    by (simp add: gym_program_def)
qed

theorem submissions_are_graded_witness:
  "\<exists>out sub. Execute (ce_service gym_env) (exercise_run gym_exercise ''print(2)'') = Inr out \<and>
     cd_submissions (snd (gym_ask gym_env (CodeSubmit 95 (Some ''print(2)'')))) = [sub] \<and> cs_stdout sub = ru_stdout out \<and>
     (cs_passed sub \<longleftrightarrow> ru_status out = ''succeeded'' \<and> normalize_stdout (ru_stdout out) = normalize_stdout ''2'')"
proof -
  obtain body where run: "gym_ask gym_env (CodeSubmit 95 (Some ''print(2)'')) = (Resp 200 body, snd (gym_ask gym_env (CodeSubmit 95 (Some ''print(2)''))))"
    using answered[OF gym_answers(1)] by (metis prod.collapse)
  have "cd_exercises gym = [gym_exercise]" "cd_submissions gym = []" by (simp_all add: gym_def)
  moreover have "ex_expected gym_exercise = ''2''" "TrimSpace ''2'' \<noteq> []" by (simp add: gym_exercise_def) code_simp
  ultimately show ?thesis using submissions_are_graded[OF run gym_configured] by auto
qed

theorem failed_runs_leave_no_trace_witness: "snd (gym_ask down_env gym_program) = gym"
proof -
  have "\<exists>e. rn_run (sv_runner (ce_service down_env)) q = Inl e" for q by (simp add: down_env_def NewCodeService_def)
  then show ?thesis
    using failed_runs_leave_no_trace[OF prod.collapse[symmetric], where ac=learner_ac and env=down_env and slug="''acme''" and act=gym_program and s=gym]
      gym_answers(3) by (simp add: gym_program_def)
qed

theorem solutions_stay_hidden_witness:
  "fst (gym_ask gym_env (CodeCatalogGet 95)) =
     fst (mserve (ac_user learner_ac) (code_request gym_env learner_ac ''acme'' (CodeCatalogGet 95))
       (conceal (\<lambda>x. x\<lparr>ex_solution := [], ex_expected := []\<rparr>) gym))"
  using solutions_stay_hidden[where a="CodeCatalogGet 95" and f="\<lambda>_. []" and g="\<lambda>_. []" and s=gym and env=gym_env and ac=learner_ac
    and slug="''acme''" and u="ac_user learner_ac"] by simp

end
