(* ===== verification/Spec2Isabelle.thy ===== *)
theory Spec2Isabelle
  imports CommerceDemo ModuleDemo
begin

text \<open>
  A model of the server side of growth-lms (the Go code under \<^verbatim>\<open>src/internal\<close>), a learning
  platform for many schools: organizations with members and roles, courses that teachers write
  and publish, and a shop that sells access to them through the Razorpay payment provider. HTTP
  handlers and background workers are the two entry points; both work on one PostgreSQL database
  through the repositories of \<^verbatim>\<open>models/\<close>. Every handler runs in one database transaction,
  which \<^verbatim>\<open>WithRequestTx\<close> commits when the answer is below 500; every job opens its own.

  \<^bold>\<open>Correspondence.\<close> A repository method \<open>T.M\<close> of \<^verbatim>\<open>models/\<close> is a definition \<open>T_M\<close>, a
  state transformer \<open>'s \<Rightarrow> err + 'a \<times> 's\<close> that refuses or returns a value and the changed tables; a
  handler or worker function has the name of the Go function and is a chain of such steps in the
  code's order, which ends early with a response (\<open>h_respond\<close>) wherever the code writes an error
  and returns. Rows are records with the columns the code reads or writes, enumerations are
  datatypes, amounts of money are rationals that PostgreSQL's \<^verbatim>\<open>NUMERIC\<close> columns hold, and
  arithmetic on \<^verbatim>\<open>float64\<close> and \<^verbatim>\<open>int64\<close> is rounded and wrapped as Go does (\<open>fl\<close>, \<open>int64\<close>).

  \<^item> \<^bold>\<open>Foundations\<close>. Prelude: results, transactions and handlers with their Hoare-style rules
    (\<open>tx_post\<close>, \<open>h_triple\<close>, \<open>tx_pres\<close>), tables as lists, and the collections of facts proofs share.
    Float64: binary64 rounding. Http: responses, callers and transactions per request.
  \<^item> \<^bold>\<open>Commerce data\<close>. Schema, Repos: rows and repositories. RazorpayJson: how a webhook body
    decodes. Money: prices in minor units (\<^verbatim>\<open>commerce_checkout.go\<close>).
  \<^item> \<^bold>\<open>Commerce behaviour\<close>. Offers (\<^verbatim>\<open>commerce_offers.go\<close>), Checkout
    (\<^verbatim>\<open>commerce_checkout.go\<close>), WebhookHttp (\<^verbatim>\<open>webhooks.go\<close>), PaymentWorker
    (\<^verbatim>\<open>worker/payments.go\<close>), Refunds, Sweeps (\<^verbatim>\<open>worker/orders.go\<close>,
    \<^verbatim>\<open>worker/entitlements.go\<close>) and Reports. CommerceInv states the invariant of the commerce
    tables and that every operation keeps it; PaymentFacts and CheckoutFacts say what the operations
    do. CommerceSystem puts them together: a step relation over requests, deliveries (repeated and
    in any order), jobs and sweeps, with the invariants of its reachable states. CommerceDemo
    applies the properties to a small shop.
  \<^item> \<^bold>\<open>Tenancy and authoring data\<close>. AuthorSchema: the tables of organizations and courses as a
    transaction of a caller sees them, with the row-level security of the migrations, and the
    transaction that a failed statement has aborted. AuthorRepos, TenancyRepos: their repositories
    and SQL functions, cascading deletes included.
  \<^item> \<^bold>\<open>Tenancy and authoring behaviour\<close>. Tenancy (\<^verbatim>\<open>middleware/org.go\<close>, \<^verbatim>\<open>course.go\<close>,
    \<^verbatim>\<open>orgs.go\<close>, \<^verbatim>\<open>members.go\<close>, \<^verbatim>\<open>invitations.go\<close>, \<^verbatim>\<open>admin_ops.go\<close>,
    \<^verbatim>\<open>quota/quota.go\<close>), Courses (\<^verbatim>\<open>courses.go\<close>, \<^verbatim>\<open>versions.go\<close>,
    \<^verbatim>\<open>worker/publish.go\<close>) and Content (\<^verbatim>\<open>chapters.go\<close>, \<^verbatim>\<open>lessons.go\<close>,
    \<^verbatim>\<open>blocks.go\<close>, \<^verbatim>\<open>models/sortorder.go\<close>), each with its routes. TenancyFacts,
    TenancyInv and TenancyProps say who may do what and what becomes of invitations, limits and
    members; ContentInv and AuthorProps carry invariants through every authoring request;
    AuthorLife, AuthorOutline and AuthorSweep hold the life cycle of courses, the outline readers
    see, and the scheduled publishing. AuthorDemo applies the properties to a small school.
  \<^item> \<^bold>\<open>Learning\<close>. LearnSchema: the learner tables with their row-level security, their
    repositories, and a transaction over the authoring, shop and learner tables. GoUnicode: how Go
    trims and lower-cases text. Learning (the
    entitlement gate of \<^verbatim>\<open>middleware/entitlement.go\<close>, \<^verbatim>\<open>learner.go\<close>,
    \<^verbatim>\<open>completion.go\<close>) and Assessment (\<^verbatim>\<open>quiz.go\<close>, \<^verbatim>\<open>assignment.go\<close>, the shapes
    of their blocks, the routes). LearnFacts holds the rules of this transaction and the locales
    through which an invariant passes every request; LearnProps says what learners can change and
    what stays; LearnRules treats completion, certificates, the gate and scoring; Enrolment treats
    hand-ins, enrolment and what a quiz does not reveal. LearnDemo applies the properties to a
    course with a quiz and an assignment.
  \<^item> \<^bold>\<open>Optional modules\<close>. GoText: Go's library on text and numbers. ModuleBase: what the modules
    share, a transaction whose state \<open>mdb\<close> each module extends by its tables, the toggle per
    organization, items that extend the record \<open>item\<close>, the policies and the routes; ModuleFacts: how
    they run and the locales \<open>module_state\<close> and \<open>item_table\<close>. Simulations
    (\<^verbatim>\<open>simulations/simulations.go\<close>, \<^verbatim>\<open>handlers/simulations.go\<close>) with SimSpecs (what is stored
    of a specification) and SimFacts (what the routes keep, and progress). Scorm
    (\<^verbatim>\<open>scorm/manifest.go\<close>, \<^verbatim>\<open>cmi.go\<close>, \<^verbatim>\<open>service.go\<close>: manifests, the elements of a run
    and their summary) and ScormApp (\<^verbatim>\<open>handlers/scorm.go\<close> and its repositories), with ScormFacts
    (which manifests are accepted and what they launch), ScormRuns (how commits and launches run,
    who changes packages), ScormKept (the invariant of packages and attempts) and ScormCommits (what
    a commit stores, what a launch gives). CodeExec (\<^verbatim>\<open>codeexec/\<close>: a run under its limits; the
    repositories of exercises, submissions and the daily meter) and CodeApp
    (\<^verbatim>\<open>handlers/code_exec.go\<close>), with CodeFacts (how runs pass the gates), CodeKept (the invariant
    of the tables and the meter) and CodeProps (the cap, grading, runs that fail, what learners
    do not see). ModuleDemo applies the properties to concrete inputs.

  \<^bold>\<open>Interfaces.\<close> The locale \<open>tenant_table\<close> is what the authoring operations rely on in a table under
  row-level security; every table interprets it. \<open>tenancy_invariant\<close> and \<open>content_invariant\<close>
  (with their extensions) ask of an invariant that the repository operations keep it, and conclude
  that every handler, route and request does; the interpretations give the well-formedness of the
  tables, the isolation of organizations, the permanence of versions, the course life cycle and who
  becomes an owner. \<open>learner_writes\<close>, \<open>learner_steps\<close> and \<open>learner_laws\<close> do the same for the
  learner's requests, over the writes of the learner repositories; \<open>module_state\<close>, \<open>sim_laws\<close>, \<open>scorm_laws\<close>
  and \<open>code_laws\<close> for the requests of the optional modules, and \<open>item_table\<close> is what they rely on in a table of items. On the
  commerce side the locales of Prelude do the same for keyed tables and for the invariants of
  transactions.

  \<^bold>\<open>Bounds.\<close> Every function of the model is total: loops run over lists of rows, and no fuel is
  used. Where a claim needs a size (a count of courses that fits an \<^verbatim>\<open>int64\<close>, a quiz of at most
  2^40 questions for the rounding of a percentage) it says so.

  \<^bold>\<open>Arguments.\<close> What is not code of the repository is an argument: the signature function, the JSON
  parser, the order in which Go ranges over a map, the payment provider's answer, the conversions of
  \<^verbatim>\<open>NUMERIC\<close> and \<^verbatim>\<open>jsonb\<close> columns, the HTML policy of bluemonday, random tokens,
  the storage's answers about objects and signed URLs, the XML decoder, the runner of programs,
  which texts PostgreSQL stores, and whether it takes the analytics row that learning requests and
  payment jobs insert (\<open>le_event\<close>, \<open>je_event\<close>). PostgreSQL refuses that row as the statement is
  written (text for UUID columns), which aborts the transaction around it; the theorems about it
  state both cases. The webhook has flags for an insert, an alert or an enqueue that fails.

  \<^bold>\<open>Row-level security.\<close> The policies of the migrations are part of the tenancy, authoring, learning
  and module tables, and of the revenue report's queries (\<open>viewer\<close>, \<open>seen\<close> in Reports). The checkout
  and the other commerce handlers also run in their caller's transaction, but their model leaves the
  policies of the commerce tables out: it describes a database role that bypasses them, as
  \<^verbatim>\<open>internal/httpserver/rbac_test.go\<close> says the service's role does (under a role that does not,
  the policies hide the platform settings, discount codes and invitations from a learner, whose
  checkout then fails). The workers bypass the policies in any case.

  \<^bold>\<open>Concurrency.\<close> Steps of different requests, deliveries, jobs and sweeps interleave freely, and each
  is one step; interleavings inside a transaction are not modelled. Where the code takes no lock that
  matters: a run of a program is admitted (\<open>admit_run\<close>) and then run and metered (\<open>perform_run\<close>), and
  overlapping requests can exceed the daily cap (\<open>overlapping_runs\<close> in ModuleDemo); the theorems about
  runs are about requests served one after the other.

  \<^bold>\<open>Not modelled.\<close> Foreign keys from the commerce tables to the tenancy tables; failing connections, and
  commits that fail other than after a refused statement; e-mail, object storage, video processing,
  Redis and the cached catalogue; rendered HTML pages and the certificate's PDF; announcements. JSON
  objects with duplicate keys inside an element of a list decode as if the element were fresh, which
  documents stored as \<^verbatim>\<open>jsonb\<close> never have. The optional modules trim and lower-case ASCII text only.
  AI authoring, podcasts and communities are not modelled.
\<close>

end
